(* ===== verification/Prelude.thy ===== *)
theory Prelude
  imports Main "HOL-Library.AList" "HOL-Library.Char_ord" "HOL-Library.List_Lexorder"
begin

text \<open>
  Shared vocabulary of the OpenDaemon development.

  \<^item> Fallible and stateful Rust code: \<open>Result<T, E>\<close> is the sum \<open>'e + 'a\<close>; a method that
    reads and writes a store and may return early with an error is an \<open>op\<close>, a function from
    the state to a result and the state left behind. The state survives an error, as it does in
    the program, where work committed before a failing call stays committed; only
    \<open>transaction\<close> rolls back.
  \<^item> Rust strings as UTF-8 byte lists (\<open>string\<close>), with \<open>str::trim\<close>, decimal rendering of row
    ids and the \<open>BTreeSet\<close> round trip that normalises a vector.
  \<^item> Tables as lists of rows in rowid order.
  \<^item> The locales of interfaces that several components provide: a keyed table, a life cycle with
    terminal states, and an at-most-once filter.
\<close>

named_theorems op_simps \<open>unfolding of the operations on stores\<close>
named_theorems model_defs \<open>definitions of the pure parts of the model\<close>

section \<open>Results and operations\<close>

type_synonym ('s, 'e, 'a) op = "'s \<Rightarrow> ('e + 'a) \<times> 's"

definition ok :: "'a \<Rightarrow> ('s, 'e, 'a) op" where
  "ok v s = (Inr v, s)"

definition err :: "'e \<Rightarrow> ('s, 'e, 'a) op" where
  "err e s = (Inl e, s)"

definition lift_r :: "'e + 'a \<Rightarrow> ('s, 'e, 'a) op" where
  "lift_r r s = (r, s)"

definition reads :: "('s \<Rightarrow> 'e + 'a) \<Rightarrow> ('s, 'e, 'a) op" where
  "reads q s = (q s, s)"

definition modify :: "('s \<Rightarrow> 's) \<Rightarrow> ('s, 'e, unit) op" where
  "modify f s = (Inr (), f s)"

definition and_then :: "('s, 'e, 'a) op \<Rightarrow> ('a \<Rightarrow> ('s, 'e, 'b) op) \<Rightarrow> ('s, 'e, 'b) op" where
  "and_then m f s = (case m s of (Inl e, s') \<Rightarrow> (Inl e, s') | (Inr v, s') \<Rightarrow> f v s')"

definition map_err :: "('e \<Rightarrow> 'f) \<Rightarrow> ('s, 'e, 'a) op \<Rightarrow> ('s, 'f, 'a) op" where
  "map_err g m s = (case m s of (Inl e, s') \<Rightarrow> (Inl (g e), s') | (Inr v, s') \<Rightarrow> (Inr v, s'))"

definition transaction :: "('s, 'e, 'a) op \<Rightarrow> ('s, 'e, 'a) op" where
  "transaction m s = (case m s of (Inl e, s') \<Rightarrow> (Inl e, s) | (Inr v, s') \<Rightarrow> (Inr v, s'))"

definition zoom ::
  "('w \<Rightarrow> 's) \<Rightarrow> ('s \<Rightarrow> 'w \<Rightarrow> 'w) \<Rightarrow> ('s, 'e, 'a) op \<Rightarrow> ('w, 'e, 'a) op" where
  "zoom get put m w = (case m (get w) of (r, s') \<Rightarrow> (r, put s' w))"

fun for_each :: "('a \<Rightarrow> ('s, 'e, unit) op) \<Rightarrow> 'a list \<Rightarrow> ('s, 'e, unit) op" where
  "for_each f [] s = (Inr (), s)"
| "for_each f (x # xs) s =
     (case f x s of (Inl e, s') \<Rightarrow> (Inl e, s') | (Inr u, s') \<Rightarrow> for_each f xs s')"

definition ok_or :: "'e \<Rightarrow> 'a option \<Rightarrow> 'e + 'a" where
  "ok_or e x = (case x of None \<Rightarrow> Inl e | Some v \<Rightarrow> Inr v)"

definition guard :: "bool \<Rightarrow> 'e \<Rightarrow> 'e + unit" where
  "guard b e = (if b then Inr () else Inl e)"

definition r_then :: "'e + 'a \<Rightarrow> ('a \<Rightarrow> 'e + 'b) \<Rightarrow> 'e + 'b" where
  "r_then r f = (case r of Inl e \<Rightarrow> Inl e | Inr v \<Rightarrow> f v)"

definition r_map_err :: "('e \<Rightarrow> 'f) \<Rightarrow> 'e + 'a \<Rightarrow> 'f + 'a" where
  "r_map_err g r = (case r of Inl e \<Rightarrow> Inl (g e) | Inr v \<Rightarrow> Inr v)"

fun r_collect :: "('e + 'a) list \<Rightarrow> 'e + 'a list" where
  "r_collect [] = Inr []"
| "r_collect (Inl e # rs) = Inl e"
| "r_collect (Inr v # rs) = (case r_collect rs of Inl e \<Rightarrow> Inl e | Inr vs \<Rightarrow> Inr (v # vs))"

definition unwrap_or :: "'a option \<Rightarrow> 'a \<Rightarrow> 'a" where
  "unwrap_or x d = (case x of None \<Rightarrow> d | Some v \<Rightarrow> v)"

definition is_some_and :: "'a option \<Rightarrow> ('a \<Rightarrow> bool) \<Rightarrow> bool" where
  "is_some_and x p = (case x of None \<Rightarrow> False | Some v \<Rightarrow> p v)"

definition is_none_or :: "'a option \<Rightarrow> ('a \<Rightarrow> bool) \<Rightarrow> bool" where
  "is_none_or x p = (case x of None \<Rightarrow> True | Some v \<Rightarrow> p v)"

lemmas basic_op_defs [op_simps] =
  ok_def err_def lift_r_def reads_def modify_def and_then_def map_err_def transaction_def zoom_def

lemmas result_defs [op_simps, model_defs] =
  ok_or_def guard_def r_then_def r_map_err_def

lemmas option_defs [model_defs] = unwrap_or_def is_some_and_def is_none_or_def

text \<open>Elimination of a successful or failed composite, the shape every handler has.\<close>

lemma and_then_Inr:
  "and_then m f s = (Inr v, s') \<longleftrightarrow> (\<exists>u t. m s = (Inr u, t) \<and> f u t = (Inr v, s'))"
  by (auto simp: and_then_def split: prod.splits sum.splits)

lemma and_then_Inl:
  "and_then m f s = (Inl e, s') \<longleftrightarrow>
     m s = (Inl e, s') \<or> (\<exists>u t. m s = (Inr u, t) \<and> f u t = (Inl e, s'))"
  by (auto simp: and_then_def split: prod.splits sum.splits)

lemma r_then_Inr: "r_then r f = Inr v \<longleftrightarrow> (\<exists>u. r = Inr u \<and> f u = Inr v)"
  by (auto simp: r_then_def split: sum.splits)

lemma r_then_Inl: "r_then r f = Inl e \<longleftrightarrow> r = Inl e \<or> (\<exists>u. r = Inr u \<and> f u = Inl e)"
  by (auto simp: r_then_def split: sum.splits)

lemma guard_Inr [simp]: "guard b e = Inr u \<longleftrightarrow> b"
  by (simp add: guard_def)

lemma guard_Inl [simp]: "guard b e = Inl e' \<longleftrightarrow> \<not> b \<and> e' = e"
  by (auto simp: guard_def)

lemma ok_or_Inr [simp]: "ok_or e x = Inr v \<longleftrightarrow> x = Some v"
  by (auto simp: ok_or_def split: option.splits)

lemma ok_or_Inl [simp]: "ok_or e x = Inl e' \<longleftrightarrow> x = None \<and> e' = e"
  by (auto simp: ok_or_def split: option.splits)

lemma r_map_err_Inr [simp]: "r_map_err g r = Inr v \<longleftrightarrow> r = Inr v"
  by (auto simp: r_map_err_def split: sum.splits)

lemma ok_Inr [simp]: "ok v s = (Inr u, t) \<longleftrightarrow> u = v \<and> t = s"
  by (auto simp: ok_def)

lemma err_Inr [simp]: "err e s \<noteq> (Inr u, t)"
  by (auto simp: err_def)

lemma lift_r_eq [simp]: "lift_r r s = (q, t) \<longleftrightarrow> q = r \<and> t = s"
  by (auto simp: lift_r_def)

lemma map_err_Inr [simp]: "map_err g m s = (Inr v, t) \<longleftrightarrow> m s = (Inr v, t)"
  by (auto simp: map_err_def split: prod.splits sum.splits)

lemma map_err_snd [simp]: "snd (map_err g m s) = snd (m s)"
  by (auto simp: map_err_def split: prod.splits sum.splits)

text \<open>A predicate on states that an operation keeps on every path, errors included.\<close>

definition keeps :: "('s \<Rightarrow> bool) \<Rightarrow> ('s, 'e, 'a) op \<Rightarrow> bool" where
  "keeps P m \<longleftrightarrow> (\<forall>s. P s \<longrightarrow> P (snd (m s)))"

lemma keepsI [intro?]: "(\<And>s. P s \<Longrightarrow> P (snd (m s))) \<Longrightarrow> keeps P m"
  by (simp add: keeps_def)

lemma keepsD: "keeps P m \<Longrightarrow> m s = (r, t) \<Longrightarrow> P s \<Longrightarrow> P t"
  by (metis keeps_def snd_conv)

lemma keeps_snd: "keeps P m \<Longrightarrow> P s \<Longrightarrow> P (snd (m s))"
  by (simp add: keeps_def)

lemma keeps_ok [simp, intro!]: "keeps P (ok v)"
  by (simp add: keeps_def ok_def)

lemma keeps_err [simp, intro!]: "keeps P (err e)"
  by (simp add: keeps_def err_def)

lemma keeps_lift_r [simp, intro!]: "keeps P (lift_r r)"
  by (simp add: keeps_def lift_r_def)

lemma keeps_reads [simp, intro!]: "keeps P (reads q)"
  by (simp add: keeps_def reads_def)

lemma keeps_and_then [intro]:
  assumes "keeps P m" and "\<And>v. keeps P (f v)"
  shows "keeps P (and_then m f)"
  using assms by (fastforce simp: keeps_def and_then_def split: prod.splits sum.splits)

lemma keeps_map_err [intro]: "keeps P m \<Longrightarrow> keeps P (map_err g m)"
  by (simp add: keeps_def)

lemma keeps_transaction [intro]: "keeps P m \<Longrightarrow> keeps P (transaction m)"
  by (fastforce simp: keeps_def transaction_def split: prod.splits sum.splits)

lemma keeps_if [intro]: "keeps P a \<Longrightarrow> keeps P b \<Longrightarrow> keeps P (if c then a else b)"
  by simp

lemma keeps_case_option [intro]:
  "keeps P n \<Longrightarrow> (\<And>v. keeps P (f v)) \<Longrightarrow> keeps P (case x of None \<Rightarrow> n | Some v \<Rightarrow> f v)"
  by (cases x) auto

lemma keeps_zoom:
  assumes "keeps Q m" and "\<And>w. P w \<Longrightarrow> Q (get w)"
    and "\<And>w t. P w \<Longrightarrow> Q t \<Longrightarrow> P (put t w)"
  shows "keeps P (zoom get put m)"
  using assms by (fastforce simp: keeps_def zoom_def split: prod.splits)

lemma keeps_for_each:
  assumes "\<And>x. keeps P (f x)"
  shows "keeps P (for_each f xs)"
proof
  fix s
  assume "P s"
  then show "P (snd (for_each f xs s))"
  proof (induction xs arbitrary: s)
    case (Cons x xs)
    then show ?case
      using keeps_snd [OF assms Cons.prems, of x] by (auto split: prod.splits sum.splits)
  qed simp
qed

section \<open>Strings\<close>

text \<open>
  \<open>str::trim\<close> removes the characters with the Unicode property \<open>White_Space\<close> from both ends.
  On the UTF-8 bytes these are the ASCII blanks, the two-byte forms of U+0085 and U+00A0 and the
  three-byte forms of U+1680, U+2000 to U+200A, U+2028, U+2029, U+202F, U+205F and U+3000.
\<close>

definition ascii_ws :: "char \<Rightarrow> bool" where
  "ascii_ws c = (let b = of_char c :: nat in 9 \<le> b \<and> b \<le> 13 \<or> b = 32)"

definition ws2 :: "char \<Rightarrow> char \<Rightarrow> bool" where
  "ws2 c d = ((of_char c :: nat) = 194 \<and> ((of_char d :: nat) = 133 \<or> (of_char d :: nat) = 160))"

definition ws3 :: "char \<Rightarrow> char \<Rightarrow> char \<Rightarrow> bool" where
  "ws3 c d e =
     (let x = of_char c :: nat; y = of_char d :: nat; z = of_char e :: nat in
        x = 225 \<and> y = 154 \<and> z = 128 \<or>
        x = 226 \<and> y = 128 \<and> (128 \<le> z \<and> z \<le> 138 \<or> z = 168 \<or> z = 169 \<or> z = 175) \<or>
        x = 226 \<and> y = 129 \<and> z = 159 \<or>
        x = 227 \<and> y = 128 \<and> z = 128)"

fun trim_start :: "string \<Rightarrow> string" where
  "trim_start [] = []"
| "trim_start (a # s) =
     (if ascii_ws a then trim_start s
      else case s of
        [] \<Rightarrow> a # s
      | b # t \<Rightarrow>
          if ws2 a b then trim_start t
          else (case t of [] \<Rightarrow> a # s | c # u \<Rightarrow> if ws3 a b c then trim_start u else a # s))"

text \<open>The same scan from the end, on the reversed bytes.\<close>

fun trim_rev :: "string \<Rightarrow> string" where
  "trim_rev [] = []"
| "trim_rev (a # s) =
     (if ascii_ws a then trim_rev s
      else case s of
        [] \<Rightarrow> a # s
      | b # t \<Rightarrow>
          if ws2 b a then trim_rev t
          else (case t of [] \<Rightarrow> a # s | c # u \<Rightarrow> if ws3 c b a then trim_rev u else a # s))"

definition trim :: "string \<Rightarrow> string" where
  "trim s = rev (trim_rev (rev (trim_start s)))"

definition digit_char :: "nat \<Rightarrow> char" where
  "digit_char d = char_of (48 + d)"

fun show_nat :: "nat \<Rightarrow> string" where
  "show_nat n = (if n < 10 then [digit_char n] else show_nat (n div 10) @ [digit_char (n mod 10)])"

declare show_nat.simps [simp del]

definition is_digit :: "char \<Rightarrow> bool" where
  "is_digit c = (let b = of_char c :: nat in 48 \<le> b \<and> b \<le> 57)"

definition read_nat :: "string \<Rightarrow> nat" where
  "read_nat s = foldl (\<lambda>n c. 10 * n + (of_char c - 48)) 0 s"

definition show_int :: "int \<Rightarrow> string" where
  "show_int i = (if i < 0 then ''-'' @ show_nat (nat (- i)) else show_nat (nat i))"

text \<open>Evaluation of the string functions on literals.\<close>

lemma eq_char_of_iff: "c = char_of (n :: nat) \<longleftrightarrow> take_bit 8 n = of_char c"
  using char_of_eq_iff [of n c] by auto

lemmas string_eval =
  trim_def ascii_ws_def ws2_def ws3_def show_nat.simps digit_char_def char_of_eq_iff eq_char_of_iff

lemma of_digit_char: "d < 10 \<Longrightarrow> (of_char (digit_char d) :: nat) = 48 + d"
  by (simp add: digit_char_def)

lemma read_nat_snoc: "read_nat (s @ [c]) = 10 * read_nat s + (of_char c - 48)"
  by (simp add: read_nat_def)

lemma read_show_nat [simp]: "read_nat (show_nat n) = n"
proof (induction n rule: show_nat.induct)
  case (1 n)
  show ?case
  proof (cases "n < 10")
    case True
    then show ?thesis by (simp add: show_nat.simps [of n] read_nat_def of_digit_char)
  next
    case False
    with 1 show ?thesis by (simp add: show_nat.simps [of n] read_nat_snoc of_digit_char)
  qed
qed

lemma show_nat_inject [simp]: "show_nat m = show_nat n \<longleftrightarrow> m = n"
  by (metis read_show_nat)

lemma show_nat_digits: "c \<in> set (show_nat n) \<Longrightarrow> is_digit c"
proof (induction n rule: show_nat.induct)
  case (1 n)
  have digit: "d < 10 \<Longrightarrow> is_digit (digit_char d)" for d
    by (simp add: is_digit_def of_digit_char)
  show ?case
    using 1 digit [of "n mod 10"] by (auto simp: show_nat.simps [of n] digit split: if_splits)
qed

lemma show_nat_not_Nil [simp]: "show_nat n \<noteq> []"
  by (subst show_nat.simps) simp

lemma not_digit_in_show_nat: "\<not> is_digit c \<Longrightarrow> c \<notin> set (show_nat n)"
  using show_nat_digits by blast

text \<open>Two strings that end in a separator and a decimal number agree only part by part.\<close>

lemma split_at_last:
  assumes "u @ c # x = v @ c # y" and "c \<notin> set x" and "c \<notin> set y"
  shows "u = v \<and> x = y"
proof -
  have first: "takeWhile (\<lambda>d. d \<noteq> c) (rev z @ c # w) = rev z" if "c \<notin> set z" for z w
    using that by (subst takeWhile_append2) auto
  from assms(1) have eq: "rev x @ c # rev u = rev y @ c # rev v"
    by (metis append.assoc append_Cons append_Nil rev.simps(2) rev_append)
  with first [OF assms(2), of "rev u"] first [OF assms(3), of "rev v"] have "rev x = rev y" by simp
  with eq show ?thesis by simp
qed

lemma is_digit_underscore [simp]: "\<not> is_digit (CHR ''_'')"
  by (simp add: is_digit_def)

section \<open>Ordered sets of a vector\<close>

text \<open>\<open>into_iter().collect::<BTreeSet<_>>().into_iter().collect()\<close>: sorted, without duplicates.\<close>

definition btree_list :: "'a::linorder list \<Rightarrow> 'a list" where
  "btree_list xs = sort (remdups xs)"

lemma set_btree_list [simp]: "set (btree_list xs) = set xs"
  by (simp add: btree_list_def)

lemma sorted_btree_list [simp]: "sorted (btree_list xs)"
  by (simp add: btree_list_def)

lemma distinct_btree_list [simp]: "distinct (btree_list xs)"
  by (simp add: btree_list_def)

lemma btree_list_Nil_iff [simp]: "btree_list xs = [] \<longleftrightarrow> xs = []"
  using set_btree_list [of xs] set_empty [of xs] set_empty [of "btree_list xs"] by simp

lemma btree_list_unique: "set xs = set ys \<Longrightarrow> btree_list xs = btree_list ys"
  by (rule sorted_distinct_set_unique) simp_all

lemma btree_list_idem [simp]: "btree_list (btree_list xs) = btree_list xs"
  by (rule btree_list_unique) simp

lemma btree_list_sorted [simp]: "sorted xs \<Longrightarrow> distinct xs \<Longrightarrow> btree_list xs = xs"
  by (simp add: btree_list_def distinct_remdups_id sorted_sort_id)

section \<open>Tables\<close>

definition update_rows :: "('r \<Rightarrow> bool) \<Rightarrow> ('r \<Rightarrow> 'r) \<Rightarrow> 'r list \<Rightarrow> 'r list" where
  "update_rows p f rs = map (\<lambda>r. if p r then f r else r) rs"

lemma length_update_rows [simp]: "length (update_rows p f rs) = length rs"
  by (simp add: update_rows_def)

lemma map_update_rows: "(\<And>r. p r \<Longrightarrow> g (f r) = g r) \<Longrightarrow> map g (update_rows p f rs) = map g rs"
  by (simp add: update_rows_def)

lemma set_update_rows:
  "set (update_rows p f rs) = f ` {r \<in> set rs. p r} \<union> {r \<in> set rs. \<not> p r}"
  by (auto simp: update_rows_def)

lemma nth_update_rows [simp]:
  "i < length rs \<Longrightarrow> update_rows p f rs ! i = (if p (rs ! i) then f (rs ! i) else rs ! i)"
  by (simp add: update_rows_def)

lemma update_rows_none: "(\<And>r. r \<in> set rs \<Longrightarrow> \<not> p r) \<Longrightarrow> update_rows p f rs = rs"
  by (simp add: update_rows_def map_idI)

lemma find_key_Some:
  assumes "distinct (map key rs)"
  shows "List.find (\<lambda>r. key r = k) rs = Some r \<longleftrightarrow> r \<in> set rs \<and> key r = k"
proof
  assume "List.find (\<lambda>r. key r = k) rs = Some r"
  then show "r \<in> set rs \<and> key r = k" by (auto simp: find_Some_iff)
next
  assume r: "r \<in> set rs \<and> key r = k"
  with assms show "List.find (\<lambda>r. key r = k) rs = Some r"
    by (induction rs) force+
qed

lemma find_key_None: "List.find (\<lambda>r. key r = k) rs = None \<longleftrightarrow> k \<notin> key ` set rs"
  by (auto simp: find_None_iff)

lemma find_key_update:
  assumes "\<And>r. key (f r) = key r"
  shows "List.find (\<lambda>r. key r = j) (update_rows (\<lambda>r. key r = k) f rs) =
    (if j = k then map_option f (List.find (\<lambda>r. key r = k) rs) else List.find (\<lambda>r. key r = j) rs)"
  by (induction rs) (auto simp: update_rows_def assms)

lemma find_append:
  "List.find p (xs @ ys) = (case List.find p xs of None \<Rightarrow> List.find p ys | Some x \<Rightarrow> Some x)"
  by (induction xs) auto

lemma find_key_delete:
  "List.find (\<lambda>r. key r = j) (filter (\<lambda>r. key r \<noteq> k) rs) =
    (if j = k then None else List.find (\<lambda>r. key r = j) rs)"
  by (induction rs) auto

section \<open>Interfaces\<close>

text \<open>A table of rows with a primary key, as every SQLite store of the daemon provides one.\<close>

locale keyed_table =
  fixes rows :: "'s \<Rightarrow> 'r list"
    and key :: "'r \<Rightarrow> 'k"
    and lookup :: "'k \<Rightarrow> 's \<Rightarrow> 'r option"
    and inv :: "'s \<Rightarrow> bool"
  assumes lookup_eq: "lookup k s = List.find (\<lambda>r. key r = k) (rows s)"
    and inv_distinct: "inv s \<Longrightarrow> distinct (map key (rows s))"
begin

lemma lookup_Some: "inv s \<Longrightarrow> lookup k s = Some r \<longleftrightarrow> r \<in> set (rows s) \<and> key r = k"
  by (simp add: lookup_eq find_key_Some inv_distinct)

lemma lookup_SomeD: "lookup k s = Some r \<Longrightarrow> r \<in> set (rows s) \<and> key r = k"
  by (auto simp: lookup_eq find_Some_iff)

lemma lookup_None: "lookup k s = None \<longleftrightarrow> k \<notin> key ` set (rows s)"
  by (simp add: lookup_eq find_key_None)

lemma lookup_insert:
  "rows t = rows s @ [r] \<Longrightarrow> key r \<notin> key ` set (rows s) \<Longrightarrow>
   lookup j t = (if j = key r then Some r else lookup j s)"
  by (auto simp: lookup_eq find_append find_key_None [THEN iffD2] split: option.splits)

lemma lookup_update:
  "rows t = update_rows (\<lambda>r. key r = k) f (rows s) \<Longrightarrow> (\<And>r. key (f r) = key r) \<Longrightarrow>
   lookup j t = (if j = k then map_option f (lookup k s) else lookup j s)"
  by (simp add: lookup_eq find_key_update)

lemma lookup_delete:
  "rows t = filter (\<lambda>r. key r \<noteq> k) (rows s) \<Longrightarrow>
   lookup j t = (if j = k then None else lookup j s)"
  by (simp add: lookup_eq find_key_delete)

lemma row_unique: "inv s \<Longrightarrow> r \<in> set (rows s) \<Longrightarrow> q \<in> set (rows s) \<Longrightarrow> key r = key q \<Longrightarrow> r = q"
  by (metis inv_distinct distinct_map inj_on_def)

end

text \<open>
  A life cycle: a step relation on status values in which terminal values have no successor and
  every step lowers a rank, so that every run is short and can be finished.
\<close>

locale lifecycle =
  fixes step :: "'s \<Rightarrow> 's \<Rightarrow> bool"
    and terminal :: "'s \<Rightarrow> bool"
    and rank :: "'s \<Rightarrow> nat"
  assumes terminal_stuck: "step a b \<Longrightarrow> \<not> terminal a"
    and rank_decreases: "step a b \<Longrightarrow> rank b < rank a"
    and progress: "\<not> terminal a \<Longrightarrow> \<exists>b. step a b"
begin

lemma run_bounded: "successively step (a # bs) \<Longrightarrow> length bs + rank (last (a # bs)) \<le> rank a"
proof (induction bs arbitrary: a)
  case (Cons b bs)
  then have "step a b" and "successively step (b # bs)" by simp_all
  with Cons.IH rank_decreases [of a b] show ?case by fastforce
qed simp

lemma run_ranks: "successively step (a # bs) \<Longrightarrow> c \<in> set bs \<Longrightarrow> rank c < rank a"
proof (induction bs arbitrary: a)
  case (Cons b bs)
  then have "step a b" and "successively step (b # bs)" by simp_all
  with Cons rank_decreases [of a b] show ?case by fastforce
qed simp

lemma run_distinct: "successively step (a # bs) \<Longrightarrow> distinct (a # bs)"
proof (induction bs arbitrary: a)
  case (Cons b bs)
  then have "distinct (b # bs)" by (intro Cons.IH) simp
  moreover from Cons.prems run_ranks [of a "b # bs"] have "a \<notin> set (b # bs)" by blast
  ultimately show ?case by simp
qed simp

lemma run_terminal_last: "successively step (a # bs) \<Longrightarrow> terminal a \<Longrightarrow> bs = []"
  by (cases bs) (auto dest: terminal_stuck)

lemma can_finish: "\<exists>bs. successively step (a # bs) \<and> terminal (last (a # bs))"
proof (induction "rank a" arbitrary: a rule: less_induct)
  case less
  show ?case
  proof (cases "terminal a")
    case True
    then show ?thesis by (intro exI [of _ "[]"]) simp
  next
    case False
    then obtain b where "step a b" using progress by blast
    with less [of b] rank_decreases obtain bs
      where "successively step (b # bs)" "terminal (last (b # bs))" by blast
    with \<open>step a b\<close> show ?thesis by (intro exI [of _ "b # bs"]) simp
  qed
qed

end

text \<open>A filter that lets each key through once: \<open>check\<close> says whether the key is new and records it.\<close>

locale at_most_once =
  fixes seen :: "'s \<Rightarrow> 'k set"
    and check :: "'k \<Rightarrow> 's \<Rightarrow> bool \<times> 's"
  assumes accepts_new: "fst (check k s) \<longleftrightarrow> k \<notin> seen s"
    and records: "seen (snd (check k s)) = insert k (seen s)"
begin

lemma second_rejected: "\<not> fst (check k (snd (check k s)))"
  by (simp add: accepts_new records)

lemma fold_seen: "seen (fold (\<lambda>k s. snd (check k s)) ks s) = set ks \<union> seen s"
  by (induction ks arbitrary: s) (auto simp: records)

lemma never_again: "k \<in> seen s \<or> k \<in> set ks \<Longrightarrow> \<not> fst (check k (fold (\<lambda>k s. snd (check k s)) ks s))"
  by (auto simp: accepts_new fold_seen)

end

end
