(* ===== verification/Json.thy ===== *)
theory Json
  imports Prelude "HOL-Library.Word"
begin

text \<open>
  JSON values (\<open>serde_json::Value\<close>) as the daemon passes them around: task metadata, event
  payloads, provider results and control-plane frames. Numbers keep serde's three forms (unsigned,
  negative, IEEE bits of a float); no code of the daemon computes with them. An object is an
  association list; lookups take the entry of a key and \<open>insert\<close> replaces it.
\<close>

datatype json_number = PosInt "64 word" | NegInt "64 word" | Float "64 word"

datatype json =
    Null
  | Bool bool
  | Number json_number
  | Str string
  | Array "json list"
  | Object "(string \<times> json) list"

definition empty_object :: json where
  "empty_object = Object []"

fun json_get :: "json \<Rightarrow> string \<Rightarrow> json option" where
  "json_get (Object kvs) k = map_of kvs k"
| "json_get _ k = None"

text \<open>\<open>value[key]\<close> on a shared value: \<open>Null\<close> where there is no such entry.\<close>

definition json_index :: "json \<Rightarrow> string \<Rightarrow> json" where
  "json_index v k = unwrap_or (json_get v k) Null"

fun as_str :: "json \<Rightarrow> string option" where
  "as_str (Str s) = Some s"
| "as_str _ = None"

fun as_bool :: "json \<Rightarrow> bool option" where
  "as_bool (Bool b) = Some b"
| "as_bool _ = None"

fun is_object :: "json \<Rightarrow> bool" where
  "is_object (Object kvs) = True"
| "is_object _ = False"

text \<open>\<open>Map::insert\<close> on the object inside a value; other values are left alone.\<close>

fun object_insert :: "string \<Rightarrow> json \<Rightarrow> json \<Rightarrow> json" where
  "object_insert k v (Object kvs) = Object (AList.update k v kvs)"
| "object_insert k v w = w"

definition get_str :: "json \<Rightarrow> string \<Rightarrow> string option" where
  "get_str v k = Option.bind (json_get v k) as_str"

definition opt_json :: "('a \<Rightarrow> json) \<Rightarrow> 'a option \<Rightarrow> json" where
  "opt_json f x = (case x of None \<Rightarrow> Null | Some v \<Rightarrow> f v)"

text \<open>serde reads a missing or null field of type \<open>Option<T>\<close> as \<open>None\<close>.\<close>

definition opt_field :: "(json \<Rightarrow> 'a option) \<Rightarrow> json \<Rightarrow> string \<Rightarrow> 'a option option" where
  "opt_field dec v k =
     (case json_get v k of
        None \<Rightarrow> Some None
      | Some Null \<Rightarrow> Some None
      | Some w \<Rightarrow> map_option Some (dec w))"

lemmas json_defs [model_defs] = json_index_def get_str_def

lemma json_get_object_insert:
  "is_object v \<Longrightarrow> json_get (object_insert k w v) j = (if j = k then Some w else json_get v j)"
  by (cases v) (simp_all add: update_conv)

lemma is_object_insert [simp]: "is_object (object_insert k w v) = is_object v"
  by (cases v) simp_all

lemma json_get_is_object: "json_get v k = Some w \<Longrightarrow> is_object v"
  by (cases v) simp_all

end
