(* ===== verification/Directory.thy ===== *)
theory Directory
  imports Prelude
begin

text \<open>
  \<open>src/src/security/directory.rs\<close>: what a directory grant allows. Capabilities, workspace modes
  and lock policies; the policy of a grant with its normalisation and validation; and the
  authorisation of one request against one grant.
\<close>

section \<open>Capabilities, modes, policies\<close>

datatype directory_capability = Read | Write | Shell | Git

datatype workspace_mode = Worktree | Direct

datatype directory_lock_policy = PolicyExclusive | PolicyShared | PolicyNone

text \<open>\<open>#[derive(PartialOrd, Ord)]\<close> orders the constructors as they are declared.\<close>

fun capability_index :: "directory_capability \<Rightarrow> nat" where
  "capability_index Read = 0"
| "capability_index Write = 1"
| "capability_index Shell = 2"
| "capability_index Git = 3"

instantiation directory_capability :: linorder
begin

definition less_eq_directory_capability :: "directory_capability \<Rightarrow> directory_capability \<Rightarrow> bool" where
  "less_eq_directory_capability a b = (capability_index a \<le> capability_index b)"

definition less_directory_capability :: "directory_capability \<Rightarrow> directory_capability \<Rightarrow> bool" where
  "less_directory_capability a b = (capability_index a < capability_index b)"

instance
proof
  fix a b :: directory_capability
  show "a \<le> b \<Longrightarrow> b \<le> a \<Longrightarrow> a = b"
    by (cases a; cases b) (simp_all add: less_eq_directory_capability_def)
qed (auto simp: less_eq_directory_capability_def less_directory_capability_def)

end

fun mode_index :: "workspace_mode \<Rightarrow> nat" where
  "mode_index Worktree = 0"
| "mode_index Direct = 1"

instantiation workspace_mode :: linorder
begin

definition less_eq_workspace_mode :: "workspace_mode \<Rightarrow> workspace_mode \<Rightarrow> bool" where
  "less_eq_workspace_mode a b = (mode_index a \<le> mode_index b)"

definition less_workspace_mode :: "workspace_mode \<Rightarrow> workspace_mode \<Rightarrow> bool" where
  "less_workspace_mode a b = (mode_index a < mode_index b)"

instance
proof
  fix a b :: workspace_mode
  show "a \<le> b \<Longrightarrow> b \<le> a \<Longrightarrow> a = b"
    by (cases a; cases b) (simp_all add: less_eq_workspace_mode_def)
qed (auto simp: less_eq_workspace_mode_def less_workspace_mode_def)

end

record directory_grant_policy =
  gp_capabilities :: "directory_capability list"
  gp_workspace_modes :: "workspace_mode list"
  gp_default_workspace_mode :: workspace_mode
  gp_lock_policy :: directory_lock_policy
  gp_direct_mode_requires_explicit_task_opt_in :: bool
  gp_allow_remote_execution :: bool

record directory_grant =
  dg_id :: string
  dg_product_id :: string
  dg_agent_id :: string
  dg_path :: string
  dg_capabilities :: "directory_capability list"
  dg_workspace_modes :: "workspace_mode list"
  dg_default_workspace_mode :: workspace_mode
  dg_lock_policy :: directory_lock_policy
  dg_direct_mode_requires_explicit_task_opt_in :: bool
  dg_allow_remote_execution :: bool
  dg_created_at :: string
  dg_updated_at :: string

record directory_authorization_request =
  ar_product_id :: string
  ar_agent_id :: string
  ar_directory_id :: string
  ar_required_capabilities :: "directory_capability list"
  ar_requested_workspace_mode :: workspace_mode
  ar_direct_mode_task_opt_in :: bool
  ar_remote_execution :: bool

datatype directory_security_error =
    InvalidCapability
  | InvalidWorkspaceMode
  | InvalidLockPolicy
  | DirectModeDenied
  | AuthorizationFailed

fun security_code :: "directory_security_error \<Rightarrow> string" where
  "security_code InvalidCapability = ''invalid_capability''"
| "security_code InvalidWorkspaceMode = ''invalid_workspace_mode''"
| "security_code InvalidLockPolicy = ''invalid_lock_policy''"
| "security_code DirectModeDenied = ''direct_mode_not_allowed''"
| "security_code AuthorizationFailed = ''directory_authorization_failed''"

fun security_message :: "directory_security_error \<Rightarrow> string" where
  "security_message InvalidCapability = ''invalid directory capability''"
| "security_message InvalidWorkspaceMode = ''invalid workspace mode''"
| "security_message InvalidLockPolicy = ''invalid directory lock policy''"
| "security_message DirectModeDenied = ''direct mode is not allowed''"
| "security_message AuthorizationFailed = ''directory authorization failed''"

section \<open>Policies\<close>

definition normalize_capabilities ::
  "directory_capability list \<Rightarrow> directory_security_error + directory_capability list" where
  "normalize_capabilities cs =
     (let normalized = btree_list cs in
      if normalized = [] then Inl InvalidCapability else Inr normalized)"

definition normalize_workspace_modes ::
  "workspace_mode list \<Rightarrow> directory_security_error + workspace_mode list" where
  "normalize_workspace_modes ms =
     (let normalized = btree_list ms in
      if normalized = [] then Inl InvalidWorkspaceMode else Inr normalized)"

definition policy_validate :: "directory_grant_policy \<Rightarrow> directory_security_error + unit" where
  "policy_validate p =
     (if gp_capabilities p = [] then Inl InvalidCapability
      else if gp_workspace_modes p = [] \<or>
          gp_default_workspace_mode p \<notin> set (gp_workspace_modes p) then Inl InvalidWorkspaceMode
      else if Write \<in> set (gp_capabilities p) \<and> gp_lock_policy p = PolicyNone
        then Inl InvalidLockPolicy
      else Inr ())"

definition policy_new ::
  "directory_capability list \<Rightarrow> workspace_mode list \<Rightarrow> workspace_mode \<Rightarrow> directory_lock_policy \<Rightarrow>
   bool \<Rightarrow> bool \<Rightarrow> directory_security_error + directory_grant_policy" where
  "policy_new caps modes default_mode lock opt_in remote =
     r_then (normalize_capabilities caps) (\<lambda>caps'.
     r_then (normalize_workspace_modes modes) (\<lambda>modes'.
     (let policy = \<lparr> gp_capabilities = caps', gp_workspace_modes = modes',
                     gp_default_workspace_mode = default_mode, gp_lock_policy = lock,
                     gp_direct_mode_requires_explicit_task_opt_in = opt_in,
                     gp_allow_remote_execution = remote \<rparr>
      in r_then (policy_validate policy) (\<lambda>_. Inr policy))))"

definition grant_policy :: "directory_grant \<Rightarrow> directory_grant_policy" where
  "grant_policy g =
     \<lparr> gp_capabilities = dg_capabilities g, gp_workspace_modes = dg_workspace_modes g,
       gp_default_workspace_mode = dg_default_workspace_mode g, gp_lock_policy = dg_lock_policy g,
       gp_direct_mode_requires_explicit_task_opt_in = dg_direct_mode_requires_explicit_task_opt_in g,
       gp_allow_remote_execution = dg_allow_remote_execution g \<rparr>"

section \<open>Authorisation of a request\<close>

definition grant_authorize ::
  "directory_grant \<Rightarrow> directory_authorization_request \<Rightarrow> directory_security_error + unit" where
  "grant_authorize g r =
     (if dg_product_id g \<noteq> ar_product_id r \<or> dg_agent_id g \<noteq> ar_agent_id r \<or>
          dg_id g \<noteq> ar_directory_id r then Inl AuthorizationFailed
      else if list_ex (\<lambda>c. c \<notin> set (dg_capabilities g)) (ar_required_capabilities r)
        then Inl AuthorizationFailed
      else if ar_requested_workspace_mode r \<notin> set (dg_workspace_modes g)
        then Inl (case ar_requested_workspace_mode r of
                    Direct \<Rightarrow> DirectModeDenied | Worktree \<Rightarrow> AuthorizationFailed)
      else if ar_requested_workspace_mode r = Direct \<and>
          dg_direct_mode_requires_explicit_task_opt_in g \<and> \<not> ar_direct_mode_task_opt_in r
        then Inl DirectModeDenied
      else if ar_remote_execution r \<and> \<not> dg_allow_remote_execution g then Inl AuthorizationFailed
      else Inr ())"

section \<open>Lemmas\<close>

text \<open>What a policy guarantees, and that the constructor establishes exactly that.\<close>

definition policy_ok :: "directory_grant_policy \<Rightarrow> bool" where
  "policy_ok p \<longleftrightarrow>
     gp_capabilities p \<noteq> [] \<and> sorted (gp_capabilities p) \<and> distinct (gp_capabilities p) \<and>
     sorted (gp_workspace_modes p) \<and> distinct (gp_workspace_modes p) \<and>
     gp_default_workspace_mode p \<in> set (gp_workspace_modes p) \<and>
     (Write \<in> set (gp_capabilities p) \<longrightarrow> gp_lock_policy p \<noteq> PolicyNone)"

lemma policy_new_Inr:
  "policy_new caps modes dm lock oi re = Inr p \<longleftrightarrow>
     caps \<noteq> [] \<and> dm \<in> set modes \<and> (Write \<in> set caps \<longrightarrow> lock \<noteq> PolicyNone) \<and>
     p = \<lparr> gp_capabilities = btree_list caps, gp_workspace_modes = btree_list modes,
           gp_default_workspace_mode = dm, gp_lock_policy = lock,
           gp_direct_mode_requires_explicit_task_opt_in = oi, gp_allow_remote_execution = re \<rparr>"
  by (auto simp: policy_new_def normalize_capabilities_def normalize_workspace_modes_def
      policy_validate_def r_then_def Let_def)

lemma policy_new_ok: "policy_new caps modes dm lock oi re = Inr p \<Longrightarrow> policy_ok p"
  by (auto simp: policy_new_Inr policy_ok_def)

lemma policy_new_fixpoint:
  assumes "policy_ok p"
  shows "policy_new (gp_capabilities p) (gp_workspace_modes p) (gp_default_workspace_mode p)
    (gp_lock_policy p) (gp_direct_mode_requires_explicit_task_opt_in p)
    (gp_allow_remote_execution p) = Inr p"
  using assms by (auto simp: policy_new_Inr policy_ok_def)

lemma grant_authorize_Inr:
  "grant_authorize g r = Inr () \<longleftrightarrow>
     dg_product_id g = ar_product_id r \<and> dg_agent_id g = ar_agent_id r \<and>
     dg_id g = ar_directory_id r \<and>
     set (ar_required_capabilities r) \<subseteq> set (dg_capabilities g) \<and>
     ar_requested_workspace_mode r \<in> set (dg_workspace_modes g) \<and>
     (ar_requested_workspace_mode r = Direct \<longrightarrow>
        dg_direct_mode_requires_explicit_task_opt_in g \<longrightarrow> ar_direct_mode_task_opt_in r) \<and>
     (ar_remote_execution r \<longrightarrow> dg_allow_remote_execution g)"
  by (auto simp: grant_authorize_def list_ex_iff split: workspace_mode.splits)

lemma security_code_inj: "security_code a = security_code b \<longleftrightarrow> a = b"
  by (cases a; cases b) simp_all

end
