(* ===== verification/Task_Model.thy ===== *)
theory Task_Model
  imports Json Directory
begin

text \<open>
  \<open>src/src/task/\<close>: the data of a task (\<open>model.rs\<close>, \<open>result.rs\<close>), the life cycle of its status
  (\<open>state.rs\<close>), its events (\<open>event.rs\<close>) and permission requests (\<open>permission.rs\<close>).
\<close>

section \<open>Status and events\<close>

datatype task_status =
    Queued | WaitingDirectoryLock | Preparing | Running
  | Completed | Failed | Cancelled | TimedOut

definition is_terminal :: "task_status \<Rightarrow> bool" where
  "is_terminal s = (case s of Completed \<Rightarrow> True | Failed \<Rightarrow> True | Cancelled \<Rightarrow> True
     | TimedOut \<Rightarrow> True | _ \<Rightarrow> False)"

datatype task_event_type =
    EvQueued | EvWaitingDirectoryLock | EvPreparing | EvRunning
  | EvCompleted | EvFailed | EvCancelled | EvTimedOut
  | ProcessStdout | ProcessStderr
  | ProviderPermissionRequested | ProviderPermissionDecided

fun event_type_as_str :: "task_event_type \<Rightarrow> string" where
  "event_type_as_str EvQueued = ''task.queued''"
| "event_type_as_str EvWaitingDirectoryLock = ''task.waiting_directory_lock''"
| "event_type_as_str EvPreparing = ''task.preparing''"
| "event_type_as_str EvRunning = ''task.running''"
| "event_type_as_str EvCompleted = ''task.completed''"
| "event_type_as_str EvFailed = ''task.failed''"
| "event_type_as_str EvCancelled = ''task.cancelled''"
| "event_type_as_str EvTimedOut = ''task.timed_out''"
| "event_type_as_str ProcessStdout = ''process.stdout''"
| "event_type_as_str ProcessStderr = ''process.stderr''"
| "event_type_as_str ProviderPermissionRequested = ''provider.permission_requested''"
| "event_type_as_str ProviderPermissionDecided = ''provider.permission_decided''"

text \<open>\<open>is_terminal_event_type\<close> of \<open>task/service.rs\<close>.\<close>

definition is_terminal_event_type :: "task_event_type \<Rightarrow> bool" where
  "is_terminal_event_type t = (case t of EvCompleted \<Rightarrow> True | EvFailed \<Rightarrow> True
     | EvCancelled \<Rightarrow> True | EvTimedOut \<Rightarrow> True | _ \<Rightarrow> False)"

text \<open>\<open>event_type_for_status\<close> of \<open>store/tasks.rs\<close>.\<close>

fun event_type_for_status :: "task_status \<Rightarrow> task_event_type" where
  "event_type_for_status Queued = EvQueued"
| "event_type_for_status WaitingDirectoryLock = EvWaitingDirectoryLock"
| "event_type_for_status Preparing = EvPreparing"
| "event_type_for_status Running = EvRunning"
| "event_type_for_status Completed = EvCompleted"
| "event_type_for_status Failed = EvFailed"
| "event_type_for_status Cancelled = EvCancelled"
| "event_type_for_status TimedOut = EvTimedOut"

record task_event =
  ev_id :: string
  ev_task_id :: string
  ev_sequence :: nat
  ev_event_type :: task_event_type
  ev_payload :: json
  ev_created_at :: string

record task_event_view =
  evv_task_id :: string
  evv_sequence :: nat
  evv_event_type :: task_event_type
  evv_payload :: json
  evv_created_at :: string

definition event_view :: "task_event \<Rightarrow> task_event_view" where
  "event_view e = \<lparr> evv_task_id = ev_task_id e, evv_sequence = ev_sequence e,
     evv_event_type = ev_event_type e, evv_payload = ev_payload e,
     evv_created_at = ev_created_at e \<rparr>"

section \<open>Permission requests\<close>

datatype permission_decision = Approve | Deny

fun decision_as_str :: "permission_decision \<Rightarrow> string" where
  "decision_as_str Approve = ''approve''"
| "decision_as_str Deny = ''deny''"

definition decision_of_str :: "string \<Rightarrow> permission_decision option" where
  "decision_of_str s =
     (if s = ''approve'' then Some Approve else if s = ''deny'' then Some Deny else None)"

record permission_request_event =
  pq_request_id :: string
  pq_provider_id :: string
  pq_permission_kind :: string
  pq_summary :: string
  pq_details :: "json option"
  pq_options :: "permission_decision list"
  pq_expires_at :: "string option"

record permission_decision_event =
  pd_request_id :: string
  pd_decision :: permission_decision
  pd_reason :: "string option"

datatype permission_request_status = Pending | Approved | Denied

fun from_decision :: "permission_decision \<Rightarrow> permission_request_status" where
  "from_decision Approve = Approved"
| "from_decision Deny = Denied"

record permission_request_record =
  prr_request_id :: string
  prr_task_id :: string
  prr_sequence :: nat
  prr_provider_id :: string
  prr_permission_kind :: string
  prr_status :: permission_request_status
  prr_request :: permission_request_event
  prr_response :: "permission_decision_event option"
  prr_requested_at :: string
  prr_responded_at :: "string option"

record permission_resolution =
  rs_task_id :: string
  rs_request_id :: string
  rs_status :: permission_request_status
  rs_decision :: permission_decision
  rs_event :: task_event
  rs_duplicated :: bool

text \<open>The serde encodings of the two event structures (\<open>#[derive(Serialize, Deserialize)]\<close>).\<close>

definition request_event_to_value :: "permission_request_event \<Rightarrow> json" where
  "request_event_to_value q = Object
     [(''request_id'', Str (pq_request_id q)), (''provider_id'', Str (pq_provider_id q)),
      (''permission_kind'', Str (pq_permission_kind q)), (''summary'', Str (pq_summary q)),
      (''details'', opt_json id (pq_details q)),
      (''options'', Array (map (Str \<circ> decision_as_str) (pq_options q))),
      (''expires_at'', opt_json Str (pq_expires_at q))]"

definition decision_event_to_value :: "permission_decision_event \<Rightarrow> json" where
  "decision_event_to_value d = Object
     [(''request_id'', Str (pd_request_id d)), (''decision'', Str (decision_as_str (pd_decision d))),
      (''reason'', opt_json Str (pd_reason d))]"

definition decision_event_from_value :: "json \<Rightarrow> permission_decision_event option" where
  "decision_event_from_value v =
     (case (get_str v ''request_id'', Option.bind (get_str v ''decision'') decision_of_str,
            opt_field as_str v ''reason'') of
        (Some rid, Some dec, Some reason) \<Rightarrow>
          Some \<lparr> pd_request_id = rid, pd_decision = dec, pd_reason = reason \<rparr>
      | _ \<Rightarrow> None)"

section \<open>Tasks\<close>

definition MAX_TASK_TIMEOUT_SECONDS :: nat where
  "MAX_TASK_TIMEOUT_SECONDS = 86400"

record task_result =
  tr_task_id :: string
  tr_status :: task_status
  tr_final_message :: string
  tr_changed_files :: "string list"
  tr_diff :: "string option"
  tr_workspace_mode :: workspace_mode
  tr_worktree_path :: "string option"
  tr_source_directory_id :: string
  tr_branch_name :: "string option"
  tr_commit_hash :: "string option"
  tr_session_id :: "string option"
  tr_provider_result :: "json option"
  tr_usage :: "json option"
  tr_artifacts :: "json list"
  tr_error :: "string option"
  tr_created_at :: string
  tr_updated_at :: string

record task =
  task_id :: string
  task_owner_product_id :: string
  task_agent_id :: string
  task_directory_id :: string
  task_status :: task_status
  task_required_capabilities :: "directory_capability list"
  task_workspace_mode :: workspace_mode
  task_direct_mode_task_opt_in :: bool
  task_prompt :: string
  task_metadata :: "json option"
  task_provider_id :: string
  task_model :: string
  task_permission_mode :: string
  task_timeout_seconds :: "nat option"
  task_result :: "task_result option"
  task_created_at :: string
  task_updated_at :: string
  task_started_at :: "string option"
  task_completed_at :: "string option"
  task_cancelled_at :: "string option"
  task_failed_at :: "string option"

record create_task =
  ct_owner_product_id :: string
  ct_agent_id :: string
  ct_directory_id :: string
  ct_prompt :: string
  ct_required_capabilities :: "directory_capability list option"
  ct_workspace_mode :: "workspace_mode option"
  ct_direct_mode_task_opt_in :: bool
  ct_metadata :: "json option"
  ct_provider_id :: "string option"
  ct_model :: "string option"
  ct_permission_mode :: "string option"
  ct_timeout_seconds :: "nat option"

datatype task_model_error = ModelInvalidTask | ModelInvalidPrompt

definition required_capabilities :: "create_task \<Rightarrow> directory_capability list" where
  "required_capabilities t = btree_list (unwrap_or (ct_required_capabilities t) [Read])"

definition create_task_validate :: "create_task \<Rightarrow> task_model_error + unit" where
  "create_task_validate t =
     (if trim (ct_owner_product_id t) = [] \<or> trim (ct_agent_id t) = [] \<or>
          trim (ct_directory_id t) = [] then Inl ModelInvalidTask
      else if trim (ct_prompt t) = [] then Inl ModelInvalidPrompt
      else if required_capabilities t = [] then Inl ModelInvalidTask
      else if is_some_and (ct_metadata t) (\<lambda>m. \<not> is_object m) then Inl ModelInvalidTask
      else if is_some_and (ct_timeout_seconds t) (\<lambda>n. n = 0 \<or> n > MAX_TASK_TIMEOUT_SECONDS)
        then Inl ModelInvalidTask
      else Inr ())"

section \<open>The transition table\<close>

datatype task_transition = Changed | Idempotent

datatype task_state_error = InvalidTransition | AlreadyTerminal

definition allowed_transition :: "task_status \<Rightarrow> task_status \<Rightarrow> bool" where
  "allowed_transition current next =
     (case (current, next) of
        (Queued, WaitingDirectoryLock) \<Rightarrow> True
      | (Queued, Cancelled) \<Rightarrow> True
      | (WaitingDirectoryLock, Preparing) \<Rightarrow> True
      | (WaitingDirectoryLock, Cancelled) \<Rightarrow> True
      | (Preparing, Running) \<Rightarrow> True
      | (Preparing, Failed) \<Rightarrow> True
      | (Preparing, Cancelled) \<Rightarrow> True
      | (Running, Completed) \<Rightarrow> True
      | (Running, Failed) \<Rightarrow> True
      | (Running, Cancelled) \<Rightarrow> True
      | (Running, TimedOut) \<Rightarrow> True
      | _ \<Rightarrow> False)"

definition validate_transition ::
  "task_status \<Rightarrow> task_status \<Rightarrow> task_state_error + task_transition" where
  "validate_transition current next =
     (if current = next \<and> is_terminal current then Inr Idempotent
      else if is_terminal current then Inl AlreadyTerminal
      else if allowed_transition current next then Inr Changed
      else Inl InvalidTransition)"

section \<open>Lemmas\<close>

lemma is_terminal_simps [simp]:
  "\<not> is_terminal Queued" "\<not> is_terminal WaitingDirectoryLock" "\<not> is_terminal Preparing"
  "\<not> is_terminal Running" "is_terminal Completed" "is_terminal Failed" "is_terminal Cancelled"
  "is_terminal TimedOut"
  by (simp_all add: is_terminal_def)

lemma is_terminal_event_type_for_status [simp]:
  "is_terminal_event_type (event_type_for_status s) = is_terminal s"
  by (cases s) (simp_all add: is_terminal_event_type_def)

lemma event_type_for_status_inj [simp]:
  "event_type_for_status a = event_type_for_status b \<longleftrightarrow> a = b"
  by (cases a; cases b) simp_all

lemma event_type_as_str_inj [simp]: "event_type_as_str a = event_type_as_str b \<longleftrightarrow> a = b"
  by (cases a; cases b) simp_all

lemma validate_transition_Changed [simp]:
  "validate_transition a b = Inr Changed \<longleftrightarrow> allowed_transition a b"
  by (cases a; cases b) (simp_all add: validate_transition_def allowed_transition_def)

lemma validate_transition_Idempotent [simp]:
  "validate_transition a b = Inr Idempotent \<longleftrightarrow> a = b \<and> is_terminal a"
  by (auto simp: validate_transition_def)

lemma allowed_not_terminal: "allowed_transition a b \<Longrightarrow> \<not> is_terminal a"
  by (cases a) (simp_all add: allowed_transition_def)

lemma allowed_irrefl [simp]: "\<not> allowed_transition a a"
  by (cases a) (simp_all add: allowed_transition_def)

text \<open>
  The task statuses and the permission-request statuses both form a life cycle in the sense of the
  prelude; the rank counts the steps that remain.
\<close>

fun status_rank :: "task_status \<Rightarrow> nat" where
  "status_rank Queued = 4"
| "status_rank WaitingDirectoryLock = 3"
| "status_rank Preparing = 2"
| "status_rank Running = 1"
| "status_rank Completed = 0"
| "status_rank Failed = 0"
| "status_rank Cancelled = 0"
| "status_rank TimedOut = 0"

interpretation task_lifecycle: lifecycle allowed_transition is_terminal status_rank
proof
  fix a b
  show "allowed_transition a b \<Longrightarrow> \<not> is_terminal a"
    by (rule allowed_not_terminal)
  show "allowed_transition a b \<Longrightarrow> status_rank b < status_rank a"
    by (cases a; cases b) (simp_all add: allowed_transition_def)
  show "\<not> is_terminal a \<Longrightarrow> \<exists>b. allowed_transition a b"
    by (cases a) (auto simp: allowed_transition_def split: task_status.split)
qed

lemma decision_roundtrip [simp]: "decision_of_str (decision_as_str d) = Some d"
  by (cases d) (simp_all add: decision_of_str_def)

lemma opt_field_opt_json:
  assumes "json_get v k = Some (opt_json Str x)"
  shows "opt_field as_str v k = Some x"
  using assms by (cases x) (simp_all add: opt_field_def opt_json_def)

lemma decision_event_roundtrip [simp]:
  "decision_event_from_value (decision_event_to_value d) = Some d"
proof -
  let ?v = "decision_event_to_value d"
  have "get_str ?v ''request_id'' = Some (pd_request_id d)"
    and "Option.bind (get_str ?v ''decision'') decision_of_str = Some (pd_decision d)"
    by (simp_all add: decision_event_to_value_def get_str_def)
  moreover have "opt_field as_str ?v ''reason'' = Some (pd_reason d)"
    by (rule opt_field_opt_json) (simp add: decision_event_to_value_def)
  ultimately show ?thesis by (simp add: decision_event_from_value_def)
qed

lemma decision_event_request_id [simp]:
  "get_str (decision_event_to_value d) ''request_id'' = Some (pd_request_id d)"
  by (simp add: decision_event_to_value_def get_str_def)

lemma set_required_capabilities:
  "set (required_capabilities t) = (case ct_required_capabilities t of None \<Rightarrow> {Read} | Some cs \<Rightarrow> set cs)"
  by (auto simp: required_capabilities_def unwrap_or_def split: option.splits)

end
