(* ===== verification/Locks.thy ===== *)
theory Locks
  imports Task_Model
begin

text \<open>
  \<open>src/src/scheduler/locks.rs\<close>: directory locks, the request a task makes for one and the mode
  that follows from its capabilities and the lock policy of the grant.
\<close>

datatype lock_mode = LockExclusive | LockShared | LockNone

record directory_lock =
  lk_directory_id :: string
  lk_task_id :: string
  lk_mode :: lock_mode
  lk_status :: string
  lk_created_at :: string
  lk_released_at :: "string option"

record lock_request =
  lr_directory_id :: string
  lr_task_id :: string
  lr_mode :: lock_mode

datatype lock_decision = Acquired | Waiting | NotRequired

definition mode_for_capabilities ::
  "directory_capability list \<Rightarrow> directory_lock_policy \<Rightarrow> lock_mode" where
  "mode_for_capabilities caps policy =
     (if policy = PolicyNone then LockNone
      else if list_ex (\<lambda>c. case c of Write \<Rightarrow> True | Shell \<Rightarrow> True | Git \<Rightarrow> True | _ \<Rightarrow> False) caps
        then LockExclusive
      else (case policy of
              PolicyExclusive \<Rightarrow> LockExclusive
            | PolicyShared \<Rightarrow> LockShared
            | PolicyNone \<Rightarrow> LockNone))"

definition lock_request_from_task :: "task \<Rightarrow> lock_request" where
  "lock_request_from_task t =
     \<lparr> lr_directory_id = task_directory_id t, lr_task_id = task_id t,
       lr_mode = mode_for_capabilities (task_required_capabilities t) PolicyExclusive \<rparr>"

text \<open>Two locks on one directory conflict unless both are shared.\<close>

definition conflicting :: "lock_mode \<Rightarrow> lock_mode \<Rightarrow> bool" where
  "conflicting a b \<longleftrightarrow> a = LockExclusive \<or> b = LockExclusive"

lemma mode_None_iff: "mode_for_capabilities caps policy = LockNone \<longleftrightarrow> policy = PolicyNone"
  by (cases policy) (simp_all add: mode_for_capabilities_def)

lemma mode_Shared_iff:
  "mode_for_capabilities caps policy = LockShared \<longleftrightarrow> policy = PolicyShared \<and> set caps \<subseteq> {Read}"
proof -
  have "list_ex (\<lambda>c. case c of Write \<Rightarrow> True | Shell \<Rightarrow> True | Git \<Rightarrow> True | _ \<Rightarrow> False) caps
    \<longleftrightarrow> \<not> set caps \<subseteq> {Read}"
    by (auto simp: list_ex_iff split: directory_capability.splits)
  then show ?thesis by (cases policy) (auto simp: mode_for_capabilities_def)
qed

lemma conflicting_commute: "conflicting a b = conflicting b a"
  by (auto simp: conflicting_def)

end
