(* ===== verification/Event_Bus.thy ===== *)
theory Event_Bus
  imports Task_Model
begin

text \<open>
  \<open>TaskEventBus\<close> of \<open>src/src/task/service.rs\<close>: the broadcast channel of task events and the table
  of permission waiters.

  The broadcast side is the sequence of events sent so far; what a subscriber sees of it is the
  business of \<open>Event_Service\<close>. A waiter is the sending half of a oneshot channel: channels are
  numbered, \<open>bus_waiters\<close> maps a (task, request) pair to the channel whose sender it holds, and
  \<open>bus_answers\<close> holds what was sent on a channel. A channel that is neither in the table nor
  answered has lost its sender.
\<close>

record task_event_bus =
  bus_sent :: "task_event list"
  bus_waiters :: "((string \<times> string) \<times> nat) list"
  bus_next_channel :: nat
  bus_answers :: "nat \<Rightarrow> permission_decision_event option"

definition default_bus :: task_event_bus where
  "default_bus = \<lparr> bus_sent = [], bus_waiters = [], bus_next_channel = 0,
     bus_answers = Map.empty \<rparr>"

definition bus_publish :: "task_event \<Rightarrow> task_event_bus \<Rightarrow> task_event_bus" where
  "bus_publish e b = b\<lparr> bus_sent := bus_sent b @ [e] \<rparr>"

definition has_waiter :: "string \<Rightarrow> string \<Rightarrow> task_event_bus \<Rightarrow> bool" where
  "has_waiter tid rid b = (map_of (bus_waiters b) (tid, rid) \<noteq> None)"

text \<open>A second registration for the same pair replaces, and so drops, the earlier sender.\<close>

definition register_waiter ::
  "string \<Rightarrow> string \<Rightarrow> task_event_bus \<Rightarrow> nat \<times> task_event_bus" where
  "register_waiter tid rid b =
     (bus_next_channel b,
      b\<lparr> bus_waiters := AList.update (tid, rid) (bus_next_channel b) (bus_waiters b),
         bus_next_channel := Suc (bus_next_channel b) \<rparr>)"

definition notify_permission_resolution ::
  "string \<Rightarrow> permission_decision_event \<Rightarrow> task_event_bus \<Rightarrow> task_event_bus" where
  "notify_permission_resolution tid d b =
     (case map_of (bus_waiters b) (tid, pd_request_id d) of
        None \<Rightarrow> b
      | Some ch \<Rightarrow> b\<lparr> bus_waiters := AList.delete (tid, pd_request_id d) (bus_waiters b),
                      bus_answers := (bus_answers b)(ch \<mapsto> d) \<rparr>)"

text \<open>
  The receiving half: \<open>Some (Inr d)\<close> once a decision was sent, \<open>Some (Inl ())\<close> when the sender
  is gone without sending (the \<open>Err\<close> of the oneshot receiver), \<open>None\<close> while it still waits.
\<close>

definition poll_receiver ::
  "nat \<Rightarrow> task_event_bus \<Rightarrow> (unit + permission_decision_event) option" where
  "poll_receiver ch b =
     (case bus_answers b ch of
        Some d \<Rightarrow> Some (Inr d)
      | None \<Rightarrow> if ch \<in> snd ` set (bus_waiters b) then None else Some (Inl ()))"

text \<open>
  The table has one entry per pair and per channel; a channel in it has been handed out and is
  unanswered.
\<close>

definition bus_inv :: "task_event_bus \<Rightarrow> bool" where
  "bus_inv b \<longleftrightarrow>
     distinct (map fst (bus_waiters b)) \<and> distinct (map snd (bus_waiters b)) \<and>
     (\<forall>ch. ch \<in> snd ` set (bus_waiters b) \<longrightarrow> ch < bus_next_channel b \<and> bus_answers b ch = None) \<and>
     (\<forall>ch. bus_answers b ch \<noteq> None \<longrightarrow> ch < bus_next_channel b)"

lemma bus_inv_default [simp]: "bus_inv default_bus"
  by (simp add: bus_inv_def default_bus_def)

lemma bus_inv_publish [simp]: "bus_inv (bus_publish e b) = bus_inv b"
  by (simp add: bus_inv_def bus_publish_def)

lemma snd_update_subset: "snd ` set (AList.update k v al) \<subseteq> insert v (snd ` set al)"
  by (induction al) auto

lemma distinct_snd_update:
  "distinct (map snd al) \<Longrightarrow> v \<notin> snd ` set al \<Longrightarrow> distinct (map snd (AList.update k v al))"
proof (induction al)
  case (Cons p al)
  then show ?case using snd_update_subset [of k v al] by (auto simp: image_iff)
qed simp

lemma distinct_snd_delete: "distinct (map snd al) \<Longrightarrow> distinct (map snd (AList.delete k al))"
  by (simp add: AList.delete_eq distinct_map_filter)

lemma snd_delete_iff:
  assumes "distinct (map snd al)" and "map_of al k = Some ch'" and "distinct (map fst al)"
  shows "ch \<in> snd ` set (AList.delete k al) \<longleftrightarrow> ch \<in> snd ` set al \<and> ch \<noteq> ch'"
proof -
  from assms(2) have "(k, ch') \<in> set al" by (rule map_of_SomeD)
  with assms have "j = k \<longleftrightarrow> v = ch'" if "(j, v) \<in> set al" for j v
    using that by (metis distinct_map inj_onD map_of_is_SomeI option.inject prod.inject snd_conv)
  then show ?thesis by (force simp: AList.delete_eq)
qed

lemma bus_inv_register:
  assumes inv: "bus_inv b" and reg: "register_waiter tid rid b = (ch, b')"
  shows "bus_inv b'"
proof -
  from reg have b': "b' = b\<lparr>bus_waiters := AList.update (tid, rid) (bus_next_channel b) (bus_waiters b),
      bus_next_channel := Suc (bus_next_channel b)\<rparr>"
    by (auto simp: register_waiter_def)
  from inv have fresh: "bus_next_channel b \<notin> snd ` set (bus_waiters b)"
    and free: "bus_answers b (bus_next_channel b) = None"
    by (auto simp: bus_inv_def)
  have "ch' < Suc (bus_next_channel b) \<and> bus_answers b ch' = None"
    if "ch' \<in> snd ` set (AList.update (tid, rid) (bus_next_channel b) (bus_waiters b))" for ch'
    using snd_update_subset [THEN subsetD, OF that] inv free by (auto simp: bus_inv_def)
  with inv fresh show ?thesis
    by (auto simp: bus_inv_def b' distinct_update distinct_snd_update less_SucI)
qed

lemma bus_inv_notify:
  assumes inv: "bus_inv b"
  shows "bus_inv (notify_permission_resolution tid d b)"
proof (cases "map_of (bus_waiters b) (tid, pd_request_id d)")
  case None
  with inv show ?thesis by (simp add: notify_permission_resolution_def)
next
  case (Some ch)
  then have "ch \<in> snd ` set (bus_waiters b)" by (force dest: map_of_SomeD)
  with inv Some show ?thesis
    by (simp add: notify_permission_resolution_def bus_inv_def distinct_delete distinct_snd_delete
        snd_delete_iff)
qed

lemma register_pending:
  assumes "bus_inv b" and "register_waiter tid rid b = (ch, b')"
  shows "poll_receiver ch b' = None"
proof -
  from assms have ch: "ch = bus_next_channel b" and "bus_answers b' = bus_answers b"
    and w: "bus_waiters b' = AList.update (tid, rid) ch (bus_waiters b)"
    by (auto simp: register_waiter_def)
  moreover from assms(1) ch have "bus_answers b ch = None" by (auto simp: bus_inv_def)
  moreover have "map_of (bus_waiters b') (tid, rid) = Some ch" by (simp add: w update_conv)
  then have "ch \<in> snd ` set (bus_waiters b')" by (force dest: map_of_SomeD)
  ultimately show ?thesis by (simp add: poll_receiver_def)
qed

lemma notify_answers:
  assumes "map_of (bus_waiters b) (tid, pd_request_id d) = Some ch"
  shows "poll_receiver ch (notify_permission_resolution tid d b) = Some (Inr d)"
  using assms by (simp add: notify_permission_resolution_def poll_receiver_def)

text \<open>A notification touches the channel of its own request only.\<close>

lemma notify_frame:
  assumes "bus_inv b" and "map_of (bus_waiters b) (tid, pd_request_id d) \<noteq> Some ch"
  shows "poll_receiver ch (notify_permission_resolution tid d b) = poll_receiver ch b"
  using assms
  by (auto simp: notify_permission_resolution_def poll_receiver_def bus_inv_def snd_delete_iff
      split: option.splits)

end
