(* ===== verification/Task_Store.thy ===== *)
theory Task_Store
  imports Locks Event_Bus
begin

text \<open>
  \<open>src/src/store/tasks.rs\<close>: the SQLite store of tasks, events, permission requests and directory
  locks. The state is the four tables of the schema in \<open>store/sqlite.rs\<close>, each a list of rows in
  rowid order, and the event bus the store may be configured with. JSON text columns are the values
  they encode. SQLite itself is taken to work: what can fail is a lookup, a validation, or a
  constraint of the schema (primary keys and \<open>UNIQUE(task_id, sequence)\<close>), which aborts the
  enclosing transaction. The clock is an argument \<open>now\<close>.
\<close>

section \<open>State\<close>

record task_db =
  db_tasks :: "task list"
  db_events :: "task_event list"
  db_requests :: "permission_request_record list"
  db_locks :: "directory_lock list"
  db_bus :: "task_event_bus option"

datatype task_store_error =
    TsNotFound
  | PermissionRequestNotFound
  | PermissionRequestNotPending
  | PermissionRequestAlreadyResolved
  | TsModel task_model_error
  | TsState task_state_error
  | TsStore string

type_synonym 'a task_op = "(task_db, task_store_error, 'a) op"

record task_filters =
  tf_owner_product_id :: "string option"
  tf_agent_id :: "string option"
  tf_directory_id :: "string option"
  tf_status :: "task_status option"

record permission_request_filters =
  pf_owner_product_id :: "string option"
  pf_status :: "permission_request_status option"

definition empty_task_db :: "task_event_bus option \<Rightarrow> task_db" where
  "empty_task_db bus = \<lparr> db_tasks = [], db_events = [], db_requests = [], db_locks = [],
     db_bus = bus \<rparr>"

definition constraint_failed :: task_store_error where
  "constraint_failed = TsStore ''UNIQUE constraint failed''"

definition no_rows :: task_store_error where
  "no_rows = TsStore ''Query returned no rows''"

definition task_row_id :: "nat \<Rightarrow> string" where
  "task_row_id n = ''task_'' @ show_nat n"

definition event_row_id :: "string \<Rightarrow> nat \<Rightarrow> string" where
  "event_row_id tid n = ''evt_'' @ tid @ ''_'' @ show_nat n"

section \<open>Queries\<close>

definition find_task :: "string \<Rightarrow> task_db \<Rightarrow> task option" where
  "find_task tid db = List.find (\<lambda>t. task_id t = tid) (db_tasks db)"

definition get_task :: "string \<Rightarrow> task task_op" where
  "get_task tid = reads (\<lambda>db. ok_or TsNotFound (find_task tid db))"

definition list_tasks :: "task_filters \<Rightarrow> task list task_op" where
  "list_tasks f = reads (\<lambda>db. Inr (filter (\<lambda>t.
     is_none_or (tf_owner_product_id f) (\<lambda>v. v = task_owner_product_id t) \<and>
     is_none_or (tf_agent_id f) (\<lambda>v. v = task_agent_id t) \<and>
     is_none_or (tf_directory_id f) (\<lambda>v. v = task_directory_id t) \<and>
     is_none_or (tf_status f) (\<lambda>v. v = task_status t)) (db_tasks db)))"

definition events_of :: "string \<Rightarrow> task_db \<Rightarrow> task_event list" where
  "events_of tid db = filter (\<lambda>e. ev_task_id e = tid) (db_events db)"

definition next_sequence :: "string \<Rightarrow> task_db \<Rightarrow> nat" where
  "next_sequence tid db = fold max (map ev_sequence (events_of tid db)) 0 + 1"

definition event_by_sequence :: "string \<Rightarrow> nat \<Rightarrow> task_event task_op" where
  "event_by_sequence tid n = reads (\<lambda>db. ok_or no_rows
     (List.find (\<lambda>e. ev_task_id e = tid \<and> ev_sequence e = n) (db_events db)))"

definition list_events_after :: "string \<Rightarrow> nat \<Rightarrow> task_event list task_op" where
  "list_events_after tid cursor = reads (\<lambda>db. Inr
     (sort_key ev_sequence (filter (\<lambda>e. ev_sequence e > cursor) (events_of tid db))))"

definition list_events :: "string \<Rightarrow> task_event list task_op" where
  "list_events tid = list_events_after tid 0"

definition active_locks :: "string \<Rightarrow> task_db \<Rightarrow> directory_lock list" where
  "active_locks did db = filter (\<lambda>l. lk_directory_id l = did \<and> lk_status l = ''held'') (db_locks db)"

definition query_permission_request ::
  "string \<Rightarrow> string \<Rightarrow> task_db \<Rightarrow> permission_request_record option" where
  "query_permission_request tid rid db =
     List.find (\<lambda>q. prr_task_id q = tid \<and> prr_request_id q = rid) (db_requests db)"

definition get_permission_request :: "string \<Rightarrow> string \<Rightarrow> permission_request_record task_op" where
  "get_permission_request tid rid =
     and_then (get_task tid) (\<lambda>_.
     reads (\<lambda>db. ok_or PermissionRequestNotFound (query_permission_request tid rid db)))"

text \<open>The join with \<open>tasks\<close> keeps the requests whose task exists (and has the wanted owner).\<close>

definition list_permission_requests ::
  "permission_request_filters \<Rightarrow> permission_request_record list task_op" where
  "list_permission_requests f = reads (\<lambda>db. Inr (filter (\<lambda>q.
     (case find_task (prr_task_id q) db of
        None \<Rightarrow> False
      | Some t \<Rightarrow> is_none_or (pf_owner_product_id f) (\<lambda>v. v = task_owner_product_id t)) \<and>
     is_none_or (pf_status f) (\<lambda>v. v = prr_status q)) (db_requests db)))"

text \<open>\<open>json_extract(payload_json, '$.request_id') = ?3\<close> with the smallest sequence first.\<close>

definition query_permission_decision_event ::
  "string \<Rightarrow> string \<Rightarrow> task_db \<Rightarrow> task_event option" where
  "query_permission_decision_event tid rid db =
     (case sort_key ev_sequence (filter (\<lambda>e.
             ev_event_type e = ProviderPermissionDecided \<and>
             get_str (ev_payload e) ''request_id'' = Some rid) (events_of tid db)) of
        [] \<Rightarrow> None
      | e # _ \<Rightarrow> Some e)"

section \<open>Writes\<close>

definition publish_db :: "task_event \<Rightarrow> task_db \<Rightarrow> task_db" where
  "publish_db e db = db\<lparr> db_bus := map_option (bus_publish e) (db_bus db) \<rparr>"

definition publish_if_configured :: "task_event \<Rightarrow> unit task_op" where
  "publish_if_configured e = modify (publish_db e)"

definition event_row ::
  "string \<Rightarrow> nat \<Rightarrow> task_event_type \<Rightarrow> json \<Rightarrow> string \<Rightarrow> task_event" where
  "event_row tid n ty payload now =
     \<lparr> ev_id = event_row_id tid n, ev_task_id = tid, ev_sequence = n, ev_event_type = ty,
       ev_payload = payload, ev_created_at = now \<rparr>"

definition insert_event_tx ::
  "string \<Rightarrow> nat \<Rightarrow> task_event_type \<Rightarrow> json \<Rightarrow> string \<Rightarrow> unit task_op" where
  "insert_event_tx tid n ty payload now db =
     (if list_ex (\<lambda>e. ev_id e = event_row_id tid n \<or> ev_task_id e = tid \<and> ev_sequence e = n)
           (db_events db)
      then (Inl constraint_failed, db)
      else (Inr (), db\<lparr> db_events := db_events db @ [event_row tid n ty payload now] \<rparr>))"

definition release_held :: "string \<Rightarrow> string \<Rightarrow> directory_lock list \<Rightarrow> directory_lock list" where
  "release_held tid now ls =
     update_rows (\<lambda>l. lk_task_id l = tid \<and> lk_status l = ''held'')
       (\<lambda>l. l\<lparr> lk_status := ''released'', lk_released_at := Some now \<rparr>) ls"

definition release_locks_tx :: "string \<Rightarrow> string \<Rightarrow> unit task_op" where
  "release_locks_tx tid now = modify (\<lambda>db. db\<lparr> db_locks := release_held tid now (db_locks db) \<rparr>)"

definition timestamp_if :: "bool \<Rightarrow> string \<Rightarrow> string option" where
  "timestamp_if c v = (if c then Some v else None)"

definition coalesce :: "'a option \<Rightarrow> 'a option \<Rightarrow> 'a option" where
  "coalesce x y = (case x of None \<Rightarrow> y | Some v \<Rightarrow> Some v)"

text \<open>The row that \<open>INSERT INTO tasks\<close> writes, once \<open>UPDATE tasks SET id\<close> has named it.\<close>

definition new_task :: "create_task \<Rightarrow> string \<Rightarrow> string \<Rightarrow> task" where
  "new_task input tid now =
     \<lparr> task_id = tid, task_owner_product_id = ct_owner_product_id input,
       task_agent_id = ct_agent_id input, task_directory_id = ct_directory_id input,
       task_status = Queued, task_required_capabilities = required_capabilities input,
       task_workspace_mode = unwrap_or (ct_workspace_mode input) Worktree,
       task_direct_mode_task_opt_in = ct_direct_mode_task_opt_in input,
       task_prompt = ct_prompt input, task_metadata = ct_metadata input,
       task_provider_id = unwrap_or (ct_provider_id input) [],
       task_model = unwrap_or (ct_model input) [],
       task_permission_mode = unwrap_or (ct_permission_mode input) ''provider_default'',
       task_timeout_seconds = ct_timeout_seconds input, task_result = None,
       task_created_at = now, task_updated_at = now, task_started_at = None,
       task_completed_at = None, task_cancelled_at = None, task_failed_at = None \<rparr>"

definition insert_task_tx :: "create_task \<Rightarrow> string \<Rightarrow> string \<Rightarrow> unit task_op" where
  "insert_task_tx input tid now db =
     (if list_ex (\<lambda>t. task_id t = tid) (db_tasks db) then (Inl constraint_failed, db)
      else (Inr (), db\<lparr> db_tasks := db_tasks db @ [new_task input tid now] \<rparr>))"

text \<open>Tasks are never deleted, so the next rowid is one more than the number of rows.\<close>

definition create :: "create_task \<Rightarrow> string \<Rightarrow> task task_op" where
  "create input now =
     and_then (lift_r (r_map_err TsModel (create_task_validate input))) (\<lambda>_.
     and_then (reads (\<lambda>db. Inr (task_row_id (Suc (length (db_tasks db)))))) (\<lambda>tid.
     and_then (transaction
       (and_then (insert_task_tx input tid now) (\<lambda>_.
        insert_event_tx tid 1 EvQueued empty_object now))) (\<lambda>_.
     and_then (event_by_sequence tid 1) (\<lambda>e.
     and_then (publish_if_configured e) (\<lambda>_.
     get_task tid)))))"

definition apply_status :: "task_status \<Rightarrow> string \<Rightarrow> task \<Rightarrow> task" where
  "apply_status next now t = t\<lparr> task_status := next, task_updated_at := now,
     task_started_at := coalesce (task_started_at t) (timestamp_if (next = Running) now),
     task_completed_at := coalesce (task_completed_at t) (timestamp_if (next = Completed) now),
     task_cancelled_at := coalesce (task_cancelled_at t) (timestamp_if (next = Cancelled) now),
     task_failed_at := coalesce (task_failed_at t)
       (timestamp_if (next = Failed \<or> next = TimedOut) now) \<rparr>"

definition update_task :: "string \<Rightarrow> (task \<Rightarrow> task) \<Rightarrow> task_db \<Rightarrow> task_db" where
  "update_task tid f db = db\<lparr> db_tasks := update_rows (\<lambda>t. task_id t = tid) f (db_tasks db) \<rparr>"

text \<open>
  \<open>transition\<close> reads the row, validates, reads the next sequence number and then runs the write
  transaction. The write half is a definition of its own: other connections can run between the two.
\<close>

definition transition_commit ::
  "string \<Rightarrow> nat \<Rightarrow> task_status \<Rightarrow> json option \<Rightarrow> string \<Rightarrow> task task_op" where
  "transition_commit tid n next payload now =
     and_then (transaction
       (and_then (modify (update_task tid (apply_status next now))) (\<lambda>_.
        and_then (insert_event_tx tid n (event_type_for_status next)
                    (unwrap_or payload empty_object) now) (\<lambda>_.
        if is_terminal next then release_locks_tx tid now else ok ())))) (\<lambda>_.
     and_then (event_by_sequence tid n) (\<lambda>e.
     and_then (publish_if_configured e) (\<lambda>_.
     get_task tid)))"

definition transition ::
  "string \<Rightarrow> task_status \<Rightarrow> json option \<Rightarrow> string \<Rightarrow> task task_op" where
  "transition tid next payload now =
     and_then (get_task tid) (\<lambda>current.
     and_then (lift_r (r_map_err TsState (validate_transition (task_status current) next))) (\<lambda>tr.
     case tr of
       Idempotent \<Rightarrow> ok current
     | Changed \<Rightarrow>
         and_then (reads (\<lambda>db. Inr (next_sequence tid db))) (\<lambda>n.
         transition_commit tid n next payload now)))"

definition cancel :: "string \<Rightarrow> string \<Rightarrow> task task_op" where
  "cancel tid now = transition tid Cancelled None now"

definition save_result :: "string \<Rightarrow> string \<Rightarrow> string list \<Rightarrow> string \<Rightarrow> unit task_op" where
  "save_result tid final_message changed_files now =
     and_then (get_task tid) (\<lambda>t.
     modify (update_task tid (\<lambda>r. r\<lparr> task_updated_at := now, task_result := Some
       \<lparr> tr_task_id = task_id t, tr_status = task_status t, tr_final_message = final_message,
         tr_changed_files = changed_files, tr_diff = None,
         tr_workspace_mode = task_workspace_mode t, tr_worktree_path = None,
         tr_source_directory_id = task_directory_id t, tr_branch_name = None,
         tr_commit_hash = None, tr_session_id = None, tr_provider_result = None, tr_usage = None,
         tr_artifacts = [], tr_error = None, tr_created_at = now, tr_updated_at = now \<rparr> \<rparr>)))"

definition save_execution_result :: "task_result \<Rightarrow> unit task_op" where
  "save_execution_result res = modify (update_task (tr_task_id res)
     (\<lambda>r. r\<lparr> task_result := Some res, task_updated_at := tr_updated_at res \<rparr>))"

definition append_event ::
  "string \<Rightarrow> task_event_type \<Rightarrow> json \<Rightarrow> string \<Rightarrow> task_event task_op" where
  "append_event tid ty payload now =
     and_then (get_task tid) (\<lambda>_.
     and_then (reads (\<lambda>db. Inr (next_sequence tid db))) (\<lambda>n.
     and_then (insert_event_tx tid n ty payload now) (\<lambda>_.
     and_then (event_by_sequence tid n) (\<lambda>e.
     and_then (publish_if_configured e) (\<lambda>_. ok e)))))"

definition request_row ::
  "string \<Rightarrow> nat \<Rightarrow> permission_request_event \<Rightarrow> string \<Rightarrow> permission_request_record" where
  "request_row tid n q now =
     \<lparr> prr_request_id = pq_request_id q, prr_task_id = tid, prr_sequence = n,
       prr_provider_id = pq_provider_id q, prr_permission_kind = pq_permission_kind q,
       prr_status = Pending, prr_request = q, prr_response = None,
       prr_requested_at = now, prr_responded_at = None \<rparr>"

definition insert_request_tx ::
  "string \<Rightarrow> nat \<Rightarrow> permission_request_event \<Rightarrow> string \<Rightarrow> unit task_op" where
  "insert_request_tx tid n q now db =
     (if list_ex (\<lambda>r. prr_request_id r = pq_request_id q) (db_requests db)
      then (Inl constraint_failed, db)
      else (Inr (), db\<lparr> db_requests := db_requests db @ [request_row tid n q now] \<rparr>))"

definition record_permission_request ::
  "string \<Rightarrow> permission_request_event \<Rightarrow> string \<Rightarrow> task_event task_op" where
  "record_permission_request tid q now =
     and_then (get_task tid) (\<lambda>_.
     and_then (transaction
       (and_then (reads (\<lambda>db. Inr (next_sequence tid db))) (\<lambda>n.
        and_then (insert_event_tx tid n ProviderPermissionRequested (request_event_to_value q) now) (\<lambda>_.
        and_then (insert_request_tx tid n q now) (\<lambda>_. ok n))))) (\<lambda>n.
     and_then (event_by_sequence tid n) (\<lambda>e.
     and_then (publish_if_configured e) (\<lambda>_. ok e))))"

definition resolve_row ::
  "permission_decision_event \<Rightarrow> string \<Rightarrow> permission_request_record \<Rightarrow> permission_request_record" where
  "resolve_row d now q = q\<lparr> prr_status := from_decision (pd_decision d), prr_response := Some d,
     prr_responded_at := Some now \<rparr>"

definition resolve_permission_request ::
  "string \<Rightarrow> string \<Rightarrow> permission_decision \<Rightarrow> string option \<Rightarrow> string \<Rightarrow> permission_resolution task_op" where
  "resolve_permission_request tid rid decision reason now =
     and_then (get_task tid) (\<lambda>_.
     and_then (reads (\<lambda>db. ok_or PermissionRequestNotFound (query_permission_request tid rid db))) (\<lambda>q.
     if prr_status q \<noteq> Pending then
       and_then (lift_r (ok_or (TsStore ''resolved request missing response'') (prr_response q))) (\<lambda>d.
       if pd_decision d = decision then
         and_then (reads (\<lambda>db. ok_or (TsStore ''resolved request missing decision event'')
                     (query_permission_decision_event tid rid db))) (\<lambda>e.
         ok \<lparr> rs_task_id = tid, rs_request_id = rid, rs_status = from_decision decision,
              rs_decision = decision, rs_event = e, rs_duplicated = True \<rparr>)
       else err PermissionRequestAlreadyResolved)
     else
       (let d = \<lparr> pd_request_id = rid, pd_decision = decision, pd_reason = reason \<rparr> in
        and_then (transaction
          (and_then (reads (\<lambda>db. Inr (next_sequence tid db))) (\<lambda>n.
           and_then (insert_event_tx tid n ProviderPermissionDecided (decision_event_to_value d) now) (\<lambda>_.
           and_then (modify (\<lambda>db. db\<lparr> db_requests :=
             update_rows (\<lambda>r. prr_request_id r = rid \<and> prr_task_id r = tid) (resolve_row d now)
               (db_requests db) \<rparr>)) (\<lambda>_. ok n))))) (\<lambda>n.
        and_then (event_by_sequence tid n) (\<lambda>e.
        and_then (publish_if_configured e) (\<lambda>_.
        ok \<lparr> rs_task_id = tid, rs_request_id = rid, rs_status = from_decision decision,
             rs_decision = decision, rs_event = e, rs_duplicated = False \<rparr>))))))"

text \<open>\<open>acquire_lock\<close>: the conflict check and the insertion are two separate statements.\<close>

definition lock_conflict :: "lock_request \<Rightarrow> task_db \<Rightarrow> bool" where
  "lock_conflict r db = list_ex (\<lambda>l. lr_mode r = LockExclusive \<or> lk_mode l = LockExclusive)
     (active_locks (lr_directory_id r) db)"

definition insert_lock :: "lock_request \<Rightarrow> string \<Rightarrow> task_db \<Rightarrow> task_db" where
  "insert_lock r now db = db\<lparr> db_locks :=
     filter (\<lambda>l. \<not> (lk_directory_id l = lr_directory_id r \<and> lk_task_id l = lr_task_id r)) (db_locks db) @
     [\<lparr> lk_directory_id = lr_directory_id r, lk_task_id = lr_task_id r, lk_mode = lr_mode r,
        lk_status = ''held'', lk_created_at = now, lk_released_at = None \<rparr>] \<rparr>"

definition acquire_lock :: "lock_request \<Rightarrow> string \<Rightarrow> bool task_op" where
  "acquire_lock r now =
     and_then (reads (\<lambda>db. Inr (lock_conflict r db))) (\<lambda>conflict.
     if conflict then ok False
     else and_then (modify (insert_lock r now)) (\<lambda>_. ok True))"

definition release_locks :: "string \<Rightarrow> string \<Rightarrow> unit task_op" where
  "release_locks tid now = release_locks_tx tid now"

end
