(* ===== verification/Task_Store_Inv.thy ===== *)
theory Task_Store_Inv
  imports Task_Store
begin

text \<open>
  The invariant of the task store and the effect of each operation on a store that satisfies it.

  The invariant has one conjunct per table relation: task ids count up from one; the events of a
  task are numbered 1, 2, 3, ... and belong to a stored task; the life-cycle events of a task form a
  run of the transition table from \<open>Queued\<close> to the stored status; the time stamps agree with the
  status; held locks on one directory do not conflict and belong to live tasks; a permission request
  is pending exactly until the decision event it is answered with; and everything published is
  stored. The effect lemmas rewrite an operation to its result and final state in one step, which
  is what the proofs of preservation and of the later components use.
\<close>

section \<open>The invariant\<close>

fun status_of_event :: "task_event_type \<Rightarrow> task_status option" where
  "status_of_event EvQueued = Some Queued"
| "status_of_event EvWaitingDirectoryLock = Some WaitingDirectoryLock"
| "status_of_event EvPreparing = Some Preparing"
| "status_of_event EvRunning = Some Running"
| "status_of_event EvCompleted = Some Completed"
| "status_of_event EvFailed = Some Failed"
| "status_of_event EvCancelled = Some Cancelled"
| "status_of_event EvTimedOut = Some TimedOut"
| "status_of_event ProcessStdout = None"
| "status_of_event ProcessStderr = None"
| "status_of_event ProviderPermissionRequested = None"
| "status_of_event ProviderPermissionDecided = None"

definition status_log :: "string \<Rightarrow> task_db \<Rightarrow> task_status list" where
  "status_log tid db = List.map_filter (\<lambda>e. status_of_event (ev_event_type e)) (events_of tid db)"

definition tasks_wf :: "task_db \<Rightarrow> bool" where
  "tasks_wf db \<longleftrightarrow> map task_id (db_tasks db) = map task_row_id [1..<Suc (length (db_tasks db))]"

definition events_wf :: "task_db \<Rightarrow> bool" where
  "events_wf db \<longleftrightarrow>
     (\<forall>tid. map ev_sequence (events_of tid db) = [1..<Suc (length (events_of tid db))]) \<and>
     (\<forall>e. e \<in> set (db_events db) \<longrightarrow>
        ev_id e = event_row_id (ev_task_id e) (ev_sequence e) \<and>
        find_task (ev_task_id e) db \<noteq> None)"

definition run_to :: "task_status list \<Rightarrow> task_status \<Rightarrow> bool" where
  "run_to ss s \<longleftrightarrow> ss \<noteq> [] \<and> hd ss = Queued \<and> last ss = s \<and> successively allowed_transition ss"

definition log_wf :: "task_db \<Rightarrow> bool" where
  "log_wf db \<longleftrightarrow>
     (\<forall>tid t. find_task tid db = Some t \<longrightarrow> run_to (status_log tid db) (task_status t))"

definition stamps_ok :: "task \<Rightarrow> bool" where
  "stamps_ok t \<longleftrightarrow>
     (task_completed_at t \<noteq> None \<longleftrightarrow> task_status t = Completed) \<and>
     (task_cancelled_at t \<noteq> None \<longleftrightarrow> task_status t = Cancelled) \<and>
     (task_failed_at t \<noteq> None \<longleftrightarrow> task_status t = Failed \<or> task_status t = TimedOut) \<and>
     (task_status t = Running \<or> task_status t = Completed \<or> task_status t = TimedOut \<longrightarrow>
        task_started_at t \<noteq> None) \<and>
     (task_status t = Queued \<or> task_status t = WaitingDirectoryLock \<or> task_status t = Preparing \<longrightarrow>
        task_started_at t = None)"

definition stamps_wf :: "task_db \<Rightarrow> bool" where
  "stamps_wf db \<longleftrightarrow> (\<forall>t. t \<in> set (db_tasks db) \<longrightarrow> stamps_ok t)"

definition held :: "directory_lock \<Rightarrow> bool" where
  "held l \<longleftrightarrow> lk_status l = ''held''"

definition lock_key :: "directory_lock \<Rightarrow> string \<times> string" where
  "lock_key l = (lk_directory_id l, lk_task_id l)"

definition locks_compatible :: "directory_lock list \<Rightarrow> bool" where
  "locks_compatible ls \<longleftrightarrow>
     distinct (map lock_key ls) \<and>
     (\<forall>l m. l \<in> set ls \<longrightarrow> m \<in> set ls \<longrightarrow> held l \<longrightarrow> held m \<longrightarrow> l \<noteq> m \<longrightarrow>
        lk_directory_id l = lk_directory_id m \<longrightarrow> \<not> conflicting (lk_mode l) (lk_mode m))"

definition locks_owned :: "task_db \<Rightarrow> bool" where
  "locks_owned db \<longleftrightarrow>
     (\<forall>l. l \<in> set (db_locks db) \<longrightarrow> held l \<longrightarrow>
        (\<exists>t. find_task (lk_task_id l) db = Some t \<and> \<not> is_terminal (task_status t)))"

definition decided_for :: "string \<Rightarrow> task_event \<Rightarrow> bool" where
  "decided_for rid e \<longleftrightarrow>
     ev_event_type e = ProviderPermissionDecided \<and> get_str (ev_payload e) ''request_id'' = Some rid"

definition request_ok :: "permission_request_record \<Rightarrow> task_db \<Rightarrow> bool" where
  "request_ok q db \<longleftrightarrow>
     (case filter (decided_for (prr_request_id q)) (events_of (prr_task_id q) db) of
        [] \<Rightarrow> prr_status q = Pending \<and> prr_response q = None
      | e # _ \<Rightarrow> (\<exists>d. prr_response q = Some d \<and> pd_request_id d = prr_request_id q \<and>
                   prr_status q = from_decision (pd_decision d) \<and>
                   ev_payload e = decision_event_to_value d))"

definition requests_wf :: "task_db \<Rightarrow> bool" where
  "requests_wf db \<longleftrightarrow>
     distinct (map prr_request_id (db_requests db)) \<and>
     (\<forall>q. q \<in> set (db_requests db) \<longrightarrow> find_task (prr_task_id q) db \<noteq> None \<and> request_ok q db) \<and>
     (\<forall>e rid. e \<in> set (db_events db) \<longrightarrow> decided_for rid e \<longrightarrow>
        query_permission_request (ev_task_id e) rid db \<noteq> None)"

definition bus_wf :: "task_db \<Rightarrow> bool" where
  "bus_wf db \<longleftrightarrow>
     (case db_bus db of None \<Rightarrow> True
      | Some b \<Rightarrow> bus_inv b \<and> set (bus_sent b) \<subseteq> set (db_events db))"

definition task_db_inv :: "task_db \<Rightarrow> bool" where
  "task_db_inv db \<longleftrightarrow> tasks_wf db \<and> events_wf db \<and> log_wf db \<and> stamps_wf db \<and>
     locks_compatible (db_locks db) \<and> locks_owned db \<and> requests_wf db \<and> bus_wf db"

section \<open>Tasks by id\<close>

lemma task_row_id_inj [simp]: "task_row_id m = task_row_id n \<longleftrightarrow> m = n"
  by (simp add: task_row_id_def)

lemma event_row_id_inj [simp]: "event_row_id s m = event_row_id t n \<longleftrightarrow> s = t \<and> m = n"
proof -
  have "s = t \<and> show_nat m = show_nat n" if "s @ ''_'' @ show_nat m = t @ ''_'' @ show_nat n"
    using that split_at_last [of s "CHR ''_''" "show_nat m" t "show_nat n"]
    by (simp add: not_digit_in_show_nat)
  then show ?thesis by (auto simp: event_row_id_def)
qed

lemma tasks_wf_distinct: "tasks_wf db \<Longrightarrow> distinct (map task_id (db_tasks db))"
  by (simp add: tasks_wf_def distinct_map inj_on_def)

interpretation task_table: keyed_table db_tasks task_id find_task tasks_wf
  by unfold_locales (simp_all add: find_task_def tasks_wf_distinct)

lemma fresh_task_id:
  assumes "tasks_wf db"
  shows "find_task (task_row_id (Suc (length (db_tasks db)))) db = None"
proof -
  have "task_id ` set (db_tasks db) = task_row_id ` {1..<Suc (length (db_tasks db))}"
    using assms by (metis set_map set_upt tasks_wf_def)
  then show ?thesis by (auto simp: task_table.lookup_None)
qed

lemma find_task_frame [simp]:
  "find_task tid (db\<lparr>db_events := es\<rparr>) = find_task tid db"
  "find_task tid (db\<lparr>db_locks := ls\<rparr>) = find_task tid db"
  "find_task tid (db\<lparr>db_requests := qs\<rparr>) = find_task tid db"
  "find_task tid (db\<lparr>db_bus := b\<rparr>) = find_task tid db"
  "find_task tid (publish_db e db) = find_task tid db"
  by (simp_all add: find_task_def publish_db_def)

lemma events_of_frame [simp]:
  "events_of tid (db\<lparr>db_tasks := ts\<rparr>) = events_of tid db"
  "events_of tid (db\<lparr>db_locks := ls\<rparr>) = events_of tid db"
  "events_of tid (db\<lparr>db_requests := qs\<rparr>) = events_of tid db"
  "events_of tid (db\<lparr>db_bus := b\<rparr>) = events_of tid db"
  "events_of tid (publish_db e db) = events_of tid db"
  "events_of tid (update_task k f db) = events_of tid db"
  by (simp_all add: events_of_def publish_db_def update_task_def)

lemma publish_db_fields [simp]:
  "db_tasks (publish_db e db) = db_tasks db" "db_events (publish_db e db) = db_events db"
  "db_requests (publish_db e db) = db_requests db" "db_locks (publish_db e db) = db_locks db"
  by (simp_all add: publish_db_def)

lemma update_task_fields [simp]:
  "db_events (update_task k f db) = db_events db" "db_requests (update_task k f db) = db_requests db"
  "db_locks (update_task k f db) = db_locks db" "db_bus (update_task k f db) = db_bus db"
  by (simp_all add: update_task_def)

lemma find_update_task:
  assumes "\<And>t. task_id (f t) = task_id t"
  shows "find_task j (update_task k f db) =
    (if j = k then map_option f (find_task k db) else find_task j db)"
  by (rule task_table.lookup_update) (simp_all add: update_task_def assms)

lemma apply_status_fields [simp]:
  "task_id (apply_status s now t) = task_id t" "task_status (apply_status s now t) = s"
  "task_directory_id (apply_status s now t) = task_directory_id t"
  "task_required_capabilities (apply_status s now t) = task_required_capabilities t"
  by (simp_all add: apply_status_def)

section \<open>Sequence numbers\<close>

lemma event_row_fields [simp]:
  "ev_id (event_row tid n ty p now) = event_row_id tid n"
  "ev_task_id (event_row tid n ty p now) = tid" "ev_sequence (event_row tid n ty p now) = n"
  "ev_event_type (event_row tid n ty p now) = ty" "ev_payload (event_row tid n ty p now) = p"
  by (simp_all add: event_row_def)

lemma fold_max_upt: "fold max [Suc 0..<Suc n] 0 = n"
  by (induction n) auto

lemma next_sequence_eq:
  "events_wf db \<Longrightarrow> next_sequence tid db = Suc (length (events_of tid db))"
  by (simp add: next_sequence_def events_wf_def fold_max_upt del: upt_Suc)

lemma event_sequence_bound:
  assumes "events_wf db" and "e \<in> set (db_events db)"
  shows "1 \<le> ev_sequence e" and "ev_sequence e \<le> length (events_of (ev_task_id e) db)"
proof -
  have "ev_sequence e \<in> set (map ev_sequence (events_of (ev_task_id e) db))"
    using assms(2) by (simp add: events_of_def)
  also have "\<dots> = set [1..<Suc (length (events_of (ev_task_id e) db))]"
    using assms(1) by (simp add: events_wf_def del: upt_Suc)
  finally show "1 \<le> ev_sequence e" and "ev_sequence e \<le> length (events_of (ev_task_id e) db)"
    by auto
qed

definition add_event :: "task_event \<Rightarrow> task_db \<Rightarrow> task_db" where
  "add_event e db = db\<lparr> db_events := db_events db @ [e] \<rparr>"

definition log_event ::
  "string \<Rightarrow> task_event_type \<Rightarrow> json \<Rightarrow> string \<Rightarrow> task_db \<Rightarrow> task_db" where
  "log_event tid ty p now db =
     (let e = event_row tid (next_sequence tid db) ty p now in publish_db e (add_event e db))"

lemma events_of_add [simp]:
  "events_of tid (add_event e db) =
    (if ev_task_id e = tid then events_of tid db @ [e] else events_of tid db)"
  by (simp add: events_of_def add_event_def)

lemma add_event_fields [simp]:
  "db_tasks (add_event e db) = db_tasks db" "db_events (add_event e db) = db_events db @ [e]"
  "db_requests (add_event e db) = db_requests db" "db_locks (add_event e db) = db_locks db"
  "db_bus (add_event e db) = db_bus db" "find_task tid (add_event e db) = find_task tid db"
  by (simp_all add: add_event_def)

lemma insert_event_next:
  assumes "events_wf db"
  shows "insert_event_tx tid (next_sequence tid db) ty p now db =
    (Inr (), add_event (event_row tid (next_sequence tid db) ty p now) db)"
proof -
  have "ev_id e \<noteq> event_row_id tid (next_sequence tid db) \<and>
    \<not> (ev_task_id e = tid \<and> ev_sequence e = next_sequence tid db)" if "e \<in> set (db_events db)" for e
    using assms that event_sequence_bound [OF assms that]
    by (auto simp: events_wf_def next_sequence_eq [OF assms])
  then show ?thesis by (auto simp: insert_event_tx_def list_ex_iff add_event_def)
qed

lemma event_by_sequence_new:
  assumes "events_wf db" and "e = event_row tid (next_sequence tid db) ty p now"
    and "db_events db' = db_events db @ [e]"
  shows "event_by_sequence tid (next_sequence tid db) db' = (Inr e, db')"
proof -
  have "List.find (\<lambda>e. ev_task_id e = tid \<and> ev_sequence e = next_sequence tid db) (db_events db) = None"
    using event_sequence_bound(2) [OF assms(1)]
    by (force simp: find_None_iff next_sequence_eq [OF assms(1)])
  with assms show ?thesis by (simp add: event_by_sequence_def reads_def ok_or_def find_append)
qed

section \<open>Effects\<close>

lemma get_task_eq: "get_task tid db = (ok_or TsNotFound (find_task tid db), db)"
  by (simp add: get_task_def reads_def)

lemma log_event_fields [simp]:
  "db_tasks (log_event tid ty p now db) = db_tasks db"
  "db_requests (log_event tid ty p now db) = db_requests db"
  "db_locks (log_event tid ty p now db) = db_locks db"
  "find_task j (log_event tid ty p now db) = find_task j db"
  by (simp_all add: log_event_def Let_def)

lemma log_event_events:
  "db_events (log_event tid ty p now db) =
    db_events db @ [event_row tid (next_sequence tid db) ty p now]"
  "events_of j (log_event tid ty p now db) =
    (if j = tid then events_of tid db @ [event_row tid (next_sequence tid db) ty p now]
     else events_of j db)"
  by (auto simp: log_event_def Let_def)

lemma create_Inl:
  "create_task_validate input = Inl e \<Longrightarrow> create input now db = (Inl (TsModel e), db)"
  by (simp add: create_def op_simps)

lemma create_effect:
  assumes inv: "tasks_wf db" "events_wf db" and valid: "create_task_validate input = Inr ()"
    and tid: "tid = task_row_id (Suc (length (db_tasks db)))"
  shows "create input now db = (Inr (new_task input tid now),
    log_event tid EvQueued empty_object now (db\<lparr>db_tasks := db_tasks db @ [new_task input tid now]\<rparr>))"
proof -
  let ?t = "new_task input tid now" and ?db = "db\<lparr>db_tasks := db_tasks db @ [new_task input tid now]\<rparr>"
  have fresh: "find_task tid db = None" using fresh_task_id [OF inv(1)] tid by simp
  have id: "task_id ?t = tid" by (simp add: new_task_def)
  from fresh have "\<not> list_ex (\<lambda>t. task_id t = tid) (db_tasks db)"
    by (auto simp: task_table.lookup_None list_ex_iff)
  then have ins: "insert_task_tx input tid now db = (Inr (), ?db)" by (simp add: insert_task_tx_def)
  have found: "find_task j ?db = (if j = tid then Some ?t else find_task j db)" for j
    using task_table.lookup_insert [of ?db db ?t j] fresh id by (simp add: task_table.lookup_None)
  have wf: "events_wf ?db"
    using inv(2) by (auto simp: events_wf_def found fresh)
  have no_events: "events_of tid db = []"
    using inv(2) fresh by (auto simp: events_wf_def events_of_def filter_empty_conv)
  then have seq: "next_sequence tid ?db = 1" using next_sequence_eq [OF wf, of tid] by simp
  let ?e = "event_row tid 1 EvQueued empty_object now"
  have "insert_event_tx tid 1 EvQueued empty_object now ?db = (Inr (), add_event ?e ?db)"
    using insert_event_next [OF wf, of tid EvQueued empty_object now] by (simp add: seq)
  moreover have "event_by_sequence tid 1 (add_event ?e ?db) = (Inr ?e, add_event ?e ?db)"
    using event_by_sequence_new [OF wf, of ?e tid EvQueued empty_object now "add_event ?e ?db"]
    by (simp add: seq)
  ultimately show ?thesis
    using valid ins by (simp add: create_def op_simps publish_if_configured_def get_task_def
        found log_event_def seq Let_def tid [symmetric])
qed

lemma append_event_effect:
  assumes wf: "events_wf db" and "find_task tid db = Some t"
  shows "append_event tid ty p now db =
    (Inr (event_row tid (next_sequence tid db) ty p now), log_event tid ty p now db)"
proof -
  let ?e = "event_row tid (next_sequence tid db) ty p now"
  have "event_by_sequence tid (next_sequence tid db) (add_event ?e db) = (Inr ?e, add_event ?e db)"
    by (rule event_by_sequence_new [OF wf]) simp_all
  with assms insert_event_next [OF wf, of tid ty p now] show ?thesis
    by (simp add: append_event_def op_simps get_task_def publish_if_configured_def log_event_def Let_def)
qed

lemma append_event_missing: "find_task tid db = None \<Longrightarrow> append_event tid ty p now db = (Inl TsNotFound, db)"
  by (simp add: append_event_def op_simps get_task_def)

text \<open>The write half of a transition, with the sequence number read just before.\<close>

definition transition_db ::
  "string \<Rightarrow> task_status \<Rightarrow> json option \<Rightarrow> string \<Rightarrow> task_db \<Rightarrow> task_db" where
  "transition_db tid next payload now db =
     (let db' = log_event tid (event_type_for_status next) (unwrap_or payload empty_object) now
                  (update_task tid (apply_status next now) db)
      in if is_terminal next then db'\<lparr>db_locks := release_held tid now (db_locks db)\<rparr> else db')"

lemma events_wf_update_task:
  assumes "\<And>t. task_id (f t) = task_id t"
  shows "events_wf (update_task k f db) = events_wf db"
  by (auto simp: events_wf_def find_update_task assms simp del: upt_Suc split: if_splits)

lemma next_sequence_update_task [simp]: "next_sequence tid (update_task k f db) = next_sequence tid db"
  by (simp add: next_sequence_def)

lemma transition_commit_effect:
  assumes wf: "events_wf db" and found: "find_task tid db = Some t"
  shows "transition_commit tid (next_sequence tid db) next payload now db =
    (Inr (apply_status next now t), transition_db tid next payload now db)"
proof -
  let ?n = "next_sequence tid db" and ?u = "update_task tid (apply_status next now) db"
  let ?e = "event_row tid ?n (event_type_for_status next) (unwrap_or payload empty_object) now"
  have wf': "events_wf ?u" using wf by (simp add: events_wf_update_task)
  have get: "find_task tid ?u = Some (apply_status next now t)"
    using found by (simp add: find_update_task)
  have ins: "insert_event_tx tid ?n (event_type_for_status next) (unwrap_or payload empty_object) now ?u =
      (Inr (), add_event ?e ?u)"
    using insert_event_next [OF wf', of tid] by simp
  have fetch: "event_by_sequence tid ?n db' = (Inr ?e, db')" if "db_events db' = db_events db @ [?e]" for db'
    using event_by_sequence_new [OF wf, of ?e tid] that by simp
  show ?thesis
  proof (cases "is_terminal next")
    case True
    let ?r = "(add_event ?e ?u)\<lparr>db_locks := release_held tid now (db_locks db)\<rparr>"
    from fetch [of ?r] True ins get show ?thesis
      by (simp add: transition_commit_def op_simps publish_if_configured_def get_task_def
          release_locks_tx_def transition_db_def log_event_def Let_def publish_db_def)
  next
    case False
    from fetch [of "add_event ?e ?u"] False ins get show ?thesis
      by (simp add: transition_commit_def op_simps publish_if_configured_def get_task_def
          transition_db_def log_event_def Let_def)
  qed
qed

lemma transition_missing: "find_task tid db = None \<Longrightarrow> transition tid next p now db = (Inl TsNotFound, db)"
  by (simp add: transition_def op_simps get_task_def)

lemma transition_Inl:
  "find_task tid db = Some t \<Longrightarrow> validate_transition (task_status t) next = Inl e \<Longrightarrow>
   transition tid next p now db = (Inl (TsState e), db)"
  by (simp add: transition_def op_simps get_task_def)

lemma transition_idempotent:
  "find_task tid db = Some t \<Longrightarrow> task_status t = next \<Longrightarrow> is_terminal next \<Longrightarrow>
   transition tid next p now db = (Inr t, db)"
  by (simp add: transition_def op_simps get_task_def validate_transition_def)

lemma transition_effect:
  assumes "events_wf db" and "find_task tid db = Some t" and "allowed_transition (task_status t) next"
  shows "transition tid next p now db =
    (Inr (apply_status next now t), transition_db tid next p now db)"
  using assms
  by (simp add: transition_def op_simps get_task_def transition_commit_effect
      validate_transition_Changed [THEN iffD2, OF assms(3)] del: validate_transition_Changed)

lemma transition_cases:
  assumes "events_wf db"
  obtains "find_task tid db = None" "transition tid next p now db = (Inl TsNotFound, db)"
  | t e where "find_task tid db = Some t" "validate_transition (task_status t) next = Inl e"
      "transition tid next p now db = (Inl (TsState e), db)"
  | t where "find_task tid db = Some t" "task_status t = next" "is_terminal next"
      "transition tid next p now db = (Inr t, db)"
  | t where "find_task tid db = Some t" "allowed_transition (task_status t) next"
      "transition tid next p now db =
        (Inr (apply_status next now t), transition_db tid next p now db)"
proof (cases "find_task tid db")
  case None
  then show ?thesis using that(1) transition_missing by blast
next
  case (Some t)
  show ?thesis
  proof (cases "validate_transition (task_status t) next")
    case (Inl e)
    with Some show ?thesis using that(2) transition_Inl by blast
  next
    case (Inr tr)
    then show ?thesis
      using Some that(3,4) transition_idempotent transition_effect [OF assms]
      by (cases tr) (simp_all, blast+)
  qed
qed

end
