(* ===== verification/Task_Store_Steps.thy ===== *)
theory Task_Store_Steps
  imports Task_Store_Inv
begin

text \<open>
  Permission requests and locks of the task store, preservation of the invariant by every operation,
  and the step relation of the store with its reachable states.
\<close>

section \<open>Ordered queries\<close>

lemma events_numbered:
  "events_wf db \<Longrightarrow> map ev_sequence (events_of tid db) = [Suc 0..<Suc (length (events_of tid db))]"
  by (simp add: events_wf_def del: upt_Suc)

lemma events_sorted: "events_wf db \<Longrightarrow> sorted (map ev_sequence (events_of tid db))"
  by (simp add: events_wf_def del: upt_Suc)

lemma sort_events_id [simp]:
  "events_wf db \<Longrightarrow> sort_key ev_sequence (filter P (events_of tid db)) = filter P (events_of tid db)"
  by (simp add: sort_key_id_if_sorted sorted_filter events_sorted)

lemma filter_after_drop:
  "map f xs = [Suc 0..<Suc (length xs)] \<Longrightarrow> filter (\<lambda>e. c < f e) xs = drop c xs"
proof (induction xs rule: rev_induct)
  case (snoc x xs)
  then have "map f xs = [Suc 0..<Suc (length xs)]" and fx: "f x = Suc (length xs)" by simp_all
  with snoc.IH show ?case by auto
qed simp

lemma list_events_after_eq:
  "events_wf db \<Longrightarrow> list_events_after tid c db = (Inr (drop c (events_of tid db)), db)"
  using sort_events_id [of db "\<lambda>e. c < ev_sequence e" tid]
    filter_after_drop [OF events_numbered [of db tid], where c = c]
  by (simp add: list_events_after_def reads_def)

lemma query_decision_eq:
  "events_wf db \<Longrightarrow> query_permission_decision_event tid rid db =
    (case filter (decided_for rid) (events_of tid db) of [] \<Rightarrow> None | e # _ \<Rightarrow> Some e)"
proof -
  assume "events_wf db"
  then have "sort_key ev_sequence (filter (decided_for rid) (events_of tid db)) =
    filter (decided_for rid) (events_of tid db)" by simp
  then show ?thesis by (simp add: query_permission_decision_event_def decided_for_def [abs_def])
qed

section \<open>Logging an event\<close>

definition output_ok :: "string \<Rightarrow> task_event_type \<Rightarrow> json \<Rightarrow> task_db \<Rightarrow> bool" where
  "output_ok tid ty p db \<longleftrightarrow> status_of_event ty = None \<and>
     (\<forall>rid. ty = ProviderPermissionDecided \<longrightarrow> get_str p ''request_id'' = Some rid \<longrightarrow>
        (\<exists>q. query_permission_request tid rid db = Some q \<and> prr_status q \<noteq> Pending))"

lemma events_wf_log:
  assumes wf: "events_wf db" and "find_task tid db \<noteq> None"
  shows "events_wf (log_event tid ty p now db)"
proof -
  have "map ev_sequence (events_of j (log_event tid ty p now db)) =
      [1..<Suc (length (events_of j (log_event tid ty p now db)))]" for j
    using events_numbered [OF wf, of j] upt_Suc [of "Suc 0" "Suc (length (events_of tid db))"]
    by (auto simp: log_event_events next_sequence_eq [OF wf] simp del: upt_Suc)
  with assms show ?thesis by (auto simp: events_wf_def log_event_events(1) simp del: upt_Suc)
qed

lemma bus_wf_log: "bus_wf db \<Longrightarrow> bus_wf (log_event tid ty p now db)"
  by (auto simp: bus_wf_def log_event_def Let_def publish_db_def bus_publish_def bus_inv_def
      split: option.splits)

lemma status_log_log:
  "status_log j (log_event tid ty p now db) =
    (if j = tid then status_log tid db @ (case status_of_event ty of None \<Rightarrow> [] | Some s \<Rightarrow> [s])
     else status_log j db)"
  by (auto simp: status_log_def log_event_events List.map_filter_def split: option.splits)

lemma status_log_frame [simp]:
  "status_log j (update_task k f db) = status_log j db"
  "status_log j (db\<lparr>db_tasks := ts\<rparr>) = status_log j db"
  "status_log j (db\<lparr>db_locks := ls\<rparr>) = status_log j db"
  "status_log j (db\<lparr>db_requests := qs\<rparr>) = status_log j db"
  by (simp_all add: status_log_def)

lemma status_log_empty: "events_of tid db = [] \<Longrightarrow> status_log tid db = []"
  by (simp add: status_log_def List.map_filter_def)

lemma run_to_single [simp]: "run_to [s] r \<longleftrightarrow> s = Queued \<and> r = Queued"
  by (auto simp: run_to_def)

lemma query_request_frame [simp]:
  "query_permission_request tid rid (log_event j ty p now db) = query_permission_request tid rid db"
  "query_permission_request tid rid (update_task k f db) = query_permission_request tid rid db"
  "query_permission_request tid rid (db\<lparr>db_locks := ls\<rparr>) = query_permission_request tid rid db"
  "query_permission_request tid rid (db\<lparr>db_tasks := ts\<rparr>) = query_permission_request tid rid db"
  by (simp_all add: query_permission_request_def)

lemma request_found:
  assumes "distinct (map prr_request_id (db_requests db))" and "q \<in> set (db_requests db)"
  shows "query_permission_request (prr_task_id q) (prr_request_id q) db = Some q"
proof -
  have "List.find (\<lambda>r. prr_task_id r = prr_task_id q \<and> prr_request_id r = prr_request_id q) rs = Some q"
    if "distinct (map prr_request_id rs)" and "q \<in> set rs" for rs
    using that by (induction rs) force+
  with assms show ?thesis by (simp add: query_permission_request_def)
qed

lemma request_foundD:
  "query_permission_request tid rid db = Some q \<Longrightarrow>
   q \<in> set (db_requests db) \<and> prr_task_id q = tid \<and> prr_request_id q = rid"
  by (auto simp: query_permission_request_def find_Some_iff)

lemma from_decision_not_Pending [simp]: "from_decision d \<noteq> Pending" "Pending \<noteq> from_decision d"
  by (cases d; simp)+

lemma request_ok_status:
  "request_ok q db \<Longrightarrow>
   (prr_status q = Pending \<longleftrightarrow> filter (decided_for (prr_request_id q)) (events_of (prr_task_id q) db) = [])"
  by (cases "filter (decided_for (prr_request_id q)) (events_of (prr_task_id q) db)")
    (auto simp: request_ok_def)

lemma request_ok_log:
  assumes "request_ok q db"
    and "decided_for (prr_request_id q) (event_row tid n ty p now) \<Longrightarrow> prr_task_id q = tid \<Longrightarrow>
      prr_status q \<noteq> Pending"
    and "n = next_sequence tid db"
  shows "request_ok q (log_event tid ty p now db)"
  using assms request_ok_status [OF assms(1)]
  by (auto simp: request_ok_def log_event_events split: list.splits)

lemma requests_wf_log:
  assumes wf: "requests_wf db" and out: "output_ok tid ty p db \<or> ty \<noteq> ProviderPermissionDecided"
  shows "requests_wf (log_event tid ty p now db)"
proof -
  have decided: "\<exists>q. query_permission_request tid rid db = Some q \<and> prr_status q \<noteq> Pending"
    if "decided_for rid (event_row tid n ty p now)" for rid n
    using out that by (auto simp: output_ok_def decided_for_def)
  have "request_ok q (log_event tid ty p now db)" if q: "q \<in> set (db_requests db)" for q
  proof (rule request_ok_log [where n = "next_sequence tid db"])
    show "request_ok q db" using wf q by (simp add: requests_wf_def)
    assume "decided_for (prr_request_id q) (event_row tid (next_sequence tid db) ty p now)"
      and "prr_task_id q = tid"
    with decided q wf request_found [of db q] show "prr_status q \<noteq> Pending"
      by (fastforce simp: requests_wf_def)
  qed simp
  with wf decided show ?thesis by (fastforce simp: requests_wf_def log_event_events(1))
qed

lemma locks_owned_log [simp]: "locks_owned (log_event tid ty p now db) = locks_owned db"
  by (simp add: locks_owned_def)

lemma tasks_wf_log [simp]: "tasks_wf (log_event tid ty p now db) = tasks_wf db"
  by (simp add: tasks_wf_def)

lemma stamps_wf_log [simp]: "stamps_wf (log_event tid ty p now db) = stamps_wf db"
  by (simp add: stamps_wf_def)

lemma task_db_inv_output:
  assumes inv: "task_db_inv db" and "find_task tid db \<noteq> None" and out: "output_ok tid ty p db"
  shows "task_db_inv (log_event tid ty p now db)"
proof -
  have "log_wf (log_event tid ty p now db)"
    using inv out by (auto simp: task_db_inv_def log_wf_def status_log_log output_ok_def)
  with assms show ?thesis
    by (simp add: task_db_inv_def events_wf_log bus_wf_log requests_wf_log)
qed

section \<open>Creating a task\<close>

lemma insert_task_found:
  assumes "tasks_wf db" and tid: "tid = task_row_id (Suc (length (db_tasks db)))" and "task_id t = tid"
  shows "find_task j (db\<lparr>db_tasks := db_tasks db @ [t]\<rparr>) = (if j = tid then Some t else find_task j db)"
  using task_table.lookup_insert [of "db\<lparr>db_tasks := db_tasks db @ [t]\<rparr>" db t j]
    fresh_task_id [OF assms(1)] assms by (simp add: task_table.lookup_None)

lemma new_task_fields [simp]:
  "task_id (new_task i tid now) = tid" "task_status (new_task i tid now) = Queued"
  "stamps_ok (new_task i tid now)"
  by (simp_all add: new_task_def stamps_ok_def)

lemma task_db_inv_create:
  assumes inv: "task_db_inv db" and valid: "create_task_validate input = Inr ()"
  shows "task_db_inv (snd (create input now db))"
proof -
  define tid where "tid = task_row_id (Suc (length (db_tasks db)))"
  let ?t = "new_task input tid now"
  let ?u = "db\<lparr>db_tasks := db_tasks db @ [new_task input tid now]\<rparr>"
  let ?db = "log_event tid EvQueued empty_object now ?u"
  note parts = inv [unfolded task_db_inv_def]
  have fresh: "find_task tid db = None" using parts fresh_task_id tid_def by simp
  have found: "find_task j ?u = (if j = tid then Some ?t else find_task j db)" for j
    using insert_task_found [of db tid ?t] parts tid_def by simp
  have no_events: "events_of tid db = []"
    using parts fresh by (auto simp: events_wf_def events_of_def filter_empty_conv)
  have "tasks_wf ?u"
    using parts by (simp add: tasks_wf_def tid_def)
  moreover have "events_wf ?u"
    using parts by (auto simp: events_wf_def found simp del: upt_Suc)
  moreover have "log_wf ?db"
    using parts status_log_empty [OF no_events] by (auto simp: log_wf_def status_log_log found)
  moreover have "stamps_wf ?u" using parts by (auto simp: stamps_wf_def)
  moreover have "locks_owned ?u"
    using parts fresh by (auto simp: locks_owned_def found)
  moreover have "requests_wf ?u"
    using parts fresh by (auto simp: requests_wf_def found request_ok_def)
  moreover have "bus_wf ?u" using parts by (simp add: bus_wf_def split: option.splits)
  ultimately have "task_db_inv ?db"
    using parts by (simp add: task_db_inv_def events_wf_log bus_wf_log requests_wf_log found)
  then show ?thesis
    using create_effect [of db input tid now] parts valid tid_def by simp
qed

section \<open>Transitions\<close>

lemma run_to_snoc: "run_to ss s \<Longrightarrow> allowed_transition s n \<Longrightarrow> run_to (ss @ [n]) n"
  by (auto simp: run_to_def successively_append_iff)

lemma stamps_ok_apply:
  "stamps_ok t \<Longrightarrow> allowed_transition (task_status t) next \<Longrightarrow> stamps_ok (apply_status next now t)"
  by (cases "task_status t"; cases "next")
    (auto simp: stamps_ok_def apply_status_def allowed_transition_def coalesce_def timestamp_if_def)

lemma release_held_iff:
  "l \<in> set (release_held tid now ls) \<and> held l \<longleftrightarrow> l \<in> set ls \<and> held l \<and> lk_task_id l \<noteq> tid"
  by (auto simp: release_held_def set_update_rows held_def)

lemma lock_key_release [simp]: "map lock_key (release_held tid now ls) = map lock_key ls"
  unfolding release_held_def by (rule map_update_rows) (simp add: lock_key_def)

lemma locks_compatible_release: "locks_compatible ls \<Longrightarrow> locks_compatible (release_held tid now ls)"
  unfolding locks_compatible_def using release_held_iff [of _ tid now ls] by auto

lemma task_db_inv_transition:
  assumes inv: "task_db_inv db" and t: "find_task tid db = Some t"
    and allowed: "allowed_transition (task_status t) next"
  shows "task_db_inv (transition_db tid next p now db)"
proof -
  let ?u = "update_task tid (apply_status next now) db"
  let ?p = "unwrap_or p empty_object"
  let ?db = "log_event tid (event_type_for_status next) ?p now ?u"
  note parts = inv [unfolded task_db_inv_def]
  have found: "find_task j ?u = (if j = tid then Some (apply_status next now t) else find_task j db)" for j
    using t by (simp add: find_update_task)
  have ev: "status_of_event (event_type_for_status next) = Some next"
    "event_type_for_status next \<noteq> ProviderPermissionDecided" by (cases "next"; simp)+
  have tasks: "tasks_wf ?u"
    using parts by (simp add: tasks_wf_def update_task_def map_update_rows)
  have events: "events_wf ?u" using parts by (simp add: events_wf_update_task)
  have log: "log_wf ?db"
    using parts t allowed
    by (auto simp: log_wf_def status_log_log found ev intro: run_to_snoc)
  have stamps: "stamps_wf ?u"
    using parts allowed task_table.lookup_Some [of db tid] t
    by (force simp: stamps_wf_def update_task_def set_update_rows intro: stamps_ok_apply
        dest: task_table.row_unique)
  have reqs: "requests_wf ?u" using parts by (auto simp: requests_wf_def found request_ok_def)
  have bus: "bus_wf ?u" using parts by (simp add: bus_wf_def split: option.splits)
  have rest: "tasks_wf ?db" "events_wf ?db" "log_wf ?db" "stamps_wf ?db" "requests_wf ?db" "bus_wf ?db"
    using tasks events log stamps reqs bus ev
    by (simp_all add: events_wf_log requests_wf_log bus_wf_log found)
  show ?thesis
  proof (cases "is_terminal next")
    case True
    let ?r = "?db\<lparr>db_locks := release_held tid now (db_locks db)\<rparr>"
    have "locks_owned ?r"
      using parts t release_held_iff [of _ tid now "db_locks db"]
      by (auto simp: locks_owned_def found)
    moreover have "tasks_wf ?r" "events_wf ?r" "log_wf ?r" "stamps_wf ?r" "requests_wf ?r" "bus_wf ?r"
      using rest
      by (simp_all add: tasks_wf_def events_wf_def log_wf_def stamps_wf_def requests_wf_def bus_wf_def
          request_ok_def del: upt_Suc split: option.splits)
    ultimately show ?thesis
      using True parts by (simp add: task_db_inv_def transition_db_def locks_compatible_release)
  next
    case False
    then have "locks_owned ?db" using parts t by (auto simp: locks_owned_def found)
    with False rest parts show ?thesis by (simp add: task_db_inv_def transition_db_def)
  qed
qed

section \<open>Permission requests\<close>

lemma request_row_fields [simp]:
  "prr_request_id (request_row tid n q now) = pq_request_id q"
  "prr_task_id (request_row tid n q now) = tid" "prr_status (request_row tid n q now) = Pending"
  "prr_response (request_row tid n q now) = None"
  by (simp_all add: request_row_def)

definition record_db :: "string \<Rightarrow> permission_request_event \<Rightarrow> string \<Rightarrow> task_db \<Rightarrow> task_db" where
  "record_db tid q now db =
     (log_event tid ProviderPermissionRequested (request_event_to_value q) now db)
       \<lparr>db_requests := db_requests db @ [request_row tid (next_sequence tid db) q now]\<rparr>"

lemma record_missing:
  "find_task tid db = None \<Longrightarrow> record_permission_request tid q now db = (Inl TsNotFound, db)"
  by (simp add: record_permission_request_def op_simps get_task_def)

lemma record_duplicate:
  assumes "events_wf db" and "find_task tid db = Some t"
    and "pq_request_id q \<in> prr_request_id ` set (db_requests db)"
  shows "record_permission_request tid q now db = (Inl constraint_failed, db)"
  using assms insert_event_next [OF assms(1), of tid]
  by (auto simp: record_permission_request_def op_simps get_task_def insert_request_tx_def list_ex_iff)

lemma record_effect:
  assumes wf: "events_wf db" and t: "find_task tid db = Some t"
    and fresh: "pq_request_id q \<notin> prr_request_id ` set (db_requests db)"
  shows "record_permission_request tid q now db =
    (Inr (event_row tid (next_sequence tid db) ProviderPermissionRequested (request_event_to_value q) now),
     record_db tid q now db)"
proof -
  let ?n = "next_sequence tid db"
  let ?e = "event_row tid ?n ProviderPermissionRequested (request_event_to_value q) now"
  let ?db = "(add_event ?e db)\<lparr>db_requests := db_requests db @ [request_row tid ?n q now]\<rparr>"
  have "insert_request_tx tid ?n q now (add_event ?e db) = (Inr (), ?db)"
    using fresh by (force simp: insert_request_tx_def list_ex_iff)
  moreover have "event_by_sequence tid ?n ?db = (Inr ?e, ?db)"
    by (rule event_by_sequence_new [OF wf]) simp_all
  ultimately show ?thesis
    using t insert_event_next [OF wf, of tid]
    by (simp add: record_permission_request_def op_simps get_task_def publish_if_configured_def
        record_db_def log_event_def Let_def publish_db_def)
qed

lemma no_decision_for_unknown:
  assumes "requests_wf db" and "query_permission_request tid rid db = None"
  shows "filter (decided_for rid) (events_of tid db) = []"
  using assms by (fastforce simp: requests_wf_def filter_empty_conv events_of_def)

lemma task_db_inv_requests:
  assumes "task_db_inv db" and "requests_wf (db\<lparr>db_requests := qs\<rparr>)"
  shows "task_db_inv (db\<lparr>db_requests := qs\<rparr>)"
  using assms
  by (simp add: task_db_inv_def tasks_wf_def events_wf_def log_wf_def stamps_wf_def locks_owned_def
      bus_wf_def split: option.splits del: upt_Suc)

lemma task_db_inv_record:
  assumes inv: "task_db_inv db" and t: "find_task tid db = Some t"
    and fresh: "pq_request_id q \<notin> prr_request_id ` set (db_requests db)"
  shows "task_db_inv (record_db tid q now db)"
proof -
  let ?rid = "pq_request_id q" and ?row = "request_row tid (next_sequence tid db) q now"
  let ?log = "log_event tid ProviderPermissionRequested (request_event_to_value q) now db"
  let ?db = "?log\<lparr>db_requests := db_requests db @ [?row]\<rparr>"
  have reqs: "requests_wf db" using inv by (simp add: task_db_inv_def)
  have log: "task_db_inv ?log"
    using inv t by (intro task_db_inv_output) (simp_all add: output_ok_def)
  then have reqs': "requests_wf ?log" by (simp add: task_db_inv_def)
  have "query_permission_request tid ?rid db = None"
    using fresh by (force simp: query_permission_request_def find_None_iff)
  then have "filter (decided_for ?rid) (events_of tid ?log) = []"
    using no_decision_for_unknown [OF reqs] by (simp add: log_event_events decided_for_def)
  then have "request_ok ?row ?log" by (simp add: request_ok_def)
  moreover have "query_permission_request j rid ?db \<noteq> None"
    if "query_permission_request j rid ?log \<noteq> None" for j rid
    using that by (auto simp: query_permission_request_def find_append)
  ultimately have "requests_wf ?db"
    using reqs' fresh t by (auto simp: requests_wf_def request_ok_def)
  with log show ?thesis by (simp add: record_db_def task_db_inv_requests)
qed

definition resolve_db ::
  "string \<Rightarrow> permission_decision_event \<Rightarrow> string \<Rightarrow> task_db \<Rightarrow> task_db" where
  "resolve_db tid d now db =
     (log_event tid ProviderPermissionDecided (decision_event_to_value d) now db)
       \<lparr>db_requests := update_rows (\<lambda>r. prr_request_id r = pd_request_id d \<and> prr_task_id r = tid)
          (resolve_row d now) (db_requests db)\<rparr>"

lemma resolve_missing:
  "find_task tid db = None \<Longrightarrow>
   resolve_permission_request tid rid dec reason now db = (Inl TsNotFound, db)"
  "find_task tid db = Some t \<Longrightarrow> query_permission_request tid rid db = None \<Longrightarrow>
   resolve_permission_request tid rid dec reason now db = (Inl PermissionRequestNotFound, db)"
  by (simp_all add: resolve_permission_request_def op_simps get_task_def)

lemma resolve_pending_effect:
  assumes wf: "events_wf db" and t: "find_task tid db = Some t"
    and q: "query_permission_request tid rid db = Some q" and "prr_status q = Pending"
    and d: "d = \<lparr>pd_request_id = rid, pd_decision = dec, pd_reason = reason\<rparr>"
    and e: "e = event_row tid (next_sequence tid db) ProviderPermissionDecided (decision_event_to_value d) now"
  shows "resolve_permission_request tid rid dec reason now db =
    (Inr \<lparr>rs_task_id = tid, rs_request_id = rid, rs_status = from_decision dec, rs_decision = dec,
          rs_event = e, rs_duplicated = False\<rparr>, resolve_db tid d now db)"
proof -
  let ?db = "(add_event e db)\<lparr>db_requests :=
    update_rows (\<lambda>r. prr_request_id r = rid \<and> prr_task_id r = tid) (resolve_row d now) (db_requests db)\<rparr>"
  have "event_by_sequence tid (next_sequence tid db) ?db = (Inr e, ?db)"
    by (rule event_by_sequence_new [OF wf e]) simp
  moreover have "insert_event_tx tid (next_sequence tid db) ProviderPermissionDecided
      (decision_event_to_value d) now db = (Inr (), add_event e db)"
    using insert_event_next [OF wf] e by simp
  ultimately show ?thesis
    using assms(2-4) e [symmetric]
    by (simp add: resolve_permission_request_def op_simps get_task_def publish_if_configured_def
        resolve_db_def log_event_def Let_def publish_db_def d)
qed

lemma resolve_again:
  assumes wf: "events_wf db" "requests_wf db" and t: "find_task tid db = Some t"
    and q: "query_permission_request tid rid db = Some q" and st: "prr_status q \<noteq> Pending"
  obtains d e where "prr_response q = Some d" and "ev_payload e = decision_event_to_value d"
    and "e \<in> set (events_of tid db)" and "pd_request_id d = rid"
    and "prr_status q = from_decision (pd_decision d)"
    and "\<And>reason now. resolve_permission_request tid rid (pd_decision d) reason now db =
      (Inr \<lparr>rs_task_id = tid, rs_request_id = rid, rs_status = prr_status q,
            rs_decision = pd_decision d, rs_event = e, rs_duplicated = True\<rparr>, db)"
    and "\<And>dec reason now. dec \<noteq> pd_decision d \<Longrightarrow>
      resolve_permission_request tid rid dec reason now db = (Inl PermissionRequestAlreadyResolved, db)"
proof -
  from request_foundD [OF q] have row: "q \<in> set (db_requests db)" "prr_task_id q = tid"
    "prr_request_id q = rid" by simp_all
  then have ok: "request_ok q db" using wf by (simp add: requests_wf_def)
  with st obtain e es where f: "filter (decided_for rid) (events_of tid db) = e # es"
    using request_ok_status row by (metis neq_Nil_conv)
  with ok row obtain d where d: "prr_response q = Some d" "pd_request_id d = rid"
    "prr_status q = from_decision (pd_decision d)" "ev_payload e = decision_event_to_value d"
    by (auto simp: request_ok_def)
  from f have ev: "query_permission_decision_event tid rid db = Some e"
    by (simp add: query_decision_eq wf)
  have mem: "e \<in> set (events_of tid db)"
    using f by (metis filter_is_subset list.set_intros(1) subsetD)
  show ?thesis
  proof (rule that [OF d(1) d(4) mem d(2) d(3)])
    show "resolve_permission_request tid rid (pd_decision d) reason now db =
      (Inr \<lparr>rs_task_id = tid, rs_request_id = rid, rs_status = prr_status q,
            rs_decision = pd_decision d, rs_event = e, rs_duplicated = True\<rparr>, db)" for reason now
      using t q st d ev by (simp add: resolve_permission_request_def op_simps get_task_def)
    show "resolve_permission_request tid rid dec reason now db = (Inl PermissionRequestAlreadyResolved, db)"
      if "dec \<noteq> pd_decision d" for dec reason now
      using t q st d that by (auto simp: resolve_permission_request_def op_simps get_task_def)
  qed
qed

lemma task_db_inv_resolve:
  assumes inv: "task_db_inv db" and t: "find_task tid db = Some t"
    and q: "query_permission_request tid (pd_request_id d) db = Some q" and pending: "prr_status q = Pending"
  shows "task_db_inv (resolve_db tid d now db)"
proof -
  let ?rid = "pd_request_id d" and ?p = "decision_event_to_value d"
  let ?log = "log_event tid ProviderPermissionDecided ?p now db"
  let ?sel = "\<lambda>r. prr_request_id r = ?rid \<and> prr_task_id r = tid"
  let ?qs = "update_rows ?sel (resolve_row d now) (db_requests db)"
  let ?e = "event_row tid (next_sequence tid db) ProviderPermissionDecided ?p now"
  have wf: "requests_wf db" and ids: "distinct (map prr_request_id (db_requests db))"
    using inv by (simp_all add: task_db_inv_def requests_wf_def)
  from request_foundD [OF q] have row: "q \<in> set (db_requests db)" "prr_task_id q = tid"
    "prr_request_id q = ?rid" by simp_all
  have none: "filter (decided_for ?rid) (events_of tid db) = []"
    using wf row pending request_ok_status [of q db] by (simp add: requests_wf_def)
  have keys: "prr_request_id (resolve_row d now r) = prr_request_id r"
    "prr_task_id (resolve_row d now r) = prr_task_id r" for r
    by (simp_all add: resolve_row_def)
  have same: "x = q" if "x \<in> set (db_requests db)" "prr_request_id x = ?rid" for x
    using ids row that by (metis distinct_map inj_onD)
  have ok: "request_ok r (?log\<lparr>db_requests := ?qs\<rparr>)" if r: "r \<in> set ?qs" for r
  proof (cases "?sel r")
    case True
    with r have "r = resolve_row d now q" by (auto simp: set_update_rows keys dest: same)
    with True none show ?thesis
      by (simp add: request_ok_def log_event_events resolve_row_def decided_for_def)
  next
    case False
    with r have old: "r \<in> set (db_requests db)" by (auto simp: set_update_rows keys)
    moreover have "\<not> (decided_for (prr_request_id r) ?e \<and> prr_task_id r = tid)"
      using False by (auto simp: decided_for_def)
    ultimately show ?thesis
      using wf request_ok_log [of r db tid "next_sequence tid db" ProviderPermissionDecided ?p now]
      by (simp add: requests_wf_def request_ok_def)
  qed
  have found: "query_permission_request j rid (?log\<lparr>db_requests := ?qs\<rparr>) \<noteq> None"
    if "query_permission_request j rid db \<noteq> None" for j rid
  proof -
    from that obtain x where "query_permission_request j rid db = Some x" by blast
    then have x: "x \<in> set (db_requests db)" "prr_task_id x = j" "prr_request_id x = rid"
      by (auto dest: request_foundD)
    then have "(if ?sel x then resolve_row d now x else x) \<in> set ?qs"
      by (auto simp: update_rows_def)
    moreover have "prr_task_id (if ?sel x then resolve_row d now x else x) = j"
      "prr_request_id (if ?sel x then resolve_row d now x else x) = rid"
      using x by (simp_all add: keys)
    ultimately show ?thesis by (auto simp: query_permission_request_def find_None_iff)
  qed
  have "requests_wf (?log\<lparr>db_requests := ?qs\<rparr>)"
    unfolding requests_wf_def
  proof (intro conjI allI impI)
    show "distinct (map prr_request_id (db_requests (?log\<lparr>db_requests := ?qs\<rparr>)))"
      using ids by (simp add: map_update_rows keys)
    show "find_task (prr_task_id r) (?log\<lparr>db_requests := ?qs\<rparr>) \<noteq> None"
      if "r \<in> set (db_requests (?log\<lparr>db_requests := ?qs\<rparr>))" for r
      using that wf by (auto simp: requests_wf_def set_update_rows keys)
    show "request_ok r (?log\<lparr>db_requests := ?qs\<rparr>)"
      if "r \<in> set (db_requests (?log\<lparr>db_requests := ?qs\<rparr>))" for r
      using that ok by simp
    show "query_permission_request (ev_task_id e) rid (?log\<lparr>db_requests := ?qs\<rparr>) \<noteq> None"
      if "e \<in> set (db_events (?log\<lparr>db_requests := ?qs\<rparr>))" and "decided_for rid e" for e rid
    proof (rule found)
      show "query_permission_request (ev_task_id e) rid db \<noteq> None"
        using that wf q by (auto simp: requests_wf_def log_event_events(1) decided_for_def)
    qed
  qed
  moreover have "events_wf ?log" "bus_wf ?log" "log_wf ?log"
    using inv t by (simp_all add: task_db_inv_def events_wf_log bus_wf_log log_wf_def status_log_log)
  ultimately show ?thesis
    using inv
    by (simp add: task_db_inv_def resolve_db_def tasks_wf_def events_wf_def log_wf_def stamps_wf_def
        locks_owned_def bus_wf_def split: option.splits del: upt_Suc)
qed

section \<open>Results and locks\<close>

lemma task_db_inv_update:
  assumes inv: "task_db_inv db"
    and f: "\<And>t. task_id (f t) = task_id t" "\<And>t. task_status (f t) = task_status t"
      "\<And>t. stamps_ok (f t) = stamps_ok t"
  shows "task_db_inv (update_task tid f db)"
proof -
  let ?u = "update_task tid f db"
  note parts = inv [unfolded task_db_inv_def]
  have "tasks_wf ?u" using parts by (simp add: tasks_wf_def update_task_def map_update_rows f)
  moreover have "events_wf ?u" using parts by (simp add: events_wf_update_task f)
  moreover have "log_wf ?u" using parts by (auto simp: log_wf_def find_update_task f)
  moreover have "stamps_wf ?u"
    using parts by (auto simp: stamps_wf_def update_task_def set_update_rows f)
  moreover have "locks_owned ?u"
    using parts by (fastforce simp: locks_owned_def find_update_task f)
  moreover have "requests_wf ?u"
    using parts by (auto simp: requests_wf_def find_update_task f request_ok_def)
  moreover have "bus_wf ?u" using parts by (simp add: bus_wf_def split: option.splits)
  ultimately show ?thesis using parts by (simp add: task_db_inv_def)
qed

lemma task_db_inv_locks:
  assumes "task_db_inv db" and "locks_compatible ls" and "locks_owned (db\<lparr>db_locks := ls\<rparr>)"
  shows "task_db_inv (db\<lparr>db_locks := ls\<rparr>)"
  using assms
  by (simp add: task_db_inv_def tasks_wf_def events_wf_def log_wf_def stamps_wf_def requests_wf_def
      request_ok_def bus_wf_def split: option.splits del: upt_Suc)

lemma acquire_lock_eq:
  "acquire_lock r now db =
    (if lock_conflict r db then (Inr False, db) else (Inr True, insert_lock r now db))"
  by (simp add: acquire_lock_def op_simps)

lemma locks_compatibleI:
  "distinct (map lock_key ls) \<Longrightarrow>
   (\<And>l m. l \<in> set ls \<Longrightarrow> m \<in> set ls \<Longrightarrow> held l \<Longrightarrow> held m \<Longrightarrow> l \<noteq> m \<Longrightarrow>
     lk_directory_id l = lk_directory_id m \<Longrightarrow> \<not> conflicting (lk_mode l) (lk_mode m)) \<Longrightarrow>
   locks_compatible ls"
  by (simp add: locks_compatible_def)

lemma locks_compatible_snoc:
  assumes comp: "locks_compatible ls" and key: "lock_key k \<notin> lock_key ` set ls"
    and quiet: "\<And>l. l \<in> set ls \<Longrightarrow> held l \<Longrightarrow> lk_directory_id l = lk_directory_id k \<Longrightarrow>
      \<not> conflicting (lk_mode l) (lk_mode k)"
  shows "locks_compatible (ls @ [k])"
proof (rule locks_compatibleI)
  show "distinct (map lock_key (ls @ [k]))"
    using comp key by (simp add: locks_compatible_def)
  fix l m
  assume *: "l \<in> set (ls @ [k])" "m \<in> set (ls @ [k])" "held l" "held m" "l \<noteq> m"
    "lk_directory_id l = lk_directory_id m"
  then consider "l \<in> set ls" "m \<in> set ls" | "l \<in> set ls" "m = k" | "l = k" "m \<in> set ls" by auto
  then show "\<not> conflicting (lk_mode l) (lk_mode m)"
  proof cases
    case 1
    with * comp show ?thesis by (simp add: locks_compatible_def)
  next
    case 2
    with * quiet show ?thesis by simp
  next
    case 3
    with * quiet [of m] show ?thesis by (simp add: conflicting_commute [of "lk_mode k"])
  qed
qed

lemma locks_compatible_filter: "locks_compatible ls \<Longrightarrow> locks_compatible (filter P ls)"
  by (auto simp: locks_compatible_def distinct_map_filter)

lemma task_db_inv_acquire:
  assumes inv: "task_db_inv db" and free: "\<not> lock_conflict r db"
    and t: "find_task (lr_task_id r) db = Some t" "\<not> is_terminal (task_status t)"
  shows "task_db_inv (insert_lock r now db)"
proof -
  define new where "new = \<lparr>lk_directory_id = lr_directory_id r, lk_task_id = lr_task_id r,
    lk_mode = lr_mode r, lk_status = ''held'', lk_created_at = now, lk_released_at = None\<rparr>"
  define old where "old = filter (\<lambda>l. \<not> (lk_directory_id l = lr_directory_id r \<and>
    lk_task_id l = lr_task_id r)) (db_locks db)"
  have new: "lk_directory_id new = lr_directory_id r" "lk_task_id new = lr_task_id r"
    "lk_mode new = lr_mode r" by (simp_all add: new_def)
  have comp: "locks_compatible (db_locks db)" and own: "locks_owned db"
    using inv by (simp_all add: task_db_inv_def)
  have "\<not> conflicting (lk_mode l) (lk_mode new)"
    if "l \<in> set old" "held l" "lk_directory_id l = lk_directory_id new" for l
    using free that
    by (auto simp: lock_conflict_def active_locks_def list_ex_iff held_def conflicting_def old_def new)
  moreover have "lock_key new \<notin> lock_key ` set old"
    by (auto simp: old_def lock_key_def new)
  ultimately have "locks_compatible (old @ [new])"
    using locks_compatible_filter [OF comp] by (intro locks_compatible_snoc) (simp_all add: old_def)
  moreover have "locks_owned (db\<lparr>db_locks := old @ [new]\<rparr>)"
    using own t by (auto simp: locks_owned_def old_def new)
  ultimately show ?thesis
    using inv by (simp add: insert_lock_def task_db_inv_locks old_def new_def)
qed

lemma task_db_inv_release:
  assumes inv: "task_db_inv db"
  shows "task_db_inv (db\<lparr>db_locks := release_held tid now (db_locks db)\<rparr>)"
proof (rule task_db_inv_locks [OF inv])
  show "locks_compatible (release_held tid now (db_locks db))"
    using inv by (simp add: task_db_inv_def locks_compatible_release)
  show "locks_owned (db\<lparr>db_locks := release_held tid now (db_locks db)\<rparr>)"
    using inv release_held_iff [of _ tid now "db_locks db"] by (auto simp: task_db_inv_def locks_owned_def)
qed

section \<open>Every operation keeps the invariant\<close>

lemma keeps_create: "keeps task_db_inv (create input now)"
proof
  fix db
  assume "task_db_inv db"
  then show "task_db_inv (snd (create input now db))"
    using create_Inl [of input _ now db] task_db_inv_create [of db input now]
    by (cases "create_task_validate input") auto
qed

lemma keeps_transition: "keeps task_db_inv (transition tid next p now)"
proof
  fix db
  assume inv: "task_db_inv db"
  then have wf: "events_wf db" by (simp add: task_db_inv_def)
  show "task_db_inv (snd (transition tid next p now db))"
    by (rule transition_cases [OF wf, of tid "next" p now])
      (simp_all add: inv task_db_inv_transition)
qed

lemma append_event_inv:
  assumes inv: "task_db_inv db" and out: "output_ok tid ty p db"
  shows "task_db_inv (snd (append_event tid ty p now db))"
proof (cases "find_task tid db")
  case None
  with inv show ?thesis by (simp add: append_event_missing)
next
  case (Some t)
  with assms show ?thesis
    by (simp add: append_event_effect task_db_inv_def [of db] task_db_inv_output)
qed

lemma keeps_record: "keeps task_db_inv (record_permission_request tid q now)"
proof
  fix db
  assume inv: "task_db_inv db"
  then have wf: "events_wf db" by (simp add: task_db_inv_def)
  show "task_db_inv (snd (record_permission_request tid q now db))"
  proof (cases "find_task tid db")
    case None
    with inv show ?thesis by (simp add: record_missing)
  next
    case (Some t)
    with inv wf show ?thesis
      by (cases "pq_request_id q \<in> prr_request_id ` set (db_requests db)")
        (simp_all add: record_duplicate record_effect task_db_inv_record)
  qed
qed

lemma keeps_resolve: "keeps task_db_inv (resolve_permission_request tid rid dec reason now)"
proof
  fix db
  assume inv: "task_db_inv db"
  then have wf: "events_wf db" "requests_wf db" by (simp_all add: task_db_inv_def)
  show "task_db_inv (snd (resolve_permission_request tid rid dec reason now db))"
  proof (cases "find_task tid db = None \<or> query_permission_request tid rid db = None")
    case True
    with inv show ?thesis by (cases "find_task tid db") (auto simp: resolve_missing)
  next
    case False
    then obtain t q where t: "find_task tid db = Some t"
      and q: "query_permission_request tid rid db = Some q" by auto
    show ?thesis
    proof (cases "prr_status q = Pending")
      case True
      with inv wf t q show ?thesis
        by (simp add: resolve_pending_effect [OF wf(1) t q True refl refl] task_db_inv_resolve)
    next
      case False
      then show ?thesis
        using resolve_again [OF wf t q False] inv by (metis snd_conv)
    qed
  qed
qed

lemma keeps_save_result: "keeps task_db_inv (save_result tid msg files now)"
proof
  fix db
  assume "task_db_inv db"
  then show "task_db_inv (snd (save_result tid msg files now db))"
    by (cases "find_task tid db")
      (auto simp: save_result_def op_simps get_task_def stamps_ok_def intro!: task_db_inv_update)
qed

lemma keeps_save_execution_result: "keeps task_db_inv (save_execution_result res)"
  by rule (auto simp: save_execution_result_def op_simps stamps_ok_def intro!: task_db_inv_update)

lemma acquire_lock_inv:
  assumes "task_db_inv db" and "find_task (lr_task_id r) db = Some t" and "\<not> is_terminal (task_status t)"
  shows "task_db_inv (snd (acquire_lock r now db))"
  using assms by (simp add: acquire_lock_eq task_db_inv_acquire)

lemma keeps_release: "keeps task_db_inv (release_locks tid now)"
  by rule (simp add: release_locks_def release_locks_tx_def op_simps task_db_inv_release)

lemmas task_store_keeps =
  keeps_create keeps_transition keeps_record keeps_resolve keeps_save_result
  keeps_save_execution_result keeps_release

section \<open>The store as a transition system\<close>

text \<open>
  Any interleaving of complete store calls and of calls on the event bus. The side conditions are the
  ones callers meet: an event that a provider adds is not a life-cycle event and decides no pending
  request, a lock is requested for a task that is still alive, and what is published on the bus beside
  the store's own publications is a stored event. \<open>step_restart\<close> is a new daemon process on the same
  database.
\<close>

inductive store_step :: "task_db \<Rightarrow> task_db \<Rightarrow> bool" where
  store_create: "store_step db (snd (create input now db))"
| store_transition: "store_step db (snd (transition tid next p now db))"
| store_append: "output_ok tid ty p db \<Longrightarrow> store_step db (snd (append_event tid ty p now db))"
| store_record: "store_step db (snd (record_permission_request tid q now db))"
| store_resolve: "store_step db (snd (resolve_permission_request tid rid dec reason now db))"
| store_save: "store_step db (snd (save_result tid msg files now db))"
| store_save_execution: "store_step db (snd (save_execution_result res db))"
| store_acquire: "find_task (lr_task_id r) db = Some t \<Longrightarrow> \<not> is_terminal (task_status t) \<Longrightarrow>
    store_step db (snd (acquire_lock r now db))"
| store_release: "store_step db (snd (release_locks tid now db))"
| store_register: "db_bus db = Some b \<Longrightarrow>
    store_step db (db\<lparr>db_bus := Some (snd (register_waiter tid rid b))\<rparr>)"
| store_notify: "db_bus db = Some b \<Longrightarrow>
    store_step db (db\<lparr>db_bus := Some (notify_permission_resolution tid d b)\<rparr>)"
| store_republish: "db_bus db = Some b \<Longrightarrow> e \<in> set (db_events db) \<Longrightarrow>
    store_step db (db\<lparr>db_bus := Some (bus_publish e b)\<rparr>)"

inductive task_step :: "task_db \<Rightarrow> task_db \<Rightarrow> bool" where
  step_store: "store_step db db' \<Longrightarrow> task_step db db'"
| step_restart: "task_step db (db\<lparr>db_bus := Some default_bus\<rparr>)"

lemmas step_create = step_store [OF store_create]
lemmas step_transition = step_store [OF store_transition]
lemmas step_record = step_store [OF store_record]
lemmas step_acquire = step_store [OF store_acquire]

inductive task_reachable :: "task_db \<Rightarrow> bool" where
  reach_start: "task_reachable (empty_task_db (Some default_bus))"
| reach_step: "task_reachable db \<Longrightarrow> task_step db db' \<Longrightarrow> task_reachable db'"

lemma task_db_inv_empty: "task_db_inv (empty_task_db (Some default_bus))"
  by (simp add: task_db_inv_def empty_task_db_def tasks_wf_def events_wf_def log_wf_def stamps_wf_def
      locks_compatible_def locks_owned_def requests_wf_def bus_wf_def events_of_def find_task_def)
    (simp add: default_bus_def)

lemma task_db_inv_restart: "task_db_inv db \<Longrightarrow> task_db_inv (db\<lparr>db_bus := Some default_bus\<rparr>)"
  by (simp add: task_db_inv_def tasks_wf_def events_wf_def log_wf_def stamps_wf_def locks_owned_def
      requests_wf_def request_ok_def bus_wf_def status_log_def query_permission_request_def del: upt_Suc)
    (simp add: default_bus_def)

lemma task_db_inv_bus: "task_db_inv db \<Longrightarrow> bus_wf (db\<lparr>db_bus := b\<rparr>) \<Longrightarrow> task_db_inv (db\<lparr>db_bus := b\<rparr>)"
  by (simp add: task_db_inv_def tasks_wf_def events_wf_def log_wf_def stamps_wf_def locks_owned_def
      requests_wf_def request_ok_def status_log_def query_permission_request_def del: upt_Suc)

lemma bus_wf_register:
  assumes "task_db_inv db" and "db_bus db = Some b"
  shows "bus_wf (db\<lparr>db_bus := Some (snd (register_waiter tid rid b))\<rparr>)"
proof -
  have "bus_sent (snd (register_waiter tid rid b)) = bus_sent b" by (simp add: register_waiter_def)
  moreover have "bus_inv (snd (register_waiter tid rid b))"
    using assms bus_inv_register [of b tid rid "fst (register_waiter tid rid b)"]
    by (simp add: task_db_inv_def bus_wf_def)
  ultimately show ?thesis using assms by (simp add: task_db_inv_def bus_wf_def)
qed

lemma bus_sent_notify [simp]: "bus_sent (notify_permission_resolution tid d b) = bus_sent b"
  by (simp add: notify_permission_resolution_def split: option.splits)

lemma bus_wf_notify:
  "task_db_inv db \<Longrightarrow> db_bus db = Some b \<Longrightarrow>
   bus_wf (db\<lparr>db_bus := Some (notify_permission_resolution tid d b)\<rparr>)"
  by (simp add: task_db_inv_def bus_wf_def bus_inv_notify)

lemma bus_wf_republish:
  "task_db_inv db \<Longrightarrow> db_bus db = Some b \<Longrightarrow> e \<in> set (db_events db) \<Longrightarrow>
   bus_wf (db\<lparr>db_bus := Some (bus_publish e b)\<rparr>)"
  by (simp add: task_db_inv_def bus_wf_def) (simp add: bus_publish_def)

lemma store_step_inv: "store_step db db' \<Longrightarrow> task_db_inv db \<Longrightarrow> task_db_inv db'"
  by (induction rule: store_step.induct)
    (auto intro: task_store_keeps [THEN keeps_snd] append_event_inv acquire_lock_inv task_db_inv_bus
      bus_wf_register bus_wf_notify bus_wf_republish)

lemma task_step_inv: "task_step db db' \<Longrightarrow> task_db_inv db \<Longrightarrow> task_db_inv db'"
  by (induction rule: task_step.induct) (auto intro: store_step_inv task_db_inv_restart)

lemma task_reachable_inv: "task_reachable db \<Longrightarrow> task_db_inv db"
  by (induction rule: task_reachable.induct) (auto intro: task_db_inv_empty task_step_inv)

lemma task_reachable_parts:
  assumes "task_reachable db"
  shows "tasks_wf db" "events_wf db" "log_wf db" "stamps_wf db" "locks_compatible (db_locks db)"
    "locks_owned db" "requests_wf db" "bus_wf db"
  using task_reachable_inv [OF assms] by (simp_all add: task_db_inv_def)

end
