(* ===== verification/Task_History.thy ===== *)
theory Task_History
  imports Task_Store_Steps
begin

text \<open>
  What later states of the task store keep of earlier ones: the event log of a task only grows, the
  description of a task never changes, its status moves along the transition table only, and an
  answered permission request stays as it is. \<open>evolves\<close> says so for two states; every operation of
  the store is an evolution.
\<close>

definition task_description :: "task \<Rightarrow> task" where
  "task_description t = t\<lparr> task_status := Queued, task_result := None, task_updated_at := [],
     task_started_at := None, task_completed_at := None, task_cancelled_at := None,
     task_failed_at := None \<rparr>"

definition task_moved :: "task \<Rightarrow> task \<Rightarrow> bool" where
  "task_moved t t' \<longleftrightarrow> task_description t' = task_description t \<and>
     allowed_transition\<^sup>*\<^sup>* (task_status t) (task_status t')"

definition request_moved :: "permission_request_record \<Rightarrow> permission_request_record \<Rightarrow> bool" where
  "request_moved q q' \<longleftrightarrow> prr_request q' = prr_request q \<and> (prr_status q \<noteq> Pending \<longrightarrow> q' = q)"

definition evolves :: "task_db \<Rightarrow> task_db \<Rightarrow> bool" where
  "evolves db db' \<longleftrightarrow>
     (\<forall>tid. \<exists>es. events_of tid db' = events_of tid db @ es) \<and>
     (\<forall>tid t. find_task tid db = Some t \<longrightarrow> (\<exists>t'. find_task tid db' = Some t' \<and> task_moved t t')) \<and>
     (\<forall>tid rid q. query_permission_request tid rid db = Some q \<longrightarrow>
        (\<exists>q'. query_permission_request tid rid db' = Some q' \<and> request_moved q q'))"

lemma task_moved_refl [simp]: "task_moved t t"
  by (simp add: task_moved_def)

lemma task_moved_trans: "task_moved t u \<Longrightarrow> task_moved u v \<Longrightarrow> task_moved t v"
  by (auto simp: task_moved_def)

lemma task_moved_terminal:
  assumes "task_moved t t'" and "is_terminal (task_status t)"
  shows "task_status t' = task_status t"
  using assms by (metis converse_rtranclpE task_moved_def allowed_not_terminal)

lemma request_moved_refl [simp]: "request_moved q q"
  by (simp add: request_moved_def)

lemma request_moved_trans: "request_moved p q \<Longrightarrow> request_moved q r \<Longrightarrow> request_moved p r"
  by (auto simp: request_moved_def)

lemma evolves_refl [simp]: "evolves db db"
  by (simp add: evolves_def)

lemma evolves_task:
  assumes "evolves db db'" and "find_task tid db = Some t"
  obtains t' where "find_task tid db' = Some t'" and "task_moved t t'"
  using assms unfolding evolves_def by metis

lemma evolves_request:
  assumes "evolves db db'" and "query_permission_request tid rid db = Some q"
  obtains q' where "query_permission_request tid rid db' = Some q'" and "request_moved q q'"
  using assms unfolding evolves_def by metis

lemma evolves_trans:
  assumes "evolves a b" and "evolves b c"
  shows "evolves a c"
proof -
  have "\<exists>es. events_of tid c = events_of tid a @ es" for tid
    using assms by (metis append.assoc evolves_def)
  moreover have "\<exists>t'. find_task tid c = Some t' \<and> task_moved t t'" if "find_task tid a = Some t" for tid t
    using evolves_task [OF assms(1) that] evolves_task [OF assms(2)] task_moved_trans by metis
  moreover have "\<exists>q'. query_permission_request tid rid c = Some q' \<and> request_moved q q'"
    if "query_permission_request tid rid a = Some q" for tid rid q
    using evolves_request [OF assms(1) that] evolves_request [OF assms(2)] request_moved_trans by metis
  ultimately show ?thesis by (simp add: evolves_def)
qed

section \<open>Elementary changes\<close>

lemma evolves_log: "evolves db (log_event tid ty p now db)"
  by (auto simp: evolves_def log_event_events query_permission_request_def)

lemma evolves_locks: "evolves db (db\<lparr>db_locks := ls\<rparr>)"
  by (auto simp: evolves_def query_permission_request_def)

lemma evolves_bus: "evolves db (db\<lparr>db_bus := b\<rparr>)"
  by (auto simp: evolves_def query_permission_request_def)

lemma evolves_update_task:
  assumes "\<And>t. task_id (f t) = task_id t" and "\<And>t. find_task tid db = Some t \<Longrightarrow> task_moved t (f t)"
  shows "evolves db (update_task tid f db)"
  using assms(2) by (auto simp: evolves_def find_update_task assms(1) query_permission_request_def)

lemma evolves_new_task:
  assumes "find_task (task_id t) db = None"
  shows "evolves db (db\<lparr>db_tasks := db_tasks db @ [t]\<rparr>)"
proof -
  let ?db = "db\<lparr>db_tasks := db_tasks db @ [t]\<rparr>"
  have "find_task j ?db = (if j = task_id t then Some t else find_task j db)" for j
    using task_table.lookup_insert [of ?db db t j] assms by (simp add: task_table.lookup_None)
  then show ?thesis using assms by (auto simp: evolves_def query_permission_request_def)
qed

lemma evolves_new_request: "evolves db (db\<lparr>db_requests := db_requests db @ [r]\<rparr>)"
  by (auto simp: evolves_def query_permission_request_def find_append)

lemma find_update_rows:
  assumes "\<And>r. p (f r) = p r"
  shows "List.find p (update_rows u f rs) = map_option (\<lambda>r. if u r then f r else r) (List.find p rs)"
  by (induction rs) (auto simp: update_rows_def assms)

lemma resolve_row_fields [simp]:
  "prr_task_id (resolve_row d now r) = prr_task_id r"
  "prr_request_id (resolve_row d now r) = prr_request_id r"
  "prr_request (resolve_row d now r) = prr_request r"
  by (simp_all add: resolve_row_def)

lemma evolves_resolve_row:
  assumes "query_permission_request tid rid db = Some q" and "prr_status q = Pending"
  shows "evolves db (db\<lparr>db_requests :=
    update_rows (\<lambda>r. prr_request_id r = rid \<and> prr_task_id r = tid) (resolve_row d now) (db_requests db)\<rparr>)"
proof -
  let ?u = "\<lambda>r. prr_request_id r = rid \<and> prr_task_id r = tid"
  let ?db = "db\<lparr>db_requests := update_rows ?u (resolve_row d now) (db_requests db)\<rparr>"
  have found: "query_permission_request j k ?db =
      map_option (\<lambda>r. if ?u r then resolve_row d now r else r) (query_permission_request j k db)" for j k
    by (simp add: query_permission_request_def find_update_rows)
  have "request_moved r (if ?u r then resolve_row d now r else r)"
    if "query_permission_request j k db = Some r" for j k r
    using assms that request_foundD [OF that] by (auto simp: request_moved_def)
  then show ?thesis by (auto simp: evolves_def found)
qed

lemmas evolves_elementary =
  evolves_log evolves_locks evolves_bus evolves_update_task evolves_new_task evolves_new_request
  evolves_resolve_row

section \<open>Operations\<close>

lemma evolves_transition_db:
  assumes "find_task tid db = Some t" and "allowed_transition (task_status t) next"
  shows "evolves db (transition_db tid next p now db)"
proof -
  have "task_moved t (apply_status next now t)"
    using assms by (simp add: task_moved_def apply_status_def task_description_def r_into_rtranclp)
  with assms have "evolves db (update_task tid (apply_status next now) db)"
    by (intro evolves_update_task) simp_all
  then have "evolves db (log_event tid (event_type_for_status next) (unwrap_or p empty_object) now
      (update_task tid (apply_status next now) db))"
    using evolves_log evolves_trans by blast
  then show ?thesis
    using evolves_locks evolves_trans by (auto simp: transition_db_def Let_def)
qed

lemma evolves_create:
  assumes "tasks_wf db" and "events_wf db"
  shows "evolves db (snd (create input now db))"
proof (cases "create_task_validate input")
  case (Inl e)
  then show ?thesis by (simp add: create_Inl)
next
  case (Inr u)
  define tid where "tid = task_row_id (Suc (length (db_tasks db)))"
  have "evolves db (db\<lparr>db_tasks := db_tasks db @ [new_task input tid now]\<rparr>)"
    using fresh_task_id [OF assms(1)] by (intro evolves_new_task) (simp add: tid_def new_task_def)
  with Inr show ?thesis
    using evolves_trans [OF _ evolves_log] by (simp add: create_effect [OF assms _ tid_def])
qed

lemma evolves_transition:
  assumes "events_wf db"
  shows "evolves db (snd (transition tid next p now db))"
  by (rule transition_cases [OF assms, of tid "next" p now]) (simp_all add: evolves_transition_db)

lemma evolves_append:
  assumes "events_wf db"
  shows "evolves db (snd (append_event tid ty p now db))"
  using assms evolves_log
  by (cases "find_task tid db") (simp_all add: append_event_missing append_event_effect)

lemma evolves_record:
  assumes wf: "events_wf db"
  shows "evolves db (snd (record_permission_request tid q now db))"
proof (cases "find_task tid db")
  case None
  then show ?thesis by (simp add: record_missing)
next
  case (Some t)
  have "evolves db (record_db tid q now db)"
    using evolves_trans [OF evolves_log evolves_new_request] by (simp add: record_db_def)
  with Some wf show ?thesis
    by (cases "pq_request_id q \<in> prr_request_id ` set (db_requests db)")
      (simp_all add: record_duplicate record_effect)
qed

lemma evolves_resolve_db:
  assumes "query_permission_request tid (pd_request_id d) db = Some q" and "prr_status q = Pending"
  shows "evolves db (resolve_db tid d now db)"
proof -
  let ?db = "log_event tid ProviderPermissionDecided (decision_event_to_value d) now db"
  have "query_permission_request tid (pd_request_id d) ?db = Some q"
    using assms by (simp add: query_permission_request_def)
  from evolves_trans [OF evolves_log evolves_resolve_row [OF this assms(2), of d now]]
  show ?thesis by (simp add: resolve_db_def)
qed

lemma evolves_resolve:
  assumes wf: "events_wf db" "requests_wf db"
  shows "evolves db (snd (resolve_permission_request tid rid dec reason now db))"
proof (cases "find_task tid db = None \<or> query_permission_request tid rid db = None")
  case True
  then show ?thesis by (cases "find_task tid db") (auto simp: resolve_missing)
next
  case False
  then obtain t q where t: "find_task tid db = Some t"
    and q: "query_permission_request tid rid db = Some q" by auto
  show ?thesis
  proof (cases "prr_status q = Pending")
    case True
    with t q wf show ?thesis
      by (simp add: resolve_pending_effect [OF wf(1) t q True refl refl] evolves_resolve_db)
  next
    case False
    then show ?thesis using resolve_again [OF wf t q False] by (metis evolves_refl snd_conv)
  qed
qed

lemma evolves_save:
  "evolves db (snd (save_result tid msg files now db))"
  "evolves db (snd (save_execution_result res db))"
  by (cases "find_task tid db")
    (simp_all add: save_result_def save_execution_result_def op_simps get_task_def evolves_update_task
      task_moved_def task_description_def)

lemma evolves_acquire: "evolves db (snd (acquire_lock r now db))"
  by (simp add: acquire_lock_eq insert_lock_def evolves_locks)

lemma evolves_release: "evolves db (snd (release_locks tid now db))"
  by (simp add: release_locks_def release_locks_tx_def op_simps evolves_locks)

lemma store_step_evolves:
  assumes "store_step db db'" and "task_db_inv db"
  shows "evolves db db'"
  using assms
  by cases
    (simp_all add: task_db_inv_def evolves_create evolves_transition evolves_append evolves_record
      evolves_resolve evolves_save evolves_acquire evolves_release evolves_bus)

lemma task_step_evolves:
  assumes "task_step db db'" and "task_db_inv db"
  shows "evolves db db'"
  using assms by cases (simp_all add: store_step_evolves evolves_bus)

lemma task_steps_evolve:
  assumes "task_step\<^sup>*\<^sup>* db db'" and "task_db_inv db"
  shows "evolves db db'" and "task_db_inv db'"
proof -
  from assms have "evolves db db' \<and> task_db_inv db'"
  proof (induction rule: rtranclp_induct)
    case (step y z)
    then show ?case using evolves_trans task_step_evolves task_step_inv by blast
  qed simp
  then show "evolves db db'" and "task_db_inv db'" by simp_all
qed

end
