(* ===== verification/Task_Properties.thy ===== *)
theory Task_Properties
  imports Task_History
begin

text \<open>
  The properties of the task store, each over every state that some interleaving of complete store
  calls and restarts reaches, with a witness on a small run: one task that is created, queued for
  its directory, prepared, started and asks for a permission.
\<close>

section \<open>A concrete run\<close>

definition demo_input :: create_task where
  "demo_input =
     \<lparr> ct_owner_product_id = ''prod'', ct_agent_id = ''agent'', ct_directory_id = ''dir_1'',
       ct_prompt = ''fix the tests'', ct_required_capabilities = Some [Write, Read],
       ct_workspace_mode = None, ct_direct_mode_task_opt_in = False, ct_metadata = None,
       ct_provider_id = None, ct_model = None, ct_permission_mode = None,
       ct_timeout_seconds = Some 60 \<rparr>"

definition demo_request :: permission_request_event where
  "demo_request =
     \<lparr> pq_request_id = ''req'', pq_provider_id = ''p'', pq_permission_kind = ''shell'',
       pq_summary = ''run'', pq_details = None, pq_options = [Approve, Deny], pq_expires_at = None \<rparr>"

definition demo_lock :: lock_request where
  "demo_lock = \<lparr> lr_directory_id = ''dir_1'', lr_task_id = ''task_1'', lr_mode = LockExclusive \<rparr>"

definition demo_created :: task_db where
  "demo_created = snd (create demo_input ''t0'' (empty_task_db (Some default_bus)))"

definition demo_locked :: task_db where
  "demo_locked = snd (acquire_lock demo_lock ''t1'' demo_created)"

definition demo_running :: task_db where
  "demo_running =
     snd (transition ''task_1'' Running None ''t4''
     (snd (transition ''task_1'' Preparing None ''t3''
     (snd (transition ''task_1'' WaitingDirectoryLock None ''t2'' demo_locked)))))"

definition demo_asked :: task_db where
  "demo_asked = snd (record_permission_request ''task_1'' demo_request ''t5'' demo_running)"

definition demo_answered :: task_db where
  "demo_answered = snd (resolve_permission_request ''task_1'' ''req'' Approve None ''t6'' demo_asked)"

definition demo_cancelled :: task_db where
  "demo_cancelled = snd (cancel ''task_1'' ''t7'' demo_answered)"

text \<open>The same run, state by state.\<close>

definition demo_task :: task where
  "demo_task = new_task demo_input ''task_1'' ''t0''"

definition demo_event :: "nat \<Rightarrow> task_event_type \<Rightarrow> string \<Rightarrow> task_event" where
  "demo_event n ty now = event_row ''task_1'' n ty empty_object now"

lemma demo_input_valid: "create_task_validate demo_input = Inr ()"
  by (simp add: create_task_validate_def demo_input_def string_eval required_capabilities_def
      MAX_TASK_TIMEOUT_SECONDS_def model_defs)

lemma demo_created_eq:
  "demo_created = log_event ''task_1'' EvQueued empty_object ''t0''
     ((empty_task_db (Some default_bus))\<lparr>db_tasks := [demo_task]\<rparr>)"
proof -
  have "tasks_wf (empty_task_db (Some default_bus))" "events_wf (empty_task_db (Some default_bus))"
    using task_db_inv_empty by (simp_all add: task_db_inv_def)
  then have "create demo_input ''t0'' (empty_task_db (Some default_bus)) =
      (Inr demo_task, log_event ''task_1'' EvQueued empty_object ''t0''
        ((empty_task_db (Some default_bus))\<lparr>db_tasks := db_tasks (empty_task_db (Some default_bus)) @ [demo_task]\<rparr>))"
    unfolding demo_task_def
    by (rule create_effect [OF _ _ demo_input_valid])
      (simp_all add: empty_task_db_def task_row_id_def string_eval)
  then show ?thesis by (simp add: demo_created_def empty_task_db_def)
qed

lemma demo_created_reachable: "task_reachable demo_created"
  unfolding demo_created_def by (rule reach_step [OF reach_start step_create])

lemma demo_created_task: "find_task ''task_1'' demo_created = Some demo_task"
  by (simp add: demo_created_eq find_task_def demo_task_def new_task_def)

lemma demo_locked_reachable: "task_reachable demo_locked"
  unfolding demo_locked_def
  by (rule reach_step [OF demo_created_reachable step_acquire])
    (simp_all add: demo_lock_def demo_created_task, simp add: demo_task_def)

lemma demo_locked_eq: "demo_locked = demo_created\<lparr>db_locks :=
    [\<lparr>lk_directory_id = ''dir_1'', lk_task_id = ''task_1'', lk_mode = LockExclusive,
      lk_status = ''held'', lk_created_at = ''t1'', lk_released_at = None\<rparr>]\<rparr>"
  by (simp add: demo_locked_def acquire_lock_eq demo_lock_def lock_conflict_def active_locks_def
      insert_lock_def demo_created_eq empty_task_db_def)

lemma demo_running_reachable: "task_reachable demo_running"
  unfolding demo_running_def
  by (rule reach_step [OF reach_step [OF reach_step [OF demo_locked_reachable
          step_transition] step_transition] step_transition])

text \<open>One step of the run: an allowed transition.\<close>

lemma demo_transition:
  assumes "task_reachable db" and "find_task tid db = Some t" and "allowed_transition (task_status t) next"
  shows "find_task tid (snd (transition tid next None now db)) = Some (apply_status next now t)"
    and "task_reachable (snd (transition tid next None now db))"
    and "\<not> is_terminal next \<Longrightarrow> db_locks (snd (transition tid next None now db)) = db_locks db"
    and "db_requests (snd (transition tid next None now db)) = db_requests db"
    and "length (events_of tid (snd (transition tid next None now db))) = Suc (length (events_of tid db))"
proof -
  have eff: "snd (transition tid next None now db) = transition_db tid next None now db"
    using transition_effect [OF task_reachable_parts(2) [OF assms(1)] assms(2,3)] by simp
  have find: "find_task tid (update_task tid (apply_status next now) db) = Some (apply_status next now t)"
    using assms(2) by (simp add: find_update_task)
  show "find_task tid (snd (transition tid next None now db)) = Some (apply_status next now t)"
    using find by (simp add: eff transition_db_def Let_def)
  show "\<not> is_terminal next \<Longrightarrow> db_locks (snd (transition tid next None now db)) = db_locks db"
    and "db_requests (snd (transition tid next None now db)) = db_requests db"
    and "length (events_of tid (snd (transition tid next None now db))) = Suc (length (events_of tid db))"
    by (simp_all add: eff transition_db_def Let_def log_event_events)
  show "task_reachable (snd (transition tid next None now db))"
    by (rule reach_step [OF assms(1) step_transition])
qed

definition demo_running_task :: task where
  "demo_running_task =
     apply_status Running ''t4'' (apply_status Preparing ''t3'' (apply_status WaitingDirectoryLock ''t2'' demo_task))"

lemma demo_locked_task: "find_task ''task_1'' demo_locked = Some demo_task"
  by (simp add: demo_locked_eq demo_created_task)

lemma demo_task_status [simp]: "task_status demo_task = Queued"
  by (simp add: demo_task_def)

lemma demo_running_task: "find_task ''task_1'' demo_running = Some demo_running_task"
proof -
  let ?a = "snd (transition ''task_1'' WaitingDirectoryLock None ''t2'' demo_locked)"
  let ?b = "snd (transition ''task_1'' Preparing None ''t3'' ?a)"
  note a = demo_transition(1,2) [OF demo_locked_reachable demo_locked_task, of WaitingDirectoryLock "''t2''"]
  have "find_task ''task_1'' ?a = Some (apply_status WaitingDirectoryLock ''t2'' demo_task)"
    and "task_reachable ?a" using a by (simp_all add: allowed_transition_def)
  note b = demo_transition(1,2) [OF this(2,1), of Preparing "''t3''"]
  have "find_task ''task_1'' ?b = Some (apply_status Preparing ''t3'' (apply_status WaitingDirectoryLock ''t2'' demo_task))"
    and "task_reachable ?b" using b by (simp_all add: allowed_transition_def)
  note c = demo_transition(1) [OF this(2,1), of Running "''t4''"]
  then show ?thesis by (simp add: demo_running_def demo_running_task_def allowed_transition_def)
qed

lemma demo_asked_reachable: "task_reachable demo_asked"
  unfolding demo_asked_def by (rule reach_step [OF demo_running_reachable step_record])

lemma demo_no_requests: "db_requests demo_running = []"
proof -
  have "db_requests (snd (transition tid next p now db)) = db_requests db" if "task_reachable db" for tid "next" p now db
    by (rule transition_cases [OF task_reachable_parts(2) [OF that], of tid "next" p now])
      (simp_all add: transition_db_def Let_def)
  then show ?thesis
    using demo_locked_reachable reach_step [OF _ step_transition]
    by (simp add: demo_running_def) (simp add: demo_locked_eq demo_created_eq empty_task_db_def)
qed

lemma demo_asked_request:
  obtains q where "query_permission_request ''task_1'' ''req'' demo_asked = Some q" and "prr_status q = Pending"
proof
  have "snd (record_permission_request ''task_1'' demo_request ''t5'' demo_running) =
      record_db ''task_1'' demo_request ''t5'' demo_running"
    using record_effect [OF task_reachable_parts(2) [OF demo_running_reachable] demo_running_task]
    by (simp add: demo_no_requests)
  then show "query_permission_request ''task_1'' ''req'' demo_asked =
      Some (request_row ''task_1'' (next_sequence ''task_1'' demo_running) demo_request ''t5'')"
    by (simp add: demo_asked_def record_db_def query_permission_request_def demo_no_requests demo_request_def)
  show "prr_status (request_row ''task_1'' (next_sequence ''task_1'' demo_running) demo_request ''t5'') = Pending"
    by simp
qed

lemma transition_db_eq:
  assumes "events_wf db"
    and "e = event_row tid (length (events_of tid db) + 1) (event_type_for_status next)
      (unwrap_or payload empty_object) now"
  shows "transition_db tid next payload now db =
    db\<lparr> db_tasks := update_rows (\<lambda>r. task_id r = tid) (apply_status next now) (db_tasks db),
        db_events := db_events db @ [e],
        db_locks := (if is_terminal next then release_held tid now (db_locks db) else db_locks db),
        db_bus := map_option (bus_publish e) (db_bus db) \<rparr>"
proof -
  have "next_sequence tid (update_task tid f db) = length (events_of tid db) + 1" for f
    using next_sequence_eq [OF assms(1), of tid] by simp
  with assms(2) have "transition_db tid next payload now db =
      (let db' = publish_db e (add_event e (update_task tid (apply_status next now) db))
       in if is_terminal next then db'\<lparr>db_locks := release_held tid now (db_locks db)\<rparr> else db')"
    by (simp add: transition_db_def log_event_def Let_def)
  then show ?thesis by (simp add: Let_def publish_db_def add_event_def update_task_def)
qed

text \<open>A request that has been answered: the state in which a second answer finds it.\<close>

definition answered :: "string \<Rightarrow> string \<Rightarrow> permission_decision_event \<Rightarrow> task_event \<Rightarrow> task_db \<Rightarrow> bool" where
  "answered tid rid d e db \<longleftrightarrow> find_task tid db \<noteq> None \<and>
     (\<exists>q. query_permission_request tid rid db = Some q \<and> prr_status q \<noteq> Pending \<and>
        prr_response q = Some d) \<and>
     query_permission_decision_event tid rid db = Some e"

lemma resolve_answered:
  assumes "answered tid rid d e db"
  shows "resolve_permission_request tid rid dec reason now db =
    (if pd_decision d = dec then
       Inr \<lparr>rs_task_id = tid, rs_request_id = rid, rs_status = from_decision dec, rs_decision = dec,
            rs_event = e, rs_duplicated = True\<rparr>
     else Inl PermissionRequestAlreadyResolved, db)"
  using assms by (auto simp: answered_def resolve_permission_request_def op_simps get_task_def)

lemma answered_evolves:
  assumes "answered tid rid d e db" and "evolves db db'" and "events_wf db" and "events_wf db'"
  shows "answered tid rid d e db'"
proof -
  from assms(1) obtain q t where q: "query_permission_request tid rid db = Some q" "prr_status q \<noteq> Pending"
      "prr_response q = Some d" and t: "find_task tid db = Some t"
    and e: "query_permission_decision_event tid rid db = Some e"
    by (auto simp: answered_def)
  from evolves_request [OF assms(2) q(1)] q(2) have "query_permission_request tid rid db' = Some q"
    by (metis request_moved_def)
  moreover have "find_task tid db' \<noteq> None" using evolves_task [OF assms(2) t] by (metis option.distinct(1))
  moreover from assms(2) obtain es where "events_of tid db' = events_of tid db @ es"
    unfolding evolves_def by blast
  then have "query_permission_decision_event tid rid db' = Some e"
    using e assms(3,4) by (auto simp: query_decision_eq split: list.splits)
  ultimately show ?thesis using q by (simp add: answered_def)
qed

lemma answered_resolve_db:
  assumes wf: "events_wf db" "requests_wf db" and t: "find_task tid db = Some t"
    and q: "query_permission_request tid (pd_request_id d) db = Some q" "prr_status q = Pending"
    and e: "e = event_row tid (next_sequence tid db) ProviderPermissionDecided (decision_event_to_value d) now"
    and wf': "events_wf (resolve_db tid d now db)"
  shows "answered tid (pd_request_id d) d e (resolve_db tid d now db)"
proof -
  let ?db = "resolve_db tid d now db"
  have row: "q \<in> set (db_requests db)" "prr_task_id q = tid" "prr_request_id q = pd_request_id d"
    using request_foundD [OF q(1)] by simp_all
  then have "request_ok q db" using wf(2) by (simp add: requests_wf_def)
  with row q(2) have none: "filter (decided_for (pd_request_id d)) (events_of tid db) = []"
    by (simp add: request_ok_status)
  have "events_of tid ?db = events_of tid db @ [e]"
    by (simp add: resolve_db_def log_event_events e)
  then have "query_permission_decision_event tid (pd_request_id d) ?db = Some e"
    using none by (simp add: query_decision_eq [OF wf'] decided_for_def e)
  moreover have "query_permission_request tid (pd_request_id d) ?db = Some (resolve_row d now q)"
    using q(1) row by (simp add: query_permission_request_def resolve_db_def find_update_rows)
  ultimately show ?thesis using t by (simp add: answered_def resolve_row_def resolve_db_def)
qed

lemma resolve_leaves_answered:
  assumes inv: "task_db_inv db" and res: "resolve_permission_request tid rid dec reason now db = (Inr r, db')"
  obtains d where "answered tid rid d (rs_event r) db'" and "pd_decision d = dec"
    and "r\<lparr>rs_duplicated := True\<rparr> = \<lparr>rs_task_id = tid, rs_request_id = rid, rs_status = from_decision dec,
      rs_decision = dec, rs_event = rs_event r, rs_duplicated = True\<rparr>"
proof -
  from inv have wf: "events_wf db" "requests_wf db" by (simp_all add: task_db_inv_def)
  from keepsD [OF keeps_resolve res inv] have wf': "events_wf db'" by (simp add: task_db_inv_def)
  from res obtain t q where t: "find_task tid db = Some t" and q: "query_permission_request tid rid db = Some q"
    by (cases "find_task tid db"; cases "query_permission_request tid rid db") (simp_all add: resolve_missing)
  show ?thesis
  proof (cases "prr_status q = Pending")
    case True
    define d where "d = \<lparr>pd_request_id = rid, pd_decision = dec, pd_reason = reason\<rparr>"
    define e where "e = event_row tid (next_sequence tid db) ProviderPermissionDecided (decision_event_to_value d) now"
    from resolve_pending_effect [OF wf(1) t q True d_def e_def] res
    have r: "r = \<lparr>rs_task_id = tid, rs_request_id = rid, rs_status = from_decision dec, rs_decision = dec,
        rs_event = e, rs_duplicated = False\<rparr>" and db': "db' = resolve_db tid d now db" by simp_all
    have rid: "pd_request_id d = rid" by (simp add: d_def)
    from answered_resolve_db [OF wf t _ True e_def] q wf' have "answered tid rid d e db'"
      unfolding db' rid by simp
    then show ?thesis using that [of d] r by (simp add: d_def)
  next
    case False
    from resolve_again [OF wf t q False] obtain d e where d: "prr_response q = Some d"
      "prr_status q = from_decision (pd_decision d)"
      and ev: "query_permission_decision_event tid rid db = Some e"
      using wf t q False res
      by (auto simp: resolve_permission_request_def op_simps get_task_def split: option.splits if_splits)
    then have ans: "answered tid rid d e db" using t q False by (simp add: answered_def)
    with resolve_answered [OF ans, of dec reason now] res show ?thesis
      using that [of d] by (auto split: if_splits)
  qed
qed

section \<open>Properties\<close>







text \<open>
  \<open>transition\<close> on every branch. A missing task is reported; a request that the table does not
  allow fails and leaves the store alone, as does repeating a terminal status, which succeeds; an
  allowed one sets the status and the time stamps, appends the event with the next sequence number
  to the log of the task, publishes it, and on a terminal status releases every lock of the task.
\<close>

theorem transition_behaviour:
  assumes "task_reachable db"
  shows "transition tid next payload now db =
    (case find_task tid db of
       None \<Rightarrow> (Inl TsNotFound, db)
     | Some t \<Rightarrow>
         if allowed_transition (task_status t) next then
           (let e = event_row tid (length (events_of tid db) + 1) (event_type_for_status next)
                      (unwrap_or payload empty_object) now
            in (Inr (apply_status next now t),
                db\<lparr> db_tasks := update_rows (\<lambda>r. task_id r = tid) (apply_status next now) (db_tasks db),
                    db_events := db_events db @ [e],
                    db_locks := (if is_terminal next then release_held tid now (db_locks db) else db_locks db),
                    db_bus := map_option (bus_publish e) (db_bus db) \<rparr>))
         else if task_status t = next \<and> is_terminal next then (Inr t, db)
         else if is_terminal (task_status t) then (Inl (TsState AlreadyTerminal), db)
         else (Inl (TsState InvalidTransition), db))"
proof -
  have wf: "events_wf db" by (rule task_reachable_parts(2) [OF assms])
  show ?thesis
  proof (cases "find_task tid db")
    case None
    then show ?thesis by (simp add: transition_missing)
  next
    case (Some t)
    show ?thesis
    proof (cases "allowed_transition (task_status t) next")
      case True
      then show ?thesis
        using Some by (simp add: transition_effect [OF wf Some True] Let_def transition_db_eq [OF wf refl])
    next
      case False
      then have "validate_transition (task_status t) next =
          (if task_status t = next \<and> is_terminal next then Inr Idempotent
           else if is_terminal (task_status t) then Inl AlreadyTerminal else Inl InvalidTransition)"
        by (auto simp: validate_transition_def)
      with False Some show ?thesis
        using transition_Inl [OF Some, of "next"] transition_idempotent [OF Some, of "next"]
        by (simp split: if_splits)
    qed
  qed
qed

theorem transition_behaviour_example:
  "fst (transition ''task_1'' Preparing None ''t9'' demo_running) = Inl (TsState InvalidTransition) \<and>
   fst (transition ''task_1'' Completed None ''t9'' demo_running) =
     Inr (apply_status Completed ''t9'' demo_running_task)"
proof -
  have st: "task_status demo_running_task = Running" by (simp add: demo_running_task_def)
  show ?thesis
    unfolding transition_behaviour [OF demo_running_reachable] demo_running_task option.case st
    by (simp add: allowed_transition_def Let_def)
qed

text \<open>
  C10. A permission request is answered once. After a successful resolution, in every later state of
  the store, the same answer is acknowledged as a duplicate with the decision event of the first
  one, the other answer is refused, and neither changes the store.
\<close>

theorem permission_answered_once:
  assumes "task_reachable db"
    and "resolve_permission_request tid rid dec reason now db = (Inr r, db1)"
    and "task_step\<^sup>*\<^sup>* db1 db2"
  shows "resolve_permission_request tid rid dec' reason' now' db2 =
    (if dec' = dec then Inr (r\<lparr>rs_duplicated := True\<rparr>) else Inl PermissionRequestAlreadyResolved, db2)"
proof -
  have inv: "task_db_inv db" by (rule task_reachable_inv [OF assms(1)])
  have inv1: "task_db_inv db1" by (rule keepsD [OF keeps_resolve assms(2) inv])
  note later = task_steps_evolve [OF assms(3) inv1]
  obtain d where d: "answered tid rid d (rs_event r) db1" "pd_decision d = dec"
    "r\<lparr>rs_duplicated := True\<rparr> = \<lparr>rs_task_id = tid, rs_request_id = rid, rs_status = from_decision dec,
      rs_decision = dec, rs_event = rs_event r, rs_duplicated = True\<rparr>"
    by (rule resolve_leaves_answered [OF inv assms(2)])
  have "answered tid rid d (rs_event r) db2"
    using answered_evolves [OF d(1) later(1)] inv1 later(2) by (simp add: task_db_inv_def)
  from resolve_answered [OF this] show ?thesis using d(2,3) by auto
qed

lemma demo_resolve:
  obtains r db where "resolve_permission_request ''task_1'' ''req'' Approve None ''t6'' demo_asked = (Inr r, db)"
proof -
  have "find_task ''task_1'' demo_asked \<noteq> None"
    using evolves_task [OF evolves_record [OF task_reachable_parts(2) [OF demo_running_reachable]] demo_running_task]
    by (metis demo_asked_def option.distinct(1))
  then obtain t where t: "find_task ''task_1'' demo_asked = Some t" by blast
  obtain q where "query_permission_request ''task_1'' ''req'' demo_asked = Some q" "prr_status q = Pending"
    by (rule demo_asked_request)
  from resolve_pending_effect [OF task_reachable_parts(2) [OF demo_asked_reachable] t this refl refl]
  show ?thesis using that by blast
qed

theorem permission_answered_once_witness:
  "fst (resolve_permission_request ''task_1'' ''req'' Deny None ''t9'' demo_answered) =
     Inl PermissionRequestAlreadyResolved"
proof -
  obtain r db where res: "resolve_permission_request ''task_1'' ''req'' Approve None ''t6'' demo_asked = (Inr r, db)"
    by (rule demo_resolve)
  then have "db = demo_answered" by (simp add: demo_answered_def)
  with permission_answered_once [OF demo_asked_reachable res, of demo_answered Deny None "''t9''"]
  show ?thesis by simp
qed

text \<open>
  Replay from a cursor: \<open>list_events_after\<close> returns the stored events of the task after the
  cursor, in order, each once and without a gap.
\<close>

lemma event_replay_exact:
  assumes "task_reachable db"
  shows "\<exists>es. list_events_after tid cursor db = (Inr es, db) \<and>
    take cursor (events_of tid db) @ es = events_of tid db \<and>
    map ev_sequence es = [cursor + 1..<length (events_of tid db) + 1]"
proof -
  have wf: "events_wf db" by (rule task_reachable_parts(2) [OF assms])
  have "map ev_sequence (drop cursor (events_of tid db)) = [Suc cursor..<Suc (length (events_of tid db))]"
    using events_numbered [OF wf, of tid] by (simp add: drop_map [symmetric] del: upt_Suc)
  then show ?thesis by (simp add: list_events_after_eq [OF wf] del: upt_Suc)
qed

lemma event_replay_exact_example:
  "\<exists>es. list_events_after ''task_1'' 2 demo_running = (Inr es, demo_running) \<and>
     take 2 (events_of ''task_1'' demo_running) @ es = events_of ''task_1'' demo_running"
  using event_replay_exact [OF demo_running_reachable, of "''task_1''" 2] by blast

text \<open>
  Two writers: when the sequence number of a transition was read before another writer added
  an event to the same task, the commit fails on the \<open>UNIQUE(task_id, sequence)\<close> constraint and the
  transaction is rolled back.
\<close>

lemma stale_transition_rejected:
  assumes "task_reachable db" and "task_step\<^sup>*\<^sup>* db db'"
    and "events_of tid db' \<noteq> events_of tid db"
  shows "transition_commit tid (next_sequence tid db) next payload now db' = (Inl constraint_failed, db')"
proof -
  note later = task_steps_evolve [OF assms(2) task_reachable_inv [OF assms(1)]]
  from later(1) assms(3) obtain e es where ev: "events_of tid db' = events_of tid db @ e # es"
    unfolding evolves_def by (metis append_Nil2 neq_Nil_conv)
  from later(2) have wf': "events_wf db'" by (simp add: task_db_inv_def)
  have "map ev_sequence (events_of tid db') ! length (events_of tid db) = Suc (length (events_of tid db))"
    using events_numbered [OF wf', of tid] by (simp add: ev nth_append del: upt_Suc)
  then have seq: "ev_sequence e = next_sequence tid db"
    using next_sequence_eq [OF task_reachable_parts(2) [OF assms(1)], of tid] by (simp add: ev nth_append)
  have "e \<in> set (events_of tid db')" by (simp add: ev)
  then have "list_ex (\<lambda>e. ev_id e = event_row_id tid (next_sequence tid db) \<or>
      ev_task_id e = tid \<and> ev_sequence e = next_sequence tid db) (db_events db')"
    using seq by (auto simp: events_of_def list_ex_iff)
  then show ?thesis
    by (simp add: transition_commit_def op_simps insert_event_tx_def)
qed

lemma stale_transition_rejected_example:
  "transition_commit ''task_1'' (next_sequence ''task_1'' demo_running) Completed None ''t9'' demo_asked =
     (Inl constraint_failed, demo_asked)"
proof (rule stale_transition_rejected [OF demo_running_reachable])
  show "task_step\<^sup>*\<^sup>* demo_running demo_asked"
    unfolding demo_asked_def by (rule r_into_rtranclp [of task_step, OF step_record])
  show "events_of ''task_1'' demo_asked \<noteq> events_of ''task_1'' demo_running"
    using record_effect [OF task_reachable_parts(2) [OF demo_running_reachable] demo_running_task]
    by (simp add: demo_asked_def demo_no_requests record_db_def log_event_events)
qed

text \<open>
  \<open>create\<close>: an invalid description is refused with the reason and nothing is stored; a valid one
  is stored under a new id with status \<open>Queued\<close> and one \<open>task.queued\<close> event.
\<close>

lemma create_behaviour:
  assumes "task_reachable db"
  shows "case create_task_validate input of
      Inl e \<Rightarrow> create input now db = (Inl (TsModel e), db)
    | Inr _ \<Rightarrow> (let tid = task_row_id (length (db_tasks db) + 1); (r, db') = create input now db in
        r = Inr (new_task input tid now) \<and> find_task tid db = None \<and>
        find_task tid db' = Some (new_task input tid now) \<and>
        events_of tid db' = [event_row tid 1 EvQueued empty_object now] \<and>
        db_tasks db' = db_tasks db @ [new_task input tid now] \<and> db_locks db' = db_locks db)"
proof (cases "create_task_validate input")
  case (Inl e)
  then show ?thesis by (simp add: create_Inl)
next
  case (Inr u)
  note wf = task_reachable_parts(1,2) [OF assms]
  define tid where "tid = task_row_id (Suc (length (db_tasks db)))"
  let ?db = "db\<lparr>db_tasks := db_tasks db @ [new_task input tid now]\<rparr>"
  have fresh: "find_task tid db = None" using fresh_task_id [OF wf(1)] by (simp add: tid_def)
  then have none: "events_of tid db = []"
    using wf(2) by (auto simp: events_wf_def events_of_def filter_empty_conv)
  have "find_task tid ?db = Some (new_task input tid now)"
    using task_table.lookup_insert [of ?db db "new_task input tid now" tid] fresh
    by (simp add: task_table.lookup_None new_task_def)
  moreover have "next_sequence tid ?db = 1" using none by (simp add: next_sequence_def)
  ultimately show ?thesis
    using Inr fresh none
    by (simp add: create_effect [OF wf _ tid_def] tid_def [symmetric] log_event_events Let_def)
qed

lemma create_behaviour_example:
  "find_task ''task_1'' (empty_task_db (Some default_bus)) = None \<and>
   create_task_validate demo_input = Inr () \<and>
   fst (create demo_input ''t0'' (empty_task_db (Some default_bus))) = Inr demo_task"
proof -
  have "task_row_id (length (db_tasks (empty_task_db (Some default_bus))) + 1) = ''task_1''"
    by (simp add: empty_task_db_def task_row_id_def string_eval)
  then show ?thesis
    using create_behaviour [OF reach_start, of demo_input "''t0''"]
    unfolding demo_input_valid by (simp only: sum.case Let_def case_prod_beta demo_task_def)
qed

section \<open>What separate statements do not exclude\<close>

text \<open>
  The status is validated before the sequence number is read. A writer that validated against an
  earlier state and reads the number after another writer committed a terminal status still
  commits: the stored status is overwritten.
\<close>

lemma validated_before_overwrites:
  assumes "task_reachable db" and "find_task tid db = Some t"
  shows "transition_commit tid (next_sequence tid db) next payload now db =
    (Inr (apply_status next now t), transition_db tid next payload now db)"
  using transition_commit_effect [OF task_reachable_parts(2) [OF assms(1)] assms(2)] .

text \<open>
  \<open>acquire_lock\<close> checks and inserts in separate statements. Two requests that both check before
  either inserts are both granted, exclusive or not.
\<close>

lemma lock_check_race:
  assumes "\<not> lock_conflict r db" and "\<not> lock_conflict q db"
    and "lr_directory_id r = lr_directory_id q" and "lr_task_id r \<noteq> lr_task_id q"
    and "lr_mode r = LockExclusive" and "lr_mode q = LockExclusive"
  shows "\<not> locks_compatible (db_locks (insert_lock q now (insert_lock r now db)))"
proof -
  let ?l = "\<lambda>x. \<lparr>lk_directory_id = lr_directory_id x, lk_task_id = lr_task_id x, lk_mode = lr_mode x,
    lk_status = ''held'', lk_created_at = now, lk_released_at = None\<rparr>"
  have "?l r \<in> set (db_locks (insert_lock q now (insert_lock r now db)))"
    and "?l q \<in> set (db_locks (insert_lock q now (insert_lock r now db)))"
    using assms by (simp_all add: insert_lock_def)
  moreover have "?l r \<noteq> ?l q" using assms(4) by simp
  moreover have "conflicting (lk_mode (?l r)) (lk_mode (?l q))" "held (?l r)" "held (?l q)"
    "lk_directory_id (?l r) = lk_directory_id (?l q)"
    using assms by (simp_all add: conflicting_def held_def)
  ultimately show ?thesis unfolding locks_compatible_def by blast
qed

end
