(* ===== verification/Path_Guard.thy ===== *)
theory Path_Guard
  imports Prelude "HOL-Library.Sublist"
begin

text \<open>
  \<open>src/src/security/path_guard.rs\<close>: canonicalisation of the root of a directory grant and the test
  that a path stays inside it.

  Paths are byte strings as on Unix; \<open>components\<close>, \<open>join\<close> and \<open>starts_with\<close> are those of
  \<open>std::path\<close>. What the operating system answers is the record \<open>file_system\<close>, a parameter:
  \<open>fs_canonicalize\<close> is \<open>realpath\<close>, \<open>None\<close> when it fails.
\<close>

record file_system =
  fs_canonicalize :: "string \<Rightarrow> string option"
  fs_is_dir :: "string \<Rightarrow> bool"
  fs_is_symlink :: "string \<Rightarrow> bool"
  fs_exists :: "string \<Rightarrow> bool"

section \<open>Paths of the standard library\<close>

datatype path_component = RootDir | CurDir | ParentDir | Normal string

fun split_on :: "'a \<Rightarrow> 'a list \<Rightarrow> 'a list list" where
  "split_on c [] = [[]]"
| "split_on c (x # xs) =
     (if x = c then [] # split_on c xs
      else case split_on c xs of [] \<Rightarrow> [[x]] | w # ws \<Rightarrow> (x # w) # ws)"

definition is_absolute :: "string \<Rightarrow> bool" where
  "is_absolute p = (case p of c # _ \<Rightarrow> c = CHR ''/'' | [] \<Rightarrow> False)"

definition component_of :: "string \<Rightarrow> path_component" where
  "component_of w = (if w = ''..'' then ParentDir else Normal w)"

text \<open>
  Empty parts (repeated and trailing separators) and \<open>.\<close> are dropped, except a \<open>.\<close> that begins a
  relative path.
\<close>

definition components :: "string \<Rightarrow> path_component list" where
  "components p =
     (let parts = split_on (CHR ''/'') p;
          body = map component_of (filter (\<lambda>w. w \<noteq> [] \<and> w \<noteq> ''.'') parts)
      in if is_absolute p then RootDir # body
         else if hd parts = ''.'' then CurDir # body
         else body)"

definition join :: "string \<Rightarrow> string \<Rightarrow> string" where
  "join a b = (if is_absolute b then b
     else if a = [] then b
     else if last a = CHR ''/'' then a @ b
     else a @ ''/'' @ b)"

definition starts_with :: "string \<Rightarrow> string \<Rightarrow> bool" where
  "starts_with p base = prefix (components base) (components p)"

fun component_str :: "path_component \<Rightarrow> string" where
  "component_str RootDir = ''/''"
| "component_str CurDir = ''.''"
| "component_str ParentDir = ''..''"
| "component_str (Normal w) = w"

section \<open>The guard\<close>

datatype path_guard_error = InvalidDirectoryPath | PathNotDirectory | PathOutsideGrant | SymlinkEscape

fun path_guard_code :: "path_guard_error \<Rightarrow> string" where
  "path_guard_code InvalidDirectoryPath = ''invalid_directory_path''"
| "path_guard_code PathNotDirectory = ''path_not_directory''"
| "path_guard_code PathOutsideGrant = ''path_outside_grant''"
| "path_guard_code SymlinkEscape = ''symlink_escape''"

fun path_guard_message :: "path_guard_error \<Rightarrow> string" where
  "path_guard_message InvalidDirectoryPath = ''invalid directory path''"
| "path_guard_message PathNotDirectory = ''path is not a directory''"
| "path_guard_message PathOutsideGrant = ''path is outside the directory grant''"
| "path_guard_message SymlinkEscape = ''path escapes the directory grant through a symlink''"

definition path_guard_from_str :: "string \<Rightarrow> path_guard_error option" where
  "path_guard_from_str code =
     (if code = ''invalid_directory_path'' then Some InvalidDirectoryPath
      else if code = ''path_not_directory'' then Some PathNotDirectory
      else if code = ''path_outside_grant'' then Some PathOutsideGrant
      else if code = ''symlink_escape'' then Some SymlinkEscape
      else None)"

definition canonicalize_grant_path :: "file_system \<Rightarrow> string \<Rightarrow> path_guard_error + string" where
  "canonicalize_grant_path fs path =
     (if path = [] then Inl InvalidDirectoryPath
      else case fs_canonicalize fs path of
        None \<Rightarrow> Inl InvalidDirectoryPath
      | Some canonical \<Rightarrow>
          if \<not> fs_is_dir fs canonical then Inl PathNotDirectory else Inr canonical)"

fun symlink_on_the_way :: "file_system \<Rightarrow> string \<Rightarrow> path_component list \<Rightarrow> bool" where
  "symlink_on_the_way fs current [] = False"
| "symlink_on_the_way fs current (c # cs) =
     (let current' = join current (component_str c) in
      if fs_is_symlink fs current' then True else symlink_on_the_way fs current' cs)"

definition path_contains_symlink :: "file_system \<Rightarrow> string \<Rightarrow> bool" where
  "path_contains_symlink fs path = symlink_on_the_way fs [] (components path)"

definition ensure_child_path_within_grant ::
  "file_system \<Rightarrow> string \<Rightarrow> string \<Rightarrow> path_guard_error + string" where
  "ensure_child_path_within_grant fs grant_root candidate =
     r_then (canonicalize_grant_path fs grant_root) (\<lambda>root.
       if candidate = [] then Inl InvalidDirectoryPath
       else
         (let resolved = (if is_absolute candidate then candidate else join root candidate) in
          case fs_canonicalize fs resolved of
            None \<Rightarrow> Inl InvalidDirectoryPath
          | Some canonical \<Rightarrow>
              if starts_with canonical root then Inr canonical
              else if path_contains_symlink fs resolved then Inl SymlinkEscape
              else Inl PathOutsideGrant))"

section \<open>Lemmas\<close>

lemma path_guard_code_roundtrip: "path_guard_from_str (path_guard_code e) = Some e"
  by (cases e) (simp_all add: path_guard_from_str_def)

lemma split_on_no_sep: "c \<notin> set w \<Longrightarrow> split_on c w = [w]"
  by (induction w) auto

lemma split_on_append: "c \<notin> set w \<Longrightarrow> split_on c (w @ c # s) = w # split_on c s"
  by (induction w) auto

text \<open>The text of an absolute path in normal form: what \<open>realpath\<close> returns.\<close>

fun render :: "string list \<Rightarrow> string" where
  "render [] = []"
| "render (w # ws) = CHR ''/'' # w @ render ws"

definition name_ok :: "string \<Rightarrow> bool" where
  "name_ok w \<longleftrightarrow> w \<noteq> [] \<and> w \<noteq> ''.'' \<and> w \<noteq> ''..'' \<and> CHR ''/'' \<notin> set w"

definition normal_path :: "string list \<Rightarrow> string" where
  "normal_path ws = (if ws = [] then ''/'' else render ws)"

lemma split_render: "list_all name_ok ws \<Longrightarrow> name_ok w \<Longrightarrow> split_on (CHR ''/'') (w @ render ws) = w # ws"
proof (induction ws arbitrary: w)
  case Nil
  then show ?case by (simp add: name_ok_def split_on_no_sep)
next
  case (Cons v ws)
  then have "split_on (CHR ''/'') (v @ render ws) = v # ws" by simp
  with Cons.prems show ?case by (simp add: name_ok_def split_on_append)
qed

lemma components_normal_path:
  assumes "list_all name_ok ws"
  shows "components (normal_path ws) = RootDir # map Normal ws"
proof (cases ws)
  case Nil
  then show ?thesis by (simp add: normal_path_def components_def is_absolute_def)
next
  case (Cons w vs)
  with assms have "split_on (CHR ''/'') (w @ render vs) = ws" by (simp add: split_render)
  moreover have "filter (\<lambda>w. w \<noteq> [] \<and> w \<noteq> ''.'') ws = ws" "map component_of ws = map Normal ws"
    using assms by (auto simp: filter_id_conv list_all_iff name_ok_def component_of_def)
  ultimately show ?thesis
    using Cons by (simp add: normal_path_def components_def is_absolute_def)
qed

lemma starts_with_normal:
  assumes "list_all name_ok ws" and "list_all name_ok vs"
  shows "starts_with (normal_path ws) (normal_path vs) \<longleftrightarrow> prefix vs ws"
proof -
  have "prefix (map Normal vs) (map Normal ws) \<longleftrightarrow> prefix vs ws"
    by (induction vs arbitrary: ws) (auto simp: prefix_Cons Cons_prefix_Cons map_eq_Cons_conv prefix_def map_eq_append_conv)
  with assms show ?thesis by (simp add: starts_with_def components_normal_path)
qed

lemma ensure_child_Inr:
  "ensure_child_path_within_grant fs root cand = Inr p \<longleftrightarrow>
     (\<exists>r. canonicalize_grant_path fs root = Inr r \<and> cand \<noteq> [] \<and>
        fs_canonicalize fs (if is_absolute cand then cand else join r cand) = Some p \<and> starts_with p r)"
  by (auto simp: ensure_child_path_within_grant_def r_then_Inr Let_def split: option.splits if_splits)

end
