(* ===== verification/Directory_Store.thy ===== *)
theory Directory_Store
  imports Directory Path_Guard
begin

text \<open>
  \<open>src/src/store/directory_grants.rs\<close>: the table of directory grants. A row has SQLite's hidden rowid;
  a new row gets one more than the largest rowid in use (the table has no AUTOINCREMENT) and its id is
  \<open>dir_<rowid>\<close>. Rows are kept in rowid order. \<open>DsPanic\<close> marks where the code indexes an empty vector.
\<close>

record grant_table =
  gt_rows :: "(nat \<times> directory_grant) list"

record directory_grant_filters =
  gf_product_id :: "string option"
  gf_agent_id :: "string option"

record create_directory_grant =
  cg_product_id :: string
  cg_agent_id :: string
  cg_path :: string
  cg_capabilities :: "directory_capability list"
  cg_workspace_modes :: "workspace_mode list option"
  cg_default_workspace_mode :: "workspace_mode option"
  cg_lock_policy :: "directory_lock_policy option"
  cg_direct_mode_requires_explicit_task_opt_in :: "bool option"
  cg_allow_remote_execution :: "bool option"

record patch_directory_grant =
  pg_capabilities :: "directory_capability list option"
  pg_workspace_modes :: "workspace_mode list option"
  pg_default_workspace_mode :: "workspace_mode option"
  pg_lock_policy :: "directory_lock_policy option"
  pg_direct_mode_requires_explicit_task_opt_in :: "bool option"
  pg_allow_remote_execution :: "bool option"

datatype directory_store_error =
    DsNotFound
  | DsPath path_guard_error
  | DsSecurity directory_security_error
  | DsStore string
  | DsPanic string

type_synonym 'a grant_op = "(grant_table, directory_store_error, 'a) op"

definition empty_grants :: grant_table where
  "empty_grants = \<lparr> gt_rows = [] \<rparr>"

definition grant_rows :: "grant_table \<Rightarrow> directory_grant list" where
  "grant_rows s = map snd (gt_rows s)"

definition grant_row_id :: "nat \<Rightarrow> string" where
  "grant_row_id n = ''dir_'' @ show_nat n"

definition next_rowid :: "grant_table \<Rightarrow> nat" where
  "next_rowid s = fold max (map fst (gt_rows s)) 0 + 1"

section \<open>Operations\<close>

definition find_grant :: "string \<Rightarrow> grant_table \<Rightarrow> directory_grant option" where
  "find_grant gid s = List.find (\<lambda>g. dg_id g = gid) (grant_rows s)"

definition get_grant :: "string \<Rightarrow> directory_grant grant_op" where
  "get_grant gid = reads (\<lambda>s. ok_or DsNotFound (find_grant gid s))"

definition list_grants :: "directory_grant_filters \<Rightarrow> directory_grant list grant_op" where
  "list_grants f = reads (\<lambda>s. Inr (case (gf_product_id f, gf_agent_id f) of
       (Some p, Some a) \<Rightarrow> filter (\<lambda>g. dg_product_id g = p \<and> dg_agent_id g = a) (grant_rows s)
     | (Some p, None) \<Rightarrow> filter (\<lambda>g. dg_product_id g = p) (grant_rows s)
     | (None, Some a) \<Rightarrow> filter (\<lambda>g. dg_agent_id g = a) (grant_rows s)
     | (None, None) \<Rightarrow> grant_rows s))"

text \<open>\<open>workspace_modes[0]\<close> is reached only without a default mode and without \<open>Worktree\<close>.\<close>

definition default_mode_from_create ::
  "create_directory_grant \<Rightarrow> workspace_mode list \<Rightarrow> directory_store_error + workspace_mode" where
  "default_mode_from_create input modes =
     (case cg_default_workspace_mode input of
        Some m \<Rightarrow> Inr m
      | None \<Rightarrow>
          if Worktree \<in> set modes then Inr Worktree
          else (case modes of m # _ \<Rightarrow> Inr m | [] \<Rightarrow> Inl (DsPanic ''index out of bounds'')))"

definition policy_from_create ::
  "create_directory_grant \<Rightarrow> bool \<Rightarrow> directory_store_error + directory_grant_policy" where
  "policy_from_create input is_git =
     r_then (case cg_workspace_modes input of
               Some modes \<Rightarrow> Inr modes
             | None \<Rightarrow> if is_git then Inr [Worktree] else Inl (DsSecurity InvalidWorkspaceMode)) (\<lambda>modes.
     r_then (default_mode_from_create input modes) (\<lambda>default_mode.
     (let lock = unwrap_or (cg_lock_policy input)
                   (if Write \<in> set (cg_capabilities input) then PolicyExclusive else PolicyShared)
      in if modes = [Worktree] \<and> \<not> is_git then Inl (DsSecurity InvalidWorkspaceMode)
         else r_map_err DsSecurity
           (policy_new (cg_capabilities input) modes default_mode lock
             (unwrap_or (cg_direct_mode_requires_explicit_task_opt_in input) True)
             (unwrap_or (cg_allow_remote_execution input) False)))))"

definition is_git_repository :: "file_system \<Rightarrow> string \<Rightarrow> bool" where
  "is_git_repository fs path = fs_exists fs (join path ''.git'')"

definition grant_of_policy ::
  "string \<Rightarrow> create_directory_grant \<Rightarrow> string \<Rightarrow> directory_grant_policy \<Rightarrow> string \<Rightarrow> directory_grant" where
  "grant_of_policy gid input path p now =
     \<lparr> dg_id = gid, dg_product_id = cg_product_id input, dg_agent_id = cg_agent_id input,
       dg_path = path, dg_capabilities = gp_capabilities p,
       dg_workspace_modes = gp_workspace_modes p,
       dg_default_workspace_mode = gp_default_workspace_mode p,
       dg_lock_policy = gp_lock_policy p,
       dg_direct_mode_requires_explicit_task_opt_in = gp_direct_mode_requires_explicit_task_opt_in p,
       dg_allow_remote_execution = gp_allow_remote_execution p,
       dg_created_at = now, dg_updated_at = now \<rparr>"

definition insert_grant :: "directory_grant \<Rightarrow> nat \<Rightarrow> unit grant_op" where
  "insert_grant g n s =
     (if find_grant (dg_id g) s \<noteq> None then (Inl (DsStore ''UNIQUE constraint failed''), s)
      else (Inr (), s\<lparr> gt_rows := gt_rows s @ [(n, g)] \<rparr>))"

definition create_grant ::
  "file_system \<Rightarrow> create_directory_grant \<Rightarrow> string \<Rightarrow> directory_grant grant_op" where
  "create_grant fs input now =
     and_then (lift_r (r_map_err DsPath (canonicalize_grant_path fs (cg_path input)))) (\<lambda>path.
     and_then (lift_r (policy_from_create input (is_git_repository fs path))) (\<lambda>policy.
     and_then (reads (\<lambda>s. Inr (next_rowid s))) (\<lambda>n.
     and_then (insert_grant (grant_of_policy (grant_row_id n) input path policy now) n) (\<lambda>_.
     get_grant (grant_row_id n)))))"

definition patch_is_empty :: "patch_directory_grant \<Rightarrow> bool" where
  "patch_is_empty p \<longleftrightarrow> pg_capabilities p = None \<and> pg_workspace_modes p = None \<and>
     pg_default_workspace_mode p = None \<and> pg_lock_policy p = None \<and>
     pg_direct_mode_requires_explicit_task_opt_in p = None \<and> pg_allow_remote_execution p = None"

definition patched_policy ::
  "patch_directory_grant \<Rightarrow> directory_grant_policy \<Rightarrow> directory_security_error + directory_grant_policy" where
  "patched_policy patch policy =
     policy_new (unwrap_or (pg_capabilities patch) (gp_capabilities policy))
       (unwrap_or (pg_workspace_modes patch) (gp_workspace_modes policy))
       (unwrap_or (pg_default_workspace_mode patch) (gp_default_workspace_mode policy))
       (unwrap_or (pg_lock_policy patch) (gp_lock_policy policy))
       (unwrap_or (pg_direct_mode_requires_explicit_task_opt_in patch)
          (gp_direct_mode_requires_explicit_task_opt_in policy))
       (unwrap_or (pg_allow_remote_execution patch) (gp_allow_remote_execution policy))"

definition set_policy :: "directory_grant_policy \<Rightarrow> string \<Rightarrow> directory_grant \<Rightarrow> directory_grant" where
  "set_policy p now g = g\<lparr> dg_capabilities := gp_capabilities p,
     dg_workspace_modes := gp_workspace_modes p,
     dg_default_workspace_mode := gp_default_workspace_mode p,
     dg_lock_policy := gp_lock_policy p,
     dg_direct_mode_requires_explicit_task_opt_in := gp_direct_mode_requires_explicit_task_opt_in p,
     dg_allow_remote_execution := gp_allow_remote_execution p, dg_updated_at := now \<rparr>"

definition update_grant :: "string \<Rightarrow> (directory_grant \<Rightarrow> directory_grant) \<Rightarrow> grant_table \<Rightarrow> grant_table" where
  "update_grant gid f s =
     s\<lparr> gt_rows := map (\<lambda>(n, g). (n, if dg_id g = gid then f g else g)) (gt_rows s) \<rparr>"

definition patch_grant ::
  "string \<Rightarrow> patch_directory_grant \<Rightarrow> string \<Rightarrow> directory_grant grant_op" where
  "patch_grant gid patch now =
     (if patch_is_empty patch then err (DsSecurity AuthorizationFailed)
      else
        and_then (get_grant gid) (\<lambda>current.
        and_then (lift_r (r_map_err DsSecurity (patched_policy patch (grant_policy current)))) (\<lambda>policy.
        and_then (modify (update_grant gid (set_policy policy now))) (\<lambda>_.
        get_grant gid))))"

definition delete_grant :: "string \<Rightarrow> unit grant_op" where
  "delete_grant gid s =
     (let s' = s\<lparr> gt_rows := filter (\<lambda>r. dg_id (snd r) \<noteq> gid) (gt_rows s) \<rparr>
      in if find_grant gid s = None then (Inl DsNotFound, s') else (Inr (), s'))"

definition authorize_grant :: "directory_authorization_request \<Rightarrow> directory_grant grant_op" where
  "authorize_grant r =
     and_then (get_grant (ar_directory_id r)) (\<lambda>g.
     and_then (lift_r (r_map_err DsSecurity (grant_authorize g r))) (\<lambda>_. ok g))"

section \<open>The invariant of the table\<close>

definition grant_row_ok :: "nat \<times> directory_grant \<Rightarrow> bool" where
  "grant_row_ok r \<longleftrightarrow> (case r of (n, g) \<Rightarrow> dg_id g = grant_row_id n \<and> policy_ok (grant_policy g))"

definition grants_inv :: "grant_table \<Rightarrow> bool" where
  "grants_inv s \<longleftrightarrow> sorted_wrt (<) (map fst (gt_rows s)) \<and> list_all grant_row_ok (gt_rows s)"

lemma grant_row_id_inj [simp]: "grant_row_id m = grant_row_id n \<longleftrightarrow> m = n"
  by (simp add: grant_row_id_def)

lemma grants_inv_ids:
  assumes "grants_inv s"
  shows "map dg_id (grant_rows s) = map grant_row_id (map fst (gt_rows s))"
  using assms by (auto simp: grants_inv_def grant_rows_def list_all_iff grant_row_ok_def)

lemma grants_inv_distinct:
  assumes "grants_inv s"
  shows "distinct (map dg_id (grant_rows s))"
proof -
  have "distinct (map fst (gt_rows s))"
    using assms by (simp add: grants_inv_def strict_sorted_iff)
  then show ?thesis unfolding grants_inv_ids [OF assms] by (simp add: distinct_map inj_on_def)
qed

interpretation grants: keyed_table grant_rows dg_id find_grant grants_inv
  by unfold_locales (simp_all add: find_grant_def grants_inv_distinct)

lemma fold_max_ge: "(m :: nat) \<le> fold max ns m" "n \<in> set ns \<Longrightarrow> n \<le> fold max ns m"
proof -
  have "m \<le> fold max ns m \<and> (\<forall>n \<in> set ns. n \<le> fold max ns m)" for m
  proof (induction ns arbitrary: m)
    case (Cons a ns)
    show ?case using Cons.IH [of "max a m"] by auto
  qed simp
  then show "m \<le> fold max ns m" "n \<in> set ns \<Longrightarrow> n \<le> fold max ns m" by auto
qed

lemma next_rowid_above: "(n, g) \<in> set (gt_rows s) \<Longrightarrow> n < next_rowid s"
  using fold_max_ge(2) [of n "map fst (gt_rows s)" 0] by (force simp: next_rowid_def)

lemma next_id_fresh: "grants_inv s \<Longrightarrow> find_grant (grant_row_id (next_rowid s)) s = None"
  using next_rowid_above
  by (fastforce simp: grants.lookup_None grants_inv_def list_all_iff grant_row_ok_def grant_rows_def)

section \<open>Effects\<close>

lemma get_grant_eq: "get_grant gid s = (ok_or DsNotFound (find_grant gid s), s)"
  by (simp add: get_grant_def reads_def)

lemma grant_of_policy_fields [simp]:
  "dg_id (grant_of_policy gid input path p now) = gid"
  "grant_policy (grant_of_policy gid input path p now) = p"
  by (simp_all add: grant_of_policy_def grant_policy_def)

lemma set_policy_fields [simp]:
  "dg_id (set_policy p now g) = dg_id g" "grant_policy (set_policy p now g) = p"
  by (simp_all add: set_policy_def grant_policy_def)

lemma create_grant_effect:
  assumes "grants_inv s" and "canonicalize_grant_path fs (cg_path input) = Inr path"
    and "policy_from_create input (is_git_repository fs path) = Inr policy"
    and g: "g = grant_of_policy (grant_row_id (next_rowid s)) input path policy now"
  shows "create_grant fs input now s = (Inr g, s\<lparr>gt_rows := gt_rows s @ [(next_rowid s, g)]\<rparr>)"
proof -
  let ?s = "s\<lparr>gt_rows := gt_rows s @ [(next_rowid s, g)]\<rparr>"
  have fresh: "find_grant (dg_id g) s = None" using next_id_fresh [OF assms(1)] g by simp
  then have "find_grant (dg_id g) ?s = Some g"
    using grants.lookup_insert [of ?s s g "dg_id g"]
    by (simp add: grant_rows_def grants.lookup_None)
  with fresh assms(2,3) show ?thesis
    by (simp add: create_grant_def op_simps insert_grant_def get_grant_def g [symmetric])
      (simp add: g)
qed

lemma create_grant_cases:
  assumes "grants_inv s"
  obtains e where "create_grant fs input now s = (Inl e, s)"
  | path policy g where "canonicalize_grant_path fs (cg_path input) = Inr path"
      "policy_from_create input (is_git_repository fs path) = Inr policy"
      "g = grant_of_policy (grant_row_id (next_rowid s)) input path policy now"
      "create_grant fs input now s = (Inr g, s\<lparr>gt_rows := gt_rows s @ [(next_rowid s, g)]\<rparr>)"
proof (cases "canonicalize_grant_path fs (cg_path input)")
  case (Inl e)
  then show ?thesis using that(1) by (simp add: create_grant_def op_simps)
next
  case (Inr path)
  show ?thesis
  proof (cases "policy_from_create input (is_git_repository fs path)")
    case (Inl e)
    with Inr show ?thesis using that(1) by (simp add: create_grant_def op_simps)
  next
    case (Inr policy)
    with \<open>canonicalize_grant_path fs (cg_path input) = Inr path\<close> show ?thesis
      using that(2) create_grant_effect [OF assms _ _ refl] by blast
  qed
qed

lemma grant_rows_update:
  "grant_rows (update_grant gid f s) = update_rows (\<lambda>g. dg_id g = gid) f (grant_rows s)"
  by (auto simp: grant_rows_def update_grant_def update_rows_def)

lemma patch_grant_effect:
  assumes "\<not> patch_is_empty patch" and "find_grant gid s = Some g"
    and "patched_policy patch (grant_policy g) = Inr p"
  shows "patch_grant gid patch now s = (Inr (set_policy p now g), update_grant gid (set_policy p now) s)"
proof -
  have "find_grant gid (update_grant gid (set_policy p now) s) = Some (set_policy p now g)"
    using assms(2) grants.lookup_update [OF grant_rows_update, of "set_policy p now" gid] by simp
  with assms show ?thesis by (simp add: patch_grant_def op_simps get_grant_def)
qed

lemma patch_grant_Inl:
  "patch_is_empty patch \<Longrightarrow> patch_grant gid patch now s = (Inl (DsSecurity AuthorizationFailed), s)"
  "\<not> patch_is_empty patch \<Longrightarrow> find_grant gid s = None \<Longrightarrow> patch_grant gid patch now s = (Inl DsNotFound, s)"
  "\<not> patch_is_empty patch \<Longrightarrow> find_grant gid s = Some g \<Longrightarrow> patched_policy patch (grant_policy g) = Inl e \<Longrightarrow>
   patch_grant gid patch now s = (Inl (DsSecurity e), s)"
  by (simp_all add: patch_grant_def op_simps get_grant_def)

lemma authorize_grant_eq:
  "authorize_grant r s =
    (case find_grant (ar_directory_id r) s of
       None \<Rightarrow> Inl DsNotFound
     | Some g \<Rightarrow> (case grant_authorize g r of Inl e \<Rightarrow> Inl (DsSecurity e) | Inr _ \<Rightarrow> Inr g), s)"
  by (auto simp: authorize_grant_def op_simps get_grant_def split: option.splits sum.splits)

lemma delete_grant_lookup:
  "find_grant j (snd (delete_grant gid s)) = (if j = gid then None else find_grant j s)"
proof -
  have "grant_rows (snd (delete_grant gid s)) = filter (\<lambda>g. dg_id g \<noteq> gid) (grant_rows s)"
    by (simp add: delete_grant_def Let_def grant_rows_def filter_map comp_def)
  then show ?thesis by (rule grants.lookup_delete)
qed

section \<open>Every operation keeps the invariant\<close>

lemma grants_inv_empty: "grants_inv empty_grants"
  by (simp add: grants_inv_def empty_grants_def)

lemma policy_from_create_ok: "policy_from_create input git = Inr p \<Longrightarrow> policy_ok p"
  by (auto simp: policy_from_create_def r_then_Inr Let_def policy_new_ok split: if_splits)

lemma keeps_create_grant: "keeps grants_inv (create_grant fs input now)"
proof
  fix s
  assume inv: "grants_inv s"
  have "grants_inv (s\<lparr>gt_rows := gt_rows s @ [(next_rowid s, g)]\<rparr>)"
    if "g = grant_of_policy (grant_row_id (next_rowid s)) input path policy now" "policy_ok policy" for g path policy
    using inv that next_rowid_above by (fastforce simp: grants_inv_def grant_row_ok_def sorted_wrt_append)
  then show "grants_inv (snd (create_grant fs input now s))"
    using inv policy_from_create_ok by (cases rule: create_grant_cases [OF inv, of fs input now]) auto
qed

lemma grants_inv_update:
  assumes "grants_inv s" and "policy_ok p"
  shows "grants_inv (update_grant gid (set_policy p now) s)"
proof -
  have "map fst (gt_rows (update_grant gid (set_policy p now) s)) = map fst (gt_rows s)"
    by (auto simp: update_grant_def)
  moreover have "list_all grant_row_ok (gt_rows (update_grant gid (set_policy p now) s))"
    using assms by (auto simp: grants_inv_def update_grant_def list_all_iff grant_row_ok_def)
  ultimately show ?thesis using assms(1) by (simp only: grants_inv_def)
qed

lemma keeps_patch_grant: "keeps grants_inv (patch_grant gid patch now)"
proof
  fix s
  assume inv: "grants_inv s"
  show "grants_inv (snd (patch_grant gid patch now s))"
  proof (cases "patch_is_empty patch \<or> find_grant gid s = None")
    case True
    with inv show ?thesis by (cases "patch_is_empty patch") (simp_all add: patch_grant_Inl)
  next
    case False
    then obtain g where g: "\<not> patch_is_empty patch" "find_grant gid s = Some g" by auto
    show ?thesis
    proof (cases "patched_policy patch (grant_policy g)")
      case (Inl e)
      with g inv show ?thesis by (simp add: patch_grant_Inl)
    next
      case (Inr p)
      then have "policy_ok p" by (auto simp: patched_policy_def policy_new_ok)
      with g Inr inv show ?thesis by (simp add: patch_grant_effect grants_inv_update)
    qed
  qed
qed

lemma keeps_delete_grant: "keeps grants_inv (delete_grant gid)"
proof
  fix s
  assume "grants_inv s"
  then show "grants_inv (snd (delete_grant gid s))"
    by (auto simp: delete_grant_def Let_def grants_inv_def list_all_iff sorted_wrt_filter
        sorted_wrt_map)
qed

lemma keeps_grant_reads:
  "keeps P (get_grant gid)" "keeps P (list_grants f)" "keeps P (authorize_grant r)"
  by (auto simp: get_grant_def list_grants_def authorize_grant_def intro!: keeps_and_then)

lemmas grant_keeps = keeps_create_grant keeps_patch_grant keeps_delete_grant keeps_grant_reads

end
