(* ===== verification/Directory_Properties.thy ===== *)
theory Directory_Properties
  imports Directory_Store Locks
begin

text \<open>
  Properties of paths, grants and their authorisation over every state of the grant table that calls
  of \<open>create\<close>, \<open>patch\<close> and \<open>delete\<close> reach, on any file system.
\<close>

inductive grants_reachable :: "grant_table \<Rightarrow> bool" where
  grants_start: "grants_reachable empty_grants"
| grants_create: "grants_reachable s \<Longrightarrow> grants_reachable (snd (create_grant fs input now s))"
| grants_patch: "grants_reachable s \<Longrightarrow> grants_reachable (snd (patch_grant gid patch now s))"
| grants_delete: "grants_reachable s \<Longrightarrow> grants_reachable (snd (delete_grant gid s))"

lemma grants_reachable_inv: "grants_reachable s \<Longrightarrow> grants_inv s"
  by (induction rule: grants_reachable.induct) (auto intro: grants_inv_empty grant_keeps [THEN keeps_snd])

lemma grants_row_ok:
  assumes "grants_inv s" and "g \<in> set (grant_rows s)"
  shows "policy_ok (grant_policy g)"
  using assms by (auto simp: grants_inv_def list_all_iff grant_row_ok_def grant_rows_def)

section \<open>A concrete grant\<close>

definition demo_fs :: file_system where
  "demo_fs = \<lparr> fs_canonicalize = (\<lambda>p. if p = ''/g'' \<or> p = ''/g/x'' \<or> p = ''/gx'' then Some p else None),
     fs_is_dir = (\<lambda>p. p = ''/g''), fs_is_symlink = (\<lambda>_. False), fs_exists = (\<lambda>_. True) \<rparr>"

definition demo_grant_input :: create_directory_grant where
  "demo_grant_input = \<lparr> cg_product_id = ''prod'', cg_agent_id = ''agent'', cg_path = ''/g'',
     cg_capabilities = [Write, Read, Write], cg_workspace_modes = None, cg_default_workspace_mode = None,
     cg_lock_policy = None, cg_direct_mode_requires_explicit_task_opt_in = None,
     cg_allow_remote_execution = None \<rparr>"

definition demo_grant :: directory_grant where
  "demo_grant = \<lparr> dg_id = ''dir_1'', dg_product_id = ''prod'', dg_agent_id = ''agent'', dg_path = ''/g'',
     dg_capabilities = [Read, Write], dg_workspace_modes = [Worktree],
     dg_default_workspace_mode = Worktree, dg_lock_policy = PolicyExclusive,
     dg_direct_mode_requires_explicit_task_opt_in = True, dg_allow_remote_execution = False,
     dg_created_at = ''t0'', dg_updated_at = ''t0'' \<rparr>"

definition demo_grants :: grant_table where
  "demo_grants = \<lparr> gt_rows = [(1, demo_grant)] \<rparr>"

lemma demo_grant_created: "create_grant demo_fs demo_grant_input ''t0'' empty_grants = (Inr demo_grant, demo_grants)"
proof -
  have "policy_new [Write, Read, Write] [Worktree] Worktree PolicyExclusive True False = Inr (grant_policy demo_grant)"
    by (simp add: policy_new_Inr grant_policy_def demo_grant_def btree_list_def
        less_eq_directory_capability_def)
  then have "policy_from_create demo_grant_input True = Inr (grant_policy demo_grant)"
    by (simp add: policy_from_create_def demo_grant_input_def default_mode_from_create_def op_simps
        option_defs Let_def)
  moreover have "canonicalize_grant_path demo_fs (cg_path demo_grant_input) = Inr ''/g''"
    by (simp add: canonicalize_grant_path_def demo_fs_def demo_grant_input_def)
  moreover have "is_git_repository demo_fs ''/g''" by (simp add: is_git_repository_def demo_fs_def)
  moreover have "next_rowid empty_grants = 1" by (simp add: next_rowid_def empty_grants_def)
  moreover have "grant_of_policy (grant_row_id 1) demo_grant_input ''/g'' (grant_policy demo_grant) ''t0'' = demo_grant"
    by (simp add: grant_of_policy_def demo_grant_def demo_grant_input_def grant_policy_def grant_row_id_def string_eval)
  ultimately show ?thesis
    using create_grant_effect [OF grants_inv_empty, of demo_fs demo_grant_input "''/g''" "grant_policy demo_grant" demo_grant "''t0''"]
    by (simp add: demo_grants_def empty_grants_def)
qed

lemma demo_grants_reachable: "grants_reachable demo_grants"
  using grants_create [OF grants_start, of demo_fs demo_grant_input "''t0''"] by (simp add: demo_grant_created)

section \<open>Properties\<close>

text \<open>
  C31. Every stored grant has a valid policy: some capability, a default mode among its modes, sorted
  and duplicate-free lists, a lock policy whenever it allows writing; its id identifies it; and a
  request that needs \<open>Write\<close> and is authorised gets the exclusive lock on the directory.
\<close>

theorem grants_valid_and_writes_exclusive:
  assumes "grants_reachable s" and "g \<in> set (grant_rows s)"
  shows "policy_ok (grant_policy g) \<and> find_grant (dg_id g) s = Some g \<and>
    (Write \<in> set (ar_required_capabilities r) \<and> authorize_grant r s = (Inr g, s) \<longrightarrow>
       mode_for_capabilities (ar_required_capabilities r) (dg_lock_policy g) = LockExclusive)"
proof -
  have inv: "grants_inv s" by (rule grants_reachable_inv [OF assms(1)])
  have ok: "policy_ok (grant_policy g)" by (rule grants_row_ok [OF inv assms(2)])
  have "mode_for_capabilities (ar_required_capabilities r) (dg_lock_policy g) = LockExclusive"
    if "Write \<in> set (ar_required_capabilities r)" "authorize_grant r s = (Inr g, s)"
  proof -
    from that(2) have "grant_authorize g r = Inr ()"
      by (auto simp: authorize_grant_eq split: option.splits sum.splits)
    then have "Write \<in> set (dg_capabilities g)" using that(1) by (auto simp: grant_authorize_Inr)
    with ok have "dg_lock_policy g \<noteq> PolicyNone" by (simp add: policy_ok_def grant_policy_def)
    with that(1) show ?thesis
      using mode_None_iff mode_Shared_iff by (metis directory_capability.distinct(1) empty_iff insert_iff
          lock_mode.exhaust subsetD)
  qed
  then show ?thesis using ok grants.lookup_Some [OF inv] assms(2) by simp
qed

theorem grants_valid_and_writes_exclusive_witness:
  "policy_ok (grant_policy demo_grant) \<and> find_grant ''dir_1'' demo_grants = Some demo_grant"
  using grants_valid_and_writes_exclusive [OF demo_grants_reachable, of demo_grant]
  by (simp add: demo_grants_def grant_rows_def) (simp add: demo_grant_def)

text \<open>
  Authorisation is exact: a request passes if and only if its directory is stored, product and
  agent are those of the grant, every capability it needs and its workspace mode are granted, direct
  mode has the opt-in the grant asks for, and remote execution is allowed where it is wanted. The
  table is only read.
\<close>

lemma authorize_exact:
  "(\<exists>g. authorize_grant r s = (Inr g, s)) \<longleftrightarrow>
   (\<exists>g. find_grant (ar_directory_id r) s = Some g \<and>
      dg_product_id g = ar_product_id r \<and> dg_agent_id g = ar_agent_id r \<and>
      set (ar_required_capabilities r) \<subseteq> set (dg_capabilities g) \<and>
      ar_requested_workspace_mode r \<in> set (dg_workspace_modes g) \<and>
      \<not> (ar_requested_workspace_mode r = Direct \<and>
         dg_direct_mode_requires_explicit_task_opt_in g \<and> \<not> ar_direct_mode_task_opt_in r) \<and>
      \<not> (ar_remote_execution r \<and> \<not> dg_allow_remote_execution g))"
proof -
  have "(\<exists>g. authorize_grant r s = (Inr g, s)) \<longleftrightarrow>
      (\<exists>g. find_grant (ar_directory_id r) s = Some g \<and> grant_authorize g r = Inr ())"
    by (auto simp: authorize_grant_eq split: option.splits sum.splits)
  then show ?thesis using grants.lookup_SomeD by (fastforce simp: grant_authorize_Inr)
qed

text \<open>
  Reading back: a failed \<open>create\<close> stores nothing; after a successful one the new grant is found
  under an id that named no grant before, with the canonical path and the normalised policy, other
  ids are not affected, and \<open>delete\<close> of that id brings the old answers back.
\<close>

lemma grant_create_read_back:
  assumes "grants_reachable s"
  shows "case create_grant fs input now s of
      (Inl e, s') \<Rightarrow> s' = s
    | (Inr g, s') \<Rightarrow>
        find_grant (dg_id g) s = None \<and>
        (\<forall>j. find_grant j s' = (if j = dg_id g then Some g else find_grant j s)) \<and>
        (\<forall>j. find_grant j (snd (delete_grant (dg_id g) s')) = find_grant j s) \<and>
        canonicalize_grant_path fs (cg_path input) = Inr (dg_path g) \<and>
        policy_from_create input (is_git_repository fs (dg_path g)) = Inr (grant_policy g)"
proof -
  have inv: "grants_inv s" by (rule grants_reachable_inv [OF assms])
  show ?thesis
  proof (cases rule: create_grant_cases [OF inv, of fs input now])
    case (2 path policy g)
    let ?s = "s\<lparr>gt_rows := gt_rows s @ [(next_rowid s, g)]\<rparr>"
    have fresh: "find_grant (dg_id g) s = None" using next_id_fresh [OF inv] 2(3) by simp
    then have found: "find_grant j ?s = (if j = dg_id g then Some g else find_grant j s)" for j
      using grants.lookup_insert [of ?s s g j] by (simp add: grant_rows_def grants.lookup_None)
    have "dg_path g = path" "grant_policy g = policy" by (simp_all add: 2(3)) (simp add: grant_of_policy_def)
    with 2(1,2,4) fresh found show ?thesis by (simp add: delete_grant_lookup)
  qed simp
qed

lemma grant_create_read_back_example:
  "find_grant ''dir_1'' empty_grants = None \<and> find_grant ''dir_1'' demo_grants = Some demo_grant"
  using grant_create_read_back [OF grants_start, of demo_fs demo_grant_input "''t0''"]
  by (simp add: demo_grant_created) (simp add: demo_grant_def)

text \<open>
  A patch changes the policy of one grant and nothing else: a refused patch leaves the table
  alone; an accepted one puts the merged, validated policy in place and keeps id, owner, agent,
  path and creation time, and every other grant.
\<close>

lemma grant_patch_read_back:
  assumes "grants_reachable s"
  shows "case patch_grant gid patch now s of
      (Inl e, s') \<Rightarrow> s' = s
    | (Inr g', s') \<Rightarrow>
        (\<exists>g p. find_grant gid s = Some g \<and> patched_policy patch (grant_policy g) = Inr p \<and>
           policy_ok p \<and> g' = set_policy p now g) \<and>
        (\<forall>j. find_grant j s' = (if j = gid then Some g' else find_grant j s))"
proof (cases "patch_is_empty patch \<or> find_grant gid s = None")
  case True
  then show ?thesis by (cases "patch_is_empty patch") (simp_all add: patch_grant_Inl)
next
  case False
  then obtain g where g: "\<not> patch_is_empty patch" "find_grant gid s = Some g" by auto
  show ?thesis
  proof (cases "patched_policy patch (grant_policy g)")
    case (Inl e)
    with g show ?thesis by (simp add: patch_grant_Inl)
  next
    case (Inr p)
    then have "policy_ok p" by (auto simp: patched_policy_def policy_new_ok)
    moreover have "find_grant j (update_grant gid (set_policy p now) s) =
        (if j = gid then Some (set_policy p now g) else find_grant j s)" for j
      using grants.lookup_update [OF grant_rows_update, of "set_policy p now" j gid s] g(2) by simp
    ultimately show ?thesis using g Inr by (auto simp: patch_grant_effect)
  qed
qed

lemma grant_patch_read_back_example:
  "snd (patch_grant ''dir_2''
     \<lparr> pg_capabilities = Some [Read], pg_workspace_modes = None, pg_default_workspace_mode = None,
       pg_lock_policy = None, pg_direct_mode_requires_explicit_task_opt_in = None,
       pg_allow_remote_execution = None \<rparr> ''t1'' demo_grants) = demo_grants"
proof -
  let ?p = "\<lparr> pg_capabilities = Some [Read], pg_workspace_modes = None, pg_default_workspace_mode = None,
       pg_lock_policy = None, pg_direct_mode_requires_explicit_task_opt_in = None,
       pg_allow_remote_execution = None \<rparr>"
  have "find_grant ''dir_2'' demo_grants = None"
    by (simp add: find_grant_def grant_rows_def demo_grants_def demo_grant_def)
  then have "fst (patch_grant ''dir_2'' ?p ''t1'' demo_grants) = Inl DsNotFound"
    by (simp add: patch_grant_Inl patch_is_empty_def)
  with grant_patch_read_back [OF demo_grants_reachable, of "''dir_2''" ?p "''t1''"] show ?thesis
    by (auto split: prod.splits sum.splits)
qed

definition realpath_normal :: "file_system \<Rightarrow> bool" where
  "realpath_normal fs \<longleftrightarrow>
     (\<forall>p c. fs_canonicalize fs p = Some c \<longrightarrow> (\<exists>ws. list_all name_ok ws \<and> c = normal_path ws))"

text \<open>
  C13. The path guard lets through exactly the paths inside the grant. On a file system whose
  \<open>realpath\<close> returns absolute normal paths, a candidate is accepted if and only if it resolves to the
  canonical root followed by further components; a sibling whose name merely begins with the
  name of the root is not inside.
\<close>

theorem path_guard_exact:
  assumes "realpath_normal fs" and "canonicalize_grant_path fs root = Inr r"
    and "resolved = (if is_absolute cand then cand else join r cand)" and "cand \<noteq> []"
  shows "ensure_child_path_within_grant fs root cand = Inr p \<longleftrightarrow>
    fs_canonicalize fs resolved = Some p \<and>
    (\<exists>rs ws. list_all name_ok (rs @ ws) \<and> r = normal_path rs \<and> p = normal_path (rs @ ws))"
proof -
  from assms(2) have "fs_canonicalize fs root = Some r"
    by (auto simp: canonicalize_grant_path_def split: if_splits option.splits)
  with assms(1) obtain rs where rs: "list_all name_ok rs" "r = normal_path rs"
    unfolding realpath_normal_def by blast
  have inside: "starts_with p r \<longleftrightarrow>
      (\<exists>rs ws. list_all name_ok (rs @ ws) \<and> r = normal_path rs \<and> p = normal_path (rs @ ws))"
    if p: "fs_canonicalize fs resolved = Some p"
  proof -
    from assms(1) p obtain ps where ps: "list_all name_ok ps" "p = normal_path ps"
      unfolding realpath_normal_def by blast
    show ?thesis
    proof
      assume "starts_with p r"
      then have "prefix rs ps" using rs ps by (simp add: starts_with_normal)
      then obtain ws where "ps = rs @ ws" by (auto simp: prefix_def)
      then show "\<exists>rs ws. list_all name_ok (rs @ ws) \<and> r = normal_path rs \<and> p = normal_path (rs @ ws)"
        using rs ps by blast
    next
      assume "\<exists>rs ws. list_all name_ok (rs @ ws) \<and> r = normal_path rs \<and> p = normal_path (rs @ ws)"
      then obtain qs ws where q: "list_all name_ok (qs @ ws)" "r = normal_path qs" "p = normal_path (qs @ ws)"
        by blast
      then show "starts_with p r" using starts_with_normal [of "qs @ ws" qs] by simp
    qed
  qed
  have "ensure_child_path_within_grant fs root cand = Inr p \<longleftrightarrow>
      fs_canonicalize fs resolved = Some p \<and> starts_with p r"
    using assms(2-4) by (auto simp: ensure_child_Inr)
  with inside show ?thesis by blast
qed

lemma demo_names:
  "\<exists>ws. list_all name_ok ws \<and> ''/g'' = normal_path ws"
  "\<exists>ws. list_all name_ok ws \<and> ''/g/x'' = normal_path ws"
  "\<exists>ws. list_all name_ok ws \<and> ''/gx'' = normal_path ws"
  by (rule exI [of _ "[''g'']"], simp add: name_ok_def normal_path_def,
      rule exI [of _ "[''g'', ''x'']"], simp add: name_ok_def normal_path_def,
      rule exI [of _ "[''gx'']"], simp add: name_ok_def normal_path_def)

lemma demo_realpath_normal: "realpath_normal demo_fs"
  unfolding realpath_normal_def using demo_names by (simp add: demo_fs_def split: if_splits)

theorem path_guard_exact_witness:
  "ensure_child_path_within_grant demo_fs ''/g'' ''x'' = Inr ''/g/x''"
proof -
  have root: "canonicalize_grant_path demo_fs ''/g'' = Inr ''/g''"
    by (simp add: canonicalize_grant_path_def demo_fs_def)
  have "''/g/x'' = (if is_absolute ''x'' then ''x'' else join ''/g'' ''x'')"
    by (simp add: is_absolute_def join_def)
  note exact = path_guard_exact [OF demo_realpath_normal root this]
  have "list_all name_ok ([''g''] @ [''x'']) \<and> ''/g'' = normal_path [''g''] \<and> ''/g/x'' = normal_path ([''g''] @ [''x''])"
    by (simp add: name_ok_def normal_path_def)
  then have "\<exists>rs ws. list_all name_ok (rs @ ws) \<and> ''/g'' = normal_path rs \<and> ''/g/x'' = normal_path (rs @ ws)"
    by blast
  then show ?thesis using exact [of "''/g/x''"] by (simp add: demo_fs_def)
qed

section \<open>Findings\<close>

text \<open>
  Ids are reused: deleting the grant with the largest rowid and creating another gives the new grant
  the old id. Tasks refer to grants by id.
\<close>

lemma grant_id_reused:
  assumes "grants_reachable s" and "create_grant fs input now s = (Inr g, s1)"
    and "snd (delete_grant (dg_id g) s1) = s2" and "create_grant fs' input' now' s2 = (Inr g', s3)"
  shows "dg_id g' = dg_id g"
proof -
  have inv: "grants_inv s" by (rule grants_reachable_inv [OF assms(1)])
  from create_grant_cases [OF inv, of fs input now] assms(2) obtain path policy
    where g: "g = grant_of_policy (grant_row_id (next_rowid s)) input path policy now"
      and s1: "s1 = s\<lparr>gt_rows := gt_rows s @ [(next_rowid s, g)]\<rparr>" by (metis Inl_Inr_False Pair_inject sum.inject(2))
  have "dg_id h \<noteq> dg_id g" if "(n, h) \<in> set (gt_rows s)" for n h
    using inv that next_rowid_above [OF that] by (auto simp: g grants_inv_def list_all_iff grant_row_ok_def)
  then have "filter (\<lambda>r. dg_id (snd r) \<noteq> dg_id g) (gt_rows s) = gt_rows s"
    by (auto simp: filter_id_conv)
  then have s2: "s2 = s"
    using assms(3) by (auto simp: s1 delete_grant_def Let_def split: if_splits)
  from create_grant_cases [OF inv, of fs' input' now'] assms(4) s2 obtain path' policy'
    where "g' = grant_of_policy (grant_row_id (next_rowid s)) input' path' policy' now'"
    by (metis Inl_Inr_False Pair_inject sum.inject(2))
  then show ?thesis by (simp add: g)
qed

text \<open>
  An empty list of workspace modes without a default mode makes \<open>policy_from_create\<close> index an empty
  vector; a repeated \<open>Worktree\<close> slips past the test that a worktree-only grant is a Git repository.
\<close>

lemma empty_modes_panic:
  "cg_workspace_modes input = Some [] \<Longrightarrow> cg_default_workspace_mode input = None \<Longrightarrow>
   policy_from_create input is_git = Inl (DsPanic ''index out of bounds'')"
  by (simp add: policy_from_create_def default_mode_from_create_def r_then_def)

lemma repeated_worktree_without_git:
  assumes "policy_from_create (demo_grant_input\<lparr>cg_workspace_modes := Some [Worktree, Worktree]\<rparr>) False = r"
  shows "\<exists>p. r = Inr p \<and> gp_workspace_modes p = [Worktree]"
  using assms
  by (auto simp: policy_from_create_def default_mode_from_create_def r_then_def Let_def demo_grant_input_def
      option_defs policy_new_Inr btree_list_def)

end
