(* ===== verification/Registry.thy ===== *)
theory Registry
  imports Path_Guard
begin

text \<open>
  \<open>src/src/registry/\<close>: provider manifests (\<open>manifest.rs\<close>), their validation with the messages it
  reports (\<open>validate.rs\<close>) and the loading of a registry directory (\<open>mod.rs\<close>).

  Reading the directory and turning a \<open>manifest.json\<close> into a value is the work of the operating
  system, of \<open>serde\<close> and of the JSON schema validator: the loader takes the list of directory entries
  with the outcome for each as an argument, and \<open>is_file\<close> answers which files exist.
\<close>

section \<open>Manifests\<close>

datatype provider_status = Community | VerifiedProvider | FirstParty | Deprecated

datatype integration_type = IntegrationCli | IntegrationAcp | IntegrationHttp | IntegrationNative

datatype execution_input_mode = InputArg | InputStdin | InputTempFile

datatype working_directory_mode = WdRequired | WdOptional | WdUnsupported

datatype cancel_signal = Sigterm | Sigint | SigKill | SigNone

datatype acp_transport = Stdio | LocalSocket

datatype acp_working_directory_mode = AcpWorkspace | AcpProvider

datatype http_auth_scheme = AuthNone | AuthBearer

datatype http_upload_mode = WorkspaceSubset | UploadDiff | ContextOnly

datatype directory_lock_mode = RecommendExclusive | RecommendShared | RecommendNone

datatype security_review_level = StandardReview | StrictReview | ExperimentalReview

record vendor_info =
  vn_name :: string
  vn_homepage :: string
  vn_support_url :: "string option"

record install_instructions =
  in_macos :: "string list"
  in_linux :: "string list"
  in_windows :: "string list"

record detect_config =
  dt_commands :: "string list"
  dt_version_args :: "string list"
  dt_version_regex :: "string option"

record execution_config =
  ex_command :: string
  ex_args :: "string list"
  ex_input_mode :: execution_input_mode
  ex_working_directory :: working_directory_mode
  ex_supports_streaming :: bool
  ex_cancel_signal :: cancel_signal

record model_config =
  md_default :: string
  md_supported :: "string list"

record provider_capabilities =
  pc_filesystem_read :: bool
  pc_filesystem_write :: bool
  pc_shell :: bool
  pc_git :: bool
  pc_browser :: bool
  pc_mcp :: bool
  pc_remote_execution :: bool
  pc_worktree :: bool
  pc_direct_directory :: bool
  pc_supports_resume :: bool
  pc_supports_permission_requests :: bool

record http_config =
  ht_endpoint :: string
  ht_auth_scheme :: http_auth_scheme
  ht_upload_mode :: http_upload_mode
  ht_supports_streaming :: bool
  ht_supports_cancel :: bool
  ht_cancel_endpoint :: "string option"

record acp_config =
  ac_transport :: acp_transport
  ac_command :: "string list option"
  ac_endpoint :: "string option"
  ac_working_directory_mode :: acp_working_directory_mode
  ac_env_allowlist :: "string list"

record provider_permissions =
  pp_requires_directory_grant :: bool
  pp_recommended_directory_lock :: directory_lock_mode
  pp_provider_permission_modes :: "string list"
  pp_supports_permission_events :: bool

record environment_config =
  en_required :: "string list"
  en_optional :: "string list"

record security_config =
  sc_runs_locally :: bool
  sc_sends_code_to_vendor :: bool
  sc_data_policy_url :: "string option"
  sc_review_level :: security_review_level

record provider_manifest =
  pm_schema_version :: string
  pm_id :: string
  pm_display_name :: string
  pm_status :: provider_status
  pm_vendor :: vendor_info
  pm_integration_type :: integration_type
  pm_description :: string
  pm_install :: install_instructions
  pm_detect :: detect_config
  pm_execution :: execution_config
  pm_models :: model_config
  pm_capabilities :: provider_capabilities
  pm_permissions :: provider_permissions
  pm_environment :: environment_config
  pm_security :: security_config
  pm_acp :: "acp_config option"
  pm_http :: "http_config option"

record provider_entry =
  pe_directory_name :: string
  pe_manifest_path :: string
  pe_manifest :: provider_manifest

record provider_registry =
  rg_providers :: "provider_entry list"

definition registry_get :: "provider_registry \<Rightarrow> string \<Rightarrow> provider_entry option" where
  "registry_get r pid = List.find (\<lambda>p. pm_id (pe_manifest p) = pid) (rg_providers r)"

section \<open>Validation\<close>

definition provider_error :: "string \<Rightarrow> string \<Rightarrow> string" where
  "provider_error provider msg = ''provider '' @ provider @ '': '' @ msg"

definition is_absolute_command :: "string \<Rightarrow> bool" where
  "is_absolute_command command =
     (let c = trim command in
      is_absolute c \<or> (case c of x # _ \<Rightarrow> x = CHR 0x5C | [] \<Rightarrow> False) \<or>
      (case c of _ # y # _ \<Rightarrow> y = CHR '':'' | _ \<Rightarrow> False))"

definition require_non_empty :: "string \<Rightarrow> string \<Rightarrow> string \<Rightarrow> string list" where
  "require_non_empty provider field v =
     (if trim v = [] then [provider_error provider (field @ '' must not be empty'')] else [])"

definition require_file :: "(string \<Rightarrow> bool) \<Rightarrow> string \<Rightarrow> string \<Rightarrow> string list" where
  "require_file is_file provider path =
     (if \<not> is_file path then [provider_error provider (''required file missing at '' @ path)] else [])"

fun duplicate_errors :: "string \<Rightarrow> string \<Rightarrow> string set \<Rightarrow> string list \<Rightarrow> string list" where
  "duplicate_errors provider field seen [] = []"
| "duplicate_errors provider field seen (v # vs) =
     (if trim v = [] then [provider_error provider (field @ '' must not contain empty values'')] else []) @
     (if v \<in> seen then [provider_error provider (field @ '' contains duplicate value '' @ v)] else []) @
     duplicate_errors provider field (insert v seen) vs"

definition push_duplicate_errors :: "string \<Rightarrow> string \<Rightarrow> string list \<Rightarrow> string list" where
  "push_duplicate_errors provider field vs = duplicate_errors provider field {} vs"

definition validate_acp_fields :: "provider_manifest \<Rightarrow> string list" where
  "validate_acp_fields m =
     (let provider = pm_id m in
      case pm_integration_type m of
        IntegrationAcp \<Rightarrow>
          (case pm_acp m of
             None \<Rightarrow> [provider_error provider ''acp section is required for acp integration'']
           | Some acp \<Rightarrow>
               (let has_command = is_some_and (ac_command acp) (\<lambda>c. c \<noteq> []);
                    has_endpoint = is_some_and (ac_endpoint acp) (\<lambda>e. trim e \<noteq> [])
                in (if has_command = has_endpoint then
                      [provider_error provider ''exactly one startup mode must be configured in acp.command or acp.endpoint'']
                    else []) @
                   (if \<not> has_command \<and> \<not> has_endpoint then
                      [provider_error provider ''acp.command or acp.endpoint must be configured'']
                    else []) @
                   (case ac_command acp of
                      None \<Rightarrow> []
                    | Some command \<Rightarrow> concat (map (\<lambda>(i, segment).
                        if trim segment = [] then
                          [provider_error provider (''acp.command['' @ show_nat i @ ''] must not be empty'')]
                        else []) (enumerate 0 command))) @
                   push_duplicate_errors provider ''acp.env_allowlist'' (ac_env_allowlist acp)))
      | _ \<Rightarrow>
          (if pm_acp m \<noteq> None then
             [provider_error provider ''acp section is only allowed for acp integration'']
           else []))"

definition validate_http_fields :: "provider_manifest \<Rightarrow> string list" where
  "validate_http_fields m =
     (let provider = pm_id m in
      case pm_integration_type m of
        IntegrationHttp \<Rightarrow>
          (case pm_http m of
             None \<Rightarrow> [provider_error provider ''http section is required for http integration'']
           | Some http \<Rightarrow>
               (if trim (ht_endpoint http) = [] then
                  [provider_error provider ''http.endpoint must not be empty''] else []) @
               (if ht_supports_cancel http \<and> is_none_or (ht_cancel_endpoint http) (\<lambda>e. trim e = []) then
                  [provider_error provider ''http.cancel_endpoint is required when supports_cancel is true'']
                else []) @
               (if \<not> pc_remote_execution (pm_capabilities m) then
                  [provider_error provider ''http integration requires capabilities.remote_execution'']
                else []) @
               (if sc_runs_locally (pm_security m) then
                  [provider_error provider ''http integration requires security.runs_locally = false'']
                else []))
      | _ \<Rightarrow>
          (if pm_http m \<noteq> None then
             [provider_error provider ''http section is only allowed for http integration'']
           else []))"

definition validate_manifest_fields :: "provider_manifest \<Rightarrow> string list" where
  "validate_manifest_fields m =
     (let provider = pm_id m in
      require_non_empty provider ''schema_version'' (pm_schema_version m) @
      require_non_empty provider ''id'' (pm_id m) @
      require_non_empty provider ''display_name'' (pm_display_name m) @
      require_non_empty provider ''vendor.name'' (vn_name (pm_vendor m)) @
      require_non_empty provider ''vendor.homepage'' (vn_homepage (pm_vendor m)) @
      require_non_empty provider ''description'' (pm_description m) @
      require_non_empty provider ''execution.command'' (ex_command (pm_execution m)) @
      require_non_empty provider ''models.default'' (md_default (pm_models m)) @
      (if dt_commands (pm_detect m) = [] then
         [provider_error provider ''detect.commands must not be empty''] else []) @
      (if is_absolute_command (ex_command (pm_execution m)) then
         [provider_error provider ''execution.command must not be an absolute path''] else []) @
      concat (map (\<lambda>(i, command).
        (if trim command = [] then
           [provider_error provider (''detect.commands['' @ show_nat i @ ''] must not be empty'')]
         else []) @
        (if is_absolute_command command then
           [provider_error provider (''detect.commands['' @ show_nat i @ ''] must not be an absolute path'')]
         else [])) (enumerate 0 (dt_commands (pm_detect m)))) @
      (if md_default (pm_models m) \<notin> set (md_supported (pm_models m)) then
         [provider_error provider ''models.default must be present in models.supported''] else []) @
      push_duplicate_errors provider ''models.supported'' (md_supported (pm_models m)) @
      push_duplicate_errors provider ''environment.required'' (en_required (pm_environment m)) @
      push_duplicate_errors provider ''environment.optional'' (en_optional (pm_environment m)) @
      push_duplicate_errors provider ''permissions.provider_permission_modes''
        (pp_provider_permission_modes (pm_permissions m)) @
      concat (map (\<lambda>name.
        if name \<in> set (en_required (pm_environment m)) then
          [provider_error provider (''environment variable '' @ name @ '' appears in both required and optional'')]
        else []) (en_optional (pm_environment m))) @
      (if pc_remote_execution (pm_capabilities m) \<and> \<not> sc_sends_code_to_vendor (pm_security m) then
         [provider_error provider ''remote_execution requires security.sends_code_to_vendor''] else []) @
      validate_acp_fields m @
      validate_http_fields m)"

definition validate_manifest_entry ::
  "(string \<Rightarrow> bool) \<Rightarrow> string \<Rightarrow> string \<Rightarrow> provider_manifest \<Rightarrow> string list" where
  "validate_manifest_entry is_file dir_name dir m =
     (let provider = pm_id m in
      (if pm_id m \<noteq> dir_name then
         [provider_error provider (''manifest id does not match directory name '' @ dir_name)] else []) @
      require_file is_file provider (join dir ''README.md'') @
      require_file is_file provider (join dir ''examples/basic.task.json'') @
      validate_manifest_fields m)"

fun registry_duplicates :: "(string \<times> string) list \<Rightarrow> provider_entry list \<Rightarrow> string list" where
  "registry_duplicates seen [] = []"
| "registry_duplicates seen (e # es) =
     (let pid = pm_id (pe_manifest e) in
      (case map_of seen pid of
         None \<Rightarrow> []
       | Some first \<Rightarrow> [provider_error pid (''duplicate provider id in '' @ first @ '' and '' @ pe_manifest_path e)]) @
      registry_duplicates ((pid, pe_manifest_path e) # seen) es)"

definition join_lines :: "string list \<Rightarrow> string" where
  "join_lines ls = (case ls of [] \<Rightarrow> [] | l # rest \<Rightarrow> l @ concat (map (\<lambda>x. CHR 0x0A # x) rest))"

definition registry_failed :: "string list \<Rightarrow> string" where
  "registry_failed errors = ''registry validation failed:'' @ CHR 0x0A # join_lines errors"

definition validate_registry_entries :: "provider_entry list \<Rightarrow> string + unit" where
  "validate_registry_entries es =
     (let errors = registry_duplicates [] es in
      if errors = [] then Inr () else Inl (registry_failed errors))"

section \<open>Loading\<close>

record registry_dir_entry =
  de_is_dir :: bool
  de_file_name :: string
  de_manifest :: "string + provider_manifest"

definition entry_of :: "string \<Rightarrow> registry_dir_entry \<Rightarrow> provider_manifest \<Rightarrow> provider_entry" where
  "entry_of providers_dir d m =
     \<lparr> pe_directory_name = de_file_name d,
       pe_manifest_path = join (join providers_dir (de_file_name d)) ''manifest.json'',
       pe_manifest = m \<rparr>"

text \<open>One round of the loop over the entries, on the pair of errors and providers so far.\<close>

definition load_entry ::
  "(string \<Rightarrow> bool) \<Rightarrow> string \<Rightarrow> registry_dir_entry \<Rightarrow> string list \<times> provider_entry list \<Rightarrow>
   string list \<times> provider_entry list" where
  "load_entry is_file providers_dir d acc =
     (case acc of (errors, providers) \<Rightarrow>
        if \<not> de_is_dir d then (errors, providers)
        else (case de_manifest d of
                Inr m \<Rightarrow>
                  (errors @ validate_manifest_entry is_file (de_file_name d)
                              (join providers_dir (de_file_name d)) m,
                   providers @ [entry_of providers_dir d m])
              | Inl e \<Rightarrow> (errors @ [e], providers)))"

definition load_registry_from_dir ::
  "(string \<Rightarrow> bool) \<Rightarrow> string \<Rightarrow> (string + registry_dir_entry list) \<Rightarrow> string + provider_registry" where
  "load_registry_from_dir is_file providers_dir listing =
     r_then listing (\<lambda>entries.
       (let (errors, providers) = fold (load_entry is_file providers_dir) entries ([], []);
            errors' = errors @ (case validate_registry_entries providers of Inl e \<Rightarrow> [e] | Inr _ \<Rightarrow> [])
        in if errors' \<noteq> [] then Inl (registry_failed errors')
           else Inr \<lparr> rg_providers = sort_key (\<lambda>p. pm_id (pe_manifest p)) providers \<rparr>))"

section \<open>What an accepted manifest satisfies\<close>

definition blank :: "string \<Rightarrow> bool" where
  "blank v \<longleftrightarrow> trim v = []"

definition names_ok :: "string list \<Rightarrow> bool" where
  "names_ok vs \<longleftrightarrow> distinct vs \<and> (\<forall>v \<in> set vs. \<not> blank v)"

definition acp_ok :: "provider_manifest \<Rightarrow> bool" where
  "acp_ok m \<longleftrightarrow>
     (if pm_integration_type m = IntegrationAcp then
        (\<exists>acp. pm_acp m = Some acp \<and> names_ok (ac_env_allowlist acp) \<and>
           (\<forall>cmd. ac_command acp = Some cmd \<longrightarrow> (\<forall>c \<in> set cmd. \<not> blank c)) \<and>
           ((\<exists>cmd. ac_command acp = Some cmd \<and> cmd \<noteq> []) \<longleftrightarrow>
            \<not> (\<exists>e. ac_endpoint acp = Some e \<and> \<not> blank e)))
      else pm_acp m = None)"

definition http_ok :: "provider_manifest \<Rightarrow> bool" where
  "http_ok m \<longleftrightarrow>
     (if pm_integration_type m = IntegrationHttp then
        (\<exists>http. pm_http m = Some http \<and> \<not> blank (ht_endpoint http) \<and>
           (ht_supports_cancel http \<longrightarrow> (\<exists>e. ht_cancel_endpoint http = Some e \<and> \<not> blank e)) \<and>
           pc_remote_execution (pm_capabilities m) \<and> \<not> sc_runs_locally (pm_security m))
      else pm_http m = None)"

definition manifest_ok :: "provider_manifest \<Rightarrow> bool" where
  "manifest_ok m \<longleftrightarrow>
     (\<forall>v \<in> {pm_schema_version m, pm_id m, pm_display_name m, vn_name (pm_vendor m),
            vn_homepage (pm_vendor m), pm_description m, ex_command (pm_execution m),
            md_default (pm_models m)}. \<not> blank v) \<and>
     dt_commands (pm_detect m) \<noteq> [] \<and> \<not> is_absolute_command (ex_command (pm_execution m)) \<and>
     (\<forall>c \<in> set (dt_commands (pm_detect m)). \<not> blank c \<and> \<not> is_absolute_command c) \<and>
     md_default (pm_models m) \<in> set (md_supported (pm_models m)) \<and>
     names_ok (md_supported (pm_models m)) \<and>
     names_ok (pp_provider_permission_modes (pm_permissions m)) \<and>
     names_ok (en_required (pm_environment m) @ en_optional (pm_environment m)) \<and>
     (pc_remote_execution (pm_capabilities m) \<longrightarrow> sc_sends_code_to_vendor (pm_security m)) \<and>
     acp_ok m \<and> http_ok m"

lemma duplicate_errors_Nil:
  "duplicate_errors p f seen vs = [] \<longleftrightarrow> names_ok vs \<and> set vs \<inter> seen = {}"
  by (induction vs arbitrary: seen) (auto simp: names_ok_def blank_def)

lemma push_duplicate_errors_Nil [simp]: "push_duplicate_errors p f vs = [] \<longleftrightarrow> names_ok vs"
  by (simp add: push_duplicate_errors_def duplicate_errors_Nil)

lemma require_non_empty_Nil [simp]: "require_non_empty p f v = [] \<longleftrightarrow> \<not> blank v"
  by (simp add: require_non_empty_def blank_def)

lemma set_enumerate_snd: "(\<forall>(i, x) \<in> set (enumerate n xs). P x) \<longleftrightarrow> (\<forall>x \<in> set xs. P x)"
proof -
  have "set xs = snd ` set (enumerate n xs)" by (metis list.set_map map_snd_enumerate)
  then show ?thesis by auto
qed

lemma enumerate_errors_Nil:
  assumes "\<And>i x. f (i, x) = [] \<longleftrightarrow> P x"
  shows "concat (map f (enumerate n xs)) = [] \<longleftrightarrow> (\<forall>x \<in> set xs. P x)"
  using set_enumerate_snd [of n xs P] assms by auto

lemma validate_acp_Nil: "validate_acp_fields m = [] \<longleftrightarrow> acp_ok m"
proof (cases "pm_integration_type m = IntegrationAcp")
  case True
  show ?thesis
  proof (cases "pm_acp m")
    case None
    with True show ?thesis by (simp add: validate_acp_fields_def acp_ok_def)
  next
    case (Some acp)
    have "concat (map (\<lambda>(i, segment). if trim segment = [] then
          [provider_error (pm_id m) (''acp.command['' @ show_nat i @ ''] must not be empty'')] else [])
        (enumerate 0 cmd)) = [] \<longleftrightarrow> (\<forall>c \<in> set cmd. \<not> blank c)" for cmd
      by (rule enumerate_errors_Nil) (simp add: blank_def)
    with True Some show ?thesis
      by (cases "ac_command acp"; cases "ac_endpoint acp")
        (auto simp: validate_acp_fields_def acp_ok_def is_some_and_def Let_def blank_def)
  qed
next
  case False
  then show ?thesis
    by (cases "pm_integration_type m") (simp_all add: validate_acp_fields_def acp_ok_def)
qed

lemma validate_http_Nil: "validate_http_fields m = [] \<longleftrightarrow> http_ok m"
proof (cases "pm_integration_type m = IntegrationHttp")
  case True
  show ?thesis
  proof (cases "pm_http m")
    case None
    with True show ?thesis by (simp add: validate_http_fields_def http_ok_def)
  next
    case (Some http)
    with True show ?thesis
      by (cases "ht_cancel_endpoint http")
        (auto simp: validate_http_fields_def http_ok_def is_none_or_def Let_def blank_def)
  qed
next
  case False
  then show ?thesis
    by (cases "pm_integration_type m") (simp_all add: validate_http_fields_def http_ok_def)
qed

lemma validate_manifest_Nil: "validate_manifest_fields m = [] \<longleftrightarrow> manifest_ok m"
proof -
  have cmds: "concat (map (\<lambda>(i, command).
        (if trim command = [] then
           [provider_error (pm_id m) (''detect.commands['' @ show_nat i @ ''] must not be empty'')]
         else []) @
        (if is_absolute_command command then
           [provider_error (pm_id m) (''detect.commands['' @ show_nat i @ ''] must not be an absolute path'')]
         else [])) (enumerate 0 (dt_commands (pm_detect m)))) = [] \<longleftrightarrow>
      (\<forall>c \<in> set (dt_commands (pm_detect m)). \<not> blank c \<and> \<not> is_absolute_command c)"
    by (rule enumerate_errors_Nil) (simp add: blank_def)
  have env: "names_ok (en_required e @ en_optional e) \<longleftrightarrow>
      names_ok (en_required e) \<and> names_ok (en_optional e) \<and> set (en_optional e) \<inter> set (en_required e) = {}" for e :: environment_config
    by (auto simp: names_ok_def)
  show ?thesis
    unfolding validate_manifest_fields_def Let_def append_is_Nil_conv cmds manifest_ok_def env
      validate_acp_Nil validate_http_Nil
    by auto
qed

section \<open>What a loaded registry satisfies\<close>

lemma registry_duplicates_Nil:
  "registry_duplicates seen es = [] \<longleftrightarrow>
     distinct (map (\<lambda>e. pm_id (pe_manifest e)) es) \<and>
     (\<lambda>e. pm_id (pe_manifest e)) ` set es \<inter> fst ` set seen = {}"
proof (induction es arbitrary: seen)
  case (Cons e es)
  show ?case
  proof (cases "map_of seen (pm_id (pe_manifest e))")
    case None
    then have "pm_id (pe_manifest e) \<notin> fst ` set seen" by (simp add: map_of_eq_None_iff)
    with None show ?thesis using Cons.IH by (auto simp: Let_def)
  next
    case (Some p)
    then have "pm_id (pe_manifest e) \<in> fst ` set seen" by (force dest: map_of_SomeD)
    with Some show ?thesis by (simp add: Let_def)
  qed
qed simp

lemma validate_registry_entries_Inr:
  "validate_registry_entries es = Inr u \<longleftrightarrow> distinct (map (\<lambda>e. pm_id (pe_manifest e)) es)"
  by (simp add: validate_registry_entries_def Let_def registry_duplicates_Nil)

definition loaded :: "string \<Rightarrow> registry_dir_entry list \<Rightarrow> provider_entry list" where
  "loaded dir ds = concat (map (\<lambda>d. if de_is_dir d then
     (case de_manifest d of Inl _ \<Rightarrow> [] | Inr m \<Rightarrow> [entry_of dir d m]) else []) ds)"

definition load_errors :: "(string \<Rightarrow> bool) \<Rightarrow> string \<Rightarrow> registry_dir_entry list \<Rightarrow> string list" where
  "load_errors is_file dir ds = concat (map (\<lambda>d. if de_is_dir d then
     (case de_manifest d of Inl e \<Rightarrow> [e]
      | Inr m \<Rightarrow> validate_manifest_entry is_file (de_file_name d) (join dir (de_file_name d)) m)
     else []) ds)"

lemma fold_load_entry:
  "fold (load_entry is_file dir) ds (es, ps) = (es @ load_errors is_file dir ds, ps @ loaded dir ds)"
  by (induction ds arbitrary: es ps)
    (auto simp: load_entry_def load_errors_def loaded_def split: sum.splits)

lemma load_registry_Inr:
  "load_registry_from_dir is_file dir listing = Inr r \<longleftrightarrow>
     (\<exists>ds. listing = Inr ds \<and> load_errors is_file dir ds = [] \<and>
        distinct (map (\<lambda>e. pm_id (pe_manifest e)) (loaded dir ds)) \<and>
        r = \<lparr> rg_providers = sort_key (\<lambda>p. pm_id (pe_manifest p)) (loaded dir ds) \<rparr>)"
proof -
  have "(case validate_registry_entries ps of Inl e \<Rightarrow> [e] | Inr _ \<Rightarrow> []) = [] \<longleftrightarrow>
      distinct (map (\<lambda>e. pm_id (pe_manifest e)) ps)" for ps
    using validate_registry_entries_Inr [of ps] by (cases "validate_registry_entries ps") auto
  then show ?thesis
    by (auto simp: load_registry_from_dir_def r_then_Inr fold_load_entry Let_def)
qed

end
