(* ===== verification/Agent_Profile.thy ===== *)
theory Agent_Profile
  imports Json Registry
begin

text \<open>
  \<open>src/src/agent/profile.rs\<close>: agent profiles, their validation on their own and against the provider
  registry. The two regular expressions are spelled out as predicates on the bytes. The module has
  its own \<open>WorkspaceMode\<close>, distinct from that of directory grants.
\<close>

datatype agent_workspace_mode = AgentWorktree | AgentDirect

record execution_policy =
  ep_default_workspace_mode :: agent_workspace_mode
  ep_allow_direct_directory :: bool

record provider_config =
  cf_custom_args :: "string list"
  cf_custom_env_keys :: "string list"
  cf_mcp_config :: "json option"
  cf_permission_mode :: string

record agent_profile =
  ap_id :: string
  ap_name :: string
  ap_owner_product_id :: string
  ap_provider_id :: string
  ap_model :: string
  ap_instructions :: "string option"
  ap_execution_policy :: execution_policy
  ap_provider_config :: provider_config
  ap_created_at :: string
  ap_updated_at :: string

record create_agent_profile =
  ca_id :: string
  ca_name :: string
  ca_owner_product_id :: string
  ca_provider_id :: string
  ca_model :: string
  ca_instructions :: "string option"
  ca_execution_policy :: execution_policy
  ca_provider_config :: provider_config

record agent_authorization_request =
  aa_owner_product_id :: string
  aa_agent_id :: string
  aa_provider_id_override :: "string option"
  aa_model_override :: "string option"
  aa_permission_mode_override :: "string option"
  aa_requested_workspace_mode :: agent_workspace_mode

datatype agent_profile_error =
    ProfileNotFound
  | InvalidAgentId
  | InvalidAgentProfile
  | InvalidExecutionPolicy
  | InvalidProviderConfig
  | ProviderNotFound
  | ModelNotSupported
  | PermissionModeNotSupported
  | ProfileAuthorizationFailed

fun profile_error_code :: "agent_profile_error \<Rightarrow> string" where
  "profile_error_code ProfileNotFound = ''agent_not_found''"
| "profile_error_code InvalidAgentId = ''invalid_agent_id''"
| "profile_error_code InvalidAgentProfile = ''invalid_agent_profile''"
| "profile_error_code InvalidExecutionPolicy = ''invalid_execution_policy''"
| "profile_error_code InvalidProviderConfig = ''invalid_provider_config''"
| "profile_error_code ProviderNotFound = ''provider_not_found''"
| "profile_error_code ModelNotSupported = ''model_not_supported''"
| "profile_error_code PermissionModeNotSupported = ''permission_mode_not_supported''"
| "profile_error_code ProfileAuthorizationFailed = ''agent_authorization_failed''"

fun profile_error_message :: "agent_profile_error \<Rightarrow> string" where
  "profile_error_message ProfileNotFound = ''agent profile not found''"
| "profile_error_message InvalidAgentId = ''invalid agent id''"
| "profile_error_message InvalidAgentProfile = ''invalid agent profile''"
| "profile_error_message InvalidExecutionPolicy = ''invalid execution policy''"
| "profile_error_message InvalidProviderConfig = ''invalid provider config''"
| "profile_error_message ProviderNotFound = ''provider not found''"
| "profile_error_message ModelNotSupported = ''model not supported''"
| "profile_error_message PermissionModeNotSupported = ''permission mode not supported''"
| "profile_error_message ProfileAuthorizationFailed = ''agent authorization failed''"

section \<open>Validation\<close>

definition is_letter :: "char \<Rightarrow> bool" where
  "is_letter c = (let b = of_char c :: nat in 65 \<le> b \<and> b \<le> 90 \<or> 97 \<le> b \<and> b \<le> 122)"

definition is_alnum :: "char \<Rightarrow> bool" where
  "is_alnum c = (is_letter c \<or> is_digit c)"

text \<open>\<open>^[a-zA-Z0-9][a-zA-Z0-9._-]{0,127}$\<close>\<close>

definition id_pattern :: "string \<Rightarrow> bool" where
  "id_pattern s = (case s of [] \<Rightarrow> False
     | c # cs \<Rightarrow> is_alnum c \<and> length cs \<le> 127 \<and>
         list_all (\<lambda>d. is_alnum d \<or> d \<in> {CHR ''.'', CHR ''_'', CHR ''-''}) cs)"

definition validate_id :: "string \<Rightarrow> agent_profile_error + unit" where
  "validate_id s = guard (id_pattern s) InvalidAgentId"

text \<open>\<open>^[A-Za-z_][A-Za-z0-9_]*$\<close>\<close>

definition env_key_pattern :: "string \<Rightarrow> bool" where
  "env_key_pattern s = (case s of [] \<Rightarrow> False
     | c # cs \<Rightarrow> (is_letter c \<or> c = CHR ''_'') \<and> list_all (\<lambda>d. is_alnum d \<or> d = CHR ''_'') cs)"

definition RESERVED_PROVIDER_ARGS :: "string list" where
  "RESERVED_PROVIDER_ARGS =
     [''--provider'', ''--model'', ''--cwd'', ''--directory'', ''--workdir'', ''--permission-mode'',
      ''--dangerously-bypass-approvals-and-sandbox'']"

definition validate_required_string :: "string \<Rightarrow> agent_profile_error + unit" where
  "validate_required_string v = guard (trim v \<noteq> []) InvalidAgentProfile"

definition validate_optional_string :: "string \<Rightarrow> agent_profile_error + unit" where
  "validate_optional_string v = guard (CHR 0x00 \<notin> set v) InvalidAgentProfile"

definition execution_policy_validate :: "execution_policy \<Rightarrow> agent_profile_error + unit" where
  "execution_policy_validate p =
     (if ep_default_workspace_mode p = AgentDirect \<and> \<not> ep_allow_direct_directory p
      then Inl InvalidExecutionPolicy else Inr ())"

text \<open>The two loops, each with the set of the values seen so far.\<close>

fun custom_args_ok :: "string set \<Rightarrow> string list \<Rightarrow> bool" where
  "custom_args_ok seen [] = True"
| "custom_args_ok seen (a # as) =
     (if a = [] \<or> CHR 0x00 \<in> set a \<or> a \<in> set RESERVED_PROVIDER_ARGS \<or> a \<in> seen then False
      else custom_args_ok (insert a seen) as)"

fun custom_env_keys_ok :: "string set \<Rightarrow> string list \<Rightarrow> bool" where
  "custom_env_keys_ok seen [] = True"
| "custom_env_keys_ok seen (k # ks) =
     (if \<not> env_key_pattern k \<or> k \<in> seen then False else custom_env_keys_ok (insert k seen) ks)"

definition provider_config_validate :: "provider_config \<Rightarrow> agent_profile_error + unit" where
  "provider_config_validate c =
     r_then (guard (custom_args_ok {} (cf_custom_args c)) InvalidProviderConfig) (\<lambda>_.
     r_then (guard (custom_env_keys_ok {} (cf_custom_env_keys c)) InvalidProviderConfig) (\<lambda>_.
     validate_required_string (cf_permission_mode c)))"

definition default_permission_mode :: string where
  "default_permission_mode = ''provider_default''"

definition create_profile_validate :: "create_agent_profile \<Rightarrow> agent_profile_error + unit" where
  "create_profile_validate p =
     r_then (validate_id (ca_id p)) (\<lambda>_.
     r_then (validate_required_string (ca_name p)) (\<lambda>_.
     r_then (validate_required_string (ca_owner_product_id p)) (\<lambda>_.
     r_then (validate_required_string (ca_provider_id p)) (\<lambda>_.
     r_then (validate_required_string (ca_model p)) (\<lambda>_.
     r_then (case ca_instructions p of None \<Rightarrow> Inr () | Some i \<Rightarrow> validate_optional_string i) (\<lambda>_.
     r_then (execution_policy_validate (ca_execution_policy p)) (\<lambda>_.
     provider_config_validate (ca_provider_config p))))))))"

definition validate_against_registry ::
  "create_agent_profile \<Rightarrow> provider_registry \<Rightarrow> agent_profile_error + unit" where
  "validate_against_registry p registry =
     r_then (create_profile_validate p) (\<lambda>_.
     r_then (ok_or ProviderNotFound (registry_get registry (ca_provider_id p))) (\<lambda>provider.
     if ca_model p \<notin> set (md_supported (pm_models (pe_manifest provider))) then Inl ModelNotSupported
     else if cf_permission_mode (ca_provider_config p) \<noteq> default_permission_mode \<and>
         \<not> list_ex (\<lambda>mode. mode = cf_permission_mode (ca_provider_config p))
             (pp_provider_permission_modes (pm_permissions (pe_manifest provider)))
       then Inl PermissionModeNotSupported
     else Inr ()))"

definition into_profile :: "create_agent_profile \<Rightarrow> string \<Rightarrow> string \<Rightarrow> agent_profile" where
  "into_profile p created updated =
     \<lparr> ap_id = ca_id p, ap_name = ca_name p, ap_owner_product_id = ca_owner_product_id p,
       ap_provider_id = ca_provider_id p, ap_model = ca_model p, ap_instructions = ca_instructions p,
       ap_execution_policy = ca_execution_policy p, ap_provider_config = ca_provider_config p,
       ap_created_at = created, ap_updated_at = updated \<rparr>"

section \<open>What a valid profile satisfies\<close>

definition config_ok :: "provider_config \<Rightarrow> bool" where
  "config_ok c \<longleftrightarrow>
     distinct (cf_custom_args c) \<and> [] \<notin> set (cf_custom_args c) \<and>
     set (cf_custom_args c) \<inter> set RESERVED_PROVIDER_ARGS = {} \<and>
     (\<forall>a \<in> set (cf_custom_args c). CHR 0x00 \<notin> set a) \<and>
     distinct (cf_custom_env_keys c) \<and> (\<forall>k \<in> set (cf_custom_env_keys c). env_key_pattern k) \<and>
     \<not> blank (cf_permission_mode c)"

definition profile_ok :: "create_agent_profile \<Rightarrow> bool" where
  "profile_ok p \<longleftrightarrow> id_pattern (ca_id p) \<and>
     (\<forall>v \<in> {ca_name p, ca_owner_product_id p, ca_provider_id p, ca_model p}. \<not> blank v) \<and>
     (\<forall>i. ca_instructions p = Some i \<longrightarrow> CHR 0x00 \<notin> set i) \<and>
     (ep_default_workspace_mode (ca_execution_policy p) = AgentDirect \<longrightarrow>
        ep_allow_direct_directory (ca_execution_policy p)) \<and>
     config_ok (ca_provider_config p)"

lemma custom_args_ok_iff:
  "custom_args_ok seen as \<longleftrightarrow>
     distinct as \<and> set as \<inter> seen = {} \<and> [] \<notin> set as \<and> set as \<inter> set RESERVED_PROVIDER_ARGS = {} \<and>
     (\<forall>a \<in> set as. CHR 0x00 \<notin> set a)"
  by (induction as arbitrary: seen) auto

lemma custom_env_keys_ok_iff:
  "custom_env_keys_ok seen ks \<longleftrightarrow> distinct ks \<and> set ks \<inter> seen = {} \<and> (\<forall>k \<in> set ks. env_key_pattern k)"
  by (induction ks arbitrary: seen) auto

lemma provider_config_validate_Inr: "provider_config_validate c = Inr u \<longleftrightarrow> config_ok c"
  by (auto simp: provider_config_validate_def r_then_Inr custom_args_ok_iff custom_env_keys_ok_iff
      validate_required_string_def config_ok_def blank_def)

lemma create_profile_validate_Inr: "create_profile_validate p = Inr u \<longleftrightarrow> profile_ok p"
  by (auto simp: create_profile_validate_def r_then_Inr validate_id_def validate_required_string_def
      validate_optional_string_def execution_policy_validate_def provider_config_validate_Inr
      profile_ok_def blank_def split: option.splits)

lemma validate_against_registry_Inr:
  "validate_against_registry p registry = Inr u \<longleftrightarrow> profile_ok p \<and>
     (\<exists>e. registry_get registry (ca_provider_id p) = Some e \<and>
        ca_model p \<in> set (md_supported (pm_models (pe_manifest e))) \<and>
        (cf_permission_mode (ca_provider_config p) = default_permission_mode \<or>
         cf_permission_mode (ca_provider_config p) \<in>
           set (pp_provider_permission_modes (pm_permissions (pe_manifest e)))))"
  by (auto simp: validate_against_registry_def r_then_Inr create_profile_validate_Inr list_ex_iff)

end
