(* ===== verification/Product.thy ===== *)
theory Product
  imports Agent_Profile
begin

text \<open>
  \<open>src/src/product/mod.rs\<close>: products, the scopes of the local API, product tokens and their
  validation.
\<close>

datatype product_status = ProductActive | ProductDisabledStatus

record product =
  pr_id :: string
  pr_display_name :: string
  pr_status :: product_status
  pr_description :: "string option"
  pr_created_at :: string
  pr_updated_at :: string

record create_product =
  cp_id :: string
  cp_display_name :: string
  cp_description :: "string option"

record patch_product =
  pp_display_name :: "string option"
  pp_description :: "string option option"
  pp_status :: "product_status option"

datatype api_scope =
    ProvidersRead | RuntimesRead | AgentsRead | AgentsWrite | DirectoriesRead | DirectoriesGrant
  | DirectoriesDirect | TasksCreate | TasksRead | TasksCancel | TasksRemoteExecution

fun scope_str :: "api_scope \<Rightarrow> string" where
  "scope_str ProvidersRead = ''providers:read''"
| "scope_str RuntimesRead = ''runtimes:read''"
| "scope_str AgentsRead = ''agents:read''"
| "scope_str AgentsWrite = ''agents:write''"
| "scope_str DirectoriesRead = ''directories:read''"
| "scope_str DirectoriesGrant = ''directories:grant''"
| "scope_str DirectoriesDirect = ''directories:direct''"
| "scope_str TasksCreate = ''tasks:create''"
| "scope_str TasksRead = ''tasks:read''"
| "scope_str TasksCancel = ''tasks:cancel''"
| "scope_str TasksRemoteExecution = ''tasks:remote_execution''"

text \<open>\<open>#[derive(PartialOrd, Ord)]\<close>: the order of declaration.\<close>

fun scope_index :: "api_scope \<Rightarrow> nat" where
  "scope_index ProvidersRead = 0"
| "scope_index RuntimesRead = 1"
| "scope_index AgentsRead = 2"
| "scope_index AgentsWrite = 3"
| "scope_index DirectoriesRead = 4"
| "scope_index DirectoriesGrant = 5"
| "scope_index DirectoriesDirect = 6"
| "scope_index TasksCreate = 7"
| "scope_index TasksRead = 8"
| "scope_index TasksCancel = 9"
| "scope_index TasksRemoteExecution = 10"

lemma scope_index_inj: "scope_index a = scope_index b \<Longrightarrow> a = b"
  by (cases a; cases b) simp_all

instantiation api_scope :: linorder
begin

definition less_eq_api_scope :: "api_scope \<Rightarrow> api_scope \<Rightarrow> bool" where
  "less_eq_api_scope a b = (scope_index a \<le> scope_index b)"

definition less_api_scope :: "api_scope \<Rightarrow> api_scope \<Rightarrow> bool" where
  "less_api_scope a b = (scope_index a < scope_index b)"

instance
proof
  fix a b :: api_scope
  show "a \<le> b \<Longrightarrow> b \<le> a \<Longrightarrow> a = b"
    by (simp add: less_eq_api_scope_def scope_index_inj)
qed (auto simp: less_eq_api_scope_def less_api_scope_def)

end

datatype product_token_status = TokenActive | TokenRevoked

record product_token =
  pt_id :: string
  pt_product_id :: string
  pt_label :: string
  pt_scopes :: "api_scope list"
  pt_token_prefix :: string
  pt_status :: product_token_status
  pt_created_at :: string
  pt_last_used_at :: "string option"
  pt_revoked_at :: "string option"

record create_product_token =
  cpt_label :: string
  cpt_scopes :: "api_scope list"

record created_product_token =
  crt_id :: string
  crt_product_id :: string
  crt_label :: string
  crt_scopes :: "api_scope list"
  crt_token_prefix :: string
  crt_token :: string
  crt_created_at :: string

record authenticated_product_token =
  apt_token_id :: string
  apt_product_id :: string
  apt_scopes :: "api_scope list"

datatype product_error =
    ProductNotFound | ProductAlreadyExists | InvalidProduct | InvalidProductId | InvalidProductToken

fun product_error_code :: "product_error \<Rightarrow> string" where
  "product_error_code ProductNotFound = ''product_not_found''"
| "product_error_code ProductAlreadyExists = ''product_already_exists''"
| "product_error_code InvalidProduct = ''invalid_product''"
| "product_error_code InvalidProductId = ''invalid_product_id''"
| "product_error_code InvalidProductToken = ''invalid_product_token''"

fun product_error_message :: "product_error \<Rightarrow> string" where
  "product_error_message ProductNotFound = ''product not found''"
| "product_error_message ProductAlreadyExists = ''product already exists''"
| "product_error_message InvalidProduct = ''invalid product''"
| "product_error_message InvalidProductId = ''invalid product id''"
| "product_error_message InvalidProductToken = ''invalid product token''"

text \<open>The id pattern is the one of agent profiles.\<close>

definition product_validate_id :: "string \<Rightarrow> product_error + unit" where
  "product_validate_id s = guard (id_pattern s) InvalidProductId"

definition product_required_string :: "string \<Rightarrow> product_error + unit" where
  "product_required_string v = guard (trim v \<noteq> []) InvalidProduct"

definition product_optional_string :: "string \<Rightarrow> product_error + unit" where
  "product_optional_string v = guard (CHR 0x00 \<notin> set v) InvalidProduct"

definition create_product_validate :: "create_product \<Rightarrow> product_error + unit" where
  "create_product_validate p =
     r_then (product_validate_id (cp_id p)) (\<lambda>_.
     r_then (product_required_string (cp_display_name p)) (\<lambda>_.
     case cp_description p of None \<Rightarrow> Inr () | Some d \<Rightarrow> product_optional_string d))"

definition patch_product_validate :: "patch_product \<Rightarrow> product_error + unit" where
  "patch_product_validate p =
     (if pp_display_name p = None \<and> pp_description p = None \<and> pp_status p = None
      then Inl InvalidProduct
      else
        r_then (case pp_display_name p of None \<Rightarrow> Inr () | Some n \<Rightarrow> product_required_string n) (\<lambda>_.
        case pp_description p of Some (Some d) \<Rightarrow> product_optional_string d | _ \<Rightarrow> Inr ()))"

definition normalize_scopes :: "api_scope list \<Rightarrow> product_error + api_scope list" where
  "normalize_scopes scopes =
     (let s = btree_list scopes in if s = [] then Inl InvalidProductToken else Inr s)"

definition create_token_validate :: "create_product_token \<Rightarrow> product_error + unit" where
  "create_token_validate t =
     r_then (product_required_string (cpt_label t)) (\<lambda>_.
     r_then (normalize_scopes (cpt_scopes t)) (\<lambda>_. Inr ()))"

lemma normalize_scopes_Inr:
  "normalize_scopes ss = Inr ts \<longleftrightarrow> ss \<noteq> [] \<and> ts = btree_list ss"
  by (auto simp: normalize_scopes_def Let_def)

lemma create_product_validate_Inr:
  "create_product_validate p = Inr u \<longleftrightarrow>
     id_pattern (cp_id p) \<and> \<not> blank (cp_display_name p) \<and>
     (\<forall>d. cp_description p = Some d \<longrightarrow> CHR 0x00 \<notin> set d)"
  by (auto simp: create_product_validate_def r_then_Inr product_validate_id_def product_required_string_def
      product_optional_string_def blank_def split: option.splits)

lemma create_token_validate_Inr:
  "create_token_validate t = Inr u \<longleftrightarrow> \<not> blank (cpt_label t) \<and> cpt_scopes t \<noteq> []"
  by (auto simp: create_token_validate_def r_then_Inr product_required_string_def normalize_scopes_Inr blank_def)

end
