(* ===== verification/Product_Store.thy ===== *)
theory Product_Store
  imports Product
begin

text \<open>
  \<open>src/src/store/products.rs\<close>: products, their tokens and the authentication of a token.

  The digest (SHA-256) and the hexadecimal encoding come from other crates: they are the record
  \<open>crypto\<close>, a parameter. The random bytes of a new token are an argument. Neither products nor tokens
  are ever deleted, so the next rowid of a table is one more than the number of its rows. The join
  in \<open>authenticate_product_token\<close> has no ORDER BY; the model takes rowid order, and the properties
  show that the order does not matter because digests are unique.
\<close>

record crypto =
  cr_sha256 :: "string \<Rightarrow> string"
  cr_hex_encode :: "string \<Rightarrow> string"
  cr_hex_decode :: "string \<Rightarrow> string option"

record token_row =
  tk_id :: string
  tk_product_id :: string
  tk_label :: string
  tk_scopes :: "api_scope list"
  tk_token_prefix :: string
  tk_digest_hex :: string
  tk_created_at :: string
  tk_last_used_at :: "string option"
  tk_revoked_at :: "string option"

record product_db =
  pd_products :: "product list"
  pd_tokens :: "token_row list"

datatype product_store_error = PsProduct product_error | PsProductDisabled | PsStore string

type_synonym 'a product_op = "(product_db, product_store_error, 'a) op"

definition TOKEN_PREFIX_LEN :: nat where
  "TOKEN_PREFIX_LEN = 9"

definition PRODUCT_TOKEN_PREFIX :: string where
  "PRODUCT_TOKEN_PREFIX = ''odpk_''"

definition empty_products :: product_db where
  "empty_products = \<lparr> pd_products = [], pd_tokens = [] \<rparr>"

section \<open>Products\<close>

definition find_product :: "string \<Rightarrow> product_db \<Rightarrow> product option" where
  "find_product pid s = List.find (\<lambda>p. pr_id p = pid) (pd_products s)"

definition get_product :: "string \<Rightarrow> product product_op" where
  "get_product pid = reads (\<lambda>s. ok_or (PsProduct ProductNotFound) (find_product pid s))"

definition new_product :: "create_product \<Rightarrow> string \<Rightarrow> product" where
  "new_product input now =
     \<lparr> pr_id = cp_id input, pr_display_name = cp_display_name input, pr_status = ProductActive,
       pr_description = cp_description input, pr_created_at = now, pr_updated_at = now \<rparr>"

definition insert_product :: "product \<Rightarrow> unit product_op" where
  "insert_product p s =
     (if find_product (pr_id p) s \<noteq> None then (Inl (PsProduct ProductAlreadyExists), s)
      else (Inr (), s\<lparr> pd_products := pd_products s @ [p] \<rparr>))"

definition create_product_row :: "create_product \<Rightarrow> string \<Rightarrow> product product_op" where
  "create_product_row input now =
     and_then (lift_r (r_map_err PsProduct (create_product_validate input))) (\<lambda>_.
     (let p = new_product input now in
      and_then (insert_product p) (\<lambda>_. get_product (pr_id p))))"

definition list_products :: "product list product_op" where
  "list_products = reads (\<lambda>s. Inr (pd_products s))"

definition patched_product :: "patch_product \<Rightarrow> string \<Rightarrow> product \<Rightarrow> product" where
  "patched_product patch now p =
     p\<lparr> pr_display_name := unwrap_or (pp_display_name patch) (pr_display_name p),
        pr_status := unwrap_or (pp_status patch) (pr_status p),
        pr_description := unwrap_or (pp_description patch) (pr_description p),
        pr_updated_at := now \<rparr>"

definition set_product :: "product \<Rightarrow> product \<Rightarrow> product" where
  "set_product updated p = p\<lparr> pr_display_name := pr_display_name updated, pr_status := pr_status updated,
     pr_description := pr_description updated, pr_updated_at := pr_updated_at updated \<rparr>"

definition patch_product_row :: "string \<Rightarrow> patch_product \<Rightarrow> string \<Rightarrow> product product_op" where
  "patch_product_row pid patch now =
     and_then (lift_r (r_map_err PsProduct (patch_product_validate patch))) (\<lambda>_.
     and_then (get_product pid) (\<lambda>current.
     (let updated = patched_product patch now current in
      and_then (modify (\<lambda>s. s\<lparr> pd_products :=
        update_rows (\<lambda>p. pr_id p = pid) (set_product updated) (pd_products s) \<rparr>)) (\<lambda>_.
      get_product pid))))"

section \<open>Tokens\<close>

definition row_to_token :: "token_row \<Rightarrow> product_token" where
  "row_to_token r =
     \<lparr> pt_id = tk_id r, pt_product_id = tk_product_id r, pt_label = tk_label r,
       pt_scopes = tk_scopes r, pt_token_prefix = tk_token_prefix r,
       pt_status = (if tk_revoked_at r \<noteq> None then TokenRevoked else TokenActive),
       pt_created_at = tk_created_at r, pt_last_used_at = tk_last_used_at r,
       pt_revoked_at = tk_revoked_at r \<rparr>"

definition list_tokens :: "string \<Rightarrow> product_token list product_op" where
  "list_tokens pid =
     and_then (get_product pid) (\<lambda>_.
     reads (\<lambda>s. Inr (map row_to_token (filter (\<lambda>r. tk_product_id r = pid) (pd_tokens s)))))"

definition generate_token :: "crypto \<Rightarrow> string \<Rightarrow> string" where
  "generate_token c bytes = PRODUCT_TOKEN_PREFIX @ cr_hex_encode c bytes"

definition token_prefix :: "string \<Rightarrow> string" where
  "token_prefix token = take TOKEN_PREFIX_LEN token"

definition token_digest :: "crypto \<Rightarrow> string \<Rightarrow> string" where
  "token_digest c token = cr_sha256 c token"

definition token_digest_hex :: "crypto \<Rightarrow> string \<Rightarrow> string" where
  "token_digest_hex c token = cr_hex_encode c (token_digest c token)"

definition token_row_id :: "nat \<Rightarrow> string" where
  "token_row_id n = ''ptok_'' @ show_nat n"

definition new_token_row ::
  "crypto \<Rightarrow> string \<Rightarrow> string \<Rightarrow> api_scope list \<Rightarrow> string \<Rightarrow> string \<Rightarrow> string \<Rightarrow> token_row" where
  "new_token_row c pid label scopes token now tid =
     \<lparr> tk_id = tid, tk_product_id = pid, tk_label = label, tk_scopes = scopes,
       tk_token_prefix = token_prefix token, tk_digest_hex = token_digest_hex c token,
       tk_created_at = now, tk_last_used_at = None, tk_revoked_at = None \<rparr>"

text \<open>The UNIQUE constraint on \<open>token_digest_hex\<close> is reported as \<open>ProductAlreadyExists\<close>.\<close>

definition insert_token :: "token_row \<Rightarrow> unit product_op" where
  "insert_token r s =
     (if list_ex (\<lambda>q. tk_digest_hex q = tk_digest_hex r) (pd_tokens s)
        then (Inl (PsProduct ProductAlreadyExists), s)
      else if list_ex (\<lambda>q. tk_id q = tk_id r) (pd_tokens s)
        then (Inl (PsStore ''UNIQUE constraint failed''), s)
      else (Inr (), s\<lparr> pd_tokens := pd_tokens s @ [r] \<rparr>))"

definition create_token ::
  "crypto \<Rightarrow> string \<Rightarrow> string \<Rightarrow> create_product_token \<Rightarrow> string \<Rightarrow> created_product_token product_op" where
  "create_token c bytes pid input now =
     and_then (get_product pid) (\<lambda>_.
     and_then (lift_r (r_map_err PsProduct (create_token_validate input))) (\<lambda>_.
     and_then (lift_r (r_map_err PsProduct (normalize_scopes (cpt_scopes input)))) (\<lambda>scopes.
     and_then (reads (\<lambda>s. Inr (token_row_id (Suc (length (pd_tokens s)))))) (\<lambda>tid.
     (let token = generate_token c bytes in
      and_then (insert_token (new_token_row c pid (cpt_label input) scopes token now tid)) (\<lambda>_.
      ok \<lparr> crt_id = tid, crt_product_id = pid, crt_label = cpt_label input, crt_scopes = scopes,
           crt_token_prefix = token_prefix token, crt_token = token, crt_created_at = now \<rparr>))))))"

definition revoke_token :: "string \<Rightarrow> string \<Rightarrow> string \<Rightarrow> unit product_op" where
  "revoke_token pid tid now =
     and_then (get_product pid) (\<lambda>_.
     modify (\<lambda>s. s\<lparr> pd_tokens := update_rows (\<lambda>r. tk_product_id r = pid \<and> tk_id r = tid)
       (\<lambda>r. r\<lparr> tk_revoked_at := (case tk_revoked_at r of None \<Rightarrow> Some now | Some v \<Rightarrow> Some v) \<rparr>)
       (pd_tokens s) \<rparr>))"

section \<open>Authentication\<close>

definition touch_last_used :: "string \<Rightarrow> string \<Rightarrow> unit product_op" where
  "touch_last_used tid now = modify (\<lambda>s. s\<lparr> pd_tokens :=
     update_rows (\<lambda>r. tk_id r = tid) (\<lambda>r. r\<lparr> tk_last_used_at := Some now \<rparr>) (pd_tokens s) \<rparr>)"

text \<open>The rows of the join: unrevoked tokens with the prefix, each with the status of its product.\<close>

definition candidate_tokens :: "string \<Rightarrow> product_db \<Rightarrow> (token_row \<times> product_status) list" where
  "candidate_tokens pre s =
     List.map_filter (\<lambda>r. if tk_token_prefix r = pre \<and> tk_revoked_at r = None
       then map_option (\<lambda>p. (r, pr_status p)) (find_product (tk_product_id r) s) else None)
     (pd_tokens s)"

fun match_token ::
  "crypto \<Rightarrow> string \<Rightarrow> string \<Rightarrow> (token_row \<times> product_status) list \<Rightarrow>
   authenticated_product_token option product_op" where
  "match_token c token now [] = ok None"
| "match_token c token now ((r, status) # rows) =
     (case cr_hex_decode c (tk_digest_hex r) of
        None \<Rightarrow> err (PsStore ''invalid hex'')
      | Some stored \<Rightarrow>
          if stored = token_digest c token then
            (if status = ProductDisabledStatus then err PsProductDisabled
             else if cr_hex_encode c (token_digest c token) \<noteq> token_digest_hex c token
               then match_token c token now rows
             else and_then (touch_last_used (tk_id r) now) (\<lambda>_.
               ok (Some \<lparr> apt_token_id = tk_id r, apt_product_id = tk_product_id r,
                          apt_scopes = btree_list (tk_scopes r) \<rparr>)))
          else match_token c token now rows)"

definition has_token_prefix :: "string \<Rightarrow> bool" where
  "has_token_prefix token \<longleftrightarrow> take (length PRODUCT_TOKEN_PREFIX) token = PRODUCT_TOKEN_PREFIX"

definition authenticate_product_token ::
  "crypto \<Rightarrow> string \<Rightarrow> string \<Rightarrow> authenticated_product_token option product_op" where
  "authenticate_product_token c token now =
     (if \<not> has_token_prefix token \<or> length token < TOKEN_PREFIX_LEN then ok None
      else
        and_then (reads (\<lambda>s. Inr (candidate_tokens (token_prefix token) s))) (\<lambda>rows.
        match_token c token now rows))"

section \<open>The invariant of the tables\<close>

text \<open>Decoding inverts encoding, and the encoding of a byte has two characters.\<close>

definition hex_ok :: "crypto \<Rightarrow> bool" where
  "hex_ok c \<longleftrightarrow> (\<forall>b. cr_hex_decode c (cr_hex_encode c b) = Some b \<and> length (cr_hex_encode c b) = 2 * length b)"

definition token_row_ok :: "crypto \<Rightarrow> product_db \<Rightarrow> token_row \<Rightarrow> bool" where
  "token_row_ok c s r \<longleftrightarrow> find_product (tk_product_id r) s \<noteq> None \<and> tk_scopes r \<noteq> [] \<and>
     btree_list (tk_scopes r) = tk_scopes r \<and>
     (\<exists>token. tk_digest_hex r = token_digest_hex c token \<and> tk_token_prefix r = token_prefix token)"

definition products_inv :: "crypto \<Rightarrow> product_db \<Rightarrow> bool" where
  "products_inv c s \<longleftrightarrow> distinct (map pr_id (pd_products s)) \<and>
     map tk_id (pd_tokens s) = map token_row_id [1..<Suc (length (pd_tokens s))] \<and>
     distinct (map tk_digest_hex (pd_tokens s)) \<and> (\<forall>r \<in> set (pd_tokens s). token_row_ok c s r)"

interpretation products: keyed_table pd_products pr_id find_product "products_inv c" for c
  by unfold_locales (simp_all add: find_product_def products_inv_def)

lemma token_row_id_inj [simp]: "token_row_id m = token_row_id n \<longleftrightarrow> m = n"
  by (simp add: token_row_id_def)

lemma hex_inj: "hex_ok c \<Longrightarrow> cr_hex_encode c a = cr_hex_encode c b \<longleftrightarrow> a = b"
  by (metis hex_ok_def option.inject)

lemma token_ids_distinct: "products_inv c s \<Longrightarrow> distinct (map tk_id (pd_tokens s))"
  by (simp add: products_inv_def distinct_map inj_on_def)

lemma find_product_tokens [simp]: "find_product pid (s\<lparr>pd_tokens := ts\<rparr>) = find_product pid s"
  by (simp add: find_product_def)

lemma token_row_ok_tokens [simp]: "token_row_ok c (s\<lparr>pd_tokens := ts\<rparr>) r = token_row_ok c s r"
  by (simp add: token_row_ok_def)

section \<open>Authentication as a lookup\<close>

definition authenticated :: "token_row \<Rightarrow> authenticated_product_token" where
  "authenticated r = \<lparr> apt_token_id = tk_id r, apt_product_id = tk_product_id r,
     apt_scopes = btree_list (tk_scopes r) \<rparr>"

definition touched :: "string \<Rightarrow> string \<Rightarrow> product_db \<Rightarrow> product_db" where
  "touched tid now s = s\<lparr> pd_tokens :=
     update_rows (\<lambda>r. tk_id r = tid) (\<lambda>r. r\<lparr> tk_last_used_at := Some now \<rparr>) (pd_tokens s) \<rparr>"

lemma match_token_eq:
  assumes hex: "hex_ok c"
    and rows: "\<And>r st. (r, st) \<in> set rows \<Longrightarrow> \<exists>token. tk_digest_hex r = token_digest_hex c token"
  shows "match_token c token now rows s =
    (case List.find (\<lambda>(r, st). tk_digest_hex r = token_digest_hex c token) rows of
       None \<Rightarrow> (Inr None, s)
     | Some (r, st) \<Rightarrow> if st = ProductDisabledStatus then (Inl PsProductDisabled, s)
         else (Inr (Some (authenticated r)), touched (tk_id r) now s))"
  using rows
proof (induction rows)
  case (Cons x rows)
  obtain r st where x: "x = (r, st)" by (cases x)
  with Cons.prems obtain t where t: "tk_digest_hex r = token_digest_hex c t" by auto
  then have dec: "cr_hex_decode c (tk_digest_hex r) = Some (token_digest c t)"
    using hex by (simp add: hex_ok_def token_digest_hex_def)
  have eq: "token_digest c t = token_digest c token \<longleftrightarrow> tk_digest_hex r = token_digest_hex c token"
    using hex by (simp add: t token_digest_hex_def hex_inj)
  show ?case
  proof (cases "tk_digest_hex r = token_digest_hex c token")
    case True
    then show ?thesis using dec eq x
      by (simp add: op_simps touch_last_used_def touched_def authenticated_def token_digest_hex_def)
  next
    case False
    have "\<exists>token. tk_digest_hex r = token_digest_hex c token" if "(r, st) \<in> set rows" for r st
      using Cons.prems [of r st] that by simp
    from Cons.IH [OF this] show ?thesis using False dec eq x by simp
  qed
qed (simp add: ok_def)

lemma find_unique:
  assumes "distinct (map f rs)" and "r \<in> set rs"
  shows "List.find (\<lambda>q. f q = f r) rs = Some r"
  using find_key_Some [OF assms(1), of "f r" r] assms(2) by simp

lemma find_candidates:
  assumes inv: "products_inv c s"
  shows "List.find (\<lambda>(r, st). tk_digest_hex r = d) (candidate_tokens pre s) =
    (case List.find (\<lambda>r. tk_digest_hex r = d) (pd_tokens s) of
       None \<Rightarrow> None
     | Some r \<Rightarrow> if tk_token_prefix r = pre \<and> tk_revoked_at r = None
         then map_option (\<lambda>p. (r, pr_status p)) (find_product (tk_product_id r) s) else None)"
proof -
  have gen: "List.find (\<lambda>(r, st). tk_digest_hex r = d) (List.map_filter (\<lambda>r.
        if tk_token_prefix r = pre \<and> tk_revoked_at r = None
        then map_option (\<lambda>p. (r, pr_status p)) (find_product (tk_product_id r) s) else None) ts) =
      (case List.find (\<lambda>r. tk_digest_hex r = d) ts of
         None \<Rightarrow> None
       | Some r \<Rightarrow> if tk_token_prefix r = pre \<and> tk_revoked_at r = None
           then map_option (\<lambda>p. (r, pr_status p)) (find_product (tk_product_id r) s) else None)"
    if "distinct (map tk_digest_hex ts)" for ts
    using that
  proof (induction ts)
    case (Cons r ts)
    have none: "List.find (\<lambda>q. tk_digest_hex q = d) ts = None" if "tk_digest_hex r = d"
      using Cons.prems that find_key_None [of tk_digest_hex d ts] by simp
    with Cons show ?case
      by (cases "find_product (tk_product_id r) s") (auto simp: map_filter_simps)
  qed (simp add: map_filter_simps)
  have "distinct (map tk_digest_hex (pd_tokens s))" using inv by (simp add: products_inv_def del: upt_Suc)
  then show ?thesis unfolding candidate_tokens_def by (rule gen)
qed

lemma authenticate_eq:
  assumes hex: "hex_ok c" and inv: "products_inv c s"
  shows "authenticate_product_token c token now s =
    (if \<not> has_token_prefix token \<or> length token < TOKEN_PREFIX_LEN then (Inr None, s)
     else case List.find (\<lambda>r. tk_digest_hex r = token_digest_hex c token) (pd_tokens s) of
       None \<Rightarrow> (Inr None, s)
     | Some r \<Rightarrow>
         if tk_token_prefix r \<noteq> token_prefix token \<or> tk_revoked_at r \<noteq> None then (Inr None, s)
         else case find_product (tk_product_id r) s of
           None \<Rightarrow> (Inr None, s)
         | Some p \<Rightarrow> if pr_status p = ProductDisabledStatus then (Inl PsProductDisabled, s)
             else (Inr (Some (authenticated r)), touched (tk_id r) now s))"
proof -
  have "\<exists>t. tk_digest_hex r = token_digest_hex c t"
    if "(r, st) \<in> set (candidate_tokens pre s)" for r st pre
    using that inv by (force simp: candidate_tokens_def List.map_filter_def products_inv_def token_row_ok_def split: if_splits)
  note match = match_token_eq [OF hex this]
  show ?thesis
    by (auto simp: authenticate_product_token_def op_simps match find_candidates [OF inv] split: option.splits)
qed

section \<open>Every operation keeps the invariant\<close>

lemma products_inv_empty: "products_inv c empty_products"
  by (simp add: products_inv_def empty_products_def)

text \<open>Changing a token in ways that keep its identity.\<close>

definition token_kept :: "token_row \<Rightarrow> token_row \<Rightarrow> bool" where
  "token_kept r r' \<longleftrightarrow> tk_id r' = tk_id r \<and> tk_product_id r' = tk_product_id r \<and>
     tk_scopes r' = tk_scopes r \<and> tk_digest_hex r' = tk_digest_hex r \<and>
     tk_token_prefix r' = tk_token_prefix r \<and> tk_label r' = tk_label r \<and>
     (tk_revoked_at r \<noteq> None \<longrightarrow> tk_revoked_at r' = tk_revoked_at r)"

lemma token_kept_refl [simp]: "token_kept r r"
  by (simp add: token_kept_def)

lemma token_kept_trans: "token_kept a b \<Longrightarrow> token_kept b d \<Longrightarrow> token_kept a d"
  by (auto simp: token_kept_def)

lemma products_inv_tokens:
  assumes inv: "products_inv c s" and kept: "\<And>r. token_kept r (f r)"
  shows "products_inv c (s\<lparr>pd_tokens := update_rows p f (pd_tokens s)\<rparr>)"
proof -
  have "map tk_id (update_rows p f (pd_tokens s)) = map tk_id (pd_tokens s)"
    "map tk_digest_hex (update_rows p f (pd_tokens s)) = map tk_digest_hex (pd_tokens s)"
    using kept by (simp_all add: map_update_rows token_kept_def)
  moreover have "token_row_ok c s (f r)" if "token_row_ok c s r" for r
    using that kept [of r] by (auto simp: token_row_ok_def token_kept_def)
  ultimately show ?thesis
    using inv by (auto simp: products_inv_def set_update_rows simp del: upt_Suc)
qed

lemma keeps_touch: "products_inv c s \<Longrightarrow> products_inv c (touched tid now s)"
  unfolding touched_def by (rule products_inv_tokens) (simp_all add: token_kept_def)

lemma keeps_authenticate:
  assumes "hex_ok c"
  shows "keeps (products_inv c) (authenticate_product_token c token now)"
proof
  fix s
  assume "products_inv c s"
  then show "products_inv c (snd (authenticate_product_token c token now s))"
    by (auto simp: authenticate_eq [OF assms] keeps_touch split: option.splits)
qed

lemma keeps_revoke: "keeps (products_inv c) (revoke_token pid tid now)"
proof
  fix s
  assume "products_inv c s"
  then have "products_inv c (s\<lparr>pd_tokens := update_rows (\<lambda>r. tk_product_id r = pid \<and> tk_id r = tid)
      (\<lambda>r. r\<lparr>tk_revoked_at := (case tk_revoked_at r of None \<Rightarrow> Some now | Some v \<Rightarrow> Some v)\<rparr>) (pd_tokens s)\<rparr>)"
    by (rule products_inv_tokens) (auto simp: token_kept_def split: option.splits)
  with \<open>products_inv c s\<close> show "products_inv c (snd (revoke_token pid tid now s))"
    by (cases "find_product pid s") (simp_all add: revoke_token_def op_simps get_product_def)
qed

lemma create_token_cases:
  obtains e where "create_token c bytes pid input now s = (Inl e, s)"
  | p tid token r where "find_product pid s = Some p" "cpt_scopes input \<noteq> []"
      "tid = token_row_id (Suc (length (pd_tokens s)))" "token = generate_token c bytes"
      "r = new_token_row c pid (cpt_label input) (btree_list (cpt_scopes input)) token now tid"
      "tk_digest_hex r \<notin> tk_digest_hex ` set (pd_tokens s)"
      "create_token c bytes pid input now s =
        (Inr \<lparr>crt_id = tid, crt_product_id = pid, crt_label = cpt_label input,
              crt_scopes = btree_list (cpt_scopes input), crt_token_prefix = token_prefix token,
              crt_token = token, crt_created_at = now\<rparr>, s\<lparr>pd_tokens := pd_tokens s @ [r]\<rparr>)"
proof (cases "find_product pid s")
  case None
  then show ?thesis using that(1) by (simp add: create_token_def op_simps get_product_def)
next
  case (Some p)
  show ?thesis
  proof (cases "create_token_validate input")
    case (Inl e)
    with Some show ?thesis using that(1) by (simp add: create_token_def op_simps get_product_def)
  next
    case (Inr u)
    then have "cpt_scopes input \<noteq> []" using create_token_validate_Inr by blast
    then have norm: "normalize_scopes (cpt_scopes input) = Inr (btree_list (cpt_scopes input))"
      by (simp add: normalize_scopes_Inr)
    define tid token where "tid = token_row_id (Suc (length (pd_tokens s)))" and "token = generate_token c bytes"
    define r where "r = new_token_row c pid (cpt_label input) (btree_list (cpt_scopes input)) token now tid"
    have run: "create_token c bytes pid input now s =
        (case insert_token r s of (Inl e, s') \<Rightarrow> (Inl e, s')
         | (Inr u, s') \<Rightarrow> (Inr \<lparr>crt_id = tid, crt_product_id = pid, crt_label = cpt_label input,
              crt_scopes = btree_list (cpt_scopes input), crt_token_prefix = token_prefix token,
              crt_token = token, crt_created_at = now\<rparr>, s'))"
      using Some Inr norm
      by (simp add: create_token_def op_simps get_product_def Let_def tid_def token_def r_def
          split: prod.splits sum.splits)
    show ?thesis
    proof (cases "fst (insert_token r s)")
      case (Inl e)
      then have "create_token c bytes pid input now s = (Inl e, s)"
        by (auto simp: run insert_token_def split: if_splits)
      then show ?thesis by (rule that(1))
    next
      case (Inr u)
      then have "insert_token r s = (Inr (), s\<lparr>pd_tokens := pd_tokens s @ [r]\<rparr>)"
        "tk_digest_hex r \<notin> tk_digest_hex ` set (pd_tokens s)"
        by (auto simp: insert_token_def list_ex_iff split: if_splits)
      with Some \<open>cpt_scopes input \<noteq> []\<close> show ?thesis
        using that(2) [OF Some _ tid_def token_def r_def] run by simp
    qed
  qed
qed

lemma keeps_create_token: "keeps (products_inv c) (create_token c bytes pid input now)"
proof
  fix s
  assume inv: "products_inv c s"
  show "products_inv c (snd (create_token c bytes pid input now s))"
  proof (cases rule: create_token_cases [of c bytes pid input now s])
    case (2 p tid token r)
    have "token_row_ok c s r"
      using 2(1,2) by (auto simp: token_row_ok_def 2(5) new_token_row_def)
    moreover have "tk_id r = token_row_id (Suc (length (pd_tokens s)))" by (simp add: 2(3,5) new_token_row_def)
    ultimately show ?thesis using inv 2(6,7) by (auto simp: products_inv_def)
  qed (use inv in simp)
qed

lemma create_product_cases:
  obtains e where "create_product_row input now s = (Inl e, s)"
  | "create_product_validate input = Inr ()" "find_product (cp_id input) s = None"
      "create_product_row input now s =
        (Inr (new_product input now), s\<lparr>pd_products := pd_products s @ [new_product input now]\<rparr>)"
proof (cases "create_product_validate input")
  case (Inl e)
  then show ?thesis using that(1) by (simp add: create_product_row_def op_simps)
next
  case (Inr u)
  let ?p = "new_product input now" and ?s = "s\<lparr>pd_products := pd_products s @ [new_product input now]\<rparr>"
  have id: "pr_id ?p = cp_id input" by (simp add: new_product_def)
  show ?thesis
  proof (cases "find_product (cp_id input) s")
    case (Some p)
    with Inr id show ?thesis using that(1) by (simp add: create_product_row_def op_simps insert_product_def Let_def)
  next
    case None
    have "find_product (cp_id input) ?s = Some ?p"
      using products.lookup_insert [of ?s s ?p "cp_id input"] None id by (simp add: products.lookup_None)
    with Inr None id show ?thesis
      using that(2) by (simp add: create_product_row_def op_simps insert_product_def Let_def get_product_def)
  qed
qed

lemma keeps_create_product: "keeps (products_inv c) (create_product_row input now)"
proof
  fix s
  assume inv: "products_inv c s"
  show "products_inv c (snd (create_product_row input now s))"
  proof (cases rule: create_product_cases [of input now s])
    case 2
    let ?s = "s\<lparr>pd_products := pd_products s @ [new_product input now]\<rparr>"
    have id: "pr_id (new_product input now) = cp_id input" by (simp add: new_product_def)
    have "find_product j ?s = (if j = cp_id input then Some (new_product input now) else find_product j s)" for j
      using products.lookup_insert [of ?s s "new_product input now" j] 2(2) id by (simp add: products.lookup_None)
    then have "token_row_ok c ?s r" if "token_row_ok c s r" for r
      using that by (simp add: token_row_ok_def)
    with inv 2 id show ?thesis by (auto simp: products_inv_def products.lookup_None simp del: upt_Suc)
  qed (use inv in simp)
qed

lemma patch_product_cases:
  obtains e where "patch_product_row pid patch now s = (Inl e, s)"
  | p where "find_product pid s = Some p"
      "patch_product_row pid patch now s =
        (Inr (set_product (patched_product patch now p) p),
         s\<lparr>pd_products := update_rows (\<lambda>p. pr_id p = pid) (set_product (patched_product patch now p)) (pd_products s)\<rparr>)"
proof (cases "patch_product_validate patch")
  case (Inl e)
  then show ?thesis using that(1) by (simp add: patch_product_row_def op_simps)
next
  case (Inr u)
  show ?thesis
  proof (cases "find_product pid s")
    case None
    with Inr show ?thesis using that(1) by (simp add: patch_product_row_def op_simps get_product_def)
  next
    case (Some p)
    let ?f = "set_product (patched_product patch now p)"
    let ?s = "s\<lparr>pd_products := update_rows (\<lambda>p. pr_id p = pid) ?f (pd_products s)\<rparr>"
    have "find_product pid ?s = Some (?f p)"
      using Some products.lookup_update [of ?s pid ?f s pid] by (simp add: set_product_def [abs_def])
    with Inr Some show ?thesis
      using that(2) by (simp add: patch_product_row_def op_simps get_product_def Let_def)
  qed
qed

lemma keeps_patch_product: "keeps (products_inv c) (patch_product_row pid patch now)"
proof
  fix s
  assume inv: "products_inv c s"
  show "products_inv c (snd (patch_product_row pid patch now s))"
  proof (cases rule: patch_product_cases [of pid patch now s])
    case (2 p)
    let ?f = "set_product (patched_product patch now p)"
    let ?s = "s\<lparr>pd_products := update_rows (\<lambda>p. pr_id p = pid) ?f (pd_products s)\<rparr>"
    have id: "pr_id (?f q) = pr_id q" for q by (simp add: set_product_def)
    have "find_product j ?s = None \<longleftrightarrow> find_product j s = None" for j
      using products.lookup_update [of ?s pid ?f s j] id 2(1) by simp
    then have "token_row_ok c ?s r" if "token_row_ok c s r" for r
      using that by (simp add: token_row_ok_def)
    moreover have "map pr_id (update_rows (\<lambda>p. pr_id p = pid) ?f (pd_products s)) = map pr_id (pd_products s)"
      using id by (rule map_update_rows)
    ultimately show ?thesis using inv 2(2) by (simp add: products_inv_def del: upt_Suc)
  qed (use inv in simp)
qed

lemmas product_keeps = keeps_authenticate keeps_revoke keeps_create_token keeps_create_product keeps_patch_product

end
