(* ===== verification/Auth.thy ===== *)
theory Auth
  imports Product_Store
begin

text \<open>
  \<open>src/src/api/auth.rs\<close>: authentication of a request by its \<open>Authorization\<close> header, the three
  extractors handlers ask for (bootstrap only, product only, either) and the scope tests.

  \<open>rq_authorization\<close> is the header as the HTTP library hands it over: absent, not text, or text.
\<close>

record request_parts =
  rq_authorization :: "string option option"

record auth_config =
  au_bootstrap_token :: "string option"

record product_auth_context =
  px_token_id :: string
  px_product_id :: string
  px_scopes :: "api_scope list"

datatype auth_context = BootstrapContext | ProductContext product_auth_context

datatype auth_error =
    MissingAuthentication
  | InvalidToken
  | BootstrapTokenRequired
  | ProductTokenRequired
  | InsufficientScope
  | ProductScopeMismatch
  | AuthProductDisabled

fun auth_error_code :: "auth_error \<Rightarrow> string" where
  "auth_error_code MissingAuthentication = ''missing_authentication''"
| "auth_error_code InvalidToken = ''invalid_token''"
| "auth_error_code BootstrapTokenRequired = ''bootstrap_token_required''"
| "auth_error_code ProductTokenRequired = ''product_token_required''"
| "auth_error_code InsufficientScope = ''insufficient_scope''"
| "auth_error_code ProductScopeMismatch = ''product_scope_mismatch''"
| "auth_error_code AuthProductDisabled = ''product_disabled''"

fun auth_error_message :: "auth_error \<Rightarrow> string" where
  "auth_error_message MissingAuthentication = ''missing authentication''"
| "auth_error_message InvalidToken = ''invalid token''"
| "auth_error_message BootstrapTokenRequired = ''bootstrap token required''"
| "auth_error_message ProductTokenRequired = ''product token required''"
| "auth_error_message InsufficientScope = ''insufficient scope''"
| "auth_error_message ProductScopeMismatch = ''product scope mismatch''"
| "auth_error_message AuthProductDisabled = ''product disabled''"

fun auth_error_status :: "auth_error \<Rightarrow> nat" where
  "auth_error_status MissingAuthentication = 401"
| "auth_error_status InvalidToken = 401"
| "auth_error_status BootstrapTokenRequired = 401"
| "auth_error_status ProductTokenRequired = 401"
| "auth_error_status AuthProductDisabled = 401"
| "auth_error_status InsufficientScope = 403"
| "auth_error_status ProductScopeMismatch = 403"

section \<open>Scope tests\<close>

definition product_require_scope :: "product_auth_context \<Rightarrow> api_scope \<Rightarrow> auth_error + unit" where
  "product_require_scope x scope = (if scope \<in> set (px_scopes x) then Inr () else Inl InsufficientScope)"

definition product_require_scopes :: "product_auth_context \<Rightarrow> api_scope list \<Rightarrow> auth_error + unit" where
  "product_require_scopes x scopes =
     (if list_all (\<lambda>s. s \<in> set (px_scopes x)) scopes then Inr () else Inl InsufficientScope)"

definition ensure_product :: "product_auth_context \<Rightarrow> string \<Rightarrow> auth_error + unit" where
  "ensure_product x pid = (if px_product_id x = pid then Inr () else Inl ProductScopeMismatch)"

fun any_require_scope :: "auth_context \<Rightarrow> api_scope \<Rightarrow> auth_error + unit" where
  "any_require_scope BootstrapContext scope = Inr ()"
| "any_require_scope (ProductContext x) scope =
     (if scope \<in> set (px_scopes x) then Inr () else Inl InsufficientScope)"

fun any_require_scopes :: "auth_context \<Rightarrow> api_scope list \<Rightarrow> auth_error + unit" where
  "any_require_scopes BootstrapContext scopes = Inr ()"
| "any_require_scopes (ProductContext x) scopes =
     (if list_all (\<lambda>s. s \<in> set (px_scopes x)) scopes then Inr () else Inl InsufficientScope)"

fun product_context :: "auth_context \<Rightarrow> product_auth_context option" where
  "product_context BootstrapContext = None"
| "product_context (ProductContext x) = Some x"

section \<open>Authentication\<close>

definition strip_prefix :: "string \<Rightarrow> string \<Rightarrow> string option" where
  "strip_prefix p v = (if take (length p) v = p then Some (drop (length p) v) else None)"

definition bearer_token :: "request_parts \<Rightarrow> auth_error + string" where
  "bearer_token parts =
     (case rq_authorization parts of
        None \<Rightarrow> Inl MissingAuthentication
      | Some None \<Rightarrow> Inl InvalidToken
      | Some (Some v) \<Rightarrow>
          (case strip_prefix ''Bearer '' v of
             None \<Rightarrow> Inl InvalidToken
           | Some token \<Rightarrow> if token = [] then Inl InvalidToken else Inr token))"

definition is_bootstrap_token :: "auth_config \<Rightarrow> string \<Rightarrow> bool" where
  "is_bootstrap_token config token = is_some_and (au_bootstrap_token config) (\<lambda>v. v = token)"

text \<open>The \<open>match\<close> on the outcome of \<open>authenticate_product_token\<close>.\<close>

fun context_of ::
  "product_store_error + authenticated_product_token option \<Rightarrow> auth_error + auth_context" where
  "context_of (Inr (Some a)) =
     Inr (ProductContext \<lparr> px_token_id = apt_token_id a, px_product_id = apt_product_id a,
                            px_scopes = apt_scopes a \<rparr>)"
| "context_of (Inr None) = Inl InvalidToken"
| "context_of (Inl PsProductDisabled) = Inl AuthProductDisabled"
| "context_of (Inl (PsProduct e)) = Inl InvalidToken"
| "context_of (Inl (PsStore e)) = Inl InvalidToken"

definition authenticate_request ::
  "crypto \<Rightarrow> auth_config \<Rightarrow> request_parts \<Rightarrow> string \<Rightarrow> (product_db, auth_error, auth_context) op" where
  "authenticate_request c config parts now =
     and_then (lift_r (bearer_token parts)) (\<lambda>token.
     if is_bootstrap_token config token then ok BootstrapContext
     else (\<lambda>s. case authenticate_product_token c token now s of (r, s') \<Rightarrow> (context_of r, s')))"

definition bootstrap_auth ::
  "crypto \<Rightarrow> auth_config \<Rightarrow> request_parts \<Rightarrow> string \<Rightarrow> (product_db, auth_error, unit) op" where
  "bootstrap_auth c config parts now =
     and_then (authenticate_request c config parts now) (\<lambda>x.
     case x of BootstrapContext \<Rightarrow> ok () | ProductContext _ \<Rightarrow> err BootstrapTokenRequired)"

definition product_auth ::
  "crypto \<Rightarrow> auth_config \<Rightarrow> request_parts \<Rightarrow> string \<Rightarrow> (product_db, auth_error, product_auth_context) op" where
  "product_auth c config parts now =
     and_then (authenticate_request c config parts now) (\<lambda>x.
     case x of BootstrapContext \<Rightarrow> err ProductTokenRequired | ProductContext p \<Rightarrow> ok p)"

definition any_auth ::
  "crypto \<Rightarrow> auth_config \<Rightarrow> request_parts \<Rightarrow> string \<Rightarrow> (product_db, auth_error, auth_context) op" where
  "any_auth c config parts now = authenticate_request c config parts now"

section \<open>Lemmas\<close>

lemma strip_prefix_Some: "strip_prefix p v = Some t \<longleftrightarrow> v = p @ t"
  by (auto simp: strip_prefix_def) (metis append_take_drop_id)

lemma bearer_token_Inr:
  "bearer_token parts = Inr token \<longleftrightarrow>
     rq_authorization parts = Some (Some (''Bearer '' @ token)) \<and> token \<noteq> []"
proof
  assume "bearer_token parts = Inr token"
  then obtain v where "rq_authorization parts = Some (Some v)" "strip_prefix ''Bearer '' v = Some token" "token \<noteq> []"
    by (auto simp: bearer_token_def split: option.splits if_splits)
  then show "rq_authorization parts = Some (Some (''Bearer '' @ token)) \<and> token \<noteq> []"
    unfolding strip_prefix_Some by blast
next
  have "strip_prefix ''Bearer '' (''Bearer '' @ token) = Some token" unfolding strip_prefix_Some ..
  moreover assume "rq_authorization parts = Some (Some (''Bearer '' @ token)) \<and> token \<noteq> []"
  ultimately show "bearer_token parts = Inr token" by (simp add: bearer_token_def)
qed

text \<open>The row a request is authenticated by.\<close>

definition valid_row :: "crypto \<Rightarrow> string \<Rightarrow> token_row \<Rightarrow> product_db \<Rightarrow> bool" where
  "valid_row c token r s \<longleftrightarrow> r \<in> set (pd_tokens s) \<and> tk_digest_hex r = token_digest_hex c token \<and>
     tk_token_prefix r = token_prefix token \<and> tk_revoked_at r = None \<and>
     (\<exists>p. find_product (tk_product_id r) s = Some p \<and> pr_status p = ProductActive)"

lemma authenticate_Some:
  assumes hex: "hex_ok c" and inv: "products_inv c s"
  shows "authenticate_product_token c token now s = (Inr (Some a), s') \<longleftrightarrow>
    has_token_prefix token \<and> TOKEN_PREFIX_LEN \<le> length token \<and>
    (\<exists>r. valid_row c token r s \<and> a = authenticated r \<and> s' = touched (tk_id r) now s)"
proof -
  have dist: "distinct (map tk_digest_hex (pd_tokens s))"
    using inv by (simp add: products_inv_def del: upt_Suc)
  have find: "List.find (\<lambda>r. tk_digest_hex r = d) (pd_tokens s) = Some r \<longleftrightarrow>
      r \<in> set (pd_tokens s) \<and> tk_digest_hex r = d" for r d
    by (rule find_key_Some [OF dist])
  have active: "st \<noteq> ProductDisabledStatus \<longleftrightarrow> st = ProductActive" for st
    by (cases st) simp_all
  have prod: "find_product (tk_product_id r) s \<noteq> None" if "r \<in> set (pd_tokens s)" for r
    using inv that by (simp add: products_inv_def token_row_ok_def del: upt_Suc)
  show ?thesis (is "?L = ?R")
  proof
    assume ?L
    then show ?R
      using find active by (auto simp: authenticate_eq [OF hex inv] valid_row_def split: if_splits option.splits)
  next
    assume ?R
    then obtain r where r: "valid_row c token r s" "a = authenticated r" "s' = touched (tk_id r) now s"
      "has_token_prefix token" "TOKEN_PREFIX_LEN \<le> length token" by blast
    then have "List.find (\<lambda>r. tk_digest_hex r = token_digest_hex c token) (pd_tokens s) = Some r"
      by (simp add: find valid_row_def)
    with r show ?L by (auto simp: authenticate_eq [OF hex inv] valid_row_def)
  qed
qed

lemma context_of_Inr:
  "context_of r = Inr x \<longleftrightarrow> (\<exists>a. r = Inr (Some a) \<and>
     x = ProductContext \<lparr> px_token_id = apt_token_id a, px_product_id = apt_product_id a,
                          px_scopes = apt_scopes a \<rparr>)"
  by (cases r rule: context_of.cases) auto

lemma map_result_eq: "(case p of (r, t) \<Rightarrow> (f r, t)) = (x, u) \<longleftrightarrow> (\<exists>r. p = (r, u) \<and> f r = x)"
  by (cases p) auto

lemma authenticate_request_bootstrap:
  "authenticate_request c config parts now s = (Inr BootstrapContext, s') \<longleftrightarrow>
     s' = s \<and> (\<exists>token. bearer_token parts = Inr token \<and> au_bootstrap_token config = Some token)"
  by (auto simp: authenticate_request_def and_then_Inr is_bootstrap_token_def is_some_and_def context_of_Inr map_result_eq
      split: option.splits if_splits)

lemma authenticate_request_product:
  "authenticate_request c config parts now s = (Inr (ProductContext x), s') \<longleftrightarrow>
     (\<exists>token a. bearer_token parts = Inr token \<and> \<not> is_bootstrap_token config token \<and>
        authenticate_product_token c token now s = (Inr (Some a), s') \<and>
        x = \<lparr> px_token_id = apt_token_id a, px_product_id = apt_product_id a, px_scopes = apt_scopes a \<rparr>)"
  by (auto simp: authenticate_request_def and_then_Inr context_of_Inr map_result_eq split: if_splits) metis

lemma keeps_authenticate_request:
  assumes "hex_ok c"
  shows "keeps (products_inv c) (authenticate_request c config parts now)"
proof -
  have "keeps (products_inv c) (\<lambda>s. case authenticate_product_token c token now s of (r, s') \<Rightarrow> (context_of r, s'))" for token
    using keepsD [OF keeps_authenticate [OF assms, of token now]] by (auto simp: keeps_def split: prod.splits)
  then show ?thesis unfolding authenticate_request_def by (auto intro!: keeps_and_then)
qed

end
