(* ===== verification/Agent_Store.thy ===== *)
theory Agent_Store
  imports Agent_Profile
begin

text \<open>
  \<open>src/src/store/agent_profiles.rs\<close>: the table of agent profiles, keyed by the id the caller chose.
\<close>

record agent_table =
  at_rows :: "agent_profile list"

record agent_profile_filters =
  af_owner_product_id :: "string option"
  af_provider_id :: "string option"

record patch_agent_profile =
  pa_name :: "string option"
  pa_provider_id :: "string option"
  pa_model :: "string option"
  pa_instructions :: "string option option"
  pa_execution_policy :: "execution_policy option"
  pa_provider_config :: "provider_config option"

datatype agent_store_error = AsProfile agent_profile_error | AsStore string

type_synonym 'a agent_op = "(agent_table, agent_store_error, 'a) op"

definition empty_agents :: agent_table where
  "empty_agents = \<lparr> at_rows = [] \<rparr>"

definition find_agent :: "string \<Rightarrow> agent_table \<Rightarrow> agent_profile option" where
  "find_agent aid s = List.find (\<lambda>a. ap_id a = aid) (at_rows s)"

definition get_agent :: "string \<Rightarrow> agent_profile agent_op" where
  "get_agent aid = reads (\<lambda>s. ok_or (AsProfile ProfileNotFound) (find_agent aid s))"

text \<open>A constraint violation of the insertion is reported as an invalid profile.\<close>

definition insert_agent :: "agent_profile \<Rightarrow> unit agent_op" where
  "insert_agent a s =
     (if find_agent (ap_id a) s \<noteq> None then (Inl (AsProfile InvalidAgentProfile), s)
      else (Inr (), s\<lparr> at_rows := at_rows s @ [a] \<rparr>))"

definition create_agent :: "create_agent_profile \<Rightarrow> string \<Rightarrow> agent_profile agent_op" where
  "create_agent input now =
     and_then (lift_r (r_map_err AsProfile (create_profile_validate input))) (\<lambda>_.
     (let profile = into_profile input now now in
      and_then (insert_agent profile) (\<lambda>_. get_agent (ap_id profile))))"

definition list_agents :: "agent_profile_filters \<Rightarrow> agent_profile list agent_op" where
  "list_agents f = reads (\<lambda>s. Inr (case (af_owner_product_id f, af_provider_id f) of
       (Some o', Some p) \<Rightarrow> filter (\<lambda>a. ap_owner_product_id a = o' \<and> ap_provider_id a = p) (at_rows s)
     | (Some o', None) \<Rightarrow> filter (\<lambda>a. ap_owner_product_id a = o') (at_rows s)
     | (None, Some p) \<Rightarrow> filter (\<lambda>a. ap_provider_id a = p) (at_rows s)
     | (None, None) \<Rightarrow> at_rows s))"

definition agent_patch_is_empty :: "patch_agent_profile \<Rightarrow> bool" where
  "agent_patch_is_empty p \<longleftrightarrow> pa_name p = None \<and> pa_provider_id p = None \<and> pa_model p = None \<and>
     pa_instructions p = None \<and> pa_execution_policy p = None \<and> pa_provider_config p = None"

definition patched_profile :: "patch_agent_profile \<Rightarrow> agent_profile \<Rightarrow> create_agent_profile" where
  "patched_profile p a =
     \<lparr> ca_id = ap_id a, ca_name = unwrap_or (pa_name p) (ap_name a),
       ca_owner_product_id = ap_owner_product_id a,
       ca_provider_id = unwrap_or (pa_provider_id p) (ap_provider_id a),
       ca_model = unwrap_or (pa_model p) (ap_model a),
       ca_instructions = unwrap_or (pa_instructions p) (ap_instructions a),
       ca_execution_policy = unwrap_or (pa_execution_policy p) (ap_execution_policy a),
       ca_provider_config = unwrap_or (pa_provider_config p) (ap_provider_config a) \<rparr>"

definition set_profile :: "create_agent_profile \<Rightarrow> string \<Rightarrow> agent_profile \<Rightarrow> agent_profile" where
  "set_profile p now a = a\<lparr> ap_name := ca_name p, ap_provider_id := ca_provider_id p,
     ap_model := ca_model p, ap_instructions := ca_instructions p,
     ap_execution_policy := ca_execution_policy p, ap_provider_config := ca_provider_config p,
     ap_updated_at := now \<rparr>"

definition update_agent :: "string \<Rightarrow> (agent_profile \<Rightarrow> agent_profile) \<Rightarrow> agent_table \<Rightarrow> agent_table" where
  "update_agent aid f s = s\<lparr> at_rows := update_rows (\<lambda>a. ap_id a = aid) f (at_rows s) \<rparr>"

definition patch_agent :: "string \<Rightarrow> patch_agent_profile \<Rightarrow> string \<Rightarrow> agent_profile agent_op" where
  "patch_agent aid patch now =
     (if agent_patch_is_empty patch then err (AsProfile InvalidAgentProfile)
      else
        and_then (get_agent aid) (\<lambda>current.
        (let next = patched_profile patch current in
         and_then (lift_r (r_map_err AsProfile (create_profile_validate next))) (\<lambda>_.
         and_then (modify (update_agent aid (set_profile next now))) (\<lambda>_.
         get_agent aid)))))"

definition delete_agent :: "string \<Rightarrow> unit agent_op" where
  "delete_agent aid s =
     (let s' = s\<lparr> at_rows := filter (\<lambda>a. ap_id a \<noteq> aid) (at_rows s) \<rparr>
      in if find_agent aid s = None then (Inl (AsProfile ProfileNotFound), s') else (Inr (), s'))"

definition authorize_agent :: "agent_authorization_request \<Rightarrow> agent_profile agent_op" where
  "authorize_agent r =
     and_then (get_agent (aa_agent_id r)) (\<lambda>profile.
     if ap_owner_product_id profile \<noteq> aa_owner_product_id r then err (AsProfile ProfileAuthorizationFailed)
     else if is_some_and (aa_provider_id_override r) (\<lambda>p. p \<noteq> ap_provider_id profile) \<or>
         is_some_and (aa_model_override r) (\<lambda>m. m \<noteq> ap_model profile) \<or>
         is_some_and (aa_permission_mode_override r)
           (\<lambda>m. m \<noteq> cf_permission_mode (ap_provider_config profile))
       then err (AsProfile ProfileAuthorizationFailed)
     else if aa_requested_workspace_mode r = AgentDirect \<and>
         \<not> ep_allow_direct_directory (ap_execution_policy profile)
       then err (AsProfile ProfileAuthorizationFailed)
     else ok profile)"

section \<open>The invariant of the table\<close>

definition as_create :: "agent_profile \<Rightarrow> create_agent_profile" where
  "as_create a =
     \<lparr> ca_id = ap_id a, ca_name = ap_name a, ca_owner_product_id = ap_owner_product_id a,
       ca_provider_id = ap_provider_id a, ca_model = ap_model a, ca_instructions = ap_instructions a,
       ca_execution_policy = ap_execution_policy a, ca_provider_config = ap_provider_config a \<rparr>"

definition agents_inv :: "agent_table \<Rightarrow> bool" where
  "agents_inv s \<longleftrightarrow> distinct (map ap_id (at_rows s)) \<and> (\<forall>a \<in> set (at_rows s). profile_ok (as_create a))"

interpretation agents: keyed_table at_rows ap_id find_agent agents_inv
  by unfold_locales (simp_all add: find_agent_def agents_inv_def)

lemma as_create_into [simp]: "as_create (into_profile p c u) = p" "ap_id (into_profile p c u) = ca_id p"
  by (simp_all add: as_create_def into_profile_def)

lemma set_profile_id [simp]: "ap_id (set_profile p now a) = ap_id a"
  by (simp add: set_profile_def)

lemma as_create_patched: "as_create (set_profile (patched_profile patch a) now a) = patched_profile patch a"
  by (simp add: as_create_def set_profile_def patched_profile_def)

lemma create_agent_cases:
  obtains "\<not> profile_ok input \<or> find_agent (ca_id input) s \<noteq> None"
      "\<exists>e. create_agent input now s = (Inl (AsProfile e), s)"
  | "profile_ok input" "find_agent (ca_id input) s = None"
      "create_agent input now s =
        (Inr (into_profile input now now), s\<lparr>at_rows := at_rows s @ [into_profile input now now]\<rparr>)"
proof (cases "create_profile_validate input")
  case (Inl e)
  then have "\<not> profile_ok input" using create_profile_validate_Inr [of input "()"] by simp
  with Inl show ?thesis using that(1) by (simp add: create_agent_def op_simps)
next
  case (Inr u)
  then have ok: "profile_ok input" using create_profile_validate_Inr by blast
  show ?thesis
  proof (cases "find_agent (ca_id input) s")
    case (Some a)
    with Inr show ?thesis using that(1) by (simp add: create_agent_def op_simps insert_agent_def Let_def)
  next
    case None
    let ?a = "into_profile input now now" and ?s = "s\<lparr>at_rows := at_rows s @ [into_profile input now now]\<rparr>"
    have "find_agent (ca_id input) ?s = Some ?a"
      using agents.lookup_insert [of ?s s ?a "ca_id input"] None by (simp add: agents.lookup_None)
    with Inr None show ?thesis
      using that(2) ok by (simp add: create_agent_def op_simps insert_agent_def Let_def get_agent_def)
  qed
qed

lemma patch_agent_cases:
  obtains "agent_patch_is_empty patch" "patch_agent aid patch now s = (Inl (AsProfile InvalidAgentProfile), s)"
  | "\<not> agent_patch_is_empty patch" "find_agent aid s = None"
      "patch_agent aid patch now s = (Inl (AsProfile ProfileNotFound), s)"
  | a e where "find_agent aid s = Some a" "\<not> profile_ok (patched_profile patch a)"
      "patch_agent aid patch now s = (Inl (AsProfile e), s)"
  | a where "find_agent aid s = Some a" "profile_ok (patched_profile patch a)"
      "patch_agent aid patch now s =
        (Inr (set_profile (patched_profile patch a) now a),
         update_agent aid (set_profile (patched_profile patch a) now) s)"
proof (cases "agent_patch_is_empty patch")
  case True
  then show ?thesis using that(1) by (simp add: patch_agent_def err_def)
next
  case False
  show ?thesis
  proof (cases "find_agent aid s")
    case None
    with False show ?thesis using that(2) by (simp add: patch_agent_def op_simps get_agent_def)
  next
    case (Some a)
    let ?n = "patched_profile patch a"
    show ?thesis
    proof (cases "create_profile_validate ?n")
      case (Inl e)
      then have "\<not> profile_ok ?n" using create_profile_validate_Inr [of ?n "()"] by simp
      with False Some Inl show ?thesis
        using that(3) by (simp add: patch_agent_def op_simps get_agent_def Let_def)
    next
      case (Inr u)
      then have "profile_ok ?n" using create_profile_validate_Inr by blast
      moreover have "find_agent aid (update_agent aid (set_profile ?n now) s) = Some (set_profile ?n now a)"
        using Some agents.lookup_update [of "update_agent aid (set_profile ?n now) s" aid "set_profile ?n now" s aid]
        by (simp add: update_agent_def)
      ultimately show ?thesis
        using False Some Inr that(4) by (simp add: patch_agent_def op_simps get_agent_def Let_def)
    qed
  qed
qed

lemma agents_inv_empty: "agents_inv empty_agents"
  by (simp add: agents_inv_def empty_agents_def)

lemma keeps_create_agent: "keeps agents_inv (create_agent input now)"
proof
  fix s
  assume inv: "agents_inv s"
  show "agents_inv (snd (create_agent input now s))"
    using inv by (cases rule: create_agent_cases [of input s now]) (auto simp: agents_inv_def agents.lookup_None)
qed

lemma keeps_patch_agent: "keeps agents_inv (patch_agent aid patch now)"
proof
  fix s
  assume inv: "agents_inv s"
  show "agents_inv (snd (patch_agent aid patch now s))"
  proof (cases rule: patch_agent_cases [of patch aid now s])
    case (4 a)
    have "r = a" if "r \<in> set (at_rows s)" "ap_id r = aid" for r
      using that inv 4(1) agents.lookup_Some by (metis option.inject)
    with inv 4 show ?thesis
      by (auto simp: agents_inv_def update_agent_def map_update_rows set_update_rows as_create_patched)
  qed (use inv in simp_all)
qed

lemma keeps_delete_agent: "keeps agents_inv (delete_agent aid)"
  by rule (auto simp: delete_agent_def Let_def agents_inv_def distinct_map_filter)

lemma delete_agent_lookup:
  "find_agent j (snd (delete_agent aid s)) = (if j = aid then None else find_agent j s)"
  by (rule agents.lookup_delete) (simp add: delete_agent_def Let_def)

lemma keeps_agent_reads:
  "keeps P (get_agent aid)" "keeps P (list_agents f)" "keeps P (authorize_agent r)"
  by (auto simp: get_agent_def list_agents_def authorize_agent_def intro!: keeps_and_then)

lemmas agent_keeps = keeps_create_agent keeps_patch_agent keeps_delete_agent keeps_agent_reads

end
