(* ===== verification/Auth_Properties.thy ===== *)
theory Auth_Properties
  imports Auth Agent_Store
begin

text \<open>
  Properties of products, tokens and the authentication of requests over every state of the product
  tables that the operations reach, and of agent profiles and the provider registry.
\<close>

inductive product_step :: "crypto \<Rightarrow> product_db \<Rightarrow> product_db \<Rightarrow> bool" for c where
  step_create_product: "product_step c s (snd (create_product_row input now s))"
| step_patch_product: "product_step c s (snd (patch_product_row pid patch now s))"
| step_create_token: "product_step c s (snd (create_token c bytes pid tinput now s))"
| step_revoke_token: "product_step c s (snd (revoke_token pid tid now s))"
| step_authenticate: "product_step c s (snd (authenticate_product_token c token now s))"

inductive products_reachable :: "crypto \<Rightarrow> product_db \<Rightarrow> bool" for c where
  products_start: "products_reachable c empty_products"
| products_step: "products_reachable c s \<Longrightarrow> product_step c s s' \<Longrightarrow> products_reachable c s'"

lemma product_step_inv: "product_step c s s' \<Longrightarrow> hex_ok c \<Longrightarrow> products_inv c s \<Longrightarrow> products_inv c s'"
  by (induction rule: product_step.induct) (auto intro: product_keeps [THEN keeps_snd])

lemma products_reachable_inv: "products_reachable c s \<Longrightarrow> hex_ok c \<Longrightarrow> products_inv c s"
  by (induction rule: products_reachable.induct) (auto intro: products_inv_empty product_step_inv)

section \<open>Tokens stay what they are\<close>

definition tokens_kept :: "product_db \<Rightarrow> product_db \<Rightarrow> bool" where
  "tokens_kept s s' \<longleftrightarrow> length (pd_tokens s) \<le> length (pd_tokens s') \<and>
     (\<forall>i < length (pd_tokens s). token_kept (pd_tokens s ! i) (pd_tokens s' ! i))"

lemma tokens_kept_refl [simp]: "tokens_kept s s"
  by (simp add: tokens_kept_def)

lemma tokens_kept_trans: "tokens_kept a b \<Longrightarrow> tokens_kept b d \<Longrightarrow> tokens_kept a d"
  unfolding tokens_kept_def by (meson le_trans less_le_trans token_kept_trans)

lemma tokens_kept_update:
  "(\<And>r. token_kept r (f r)) \<Longrightarrow> tokens_kept s (s\<lparr>pd_tokens := update_rows p f (pd_tokens s)\<rparr>)"
  by (simp add: tokens_kept_def)

lemma tokens_kept_append: "tokens_kept s (s\<lparr>pd_tokens := pd_tokens s @ [r]\<rparr>)"
  by (simp add: tokens_kept_def nth_append)

lemma tokens_kept_products: "tokens_kept s (s\<lparr>pd_products := ps\<rparr>)"
  by (simp add: tokens_kept_def)

lemma tokens_kept_touched: "tokens_kept s (touched tid now s)"
  unfolding touched_def by (rule tokens_kept_update) (simp add: token_kept_def)

lemma product_step_kept:
  assumes "product_step c s s'" and hex: "hex_ok c" and inv: "products_inv c s"
  shows "tokens_kept s s'"
  using assms(1)
proof cases
  case (step_create_product input now)
  then show ?thesis
    by (cases rule: create_product_cases [of input now s]) (simp_all add: tokens_kept_products)
next
  case (step_patch_product pid patch now)
  then show ?thesis
    by (cases rule: patch_product_cases [of pid patch now s]) (simp_all add: tokens_kept_products)
next
  case (step_create_token bytes pid tinput now)
  then show ?thesis
    by (cases rule: create_token_cases [of c bytes pid tinput now s]) (simp_all add: tokens_kept_append)
next
  case (step_revoke_token pid tid now)
  have "tokens_kept s (s\<lparr>pd_tokens := update_rows (\<lambda>r. tk_product_id r = pid \<and> tk_id r = tid)
      (\<lambda>r. r\<lparr>tk_revoked_at := (case tk_revoked_at r of None \<Rightarrow> Some now | Some v \<Rightarrow> Some v)\<rparr>) (pd_tokens s)\<rparr>)"
    by (rule tokens_kept_update) (auto simp: token_kept_def split: option.splits)
  with step_revoke_token show ?thesis
    by (cases "find_product pid s") (simp_all add: revoke_token_def op_simps get_product_def)
next
  case (step_authenticate token now)
  then show ?thesis
    by (auto simp: authenticate_eq [OF hex inv] tokens_kept_touched split: option.splits)
qed

lemma product_steps_kept:
  assumes "(product_step c)\<^sup>*\<^sup>* s s'" and hex: "hex_ok c" and "products_inv c s"
  shows "tokens_kept s s' \<and> products_inv c s'"
  using assms(1,3)
proof (induction rule: rtranclp_induct)
  case (step y z)
  then show ?case using product_step_kept [OF _ hex] product_step_inv [OF _ hex] tokens_kept_trans by blast
qed simp

section \<open>A concrete run\<close>

fun undouble :: "string \<Rightarrow> string" where
  "undouble (x # y # s) = x # undouble s"
| "undouble s = []"

definition demo_crypto :: crypto where
  "demo_crypto = \<lparr> cr_sha256 = (\<lambda>s. s), cr_hex_encode = (\<lambda>s. concat (map (\<lambda>x. [x, x]) s)),
     cr_hex_decode = (\<lambda>s. Some (undouble s)) \<rparr>"

lemma demo_hex_ok: "hex_ok demo_crypto"
proof -
  have "undouble (concat (map (\<lambda>x. [x, x]) b)) = b \<and> length (concat (map (\<lambda>x. [x, x]) b)) = 2 * length b" for b :: string
    by (induction b) simp_all
  then show ?thesis by (simp add: hex_ok_def demo_crypto_def)
qed

definition demo_product :: create_product where
  "demo_product = \<lparr> cp_id = ''prod'', cp_display_name = ''P'', cp_description = None \<rparr>"

definition demo_products0 :: product_db where
  "demo_products0 = \<lparr> pd_products = [new_product demo_product ''t0''], pd_tokens = [] \<rparr>"

lemma demo_product_valid: "create_product_validate demo_product = Inr ()"
  by (simp add: create_product_validate_Inr demo_product_def blank_def id_pattern_def is_alnum_def is_letter_def
      is_digit_def string_eval)

lemma demo_products0_reachable: "products_reachable demo_crypto demo_products0"
proof -
  have "create_product_row demo_product ''t0'' empty_products = (Inr (new_product demo_product ''t0''), demo_products0)"
    using demo_product_valid
    by (simp add: create_product_row_def op_simps insert_product_def Let_def get_product_def find_product_def
        empty_products_def demo_products0_def)
  then show ?thesis
    using products_step [OF products_start step_create_product, of demo_crypto demo_product "''t0''"] by simp
qed

definition demo_token_input :: create_product_token where
  "demo_token_input = \<lparr> cpt_label = ''ci'', cpt_scopes = [TasksRead, TasksCreate, TasksRead] \<rparr>"

definition demo_bytes :: string where
  "demo_bytes = replicate 24 (CHR ''a'')"

definition demo_token_row :: token_row where
  "demo_token_row = new_token_row demo_crypto ''prod'' ''ci'' [TasksCreate, TasksRead]
     (generate_token demo_crypto demo_bytes) ''t1'' ''ptok_1''"

definition demo_created_token :: created_product_token where
  "demo_created_token = \<lparr>crt_id = ''ptok_1'', crt_product_id = ''prod'', crt_label = ''ci'',
     crt_scopes = [TasksCreate, TasksRead],
     crt_token_prefix = token_prefix (generate_token demo_crypto demo_bytes),
     crt_token = generate_token demo_crypto demo_bytes, crt_created_at = ''t1''\<rparr>"

lemma demo_token_created:
  "create_token demo_crypto demo_bytes ''prod'' demo_token_input ''t1'' demo_products0 =
     (Inr demo_created_token, demo_products0\<lparr>pd_tokens := [demo_token_row]\<rparr>)"
proof -
  have "find_product ''prod'' demo_products0 = Some (new_product demo_product ''t0'')"
    by (simp add: find_product_def demo_products0_def new_product_def demo_product_def)
  moreover have "btree_list [TasksRead, TasksCreate, TasksRead] = [TasksCreate, TasksRead]"
    by (simp add: btree_list_def less_eq_api_scope_def)
  moreover have "create_token_validate demo_token_input = Inr ()"
    by (simp add: create_token_validate_Inr demo_token_input_def blank_def string_eval)
  moreover have "token_row_id (Suc 0) = ''ptok_1''" by (simp add: token_row_id_def string_eval)
  moreover have "pd_tokens demo_products0 = []" by (simp add: demo_products0_def)
  ultimately show ?thesis
    by (simp add: create_token_def op_simps get_product_def Let_def insert_token_def normalize_scopes_def
        demo_created_token_def demo_token_row_def) (simp add: demo_token_input_def)
qed

section \<open>Properties\<close>

text \<open>
  C11. Who a request is: a request passes as a product if and only if its header is \<open>Bearer\<close>, a blank
  and a token that is not the bootstrap token, and an unrevoked stored token of an active product has
  the digest and the prefix of that token; the context carries exactly the id, the product and the
  scopes of that row, and only its time of last use is written.
\<close>

theorem product_authentication_exact:
  assumes "products_reachable c s" and "hex_ok c"
  shows "product_auth c config parts now s = (Inr x, s') \<longleftrightarrow>
    (\<exists>token r. rq_authorization parts = Some (Some (''Bearer '' @ token)) \<and>
       au_bootstrap_token config \<noteq> Some token \<and> has_token_prefix token \<and>
       TOKEN_PREFIX_LEN \<le> length token \<and> valid_row c token r s \<and>
       x = \<lparr> px_token_id = tk_id r, px_product_id = tk_product_id r, px_scopes = tk_scopes r \<rparr> \<and>
       s' = touched (tk_id r) now s)"
proof -
  have inv: "products_inv c s" by (rule products_reachable_inv [OF assms])
  have scopes: "btree_list (tk_scopes r) = tk_scopes r" if "valid_row c token r s" for token r
    using inv that by (simp add: products_inv_def valid_row_def token_row_ok_def del: upt_Suc)
  have "product_auth c config parts now s = (Inr x, s') \<longleftrightarrow>
      authenticate_request c config parts now s = (Inr (ProductContext x), s')"
    by (cases "authenticate_request c config parts now s")
      (auto simp: product_auth_def op_simps split: sum.splits auth_context.splits)
  also have "\<dots> \<longleftrightarrow> (\<exists>token. bearer_token parts = Inr token \<and> \<not> is_bootstrap_token config token \<and>
      has_token_prefix token \<and> TOKEN_PREFIX_LEN \<le> length token \<and> (\<exists>r. valid_row c token r s \<and>
       x = \<lparr> px_token_id = tk_id r, px_product_id = tk_product_id r, px_scopes = tk_scopes r \<rparr> \<and>
       s' = touched (tk_id r) now s))"
    unfolding authenticate_request_product authenticate_Some [OF assms(2) inv]
    using scopes by (fastforce simp: authenticated_def)
  finally show ?thesis
    by (auto simp: bearer_token_Inr is_bootstrap_token_def is_some_and_def TOKEN_PREFIX_LEN_def split: option.splits)
qed

lemma demo_valid_row:
  "valid_row demo_crypto (generate_token demo_crypto demo_bytes) demo_token_row (demo_products0\<lparr>pd_tokens := [demo_token_row]\<rparr>)"
  by (simp add: valid_row_def demo_token_row_def new_token_row_def demo_products0_def find_product_def
      new_product_def demo_product_def)

lemma demo_tokens_reachable: "products_reachable demo_crypto (demo_products0\<lparr>pd_tokens := [demo_token_row]\<rparr>)"
  using products_step [OF demo_products0_reachable step_create_token, of demo_bytes "''prod''" demo_token_input "''t1''"]
  by (simp add: demo_token_created)

lemma demo_token_prefix:
  "has_token_prefix (generate_token demo_crypto demo_bytes)"
  "TOKEN_PREFIX_LEN \<le> length (generate_token demo_crypto demo_bytes)"
  by (simp_all add: has_token_prefix_def generate_token_def PRODUCT_TOKEN_PREFIX_def TOKEN_PREFIX_LEN_def
      demo_crypto_def demo_bytes_def length_concat sum_list_replicate)

theorem product_authentication_exact_witness:
  "fst (product_auth demo_crypto \<lparr>au_bootstrap_token = None\<rparr>
     \<lparr>rq_authorization = Some (Some (''Bearer '' @ generate_token demo_crypto demo_bytes))\<rparr> ''t2''
     (demo_products0\<lparr>pd_tokens := [demo_token_row]\<rparr>)) =
   Inr \<lparr>px_token_id = ''ptok_1'', px_product_id = ''prod'', px_scopes = [TasksCreate, TasksRead]\<rparr>"
proof -
  let ?s = "demo_products0\<lparr>pd_tokens := [demo_token_row]\<rparr>"
  let ?x = "\<lparr>px_token_id = tk_id demo_token_row, px_product_id = tk_product_id demo_token_row, px_scopes = tk_scopes demo_token_row\<rparr>"
  have "product_auth demo_crypto \<lparr>au_bootstrap_token = None\<rparr>
     \<lparr>rq_authorization = Some (Some (''Bearer '' @ generate_token demo_crypto demo_bytes))\<rparr> ''t2'' ?s =
     (Inr ?x, touched (tk_id demo_token_row) ''t2'' ?s)"
    unfolding product_authentication_exact [OF demo_tokens_reachable demo_hex_ok]
    using demo_valid_row demo_token_prefix by auto
  then show ?thesis by (simp add: demo_token_row_def new_token_row_def)
qed

text \<open>
  C12. Revocation is for good: once a token is revoked, no later sequence of store operations makes
  any presented string authenticate as that token.
\<close>

theorem revoked_token_stays_out:
  assumes "products_reachable c s" and "hex_ok c" and "r \<in> set (pd_tokens s)" and "tk_revoked_at r \<noteq> None"
    and "(product_step c)\<^sup>*\<^sup>* s s'" and "authenticate_product_token c token now s' = (Inr (Some a), s'')"
  shows "apt_token_id a \<noteq> tk_id r"
proof
  assume same: "apt_token_id a = tk_id r"
  have inv: "products_inv c s" by (rule products_reachable_inv [OF assms(1,2)])
  note later = product_steps_kept [OF assms(5,2) inv]
  from assms(3) obtain i where i: "i < length (pd_tokens s)" "pd_tokens s ! i = r"
    by (metis in_set_conv_nth)
  let ?r = "pd_tokens s' ! i"
  from later i have kept: "token_kept r ?r" and mem: "?r \<in> set (pd_tokens s')"
    by (auto simp: tokens_kept_def)
  from later have inv': "products_inv c s'" by simp
  from authenticate_Some [OF assms(2) inv'] assms(6) obtain q where q: "valid_row c token q s'" "a = authenticated q"
    by blast
  then have "tk_id q = tk_id ?r" "q \<in> set (pd_tokens s')" using same kept by (auto simp: authenticated_def token_kept_def valid_row_def)
  then have "q = ?r" using token_ids_distinct [OF inv'] mem by (metis distinct_map inj_onD)
  with q(1) kept assms(4) show False by (simp add: valid_row_def token_kept_def)
qed

theorem revoked_token_stays_out_witness:
  "\<not> (\<exists>a s''. authenticate_product_token demo_crypto (generate_token demo_crypto demo_bytes) ''t3''
      (snd (revoke_token ''prod'' ''ptok_1'' ''t2'' (demo_products0\<lparr>pd_tokens := [demo_token_row]\<rparr>))) = (Inr (Some a), s'')
      \<and> apt_token_id a = ''ptok_1'')"
proof -
  let ?s = "snd (revoke_token ''prod'' ''ptok_1'' ''t2'' (demo_products0\<lparr>pd_tokens := [demo_token_row]\<rparr>))"
  have reach: "products_reachable demo_crypto ?s"
    by (rule products_step [OF demo_tokens_reachable step_revoke_token])
  have find: "find_product ''prod'' demo_products0 = Some (new_product demo_product ''t0'')"
    by (simp add: find_product_def demo_products0_def new_product_def demo_product_def)
  have tokens: "pd_tokens ?s = [demo_token_row\<lparr>tk_revoked_at := Some ''t2''\<rparr>]"
    using find by (simp add: revoke_token_def op_simps get_product_def update_rows_def demo_token_row_def new_token_row_def)
  from revoked_token_stays_out [OF reach demo_hex_ok, of "hd (pd_tokens ?s)" ?s] show ?thesis
    unfolding tokens by (fastforce simp: demo_token_row_def new_token_row_def)
qed

text \<open>
  A token that was just created authenticates: presented to the store it is recognised as itself,
  with its product and the normalised scopes, as long as the product is not disabled; the store
  keeps a digest of it only.
\<close>

theorem created_token_authenticates:
  assumes "products_reachable c s" and "hex_ok c" and "length bytes = 24"
    and "create_token c bytes pid input now s = (Inr t, s1)"
    and "find_product pid s = Some p" and "pr_status p = ProductActive"
  shows "authenticate_product_token c (crt_token t) now' s1 =
    (Inr (Some \<lparr> apt_token_id = crt_id t, apt_product_id = pid, apt_scopes = btree_list (cpt_scopes input) \<rparr>),
     touched (crt_id t) now' s1)"
proof (cases rule: create_token_cases [of c bytes pid input now s])
  case (2 q tid token r)
  have inv: "products_inv c s" by (rule products_reachable_inv [OF assms(1,2)])
  from 2 assms(4) have t: "crt_token t = token" "crt_id t = tid" and s1: "s1 = s\<lparr>pd_tokens := pd_tokens s @ [r]\<rparr>"
    by auto
  have inv1: "products_inv c s1" by (rule keepsD [OF keeps_create_token assms(4) inv])
  have "has_token_prefix token" "TOKEN_PREFIX_LEN \<le> length token"
    using assms(2,3) by (simp_all add: 2(4) has_token_prefix_def generate_token_def PRODUCT_TOKEN_PREFIX_def
        TOKEN_PREFIX_LEN_def hex_ok_def)
  moreover have "valid_row c token r s1"
    using assms(5,6) by (simp add: valid_row_def s1 2(5) new_token_row_def)
  moreover have "authenticated r = \<lparr> apt_token_id = tid, apt_product_id = pid, apt_scopes = btree_list (cpt_scopes input) \<rparr>"
    "tk_id r = tid" by (simp_all add: authenticated_def 2(5) new_token_row_def)
  ultimately show ?thesis
    unfolding t authenticate_Some [OF assms(2) inv1] by metis
qed (use assms(4) in simp)

theorem created_token_authenticates_example:
  "fst (authenticate_product_token demo_crypto (generate_token demo_crypto demo_bytes) ''t2''
      (demo_products0\<lparr>pd_tokens := [demo_token_row]\<rparr>)) =
   Inr (Some \<lparr> apt_token_id = ''ptok_1'', apt_product_id = ''prod'', apt_scopes = [TasksCreate, TasksRead] \<rparr>)"
proof -
  have "find_product ''prod'' demo_products0 = Some (new_product demo_product ''t0'')"
    by (simp add: find_product_def demo_products0_def new_product_def demo_product_def)
  moreover have "btree_list [TasksRead, TasksCreate, TasksRead] = [TasksCreate, TasksRead]"
    by (simp add: btree_list_def less_eq_api_scope_def)
  ultimately show ?thesis
    using created_token_authenticates [OF demo_products0_reachable demo_hex_ok _ demo_token_created, of "new_product demo_product ''t0''" "''t2''"]
    by (simp add: demo_bytes_def new_product_def demo_token_input_def demo_created_token_def)
qed

end
