(* ===== verification/Profile_Properties.thy ===== *)
theory Profile_Properties
  imports Agent_Store "HOL-Library.Multiset"
begin

text \<open>
  Properties of the provider registry and of agent profiles: what a loaded registry guarantees, that
  the validators report nothing exactly on well-formed input, and what the profile table keeps.
\<close>

inductive agents_reachable :: "agent_table \<Rightarrow> bool" where
  agents_start: "agents_reachable empty_agents"
| agents_create: "agents_reachable s \<Longrightarrow> agents_reachable (snd (create_agent input now s))"
| agents_patch: "agents_reachable s \<Longrightarrow> agents_reachable (snd (patch_agent aid patch now s))"
| agents_delete: "agents_reachable s \<Longrightarrow> agents_reachable (snd (delete_agent aid s))"

lemma agents_reachable_inv: "agents_reachable s \<Longrightarrow> agents_inv s"
  by (induction rule: agents_reachable.induct) (auto intro: agents_inv_empty agent_keeps [THEN keeps_snd])

section \<open>A concrete provider and profile\<close>

definition demo_manifest :: provider_manifest where
  "demo_manifest =
     \<lparr> pm_schema_version = ''1'', pm_id = ''codex'', pm_display_name = ''Codex'', pm_status = Community,
       pm_vendor = \<lparr>vn_name = ''v'', vn_homepage = ''h'', vn_support_url = None\<rparr>,
       pm_integration_type = IntegrationCli, pm_description = ''d'',
       pm_install = \<lparr>in_macos = [], in_linux = [], in_windows = []\<rparr>,
       pm_detect = \<lparr>dt_commands = [''codex''], dt_version_args = [], dt_version_regex = None\<rparr>,
       pm_execution = \<lparr>ex_command = ''codex'', ex_args = [], ex_input_mode = InputArg,
         ex_working_directory = WdRequired, ex_supports_streaming = False, ex_cancel_signal = Sigterm\<rparr>,
       pm_models = \<lparr>md_default = ''m'', md_supported = [''m'']\<rparr>,
       pm_capabilities = \<lparr>pc_filesystem_read = True, pc_filesystem_write = True, pc_shell = True, pc_git = True,
         pc_browser = False, pc_mcp = False, pc_remote_execution = False, pc_worktree = True,
         pc_direct_directory = True, pc_supports_resume = False, pc_supports_permission_requests = False\<rparr>,
       pm_permissions = \<lparr>pp_requires_directory_grant = True, pp_recommended_directory_lock = RecommendExclusive,
         pp_provider_permission_modes = [], pp_supports_permission_events = False\<rparr>,
       pm_environment = \<lparr>en_required = [], en_optional = []\<rparr>,
       pm_security = \<lparr>sc_runs_locally = True, sc_sends_code_to_vendor = True, sc_data_policy_url = None,
         sc_review_level = StandardReview\<rparr>,
       pm_acp = None, pm_http = None \<rparr>"

definition demo_entry :: registry_dir_entry where
  "demo_entry = \<lparr>de_is_dir = True, de_file_name = ''codex'', de_manifest = Inr demo_manifest\<rparr>"

lemma demo_manifest_ok: "manifest_ok demo_manifest"
  by (simp add: manifest_ok_def demo_manifest_def blank_def string_eval is_absolute_command_def is_absolute_def
      names_ok_def acp_ok_def http_ok_def)

definition demo_provider :: provider_entry where
  "demo_provider = entry_of ''/r'' demo_entry demo_manifest"

lemma demo_registry:
  "load_registry_from_dir (\<lambda>_. True) ''/r'' (Inr [demo_entry]) = Inr \<lparr>rg_providers = [demo_provider]\<rparr>"
proof -
  have "validate_manifest_entry (\<lambda>_. True) ''codex'' d demo_manifest = []" for d
    using demo_manifest_ok
    by (simp add: validate_manifest_entry_def Let_def require_file_def validate_manifest_Nil) (simp add: demo_manifest_def)
  then have "load_errors (\<lambda>_. True) ''/r'' [demo_entry] = []"
    by (simp add: load_errors_def demo_entry_def)
  moreover have "loaded ''/r'' [demo_entry] = [demo_provider]"
    by (simp add: loaded_def demo_entry_def demo_provider_def)
  ultimately show ?thesis by (simp add: load_registry_Inr)
qed

definition demo_agent_input :: create_agent_profile where
  "demo_agent_input =
     \<lparr> ca_id = ''agent'', ca_name = ''A'', ca_owner_product_id = ''prod'', ca_provider_id = ''codex'',
       ca_model = ''m'', ca_instructions = None,
       ca_execution_policy = \<lparr>ep_default_workspace_mode = AgentWorktree, ep_allow_direct_directory = False\<rparr>,
       ca_provider_config = \<lparr>cf_custom_args = [''--fast''], cf_custom_env_keys = [''KEY''], cf_mcp_config = None,
         cf_permission_mode = ''provider_default''\<rparr> \<rparr>"

definition demo_agent :: agent_profile where
  "demo_agent = into_profile demo_agent_input ''t0'' ''t0''"

lemma demo_agent_ok: "profile_ok demo_agent_input"
  by (simp add: profile_ok_def demo_agent_input_def config_ok_def id_pattern_def env_key_pattern_def is_alnum_def
      is_letter_def is_digit_def blank_def string_eval RESERVED_PROVIDER_ARGS_def)

lemma demo_agents_reachable: "agents_reachable \<lparr>at_rows = [demo_agent]\<rparr>"
proof -
  have "find_agent (ca_id demo_agent_input) empty_agents = None"
    by (simp add: find_agent_def empty_agents_def)
  then have "create_agent demo_agent_input ''t0'' empty_agents = (Inr demo_agent, \<lparr>at_rows = [demo_agent]\<rparr>)"
    using demo_agent_ok
    by (cases rule: create_agent_cases [of demo_agent_input empty_agents "''t0''"])
      (simp_all add: demo_agent_def empty_agents_def)
  then show ?thesis using agents_create [OF agents_start, of demo_agent_input "''t0''"] by simp
qed

section \<open>Properties\<close>

text \<open>
  C33. The manifest validator is exact: it reports no error if and only if the manifest is well formed
  in the sense of \<open>manifest_ok\<close> (required texts, relative commands, a supported default model, no
  duplicate names, disjoint environment lists, and the \<open>acp\<close> and \<open>http\<close> sections that its integration
  type needs and no other).
\<close>

theorem manifest_validation_exact: "validate_manifest_fields m = [] \<longleftrightarrow> manifest_ok m"
  by (rule validate_manifest_Nil)

text \<open>
  A registry that loads holds exactly the manifests of the provider directories, in the order of
  their ids, each well formed, stored in the directory of its id, and found by that id.
\<close>

theorem registry_load_sound:
  assumes "load_registry_from_dir is_file dir (Inr ds) = Inr reg"
  shows "set (rg_providers reg) = {entry_of dir d m | d m. d \<in> set ds \<and> de_is_dir d \<and> de_manifest d = Inr m} \<and>
    sorted (map (\<lambda>p. pm_id (pe_manifest p)) (rg_providers reg)) \<and>
    distinct (map (\<lambda>p. pm_id (pe_manifest p)) (rg_providers reg)) \<and>
    (\<forall>p \<in> set (rg_providers reg). manifest_ok (pe_manifest p) \<and>
       pm_id (pe_manifest p) = pe_directory_name p \<and> registry_get reg (pm_id (pe_manifest p)) = Some p)"
proof -
  let ?k = "\<lambda>p. pm_id (pe_manifest p)"
  from assms have errs: "load_errors is_file dir ds = []" and dist: "distinct (map ?k (loaded dir ds))"
    and reg: "reg = \<lparr>rg_providers = sort_key ?k (loaded dir ds)\<rparr>"
    by (simp_all add: load_registry_Inr)
  have set_eq: "set (loaded dir ds) = {entry_of dir d m | d m. d \<in> set ds \<and> de_is_dir d \<and> de_manifest d = Inr m}"
    by (auto simp: loaded_def split: sum.splits if_splits) (metis sum.simps(6) list.set_intros(1))
  have ok: "manifest_ok m \<and> pm_id m = de_file_name d" if "d \<in> set ds" "de_is_dir d" "de_manifest d = Inr m" for d m
  proof -
    have "\<forall>d \<in> set ds. (if de_is_dir d then (case de_manifest d of Inl e \<Rightarrow> [e]
        | Inr m \<Rightarrow> validate_manifest_entry is_file (de_file_name d) (join dir (de_file_name d)) m) else []) = []"
      using errs by (simp only: load_errors_def concat_eq_Nil_conv) auto
    with that have "validate_manifest_entry is_file (de_file_name d) (join dir (de_file_name d)) m = []" by auto
    then show ?thesis by (simp add: validate_manifest_entry_def Let_def validate_manifest_Nil split: if_splits)
  qed
  have "distinct (map ?k (rg_providers reg))"
  proof -
    have "mset (map ?k (sort_key ?k (loaded dir ds))) = mset (map ?k (loaded dir ds))" by simp
    then show ?thesis using dist reg by (metis mset_eq_imp_distinct_iff provider_registry.select_convs(1))
  qed
  moreover from this have "registry_get reg (?k p) = Some p" if "p \<in> set (rg_providers reg)" for p
    using that by (simp add: registry_get_def find_key_Some)
  moreover have "manifest_ok (pe_manifest p) \<and> ?k p = pe_directory_name p" if "p \<in> set (rg_providers reg)" for p
    using that set_eq ok by (auto simp: reg entry_of_def)
  ultimately show ?thesis using set_eq by (simp add: reg)
qed

theorem registry_load_sound_example:
  "registry_get \<lparr>rg_providers = [demo_provider]\<rparr> ''codex'' = Some demo_provider"
proof -
  have "pm_id (pe_manifest demo_provider) = ''codex''"
    by (simp add: demo_provider_def entry_of_def demo_manifest_def)
  then show ?thesis using registry_load_sound [OF demo_registry] by auto
qed

text \<open>
  C32. Every stored agent profile is valid: its id has the required form, its texts are not blank, direct
  mode is its default only where it is allowed, its custom arguments are distinct and none is a
  reserved flag, its environment keys are distinct names; a patch never changes id or owner.
\<close>

theorem stored_profiles_valid:
  assumes "agents_reachable s" and "find_agent aid s = Some a"
  shows "profile_ok (as_create a) \<and> ap_id a = aid \<and>
    (case patch_agent aid patch now s of
       (Inl e, s') \<Rightarrow> s' = s
     | (Inr a', s') \<Rightarrow> find_agent aid s' = Some a' \<and> ap_id a' = ap_id a \<and>
         ap_owner_product_id a' = ap_owner_product_id a \<and> ap_created_at a' = ap_created_at a \<and>
         profile_ok (as_create a'))"
proof -
  have inv: "agents_inv s" by (rule agents_reachable_inv [OF assms(1)])
  have mem: "a \<in> set (at_rows s)" "ap_id a = aid" using agents.lookup_SomeD [OF assms(2)] by simp_all
  then have ok: "profile_ok (as_create a)" using inv by (simp add: agents_inv_def)
  show ?thesis
  proof (cases rule: patch_agent_cases [of patch aid now s])
    case (4 b)
    let ?n = "patched_profile patch b"
    have b: "b = a" using 4(1) assms(2) by simp
    have "find_agent aid (update_agent aid (set_profile ?n now) s) = Some (set_profile ?n now b)"
      using 4(1) agents.lookup_update [of "update_agent aid (set_profile ?n now) s" aid "set_profile ?n now" s aid]
      by (simp add: update_agent_def)
    with 4 ok mem(2) b show ?thesis
      by (simp add: as_create_patched) (simp add: set_profile_def)
  qed (use ok mem in simp_all)
qed

theorem stored_profiles_valid_witness:
  "profile_ok (as_create demo_agent) \<and> ap_id demo_agent = ''agent''"
proof -
  have "find_agent ''agent'' \<lparr>at_rows = [demo_agent]\<rparr> = Some demo_agent"
    by (simp add: find_agent_def demo_agent_def demo_agent_input_def)
  from stored_profiles_valid [OF demo_agents_reachable this] show ?thesis by blast
qed

text \<open>
  Authorisation of an agent is exact: it succeeds if and only if the profile is stored, belongs to
  the product, no override differs from the stored provider, model and permission mode, and direct
  mode is requested only where the profile allows it.
\<close>

lemma agent_authorization_exact:
  "authorize_agent r s = (Inr a, s') \<longleftrightarrow>
     s' = s \<and> find_agent (aa_agent_id r) s = Some a \<and> ap_owner_product_id a = aa_owner_product_id r \<and>
     aa_provider_id_override r \<in> {None, Some (ap_provider_id a)} \<and>
     aa_model_override r \<in> {None, Some (ap_model a)} \<and>
     aa_permission_mode_override r \<in> {None, Some (cf_permission_mode (ap_provider_config a))} \<and>
     \<not> (aa_requested_workspace_mode r = AgentDirect \<and> \<not> ep_allow_direct_directory (ap_execution_policy a))"
  by (cases "aa_provider_id_override r"; cases "aa_model_override r"; cases "aa_permission_mode_override r")
    (auto simp: authorize_agent_def and_then_Inr get_agent_def reads_def is_some_and_def split: if_splits)

section \<open>A gap in the reserved arguments\<close>

text \<open>
  The reserved flags are compared as whole strings, so a flag with its value after an equals sign is
  accepted as a custom argument.
\<close>

lemma reserved_flag_with_value_accepted:
  "custom_args_ok {} [''--model=other'', ''--permission-mode=bypass'']"
  by (simp add: RESERVED_PROVIDER_ARGS_def)

end
