(* ===== verification/Runtime_Model.thy ===== *)
theory Runtime_Model
  imports Registry Json
begin

text \<open>
  \<open>src/src/runtime/model.rs\<close>, \<open>store.rs\<close> and \<open>template.rs\<close>: what is known about a provider's runtime,
  the ids derived from provider ids, the in-memory table of runtimes, and the rendering of command
  arguments.
\<close>

datatype runtime_kind = LocalCli | LocalAcp | RemoteHttp

datatype runtime_status = NotDetected | RuntimeAvailable | RuntimeUnavailableStatus | RuntimeErrorStatus

record runtime_error =
  re_code :: string
  re_message :: string

record runtime_view =
  rv_id :: string
  rv_provider_id :: string
  rv_kind :: runtime_kind
  rv_status :: runtime_status
  rv_executable :: "string option"
  rv_version :: "string option"
  rv_detected_at :: "string option"
  rv_error :: "runtime_error option"

section \<open>Ids\<close>

datatype letter_case = Lower | Upper

definition ascii_alnum :: "char \<Rightarrow> bool" where
  "ascii_alnum c = (let b = of_char c :: nat in
     48 \<le> b \<and> b \<le> 57 \<or> 65 \<le> b \<and> b \<le> 90 \<or> 97 \<le> b \<and> b \<le> 122)"

definition ascii_lower :: "char \<Rightarrow> char" where
  "ascii_lower c = (let b = of_char c :: nat in if 65 \<le> b \<and> b \<le> 90 then char_of (b + 32) else c)"

definition ascii_upper :: "char \<Rightarrow> char" where
  "ascii_upper c = (let b = of_char c :: nat in if 97 \<le> b \<and> b \<le> 122 then char_of (b - 32) else c)"

fun to_case :: "letter_case \<Rightarrow> char \<Rightarrow> char" where
  "to_case Lower c = ascii_lower c"
| "to_case Upper c = ascii_upper c"

text \<open>
  The loop over the characters. A character that is not ASCII is several bytes, none of them ASCII, so
  a run of separators gives one underscore on characters and on bytes alike.
\<close>

fun normalize_chars :: "letter_case \<Rightarrow> bool \<Rightarrow> string \<Rightarrow> string" where
  "normalize_chars lc last_was_separator [] = []"
| "normalize_chars lc last_was_separator (c # cs) =
     (if ascii_alnum c then to_case lc c # normalize_chars lc False cs
      else if \<not> last_was_separator then CHR ''_'' # normalize_chars lc True cs
      else normalize_chars lc last_was_separator cs)"

definition normalize_provider_id :: "string \<Rightarrow> letter_case \<Rightarrow> string" where
  "normalize_provider_id pid lc = normalize_chars lc False pid"

definition runtime_id :: "string \<Rightarrow> string" where
  "runtime_id pid = ''rt_'' @ normalize_provider_id pid Lower @ ''_local_cli''"

definition acp_runtime_id :: "string \<Rightarrow> string" where
  "acp_runtime_id pid = ''rt_'' @ normalize_provider_id pid Lower @ ''_local_acp''"

definition http_runtime_id :: "string \<Rightarrow> string" where
  "http_runtime_id pid = ''rt_'' @ normalize_provider_id pid Lower @ ''_remote_http''"

definition runtime_id_for_kind :: "string \<Rightarrow> runtime_kind \<Rightarrow> string" where
  "runtime_id_for_kind pid kind =
     (case kind of LocalCli \<Rightarrow> runtime_id pid | LocalAcp \<Rightarrow> acp_runtime_id pid
      | RemoteHttp \<Rightarrow> http_runtime_id pid)"

definition override_env_var_name :: "string \<Rightarrow> string" where
  "override_env_var_name pid = ''OPENDAEMON_PROVIDER_'' @ normalize_provider_id pid Upper @ ''_PATH''"

section \<open>Views\<close>

definition not_detected_with_kind :: "string \<Rightarrow> runtime_kind \<Rightarrow> runtime_view" where
  "not_detected_with_kind pid kind =
     \<lparr> rv_id = runtime_id_for_kind pid kind, rv_provider_id = pid, rv_kind = kind,
       rv_status = NotDetected, rv_executable = None, rv_version = None, rv_detected_at = None,
       rv_error = None \<rparr>"

definition available_with_kind ::
  "string \<Rightarrow> runtime_kind \<Rightarrow> string \<Rightarrow> string option \<Rightarrow> string \<Rightarrow> runtime_view" where
  "available_with_kind pid kind executable version now =
     \<lparr> rv_id = runtime_id_for_kind pid kind, rv_provider_id = pid, rv_kind = kind,
       rv_status = RuntimeAvailable, rv_executable = Some executable, rv_version = version,
       rv_detected_at = Some now, rv_error = None \<rparr>"

definition unavailable_with_kind ::
  "string \<Rightarrow> runtime_kind \<Rightarrow> runtime_error \<Rightarrow> string \<Rightarrow> runtime_view" where
  "unavailable_with_kind pid kind e now =
     \<lparr> rv_id = runtime_id_for_kind pid kind, rv_provider_id = pid, rv_kind = kind,
       rv_status = RuntimeUnavailableStatus, rv_executable = None, rv_version = None,
       rv_detected_at = Some now, rv_error = Some e \<rparr>"

definition error_with_kind ::
  "string \<Rightarrow> runtime_kind \<Rightarrow> string option \<Rightarrow> runtime_error \<Rightarrow> string \<Rightarrow> runtime_view" where
  "error_with_kind pid kind executable e now =
     \<lparr> rv_id = runtime_id_for_kind pid kind, rv_provider_id = pid, rv_kind = kind,
       rv_status = RuntimeErrorStatus, rv_executable = executable, rv_version = None,
       rv_detected_at = Some now, rv_error = Some e \<rparr>"

section \<open>The table of runtimes\<close>

text \<open>A \<open>BTreeMap\<close> from provider id to view: an association list, sorted when it is listed.\<close>

type_synonym runtime_store = "(string \<times> runtime_view) list"

definition runtime_save :: "runtime_view \<Rightarrow> runtime_store \<Rightarrow> runtime_store" where
  "runtime_save r rs = AList.update (rv_provider_id r) r rs"

definition runtime_save_all :: "runtime_view list \<Rightarrow> runtime_store \<Rightarrow> runtime_store" where
  "runtime_save_all views rs = fold runtime_save views rs"

definition runtime_get :: "string \<Rightarrow> runtime_store \<Rightarrow> runtime_view option" where
  "runtime_get pid rs = map_of rs pid"

definition runtime_snapshot :: "runtime_store \<Rightarrow> runtime_view list" where
  "runtime_snapshot rs = sort_key rv_provider_id (map snd rs)"

definition kind_of_integration :: "integration_type \<Rightarrow> runtime_kind" where
  "kind_of_integration t = (case t of IntegrationCli \<Rightarrow> LocalCli | IntegrationAcp \<Rightarrow> LocalAcp
     | IntegrationHttp \<Rightarrow> RemoteHttp | IntegrationNative \<Rightarrow> LocalCli)"

definition list_for_providers :: "provider_manifest list \<Rightarrow> runtime_store \<Rightarrow> runtime_view list" where
  "list_for_providers providers rs =
     sort_key rv_provider_id (map (\<lambda>p. unwrap_or (runtime_get (pm_id p) rs)
         (not_detected_with_kind (pm_id p) (kind_of_integration (pm_integration_type p))))
       (filter (\<lambda>p. pm_integration_type p \<noteq> IntegrationNative) providers))"

section \<open>Command templates\<close>

record adapter_error =
  ae_code :: string
  ae_message :: string

record template_values =
  tv_prompt :: "string option"
  tv_model :: "string option"
  tv_workspace :: "string option"
  tv_task_id :: "string option"
  tv_agent_id :: "string option"
  tv_directory_id :: "string option"

definition render_error :: "string \<Rightarrow> adapter_error" where
  "render_error msg = \<lparr> ae_code = ''command_render_failed'', ae_message = msg \<rparr>"

definition resolve_variable :: "string \<Rightarrow> template_values \<Rightarrow> adapter_error + string" where
  "resolve_variable var vs =
     r_then (if var = ''prompt'' then Inr (tv_prompt vs)
             else if var = ''model'' then Inr (tv_model vs)
             else if var = ''workspace'' then Inr (tv_workspace vs)
             else if var = ''task_id'' then Inr (tv_task_id vs)
             else if var = ''agent_id'' then Inr (tv_agent_id vs)
             else if var = ''directory_id'' then Inr (tv_directory_id vs)
             else Inl (render_error (''unknown template variable: '' @ var)))
       (\<lambda>v. ok_or (render_error (''missing template variable: '' @ var)) v)"

text \<open>\<open>str::find\<close> of a two-character pattern: the text before it and the text after it.\<close>

fun split_at2 :: "char \<Rightarrow> char \<Rightarrow> string \<Rightarrow> (string \<times> string) option" where
  "split_at2 a b (x # y # s) =
     (if x = a \<and> y = b then Some ([], s)
      else map_option (\<lambda>(u, v). (x # u, v)) (split_at2 a b (y # s)))"
| "split_at2 a b s = None"

lemma split_at2_eq: "split_at2 a b s = Some (u, v) \<Longrightarrow> s = u @ [a, b] @ v"
  by (induction a b s arbitrary: u v rule: split_at2.induct) (auto split: if_splits)

lemma split_at2_length: "split_at2 a b s = Some (u, v) \<Longrightarrow> length v < length s"
  by (drule split_at2_eq) simp

function render_template :: "template_values \<Rightarrow> string \<Rightarrow> adapter_error + string" where
  "render_template vs remaining =
     (case split_at2 (CHR ''{'') (CHR ''{'') remaining of
        None \<Rightarrow> Inr remaining
      | Some (before, after_start) \<Rightarrow>
          (case split_at2 (CHR ''}'') (CHR ''}'') after_start of
             None \<Rightarrow> Inl (render_error ''unterminated template variable'')
           | Some (var, rest) \<Rightarrow>
               (case resolve_variable (trim var) vs of
                  Inl e \<Rightarrow> Inl e
                | Inr v \<Rightarrow>
                    (case render_template vs rest of
                       Inl e \<Rightarrow> Inl e
                     | Inr r \<Rightarrow> Inr (before @ v @ r)))))"
  by pat_completeness auto
termination
  by (relation "measure (\<lambda>(vs, s). length s)") (auto dest!: split_at2_length)

declare render_template.simps [simp del]

definition render_args :: "string list \<Rightarrow> template_values \<Rightarrow> adapter_error + string list" where
  "render_args args vs = r_collect (map (render_template vs) args)"

section \<open>Lemmas\<close>

lemma runtime_get_save: "runtime_get p (runtime_save r rs) = (if p = rv_provider_id r then Some r else runtime_get p rs)"
  by (simp add: runtime_get_def runtime_save_def update_conv')

lemma normalize_chars_charset:
  "set (normalize_chars lc b s) \<subseteq> insert (CHR ''_'') (to_case lc ` {c. ascii_alnum c})"
  by (induction lc b s rule: normalize_chars.induct) auto

lemma split_at2_first:
  assumes "a \<notin> set u"
  shows "split_at2 a a (u @ a # a # v) = Some (u, v)"
  using assms
proof (induction u)
  case (Cons x u)
  then show ?case by (cases u) auto
qed simp

lemma split_at2_absent: "a \<notin> set s \<Longrightarrow> split_at2 a a s = None"
proof (induction s)
  case (Cons x s)
  then show ?case by (cases s) auto
qed simp

text \<open>A template is a sequence of literal text and variables between double braces.\<close>

datatype template_part = Literal string | Variable string

fun print_template :: "template_part list \<Rightarrow> string" where
  "print_template [] = []"
| "print_template (Literal s # ps) = s @ print_template ps"
| "print_template (Variable v # ps) = ''{{'' @ v @ ''}}'' @ print_template ps"

fun eval_template :: "template_values \<Rightarrow> template_part list \<Rightarrow> adapter_error + string" where
  "eval_template vs [] = Inr []"
| "eval_template vs (Literal s # ps) = r_then (eval_template vs ps) (\<lambda>r. Inr (s @ r))"
| "eval_template vs (Variable v # ps) =
     r_then (resolve_variable (trim v) vs) (\<lambda>x. r_then (eval_template vs ps) (\<lambda>r. Inr (x @ r)))"

fun part_ok :: "template_part \<Rightarrow> bool" where
  "part_ok (Literal s) \<longleftrightarrow> CHR ''{'' \<notin> set s"
| "part_ok (Variable v) \<longleftrightarrow> CHR ''}'' \<notin> set v"

lemma render_literal:
  assumes "CHR ''{'' \<notin> set s"
  shows "render_template vs (s @ t) = r_then (render_template vs t) (\<lambda>r. Inr (s @ r))"
proof (cases "split_at2 (CHR ''{'') (CHR ''{'') t")
  case None
  have "split_at2 (CHR ''{'') (CHR ''{'') (s @ t) = None"
    using assms None
  proof (induction s)
    case (Cons x s)
    then show ?case by (cases "s @ t") auto
  qed simp
  with None show ?thesis by (simp add: render_template.simps [of vs "s @ t"] render_template.simps [of vs t] r_then_def)
next
  case (Some p)
  obtain u w where p: "p = (u, w)" by (cases p)
  have "split_at2 (CHR ''{'') (CHR ''{'') (s @ t) = Some (s @ u, w)"
    using assms Some p
  proof (induction s)
    case (Cons x s)
    then show ?case by (cases "s @ t") auto
  qed simp
  with Some p show ?thesis
    by (simp add: render_template.simps [of vs "s @ t"] render_template.simps [of vs t] r_then_def
        split: option.splits sum.splits)
qed

lemma render_variable:
  assumes "CHR ''}'' \<notin> set v"
  shows "render_template vs (''{{'' @ v @ ''}}'' @ t) =
    r_then (resolve_variable (trim v) vs) (\<lambda>x. r_then (render_template vs t) (\<lambda>r. Inr (x @ r)))"
  using split_at2_first [OF assms, of t]
  by (simp add: render_template.simps [of vs "CHR ''{'' # CHR ''{'' # (v @ CHR ''}'' # CHR ''}'' # t)"] r_then_def
      split: sum.splits)

lemma render_parts: "list_all part_ok ps \<Longrightarrow> render_template vs (print_template ps) = eval_template vs ps"
proof (induction ps)
  case Nil
  show ?case by (simp add: render_template.simps [of vs "[]"])
next
  case (Cons p ps)
  then show ?case
    by (cases p) (simp_all add: render_literal render_variable [simplified])
qed

end
