(* ===== verification/Scheduler.thy ===== *)
theory Scheduler
  imports Task_Store Directory_Store Agent_Store
begin

text \<open>
  \<open>src/src/scheduler/service.rs\<close> and \<open>workspace.rs\<close>: admission of a task against the agent profile and
  the directory grant, the directory lock and the capacity limit, preparation of the workspace and
  the transitions of a task up to its end.

  The service works on three stores. They are the record \<open>stores\<close>; an operation of one store is
  lifted with \<open>zoom\<close>. The workspace preparer is a trait, so an argument.
\<close>

record stores =
  st_tasks :: task_db
  st_agents :: agent_table
  st_grants :: grant_table

record scheduler_config =
  sg_max_concurrent_tasks :: nat
  sg_allow_agent_custom_env :: bool

definition default_scheduler_config :: scheduler_config where
  "default_scheduler_config = \<lparr> sg_max_concurrent_tasks = 1, sg_allow_agent_custom_env = False \<rparr>"

datatype task_validation_error =
    TvTaskNotFound
  | TvInvalidTask
  | TvInvalidTaskPrompt
  | TvInvalidTaskState
  | TvAgentNotFound
  | TvDirectoryNotFound
  | TvAgentAuthorizationFailed
  | TvDirectoryAuthorizationFailed
  | TvCapabilityNotAllowed
  | TvWorkspaceModeNotAllowed
  | TvDirectModeNotAllowed
  | TvProviderOverrideNotAllowed
  | TvModelOverrideNotAllowed
  | TvPermissionModeOverrideNotAllowed
  | TvRemoteExecutionNotAllowed
  | TvDirectoryLockConflict
  | TvTaskAlreadyTerminal
  | TvStore string

type_synonym 'a sched_op = "(stores, task_validation_error, 'a) op"

section \<open>Error mapping\<close>

fun map_model_error :: "task_model_error \<Rightarrow> task_validation_error" where
  "map_model_error ModelInvalidPrompt = TvInvalidTaskPrompt"
| "map_model_error ModelInvalidTask = TvInvalidTask"

fun map_agent_error :: "agent_store_error \<Rightarrow> task_validation_error" where
  "map_agent_error (AsProfile ProfileNotFound) = TvAgentNotFound"
| "map_agent_error (AsProfile e) = TvAgentAuthorizationFailed"
| "map_agent_error (AsStore e) = TvStore e"

fun map_directory_error :: "directory_store_error \<Rightarrow> task_validation_error" where
  "map_directory_error DsNotFound = TvDirectoryNotFound"
| "map_directory_error (DsSecurity DirectModeDenied) = TvDirectModeNotAllowed"
| "map_directory_error (DsSecurity AuthorizationFailed) = TvDirectoryAuthorizationFailed"
| "map_directory_error (DsSecurity InvalidCapability) = TvCapabilityNotAllowed"
| "map_directory_error (DsSecurity e) = TvWorkspaceModeNotAllowed"
| "map_directory_error (DsPath e) = TvDirectoryAuthorizationFailed"
| "map_directory_error (DsStore e) = TvStore e"
| "map_directory_error (DsPanic e) = TvStore e"

fun from_task_store_error :: "task_store_error \<Rightarrow> task_validation_error" where
  "from_task_store_error TsNotFound = TvTaskNotFound"
| "from_task_store_error PermissionRequestNotFound = TvInvalidTaskState"
| "from_task_store_error PermissionRequestNotPending = TvInvalidTaskState"
| "from_task_store_error PermissionRequestAlreadyResolved = TvInvalidTaskState"
| "from_task_store_error (TsModel e) = map_model_error e"
| "from_task_store_error (TsState AlreadyTerminal) = TvTaskAlreadyTerminal"
| "from_task_store_error (TsState e) = TvInvalidTaskState"
| "from_task_store_error (TsStore e) = TvStore e"

definition on_tasks :: "'a task_op \<Rightarrow> 'a sched_op" where
  "on_tasks m = map_err from_task_store_error (zoom st_tasks (\<lambda>t s. s\<lparr> st_tasks := t \<rparr>) m)"

definition on_agents :: "'a agent_op \<Rightarrow> 'a sched_op" where
  "on_agents m = map_err map_agent_error (zoom st_agents (\<lambda>t s. s\<lparr> st_agents := t \<rparr>) m)"

definition on_grants :: "'a grant_op \<Rightarrow> 'a sched_op" where
  "on_grants m = map_err map_directory_error (zoom st_grants (\<lambda>t s. s\<lparr> st_grants := t \<rparr>) m)"

section \<open>Admission\<close>

definition select_workspace_mode ::
  "workspace_mode option \<Rightarrow> directory_grant \<Rightarrow> bool \<Rightarrow> task_validation_error + workspace_mode" where
  "select_workspace_mode requested grant opt_in =
     (let mode = unwrap_or requested (dg_default_workspace_mode grant) in
      if mode \<notin> set (dg_workspace_modes grant) then
        Inl (case mode of Direct \<Rightarrow> TvDirectModeNotAllowed | Worktree \<Rightarrow> TvWorkspaceModeNotAllowed)
      else if mode = Direct \<and> dg_direct_mode_requires_explicit_task_opt_in grant \<and> \<not> opt_in then
        Inl TvDirectModeNotAllowed
      else Inr mode)"

datatype override_kind = OverrideProvider | OverrideModel | OverridePermissionMode

definition map_override_error ::
  "string option \<Rightarrow> string \<Rightarrow> override_kind \<Rightarrow> task_validation_error + unit" where
  "map_override_error requested actual kind =
     (if is_some_and requested (\<lambda>r. r \<noteq> actual) then
        Inl (case kind of
               OverrideProvider \<Rightarrow> TvProviderOverrideNotAllowed
             | OverrideModel \<Rightarrow> TvModelOverrideNotAllowed
             | OverridePermissionMode \<Rightarrow> TvPermissionModeOverrideNotAllowed)
      else Inr ())"

text \<open>\<open>metadata["remote_execution"]["approved_by_scope"].as_bool().unwrap_or(false)\<close>\<close>

definition approved_by_scope :: "json option \<Rightarrow> bool" where
  "approved_by_scope metadata =
     unwrap_or (Option.bind metadata (\<lambda>m.
       as_bool (json_index (json_index m ''remote_execution'') ''approved_by_scope''))) False"

definition enqueue_task :: "create_task \<Rightarrow> string \<Rightarrow> task sched_op" where
  "enqueue_task input now =
     and_then (lift_r (r_map_err map_model_error (create_task_validate input))) (\<lambda>_.
     and_then (on_grants (get_grant (ct_directory_id input))) (\<lambda>grant.
     and_then (lift_r (select_workspace_mode (ct_workspace_mode input) grant
                         (ct_direct_mode_task_opt_in input))) (\<lambda>mode.
     and_then (on_agents (get_agent (ct_agent_id input))) (\<lambda>profile.
     if ap_owner_product_id profile \<noteq> ct_owner_product_id input then err TvAgentAuthorizationFailed
     else
     and_then (lift_r (map_override_error (ct_provider_id input) (ap_provider_id profile) OverrideProvider)) (\<lambda>_.
     and_then (lift_r (map_override_error (ct_model input) (ap_model profile) OverrideModel)) (\<lambda>_.
     and_then (lift_r (map_override_error (ct_permission_mode input)
                 (cf_permission_mode (ap_provider_config profile)) OverridePermissionMode)) (\<lambda>_.
     if mode = Direct \<and> \<not> ep_allow_direct_directory (ap_execution_policy profile)
       then err TvDirectModeNotAllowed
     else if list_ex (\<lambda>c. c \<notin> set (dg_capabilities grant)) (required_capabilities input)
       then err TvCapabilityNotAllowed
     else
     and_then (on_grants (authorize_grant
       \<lparr> ar_product_id = ct_owner_product_id input, ar_agent_id = ct_agent_id input,
         ar_directory_id = ct_directory_id input,
         ar_required_capabilities = required_capabilities input,
         ar_requested_workspace_mode = mode,
         ar_direct_mode_task_opt_in = ct_direct_mode_task_opt_in input,
         ar_remote_execution = approved_by_scope (ct_metadata input) \<rparr>)) (\<lambda>_.
     on_tasks (create (input\<lparr> ct_workspace_mode := Some mode,
       ct_provider_id := Some (ap_provider_id profile), ct_model := Some (ap_model profile),
       ct_permission_mode := Some (cf_permission_mode (ap_provider_config profile)) \<rparr>) now)))))))))"

section \<open>Locks and capacity\<close>

definition reason_payload :: "string \<Rightarrow> json option" where
  "reason_payload r = Some (Object [(''reason'', Str r)])"

definition running_or_preparing_count :: "nat sched_op" where
  "running_or_preparing_count =
     and_then (on_tasks (list_tasks \<lparr> tf_owner_product_id = None, tf_agent_id = None,
                                      tf_directory_id = None, tf_status = None \<rparr>)) (\<lambda>ts.
     ok (length (filter (\<lambda>t. task_status t = Preparing \<or> task_status t = Running) ts)))"

definition try_acquire_directory_lock ::
  "scheduler_config \<Rightarrow> lock_request \<Rightarrow> string \<Rightarrow> lock_decision sched_op" where
  "try_acquire_directory_lock config request now =
     and_then (on_tasks (get_task (lr_task_id request))) (\<lambda>t.
     and_then running_or_preparing_count (\<lambda>n.
     if sg_max_concurrent_tasks config \<le> n then
       and_then (on_tasks (transition (task_id t) WaitingDirectoryLock
                             (reason_payload ''global_capacity'') now)) (\<lambda>_. ok Waiting)
     else
       and_then (on_grants (get_grant (lr_directory_id request))) (\<lambda>grant.
       (let mode = mode_for_capabilities (task_required_capabilities t) (dg_lock_policy grant) in
        if mode = LockNone then ok NotRequired
        else
          and_then (on_tasks (acquire_lock (request\<lparr> lr_mode := mode \<rparr>) now)) (\<lambda>acquired.
          if acquired then
            and_then (on_tasks (transition (task_id t) WaitingDirectoryLock
                                  (reason_payload ''directory_lock_acquired'') now)) (\<lambda>_. ok Acquired)
          else
            and_then (on_tasks (transition (task_id t) WaitingDirectoryLock
                                  (reason_payload ''directory_lock'') now)) (\<lambda>_. ok Waiting))))))"

section \<open>Workspaces\<close>

record prepared_workspace =
  pw_workspace_mode :: workspace_mode
  pw_working_directory :: string
  pw_source_directory_id :: string
  pw_worktree_path :: "string option"
  pw_branch_name :: "string option"

text \<open>\<open>WorkspacePreparer::prepare\<close>; its only error is \<open>PrepareFailed\<close>.\<close>

type_synonym workspace_preparer =
  "string \<Rightarrow> directory_grant \<Rightarrow> workspace_mode \<Rightarrow> prepared_workspace option"

definition failing_workspace_preparer :: workspace_preparer where
  "failing_workspace_preparer tid grant mode = None"

definition fake_workspace_preparer :: "string \<Rightarrow> workspace_preparer" where
  "fake_workspace_preparer root tid grant mode =
     (case mode of
        Direct \<Rightarrow> Some
          \<lparr> pw_workspace_mode = mode, pw_working_directory = dg_path grant,
            pw_source_directory_id = dg_id grant, pw_worktree_path = None, pw_branch_name = None \<rparr>
      | Worktree \<Rightarrow>
          (let path = join root tid in Some
          \<lparr> pw_workspace_mode = mode, pw_working_directory = path,
            pw_source_directory_id = dg_id grant, pw_worktree_path = Some path,
            pw_branch_name = Some (''opendaemon/'' @ tid) \<rparr>))"

section \<open>The life of a task\<close>

definition mark_preparing :: "string \<Rightarrow> string \<Rightarrow> task sched_op" where
  "mark_preparing tid now = on_tasks (transition tid Preparing None now)"

definition error_payload :: "string \<Rightarrow> json option" where
  "error_payload e = Some (Object [(''error'', Str e)])"

definition fail_task :: "string \<Rightarrow> string \<Rightarrow> string \<Rightarrow> task sched_op" where
  "fail_task tid e now = on_tasks (transition tid Failed (error_payload e) now)"

definition prepare_workspace ::
  "workspace_preparer \<Rightarrow> string \<Rightarrow> string \<Rightarrow> prepared_workspace sched_op" where
  "prepare_workspace preparer tid now =
     and_then (on_tasks (get_task tid)) (\<lambda>t.
     and_then (on_grants (get_grant (task_directory_id t))) (\<lambda>grant.
     and_then (if task_status t = WaitingDirectoryLock
               then and_then (mark_preparing tid now) (\<lambda>_. ok ()) else ok ()) (\<lambda>_.
     (case preparer (task_id t) grant (task_workspace_mode t) of
        Some w \<Rightarrow> ok w
      | None \<Rightarrow>
          and_then (fail_task tid ''workspace preparation failed'' now) (\<lambda>_.
          err TvWorkspaceModeNotAllowed)))))"

definition mark_running :: "string \<Rightarrow> string \<Rightarrow> task sched_op" where
  "mark_running tid now = on_tasks (transition tid Running None now)"

definition complete_task :: "string \<Rightarrow> string \<Rightarrow> string \<Rightarrow> task sched_op" where
  "complete_task tid final_message now =
     and_then (on_tasks (transition tid Completed None now)) (\<lambda>t.
     and_then (on_tasks (save_result tid final_message [] now)) (\<lambda>_. ok t))"

definition cancel_task :: "string \<Rightarrow> string \<Rightarrow> task sched_op" where
  "cancel_task tid now =
     and_then (on_tasks (get_task tid)) (\<lambda>t.
     if task_status t = Completed \<or> task_status t = Failed \<or> task_status t = TimedOut
       then err TvTaskAlreadyTerminal
     else on_tasks (cancel tid now))"

definition scheduler_release_locks :: "string \<Rightarrow> string \<Rightarrow> unit sched_op" where
  "scheduler_release_locks tid now = on_tasks (release_locks tid now)"

end
