(* ===== verification/Adapter.thy ===== *)
theory Adapter
  imports Runtime_Model Scheduler
begin

text \<open>
  \<open>src/src/runtime/adapter.rs\<close>, \<open>cli.rs\<close> and \<open>http.rs\<close>: the outcome of an execution, the selection of an
  adapter, and the two adapters that run a command or call a remote endpoint.

  What the operating system and the network do is an argument: \<open>cli_world\<close> says which directories
  exist, what the environment of the daemon holds, whether the prompt file can be written and how a
  spawned command ends; \<open>http_world\<close> lists the workspace and answers the request. The race between
  exit, timeout and cancellation in \<open>wait_for_child\<close> and in the HTTP call is decided there too.
\<close>

section \<open>Outcomes\<close>

datatype runtime_execution_status = ExecCompleted | ExecFailed | ExecCancelled | ExecTimedOut

fun exec_task_status :: "runtime_execution_status \<Rightarrow> task_status" where
  "exec_task_status ExecCompleted = Completed"
| "exec_task_status ExecFailed = Failed"
| "exec_task_status ExecCancelled = Cancelled"
| "exec_task_status ExecTimedOut = TimedOut"

record runtime_output_event =
  oe_kind :: task_event_type
  oe_payload :: json

record runtime_execution_outcome =
  oc_status :: runtime_execution_status
  oc_exit_code :: "int option"
  oc_final_message :: string
  oc_changed_files :: "string list"
  oc_diff :: "string option"
  oc_session_id :: "string option"
  oc_provider_result :: "json option"
  oc_usage :: "json option"
  oc_error :: "adapter_error option"
  oc_events :: "runtime_output_event list"

definition adapter_error_new :: "string \<Rightarrow> string \<Rightarrow> adapter_error" where
  "adapter_error_new code msg = \<lparr> ae_code = code, ae_message = msg \<rparr>"

definition outcome_completed :: "int option \<Rightarrow> runtime_output_event list \<Rightarrow> runtime_execution_outcome" where
  "outcome_completed exit_code events =
     \<lparr> oc_status = ExecCompleted, oc_exit_code = exit_code,
       oc_final_message = ''provider command completed'', oc_changed_files = [], oc_diff = None,
       oc_session_id = None, oc_provider_result = None, oc_usage = None, oc_error = None,
       oc_events = events \<rparr>"

definition outcome_failed ::
  "int option \<Rightarrow> adapter_error \<Rightarrow> runtime_output_event list \<Rightarrow> runtime_execution_outcome" where
  "outcome_failed exit_code e events =
     \<lparr> oc_status = ExecFailed, oc_exit_code = exit_code,
       oc_final_message = ''provider command failed'', oc_changed_files = [], oc_diff = None,
       oc_session_id = None, oc_provider_result = None, oc_usage = None, oc_error = Some e,
       oc_events = events \<rparr>"

definition outcome_timed_out :: "runtime_output_event list \<Rightarrow> runtime_execution_outcome" where
  "outcome_timed_out events =
     \<lparr> oc_status = ExecTimedOut, oc_exit_code = None,
       oc_final_message = ''provider command timed out'', oc_changed_files = [], oc_diff = None,
       oc_session_id = None, oc_provider_result = None, oc_usage = None,
       oc_error = Some (adapter_error_new ''command_timeout'' ''provider command timed out''),
       oc_events = events \<rparr>"

definition outcome_cancelled :: "runtime_output_event list \<Rightarrow> runtime_execution_outcome" where
  "outcome_cancelled events =
     \<lparr> oc_status = ExecCancelled, oc_exit_code = None,
       oc_final_message = ''provider command cancelled'', oc_changed_files = [], oc_diff = None,
       oc_session_id = None, oc_provider_result = None, oc_usage = None,
       oc_error = Some (adapter_error_new ''command_cancelled'' ''provider command was cancelled''),
       oc_events = events \<rparr>"

record runtime_cancel_outcome =
  co_cancelled :: bool
  co_error :: "adapter_error option"

record runtime_execution_request =
  xr_task_id :: string
  xr_provider_id :: string
  xr_runtime_id :: string
  xr_executable :: string
  xr_manifest :: provider_manifest
  xr_agent_profile :: agent_profile
  xr_directory_grant :: directory_grant
  xr_task :: task
  xr_workspace :: prepared_workspace
  xr_timeout_seconds :: nat
  xr_allow_agent_custom_env :: bool

datatype selected_adapter = CliAdapter | AcpAdapter | HttpAdapter

definition for_manifest :: "provider_manifest \<Rightarrow> adapter_error + selected_adapter" where
  "for_manifest m =
     (case pm_integration_type m of
        IntegrationCli \<Rightarrow> Inr CliAdapter
      | IntegrationAcp \<Rightarrow> Inr AcpAdapter
      | IntegrationHttp \<Rightarrow> Inr HttpAdapter
      | IntegrationNative \<Rightarrow>
          Inl (adapter_error_new ''adapter_not_implemented'' ''provider adapter is not implemented''))"

section \<open>Text of process output\<close>

text \<open>
  \<open>String::from_utf8_lossy\<close>: valid UTF-8 is kept; a maximal prefix of an ill-formed sequence becomes
  U+FFFD. \<open>utf8_step\<close> takes the first chunk off a non-empty byte string and gives the bytes it
  contributes and how many bytes it consumes.
\<close>

definition byte :: "char \<Rightarrow> nat" where
  "byte c = of_char c"

definition cont :: "nat \<Rightarrow> nat \<Rightarrow> string \<Rightarrow> nat \<Rightarrow> bool" where
  "cont lo hi s i = (i < length s \<and> lo \<le> byte (s ! i) \<and> byte (s ! i) \<le> hi)"

definition replacement :: string where
  "replacement = [CHR 0xEF, CHR 0xBF, CHR 0xBD]"

definition second_range :: "nat \<Rightarrow> nat \<times> nat" where
  "second_range b = (if b = 0xE0 then (0xA0, 0xBF) else if b = 0xED then (0x80, 0x9F)
     else if b = 0xF0 then (0x90, 0xBF) else if b = 0xF4 then (0x80, 0x8F) else (0x80, 0xBF))"

definition utf8_width :: "nat \<Rightarrow> nat" where
  "utf8_width b = (if b < 0x80 then 1 else if 0xC2 \<le> b \<and> b \<le> 0xDF then 2
     else if 0xE0 \<le> b \<and> b \<le> 0xEF then 3 else if 0xF0 \<le> b \<and> b \<le> 0xF4 then 4 else 0)"

definition utf8_step :: "string \<Rightarrow> string \<times> nat" where
  "utf8_step s =
     (let b = byte (hd s); w = utf8_width b; (lo, hi) = second_range b in
      if w = 1 then (take 1 s, 1)
      else if w = 0 \<or> \<not> cont lo hi s 1 then (replacement, 1)
      else if w = 2 then (take 2 s, 2)
      else if \<not> cont 0x80 0xBF s 2 then (replacement, 2)
      else if w = 3 then (take 3 s, 3)
      else if \<not> cont 0x80 0xBF s 3 then (replacement, 3)
      else (take 4 s, 4))"

lemma utf8_step_progress: "snd (utf8_step s) \<ge> 1"
  by (auto simp: utf8_step_def Let_def split: prod.splits)

function from_utf8_lossy :: "string \<Rightarrow> string" where
  "from_utf8_lossy s =
     (if s = [] then [] else (case utf8_step s of (out, n) \<Rightarrow> out @ from_utf8_lossy (drop n s)))"
  by pat_completeness auto
termination
proof (relation "measure length")
  fix s out :: string and n
  assume "s \<noteq> []" and "(out, n) = utf8_step s"
  then have "1 \<le> n" using utf8_step_progress [of s] by (metis snd_conv)
  with \<open>s \<noteq> []\<close> show "(drop n s, s) \<in> measure length" by simp
qed simp

declare from_utf8_lossy.simps [simp del]

definition MAX_EVENT_BYTES :: nat where
  "MAX_EVENT_BYTES = 64 * 1024"

definition capped_text :: "string \<Rightarrow> string" where
  "capped_text bytes = from_utf8_lossy (take (min (length bytes) MAX_EVENT_BYTES) bytes)"

definition stream_event :: "task_event_type \<Rightarrow> string \<Rightarrow> string \<Rightarrow> runtime_output_event" where
  "stream_event kind bytes stream =
     \<lparr> oe_kind = kind,
       oe_payload = Object [(''text'', Str (capped_text bytes)), (''stream'', Str stream)] \<rparr>"

definition output_events :: "string \<Rightarrow> string \<Rightarrow> runtime_output_event list" where
  "output_events out errs =
     (if out \<noteq> [] then [stream_event ProcessStdout out ''stdout''] else []) @
     (if errs \<noteq> [] then [stream_event ProcessStderr errs ''stderr''] else [])"

section \<open>The command line adapter\<close>

record exit_status =
  es_success :: bool
  es_code :: "int option"
  es_display :: string

datatype child_wait = Exited exit_status | ChildTimedOut | ChildCancelled | WaitFailed string

record spawned_command =
  sp_executable :: string
  sp_args :: "string list"
  sp_current_dir :: string
  sp_stdin :: "string option"
  sp_env :: "(string \<times> string) list"
  sp_timeout_seconds :: nat
  sp_cancel_signal :: cancel_signal

record cli_world =
  cw_is_dir :: "string \<Rightarrow> bool"
  cw_var :: "string \<Rightarrow> string option"
  cw_write_prompt :: "string \<Rightarrow> string \<Rightarrow> string + string"
  cw_run :: "spawned_command \<Rightarrow> string + (child_wait \<times> string \<times> string)"

definition DEFAULT_EXECUTION_TIMEOUT :: nat where
  "DEFAULT_EXECUTION_TIMEOUT = 300"

definition env_set :: "(string \<Rightarrow> string option) \<Rightarrow> string \<Rightarrow> (string \<times> string) list \<Rightarrow> (string \<times> string) list" where
  "env_set var key env = (case var key of Some v \<Rightarrow> AList.update key v env | None \<Rightarrow> env)"

definition manifest_env_keys :: "provider_manifest \<Rightarrow> string list" where
  "manifest_env_keys m = en_required (pm_environment m) @ en_optional (pm_environment m)"

text \<open>\<open>apply_minimal_environment\<close> after \<open>env_clear\<close>, on Unix.\<close>

definition minimal_environment ::
  "(string \<Rightarrow> string option) \<Rightarrow> runtime_execution_request \<Rightarrow> (string \<times> string) list" where
  "minimal_environment var r =
     (let env = env_set var ''PATH'' [];
          env = fold AList.delete (manifest_env_keys (xr_manifest r)) env
      in if xr_allow_agent_custom_env r then
           fold AList.delete (manifest_env_keys (xr_manifest r))
             (fold (env_set var) (cf_custom_env_keys (ap_provider_config (xr_agent_profile r))) env)
         else env)"

definition template_values_of :: "runtime_execution_request \<Rightarrow> string \<Rightarrow> template_values" where
  "template_values_of r prompt =
     \<lparr> tv_prompt = Some prompt, tv_model = Some (ap_model (xr_agent_profile r)),
       tv_workspace = Some (pw_working_directory (xr_workspace r)),
       tv_task_id = Some (xr_task_id r), tv_agent_id = Some (ap_id (xr_agent_profile r)),
       tv_directory_id = Some (dg_id (xr_directory_grant r)) \<rparr>"

definition cli_prompt_value :: "cli_world \<Rightarrow> runtime_execution_request \<Rightarrow> string + string" where
  "cli_prompt_value w r =
     (case ex_input_mode (pm_execution (xr_manifest r)) of
        InputTempFile \<Rightarrow> cw_write_prompt w (xr_task_id r) (task_prompt (xr_task r))
      | _ \<Rightarrow> Inr (task_prompt (xr_task r)))"

definition cli_command ::
  "cli_world \<Rightarrow> runtime_execution_request \<Rightarrow> string list \<Rightarrow> spawned_command" where
  "cli_command w r args =
     \<lparr> sp_executable = xr_executable r,
       sp_args = args @ cf_custom_args (ap_provider_config (xr_agent_profile r)),
       sp_current_dir = pw_working_directory (xr_workspace r),
       sp_stdin = (if ex_input_mode (pm_execution (xr_manifest r)) = InputStdin
                   then Some (task_prompt (xr_task r)) else None),
       sp_env = minimal_environment (cw_var w) r,
       sp_timeout_seconds = (if xr_timeout_seconds r = 0 then DEFAULT_EXECUTION_TIMEOUT
                             else xr_timeout_seconds r),
       sp_cancel_signal = ex_cancel_signal (pm_execution (xr_manifest r)) \<rparr>"

definition outcome_of_wait :: "child_wait \<Rightarrow> runtime_output_event list \<Rightarrow> runtime_execution_outcome" where
  "outcome_of_wait wt events =
     (case wt of
        Exited st \<Rightarrow>
          if es_success st then outcome_completed (es_code st) events
          else outcome_failed (es_code st)
            (adapter_error_new ''adapter_execution_failed''
               (''provider command exited with status '' @ es_display st)) events
      | ChildTimedOut \<Rightarrow> outcome_timed_out events
      | ChildCancelled \<Rightarrow> outcome_cancelled events
      | WaitFailed e \<Rightarrow> outcome_failed None
          (adapter_error_new ''adapter_execution_failed''
             (''failed to wait for provider command: '' @ e)) events)"

text \<open>
  \<open>execute_inner\<close>. The table of cancellation senders has the entry of the task only while the command
  runs, so a completed call leaves it as it was without that entry.
\<close>

definition cli_execute :: "cli_world \<Rightarrow> runtime_execution_request \<Rightarrow> runtime_execution_outcome" where
  "cli_execute w r =
     (if \<not> cw_is_dir w (pw_working_directory (xr_workspace r)) then
        outcome_failed None (adapter_error_new ''working_directory_missing''
          ''prepared working directory does not exist'') []
      else
        (case cli_prompt_value w r of
           Inl e \<Rightarrow> outcome_failed None (adapter_error_new ''adapter_execution_failed''
                      (''failed to write prompt file: '' @ e)) []
         | Inr prompt \<Rightarrow>
             (case render_args (ex_args (pm_execution (xr_manifest r))) (template_values_of r prompt) of
                Inl e \<Rightarrow> outcome_failed None e []
              | Inr args \<Rightarrow>
                  (case cw_run w (cli_command w r args) of
                     Inl e \<Rightarrow> outcome_failed None (adapter_error_new ''command_spawn_failed''
                                (''failed to spawn provider command: '' @ e)) []
                   | Inr (wt, out, errs) \<Rightarrow> outcome_of_wait wt (output_events out errs)))))"

type_synonym cancellations = "string list"

text \<open>The senders that are registered; sending succeeds while the receiver waits.\<close>

definition adapter_cancel :: "string \<Rightarrow> string \<Rightarrow> bool \<Rightarrow> string \<Rightarrow> cancellations \<Rightarrow>
    runtime_cancel_outcome \<times> cancellations" where
  "adapter_cancel code msg receiver_alive tid cs =
     (if tid \<in> set cs then (\<lparr> co_cancelled = receiver_alive, co_error = None \<rparr>, removeAll tid cs)
      else (\<lparr> co_cancelled = False, co_error = Some (adapter_error_new code msg) \<rparr>, cs))"

definition cli_cancel :: "bool \<Rightarrow> string \<Rightarrow> cancellations \<Rightarrow> runtime_cancel_outcome \<times> cancellations" where
  "cli_cancel = adapter_cancel ''command_cancelled'' ''no running provider command for task''"

section \<open>The HTTP adapter\<close>

record workspace_entry =
  we_is_file :: bool
  we_file_name :: string
  we_contents :: "string + string"

datatype http_reply =
    ReplyCancelled
  | ReplySendFailed string
  | ReplyStatusFailed string
  | ReplyNotJson string
  | ReplyJson json

record http_world =
  hw_read_dir :: "string \<Rightarrow> string + workspace_entry list"
  hw_post :: "string \<Rightarrow> bool \<Rightarrow> json \<Rightarrow> http_reply"

definition json_nat :: "nat \<Rightarrow> json" where
  "json_nat n = Number (PosInt (of_nat n))"

fun package_files :: "workspace_entry list \<Rightarrow> json list \<Rightarrow> nat \<Rightarrow> adapter_error + (json list \<times> nat)" where
  "package_files [] files bytes = Inr (files, bytes)"
| "package_files (e # es) files bytes =
     (if \<not> we_is_file e then package_files es files bytes
      else (case we_contents e of
              Inl msg \<Rightarrow> Inl (adapter_error_new ''http_request_failed''
                           (''failed to read workspace file: '' @ msg))
            | Inr contents \<Rightarrow>
                package_files es (files @ [Object [(''path'', Str (we_file_name e)), (''content'', Str contents)]])
                  (bytes + length contents)))"

definition build_workspace_package ::
  "http_world \<Rightarrow> runtime_execution_request \<Rightarrow> adapter_error + (json \<times> nat \<times> nat)" where
  "build_workspace_package w r =
     (case hw_read_dir w (pw_working_directory (xr_workspace r)) of
        Inl e \<Rightarrow> Inl (adapter_error_new ''http_request_failed''
                   (''failed to read workspace for upload: '' @ e))
      | Inr entries \<Rightarrow>
          r_then (package_files entries [] 0) (\<lambda>(files, bytes). Inr
            (Object [(''source_directory_id'', Str (pw_source_directory_id (xr_workspace r))),
                     (''upload_mode'', Str ''workspace_subset''),
                     (''files'', Array files), (''byte_count'', json_nat bytes)],
             length files, bytes)))"

definition http_payload :: "runtime_execution_request \<Rightarrow> json \<Rightarrow> json" where
  "http_payload r package = Object
     [(''task'', Object [(''id'', Str (task_id (xr_task r))), (''prompt'', Str (task_prompt (xr_task r))),
                         (''model'', Str (ap_model (xr_agent_profile r)))]),
      (''runtime'', Object [(''id'', Str (xr_runtime_id r)), (''provider_id'', Str (xr_provider_id r))]),
      (''workspace'', package), (''opendaemon_auth'', Null)]"

fun upload_mode_str :: "http_upload_mode \<Rightarrow> string" where
  "upload_mode_str WorkspaceSubset = ''workspace_subset''"
| "upload_mode_str UploadDiff = ''diff''"
| "upload_mode_str ContextOnly = ''context_only''"

definition http_success ::
  "runtime_execution_request \<Rightarrow> http_config \<Rightarrow> nat \<Rightarrow> nat \<Rightarrow> json \<Rightarrow> runtime_execution_outcome" where
  "http_success r http file_count byte_count result =
     (outcome_completed (Some 0)
        [\<lparr> oe_kind = ProcessStdout, oe_payload = Object [(''text'', Str ''remote provider completed'')] \<rparr>])
     \<lparr> oc_final_message := unwrap_or (as_str (json_index result ''final_message'')) ''remote provider completed'',
       oc_provider_result := Some (Object
         [(''provider_response'', result),
          (''remote_upload'', Object
             [(''provider_id'', Str (xr_provider_id r)), (''runtime_id'', Str (xr_runtime_id r)),
              (''endpoint_origin'', Str (ht_endpoint http)),
              (''upload_mode'', Str (upload_mode_str (ht_upload_mode http))),
              (''file_count'', json_nat file_count), (''byte_count'', json_nat byte_count)])]) \<rparr>"

definition http_execute :: "http_world \<Rightarrow> runtime_execution_request \<Rightarrow> runtime_execution_outcome" where
  "http_execute w r =
     (case pm_http (xr_manifest r) of
        None \<Rightarrow> outcome_failed None (adapter_error_new ''http_invalid_configuration''
                  ''provider http configuration is missing'') []
      | Some http \<Rightarrow>
          (case build_workspace_package w r of
             Inl e \<Rightarrow> outcome_failed None e []
           | Inr (package, file_count, byte_count) \<Rightarrow>
               (case hw_post w (ht_endpoint http) (ht_auth_scheme http = AuthBearer) (http_payload r package) of
                  ReplyCancelled \<Rightarrow> outcome_cancelled []
                | ReplySendFailed e \<Rightarrow> outcome_failed None (adapter_error_new ''http_request_failed''
                    (''http provider request failed: '' @ e)) []
                | ReplyStatusFailed e \<Rightarrow> outcome_failed None (adapter_error_new ''http_request_failed''
                    (''http provider response failed: '' @ e)) []
                | ReplyNotJson e \<Rightarrow> outcome_failed None (adapter_error_new ''http_protocol_error''
                    (''invalid http provider response: '' @ e)) []
                | ReplyJson result \<Rightarrow> http_success r http file_count byte_count result)))"

definition http_cancel :: "bool \<Rightarrow> string \<Rightarrow> cancellations \<Rightarrow> runtime_cancel_outcome \<times> cancellations" where
  "http_cancel = adapter_cancel ''http_cancel_not_supported'' ''no running remote http task for cancellation''"

section \<open>Lemmas\<close>

text \<open>What the scheduler needs of an outcome: its events are output, and only failures carry an error.\<close>

definition outcome_ok :: "runtime_execution_outcome \<Rightarrow> bool" where
  "outcome_ok oc \<longleftrightarrow>
     (\<forall>e \<in> set (oc_events oc). oe_kind e = ProcessStdout \<or> oe_kind e = ProcessStderr) \<and>
     (oc_status oc = ExecCompleted \<longleftrightarrow> oc_error oc = None)"

lemma outcome_ok_simps [simp]:
  "outcome_ok (outcome_completed c es) \<longleftrightarrow> (\<forall>e \<in> set es. oe_kind e = ProcessStdout \<or> oe_kind e = ProcessStderr)"
  "outcome_ok (outcome_failed c x es) \<longleftrightarrow> (\<forall>e \<in> set es. oe_kind e = ProcessStdout \<or> oe_kind e = ProcessStderr)"
  "outcome_ok (outcome_timed_out es) \<longleftrightarrow> (\<forall>e \<in> set es. oe_kind e = ProcessStdout \<or> oe_kind e = ProcessStderr)"
  "outcome_ok (outcome_cancelled es) \<longleftrightarrow> (\<forall>e \<in> set es. oe_kind e = ProcessStdout \<or> oe_kind e = ProcessStderr)"
  by (simp_all add: outcome_ok_def outcome_completed_def outcome_failed_def outcome_timed_out_def
      outcome_cancelled_def)

lemma output_events_kinds: "e \<in> set (output_events a b) \<Longrightarrow> oe_kind e = ProcessStdout \<or> oe_kind e = ProcessStderr"
  by (auto simp: output_events_def stream_event_def split: if_splits)

lemma cli_execute_ok: "outcome_ok (cli_execute w r)"
  by (auto simp: cli_execute_def outcome_of_wait_def dest: output_events_kinds
      split: sum.splits child_wait.splits prod.splits)

lemma http_execute_ok: "outcome_ok (http_execute w r)"
  by (auto simp: http_execute_def http_success_def outcome_completed_def
      split: option.splits sum.splits prod.splits http_reply.splits)
    (auto simp: outcome_ok_def)

lemma env_set_dom: "fst ` set (env_set var k env) \<subseteq> insert k (fst ` set env)"
proof -
  have "fst ` set (AList.update k v env) \<subseteq> insert k (fst ` set env)" for v
    by (induction env) auto
  then show ?thesis by (auto simp: env_set_def split: option.splits)
qed

lemma env_fold_set_dom: "fst ` set (fold (env_set var) ks env) \<subseteq> set ks \<union> fst ` set env"
proof (induction ks arbitrary: env)
  case (Cons k ks)
  show ?case using Cons.IH [of "env_set var k env"] env_set_dom [of var k env] by auto
qed simp

lemma env_fold_delete_dom: "fst ` set (fold AList.delete ks env) = fst ` set env - set ks"
proof (induction ks arbitrary: env)
  case (Cons k ks)
  have "fst ` set (AList.delete k env) = fst ` set env - {k}" by (auto simp: AList.delete_eq)
  with Cons show ?case by auto
qed simp

lemma minimal_environment_dom:
  "fst ` set (minimal_environment var r) \<subseteq>
     (insert ''PATH'' (if xr_allow_agent_custom_env r
        then set (cf_custom_env_keys (ap_provider_config (xr_agent_profile r))) else {})) -
     set (manifest_env_keys (xr_manifest r))"
proof -
  let ?ks = "cf_custom_env_keys (ap_provider_config (xr_agent_profile r))"
  let ?env = "fold AList.delete (manifest_env_keys (xr_manifest r)) (env_set var ''PATH'' [])"
  have "fst ` set ?env \<subseteq> {''PATH''} - set (manifest_env_keys (xr_manifest r))"
    using env_set_dom [of var "''PATH''" "[]"] by (auto simp: env_fold_delete_dom)
  moreover have "fst ` set (fold (env_set var) ?ks ?env) \<subseteq> set ?ks \<union> fst ` set ?env"
    by (rule env_fold_set_dom)
  ultimately have "fst ` set (fold (env_set var) ?ks ?env) \<subseteq> insert ''PATH'' (set ?ks)"
    by blast
  then show ?thesis
    using \<open>fst ` set ?env \<subseteq> {''PATH''} - set (manifest_env_keys (xr_manifest r))\<close>
    unfolding minimal_environment_def Let_def
    by (cases "xr_allow_agent_custom_env r")
       (simp_all only: if_True if_False env_fold_delete_dom Diff_mono order_refl)
qed

lemma from_utf8_lossy_length: "length (from_utf8_lossy s) \<le> 3 * length s"
proof (induction s rule: from_utf8_lossy.induct)
  case (1 s)
  show ?case
  proof (cases "s = []")
    case True
    then show ?thesis by (simp add: from_utf8_lossy.simps)
  next
    case False
    obtain out n where st: "utf8_step s = (out, n)" by (cases "utf8_step s")
    with False have "1 \<le> length s" by (cases s) auto
    with st have "length out \<le> 3 * n \<and> n \<le> length s"
      using False
      by (auto simp: utf8_step_def Let_def replacement_def cont_def split: prod.splits if_splits)
    with 1 [OF False st [symmetric]] False st show ?thesis
      by (subst from_utf8_lossy.simps) (auto simp: algebra_simps)
  qed
qed

lemma from_utf8_lossy_ascii: "list_all (\<lambda>c. byte c < 128) s \<Longrightarrow> from_utf8_lossy s = s"
proof (induction s)
  case (Cons c s)
  then have "utf8_step (c # s) = ([c], 1)"
    by (simp add: utf8_step_def Let_def utf8_width_def split: prod.splits)
  with Cons show ?case by (subst from_utf8_lossy.simps) simp
qed (simp add: from_utf8_lossy.simps)

end
