(* ===== verification/Scheduler_Props.thy ===== *)
theory Scheduler_Props
  imports Scheduler Task_History Directory_Properties
begin

text \<open>
  The scheduler operations rewritten to their results, the invariant of the three stores they work on,
  and the number of running tasks.
\<close>

definition stores_inv :: "stores \<Rightarrow> bool" where
  "stores_inv s \<longleftrightarrow> task_db_inv (st_tasks s) \<and> agents_inv (st_agents s) \<and> grants_inv (st_grants s)"

section \<open>Lifted operations\<close>

lemma on_tasks_eq:
  "on_tasks m s =
    (case m (st_tasks s) of (r, d) \<Rightarrow> (r_map_err from_task_store_error r, s\<lparr>st_tasks := d\<rparr>))"
  by (auto simp: on_tasks_def map_err_def zoom_def r_map_err_def split: prod.splits sum.splits)

lemma on_tasks_get [simp]:
  "on_tasks (get_task tid) s =
    (case find_task tid (st_tasks s) of None \<Rightarrow> Inl TvTaskNotFound | Some t \<Rightarrow> Inr t, s)"
  by (simp add: on_tasks_eq get_task_eq r_map_err_def ok_or_def split: option.splits)

lemma on_grants_get [simp]:
  "on_grants (get_grant gid) s =
    (case find_grant gid (st_grants s) of None \<Rightarrow> Inl TvDirectoryNotFound | Some g \<Rightarrow> Inr g, s)"
  by (simp add: on_grants_def op_simps get_grant_def split: option.splits)

lemma on_agents_get [simp]:
  "on_agents (get_agent aid) s =
    (case find_agent aid (st_agents s) of None \<Rightarrow> Inl TvAgentNotFound | Some a \<Rightarrow> Inr a, s)"
  by (simp add: on_agents_def op_simps get_agent_def split: option.splits)

lemma on_grants_authorize:
  "on_grants (authorize_grant r) s =
    (r_map_err map_directory_error (fst (authorize_grant r (st_grants s))), s)"
  by (auto simp: on_grants_def op_simps authorize_grant_eq split: option.splits sum.splits)

lemma keeps_on_tasks: "keeps task_db_inv m \<Longrightarrow> keeps stores_inv (on_tasks m)"
  unfolding on_tasks_def by (rule keeps_map_err, rule keeps_zoom) (simp_all add: stores_inv_def)

lemma keeps_on_reads [simp]:
  "keeps P (on_tasks (get_task tid))" "keeps P (on_grants (get_grant gid))"
  "keeps P (on_agents (get_agent aid))" "keeps P (on_grants (authorize_grant r))"
  by (rule keepsI, simp add: on_grants_authorize)+

section \<open>Admission\<close>

definition admitted_input :: "create_task \<Rightarrow> workspace_mode \<Rightarrow> agent_profile \<Rightarrow> create_task" where
  "admitted_input input mode a = input\<lparr> ct_workspace_mode := Some mode,
     ct_provider_id := Some (ap_provider_id a), ct_model := Some (ap_model a),
     ct_permission_mode := Some (cf_permission_mode (ap_provider_config a)) \<rparr>"

definition auth_request :: "create_task \<Rightarrow> workspace_mode \<Rightarrow> directory_authorization_request" where
  "auth_request input mode =
     \<lparr> ar_product_id = ct_owner_product_id input, ar_agent_id = ct_agent_id input,
       ar_directory_id = ct_directory_id input, ar_required_capabilities = required_capabilities input,
       ar_requested_workspace_mode = mode,
       ar_direct_mode_task_opt_in = ct_direct_mode_task_opt_in input,
       ar_remote_execution = approved_by_scope (ct_metadata input) \<rparr>"

definition overrides_ok :: "create_task \<Rightarrow> agent_profile \<Rightarrow> bool" where
  "overrides_ok input a \<longleftrightarrow> ct_provider_id input \<in> {None, Some (ap_provider_id a)} \<and>
     ct_model input \<in> {None, Some (ap_model a)} \<and>
     ct_permission_mode input \<in> {None, Some (cf_permission_mode (ap_provider_config a))}"

lemma map_override_error_Inr:
  "map_override_error r v k = Inr u \<longleftrightarrow> r \<in> {None, Some v}"
  by (cases r) (auto simp: map_override_error_def is_some_and_def)

lemma select_workspace_mode_Inr:
  "select_workspace_mode r g opt = Inr m \<longleftrightarrow> m = unwrap_or r (dg_default_workspace_mode g) \<and>
     m \<in> set (dg_workspace_modes g) \<and>
     \<not> (m = Direct \<and> dg_direct_mode_requires_explicit_task_opt_in g \<and> \<not> opt)"
  by (auto simp: select_workspace_mode_def Let_def)

lemma validate_admitted [simp]: "create_task_validate (admitted_input input mode a) = create_task_validate input"
  by (simp add: create_task_validate_def admitted_input_def required_capabilities_def)

text \<open>Everything \<open>enqueue_task\<close> asks for before it stores the task.\<close>

definition admissible :: "create_task \<Rightarrow> workspace_mode \<Rightarrow> directory_grant \<Rightarrow> agent_profile \<Rightarrow> stores \<Rightarrow> bool" where
  "admissible input mode g a s \<longleftrightarrow>
     create_task_validate input = Inr () \<and>
     find_grant (ct_directory_id input) (st_grants s) = Some g \<and>
     find_agent (ct_agent_id input) (st_agents s) = Some a \<and>
     select_workspace_mode (ct_workspace_mode input) g (ct_direct_mode_task_opt_in input) = Inr mode \<and>
     ap_owner_product_id a = ct_owner_product_id input \<and> overrides_ok input a \<and>
     (mode = Direct \<longrightarrow> ep_allow_direct_directory (ap_execution_policy a)) \<and>
     grant_authorize g (auth_request input mode) = Inr ()"

lemma authorize_found:
  "fst (authorize_grant r t) = Inr g \<longleftrightarrow>
     find_grant (ar_directory_id r) t = Some g \<and> grant_authorize g r = Inr ()"
  by (auto simp: authorize_grant_eq split: option.splits sum.splits)

lemma enqueue_admissible:
  assumes adm: "admissible input mode g a s"
  shows "enqueue_task input now s = on_tasks (create (admitted_input input mode a) now) s"
proof -
  have auth: "fst (authorize_grant (auth_request input mode) (st_grants s)) = Inr g"
    using adm by (simp add: admissible_def authorize_found auth_request_def)
  have caps: "\<not> list_ex (\<lambda>c. c \<notin> set (dg_capabilities g)) (required_capabilities input)"
    using adm by (auto simp: admissible_def grant_authorize_Inr auth_request_def list_ex_iff)
  have ov: "map_override_error (ct_provider_id input) (ap_provider_id a) OverrideProvider = Inr ()"
    "map_override_error (ct_model input) (ap_model a) OverrideModel = Inr ()"
    "map_override_error (ct_permission_mode input) (cf_permission_mode (ap_provider_config a)) OverridePermissionMode = Inr ()"
    using adm by (simp_all add: admissible_def overrides_ok_def map_override_error_Inr)
  show ?thesis
    using adm caps ov auth
    by (auto simp: enqueue_task_def admissible_def and_then_def lift_r_def r_map_err_def
        on_grants_authorize auth_request_def admitted_input_def)
qed

lemma enqueue_cases:
  obtains e where "enqueue_task input now s = (Inl e, s)" and "\<And>mode g a. \<not> admissible input mode g a s"
  | mode g a where "admissible input mode g a s"
      "enqueue_task input now s = on_tasks (create (admitted_input input mode a) now) s"
proof (cases "\<exists>mode g a. admissible input mode g a s")
  case True
  then show ?thesis using that(2) enqueue_admissible by blast
next
  case False
  have "\<exists>e. enqueue_task input now s = (Inl e, s)"
  proof (cases "create_task_validate input")
    case (Inl e)
    then show ?thesis by (simp add: enqueue_task_def and_then_def lift_r_def r_map_err_def)
  next
    case valid: (Inr u)
    show ?thesis
    proof (cases "find_grant (ct_directory_id input) (st_grants s)")
      case None
      with valid show ?thesis by (simp add: enqueue_task_def and_then_def lift_r_def r_map_err_def)
    next
      case g: (Some g)
      show ?thesis
      proof (cases "select_workspace_mode (ct_workspace_mode input) g (ct_direct_mode_task_opt_in input)")
        case (Inl e)
        with valid g show ?thesis by (simp add: enqueue_task_def and_then_def lift_r_def r_map_err_def)
      next
        case mode: (Inr mode)
        show ?thesis
        proof (cases "find_agent (ct_agent_id input) (st_agents s)")
          case None
          with valid g mode show ?thesis by (simp add: enqueue_task_def and_then_def lift_r_def r_map_err_def)
        next
          case a: (Some a)
          have "\<not> admissible input mode g a s" using False by blast
          with valid g mode a show ?thesis
            by (auto simp: enqueue_task_def admissible_def and_then_def lift_r_def r_map_err_def err_def
                on_grants_authorize authorize_grant_eq auth_request_def overrides_ok_def
                map_override_error_def is_some_and_def split: option.splits sum.splits if_splits)
        qed
      qed
    qed
  qed
  then show ?thesis using that(1) False by blast
qed

lemma keeps_enqueue: "keeps stores_inv (enqueue_task input now)"
proof
  fix s
  assume "stores_inv s"
  then show "stores_inv (snd (enqueue_task input now s))"
    using keeps_snd [OF keeps_on_tasks [OF keeps_create]]
    by (cases rule: enqueue_cases [of input now s]) simp_all
qed

lemma enqueue_effect:
  assumes inv: "task_db_inv (st_tasks s)" and adm: "admissible input mode g a s"
    and tid: "tid = task_row_id (Suc (length (db_tasks (st_tasks s))))"
    and t: "t = new_task (admitted_input input mode a) tid now"
  shows "enqueue_task input now s = (Inr t, s\<lparr>st_tasks := log_event tid EvQueued empty_object now
      ((st_tasks s)\<lparr>db_tasks := db_tasks (st_tasks s) @ [t]\<rparr>)\<rparr>)"
proof -
  have wf: "tasks_wf (st_tasks s)" "events_wf (st_tasks s)" using inv by (simp_all add: task_db_inv_def)
  have valid: "create_task_validate (admitted_input input mode a) = Inr ()" using adm by (simp add: admissible_def)
  from create_effect [OF wf valid tid, of now] show ?thesis
    by (simp add: enqueue_admissible [OF adm] on_tasks_eq r_map_err_def t)
qed

end
