(* ===== verification/Execution.thy ===== *)
theory Execution
  imports Adapter Scheduler_Props
begin

text \<open>
  \<open>src/src/scheduler/execution.rs\<close>: the execution of one task. The service reads the task, its agent
  profile and its grant, looks the provider up in the registry and in the table of detected runtimes,
  takes the directory lock, prepares the workspace, runs the adapter and persists what it returns.

  \<open>start_task\<close> is the part of \<open>execute_task\<close> before the adapter is awaited. During the await other
  requests use the same stores; \<open>xw_adapter\<close> therefore maps the stores before the await to the stores
  after it, beside the outcome. All calls before the await carry the time \<open>now\<close>, all calls after it
  the time \<open>later\<close>.
\<close>

datatype execution_error =
    ExRuntimeUnavailable
  | ExAdapter adapter_error
  | ExTask task_validation_error
  | ExRegistry string
  | ExStore string

record exec_world =
  xw_is_file :: "string \<Rightarrow> bool"
  xw_providers_dir :: string
  xw_listing :: "string + registry_dir_entry list"
  xw_runtimes :: runtime_store
  xw_preparer :: workspace_preparer
  xw_adapter :: "selected_adapter \<Rightarrow> runtime_execution_request \<Rightarrow> stores \<Rightarrow> runtime_execution_outcome \<times> stores"

type_synonym 'a exec_op = "(stores, execution_error, 'a) op"

definition DEFAULT_TASK_TIMEOUT_SECONDS :: nat where
  "DEFAULT_TASK_TIMEOUT_SECONDS = 300"

definition runtime_available :: "runtime_view \<Rightarrow> integration_type \<Rightarrow> bool" where
  "runtime_available r ty =
     (rv_status r = RuntimeAvailable \<and>
      (case ty of
         IntegrationCli \<Rightarrow> rv_kind r = LocalCli \<and> rv_executable r \<noteq> None
       | IntegrationAcp \<Rightarrow> rv_kind r = LocalAcp \<and> rv_executable r \<noteq> None
       | IntegrationHttp \<Rightarrow> rv_kind r = RemoteHttp
       | IntegrationNative \<Rightarrow> False))"

text \<open>
  Both maps put the \<open>Debug\<close> text of the error into a store error, whatever the error was. The texts
  are those of the derived instances, with the variant names of the enums.
\<close>

fun debug_profile_error :: "agent_profile_error \<Rightarrow> string" where
  "debug_profile_error ProfileNotFound = ''AgentNotFound''"
| "debug_profile_error InvalidAgentId = ''InvalidAgentId''"
| "debug_profile_error InvalidAgentProfile = ''InvalidAgentProfile''"
| "debug_profile_error InvalidExecutionPolicy = ''InvalidExecutionPolicy''"
| "debug_profile_error InvalidProviderConfig = ''InvalidProviderConfig''"
| "debug_profile_error ProviderNotFound = ''ProviderNotFound''"
| "debug_profile_error ModelNotSupported = ''ModelNotSupported''"
| "debug_profile_error PermissionModeNotSupported = ''PermissionModeNotSupported''"
| "debug_profile_error ProfileAuthorizationFailed = ''AgentAuthorizationFailed''"

fun debug_agent_store :: "agent_store_error \<Rightarrow> string" where
  "debug_agent_store (AsProfile e) = ''Profile('' @ debug_profile_error e @ '')''"
| "debug_agent_store (AsStore e) = ''Store('' @ e @ '')''"

fun debug_path_error :: "path_guard_error \<Rightarrow> string" where
  "debug_path_error InvalidDirectoryPath = ''InvalidDirectoryPath''"
| "debug_path_error PathNotDirectory = ''PathNotDirectory''"
| "debug_path_error PathOutsideGrant = ''PathOutsideGrant''"
| "debug_path_error SymlinkEscape = ''SymlinkEscape''"

fun debug_security_error :: "directory_security_error \<Rightarrow> string" where
  "debug_security_error InvalidCapability = ''InvalidCapability''"
| "debug_security_error InvalidWorkspaceMode = ''InvalidWorkspaceMode''"
| "debug_security_error InvalidLockPolicy = ''InvalidLockPolicy''"
| "debug_security_error DirectModeDenied = ''DirectModeNotAllowed''"
| "debug_security_error AuthorizationFailed = ''AuthorizationFailed''"

text \<open>\<open>DsPanic\<close> is the panic of \<open>create\<close>; \<open>get\<close> never returns it.\<close>

fun debug_directory_store :: "directory_store_error \<Rightarrow> string" where
  "debug_directory_store DsNotFound = ''NotFound''"
| "debug_directory_store (DsPath e) = ''Path('' @ debug_path_error e @ '')''"
| "debug_directory_store (DsSecurity e) = ''Security('' @ debug_security_error e @ '')''"
| "debug_directory_store (DsStore e) = ''Store('' @ e @ '')''"
| "debug_directory_store (DsPanic e) = e"

definition map_agent_store :: "agent_store_error \<Rightarrow> execution_error" where
  "map_agent_store e = ExTask (from_task_store_error (TsStore (debug_agent_store e)))"

definition map_directory_store :: "directory_store_error \<Rightarrow> execution_error" where
  "map_directory_store e = ExTask (from_task_store_error (TsStore (debug_directory_store e)))"

definition agent_of :: "string \<Rightarrow> agent_profile exec_op" where
  "agent_of aid = map_err map_agent_store
     (zoom st_agents (\<lambda>t s. s\<lparr> st_agents := t \<rparr>) (get_agent aid))"

definition grant_of :: "string \<Rightarrow> directory_grant exec_op" where
  "grant_of gid = map_err map_directory_store
     (zoom st_grants (\<lambda>t s. s\<lparr> st_grants := t \<rparr>) (get_grant gid))"

definition manifest_of :: "exec_world \<Rightarrow> string \<Rightarrow> execution_error + provider_manifest" where
  "manifest_of w pid =
     r_then (r_map_err ExRegistry
       (load_registry_from_dir (xw_is_file w) (xw_providers_dir w) (xw_listing w))) (\<lambda>registry.
     r_then (ok_or ExRuntimeUnavailable (registry_get registry pid)) (\<lambda>entry. Inr (pe_manifest entry)))"

definition runtime_of :: "exec_world \<Rightarrow> string \<Rightarrow> integration_type \<Rightarrow> execution_error + runtime_view \<times> string" where
  "runtime_of w pid ty =
     (case runtime_get pid (xw_runtimes w) of
        None \<Rightarrow> Inl ExRuntimeUnavailable
      | Some rv \<Rightarrow>
          if runtime_available rv ty then
            r_then (ok_or ExRuntimeUnavailable (rv_executable rv)) (\<lambda>executable. Inr (rv, executable))
          else Inl ExRuntimeUnavailable)"

definition lock_or_conflict :: "scheduler_config \<Rightarrow> task \<Rightarrow> string \<Rightarrow> unit exec_op" where
  "lock_or_conflict config t now =
     and_then (map_err ExTask (try_acquire_directory_lock config (lock_request_from_task t) now)) (\<lambda>d.
     case d of
       Acquired \<Rightarrow> ok ()
     | NotRequired \<Rightarrow> ok ()
     | Waiting \<Rightarrow> err (ExTask TvDirectoryLockConflict))"

definition start_task ::
  "exec_world \<Rightarrow> scheduler_config \<Rightarrow> string \<Rightarrow> string \<Rightarrow> (selected_adapter \<times> runtime_execution_request) exec_op" where
  "start_task w config tid now =
     and_then (map_err ExTask (on_tasks (get_task tid))) (\<lambda>t.
     if is_terminal (task_status t) then err (ExTask TvTaskAlreadyTerminal) else
     and_then (agent_of (task_agent_id t)) (\<lambda>profile.
     and_then (grant_of (task_directory_id t)) (\<lambda>grant.
     and_then (lift_r (manifest_of w (ap_provider_id profile))) (\<lambda>manifest.
     and_then (lift_r (runtime_of w (ap_provider_id profile) (pm_integration_type manifest))) (\<lambda>(rv, executable).
     and_then (lock_or_conflict config t now) (\<lambda>_.
     and_then (map_err ExTask (prepare_workspace (xw_preparer w) tid now)) (\<lambda>workspace.
     and_then (map_err ExTask (mark_running tid now)) (\<lambda>_.
     and_then (lift_r (r_map_err ExAdapter (for_manifest manifest))) (\<lambda>adapter.
     and_then (map_err ExTask (on_tasks (get_task tid))) (\<lambda>running.
     ok (adapter,
       \<lparr> xr_task_id = task_id t, xr_provider_id = ap_provider_id profile, xr_runtime_id = rv_id rv,
         xr_executable = executable, xr_manifest = manifest, xr_agent_profile = profile,
         xr_directory_grant = grant, xr_task = running, xr_workspace = workspace,
         xr_timeout_seconds = unwrap_or (task_timeout_seconds t) DEFAULT_TASK_TIMEOUT_SECONDS,
         xr_allow_agent_custom_env = sg_allow_agent_custom_env config \<rparr>)))))))))))"

definition result_from_outcome ::
  "task \<Rightarrow> runtime_execution_outcome \<Rightarrow> prepared_workspace \<Rightarrow> string \<Rightarrow> task_result" where
  "result_from_outcome t oc ws now =
     \<lparr> tr_task_id = task_id t, tr_status = task_status t, tr_final_message = oc_final_message oc,
       tr_changed_files = oc_changed_files oc, tr_diff = oc_diff oc,
       tr_workspace_mode = task_workspace_mode t, tr_worktree_path = pw_worktree_path ws,
       tr_source_directory_id = task_directory_id t, tr_branch_name = pw_branch_name ws,
       tr_commit_hash = None, tr_session_id = oc_session_id oc,
       tr_provider_result = oc_provider_result oc, tr_usage = oc_usage oc, tr_artifacts = [],
       tr_error = map_option (\<lambda>e. if ae_code e \<in> {''command_timeout'', ''command_cancelled''}
                                  then ae_code e else ae_message e) (oc_error oc),
       tr_created_at = now, tr_updated_at = now \<rparr>"

definition outcome_payload :: "runtime_execution_outcome \<Rightarrow> json option" where
  "outcome_payload oc = map_option (\<lambda>e.
     Object [(''error'', Str (ae_code e)), (''message'', Str (ae_message e))]) (oc_error oc)"

definition append_output :: "string \<Rightarrow> string \<Rightarrow> runtime_output_event \<Rightarrow> unit task_op" where
  "append_output tid now e = and_then (append_event tid (oe_kind e) (oe_payload e) now) (\<lambda>_. ok ())"

definition persist_outcome ::
  "string \<Rightarrow> runtime_execution_outcome \<Rightarrow> prepared_workspace \<Rightarrow> string \<Rightarrow> task exec_op" where
  "persist_outcome tid oc ws now = map_err ExTask (on_tasks
     (and_then (for_each (append_output tid now) (oc_events oc)) (\<lambda>_.
      and_then (transition tid (exec_task_status (oc_status oc)) (outcome_payload oc) now) (\<lambda>_.
      and_then (get_task tid) (\<lambda>t.
      and_then (save_execution_result (result_from_outcome t oc ws now)) (\<lambda>_.
      get_task tid))))))"

definition run_adapter ::
  "exec_world \<Rightarrow> selected_adapter \<Rightarrow> runtime_execution_request \<Rightarrow> runtime_execution_outcome exec_op" where
  "run_adapter w adapter req s = (case xw_adapter w adapter req s of (oc, s') \<Rightarrow> (Inr oc, s'))"

definition execute_task ::
  "exec_world \<Rightarrow> scheduler_config \<Rightarrow> string \<Rightarrow> string \<Rightarrow> string \<Rightarrow> task exec_op" where
  "execute_task w config tid now later =
     and_then (start_task w config tid now) (\<lambda>(adapter, req).
     and_then (run_adapter w adapter req) (\<lambda>oc.
     persist_outcome tid oc (xr_workspace req) later))"

text \<open>The result of the adapter's \<open>cancel\<close> is dropped; what is returned is the adapter that was asked.\<close>

definition cancel_running_task :: "exec_world \<Rightarrow> string \<Rightarrow> selected_adapter exec_op" where
  "cancel_running_task w tid =
     and_then (map_err ExTask (on_tasks (get_task tid))) (\<lambda>t.
     and_then (agent_of (task_agent_id t)) (\<lambda>profile.
     and_then (lift_r (manifest_of w (ap_provider_id profile))) (\<lambda>manifest.
     and_then (lift_r (r_map_err ExAdapter (for_manifest manifest))) (\<lambda>adapter.
     ok adapter))))"

end
