(* ===== verification/Execution_Props.thy ===== *)
theory Execution_Props
  imports Execution Task_Properties
begin

text \<open>
  The execution of a task rewritten to its effect: when it starts, which states it passes, and what it
  leaves behind.
\<close>

section \<open>Transitions of one task\<close>

lemma transition_db_find:
  assumes "find_task tid db = Some t"
  shows "find_task j (transition_db tid next p now db) =
    (if j = tid then Some (apply_status next now t) else find_task j db)"
  using assms by (auto simp: transition_db_def Let_def find_update_task)

lemma transition_db_locks:
  "db_locks (transition_db tid next p now db) =
    (if is_terminal next then release_held tid now (db_locks db) else db_locks db)"
  by (simp add: transition_db_def Let_def)

lemma find_insert_lock [simp]: "find_task j (insert_lock r now db) = find_task j db"
  by (simp add: insert_lock_def)

lemma events_insert_lock [simp]: "events_of j (insert_lock r now db) = events_of j db"
  by (simp add: insert_lock_def)

lemma on_tasks_transition:
  assumes "task_db_inv (st_tasks s)" and "find_task tid (st_tasks s) = Some t"
    and "allowed_transition (task_status t) next"
  shows "on_tasks (transition tid next p now) s =
    (Inr (apply_status next now t), s\<lparr>st_tasks := transition_db tid next p now (st_tasks s)\<rparr>)"
  using assms transition_effect [of "st_tasks s" tid t "next" p now]
  by (simp add: on_tasks_eq task_db_inv_def r_map_err_def)

lemma on_tasks_transition_Inl:
  assumes "find_task tid (st_tasks s) = Some t" and "\<not> is_terminal (task_status t)"
    and "\<not> allowed_transition (task_status t) next"
  shows "on_tasks (transition tid next p now) s = (Inl TvInvalidTaskState, s)"
proof -
  have "validate_transition (task_status t) next = Inl InvalidTransition"
    using assms(2,3) by (auto simp: validate_transition_def)
  with assms(1) show ?thesis by (simp add: on_tasks_eq transition_Inl r_map_err_def)
qed

section \<open>Capacity\<close>

definition active :: "task \<Rightarrow> bool" where
  "active t \<longleftrightarrow> task_status t = Preparing \<or> task_status t = Running"

definition active_count :: "task_db \<Rightarrow> nat" where
  "active_count db = length (filter active (db_tasks db))"

lemma running_or_preparing_count_eq:
  "running_or_preparing_count s = (Inr (active_count (st_tasks s)), s)"
proof -
  have "active = (\<lambda>t. task_status t = Preparing \<or> task_status t = Running)"
    by (simp add: active_def fun_eq_iff)
  then show ?thesis
    by (simp add: running_or_preparing_count_def and_then_def on_tasks_eq list_tasks_def reads_def
        r_map_err_def is_none_or_def ok_def active_count_def)
qed

lemma count_update_rows:
  assumes "distinct (map key rs)" and "r \<in> set rs" and "key r = k"
  shows "length (filter p (update_rows (\<lambda>x. key x = k) f rs)) + of_bool (p r) =
    length (filter p rs) + of_bool (p (f r))"
  using assms
proof (induction rs)
  case (Cons x rs)
  show ?case
  proof (cases "key x = k")
    case True
    with Cons.prems have "r = x" by (auto simp: image_iff)
    moreover have "update_rows (\<lambda>x. key x = k) f rs = rs"
      using Cons.prems True by (intro update_rows_none) (auto simp: image_iff)
    ultimately show ?thesis using Cons.prems True by (simp add: update_rows_def)
  next
    case False
    with Cons show ?thesis by (auto simp: update_rows_def)
  qed
qed simp

lemma active_count_transition:
  assumes "task_db_inv db" and "find_task tid db = Some t"
  shows "active_count (transition_db tid next p now db) + of_bool (active t) =
    active_count db + of_bool (next = Preparing \<or> next = Running)"
proof -
  have "t \<in> set (db_tasks db)" "task_id t = tid" "distinct (map task_id (db_tasks db))"
    using assms task_table.lookup_SomeD tasks_wf_distinct by (auto simp: task_db_inv_def)
  from count_update_rows [OF this(3,1,2), of active "apply_status next now"] show ?thesis
    by (auto simp: active_count_def transition_db_def Let_def update_task_def active_def apply_status_def)
qed

lemma active_count_insert_lock [simp]: "active_count (insert_lock r now db) = active_count db"
  by (simp add: active_count_def insert_lock_def)

section \<open>The lock\<close>

definition needed_lock :: "task \<Rightarrow> directory_grant \<Rightarrow> lock_request" where
  "needed_lock t g =
     \<lparr> lr_directory_id = task_directory_id t, lr_task_id = task_id t,
       lr_mode = mode_for_capabilities (task_required_capabilities t) (dg_lock_policy g) \<rparr>"

definition locked_db :: "task \<Rightarrow> directory_grant \<Rightarrow> string \<Rightarrow> task_db \<Rightarrow> task_db" where
  "locked_db t g now db = transition_db (task_id t) WaitingDirectoryLock
     (reason_payload ''directory_lock_acquired'') now (insert_lock (needed_lock t g) now db)"

lemma find_task_id: "find_task tid db = Some t \<Longrightarrow> task_id t = tid"
  using task_table.lookup_SomeD by blast

lemma mark_waiting:
  assumes "task_db_inv (st_tasks s)" and "find_task tid (st_tasks s) = Some t"
    and "\<not> is_terminal (task_status t)"
  shows "on_tasks (transition tid WaitingDirectoryLock p now) s =
    (if task_status t = Queued
     then (Inr (apply_status WaitingDirectoryLock now t),
           s\<lparr>st_tasks := transition_db tid WaitingDirectoryLock p now (st_tasks s)\<rparr>)
     else (Inl TvInvalidTaskState, s))"
proof -
  have "allowed_transition (task_status t) WaitingDirectoryLock \<longleftrightarrow> task_status t = Queued"
    by (cases "task_status t") (simp_all add: allowed_transition_def)
  then show ?thesis
    using on_tasks_transition [OF assms(1,2), of WaitingDirectoryLock p now]
      on_tasks_transition_Inl [OF assms(2,3), of WaitingDirectoryLock p now]
    by (cases "task_status t = Queued") simp_all
qed

lemma try_acquire_eq:
  assumes inv: "task_db_inv (st_tasks s)" and t: "find_task tid (st_tasks s) = Some t"
    and live: "\<not> is_terminal (task_status t)"
    and g: "find_grant (task_directory_id t) (st_grants s) = Some g"
  shows "try_acquire_directory_lock config (lock_request_from_task t) now s =
    (if sg_max_concurrent_tasks config \<le> active_count (st_tasks s) then
       if task_status t = Queued
       then (Inr Waiting, s\<lparr>st_tasks := transition_db tid WaitingDirectoryLock
               (reason_payload ''global_capacity'') now (st_tasks s)\<rparr>)
       else (Inl TvInvalidTaskState, s)
     else if dg_lock_policy g = PolicyNone then (Inr NotRequired, s)
     else if lock_conflict (needed_lock t g) (st_tasks s) then
       if task_status t = Queued
       then (Inr Waiting, s\<lparr>st_tasks := transition_db tid WaitingDirectoryLock
               (reason_payload ''directory_lock'') now (st_tasks s)\<rparr>)
       else (Inl TvInvalidTaskState, s)
     else if task_status t = Queued
       then (Inr Acquired, s\<lparr>st_tasks := locked_db t g now (st_tasks s)\<rparr>)
       else (Inl TvInvalidTaskState, s\<lparr>st_tasks := insert_lock (needed_lock t g) now (st_tasks s)\<rparr>))"
proof -
  have tid: "task_id t = tid" using t by (rule find_task_id)
  let ?db = "insert_lock (needed_lock t g) now (st_tasks s)"
  have req: "(lock_request_from_task t)\<lparr>lr_mode :=
      mode_for_capabilities (task_required_capabilities t) (dg_lock_policy g)\<rparr> = needed_lock t g"
    by (simp add: lock_request_from_task_def needed_lock_def)
  have fields: "lr_task_id (lock_request_from_task t) = tid"
    "lr_directory_id (lock_request_from_task t) = task_directory_id t"
    by (simp_all add: lock_request_from_task_def tid)
  have acq: "on_tasks (acquire_lock (needed_lock t g) now) s =
      (if lock_conflict (needed_lock t g) (st_tasks s) then (Inr False, s)
       else (Inr True, s\<lparr>st_tasks := ?db\<rparr>))"
    by (simp add: on_tasks_eq acquire_lock_eq r_map_err_def)
  have "\<not> lock_conflict (needed_lock t g) (st_tasks s) \<Longrightarrow> task_db_inv ?db"
    using inv t live by (intro task_db_inv_acquire) (simp_all add: needed_lock_def tid)
  then have wait: "\<not> lock_conflict (needed_lock t g) (st_tasks s) \<Longrightarrow>
      on_tasks (transition tid WaitingDirectoryLock p now) (s\<lparr>st_tasks := ?db\<rparr>) =
      (if task_status t = Queued
       then (Inr (apply_status WaitingDirectoryLock now t),
             s\<lparr>st_tasks := transition_db tid WaitingDirectoryLock p now ?db\<rparr>)
       else (Inl TvInvalidTaskState, s\<lparr>st_tasks := ?db\<rparr>))" for p
    using mark_waiting [of "s\<lparr>st_tasks := ?db\<rparr>" tid t p now] t live by simp
  show ?thesis
    using mark_waiting [OF inv t live] wait
    by (simp add: try_acquire_directory_lock_def and_then_def fields t g tid acq req
        running_or_preparing_count_eq Let_def mode_None_iff ok_def locked_db_def)
qed

section \<open>From the queue to the adapter\<close>

text \<open>
  A task starts in one of two ways: from the queue, with the lock of its directory, or, on a directory
  without locking, from the status it got when it had to wait for capacity.
\<close>

definition lock_free_start :: "task \<Rightarrow> directory_grant \<Rightarrow> bool" where
  "lock_free_start t g \<longleftrightarrow> dg_lock_policy g = PolicyNone \<and>
     (task_status t = WaitingDirectoryLock \<or> task_status t = Preparing)"

definition locked_start :: "task \<Rightarrow> directory_grant \<Rightarrow> task_db \<Rightarrow> bool" where
  "locked_start t g db \<longleftrightarrow> dg_lock_policy g \<noteq> PolicyNone \<and> task_status t = Queued \<and>
     \<not> lock_conflict (needed_lock t g) db"

definition preparing_db :: "task \<Rightarrow> directory_grant \<Rightarrow> string \<Rightarrow> task_db \<Rightarrow> task_db" where
  "preparing_db t g now db =
     (if task_status t = Preparing then db
      else transition_db (task_id t) Preparing None now
             (if dg_lock_policy g = PolicyNone then db else locked_db t g now db))"

definition started_db :: "task \<Rightarrow> directory_grant \<Rightarrow> string \<Rightarrow> task_db \<Rightarrow> task_db" where
  "started_db t g now db = transition_db (task_id t) Running None now (preparing_db t g now db)"

lemma apply_status_status [simp]: "task_status (apply_status next now t) = next"
  by (simp add: apply_status_def)

lemma apply_status_description [simp]:
  "task_directory_id (apply_status next now t) = task_directory_id t"
  "task_workspace_mode (apply_status next now t) = task_workspace_mode t"
  "task_agent_id (apply_status next now t) = task_agent_id t"
  by (simp_all add: apply_status_def)

lemma step_to:
  assumes "task_db_inv db" and "find_task tid db = Some t" and "allowed_transition (task_status t) next"
  shows "task_db_inv (transition_db tid next p now db)"
    and "find_task tid (transition_db tid next p now db) = Some (apply_status next now t)"
  using assms by (simp_all add: task_db_inv_transition transition_db_find)

lemma prepare_unlocked:
  assumes "find_task tid (st_tasks s) = Some t" and "task_status t = Queued"
    and "find_grant (task_directory_id t) (st_grants s) = Some g"
  shows "and_then (prepare_workspace prep tid now) (\<lambda>ws. and_then (mark_running tid now) (\<lambda>_. ok ws)) s =
    (Inl TvInvalidTaskState, s)"
proof -
  have "on_tasks (transition tid next p now) s = (Inl TvInvalidTaskState, s)"
    if "next = Failed \<or> next = Running" for "next" p
    using assms that by (intro on_tasks_transition_Inl) (auto simp: allowed_transition_def)
  with assms show ?thesis
    by (simp add: prepare_workspace_def mark_running_def fail_task_def and_then_def ok_def find_task_id
        split: option.splits)
qed

lemma prepare_locked:
  assumes inv: "task_db_inv db" and t: "find_task tid db = Some t" and st: "task_status t = WaitingDirectoryLock"
    and g: "find_grant (task_directory_id t) (st_grants s) = Some g"
  shows "prepare_workspace prep tid now (s\<lparr>st_tasks := db\<rparr>) =
    (let db' = transition_db tid Preparing None now db in
     case prep tid g (task_workspace_mode t) of
       Some ws \<Rightarrow> (Inr ws, s\<lparr>st_tasks := db'\<rparr>)
     | None \<Rightarrow> (Inl TvWorkspaceModeNotAllowed, s\<lparr>st_tasks :=
         transition_db tid Failed (error_payload ''workspace preparation failed'') now db'\<rparr>))"
proof -
  let ?db = "transition_db tid Preparing None now db"
  have allowed: "allowed_transition (task_status t) Preparing" using st by (simp add: allowed_transition_def)
  note prep = step_to [OF inv t allowed, of None now]
  have "on_tasks (transition tid Preparing None now) (s\<lparr>st_tasks := db\<rparr>) =
      (Inr (apply_status Preparing now t), s\<lparr>st_tasks := ?db\<rparr>)"
    using on_tasks_transition [of "s\<lparr>st_tasks := db\<rparr>" tid t Preparing None now] inv t allowed by simp
  moreover have "on_tasks (transition tid Failed p now) (s\<lparr>st_tasks := ?db\<rparr>) =
      (Inr (apply_status Failed now (apply_status Preparing now t)),
       s\<lparr>st_tasks := transition_db tid Failed p now ?db\<rparr>)" for p
    using on_tasks_transition [of "s\<lparr>st_tasks := ?db\<rparr>" tid _ Failed p now] prep
    by (simp add: allowed_transition_def)
  ultimately show ?thesis using t st g
    by (simp add: prepare_workspace_def mark_preparing_def fail_task_def and_then_def ok_def err_def
        find_task_id Let_def split: option.splits)
qed

lemma locked_db_step:
  assumes inv: "task_db_inv db" and t: "find_task tid db = Some t" and q: "task_status t = Queued"
    and free: "\<not> lock_conflict (needed_lock t g) db"
  shows "task_db_inv (locked_db t g now db)"
    and "find_task tid (locked_db t g now db) = Some (apply_status WaitingDirectoryLock now t)"
proof -
  have tid: "task_id t = tid" using t by (rule find_task_id)
  have "task_db_inv (insert_lock (needed_lock t g) now db)"
    using inv t q free by (intro task_db_inv_acquire [where t = t]) (simp_all add: needed_lock_def tid)
  from step_to [OF this, of tid t WaitingDirectoryLock] t q
  show "task_db_inv (locked_db t g now db)"
    and "find_task tid (locked_db t g now db) = Some (apply_status WaitingDirectoryLock now t)"
    by (simp_all add: locked_db_def tid allowed_transition_def)
qed

lemma preparing_db_step:
  assumes inv: "task_db_inv db" and t: "find_task tid db = Some t"
    and start: "locked_start t g db \<or> lock_free_start t g"
  obtains t' where "task_db_inv (preparing_db t g now db)"
    and "find_task tid (preparing_db t g now db) = Some t'" and "task_status t' = Preparing"
    and "task_directory_id t' = task_directory_id t" and "task_workspace_mode t' = task_workspace_mode t"
proof (cases "task_status t = Preparing")
  case True
  with inv t show ?thesis using that [of t] by (simp add: preparing_db_def)
next
  case False
  let ?db = "if dg_lock_policy g = PolicyNone then db else locked_db t g now db"
  have "\<exists>t'. task_db_inv ?db \<and> find_task tid ?db = Some t' \<and> task_status t' = WaitingDirectoryLock \<and>
      task_directory_id t' = task_directory_id t \<and> task_workspace_mode t' = task_workspace_mode t"
    using start False inv t locked_db_step [OF inv t, of g now]
    by (auto simp: locked_start_def lock_free_start_def)
  then obtain t' where w: "task_db_inv ?db" "find_task tid ?db = Some t'"
    and st: "task_status t' = WaitingDirectoryLock" "task_directory_id t' = task_directory_id t"
      "task_workspace_mode t' = task_workspace_mode t" by blast
  have "allowed_transition (task_status t') Preparing" using st by (simp add: allowed_transition_def)
  note p = step_to [OF w this, of None now]
  have "preparing_db t g now db = transition_db tid Preparing None now ?db"
    using False by (simp add: preparing_db_def find_task_id [OF t])
  with p st show ?thesis using that [of "apply_status Preparing now t'"] by simp
qed

lemma find_transition_other: "j \<noteq> tid \<Longrightarrow> find_task j (transition_db tid next p now db) = find_task j db"
  by (simp add: transition_db_def Let_def find_update_task)

lemma find_preparing_other:
  "find_task tid db = Some t \<Longrightarrow> j \<noteq> tid \<Longrightarrow> find_task j (preparing_db t g now db) = find_task j db"
  by (simp add: preparing_db_def locked_db_def find_task_id find_transition_other)

lemma started_db_step:
  assumes "task_db_inv db" and t: "find_task tid db = Some t"
    and "locked_start t g db \<or> lock_free_start t g"
  obtains t' where "task_db_inv (started_db t g now db)"
    and "find_task tid (started_db t g now db) = Some t'" and "task_status t' = Running"
proof -
  obtain t' where p: "task_db_inv (preparing_db t g now db)"
    "find_task tid (preparing_db t g now db) = Some t'" "task_status t' = Preparing"
    using preparing_db_step [OF assms] by metis
  have "allowed_transition (task_status t') Running" using p(3) by (simp add: allowed_transition_def)
  from step_to [OF p(1,2) this, of None now] show ?thesis
    using that [of "apply_status Running now t'"] by (simp add: started_db_def find_task_id [OF t])
qed

lemma prepare_again:
  assumes inv: "task_db_inv (st_tasks s)" and t: "find_task tid (st_tasks s) = Some t"
    and st: "task_status t = Preparing \<or> task_status t = Running"
    and g: "find_grant (task_directory_id t) (st_grants s) = Some g"
  shows "prepare_workspace prep tid now s =
    (case prep tid g (task_workspace_mode t) of
       Some ws \<Rightarrow> (Inr ws, s)
     | None \<Rightarrow> (Inl TvWorkspaceModeNotAllowed, s\<lparr>st_tasks :=
         transition_db tid Failed (error_payload ''workspace preparation failed'') now (st_tasks s)\<rparr>))"
proof -
  have "allowed_transition (task_status t) Failed" using st by (auto simp: allowed_transition_def)
  from on_tasks_transition [OF inv t this] st t g show ?thesis
    by (auto simp: prepare_workspace_def fail_task_def and_then_def ok_def err_def find_task_id
        split: option.splits)
qed

lemma mark_running_eq:
  assumes "task_db_inv (st_tasks s)" and "find_task tid (st_tasks s) = Some t"
    and "\<not> is_terminal (task_status t)"
  shows "mark_running tid now s =
    (if task_status t = Preparing
     then (Inr (apply_status Running now t), s\<lparr>st_tasks := transition_db tid Running None now (st_tasks s)\<rparr>)
     else (Inl TvInvalidTaskState, s))"
proof -
  have "allowed_transition (task_status t) Running \<longleftrightarrow> task_status t = Preparing"
    by (cases "task_status t") (simp_all add: allowed_transition_def)
  then show ?thesis
    using on_tasks_transition [OF assms(1,2), of Running None now]
      on_tasks_transition_Inl [OF assms(2,3), of Running None now]
    by (cases "task_status t = Preparing") (simp_all add: mark_running_def)
qed

lemma agent_of_eq [simp]:
  "agent_of aid s = (case find_agent aid (st_agents s) of
     None \<Rightarrow> Inl (map_agent_store (AsProfile ProfileNotFound)) | Some a \<Rightarrow> Inr a, s)"
  by (simp add: agent_of_def op_simps get_agent_def split: option.splits)

lemma grant_of_eq [simp]:
  "grant_of gid s = (case find_grant gid (st_grants s) of
     None \<Rightarrow> Inl (map_directory_store DsNotFound) | Some g \<Rightarrow> Inr g, s)"
  by (simp add: grant_of_def op_simps get_grant_def split: option.splits)

lemma runtime_of_not_native: "runtime_of w pid ty = Inr x \<Longrightarrow> ty \<noteq> IntegrationNative"
  by (auto simp: runtime_of_def runtime_available_def split: option.splits if_splits)

definition the_adapter :: "provider_manifest \<Rightarrow> selected_adapter" where
  "the_adapter m = (case pm_integration_type m of
     IntegrationCli \<Rightarrow> CliAdapter | IntegrationAcp \<Rightarrow> AcpAdapter | IntegrationHttp \<Rightarrow> HttpAdapter
   | IntegrationNative \<Rightarrow> CliAdapter)"

lemma for_manifest_the: "pm_integration_type m \<noteq> IntegrationNative \<Longrightarrow> for_manifest m = Inr (the_adapter m)"
  by (cases "pm_integration_type m") (simp_all add: for_manifest_def the_adapter_def)

text \<open>What \<open>execute_task\<close> has read before it touches the task.\<close>

definition resolved ::
  "exec_world \<Rightarrow> stores \<Rightarrow> task \<Rightarrow> agent_profile \<Rightarrow> directory_grant \<Rightarrow> provider_manifest \<Rightarrow> runtime_view \<Rightarrow>
   string \<Rightarrow> bool" where
  "resolved w s t a g m rv exe \<longleftrightarrow>
     find_agent (task_agent_id t) (st_agents s) = Some a \<and>
     find_grant (task_directory_id t) (st_grants s) = Some g \<and>
     manifest_of w (ap_provider_id a) = Inr m \<and>
     runtime_of w (ap_provider_id a) (pm_integration_type m) = Inr (rv, exe)"

definition request_of ::
  "scheduler_config \<Rightarrow> task \<Rightarrow> task \<Rightarrow> agent_profile \<Rightarrow> directory_grant \<Rightarrow> provider_manifest \<Rightarrow> runtime_view \<Rightarrow>
   string \<Rightarrow> prepared_workspace \<Rightarrow> runtime_execution_request" where
  "request_of config t running a g m rv exe ws =
     \<lparr> xr_task_id = task_id t, xr_provider_id = ap_provider_id a, xr_runtime_id = rv_id rv,
       xr_executable = exe, xr_manifest = m, xr_agent_profile = a, xr_directory_grant = g,
       xr_task = running, xr_workspace = ws,
       xr_timeout_seconds = unwrap_or (task_timeout_seconds t) DEFAULT_TASK_TIMEOUT_SECONDS,
       xr_allow_agent_custom_env = sg_allow_agent_custom_env config \<rparr>"

lemma start_task_unresolved:
  assumes "\<And>t a g m rv exe. find_task tid (st_tasks s) = Some t \<Longrightarrow> \<not> is_terminal (task_status t) \<Longrightarrow>
    \<not> resolved w s t a g m rv exe"
  shows "\<exists>e. start_task w config tid now s = (Inl e, s)"
proof (cases "find_task tid (st_tasks s)")
  case None
  then show ?thesis by (simp add: start_task_def and_then_def map_err_def)
next
  case t: (Some t)
  note eval = start_task_def and_then_def map_err_def lift_r_def err_def
  show ?thesis
  proof (cases "is_terminal (task_status t)")
    case True
    with t show ?thesis by (simp add: eval)
  next
    case live: False
    show ?thesis
    proof (cases "find_agent (task_agent_id t) (st_agents s)")
      case None
      with t live show ?thesis by (simp add: eval)
    next
      case a: (Some a)
      show ?thesis
      proof (cases "find_grant (task_directory_id t) (st_grants s)")
        case None
        with t live a show ?thesis by (simp add: eval)
      next
        case g: (Some g)
        show ?thesis
        proof (cases "manifest_of w (ap_provider_id a)")
          case (Inl e)
          with t live a g show ?thesis by (simp add: eval)
        next
          case m: (Inr m)
          have "\<exists>e. runtime_of w (ap_provider_id a) (pm_integration_type m) = Inl e"
            using assms [OF t live] a g m
            by (cases "runtime_of w (ap_provider_id a) (pm_integration_type m)") (auto simp: resolved_def)
          with t live a g m show ?thesis by (auto simp: eval)
        qed
      qed
    qed
  qed
qed

lemma and_then_lift_Inr [simp]: "and_then (lift_r (Inr v)) f = f v"
  by (simp add: and_then_def lift_r_def fun_eq_iff)

lemma and_then_read: "m s = (Inr v, s) \<Longrightarrow> and_then m f s = f v s"
  by (simp add: and_then_def)

lemma start_task_resolved:
  assumes "find_task tid (st_tasks s) = Some t" and "\<not> is_terminal (task_status t)"
    and r: "resolved w s t a g m rv exe"
  shows "start_task w config tid now s =
    and_then (lock_or_conflict config t now) (\<lambda>_.
    and_then (map_err ExTask (prepare_workspace (xw_preparer w) tid now)) (\<lambda>ws.
    and_then (map_err ExTask (mark_running tid now)) (\<lambda>_.
    and_then (map_err ExTask (on_tasks (get_task tid))) (\<lambda>running.
    ok (the_adapter m, request_of config t running a g m rv exe ws))))) s"
proof -
  have "for_manifest m = Inr (the_adapter m)"
    using r runtime_of_not_native for_manifest_the by (auto simp: resolved_def)
  with assms show ?thesis
    by (simp add: start_task_def and_then_read map_err_def [of ExTask "on_tasks (get_task tid)"]
        resolved_def r_map_err_def request_of_def)
qed

definition failed_db :: "string \<Rightarrow> string \<Rightarrow> task_db \<Rightarrow> task_db" where
  "failed_db tid now db =
     transition_db tid Failed (error_payload ''workspace preparation failed'') now db"

lemma lock_or_conflict_eq:
  "lock_or_conflict config t now s =
    (case try_acquire_directory_lock config (lock_request_from_task t) now s of
       (Inl e, s') \<Rightarrow> (Inl (ExTask e), s')
     | (Inr Waiting, s') \<Rightarrow> (Inl (ExTask TvDirectoryLockConflict), s')
     | (Inr _, s') \<Rightarrow> (Inr (), s'))"
  by (auto simp: lock_or_conflict_def and_then_def map_err_def ok_def err_def
      split: prod.splits sum.splits lock_decision.splits)

text \<open>The rest of \<open>start_task\<close> once the lock is settled, in a task store \<open>db\<close> where the task is \<open>t\<close>.\<close>

lemma launch_eq:
  assumes inv: "task_db_inv db" and t: "find_task tid db = Some t" and live: "\<not> is_terminal (task_status t)"
    and g: "find_grant (task_directory_id t) (st_grants s) = Some g"
    and p: "p = (if task_status t = WaitingDirectoryLock then transition_db tid Preparing None now db else db)"
    and launch: "launch = and_then (map_err ExTask (prepare_workspace prep tid now)) (\<lambda>ws.
      and_then (map_err ExTask (mark_running tid now)) (\<lambda>_.
      and_then (map_err ExTask (on_tasks (get_task tid))) (\<lambda>running. ok (f ws running))))"
  shows "launch (s\<lparr>st_tasks := db\<rparr>) =
    (case prep tid g (task_workspace_mode t) of
       None \<Rightarrow> if task_status t = Queued then (Inl (ExTask TvInvalidTaskState), s\<lparr>st_tasks := db\<rparr>)
               else (Inl (ExTask TvWorkspaceModeNotAllowed), s\<lparr>st_tasks := failed_db tid now p\<rparr>)
     | Some ws \<Rightarrow>
         if task_status t = WaitingDirectoryLock \<or> task_status t = Preparing then
           (Inr (f ws (the (find_task tid (transition_db tid Running None now p)))),
            s\<lparr>st_tasks := transition_db tid Running None now p\<rparr>)
         else (Inl (ExTask TvInvalidTaskState), s\<lparr>st_tasks := db\<rparr>))"
proof (cases "task_status t = Queued")
  case True
  have "on_tasks (transition tid next q now) (s\<lparr>st_tasks := db\<rparr>) = (Inl TvInvalidTaskState, s\<lparr>st_tasks := db\<rparr>)"
    if "next = Failed \<or> next = Running" for "next" q
    using t True that by (intro on_tasks_transition_Inl [of _ _ t]) (auto simp: allowed_transition_def)
  with t g True show ?thesis
    by (simp add: launch prepare_workspace_def mark_running_def fail_task_def and_then_def map_err_def
        ok_def find_task_id split: option.splits)
next
  case False
  let ?u = "if task_status t = WaitingDirectoryLock then apply_status Preparing now t else t"
  have u: "task_db_inv p" "find_task tid p = Some ?u"
    using inv t step_to [OF inv t, of Preparing None now] by (auto simp: p allowed_transition_def)
  have prep: "prepare_workspace prep tid now (s\<lparr>st_tasks := db\<rparr>) =
      (case prep tid g (task_workspace_mode t) of
         Some ws \<Rightarrow> (Inr ws, s\<lparr>st_tasks := p\<rparr>)
       | None \<Rightarrow> (Inl TvWorkspaceModeNotAllowed, s\<lparr>st_tasks := failed_db tid now p\<rparr>))"
    using False live prepare_locked [OF inv t _ g, of prep now]
      prepare_again [of "s\<lparr>st_tasks := db\<rparr>" tid t g prep now] inv t g
    by (cases "task_status t") (simp_all add: p failed_db_def Let_def split: option.splits)
  have run: "mark_running tid now (s\<lparr>st_tasks := p\<rparr>) =
      (if task_status ?u = Preparing
       then (Inr (apply_status Running now ?u), s\<lparr>st_tasks := transition_db tid Running None now p\<rparr>)
       else (Inl TvInvalidTaskState, s\<lparr>st_tasks := p\<rparr>))"
    using mark_running_eq [of "s\<lparr>st_tasks := p\<rparr>" tid ?u now] u live by simp
  have found: "find_task tid (transition_db tid Running None now p) = Some (apply_status Running now ?u)"
    using u by (simp add: transition_db_find)
  show ?thesis using False prep run found
    by (auto simp: launch and_then_def map_err_def ok_def p split: option.splits)
qed

definition startable ::
  "exec_world \<Rightarrow> scheduler_config \<Rightarrow> stores \<Rightarrow> task \<Rightarrow> agent_profile \<Rightarrow> directory_grant \<Rightarrow> provider_manifest \<Rightarrow>
   runtime_view \<Rightarrow> string \<Rightarrow> prepared_workspace \<Rightarrow> bool" where
  "startable w config s t a g m rv exe ws \<longleftrightarrow>
     find_task (task_id t) (st_tasks s) = Some t \<and> resolved w s t a g m rv exe \<and>
     active_count (st_tasks s) < sg_max_concurrent_tasks config \<and>
     (locked_start t g (st_tasks s) \<or> lock_free_start t g) \<and>
     xw_preparer w (task_id t) g (task_workspace_mode t) = Some ws"

lemma start_live: "locked_start t g db \<or> lock_free_start t g \<Longrightarrow> \<not> is_terminal (task_status t)"
  by (auto simp: locked_start_def lock_free_start_def)

lemma start_task_locked:
  assumes inv: "task_db_inv (st_tasks s)" and t: "find_task tid (st_tasks s) = Some t"
    and r: "resolved w s t a g m rv exe" and room: "active_count (st_tasks s) < sg_max_concurrent_tasks config"
    and start: "locked_start t g (st_tasks s)"
  shows "start_task w config tid now s =
    (case xw_preparer w tid g (task_workspace_mode t) of
       None \<Rightarrow> (Inl (ExTask TvWorkspaceModeNotAllowed),
         s\<lparr>st_tasks := failed_db tid now (preparing_db t g now (st_tasks s))\<rparr>)
     | Some ws \<Rightarrow>
         (Inr (the_adapter m, request_of config t
            (the (find_task tid (started_db t g now (st_tasks s)))) a g m rv exe ws),
          s\<lparr>st_tasks := started_db t g now (st_tasks s)\<rparr>))"
proof -
  let ?db = "locked_db t g now (st_tasks s)" and ?t = "apply_status WaitingDirectoryLock now t"
  have live: "\<not> is_terminal (task_status t)" using start start_live by blast
  have g: "find_grant (task_directory_id t) (st_grants s) = Some g" using r by (simp add: resolved_def)
  note step = locked_db_step [OF inv t, of g now]
  have lock: "lock_or_conflict config t now s = (Inr (), s\<lparr>st_tasks := ?db\<rparr>)"
    using start room by (simp add: lock_or_conflict_eq try_acquire_eq [OF inv t live g] locked_start_def)
  have "task_status t \<noteq> Preparing" "dg_lock_policy g \<noteq> PolicyNone" "task_id t = tid"
    using start find_task_id [OF t] by (auto simp: locked_start_def)
  then have p: "preparing_db t g now (st_tasks s) = transition_db tid Preparing None now ?db"
    and st: "started_db t g now (st_tasks s) =
      transition_db tid Running None now (transition_db tid Preparing None now ?db)"
    by (simp_all add: preparing_db_def started_db_def)
  show ?thesis
    using step start g
    by (simp add: start_task_resolved [OF t live r] and_then_def [of "lock_or_conflict config t now"] lock
        p st locked_start_def
        launch_eq [where db = ?db and t = ?t and g = g and f = "\<lambda>ws running. (the_adapter m,
          request_of config t running a g m rv exe ws)", OF _ _ _ _ refl refl]
        split: option.splits)
qed

lemma start_task_free:
  assumes inv: "task_db_inv (st_tasks s)" and t: "find_task tid (st_tasks s) = Some t"
    and r: "resolved w s t a g m rv exe" and room: "active_count (st_tasks s) < sg_max_concurrent_tasks config"
    and none: "dg_lock_policy g = PolicyNone" and live: "\<not> is_terminal (task_status t)"
  shows "start_task w config tid now s =
    (case xw_preparer w tid g (task_workspace_mode t) of
       None \<Rightarrow> if task_status t = Queued then (Inl (ExTask TvInvalidTaskState), s)
               else (Inl (ExTask TvWorkspaceModeNotAllowed), s\<lparr>st_tasks := failed_db tid now
                  (if task_status t = WaitingDirectoryLock then preparing_db t g now (st_tasks s)
                   else st_tasks s)\<rparr>)
     | Some ws \<Rightarrow>
         if lock_free_start t g then
           (Inr (the_adapter m, request_of config t
              (the (find_task tid (started_db t g now (st_tasks s)))) a g m rv exe ws),
            s\<lparr>st_tasks := started_db t g now (st_tasks s)\<rparr>)
         else (Inl (ExTask TvInvalidTaskState), s))"
proof -
  let ?p = "if task_status t = WaitingDirectoryLock then transition_db tid Preparing None now (st_tasks s)
    else st_tasks s"
  have g: "find_grant (task_directory_id t) (st_grants s) = Some g" using r by (simp add: resolved_def)
  have lock: "lock_or_conflict config t now s = (Inr (), s)"
    using none room by (simp add: lock_or_conflict_eq try_acquire_eq [OF inv t live g])
  have "lock_free_start t g \<Longrightarrow> started_db t g now (st_tasks s) = transition_db tid Running None now ?p"
    "task_status t = WaitingDirectoryLock \<Longrightarrow> preparing_db t g now (st_tasks s) = ?p"
    using none find_task_id [OF t] by (auto simp: lock_free_start_def preparing_db_def started_db_def)
  moreover have "lock_free_start t g \<longleftrightarrow> task_status t = WaitingDirectoryLock \<or> task_status t = Preparing"
    using none by (simp add: lock_free_start_def)
  moreover note launch_eq [OF inv t live g refl refl, of "xw_preparer w" now "\<lambda>ws running. (the_adapter m,
      request_of config t running a g m rv exe ws)"]
  ultimately show ?thesis
    by (simp add: start_task_resolved [OF t live r] and_then_def [of "lock_or_conflict config t now"] lock
        split: option.splits)
qed

text \<open>Every way \<open>start_task\<close> can end.\<close>

lemma start_task_cases:
  assumes inv: "task_db_inv (st_tasks s)"
  obtains (stay) e where "start_task w config tid now s = (Inl e, s)"
  | (wait) t p where "find_task tid (st_tasks s) = Some t" "task_status t = Queued"
      "start_task w config tid now s = (Inl (ExTask TvDirectoryLockConflict),
         s\<lparr>st_tasks := transition_db tid WaitingDirectoryLock p now (st_tasks s)\<rparr>)"
  | (leak) t g where "find_task tid (st_tasks s) = Some t" "task_status t \<noteq> Queued"
      "\<not> is_terminal (task_status t)" "\<not> lock_conflict (needed_lock t g) (st_tasks s)"
      "start_task w config tid now s = (Inl (ExTask TvInvalidTaskState),
         s\<lparr>st_tasks := insert_lock (needed_lock t g) now (st_tasks s)\<rparr>)"
  | (unprepared) db t where "task_db_inv db" "find_task tid db = Some t"
      "task_status t = Preparing \<or> task_status t = Running"
      "\<And>j. j \<noteq> tid \<Longrightarrow> find_task j db = find_task j (st_tasks s)"
      "start_task w config tid now s =
         (Inl (ExTask TvWorkspaceModeNotAllowed), s\<lparr>st_tasks := failed_db tid now db\<rparr>)"
  | (started) t a g m rv exe ws where "task_id t = tid" "startable w config s t a g m rv exe ws"
      "start_task w config tid now s =
         (Inr (the_adapter m, request_of config t
            (the (find_task tid (started_db t g now (st_tasks s)))) a g m rv exe ws),
          s\<lparr>st_tasks := started_db t g now (st_tasks s)\<rparr>)"
proof (cases "\<exists>t a g m rv exe. find_task tid (st_tasks s) = Some t \<and> \<not> is_terminal (task_status t) \<and>
    resolved w s t a g m rv exe")
  case False
  then show ?thesis using start_task_unresolved [of tid s w config now] stay by blast
next
  case True
  then obtain t a g m rv exe where t: "find_task tid (st_tasks s) = Some t"
    and live: "\<not> is_terminal (task_status t)" and r: "resolved w s t a g m rv exe" by blast
  have g: "find_grant (task_directory_id t) (st_grants s) = Some g" using r by (simp add: resolved_def)
  have tid: "task_id t = tid" using t by (rule find_task_id)
  show ?thesis
  proof (cases "active_count (st_tasks s) < sg_max_concurrent_tasks config")
    case full: False
    then show ?thesis using stay wait [OF t]
      by (cases "task_status t = Queued")
        (simp_all add: start_task_resolved [OF t live r] and_then_def [of "lock_or_conflict config t now"]
          lock_or_conflict_eq try_acquire_eq [OF inv t live g])
  next
    case room: True
    show ?thesis
    proof (cases "dg_lock_policy g = PolicyNone")
      case free: True
      note eq = start_task_free [OF inv t r room free live, of now]
      show ?thesis
      proof (cases "xw_preparer w tid g (task_workspace_mode t)")
        case None
        let ?db = "if task_status t = WaitingDirectoryLock then preparing_db t g now (st_tasks s) else st_tasks s"
        have "task_status t \<noteq> Queued \<Longrightarrow> \<exists>u. task_db_inv ?db \<and> find_task tid ?db = Some u \<and>
            (task_status u = Preparing \<or> task_status u = Running)"
        proof (cases "task_status t = WaitingDirectoryLock")
          case True
          with free have "lock_free_start t g" by (simp add: lock_free_start_def)
          with preparing_db_step [OF inv t] True show ?thesis by metis
        next
          case False
          assume "task_status t \<noteq> Queued"
          with False live have "task_status t = Preparing \<or> task_status t = Running"
            by (cases "task_status t") simp_all
          with False inv t show ?thesis by simp
        qed
        with eq None show ?thesis using stay unprepared [of ?db] find_preparing_other [OF t]
          by (cases "task_status t = Queued") auto
      next
        case (Some ws)
        with eq show ?thesis using stay started [OF tid, of a g m rv exe ws] t r room tid
          by (cases "lock_free_start t g") (simp_all add: startable_def)
      qed
    next
      case locked: False
      show ?thesis
      proof (cases "locked_start t g (st_tasks s)")
        case start: True
        note eq = start_task_locked [OF inv t r room start, of now]
        obtain u where "task_db_inv (preparing_db t g now (st_tasks s))"
          "find_task tid (preparing_db t g now (st_tasks s)) = Some u" "task_status u = Preparing"
          using preparing_db_step [OF inv t disjI1 [OF start]] by metis
        with eq show ?thesis
          using unprepared started [OF tid, of a g m rv exe] find_preparing_other [OF t] t r room start tid
          by (cases "xw_preparer w tid g (task_workspace_mode t)") (auto simp: startable_def)
      next
        case False
        with locked room show ?thesis using stay wait [OF t] leak [OF t _ live, of g]
          by (cases "task_status t = Queued"; cases "lock_conflict (needed_lock t g) (st_tasks s)")
            (simp_all add: start_task_resolved [OF t live r] and_then_def [of "lock_or_conflict config t now"]
              lock_or_conflict_eq try_acquire_eq [OF inv t live g] locked_start_def)
      qed
    qed
  qed
qed

section \<open>Counting and locks along the way\<close>

lemma active_count_locked:
  assumes inv: "task_db_inv db" and t: "find_task tid db = Some t" and "locked_start t g db"
  shows "active_count (locked_db t g now db) = active_count db"
proof -
  have q: "task_status t = Queued" "\<not> lock_conflict (needed_lock t g) db"
    using assms(3) by (simp_all add: locked_start_def)
  have "task_db_inv (insert_lock (needed_lock t g) now db)"
    using inv t q by (intro task_db_inv_acquire [where t = t]) (simp_all add: needed_lock_def find_task_id)
  from active_count_transition [OF this, of tid t WaitingDirectoryLock] t q show ?thesis
    by (simp add: locked_db_def active_def find_task_id)
qed

lemma active_count_started:
  assumes inv: "task_db_inv db" and t: "find_task tid db = Some t"
    and start: "locked_start t g db \<or> lock_free_start t g"
  shows "active_count (started_db t g now db) = active_count db + of_bool (\<not> active t)"
proof -
  let ?db = "if dg_lock_policy g = PolicyNone then db else locked_db t g now db"
  have tid: "task_id t = tid" using t by (rule find_task_id)
  obtain u where u: "task_db_inv (preparing_db t g now db)"
    "find_task tid (preparing_db t g now db) = Some u" "task_status u = Preparing"
    using preparing_db_step [OF inv t start] by metis
  have run: "active_count (started_db t g now db) = active_count (preparing_db t g now db)"
    using active_count_transition [OF u(1,2), of Running None now] u(3) by (simp add: started_db_def tid active_def)
  have "active_count (preparing_db t g now db) = active_count db + of_bool (\<not> active t)"
  proof (cases "task_status t = Preparing")
    case True
    then show ?thesis by (simp add: preparing_db_def active_def)
  next
    case False
    have "\<exists>v. task_db_inv ?db \<and> find_task tid ?db = Some v \<and> task_status v = WaitingDirectoryLock \<and>
        active_count ?db = active_count db"
      using start False inv t locked_db_step [OF inv t, of g now] active_count_locked [OF inv t, of g now]
      by (auto simp: locked_start_def lock_free_start_def)
    then obtain v where v: "task_db_inv ?db" "find_task tid ?db = Some v"
      "task_status v = WaitingDirectoryLock" "active_count ?db = active_count db" by blast
    have "\<not> active t" using start False by (auto simp: active_def locked_start_def lock_free_start_def)
    with False v active_count_transition [OF v(1,2), of Preparing None now] show ?thesis
      by (simp add: preparing_db_def tid active_def)
  qed
  with run show ?thesis by simp
qed

text \<open>A locked start holds the lock it needs.\<close>

lemma started_db_holds:
  assumes "locked_start t g db"
  shows "\<exists>l \<in> set (db_locks (started_db t g now db)). held l \<and> lk_task_id l = task_id t \<and>
    lk_directory_id l = task_directory_id t \<and>
    lk_mode l = mode_for_capabilities (task_required_capabilities t) (dg_lock_policy g)"
  using assms
  by (simp add: locked_start_def started_db_def preparing_db_def locked_db_def transition_db_locks
      insert_lock_def needed_lock_def held_def)

lemma find_started_other:
  "find_task tid db = Some t \<Longrightarrow> j \<noteq> tid \<Longrightarrow> find_task j (started_db t g now db) = find_task j db"
  by (simp add: started_db_def find_task_id find_transition_other find_preparing_other)

end
