(* ===== verification/Execution_Properties.thy ===== *)
theory Execution_Properties
  imports Execution_Props Profile_Properties
begin

text \<open>
  The properties of admission and execution, over states of the three stores that their operations
  reach, with a witness on the stores of the earlier demonstrations: the agent \<open>agent\<close> of product
  \<open>prod\<close> with the grant \<open>dir_1\<close> and the queued task \<open>task_1\<close>.
\<close>

section \<open>Persisting an outcome\<close>

definition output_pairs :: "task_event list \<Rightarrow> (task_event_type \<times> json) list" where
  "output_pairs es = map (\<lambda>e. (ev_event_type e, ev_payload e)) es"

lemma append_outputs:
  assumes "task_db_inv db" and "find_task tid db = Some t"
    and "\<forall>e \<in> set es. oe_kind e = ProcessStdout \<or> oe_kind e = ProcessStderr"
  shows "\<exists>db' rows. for_each (append_output tid now) es db = (Inr (), db') \<and> task_db_inv db' \<and>
    db_tasks db' = db_tasks db \<and> db_locks db' = db_locks db \<and>
    events_of tid db' = events_of tid db @ rows \<and>
    output_pairs rows = map (\<lambda>e. (oe_kind e, oe_payload e)) es"
  using assms
proof (induction es arbitrary: db)
  case Nil
  then show ?case by (auto simp: output_pairs_def)
next
  case (Cons e es)
  let ?db = "log_event tid (oe_kind e) (oe_payload e) now db"
  have "output_ok tid (oe_kind e) (oe_payload e) db"
    using Cons.prems(3) by (auto simp: output_ok_def)
  then have inv: "task_db_inv ?db" using Cons.prems(1,2) by (intro task_db_inv_output) simp_all
  have step: "append_output tid now e db = (Inr (), ?db)"
    using Cons.prems append_event_effect [of db tid t "oe_kind e" "oe_payload e" now]
    by (simp add: append_output_def and_then_def ok_def task_db_inv_def)
  have "find_task tid ?db = Some t" using Cons.prems(2) by simp
  from Cons.IH [OF inv this] Cons.prems(3) obtain db' rows where
    r: "for_each (append_output tid now) es ?db = (Inr (), db')" "task_db_inv db'"
      "db_tasks db' = db_tasks ?db" "db_locks db' = db_locks ?db"
      "events_of tid db' = events_of tid ?db @ rows"
      "output_pairs rows = map (\<lambda>e. (oe_kind e, oe_payload e)) es" by auto
  let ?row = "event_row tid (next_sequence tid db) (oe_kind e) (oe_payload e) now"
  have "events_of tid db' = events_of tid db @ ?row # rows"
    using r(5) by (simp add: log_event_events event_row_def)
  moreover have "output_pairs (?row # rows) = map (\<lambda>e. (oe_kind e, oe_payload e)) (e # es)"
    using r(6) by (simp add: output_pairs_def event_row_def)
  moreover have "db_tasks ?db = db_tasks db" "db_locks ?db = db_locks db" by simp_all
  ultimately show ?case using r(1-4) step
    by (intro exI [of _ db'] exI [of _ "?row # rows"] conjI) simp_all
qed

text \<open>What the caller of \<open>execute_task\<close> and the store see when the adapter is done.\<close>

definition persisted ::
  "string \<Rightarrow> runtime_execution_outcome \<Rightarrow> prepared_workspace \<Rightarrow> string \<Rightarrow> task \<Rightarrow> stores \<Rightarrow>
   execution_error + task \<Rightarrow> stores \<Rightarrow> bool" where
  "persisted tid oc ws now u s r s' \<longleftrightarrow>
     (\<exists>rows more. events_of tid (st_tasks s') = events_of tid (st_tasks s) @ rows @ more \<and>
        output_pairs rows = map (\<lambda>e. (oe_kind e, oe_payload e)) (oc_events oc)) \<and>
     task_db_inv (st_tasks s') \<and>
     (let st = exec_task_status (oc_status oc) in
      if task_status u = Running \<or> task_status u = st then
        (\<exists>t. r = Inr t \<and> find_task tid (st_tasks s') = Some t \<and> task_status t = st \<and>
           task_result t = Some (result_from_outcome t oc ws now))
      else r = Inl (ExTask TvTaskAlreadyTerminal) \<and> find_task tid (st_tasks s') = Some u)"

lemma exec_task_status_terminal [simp]:
  "is_terminal (exec_task_status st)" "exec_task_status st \<noteq> Running"
  by (cases st; simp)+

lemma save_execution_effect:
  assumes inv: "task_db_inv db" and t: "find_task tid db = Some t"
    and res: "res = result_from_outcome t oc ws now"
    and t': "t' = t\<lparr>task_result := Some res, task_updated_at := now\<rparr>"
  shows "and_then (get_task tid) (\<lambda>t. and_then (save_execution_result (result_from_outcome t oc ws now))
      (\<lambda>_. get_task tid)) db = (Inr t', snd (save_execution_result res db))"
    and "find_task tid (snd (save_execution_result res db)) = Some t'"
    and "task_db_inv (snd (save_execution_result res db))"
    and "events_of tid (snd (save_execution_result res db)) = events_of tid db"
    and "result_from_outcome t' oc ws now = res"
proof -
  have id: "tr_task_id res = tid" "tr_updated_at res = now"
    using find_task_id [OF t] by (simp_all add: res result_from_outcome_def)
  show f: "find_task tid (snd (save_execution_result res db)) = Some t'"
    using t by (simp add: save_execution_result_def modify_def id find_update_task t')
  obtain db2 where d: "save_execution_result res db = (Inr (), db2)"
    by (simp add: save_execution_result_def modify_def)
  with f t show "and_then (get_task tid) (\<lambda>t. and_then (save_execution_result (result_from_outcome t oc ws now))
      (\<lambda>_. get_task tid)) db = (Inr t', snd (save_execution_result res db))"
    by (simp add: and_then_def get_task_eq ok_or_def res)
  show "task_db_inv (snd (save_execution_result res db))"
    using inv keeps_snd [OF keeps_save_execution_result] by blast
  show "events_of tid (snd (save_execution_result res db)) = events_of tid db"
    by (simp add: save_execution_result_def modify_def update_task_def)
  show "result_from_outcome t' oc ws now = res" by (simp add: t' res result_from_outcome_def)
qed

lemma persist_outcome_effect:
  assumes inv: "task_db_inv (st_tasks s)" and u: "find_task tid (st_tasks s) = Some u"
    and st: "task_status u = Running \<or> is_terminal (task_status u)" and oc: "outcome_ok oc"
  obtains r s' where "persist_outcome tid oc ws now s = (r, s')" and "persisted tid oc ws now u s r s'"
proof -
  let ?st = "exec_task_status (oc_status oc)"
  obtain db rows where app: "for_each (append_output tid now) (oc_events oc) (st_tasks s) = (Inr (), db)"
    and db: "task_db_inv db" "db_tasks db = db_tasks (st_tasks s)"
    and ev: "events_of tid db = events_of tid (st_tasks s) @ rows"
      "output_pairs rows = map (\<lambda>e. (oe_kind e, oe_payload e)) (oc_events oc)"
    using append_outputs [OF inv u, of "oc_events oc" now] oc by (auto simp: outcome_ok_def)
  have u': "find_task tid db = Some u" using u db(2) by (simp add: find_task_def)
  show ?thesis
  proof (cases "task_status u = Running \<or> task_status u = ?st")
    case True
    obtain v db1 where v: "transition tid ?st (outcome_payload oc) now db = (Inr v, db1)"
      "find_task tid db1 = Some v" "task_status v = ?st" "task_db_inv db1"
      "\<exists>more. events_of tid db1 = events_of tid db @ more"
    proof (cases "task_status u = Running")
      case run: True
      then have allowed: "allowed_transition (task_status u) ?st"
        by (cases "oc_status oc") (simp_all add: allowed_transition_def)
      have "events_wf db" using db(1) by (simp add: task_db_inv_def)
      note eff = transition_effect [OF this u' allowed, of "outcome_payload oc" now]
      have "\<exists>more. events_of tid (transition_db tid ?st (outcome_payload oc) now db) = events_of tid db @ more"
        by (simp add: transition_db_def Let_def log_event_events)
      then show ?thesis
        using that [OF eff] step_to [OF db(1) u' allowed, of "outcome_payload oc" now] by simp
    next
      case False
      with True have "task_status u = ?st" by simp
      with that [OF transition_idempotent [OF u' this]] u' db(1) show ?thesis by simp
    qed
    define res where "res = result_from_outcome v oc ws now"
    define db2 where "db2 = snd (save_execution_result res db1)"
    note save = save_execution_effect [OF v(4,2) res_def refl]
    have "persist_outcome tid oc ws now s =
        (Inr (v\<lparr>task_result := Some res, task_updated_at := now\<rparr>), s\<lparr>st_tasks := db2\<rparr>)"
      using app v(1) save(1)
      by (simp add: persist_outcome_def on_tasks_eq and_then_def [of "for_each f xs" for f xs]
          and_then_def [of "transition a b c d" for a b c d] map_err_def r_map_err_def db2_def)
    moreover have "persisted tid oc ws now u s (Inr (v\<lparr>task_result := Some res, task_updated_at := now\<rparr>))
        (s\<lparr>st_tasks := db2\<rparr>)"
    proof -
      have "\<exists>more. events_of tid db2 = events_of tid (st_tasks s) @ rows @ more"
        using v(5) ev(1) save(4) by (auto simp: db2_def)
      with True v(3) ev(2) save(2,3,5) show ?thesis
        unfolding persisted_def Let_def db2_def by auto
    qed
    ultimately show ?thesis by (rule that)
  next
    case False
    with st have "validate_transition (task_status u) ?st = Inl AlreadyTerminal"
      by (auto simp: validate_transition_def)
    from transition_Inl [OF u' this, of "outcome_payload oc" now] app
    have "persist_outcome tid oc ws now s = (Inl (ExTask TvTaskAlreadyTerminal), s\<lparr>st_tasks := db\<rparr>)"
      by (simp add: persist_outcome_def on_tasks_eq and_then_def map_err_def r_map_err_def)
    moreover have "persisted tid oc ws now u s (Inl (ExTask TvTaskAlreadyTerminal)) (s\<lparr>st_tasks := db\<rparr>)"
      using False u' db(1) ev by (auto simp: persisted_def Let_def)
    ultimately show ?thesis by (rule that)
  qed
qed

lemma persisted_unlocked:
  assumes "persisted tid oc ws now u s r s'" and "task_status u = Running \<or> is_terminal (task_status u)"
  shows "\<forall>l \<in> set (db_locks (st_tasks s')). held l \<longrightarrow> lk_task_id l \<noteq> tid"
proof -
  have "\<exists>t. find_task tid (st_tasks s') = Some t \<and> is_terminal (task_status t)"
    using assms by (auto simp: persisted_def Let_def split: if_splits)
  moreover have "locks_owned (st_tasks s')" using assms(1) by (simp add: persisted_def task_db_inv_def)
  ultimately show ?thesis unfolding locks_owned_def by fastforce
qed

lemma started_task_running:
  assumes inv: "task_db_inv (st_tasks s)" and "start_task w config tid now s = (Inr x, s1)"
  shows "task_db_inv (st_tasks s1) \<and> (\<exists>t. find_task tid (st_tasks s1) = Some t \<and> task_status t = Running)"
proof -
  from assms(2) obtain t a g m rv exe ws where "task_id t = tid" "startable w config s t a g m rv exe ws"
    and s1: "s1 = s\<lparr>st_tasks := started_db t g now (st_tasks s)\<rparr>"
    by (cases rule: start_task_cases [OF inv, of w config tid now]) auto
  then have "find_task tid (st_tasks s) = Some t" "locked_start t g (st_tasks s) \<or> lock_free_start t g"
    by (auto simp: startable_def)
  from started_db_step [OF inv this, of now] obtain u where "task_db_inv (started_db t g now (st_tasks s))"
    "find_task tid (started_db t g now (st_tasks s)) = Some u" "task_status u = Running" .
  then show ?thesis by (simp add: s1)
qed

lemma running_moves:
  assumes "allowed_transition\<^sup>*\<^sup>* Running st"
  shows "st = Running \<or> is_terminal st"
  using assms
proof (induction rule: rtranclp_induct)
  case (step y z)
  then show ?case by (cases y; cases z) (simp_all add: allowed_transition_def)
qed simp

section \<open>A concrete world\<close>

definition demo_stores :: stores where
  "demo_stores = \<lparr> st_tasks = demo_created, st_agents = \<lparr>at_rows = [demo_agent]\<rparr>, st_grants = demo_grants \<rparr>"

definition demo_runtime :: runtime_view where
  "demo_runtime = available_with_kind ''codex'' LocalCli ''/usr/bin/codex'' (Some ''1.0'') ''t0''"

definition demo_outcome :: runtime_execution_outcome where
  "demo_outcome = outcome_completed (Some 0) (output_events ''done'' [])"

definition demo_world :: exec_world where
  "demo_world = \<lparr> xw_is_file = (\<lambda>_. True), xw_providers_dir = ''/r'', xw_listing = Inr [demo_entry],
     xw_runtimes = runtime_save demo_runtime [], xw_preparer = fake_workspace_preparer ''/w'',
     xw_adapter = (\<lambda>ad req s. (demo_outcome, s)) \<rparr>"

lemma demo_manifest_of: "manifest_of demo_world ''codex'' = Inr demo_manifest"
proof -
  have "registry_get \<lparr>rg_providers = [demo_provider]\<rparr> ''codex'' = Some demo_provider"
    by (simp add: registry_get_def demo_provider_def entry_of_def demo_manifest_def)
  moreover have "pe_manifest demo_provider = demo_manifest"
    by (simp add: demo_provider_def entry_of_def)
  ultimately show ?thesis
    by (simp add: manifest_of_def demo_world_def demo_registry r_then_def r_map_err_def ok_or_def)
qed

lemma demo_runtime_of: "runtime_of demo_world ''codex'' IntegrationCli = Inr (demo_runtime, ''/usr/bin/codex'')"
  by (simp add: runtime_of_def demo_world_def runtime_get_def runtime_save_def demo_runtime_def
      available_with_kind_def runtime_available_def r_then_def ok_or_def)

lemma demo_resolved:
  "resolved demo_world demo_stores demo_task demo_agent demo_grant demo_manifest demo_runtime ''/usr/bin/codex''"
proof -
  have "find_agent ''agent'' (st_agents demo_stores) = Some demo_agent"
    by (simp add: demo_stores_def find_agent_def demo_agent_def demo_agent_input_def into_profile_def)
  moreover have "find_grant ''dir_1'' (st_grants demo_stores) = Some demo_grant"
    by (simp add: demo_stores_def find_grant_def grant_rows_def demo_grants_def demo_grant_def)
  moreover have "ap_provider_id demo_agent = ''codex''"
    by (simp add: demo_agent_def demo_agent_input_def into_profile_def)
  moreover have "pm_integration_type demo_manifest = IntegrationCli" by (simp add: demo_manifest_def)
  moreover have "task_agent_id demo_task = ''agent''" "task_directory_id demo_task = ''dir_1''"
    by (simp_all add: demo_task_def new_task_def demo_input_def)
  ultimately show ?thesis by (simp add: resolved_def demo_manifest_of demo_runtime_of)
qed

definition demo_workspace :: prepared_workspace where
  "demo_workspace = the (fake_workspace_preparer ''/w'' ''task_1'' demo_grant Worktree)"

lemma demo_startable:
  "startable demo_world default_scheduler_config demo_stores demo_task demo_agent demo_grant demo_manifest
     demo_runtime ''/usr/bin/codex'' demo_workspace"
proof -
  have tasks: "st_tasks demo_stores = demo_created" by (simp add: demo_stores_def)
  have "active_count demo_created = 0" "db_locks demo_created = []"
    by (simp_all add: active_count_def demo_created_eq active_def) (simp add: empty_task_db_def)
  then have "active_count (st_tasks demo_stores) < sg_max_concurrent_tasks default_scheduler_config"
    "locked_start demo_task demo_grant (st_tasks demo_stores)"
    by (simp_all add: tasks default_scheduler_config_def locked_start_def lock_conflict_def active_locks_def)
      (simp add: demo_grant_def)
  moreover have "task_id demo_task = ''task_1''" "task_workspace_mode demo_task = Worktree"
    by (simp_all add: demo_task_def) (simp add: new_task_def demo_input_def unwrap_or_def)
  moreover have "xw_preparer demo_world ''task_1'' demo_grant Worktree = Some demo_workspace"
    by (simp add: demo_world_def demo_workspace_def fake_workspace_preparer_def Let_def)
  ultimately show ?thesis
    using demo_resolved demo_created_task by (simp add: startable_def tasks)
qed

lemma demo_stores_reachable: "task_reachable (st_tasks demo_stores)"
  by (simp add: demo_stores_def demo_created_reachable)

section \<open>Properties\<close>

text \<open>
  C19. Admission: \<open>enqueue_task\<close> stores a task if and only if the request is valid, the grant and the
  profile exist, the profile belongs to the product, no override differs from the profile, the
  workspace mode is granted and allowed, and the grant authorises the request. A refused request
  changes nothing. The stored task is new and queued and takes provider, model and permission mode
  from the profile.
\<close>

theorem task_admission:
  assumes "task_reachable (st_tasks s)"
  shows "case enqueue_task input now s of
      (Inl e, s') \<Rightarrow> s' = s \<and> (\<forall>mode g a. \<not> admissible input mode g a s)
    | (Inr t, s') \<Rightarrow> \<exists>mode g a. admissible input mode g a s \<and>
        st_agents s' = st_agents s \<and> st_grants s' = st_grants s \<and>
        find_task (task_id t) (st_tasks s) = None \<and> find_task (task_id t) (st_tasks s') = Some t \<and>
        task_status t = Queued \<and> task_workspace_mode t = mode \<and>
        task_provider_id t = ap_provider_id a \<and> task_model t = ap_model a \<and>
        task_permission_mode t = cf_permission_mode (ap_provider_config a) \<and>
        task_required_capabilities t = required_capabilities input"
proof (cases rule: enqueue_cases [of input now s])
  case (1 e)
  then show ?thesis by simp
next
  case (2 mode g a)
  let ?in = "admitted_input input mode a" and ?db = "st_tasks s"
  let ?tid = "task_row_id (Suc (length (db_tasks ?db)))"
  have wf: "tasks_wf ?db" using task_reachable_parts [OF assms] by blast
  have req: "required_capabilities ?in = required_capabilities input"
    by (simp add: required_capabilities_def admitted_input_def)
  note enqueue_effect [OF task_reachable_inv [OF assms] 2(1) refl refl, of now]
  moreover have "find_task ?tid (?db\<lparr>db_tasks := db_tasks ?db @ [new_task ?in ?tid now]\<rparr>) = Some (new_task ?in ?tid now)"
    using insert_task_found [OF wf refl, of "new_task ?in ?tid now"] by simp
  moreover note fresh_task_id [OF wf]
  ultimately show ?thesis using 2(1) req
    by (auto simp: new_task_def admitted_input_def unwrap_or_def)
qed

lemma demo_admissible: "admissible demo_input Worktree demo_grant demo_agent demo_stores"
proof -
  have "find_agent (ct_agent_id demo_input) (st_agents demo_stores) = Some demo_agent"
    "find_grant (ct_directory_id demo_input) (st_grants demo_stores) = Some demo_grant"
    using demo_resolved by (simp_all add: resolved_def demo_task_def new_task_def demo_input_def)
  moreover have "select_workspace_mode (ct_workspace_mode demo_input) demo_grant
      (ct_direct_mode_task_opt_in demo_input) = Inr Worktree"
    by (simp add: select_workspace_mode_Inr demo_input_def demo_grant_def unwrap_or_def)
  moreover have "overrides_ok demo_input demo_agent"
    by (simp add: overrides_ok_def demo_input_def)
  moreover have "ap_owner_product_id demo_agent = ct_owner_product_id demo_input"
    by (simp add: demo_agent_def demo_agent_input_def into_profile_def demo_input_def)
  moreover have "grant_authorize demo_grant (auth_request demo_input Worktree) = Inr ()"
    by (simp add: grant_authorize_Inr auth_request_def demo_grant_def demo_input_def required_capabilities_def
        approved_by_scope_def unwrap_or_def)
  ultimately show ?thesis by (simp add: admissible_def demo_input_valid)
qed

theorem task_admission_witness:
  "\<exists>t s'. enqueue_task demo_input ''t9'' demo_stores = (Inr t, s') \<and> task_status t = Queued \<and>
     find_task (task_id t) (st_tasks s') = Some t"
  using task_admission [OF demo_stores_reachable, of demo_input "''t9''"] demo_admissible
  by (auto split: prod.splits sum.splits)

text \<open>
  C16. When an execution starts: \<open>start_task\<close> succeeds if and only if profile, grant, manifest and an
  available runtime are found, fewer tasks than the limit are active, the workspace can be prepared,
  and either the directory locks, the task is queued and no conflicting lock is held, or the
  directory does not lock and the task has left the queue.
\<close>

theorem execution_starts_exactly:
  assumes "task_reachable (st_tasks s)"
  shows "(\<exists>x s'. start_task w config tid now s = (Inr x, s')) \<longleftrightarrow>
    (\<exists>t a g m rv exe ws. task_id t = tid \<and> startable w config s t a g m rv exe ws)"
proof
  have inv: "task_db_inv (st_tasks s)" using assms by (rule task_reachable_inv)
  { assume "\<exists>x s'. start_task w config tid now s = (Inr x, s')"
    then show "\<exists>t a g m rv exe ws. task_id t = tid \<and> startable w config s t a g m rv exe ws"
      by (cases rule: start_task_cases [OF inv, of w config tid now]) (simp_all, blast) }
  { assume "\<exists>t a g m rv exe ws. task_id t = tid \<and> startable w config s t a g m rv exe ws"
    then obtain t a g m rv exe ws where tid: "task_id t = tid" and st: "startable w config s t a g m rv exe ws"
      by blast
    then have t: "find_task tid (st_tasks s) = Some t" and r: "resolved w s t a g m rv exe"
      and room: "active_count (st_tasks s) < sg_max_concurrent_tasks config"
      and start: "locked_start t g (st_tasks s) \<or> lock_free_start t g"
      and ws: "xw_preparer w tid g (task_workspace_mode t) = Some ws"
      by (auto simp: startable_def)
    from start show "\<exists>x s'. start_task w config tid now s = (Inr x, s')"
    proof
      assume "locked_start t g (st_tasks s)"
      from start_task_locked [OF inv t r room this] ws show ?thesis by simp
    next
      assume free: "lock_free_start t g"
      then have "dg_lock_policy g = PolicyNone" by (simp add: lock_free_start_def)
      from start_task_free [OF inv t r room this] start_live free ws show ?thesis by fastforce
    qed }
qed

theorem execution_starts_exactly_witness:
  "\<exists>x s'. start_task demo_world default_scheduler_config ''task_1'' ''t9'' demo_stores = (Inr x, s')"
proof -
  have "task_id demo_task = ''task_1''" by (simp add: demo_task_def)
  with demo_startable execution_starts_exactly [OF demo_stores_reachable, of demo_world default_scheduler_config
      "''task_1''" "''t9''"] show ?thesis by blast
qed

text \<open>
  C15. What a started execution has: the task is running and is the one the adapter is given, with the
  stored grant and the prepared workspace; at most the configured number of tasks is active; on a
  locking directory the task was queued and now holds the lock its capabilities need; no other task
  changed.
\<close>

theorem execution_start_state:
  assumes "task_reachable (st_tasks s)" and "start_task w config tid now s = (Inr (ad, req), s')"
  shows "\<exists>t. find_task tid (st_tasks s) = Some t \<and> task_status (xr_task req) = Running \<and>
    find_task tid (st_tasks s') = Some (xr_task req) \<and>
    find_grant (task_directory_id t) (st_grants s) = Some (xr_directory_grant req) \<and>
    xw_preparer w tid (xr_directory_grant req) (task_workspace_mode t) = Some (xr_workspace req) \<and>
    active_count (st_tasks s') \<le> sg_max_concurrent_tasks config \<and>
    (\<forall>j. j \<noteq> tid \<longrightarrow> find_task j (st_tasks s') = find_task j (st_tasks s)) \<and>
    (dg_lock_policy (xr_directory_grant req) \<noteq> PolicyNone \<longrightarrow> task_status t = Queued \<and>
       (\<exists>l \<in> set (db_locks (st_tasks s')). held l \<and> lk_task_id l = tid \<and>
          lk_directory_id l = task_directory_id t \<and>
          lk_mode l = mode_for_capabilities (task_required_capabilities t)
            (dg_lock_policy (xr_directory_grant req))))"
proof -
  have inv: "task_db_inv (st_tasks s)" using assms(1) by (rule task_reachable_inv)
  from assms(2) obtain t a g m rv exe ws where tid: "task_id t = tid"
    and st: "startable w config s t a g m rv exe ws"
    and req: "req = request_of config t (the (find_task tid (started_db t g now (st_tasks s)))) a g m rv exe ws"
    and s': "s' = s\<lparr>st_tasks := started_db t g now (st_tasks s)\<rparr>"
    by (cases rule: start_task_cases [OF inv, of w config tid now]) auto
  then have t: "find_task tid (st_tasks s) = Some t" and r: "resolved w s t a g m rv exe"
    and start: "locked_start t g (st_tasks s) \<or> lock_free_start t g"
    by (auto simp: startable_def)
  obtain u where u: "find_task tid (started_db t g now (st_tasks s)) = Some u" "task_status u = Running"
    using started_db_step [OF inv t start] by metis
  have "active_count (started_db t g now (st_tasks s)) \<le> sg_max_concurrent_tasks config"
    using active_count_started [OF inv t start, of now] st by (simp add: startable_def)
  moreover have "dg_lock_policy g \<noteq> PolicyNone \<Longrightarrow> locked_start t g (st_tasks s)"
    using start by (auto simp: lock_free_start_def)
  ultimately show ?thesis
    using t r u st tid started_db_holds [of t g "st_tasks s" now] find_started_other [OF t]
    by (auto simp: req s' request_of_def resolved_def startable_def locked_start_def)
qed

theorem execution_start_state_witness:
  "\<exists>req s'. fst (start_task demo_world default_scheduler_config ''task_1'' ''t9'' demo_stores) = Inr (CliAdapter, req) \<and>
     task_status (xr_task req) = Running"
proof -
  have t: "find_task ''task_1'' (st_tasks demo_stores) = Some demo_task"
    and r: "locked_start demo_task demo_grant (st_tasks demo_stores)"
      "active_count (st_tasks demo_stores) < sg_max_concurrent_tasks default_scheduler_config"
      "xw_preparer demo_world ''task_1'' demo_grant (task_workspace_mode demo_task) = Some demo_workspace"
    using demo_startable by (simp_all add: startable_def lock_free_start_def demo_task_def demo_grant_def)
  have "the_adapter demo_manifest = CliAdapter" by (simp add: the_adapter_def demo_manifest_def)
  with start_task_locked [OF task_reachable_inv [OF demo_stores_reachable] t demo_resolved r(2,1), of "''t9''"] r(3)
  obtain req s' where st: "start_task demo_world default_scheduler_config ''task_1'' ''t9'' demo_stores =
      (Inr (CliAdapter, req), s')" by auto
  with execution_start_state [OF demo_stores_reachable st] show ?thesis by auto
qed

text \<open>
  C18. A failed start is contained: profiles, grants and every other task stay as they are, and the
  task itself keeps its status, or moves from the queue to waiting for its directory, or, when the
  workspace cannot be prepared, ends as failed and holds no lock.
\<close>

theorem failed_start_contained:
  assumes "task_reachable (st_tasks s)" and "start_task w config tid now s = (Inl e, s')"
    and "find_task tid (st_tasks s) = Some t"
  shows "st_agents s' = st_agents s \<and> st_grants s' = st_grants s \<and>
    (\<forall>j. j \<noteq> tid \<longrightarrow> find_task j (st_tasks s') = find_task j (st_tasks s)) \<and>
    (\<exists>t'. find_task tid (st_tasks s') = Some t' \<and>
       (t' = t \<or>
        task_status t = Queued \<and> task_status t' = WaitingDirectoryLock \<and> e = ExTask TvDirectoryLockConflict \<or>
        task_status t' = Failed \<and> e = ExTask TvWorkspaceModeNotAllowed \<and>
        (\<forall>l \<in> set (db_locks (st_tasks s')). held l \<longrightarrow> lk_task_id l \<noteq> tid)))"
proof -
  have inv: "task_db_inv (st_tasks s)" using assms(1) by (rule task_reachable_inv)
  show ?thesis
  proof (cases rule: start_task_cases [OF inv, of w config tid now])
    case unprepared: (4 db u)
    have "allowed_transition (task_status u) Failed" using unprepared(3) by (auto simp: allowed_transition_def)
    note step = step_to [OF unprepared(1,2) this, of "error_payload ''workspace preparation failed''" now]
    have "\<forall>l \<in> set (db_locks (failed_db tid now db)). held l \<longrightarrow> lk_task_id l \<noteq> tid"
      using release_held_iff by (fastforce simp: failed_db_def transition_db_locks)
    with unprepared assms(2) step(2) show ?thesis
      by (auto simp: failed_db_def find_transition_other)
  qed (use assms in \<open>auto simp: find_transition_other transition_db_find\<close>)
qed

theorem failed_start_contained_witness:
  "\<exists>e s'. start_task (demo_world\<lparr>xw_preparer := failing_workspace_preparer\<rparr>) default_scheduler_config
      ''task_1'' ''t9'' demo_stores = (Inl e, s') \<and> st_grants s' = st_grants demo_stores"
proof -
  let ?w = "demo_world\<lparr>xw_preparer := failing_workspace_preparer\<rparr>"
  have t: "find_task ''task_1'' (st_tasks demo_stores) = Some demo_task"
    using demo_startable by (simp add: startable_def demo_task_def)
  have "\<not> (\<exists>x s'. start_task ?w default_scheduler_config ''task_1'' ''t9'' demo_stores = (Inr x, s'))"
  proof -
    have "\<not> startable ?w default_scheduler_config demo_stores t a g m rv exe ws" for t a g m rv exe ws
      by (simp add: startable_def failing_workspace_preparer_def)
    then show ?thesis
      by (cases rule: start_task_cases [OF task_reachable_inv [OF demo_stores_reachable],
            of ?w default_scheduler_config "''task_1''" "''t9''"]) auto
  qed
  then obtain e s' where "start_task ?w default_scheduler_config ''task_1'' ''t9'' demo_stores = (Inl e, s')"
    by (metis old.sum.exhaust surj_pair)
  with failed_start_contained [OF demo_stores_reachable this t] show ?thesis by blast
qed



section \<open>Adapters\<close>

text \<open>
  Both adapters return an outcome the scheduler can persist, whatever the command or the remote
  endpoint does: its events are output of the process, and it carries an error if and only if it did
  not complete.
\<close>

theorem adapter_outcomes_ok: "outcome_ok (cli_execute w r) \<and> outcome_ok (http_execute h r)"
  using cli_execute_ok http_execute_ok by blast


text \<open>
  The text of an output event is bounded: however much a command prints, the text stored for a
  stream has at most three times \<open>MAX_EVENT_BYTES\<close> bytes, and bytes that are all ASCII within the
  limit are stored unchanged.
\<close>

theorem output_text_bounded:
  "length (capped_text bytes) \<le> 3 * MAX_EVENT_BYTES \<and>
   (length bytes \<le> MAX_EVENT_BYTES \<and> list_all (\<lambda>c. byte c < 128) bytes \<longrightarrow> capped_text bytes = bytes)"
proof
  have "length (capped_text bytes) \<le> 3 * length (take (min (length bytes) MAX_EVENT_BYTES) bytes)"
    unfolding capped_text_def by (rule from_utf8_lossy_length)
  then show "length (capped_text bytes) \<le> 3 * MAX_EVENT_BYTES" by simp
  show "length bytes \<le> MAX_EVENT_BYTES \<and> list_all (\<lambda>c. byte c < 128) bytes \<longrightarrow> capped_text bytes = bytes"
    by (simp add: capped_text_def min_absorb1 from_utf8_lossy_ascii)
qed

theorem output_text_bounded_example: "capped_text ''done'' = ''done''"
  using output_text_bounded [of "''done''"] by (simp add: MAX_EVENT_BYTES_def byte_def)

text \<open>
  Rendering a command template is substitution: on a template printed from literals and
  placeholders, the renderer returns the concatenation of the literals and of the values of the
  placeholders, trimmed names looked up, or the error of the first placeholder that has no value.
\<close>

lemma template_rendering:
  assumes "list_all part_ok ps"
  shows "render_template vs (print_template ps) = eval_template vs ps"
  using assms by (rule render_parts)

lemma template_rendering_example:
  "render_template \<lparr> tv_prompt = Some ''hi'', tv_model = None, tv_workspace = None, tv_task_id = None,
      tv_agent_id = None, tv_directory_id = None \<rparr> ''-p={{ prompt }}'' = Inr ''-p=hi''"
  using template_rendering [of "[Literal ''-p='', Variable '' prompt '']"
      "\<lparr> tv_prompt = Some ''hi'', tv_model = None, tv_workspace = None, tv_task_id = None,
         tv_agent_id = None, tv_directory_id = None \<rparr>"]
  by (simp add: resolve_variable_def r_then_def ok_or_def string_eval)

end
