(* ===== verification/Event_Service.thy ===== *)
theory Event_Service
  imports Task_History
begin

text \<open>
  \<open>TaskEventService\<close> of \<open>src/src/task/service.rs\<close>: cursors, the stream of a task's events to one
  subscriber, and the hand-over of permission decisions to the adapter that waits for them.

  A stream is the record \<open>task_stream\<close>. Its task runs concurrently with everything else, so it is a
  transition system: opening takes three reads of the store, between which other calls may run, and
  afterwards the stream takes one event off its broadcast receiver at a time. The receiver is a
  position in the sequence of events sent; a receiver that is more than 256 events behind is told so
  and continues at the oldest event that is kept.
\<close>

section \<open>Cursors\<close>

datatype task_event_service_error =
    InvalidCursor
  | InvalidEventRequest
  | InvalidPermissionDecision
  | PermissionResponseNotSupported
  | StorePayload string
  | TaskError task_store_error

text \<open>\<open>str::parse::<i64>\<close>: an optional sign, then at least one digit, and the value in range.\<close>

definition parse_i64 :: "string \<Rightarrow> int option" where
  "parse_i64 s =
     (let (sign, digits) = (case s of
            [] \<Rightarrow> (1, [])
          | c # cs \<Rightarrow> if c = CHR ''-'' then (- 1, cs) else if c = CHR ''+'' then (1, cs) else (1, s));
          v = sign * int (read_nat digits)
      in if digits \<noteq> [] \<and> list_all is_digit digits \<and> - (2 ^ 63) \<le> v \<and> v < 2 ^ 63 then Some v else None)"

definition parse_cursor ::
  "string option \<Rightarrow> string option \<Rightarrow> task_event_service_error + int" where
  "parse_cursor cursor last_event_id =
     (let raw = unwrap_or (case cursor of None \<Rightarrow> last_event_id | Some c \<Rightarrow> Some c) ''0'' in
      case parse_i64 raw of
        None \<Rightarrow> Inl InvalidCursor
      | Some v \<Rightarrow> if 0 \<le> v then Inr v else Inl InvalidCursor)"

section \<open>Streams\<close>

datatype task_stream_frame = FrameEvent task_event | FrameHeartbeat

definition BROADCAST_CAPACITY :: nat where
  "BROADCAST_CAPACITY = 256"

record task_stream =
  sm_task :: string
  sm_highest :: nat
  sm_position :: nat
  sm_frames :: "task_stream_frame list"
  sm_open :: bool
  sm_lagged :: bool

text \<open>
  The body of the loops over events: an event of another task or one that was sent already is skipped,
  any other is sent, and a terminal one ends the stream.
\<close>

definition forward :: "task_event \<Rightarrow> task_stream \<Rightarrow> task_stream" where
  "forward e st =
     (if ev_task_id e \<noteq> sm_task st \<or> ev_sequence e \<le> sm_highest st then st
      else st\<lparr> sm_highest := ev_sequence e, sm_frames := sm_frames st @ [FrameEvent e],
               sm_open := \<not> is_terminal_event_type (ev_event_type e) \<rparr>)"

fun forward_all :: "task_event list \<Rightarrow> task_stream \<Rightarrow> task_stream" where
  "forward_all [] st = st"
| "forward_all (e # es) st = (if sm_open st then forward_all es (forward e st) else st)"

text \<open>
  \<open>stream\<close>: the task is read in one state of the store, the receiver subscribes in a second and the
  replay is read in a third. The replay is sent before the loop begins.
\<close>

definition stream_open ::
  "string \<Rightarrow> nat \<Rightarrow> task_db \<Rightarrow> task_db \<Rightarrow> task_db \<Rightarrow> task_event_service_error + task_stream" where
  "stream_open tid cursor db0 db1 db2 =
     r_then (r_map_err TaskError (fst (get_task tid db0))) (\<lambda>t.
     r_then (r_map_err TaskError (fst (list_events_after tid cursor db2))) (\<lambda>replay.
     Inr \<lparr> sm_task = tid,
           sm_highest = (if replay = [] then cursor else ev_sequence (last replay)),
           sm_position = (case db_bus db1 of None \<Rightarrow> 0 | Some b \<Rightarrow> length (bus_sent b)),
           sm_frames = map FrameEvent replay,
           sm_open = (\<not> is_terminal (task_status t) \<and>
             \<not> (replay \<noteq> [] \<and> is_terminal_event_type (ev_event_type (last replay)))),
           sm_lagged = False \<rparr>))"

text \<open>\<open>live.recv()\<close> returned an event.\<close>

definition stream_recv :: "task_event_bus \<Rightarrow> task_stream \<Rightarrow> task_stream" where
  "stream_recv b st = forward (bus_sent b ! sm_position st) (st\<lparr> sm_position := Suc (sm_position st) \<rparr>)"

text \<open>\<open>live.recv()\<close> returned \<open>Lagged\<close>; the events are read from the store afterwards.\<close>

definition stream_lag :: "task_event_bus \<Rightarrow> task_stream \<Rightarrow> task_stream" where
  "stream_lag b st = st\<lparr> sm_position := length (bus_sent b) - BROADCAST_CAPACITY, sm_lagged := True \<rparr>"

definition stream_resync :: "task_db \<Rightarrow> task_stream \<Rightarrow> task_stream" where
  "stream_resync db st =
     (case fst (list_events_after (sm_task st) (sm_highest st) db) of
        Inl e \<Rightarrow> st\<lparr> sm_open := False \<rparr>
      | Inr es \<Rightarrow> forward_all es (st\<lparr> sm_lagged := False \<rparr>))"

definition stream_heartbeat :: "task_stream \<Rightarrow> task_stream" where
  "stream_heartbeat st = st\<lparr> sm_frames := sm_frames st @ [FrameHeartbeat] \<rparr>"

text \<open>The subscriber went away: the next \<open>send\<close> fails.\<close>

definition stream_dropped :: "task_stream \<Rightarrow> task_stream" where
  "stream_dropped st = st\<lparr> sm_open := False \<rparr>"

text \<open>One step of the daemon with one stream: any call on the store, or one step of the stream.\<close>

inductive stream_step :: "task_db \<times> task_stream \<Rightarrow> task_db \<times> task_stream \<Rightarrow> bool" where
  on_store: "store_step db db' \<Longrightarrow> stream_step (db, st) (db', st)"
| on_recv: "sm_open st \<Longrightarrow> \<not> sm_lagged st \<Longrightarrow> db_bus db = Some b \<Longrightarrow>
    sm_position st < length (bus_sent b) \<Longrightarrow>
    length (bus_sent b) - sm_position st \<le> BROADCAST_CAPACITY \<Longrightarrow>
    stream_step (db, st) (db, stream_recv b st)"
| on_lag: "sm_open st \<Longrightarrow> \<not> sm_lagged st \<Longrightarrow> db_bus db = Some b \<Longrightarrow>
    BROADCAST_CAPACITY < length (bus_sent b) - sm_position st \<Longrightarrow>
    stream_step (db, st) (db, stream_lag b st)"
| on_resync: "sm_open st \<Longrightarrow> sm_lagged st \<Longrightarrow> stream_step (db, st) (db, stream_resync db st)"
| on_heartbeat: "sm_open st \<Longrightarrow> \<not> sm_lagged st \<Longrightarrow> stream_step (db, st) (db, stream_heartbeat st)"
| on_dropped: "sm_open st \<Longrightarrow> stream_step (db, st) (db, stream_dropped st)"

definition sent_events :: "task_stream \<Rightarrow> task_event list" where
  "sent_events st = List.map_filter (\<lambda>f. case f of FrameEvent e \<Rightarrow> Some e | FrameHeartbeat \<Rightarrow> None) (sm_frames st)"

section \<open>Permission decisions\<close>

record permission_response_request =
  pw_request_id :: string
  pw_decision :: permission_decision
  pw_reason :: "string option"

text \<open>
  \<open>await_permission_decision\<close> either has the answer at once or waits on a channel. The request is read
  in one state of the store and the waiter registered in another.
\<close>

datatype awaited = Decided permission_decision_event | Waits nat

definition await_lookup ::
  "string \<Rightarrow> string \<Rightarrow> task_db \<Rightarrow> task_event_service_error + permission_decision_event option" where
  "await_lookup tid rid db =
     r_then (r_map_err TaskError (fst (get_permission_request tid rid db))) (\<lambda>q.
     if prr_status q \<noteq> Pending then
       r_then (ok_or (TaskError PermissionRequestNotPending) (prr_response q)) (\<lambda>d. Inr (Some d))
     else Inr None)"

definition await_permission_decision ::
  "string \<Rightarrow> string \<Rightarrow> task_event_bus \<Rightarrow> task_db \<Rightarrow> (task_event_service_error + awaited) \<times> task_event_bus" where
  "await_permission_decision tid rid b db =
     (case await_lookup tid rid db of
        Inl e \<Rightarrow> (Inl e, b)
      | Inr (Some d) \<Rightarrow> (Inr (Decided d), b)
      | Inr None \<Rightarrow> (case register_waiter tid rid b of (ch, b') \<Rightarrow> (Inr (Waits ch), b')))"

text \<open>The service always has a bus, the one its store publishes on.\<close>

definition resolve_permission_response ::
  "string \<Rightarrow> permission_response_request \<Rightarrow> string \<Rightarrow>
   (task_db, task_event_service_error, permission_resolution) op" where
  "resolve_permission_response tid response now =
     and_then (map_err TaskError (get_permission_request tid (pw_request_id response))) (\<lambda>existing.
     and_then (reads (\<lambda>db. Inr (is_some_and (db_bus db) (has_waiter tid (pw_request_id response))))) (\<lambda>waiting.
     if prr_status existing = Pending \<and> \<not> waiting then err PermissionResponseNotSupported
     else
     and_then (map_err TaskError (resolve_permission_request tid (pw_request_id response)
                 (pw_decision response) (pw_reason response) now)) (\<lambda>resolution.
     and_then (lift_r (ok_or (StorePayload ''invalid decision payload'')
                 (decision_event_from_value (ev_payload (rs_event resolution))))) (\<lambda>decided.
     and_then (if rs_duplicated resolution then ok ()
               else modify (publish_db (rs_event resolution))) (\<lambda>_.
     and_then (modify (\<lambda>db. db\<lparr> db_bus := map_option (notify_permission_resolution tid decided) (db_bus db) \<rparr>)) (\<lambda>_.
     ok resolution))))))"

end
