(* ===== verification/Stream_Props.thy ===== *)
theory Stream_Props
  imports Event_Service Task_Properties
begin

text \<open>
  Delivery of events to a subscriber. The events a stream still has to look at are the ones of its task
  beyond its position on the bus; \<open>accept\<close> picks those it will send. The invariant says that they are
  exactly the stored events it has not sent yet.
\<close>

section \<open>What every store call publishes\<close>

text \<open>
  A call adds to the log of a task exactly what it publishes for that task, or publishes stored events
  again without adding any.
\<close>

definition announces :: "task_db \<Rightarrow> task_db \<Rightarrow> bool" where
  "announces db db' \<longleftrightarrow>
     (\<forall>b. db_bus db = Some b \<longrightarrow>
       (\<exists>b' new. db_bus db' = Some b' \<and> bus_sent b' = bus_sent b @ new \<and>
         (\<forall>tid. \<exists>es. events_of tid db' = events_of tid db @ es \<and>
            (filter (\<lambda>e. ev_task_id e = tid) new = es \<or>
             es = [] \<and> set (filter (\<lambda>e. ev_task_id e = tid) new) \<subseteq> set (events_of tid db)))))"

lemma announces_quiet:
  "db_bus db' = db_bus db \<Longrightarrow> db_events db' = db_events db \<Longrightarrow> announces db db'"
  unfolding announces_def by (intro allI impI exI [of _ "[]"]) (auto simp: events_of_def intro!: exI [of _ "[]"])

lemma announces_log:
  assumes "db_bus d = db_bus db" and "db_events d = db_events db"
    and "db_bus x = db_bus (log_event tid ty p now d)" and "db_events x = db_events (log_event tid ty p now d)"
  shows "announces db x"
  unfolding announces_def
proof (intro allI impI)
  fix b
  assume b: "db_bus db = Some b"
  let ?e = "event_row tid (next_sequence tid d) ty p now"
  have "db_bus x = Some (bus_publish ?e b)"
    using assms b by (simp add: log_event_def Let_def publish_db_def add_event_def)
  moreover have "events_of j x = events_of j db @ (if j = tid then [?e] else [])" for j
    using assms(2,4) by (simp add: events_of_def log_event_events event_row_def)
  ultimately show "\<exists>b' new. db_bus x = Some b' \<and> bus_sent b' = bus_sent b @ new \<and>
      (\<forall>tid. \<exists>es. events_of tid x = events_of tid db @ es \<and>
        (filter (\<lambda>e. ev_task_id e = tid) new = es \<or>
         es = [] \<and> set (filter (\<lambda>e. ev_task_id e = tid) new) \<subseteq> set (events_of tid db)))"
    by (intro exI [of _ "bus_publish ?e b"] exI [of _ "[?e]"]) (simp add: bus_publish_def event_row_def)
qed

lemma announces_republish:
  assumes "db_bus db = Some b" and "e \<in> set (db_events db)"
  shows "announces db (db\<lparr>db_bus := Some (bus_publish e b)\<rparr>)"
  unfolding announces_def using assms
  by (intro allI impI exI [of _ "bus_publish e b"] exI [of _ "[e]"])
    (auto simp: bus_publish_def events_of_def intro!: exI [of _ "[]"])

lemma announces_waiters:
  assumes "db_bus db = Some b" and "bus_sent b' = bus_sent b"
  shows "announces db (db\<lparr>db_bus := Some b'\<rparr>)"
  unfolding announces_def using assms
  by (intro allI impI exI [of _ b'] exI [of _ "[]"]) (auto simp: events_of_def intro!: exI [of _ "[]"])

lemma announces_transition_db: "announces db (transition_db tid next p now db)"
  by (rule announces_log [of "update_task tid (apply_status next now) db"])
    (simp_all add: update_task_def transition_db_def Let_def)

lemma announces_create:
  assumes "tasks_wf db" and "events_wf db"
  shows "announces db (snd (create input now db))"
proof (cases "create_task_validate input")
  case (Inl e)
  then show ?thesis by (simp add: create_Inl announces_quiet)
next
  case (Inr u)
  define tid where "tid = task_row_id (Suc (length (db_tasks db)))"
  have "announces db (log_event tid EvQueued empty_object now
      (db\<lparr>db_tasks := db_tasks db @ [new_task input tid now]\<rparr>))"
    by (rule announces_log [OF _ _ refl refl]) simp_all
  with Inr show ?thesis by (simp add: create_effect [OF assms _ tid_def])
qed

lemma announces_record:
  assumes "events_wf db"
  shows "announces db (snd (record_permission_request tid q now db))"
proof (cases "find_task tid db")
  case None
  then show ?thesis by (simp add: record_missing announces_quiet)
next
  case (Some t)
  have "announces db (record_db tid q now db)"
    by (rule announces_log [OF refl refl]) (simp_all add: record_db_def)
  with Some assms show ?thesis
    by (cases "pq_request_id q \<in> prr_request_id ` set (db_requests db)")
      (simp_all add: record_duplicate record_effect announces_quiet)
qed

lemma announces_resolve:
  assumes wf: "events_wf db" "requests_wf db"
  shows "announces db (snd (resolve_permission_request tid rid dec reason now db))"
proof (cases "find_task tid db = None \<or> query_permission_request tid rid db = None")
  case True
  then show ?thesis by (cases "find_task tid db") (auto simp: resolve_missing announces_quiet)
next
  case False
  then obtain t q where t: "find_task tid db = Some t"
    and q: "query_permission_request tid rid db = Some q" by auto
  show ?thesis
  proof (cases "prr_status q = Pending")
    case True
    let ?d = "\<lparr>pd_request_id = rid, pd_decision = dec, pd_reason = reason\<rparr>"
    have "announces db (resolve_db tid ?d now db)"
      by (rule announces_log [OF refl refl]) (simp_all add: resolve_db_def)
    with t q wf show ?thesis by (simp add: resolve_pending_effect [OF wf(1) t q True refl refl])
  next
    case False
    then show ?thesis using resolve_again [OF wf t q False] announces_quiet by (metis snd_conv)
  qed
qed

lemma announces_transition: "events_wf db \<Longrightarrow> announces db (snd (transition tid next p now db))"
  by (rule transition_cases [of db tid "next" p now]) (simp_all add: announces_quiet announces_transition_db)

lemma announces_append:
  assumes "events_wf db"
  shows "announces db (snd (append_event tid ty p now db))"
  using assms announces_log [OF refl refl refl refl]
  by (cases "find_task tid db") (simp_all add: append_event_missing append_event_effect announces_quiet)

lemma announces_silent:
  "announces db (snd (save_result tid msg files now db))"
  "announces db (snd (save_execution_result res db))"
  "announces db (snd (acquire_lock r now db))"
  "announces db (snd (release_locks tid now db))"
  by (rule announces_quiet; cases "find_task tid db";
      simp add: save_result_def save_execution_result_def op_simps get_task_def update_task_def
        acquire_lock_eq insert_lock_def release_locks_def release_locks_tx_def)+

lemma store_step_announces:
  assumes "store_step db db'" and "task_db_inv db"
  shows "announces db db'"
  using assms
  by cases
    (auto simp: task_db_inv_def announces_create announces_transition announces_append announces_record
      announces_resolve announces_silent announces_republish register_waiter_def intro!: announces_waiters)

section \<open>What a stream will accept\<close>

fun accept :: "nat \<Rightarrow> task_event list \<Rightarrow> task_event list" where
  "accept h [] = []"
| "accept h (e # es) = (if ev_sequence e \<le> h then accept h es else e # accept (ev_sequence e) es)"

definition top :: "nat \<Rightarrow> task_event list \<Rightarrow> nat" where
  "top h es = fold (\<lambda>e h. max h (ev_sequence e)) es h"

lemma top_simps [simp]: "top h [] = h" "top h (e # es) = top (max h (ev_sequence e)) es"
  by (simp_all add: top_def)

lemma top_le: "(\<And>e. e \<in> set es \<Longrightarrow> ev_sequence e \<le> n) \<Longrightarrow> top h es \<le> max h n"
proof (induction es arbitrary: h)
  case (Cons e es)
  then have "top (max h (ev_sequence e)) es \<le> max (max h (ev_sequence e)) n" by simp
  then show ?case using Cons.prems [of e] by (simp add: max_def split: if_splits)
qed simp

lemma top_ge: "h \<le> top h es"
  by (induction es arbitrary: h) (auto intro: order_trans [OF max.cobounded1])

lemma top_accepted: "e \<in> set (accept h es) \<Longrightarrow> ev_sequence e \<le> top h es"
proof (induction es arbitrary: h)
  case (Cons f es)
  then show ?case
    by (cases "ev_sequence f \<le> h") (auto simp: max_def intro: order_trans [OF _ top_ge])
qed simp

lemma accept_append: "accept h (es @ fs) = accept h es @ accept (top h es) fs"
  by (induction es arbitrary: h) (auto simp: max_def)

lemma accept_old: "(\<And>e. e \<in> set es \<Longrightarrow> ev_sequence e \<le> h) \<Longrightarrow> accept h es = []"
  by (induction es) auto

section \<open>The invariant of a stream\<close>

definition unseen :: "task_db \<Rightarrow> task_stream \<Rightarrow> task_event list" where
  "unseen db st = (case db_bus db of None \<Rightarrow> []
     | Some b \<Rightarrow> filter (\<lambda>e. ev_task_id e = sm_task st) (drop (sm_position st) (bus_sent b)))"

definition stream_inv :: "string \<Rightarrow> nat \<Rightarrow> task_db \<Rightarrow> task_stream \<Rightarrow> bool" where
  "stream_inv tid cursor db st \<longleftrightarrow>
     task_db_inv db \<and> sm_task st = tid \<and>
     (\<exists>b. db_bus db = Some b \<and> sm_position st \<le> length (bus_sent b)) \<and>
     cursor \<le> sm_highest st \<and> sm_highest st \<le> max cursor (length (events_of tid db)) \<and>
     sent_events st = take (sm_highest st - cursor) (drop cursor (events_of tid db)) \<and>
     (sm_open st \<and> \<not> sm_lagged st \<longrightarrow>
        accept (sm_highest st) (unseen db st) = drop (sm_highest st) (events_of tid db))"

lemma stored_sequence:
  assumes "task_db_inv db" and "e \<in> set (events_of tid db)"
  shows "1 \<le> ev_sequence e" and "ev_sequence e \<le> length (events_of tid db)"
proof -
  have "ev_sequence e \<in> set (map ev_sequence (events_of tid db))" using assms(2) by simp
  also have "\<dots> = {Suc 0..<Suc (length (events_of tid db))}"
    using assms(1) events_numbered [of db tid] by (simp add: task_db_inv_def del: upt_Suc)
  finally show "1 \<le> ev_sequence e" and "ev_sequence e \<le> length (events_of tid db)" by auto
qed

lemma nth_sequence:
  assumes "task_db_inv db" and "i < length (events_of tid db)"
  shows "ev_sequence (events_of tid db ! i) = Suc i"
proof -
  have "map ev_sequence (events_of tid db) ! i = Suc i"
    using assms events_numbered [of db tid] by (simp add: task_db_inv_def nth_upt del: upt_Suc)
  with assms(2) show ?thesis by simp
qed

lemma unseen_stored:
  assumes "task_db_inv db" and "e \<in> set (unseen db st)"
  shows "e \<in> set (events_of (sm_task st) db)"
  using assms by (auto simp: unseen_def task_db_inv_def bus_wf_def events_of_def split: option.splits
      dest: in_set_dropD)

lemma top_unseen:
  assumes inv: "task_db_inv db" and acc: "accept h (unseen db st) = drop h (events_of (sm_task st) db)"
  shows "top h (unseen db st) = max h (length (events_of (sm_task st) db))"
proof (rule antisym)
  let ?n = "length (events_of (sm_task st) db)"
  show "top h (unseen db st) \<le> max h ?n"
    using unseen_stored [OF inv] stored_sequence [OF inv] by (intro top_le) blast
  show "max h ?n \<le> top h (unseen db st)"
  proof (cases "h < ?n")
    case True
    let ?e = "events_of (sm_task st) db ! (?n - 1)"
    have "drop h (events_of (sm_task st) db) ! (?n - 1 - h) = ?e"
      using True by (simp add: nth_drop)
    then have "?e \<in> set (accept h (unseen db st))"
      using True unfolding acc by (metis Suc_pred' diff_less_mono2 length_drop less_imp_diff_less
          nth_mem not_less_eq zero_less_diff diff_Suc_eq_diff_pred lessI)
    from top_accepted [OF this] have "?n \<le> top h (unseen db st)"
      using True nth_sequence [OF inv, of "?n - 1" "sm_task st"] by simp
    then show ?thesis using True by simp
  qed (simp add: top_ge max_absorb1)
qed

section \<open>The invariant is kept\<close>

lemma accept_numbered:
  "map ev_sequence es = [Suc n..<Suc n + length es] \<Longrightarrow> accept h es = drop (h - n) es"
proof (induction es arbitrary: n h)
  case (Cons e es)
  have seq: "ev_sequence e = Suc n" "map ev_sequence es = [Suc (Suc n)..<Suc (Suc n) + length es]"
    using Cons.prems by (simp_all add: upt_conv_Cons del: upt_Suc)
  show ?case
  proof (cases "h \<le> n")
    case True
    with seq Cons.IH [OF seq(2), of "Suc n"] show ?thesis by simp
  next
    case False
    then have "h - n = Suc (h - Suc n)" by simp
    with False seq Cons.IH [OF seq(2), of h] show ?thesis by simp
  qed
qed simp

lemma new_events_numbered:
  assumes "task_db_inv db'" and "events_of tid db' = events_of tid db @ es"
  shows "map ev_sequence es = [Suc (length (events_of tid db))..<Suc (length (events_of tid db)) + length es]"
proof -
  have "map ev_sequence (events_of tid db @ es) = [Suc 0..<Suc (length (events_of tid db) + length es)]"
    using assms events_numbered [of db' tid] by (simp add: task_db_inv_def del: upt_Suc)
  then have "drop (length (events_of tid db)) (map ev_sequence (events_of tid db @ es)) =
      drop (length (events_of tid db)) [Suc 0..<Suc (length (events_of tid db) + length es)]" by simp
  then show ?thesis by (simp add: drop_upt del: upt_Suc)
qed

lemma stream_inv_store:
  assumes inv: "stream_inv tid cursor db st" and step: "store_step db db'"
  shows "stream_inv tid cursor db' st"
proof -
  let ?E = "events_of tid db" and ?h = "sm_highest st" and ?c = cursor
  have db: "task_db_inv db" and tid: "sm_task st = tid" using inv by (simp_all add: stream_inv_def)
  obtain b where b: "db_bus db = Some b" "sm_position st \<le> length (bus_sent b)"
    using inv by (auto simp: stream_inv_def)
  have db': "task_db_inv db'" using step db by (rule store_step_inv)
  obtain b' new es where b': "db_bus db' = Some b'" "bus_sent b' = bus_sent b @ new"
    and E': "events_of tid db' = ?E @ es"
    and new: "filter (\<lambda>e. ev_task_id e = tid) new = es \<or>
      es = [] \<and> set (filter (\<lambda>e. ev_task_id e = tid) new) \<subseteq> set ?E"
    using store_step_announces [OF step db] b(1) unfolding announces_def by metis
  have un: "unseen db' st = unseen db st @ filter (\<lambda>e. ev_task_id e = tid) new"
    using b b' by (simp add: unseen_def tid)
  have "accept (max ?h (length ?E)) (filter (\<lambda>e. ev_task_id e = tid) new) = drop (?h - length ?E) es"
    using new
  proof
    assume "filter (\<lambda>e. ev_task_id e = tid) new = es"
    then show ?thesis using accept_numbered [OF new_events_numbered [OF db' E'], of "max ?h (length ?E)"]
      by (simp add: max_def)
  next
    assume old: "es = [] \<and> set (filter (\<lambda>e. ev_task_id e = tid) new) \<subseteq> set ?E"
    then have "accept (max ?h (length ?E)) (filter (\<lambda>e. ev_task_id e = tid) new) = []"
      using stored_sequence(2) [OF db] by (intro accept_old) (meson max.coboundedI2 subsetD)
    with old show ?thesis by simp
  qed
  then have "accept ?h (unseen db' st) = drop ?h (events_of tid db')"
    if "accept ?h (unseen db st) = drop ?h ?E"
    using that top_unseen [OF db, of ?h st] by (simp add: un accept_append tid E')
  moreover have "take (?h - ?c) (drop ?c (?E @ es)) = take (?h - ?c) (drop ?c ?E)"
    using inv by (auto simp: stream_inv_def max_def split: if_splits)
  ultimately show ?thesis
    using inv b b' db' E' by (auto simp: stream_inv_def max_def split: if_splits)
qed

lemma sent_events_append:
  "sm_frames st' = sm_frames st @ fs \<Longrightarrow> sent_events st' = sent_events st @
     List.map_filter (\<lambda>f. case f of FrameEvent e \<Rightarrow> Some e | FrameHeartbeat \<Rightarrow> None) fs"
  by (simp add: sent_events_def List.map_filter_def)

lemma forward_next:
  assumes inv: "task_db_inv db" and "sm_task st = tid" and h: "sm_highest st < length (events_of tid db)"
    and c: "cursor \<le> sm_highest st"
    and sent: "sent_events st = take (sm_highest st - cursor) (drop cursor (events_of tid db))"
    and e: "e = events_of tid db ! sm_highest st"
  shows "sm_highest (forward e st) = Suc (sm_highest st)"
    and "sent_events (forward e st) = take (Suc (sm_highest st) - cursor) (drop cursor (events_of tid db))"
    and "sm_task (forward e st) = tid" "sm_position (forward e st) = sm_position st"
    and "sm_lagged (forward e st) = sm_lagged st"
proof -
  have seq: "ev_sequence e = Suc (sm_highest st)" using nth_sequence [OF inv h] e by simp
  have "e \<in> set (events_of tid db)" using h e by simp
  then have task: "ev_task_id e = sm_task st" using assms(2) by (simp add: events_of_def)
  have "sent_events (forward e st) = sent_events st @ [e]"
    using seq task by (simp add: forward_def sent_events_append List.map_filter_simps
        sent_events_def List.map_filter_def)
  also have "\<dots> = take (Suc (sm_highest st - cursor)) (drop cursor (events_of tid db))"
    using h c e by (simp add: sent take_Suc_conv_app_nth nth_drop)
  finally show "sent_events (forward e st) = take (Suc (sm_highest st) - cursor) (drop cursor (events_of tid db))"
    using c by (simp add: Suc_diff_le)
  show "sm_highest (forward e st) = Suc (sm_highest st)" "sm_task (forward e st) = tid"
    "sm_position (forward e st) = sm_position st" "sm_lagged (forward e st) = sm_lagged st"
    using seq task assms(2) by (simp_all add: forward_def)
qed

lemma stream_inv_recv:
  assumes inv: "stream_inv tid cursor db st" and "sm_open st" "\<not> sm_lagged st" and b: "db_bus db = Some b"
    and pos: "sm_position st < length (bus_sent b)"
  shows "stream_inv tid cursor db (stream_recv b st)"
proof -
  let ?e = "bus_sent b ! sm_position st" and ?st = "st\<lparr>sm_position := Suc (sm_position st)\<rparr>"
  let ?E = "events_of tid db"
  have db: "task_db_inv db" and tid: "sm_task st = tid" using inv by (simp_all add: stream_inv_def)
  have acc: "accept (sm_highest st) (unseen db st) = drop (sm_highest st) ?E"
    using inv assms(2,3) by (simp add: stream_inv_def)
  have un: "unseen db st = (if ev_task_id ?e = tid then [?e] else []) @ unseen db ?st"
    using pos b tid by (simp add: unseen_def Cons_nth_drop_Suc [OF pos, symmetric])
  show ?thesis
  proof (cases "ev_task_id ?e \<noteq> tid \<or> ev_sequence ?e \<le> sm_highest st")
    case True
    then have "stream_recv b st = ?st" by (auto simp: stream_recv_def forward_def tid)
    moreover have "accept (sm_highest st) (unseen db ?st) = drop (sm_highest st) ?E"
      using True acc by (auto simp: un split: if_splits)
    ultimately show ?thesis using inv b pos by (simp add: stream_inv_def sent_events_def)
  next
    case False
    then have next_e: "?e # accept (ev_sequence ?e) (unseen db ?st) = drop (sm_highest st) ?E"
      using acc by (simp add: un)
    then have h: "sm_highest st < length ?E" by (metis drop_all list.distinct(1) not_less)
    with next_e have e: "?e = ?E ! sm_highest st"
      and rest: "accept (ev_sequence ?e) (unseen db ?st) = drop (Suc (sm_highest st)) ?E"
      by (metis Cons_nth_drop_Suc list.inject)+
    have c: "cursor \<le> sm_highest st"
      and sent: "sent_events ?st = take (sm_highest ?st - cursor) (drop cursor ?E)"
      using inv by (simp_all add: stream_inv_def sent_events_def)
    note fwd = forward_next [of db ?st tid cursor ?e, OF db _ _ _ sent]
    have seq: "ev_sequence ?e = Suc (sm_highest st)" using nth_sequence [OF db h] e by simp
    have "unseen db (forward ?e ?st) = unseen db ?st"
      using fwd(3,4) tid h c e b by (simp add: unseen_def)
    with fwd tid h c e rest b pos db seq show ?thesis
      by (simp add: stream_inv_def stream_recv_def)
  qed
qed

lemma forward_all_suffix:
  assumes inv: "task_db_inv db" and "sm_task st = tid" and "cursor \<le> sm_highest st"
    and "sent_events st = take (sm_highest st - cursor) (drop cursor (events_of tid db))"
    and "sm_highest st \<le> max cursor (length (events_of tid db))"
    and "es = drop (sm_highest st) (events_of tid db)" and "st' = forward_all es st"
  shows "sm_task st' = tid \<and> sm_position st' = sm_position st \<and> sm_lagged st' = sm_lagged st \<and>
    cursor \<le> sm_highest st' \<and> sm_highest st' \<le> max cursor (length (events_of tid db)) \<and>
    sent_events st' = take (sm_highest st' - cursor) (drop cursor (events_of tid db)) \<and>
    (sm_open st' \<longrightarrow> length (events_of tid db) \<le> sm_highest st')"
  using assms(2-)
proof (induction es arbitrary: st)
  case Nil
  then show ?case by auto
next
  case (Cons e es)
  show ?case
  proof (cases "sm_open st")
    case True
    have h: "sm_highest st < length (events_of tid db)"
      using Cons.prems(5) by (metis drop_all list.distinct(1) not_less)
    with Cons.prems(5) have e: "e = events_of tid db ! sm_highest st"
      and es: "es = drop (Suc (sm_highest st)) (events_of tid db)"
      by (metis Cons_nth_drop_Suc list.inject)+
    note fwd = forward_next [OF inv Cons.prems(1) h Cons.prems(2,3) e]
    have st': "st' = forward_all es (forward e st)" using Cons.prems(6) True by simp
    have "cursor \<le> Suc (sm_highest st)" "Suc (sm_highest st) \<le> max cursor (length (events_of tid db))"
      using Cons.prems(2) h by simp_all
    from Cons.IH [OF fwd(3), unfolded fwd(1,4,5), OF this(1) fwd(2) this(2) es st'] show ?thesis .
  next
    case False
    then have "st' = st" using Cons.prems(6) by simp
    with Cons.prems(1-4) False show ?thesis by simp
  qed
qed

lemma stream_inv_resync:
  assumes inv: "stream_inv tid cursor db st"
  shows "stream_inv tid cursor db (stream_resync db st)"
proof -
  let ?E = "events_of tid db" and ?st = "st\<lparr>sm_lagged := False\<rparr>"
  define st' where "st' = forward_all (drop (sm_highest st) ?E) ?st"
  have db: "task_db_inv db" and tid: "sm_task st = tid" using inv by (simp_all add: stream_inv_def)
  have "list_events_after tid (sm_highest st) db = (Inr (drop (sm_highest st) ?E), db)"
    using db by (simp add: list_events_after_eq task_db_inv_def)
  then have st': "stream_resync db st = st'" by (simp add: stream_resync_def tid st'_def)
  have fwd: "sm_task st' = tid \<and> sm_position st' = sm_position st \<and> sm_lagged st' = False \<and>
      cursor \<le> sm_highest st' \<and> sm_highest st' \<le> max cursor (length ?E) \<and>
      sent_events st' = take (sm_highest st' - cursor) (drop cursor ?E) \<and>
      (sm_open st' \<longrightarrow> length ?E \<le> sm_highest st')"
    using forward_all_suffix [OF db, of ?st tid cursor _ st'] inv
    by (simp add: st'_def stream_inv_def sent_events_def)
  have "accept (sm_highest st') (unseen db st') = drop (sm_highest st') ?E" if "sm_open st'"
  proof -
    have "ev_sequence e \<le> sm_highest st'" if "e \<in> set (unseen db st')" for e
      using unseen_stored [OF db that] stored_sequence(2) [OF db] fwd \<open>sm_open st'\<close>
      by (metis order_trans)
    then show ?thesis using fwd that by (simp add: accept_old)
  qed
  with fwd inv show ?thesis by (auto simp: stream_inv_def st')
qed

lemma stream_step_inv:
  assumes "stream_step (db, st) (db', st')" and "stream_inv tid cursor db st"
  shows "stream_inv tid cursor db' st'"
  using assms
proof cases
  case on_store
  with assms(2) show ?thesis using stream_inv_store by blast
next
  case (on_recv b)
  with assms(2) show ?thesis using stream_inv_recv by blast
next
  case (on_lag b)
  then show ?thesis
    using assms(2) by (auto simp: stream_inv_def stream_lag_def sent_events_def)
next
  case on_resync
  with assms(2) show ?thesis using stream_inv_resync by simp
next
  case on_heartbeat
  then show ?thesis
    using assms(2) sent_events_append [of st' st "[FrameHeartbeat]"]
    by (auto simp: stream_inv_def stream_heartbeat_def List.map_filter_def unseen_def)
next
  case on_dropped
  then show ?thesis using assms(2) by (auto simp: stream_inv_def stream_dropped_def sent_events_def)
qed

lemma stream_steps_inv:
  assumes "stream_step\<^sup>*\<^sup>* p q" and "stream_inv tid cursor (fst p) (snd p)"
  shows "stream_inv tid cursor (fst q) (snd q)"
  using assms
proof (induction rule: rtranclp_induct)
  case (step y z)
  then show ?case using stream_step_inv [of "fst y" "snd y" "fst z" "snd z"] by simp
qed

text \<open>Everything sent before the replay is read is stored then, so nothing of it will be accepted again.\<close>

lemma stream_open_inv:
  assumes "task_db_inv db1" and "store_step\<^sup>*\<^sup>* db1 db2" and b1: "db_bus db1 = Some b1"
    and "stream_open tid cursor db0 db1 db2 = Inr st"
  shows "stream_inv tid cursor db2 st"
proof -
  let ?E = "events_of tid db2"
  have "task_db_inv db2 \<and> (\<exists>b new. db_bus db2 = Some b \<and> bus_sent b = bus_sent b1 @ new)"
    using assms(2)
  proof (induction rule: rtranclp_induct)
    case base
    with assms(1) b1 show ?case by simp
  next
    case (step y z)
    then show ?case
      using store_step_inv [OF step.hyps(2)] store_step_announces [OF step.hyps(2)]
      by (force simp: announces_def)
  qed
  then obtain b2 new where db2: "task_db_inv db2" and b2: "db_bus db2 = Some b2" "bus_sent b2 = bus_sent b1 @ new"
    by blast
  have replay: "list_events_after tid cursor db2 = (Inr (drop cursor ?E), db2)"
    using db2 by (simp add: list_events_after_eq task_db_inv_def)
  with assms(4) b1 have st: "sm_task st = tid" "sm_position st = length (bus_sent b1)" "\<not> sm_lagged st"
    "sm_frames st = map FrameEvent (drop cursor ?E)"
    "sm_highest st = (if drop cursor ?E = [] then cursor else ev_sequence (last (drop cursor ?E)))"
    by (auto simp: stream_open_def r_then_Inr)
  have high: "sm_highest st = max cursor (length ?E)"
  proof (cases "cursor < length ?E")
    case True
    then have "last (drop cursor ?E) = ?E ! (length ?E - 1)" by (simp add: last_drop last_conv_nth)
    then show ?thesis using True st(5) nth_sequence [OF db2, of "length ?E - 1" tid] by simp
  qed (simp add: st(5))
  have "sent_events st = drop cursor ?E"
    by (simp add: sent_events_def st(4) List.map_filter_def comp_def)
  moreover have "accept (sm_highest st) (unseen db2 st) = []"
    using unseen_stored [OF db2] stored_sequence(2) [OF db2] st(1) high
    by (intro accept_old) (metis max.coboundedI2)
  ultimately show ?thesis using db2 b2 st high by (auto simp: stream_inv_def max_def)
qed

end
