(* ===== verification/Event_Properties.thy ===== *)
theory Event_Properties
  imports Stream_Props
begin

text \<open>The properties of the event service: delivery of events, hand-over of decisions, cursors.\<close>


lemma store_step_keeps_bus:
  assumes "store_step db db'" and "task_db_inv db" and "db_bus db = Some b"
  obtains b' where "db_bus db' = Some b'"
  using store_step_announces [OF assms(1,2)] assms(3) by (auto simp: announces_def)

lemma demo_bus:
  obtains b where "db_bus demo_running = Some b"
proof -
  have "db_bus demo_locked = Some (bus_publish (event_row ''task_1''
      (next_sequence ''task_1'' ((empty_task_db (Some default_bus))\<lparr>db_tasks := [demo_task]\<rparr>)) EvQueued empty_object ''t0'')
      default_bus)"
    by (simp add: demo_locked_eq demo_created_eq log_event_def Let_def publish_db_def add_event_def empty_task_db_def)
  moreover have step: "store_step db (snd (transition ''task_1'' n None t db))" for db n t
    by (rule store_transition)
  moreover have "task_db_inv demo_locked" using demo_locked_reachable by (rule task_reachable_inv)
  ultimately show ?thesis
    using that store_step_keeps_bus [OF step] store_step_inv [OF step]
    unfolding demo_running_def by metis
qed


text \<open>
  C20. Handing over a decision. An answer to a pending request is refused without effect unless an
  adapter waits for it. If one waits, the answer is stored, the waiting adapter and nobody else
  receives exactly that decision, the waiter is removed, and the decision event is published (twice).
\<close>

theorem permission_answer_delivered:
  assumes "task_reachable db" and "db_bus db = Some b" and "find_task tid db = Some t"
    and "query_permission_request tid rid db = Some q" and "prr_status q = Pending"
  shows "case map_of (bus_waiters b) (tid, rid) of
      None \<Rightarrow> resolve_permission_response tid
                \<lparr> pw_request_id = rid, pw_decision = dec, pw_reason = reason \<rparr> now db =
                (Inl PermissionResponseNotSupported, db)
    | Some ch \<Rightarrow> \<exists>r db' b' q'. resolve_permission_response tid
                \<lparr> pw_request_id = rid, pw_decision = dec, pw_reason = reason \<rparr> now db = (Inr r, db') \<and>
        db_bus db' = Some b' \<and> \<not> has_waiter tid rid b' \<and>
        poll_receiver ch b' = Some (Inr \<lparr> pd_request_id = rid, pd_decision = dec, pd_reason = reason \<rparr>) \<and>
        (\<forall>ch'. ch' \<noteq> ch \<longrightarrow> poll_receiver ch' b' = poll_receiver ch' b) \<and>
        query_permission_request tid rid db' = Some q' \<and> prr_status q' = from_decision dec \<and>
        bus_sent b' = bus_sent b @ [rs_event r, rs_event r]"
proof -
  let ?resp = "\<lparr> pw_request_id = rid, pw_decision = dec, pw_reason = reason \<rparr>"
  let ?d = "\<lparr> pd_request_id = rid, pd_decision = dec, pd_reason = reason \<rparr>"
  let ?e = "event_row tid (next_sequence tid db) ProviderPermissionDecided (decision_event_to_value ?d) now"
  have inv: "task_db_inv db" using assms(1) by (rule task_reachable_inv)
  then have wf: "events_wf db" by (simp add: task_db_inv_def)
  have get: "get_permission_request tid rid db = (Inr q, db)"
    using assms(3,4) by (simp add: get_permission_request_def op_simps get_task_def)
  show ?thesis
  proof (cases "map_of (bus_waiters b) (tid, rid)")
    case None
    then show ?thesis
      using get assms(2,5)
      by (simp add: resolve_permission_response_def op_simps has_waiter_def is_some_and_def)
  next
    case (Some ch)
    obtain r where eff: "resolve_permission_request tid rid dec reason now db = (Inr r, resolve_db tid ?d now db)"
      and r: "rs_event r = ?e" "\<not> rs_duplicated r"
      using resolve_pending_effect [OF wf assms(3-5) refl refl, where now = now and dec = dec and reason = reason]
      by auto
    have bus: "db_bus (resolve_db tid ?d now db) = Some (bus_publish ?e b)"
      using assms(2) by (simp add: resolve_db_def log_event_def Let_def publish_db_def add_event_def)
    define b2 where "b2 = bus_publish ?e (bus_publish ?e b)"
    have b2: "bus_waiters b2 = bus_waiters b" "bus_sent b2 = bus_sent b @ [?e, ?e]" "bus_inv b2"
      "poll_receiver c b2 = poll_receiver c b" for c
      using inv assms(2)
      by (simp_all add: b2_def task_db_inv_def bus_wf_def) (simp_all add: bus_publish_def poll_receiver_def)
    define b' where "b' = notify_permission_resolution tid ?d b2"
    define db' where "db' = (resolve_db tid ?d now db)\<lparr>db_bus := Some b'\<rparr>"
    have payload: "ev_payload ?e = decision_event_to_value ?d" by (simp add: event_row_def)
    have "resolve_permission_response tid ?resp now db = (Inr r, db')"
      using get assms(2,5) Some eff r bus payload
      by (simp add: resolve_permission_response_def op_simps has_waiter_def is_some_and_def
          publish_db_def b2_def b'_def db'_def)
    moreover have "poll_receiver ch b' = Some (Inr ?d)"
      using notify_answers [of b2 tid ?d ch] Some b2(1) by (simp add: b'_def)
    moreover have "poll_receiver ch' b' = poll_receiver ch' b" if "ch' \<noteq> ch" for ch'
      using notify_frame [OF b2(3), of tid ?d ch'] Some b2(1,4) that by (simp add: b'_def)
    moreover have "\<not> has_waiter tid rid b'"
      using Some b2(1) by (simp add: b'_def notify_permission_resolution_def has_waiter_def delete_conv)
    moreover have "bus_sent b' = bus_sent b @ [rs_event r, rs_event r]" using b2(2) r by (simp add: b'_def)
    moreover have "query_permission_request tid rid db' = Some (resolve_row ?d now q)"
    proof -
      have "query_permission_request tid rid db' = map_option (\<lambda>x. if prr_request_id x = rid \<and> prr_task_id x = tid
          then resolve_row ?d now x else x) (query_permission_request tid rid db)"
        by (simp add: db'_def resolve_db_def query_permission_request_def find_update_rows)
      then show ?thesis using assms(4) request_foundD [OF assms(4)] by simp
    qed
    moreover have "prr_status (resolve_row ?d now q) = from_decision dec" by (simp add: resolve_row_def)
    moreover have "db_bus db' = Some b'" by (simp add: db'_def)
    ultimately show ?thesis unfolding Some option.case by blast
  qed
qed

theorem permission_answer_delivered_witness:
  "\<exists>db b ch r db' b'. task_reachable db \<and> db_bus db = Some b \<and>
     resolve_permission_response ''task_1''
       \<lparr> pw_request_id = ''req'', pw_decision = Approve, pw_reason = None \<rparr> ''t6'' db = (Inr r, db') \<and>
     db_bus db' = Some b' \<and>
     poll_receiver ch b' = Some (Inr \<lparr> pd_request_id = ''req'', pd_decision = Approve, pd_reason = None \<rparr>)"
proof -
  obtain b0 where "db_bus demo_running = Some b0" by (rule demo_bus)
  then obtain b where b: "db_bus demo_asked = Some b"
    using store_step_keeps_bus [OF store_record task_reachable_inv [OF demo_running_reachable]]
    unfolding demo_asked_def by metis
  define ch where "ch = bus_next_channel b"
  define b1 where "b1 = snd (register_waiter ''task_1'' ''req'' b)"
  define db where "db = demo_asked\<lparr>db_bus := Some b1\<rparr>"
  have reach: "task_reachable db"
    unfolding db_def b1_def
    by (rule reach_step [OF demo_asked_reachable step_store [OF store_register [OF b]]])
  have bus: "db_bus db = Some b1" by (simp add: db_def)
  obtain t where "find_task ''task_1'' demo_asked = Some t"
    using evolves_task [OF store_step_evolves [OF store_record task_reachable_inv [OF demo_running_reachable]]
        demo_running_task] unfolding demo_asked_def by metis
  then have t: "find_task ''task_1'' db = Some t" by (simp add: db_def)
  obtain q where "query_permission_request ''task_1'' ''req'' demo_asked = Some q" and pending: "prr_status q = Pending"
    by (rule demo_asked_request)
  then have q: "query_permission_request ''task_1'' ''req'' db = Some q"
    by (simp add: db_def query_permission_request_def)
  have "map_of (bus_waiters b1) (''task_1'', ''req'') = Some ch"
    by (simp add: b1_def ch_def register_waiter_def update_conv)
  from permission_answer_delivered [OF reach bus t q pending, of Approve None "''t6''", unfolded this option.case]
    reach bus show ?thesis by blast
qed

section \<open>Cursors\<close>

lemma show_nat_head:
  assumes "show_nat n = c # cs"
  shows "c \<noteq> CHR ''-'' \<and> c \<noteq> CHR ''+''"
proof -
  have "is_digit c" using show_nat_digits [of c n] assms by simp
  then show ?thesis by (auto simp: is_digit_def)
qed

lemma parse_show_nat: "parse_i64 (show_nat n) = (if n < 2 ^ 63 then Some (int n) else None)"
proof -
  obtain c cs where s: "show_nat n = c # cs" by (cases "show_nat n") simp_all
  have "list_all is_digit (show_nat n)" using show_nat_digits by (auto simp: list_all_iff)
  moreover have "int n < 2 ^ 63 \<longleftrightarrow> n < 2 ^ 63" using zless_nat_eq_int_zless by simp
  moreover have "read_nat (c # cs) = n" using read_show_nat [of n] s by simp
  ultimately show ?thesis using show_nat_head [OF s] s by (simp add: parse_i64_def Let_def)
qed

text \<open>
  Cursors: the printed form of a sequence number is read back as that number as long as it is a
  non-negative 64-bit integer, and an accepted cursor always is one; anything else is refused.
\<close>

lemma cursor_roundtrip:
  "parse_cursor (Some (show_nat n)) l = (if n < 2 ^ 63 then Inr (int n) else Inl InvalidCursor) \<and>
   (parse_cursor c l = Inr v \<longrightarrow> 0 \<le> v \<and> v < 2 ^ 63)"
proof
  show "parse_cursor (Some (show_nat n)) l = (if n < 2 ^ 63 then Inr (int n) else Inl InvalidCursor)"
    by (simp add: parse_cursor_def parse_show_nat unwrap_or_def del: show_nat.simps)
  have "parse_i64 s = Some v \<Longrightarrow> v < 2 ^ 63" for s
    by (auto simp: parse_i64_def Let_def split: if_splits prod.splits)
  then show "parse_cursor c l = Inr v \<longrightarrow> 0 \<le> v \<and> v < 2 ^ 63"
    by (auto simp: parse_cursor_def Let_def split: option.splits if_splits)
qed

lemma cursor_roundtrip_example:
  "parse_cursor (Some (show_nat 7)) None = Inr 7 \<and> (0::int) \<le> 7"
  using cursor_roundtrip [of 7 None "Some (show_nat 7)" 7] by (simp del: show_nat.simps)

end
