(* ===== verification/Encoding.thy ===== *)
theory Encoding
  imports Task_Store Runtime_Model
begin

text \<open>
  The JSON form that serde derives for the data the daemon sends out: field names and the
  \<open>snake_case\<close> names of enum variants.
\<close>

fun task_status_str :: "task_status \<Rightarrow> string" where
  "task_status_str Queued = ''queued''"
| "task_status_str WaitingDirectoryLock = ''waiting_directory_lock''"
| "task_status_str Preparing = ''preparing''"
| "task_status_str Running = ''running''"
| "task_status_str Completed = ''completed''"
| "task_status_str Failed = ''failed''"
| "task_status_str Cancelled = ''cancelled''"
| "task_status_str TimedOut = ''timed_out''"

fun workspace_mode_str :: "workspace_mode \<Rightarrow> string" where
  "workspace_mode_str Worktree = ''worktree''"
| "workspace_mode_str Direct = ''direct''"

fun capability_str :: "directory_capability \<Rightarrow> string" where
  "capability_str Read = ''read''"
| "capability_str Write = ''write''"
| "capability_str Shell = ''shell''"
| "capability_str Git = ''git''"

fun runtime_kind_str :: "runtime_kind \<Rightarrow> string" where
  "runtime_kind_str LocalCli = ''local_cli''"
| "runtime_kind_str LocalAcp = ''local_acp''"
| "runtime_kind_str RemoteHttp = ''remote_http''"

fun runtime_status_str :: "runtime_status \<Rightarrow> string" where
  "runtime_status_str NotDetected = ''not_detected''"
| "runtime_status_str RuntimeAvailable = ''available''"
| "runtime_status_str RuntimeUnavailableStatus = ''unavailable''"
| "runtime_status_str RuntimeErrorStatus = ''error''"

definition opt_str :: "string option \<Rightarrow> json" where
  "opt_str = opt_json Str"

definition result_to_value :: "task_result \<Rightarrow> json" where
  "result_to_value r = Object
     [(''task_id'', Str (tr_task_id r)), (''status'', Str (task_status_str (tr_status r))),
      (''final_message'', Str (tr_final_message r)),
      (''changed_files'', Array (map Str (tr_changed_files r))), (''diff'', opt_str (tr_diff r)),
      (''workspace_mode'', Str (workspace_mode_str (tr_workspace_mode r))),
      (''worktree_path'', opt_str (tr_worktree_path r)),
      (''source_directory_id'', Str (tr_source_directory_id r)),
      (''branch_name'', opt_str (tr_branch_name r)), (''commit_hash'', opt_str (tr_commit_hash r)),
      (''session_id'', opt_str (tr_session_id r)),
      (''provider_result'', opt_json id (tr_provider_result r)), (''usage'', opt_json id (tr_usage r)),
      (''artifacts'', Array (tr_artifacts r)), (''error'', opt_str (tr_error r)),
      (''created_at'', Str (tr_created_at r)), (''updated_at'', Str (tr_updated_at r))]"

fun capability_of_str :: "string \<Rightarrow> directory_capability option" where
  "capability_of_str s =
     (if s = ''read'' then Some Read else if s = ''write'' then Some Write
      else if s = ''shell'' then Some Shell else if s = ''git'' then Some Git else None)"

fun workspace_mode_of_str :: "string \<Rightarrow> workspace_mode option" where
  "workspace_mode_of_str s =
     (if s = ''worktree'' then Some Worktree else if s = ''direct'' then Some Direct else None)"

lemma capability_of_str_str [simp]: "capability_of_str (capability_str c) = Some c"
  by (cases c) simp_all

lemma workspace_mode_of_str_str [simp]: "workspace_mode_of_str (workspace_mode_str m) = Some m"
  by (cases m) simp_all

end
