(* ===== verification/Control_Plane.thy ===== *)
theory Control_Plane
  imports Encoding Scheduler
begin

text \<open>
  \<open>src/src/control_plane\<close> and \<open>src/src/store/daemon_state.rs\<close>: the daemon's side of the connection to a
  control plane. The daemon registers, keeps the registration in its store, reports liveness and the
  detected runtimes, takes tasks and cancellations from the control plane and reports the life of those
  tasks back, each step once.

  The web socket is an argument: a session is a sequence of inputs (a tick, a frame, an event from the
  bus) and each input produces messages to send. JSON text is read by serde and time stamps are parsed
  by the \<open>time\<close> crate; both parsers are arguments.
\<close>

section \<open>Registration state\<close>

datatype daemon_connection_status = Online | Offline | Connecting | ConnectionError

record daemon_registration_record =
  dr_daemon_id :: string
  dr_control_plane_url :: string
  dr_daemon_token :: string
  dr_status :: daemon_connection_status
  dr_registered_at :: string
  dr_last_heartbeat_at :: "string option"
  dr_last_error_code :: "string option"
  dr_session_id :: "string option"

record daemon_runtime_summary =
  rs_provider_id :: string
  rs_kind :: runtime_kind
  rs_runtime_status :: runtime_status

record daemon_registration_request =
  rr_daemon_id :: "string option"
  rr_session_id :: "string option"
  rr_enrollment_secret :: string
  rr_daemon_version :: string
  rr_platform :: string
  rr_capabilities :: "string list"
  rr_runtimes :: "daemon_runtime_summary list"

record daemon_registration_accepted =
  ra_daemon_id :: string
  ra_daemon_token :: string
  ra_session_id :: "string option"
  ra_registered_at :: string

fun serialize_status :: "daemon_connection_status \<Rightarrow> string" where
  "serialize_status Online = ''online''"
| "serialize_status Offline = ''offline''"
| "serialize_status Connecting = ''connecting''"
| "serialize_status ConnectionError = ''error''"

datatype daemon_state_store_error = DaemonNotFound | DaemonStore string

fun deserialize_status :: "string \<Rightarrow> daemon_state_store_error + daemon_connection_status" where
  "deserialize_status s =
     (if s = ''online'' then Inr Online else if s = ''offline'' then Inr Offline
      else if s = ''connecting'' then Inr Connecting else if s = ''error'' then Inr ConnectionError
      else Inl (DaemonStore ''invalid daemon state status''))"

text \<open>
  The table \<open>daemon_state\<close>, in the order of the rowids. \<open>ON CONFLICT(daemon_id) DO UPDATE\<close> keeps the
  rowid of the row it updates.
\<close>

record daemon_table =
  dt_rows :: "daemon_registration_record list"

type_synonym 'a daemon_op = "(daemon_table, daemon_state_store_error, 'a) op"

definition find_daemon :: "string \<Rightarrow> daemon_table \<Rightarrow> daemon_registration_record option" where
  "find_daemon did s = List.find (\<lambda>r. dr_daemon_id r = did) (dt_rows s)"

definition get_daemon :: "string \<Rightarrow> daemon_registration_record daemon_op" where
  "get_daemon did = reads (\<lambda>s. ok_or DaemonNotFound (find_daemon did s))"

definition get_current :: "daemon_registration_record daemon_op" where
  "get_current = reads (\<lambda>s. ok_or DaemonNotFound (case dt_rows s of [] \<Rightarrow> None | r # _ \<Rightarrow> Some r))"

definition upsert_daemon :: "daemon_registration_record \<Rightarrow> daemon_table \<Rightarrow> daemon_table" where
  "upsert_daemon r s =
     (if find_daemon (dr_daemon_id r) s = None then s\<lparr> dt_rows := dt_rows s @ [r] \<rparr>
      else s\<lparr> dt_rows := update_rows (\<lambda>x. dr_daemon_id x = dr_daemon_id r) (\<lambda>_. r) (dt_rows s) \<rparr>)"

definition save_registration :: "daemon_registration_record \<Rightarrow> daemon_registration_record daemon_op" where
  "save_registration r = and_then (modify (upsert_daemon r)) (\<lambda>_. get_daemon (dr_daemon_id r))"

definition mark_heartbeat ::
  "string \<Rightarrow> string \<Rightarrow> daemon_connection_status \<Rightarrow> daemon_registration_record daemon_op" where
  "mark_heartbeat did at status =
     and_then (modify (\<lambda>s. s\<lparr> dt_rows := update_rows (\<lambda>x. dr_daemon_id x = did)
       (\<lambda>x. x\<lparr> dr_last_heartbeat_at := Some at, dr_status := status \<rparr>) (dt_rows s) \<rparr>)) (\<lambda>_.
     get_daemon did)"

section \<open>Configuration and registration\<close>

record control_plane_config =
  cc_endpoint :: "string option"
  cc_enrollment_secret :: "string option"
  cc_staleness_threshold :: nat

definition control_plane_enabled :: "control_plane_config \<Rightarrow> bool" where
  "control_plane_enabled c = (cc_endpoint c \<noteq> None \<and> cc_enrollment_secret c \<noteq> None)"

datatype daemon_registration_error = ControlPlaneDisabled | RegistrationStore daemon_state_store_error
  | RegistrationPanic string

definition current_record :: "(daemon_table, daemon_registration_error, daemon_registration_record option) op" where
  "current_record s =
     (case get_current s of
        (Inr r, s') \<Rightarrow> (Inr (Some r), s')
      | (Inl DaemonNotFound, s') \<Rightarrow> (Inr None, s')
      | (Inl e, s') \<Rightarrow> (Inl (RegistrationStore e), s'))"

text \<open>\<open>CARGO_PKG_VERSION\<close> and the platform are constants of the build.\<close>

definition build_registration_request ::
  "string \<Rightarrow> string \<Rightarrow> control_plane_config \<Rightarrow> daemon_runtime_summary list \<Rightarrow>
   (daemon_table, daemon_registration_error, daemon_registration_request) op" where
  "build_registration_request version platform config runtimes =
     (if \<not> control_plane_enabled config then err ControlPlaneDisabled
      else and_then current_record (\<lambda>persisted.
        case cc_enrollment_secret config of
          None \<Rightarrow> err (RegistrationPanic ''enabled control plane config must include enrollment secret'')
        | Some secret \<Rightarrow> ok
            \<lparr> rr_daemon_id = map_option dr_daemon_id persisted,
              rr_session_id = Option.bind persisted dr_session_id,
              rr_enrollment_secret = secret, rr_daemon_version = version, rr_platform = platform,
              rr_capabilities = [''task_dispatch'', ''task_cancel'', ''runtime_status''],
              rr_runtimes = runtimes \<rparr>))"

definition accept_registration ::
  "control_plane_config \<Rightarrow> daemon_registration_accepted \<Rightarrow>
   (daemon_table, daemon_registration_error, daemon_registration_record) op" where
  "accept_registration config a =
     (case cc_endpoint config of
        None \<Rightarrow> err (RegistrationPanic ''enabled control plane config must include endpoint'')
      | Some url \<Rightarrow> map_err RegistrationStore (save_registration
          \<lparr> dr_daemon_id = ra_daemon_id a, dr_control_plane_url = url, dr_daemon_token = ra_daemon_token a,
            dr_status = Online, dr_registered_at = ra_registered_at a,
            dr_last_heartbeat_at = Some (ra_registered_at a), dr_last_error_code = None,
            dr_session_id = ra_session_id a \<rparr>))"

section \<open>Liveness\<close>

text \<open>
  Time stamps in nanoseconds. \<open>whole_seconds\<close> of a non-negative duration rounds down; the threshold is
  cast from \<open>u64\<close> to \<open>i64\<close>, which wraps.
\<close>

definition as_i64 :: "nat \<Rightarrow> int" where
  "as_i64 n = sint (of_nat n :: 64 word)"

definition evaluate_liveness ::
  "(string \<Rightarrow> int option) \<Rightarrow> nat \<Rightarrow> string option \<Rightarrow> string \<Rightarrow> daemon_connection_status \<Rightarrow>
   daemon_connection_status" where
  "evaluate_liveness parse threshold last_heartbeat_at now current =
     (case Option.bind last_heartbeat_at parse of
        None \<Rightarrow> Offline
      | Some l \<Rightarrow>
          (case parse now of
             None \<Rightarrow> current
           | Some n \<Rightarrow>
               if n - l < 0 \<or> (n - l) div 10 ^ 9 < as_i64 threshold then current else Offline))"

section \<open>Dispatch\<close>

record remote_dispatch_task =
  rt_remote_task_id :: string
  rt_owner_product_id :: string
  rt_agent_id :: string
  rt_directory_id :: string
  rt_prompt :: string
  rt_required_capabilities :: "string list"
  rt_workspace_mode :: string
  rt_timeout_seconds :: "nat option"
  rt_task_token :: string
  rt_metadata :: json

datatype control_plane_dispatch_error = InvalidDispatch | DispatchTask task_validation_error

definition remote_task_id_of :: "task \<Rightarrow> string option" where
  "remote_task_id_of t =
     Option.bind (Option.bind (Option.bind (task_metadata t) (\<lambda>m. json_get m ''control_plane''))
       (\<lambda>c. json_get c ''remote_task_id'')) as_str"

definition find_by_remote_task_id ::
  "string \<Rightarrow> (stores, control_plane_dispatch_error, task option) op" where
  "find_by_remote_task_id rid =
     and_then (map_err DispatchTask (on_tasks (list_tasks \<lparr> tf_owner_product_id = None,
       tf_agent_id = None, tf_directory_id = None, tf_status = None \<rparr>))) (\<lambda>ts.
     ok (List.find (\<lambda>t. remote_task_id_of t = Some rid) ts))"

definition remote_metadata :: "remote_dispatch_task \<Rightarrow> json" where
  "remote_metadata r = Object
     [(''control_plane'', Object [(''remote_task_id'', Str (rt_remote_task_id r)),
         (''task_token'', Str (rt_task_token r)), (''source'', Str ''control_plane'')]),
      (''upstream'', rt_metadata r)]"

definition remote_create_task ::
  "remote_dispatch_task \<Rightarrow> directory_capability list \<Rightarrow> workspace_mode \<Rightarrow> create_task" where
  "remote_create_task r caps mode =
     \<lparr> ct_owner_product_id = rt_owner_product_id r, ct_agent_id = rt_agent_id r,
       ct_directory_id = rt_directory_id r, ct_prompt = rt_prompt r,
       ct_required_capabilities = Some caps, ct_workspace_mode = Some mode,
       ct_direct_mode_task_opt_in = (mode = Direct), ct_metadata = Some (remote_metadata r),
       ct_provider_id = None, ct_model = None, ct_permission_mode = None,
       ct_timeout_seconds = rt_timeout_seconds r \<rparr>"

definition ingest :: "remote_dispatch_task \<Rightarrow> string \<Rightarrow> (stores, control_plane_dispatch_error, task) op" where
  "ingest r now =
     and_then (find_by_remote_task_id (rt_remote_task_id r)) (\<lambda>found.
     case found of
       Some existing \<Rightarrow> ok existing
     | None \<Rightarrow>
         and_then (lift_r (r_collect (map (\<lambda>c. ok_or InvalidDispatch (capability_of_str c))
                     (rt_required_capabilities r)))) (\<lambda>caps.
         and_then (lift_r (ok_or InvalidDispatch (workspace_mode_of_str (rt_workspace_mode r)))) (\<lambda>mode.
         map_err DispatchTask (enqueue_task (remote_create_task r caps mode) now))))"

definition cancel_remote_task :: "string \<Rightarrow> string \<Rightarrow> (stores, control_plane_dispatch_error, task) op" where
  "cancel_remote_task rid now =
     and_then (find_by_remote_task_id rid) (\<lambda>found.
     case found of
       None \<Rightarrow> err InvalidDispatch
     | Some t \<Rightarrow> map_err DispatchTask (cancel_task (task_id t) now))"

section \<open>Callbacks\<close>

text \<open>The keys of callbacks already delivered: the task and the sequence, negative for states.\<close>

type_synonym delivered = "(string \<times> int) list"

datatype control_plane_client_error =
    InvalidMessage
  | ClientDispatch control_plane_dispatch_error
  | ClientStore daemon_state_store_error

fun state_sequence :: "task_status \<Rightarrow> int" where
  "state_sequence WaitingDirectoryLock = - 1"
| "state_sequence Running = - 2"
| "state_sequence _ = 0"

definition remote_identity :: "json \<Rightarrow> control_plane_client_error + string \<times> string" where
  "remote_identity control_plane =
     r_then (ok_or InvalidMessage (get_str control_plane ''remote_task_id'')) (\<lambda>rid.
     r_then (ok_or InvalidMessage (get_str control_plane ''task_token'')) (\<lambda>token. Inr (rid, token)))"

definition deliver_once :: "string \<times> int \<Rightarrow> delivered \<Rightarrow> bool \<times> delivered" where
  "deliver_once k ds = (if k \<in> set ds then (False, ds) else (True, k # ds))"

definition callback_for_task_state ::
  "task \<Rightarrow> (delivered, control_plane_client_error, json option) op" where
  "callback_for_task_state t ds =
     (case (case task_status t of WaitingDirectoryLock \<Rightarrow> Some ''task.claimed''
              | Running \<Rightarrow> Some ''task.started'' | _ \<Rightarrow> None) of
        None \<Rightarrow> (Inr None, ds)
      | Some callback_event \<Rightarrow>
          (case Option.bind (task_metadata t) (\<lambda>m. json_get m ''control_plane'') of
             None \<Rightarrow> (Inr None, ds)
           | Some control_plane \<Rightarrow>
               (case remote_identity control_plane of
                  Inl e \<Rightarrow> (Inl e, ds)
                | Inr (rid, token) \<Rightarrow>
                    (case deliver_once (task_id t, state_sequence (task_status t)) ds of
                       (False, ds') \<Rightarrow> (Inr None, ds')
                     | (True, ds') \<Rightarrow> (Inr (Some (Object
                         [(''type'', Str ''task_callback''), (''event'', Str callback_event),
                          (''remote_task_id'', Str rid), (''task_token'', Str token),
                          (''task_id'', Str (task_id t)),
                          (''status'', Str (task_status_str (task_status t)))])), ds')))))"

definition callback_event_name :: "task_event_type \<Rightarrow> string option" where
  "callback_event_name ty =
     (case ty of
        EvCompleted \<Rightarrow> Some ''task.completed''
      | EvFailed \<Rightarrow> Some ''task.failed''
      | EvCancelled \<Rightarrow> Some ''task.cancelled''
      | EvTimedOut \<Rightarrow> Some ''task.timed_out''
      | _ \<Rightarrow> None)"

definition task_of_event :: "task_db \<Rightarrow> string \<Rightarrow> control_plane_client_error + task" where
  "task_of_event db tid =
     r_map_err (\<lambda>e. ClientDispatch (DispatchTask (from_task_store_error e))) (fst (get_task tid db))"

definition callback_for_event ::
  "task_db \<Rightarrow> task_event \<Rightarrow> (delivered, control_plane_client_error, json option) op" where
  "callback_for_event db e ds =
     (case callback_event_name (ev_event_type e) of
        None \<Rightarrow> (Inr None, ds)
      | Some callback_event \<Rightarrow>
          (case task_of_event db (ev_task_id e) of
             Inl x \<Rightarrow> (Inl x, ds)
           | Inr t \<Rightarrow>
               (case Option.bind (task_metadata t) (\<lambda>m. json_get m ''control_plane'') of
                  None \<Rightarrow> (Inr None, ds)
                | Some control_plane \<Rightarrow>
                    (case remote_identity control_plane of
                       Inl x \<Rightarrow> (Inl x, ds)
                     | Inr (rid, token) \<Rightarrow>
                         (case deliver_once (task_id t, int (ev_sequence e)) ds of
                            (False, ds') \<Rightarrow> (Inr None, ds')
                          | (True, ds') \<Rightarrow> (Inr (Some (Object
                              [(''type'', Str ''task_callback''), (''event'', Str callback_event),
                               (''remote_task_id'', Str rid), (''task_token'', Str token),
                               (''task_id'', Str (task_id t)),
                               (''sequence'', Number (PosInt (of_nat (ev_sequence e)))),
                               (''status'', Str (task_status_str (task_status t))),
                               (''result'', opt_json result_to_value (task_result t)),
                               (''error'', opt_json id (json_get (ev_payload e) ''error''))])), ds'))))))"

section \<open>Validation of callbacks\<close>

type_synonym used_callbacks = "(string \<times> string) list"

definition auth_failed :: string where
  "auth_failed = ''control_plane_auth_failed''"

definition validate_daemon_token :: "string \<Rightarrow> string \<Rightarrow> string + unit" where
  "validate_daemon_token daemon_token presented =
     (if daemon_token = presented then Inl auth_failed else Inr ())"

definition use_callback :: "string \<times> string \<Rightarrow> used_callbacks \<Rightarrow> bool \<times> used_callbacks" where
  "use_callback k used = (if k \<in> set used then (False, used) else (True, k # used))"

definition validate_task_callback ::
  "string \<Rightarrow> string \<Rightarrow> json \<Rightarrow> string \<Rightarrow> string \<Rightarrow> (used_callbacks, string, unit) op" where
  "validate_task_callback rid presented metadata daemon_token callback_id used =
     (case r_then (validate_daemon_token daemon_token presented) (\<lambda>_.
           r_then (ok_or auth_failed (json_get metadata ''control_plane'')) (\<lambda>control_plane.
           r_then (ok_or auth_failed (get_str control_plane ''remote_task_id'')) (\<lambda>expected_rid.
           r_then (ok_or auth_failed (get_str control_plane ''task_token'')) (\<lambda>expected_token.
           if expected_rid \<noteq> rid \<or> expected_token \<noteq> presented then Inl auth_failed else Inr ())))) of
        Inl e \<Rightarrow> (Inl e, used)
      | Inr _ \<Rightarrow>
          (case use_callback (rid, callback_id) used of
             (False, used') \<Rightarrow> (Inl ''control_plane_task_token_replay'', used')
           | (True, used') \<Rightarrow> (Inr (), used')))"

end
