(* ===== verification/Control_Session.thy ===== *)
theory Control_Session
  imports Control_Plane
begin

text \<open>
  \<open>ControlPlaneMessageHandler\<close> and the session loop of \<open>src/src/control_plane/client.rs\<close>. The state of a
  session is the stores of the daemon, the registration table, the keys of delivered callbacks and the
  table of runtimes. \<open>session_step\<close> is one round of the \<open>select!\<close> loop: it says which messages go out and
  whether the loop goes on. A failing \<open>send\<close> ends the session like any other error.
\<close>

record cp_state =
  cp_stores :: stores
  cp_daemon :: daemon_table
  cp_delivered :: delivered
  cp_runtimes :: runtime_store

record cp_env =
  ce_config :: control_plane_config
  ce_version :: string
  ce_platform :: string
  ce_parse_json :: "string \<Rightarrow> json option"
  ce_print_json :: "json \<Rightarrow> string"
  ce_parse_time :: "string \<Rightarrow> int option"

type_synonym 'a cp_op = "(cp_state, control_plane_client_error, 'a) op"

section \<open>Decoding\<close>

fun as_array :: "json \<Rightarrow> json list option" where
  "as_array (Array vs) = Some vs"
| "as_array _ = None"

fun as_u64 :: "json \<Rightarrow> nat option" where
  "as_u64 (Number (PosInt n)) = Some (unat n)"
| "as_u64 _ = None"

definition strings_of :: "json \<Rightarrow> string list option" where
  "strings_of v = Option.bind (as_array v) (\<lambda>vs. those (map as_str vs))"

text \<open>The derived \<open>Deserialize\<close>: every field but an optional one has to be there.\<close>

definition remote_task_from_value :: "json \<Rightarrow> remote_dispatch_task option" where
  "remote_task_from_value v =
     (case (those (map (get_str v) [''remote_task_id'', ''owner_product_id'', ''agent_id'', ''directory_id'',
              ''prompt'', ''workspace_mode'', ''task_token'']),
            Option.bind (json_get v ''required_capabilities'') strings_of,
            opt_field as_u64 v ''timeout_seconds'', json_get v ''metadata'') of
        (Some [rid, owner, agent, directory, prompt, mode, token], Some caps, Some timeout, Some metadata) \<Rightarrow>
          Some \<lparr> rt_remote_task_id = rid, rt_owner_product_id = owner, rt_agent_id = agent,
                 rt_directory_id = directory, rt_prompt = prompt, rt_required_capabilities = caps,
                 rt_workspace_mode = mode, rt_timeout_seconds = timeout, rt_task_token = token,
                 rt_metadata = metadata \<rparr>
      | _ \<Rightarrow> None)"

definition accepted_from_value :: "json \<Rightarrow> daemon_registration_accepted option" where
  "accepted_from_value v =
     (case (get_str v ''daemon_id'', get_str v ''daemon_token'', opt_field as_str v ''session_id'',
            get_str v ''registered_at'') of
        (Some did, Some token, Some sid, Some at) \<Rightarrow>
          Some \<lparr> ra_daemon_id = did, ra_daemon_token = token, ra_session_id = sid, ra_registered_at = at \<rparr>
      | _ \<Rightarrow> None)"

section \<open>Handling a message\<close>

datatype handled_message = MsgIgnored | MsgTaskDispatched task | MsgTaskCancelled task | MsgHeartbeatAcknowledged

definition on_stores :: "(stores, control_plane_dispatch_error, 'a) op \<Rightarrow> 'a cp_op" where
  "on_stores m = map_err ClientDispatch (zoom cp_stores (\<lambda>t s. s\<lparr> cp_stores := t \<rparr>) m)"

definition on_daemon :: "('e \<Rightarrow> control_plane_client_error) \<Rightarrow> (daemon_table, 'e, 'a) op \<Rightarrow> 'a cp_op" where
  "on_daemon f m = map_err f (zoom cp_daemon (\<lambda>t s. s\<lparr> cp_daemon := t \<rparr>) m)"

definition handle_heartbeat_ack :: "string \<Rightarrow> handled_message cp_op" where
  "handle_heartbeat_ack at s =
     (case fst (get_current (cp_daemon s)) of
        Inl _ \<Rightarrow> (Inr MsgHeartbeatAcknowledged, s)
      | Inr record \<Rightarrow>
          and_then (on_daemon ClientStore (mark_heartbeat (dr_daemon_id record) at (dr_status record)))
            (\<lambda>_. ok MsgHeartbeatAcknowledged) s)"

definition handle_envelope :: "json \<Rightarrow> string \<Rightarrow> handled_message cp_op" where
  "handle_envelope envelope now =
     and_then (lift_r (ok_or InvalidMessage (get_str envelope ''type''))) (\<lambda>ty.
     if ty = ''task_dispatch'' then
       and_then (lift_r (ok_or InvalidMessage
         (Option.bind (json_get envelope ''task'') remote_task_from_value))) (\<lambda>r.
       and_then (on_stores (ingest r now)) (\<lambda>t. ok (MsgTaskDispatched t)))
     else if ty = ''task_cancel'' then
       and_then (lift_r (ok_or InvalidMessage (get_str envelope ''remote_task_id''))) (\<lambda>rid.
       and_then (on_stores (cancel_remote_task rid now)) (\<lambda>t. ok (MsgTaskCancelled t)))
     else if ty = ''heartbeat_ack'' then
       and_then (lift_r (ok_or InvalidMessage (get_str envelope ''heartbeat_at''))) handle_heartbeat_ack
     else ok MsgIgnored)"

definition handle_text :: "cp_env \<Rightarrow> string \<Rightarrow> string \<Rightarrow> handled_message cp_op" where
  "handle_text env payload now =
     and_then (lift_r (ok_or InvalidMessage (ce_parse_json env payload))) (\<lambda>envelope.
     handle_envelope envelope now)"

section \<open>Messages to the control plane\<close>

definition runtime_summaries :: "runtime_store \<Rightarrow> daemon_runtime_summary list" where
  "runtime_summaries rs = map (\<lambda>r. \<lparr> rs_provider_id = rv_provider_id r, rs_kind = rv_kind r,
     rs_runtime_status = rv_status r \<rparr>) (runtime_snapshot rs)"

definition summary_to_value :: "daemon_runtime_summary \<Rightarrow> json" where
  "summary_to_value r = Object
     [(''provider_id'', Str (rs_provider_id r)), (''kind'', Str (runtime_kind_str (rs_kind r))),
      (''status'', Str (runtime_status_str (rs_runtime_status r)))]"

definition request_to_value :: "daemon_registration_request \<Rightarrow> json" where
  "request_to_value r = Object
     [(''daemon_id'', opt_str (rr_daemon_id r)), (''session_id'', opt_str (rr_session_id r)),
      (''enrollment_secret'', Str (rr_enrollment_secret r)), (''daemon_version'', Str (rr_daemon_version r)),
      (''platform'', Str (rr_platform r)), (''capabilities'', Array (map Str (rr_capabilities r))),
      (''runtimes'', Array (map summary_to_value (rr_runtimes r)))]"

definition registration_message :: "cp_env \<Rightarrow> json cp_op" where
  "registration_message env s =
     and_then (on_daemon (\<lambda>_. InvalidMessage) (build_registration_request (ce_version env) (ce_platform env)
        (ce_config env) (runtime_summaries (cp_runtimes s)))) (\<lambda>r.
     ok (Object [(''type'', Str ''register''), (''registration'', request_to_value r)])) s"

definition build_heartbeat_message :: "cp_env \<Rightarrow> string \<Rightarrow> json cp_op" where
  "build_heartbeat_message env now =
     and_then (on_daemon (\<lambda>_. InvalidMessage) (build_registration_request (ce_version env) (ce_platform env)
        (ce_config env) [])) (\<lambda>r.
     ok (Object [(''type'', Str ''heartbeat''), (''daemon_id'', opt_str (rr_daemon_id r)),
                 (''session_id'', opt_str (rr_session_id r)), (''sent_at'', Str now)]))"

definition runtime_status_for :: "runtime_store \<Rightarrow> daemon_connection_status \<Rightarrow> json" where
  "runtime_status_for rs status = Object
     [(''type'', Str ''runtime_status''), (''daemon_status'', Str (serialize_status status)),
      (''runtimes'', Array (map summary_to_value (runtime_summaries rs)))]"

definition build_runtime_status_message :: "cp_env \<Rightarrow> string \<Rightarrow> json cp_op" where
  "build_runtime_status_message env now s =
     and_then (on_daemon (\<lambda>_. InvalidMessage) current_record) (\<lambda>record.
     (let status = (case record of
            None \<Rightarrow> Connecting
          | Some r \<Rightarrow> evaluate_liveness (ce_parse_time env) (cc_staleness_threshold (ce_config env))
              (dr_last_heartbeat_at r) now (dr_status r))
      in ok (runtime_status_for (cp_runtimes s) status))) s"

definition parse_registration_accepted ::
  "cp_env \<Rightarrow> string \<Rightarrow> control_plane_client_error + daemon_registration_accepted option" where
  "parse_registration_accepted env payload =
     r_then (ok_or InvalidMessage (ce_parse_json env payload)) (\<lambda>envelope.
     if get_str envelope ''type'' \<noteq> Some ''registration_accepted'' then Inr None
     else r_then (ok_or InvalidMessage (Option.bind (json_get envelope ''registration'') accepted_from_value))
            (\<lambda>a. Inr (Some a)))"

section \<open>One round of the session\<close>

datatype ws_frame = WsText string | WsPing string | WsClose | WsOther | WsEnd | WsDisconnected | WsFailed string

datatype session_input = Tick | Received ws_frame | BusEvent task_event | BusLagged | BusClosed

datatype ws_message = SendText string | SendPong string

datatype session_end = Continue | Finished

definition send_json :: "cp_env \<Rightarrow> json \<Rightarrow> ws_message" where
  "send_json env v = SendText (ce_print_json env v)"

definition on_delivered :: "(delivered, control_plane_client_error, 'a) op \<Rightarrow> 'a cp_op" where
  "on_delivered m = zoom cp_delivered (\<lambda>t s. s\<lparr> cp_delivered := t \<rparr>) m"

definition state_callback :: "task_event \<Rightarrow> json option cp_op" where
  "state_callback e s =
     (case task_of_event (st_tasks (cp_stores s)) (ev_task_id e) of
        Inl x \<Rightarrow> (Inl x, s)
      | Inr t \<Rightarrow> on_delivered (callback_for_task_state t) s)"

definition event_callback :: "task_event \<Rightarrow> json option cp_op" where
  "event_callback e s =
     (case ev_event_type e of
        EvWaitingDirectoryLock \<Rightarrow> state_callback e s
      | EvRunning \<Rightarrow> state_callback e s
      | _ \<Rightarrow> on_delivered (callback_for_event (st_tasks (cp_stores s)) e) s)"

text \<open>Errors that are not the client's own are the text of an \<open>anyhow\<close> error.\<close>

datatype session_error = SessionClient control_plane_client_error | SessionRegistration daemon_registration_error
  | SessionSocket string

definition on_text :: "cp_env \<Rightarrow> string \<Rightarrow> string \<Rightarrow> (cp_state, session_error, ws_message list \<times> session_end) op" where
  "on_text env payload now =
     and_then (lift_r (r_map_err SessionClient (parse_registration_accepted env payload))) (\<lambda>accepted.
     case accepted of
       Some a \<Rightarrow>
         and_then (map_err SessionRegistration
           (zoom cp_daemon (\<lambda>t s. s\<lparr> cp_daemon := t \<rparr>) (accept_registration (ce_config env) a))) (\<lambda>_.
         and_then (reads (\<lambda>s. Inr (runtime_status_for (cp_runtimes s) Online))) (\<lambda>m.
         ok ([send_json env m], Continue)))
     | None \<Rightarrow>
         and_then (map_err SessionClient (handle_text env payload now)) (\<lambda>_. ok ([], Continue)))"

definition session_step ::
  "cp_env \<Rightarrow> session_input \<Rightarrow> string \<Rightarrow> (cp_state, session_error, ws_message list \<times> session_end) op" where
  "session_step env inp now =
     (case inp of
        Tick \<Rightarrow>
          and_then (map_err SessionClient (build_heartbeat_message env now)) (\<lambda>hb.
          and_then (map_err SessionClient (build_runtime_status_message env now)) (\<lambda>rs.
          ok ([send_json env hb, send_json env rs], Continue)))
      | Received f \<Rightarrow>
          (case f of
             WsText payload \<Rightarrow> on_text env payload now
           | WsPing payload \<Rightarrow> ok ([SendPong payload], Continue)
           | WsClose \<Rightarrow> ok ([], Finished)
           | WsEnd \<Rightarrow> ok ([], Finished)
           | WsOther \<Rightarrow> ok ([], Continue)
           | WsDisconnected \<Rightarrow> ok ([], Finished)
           | WsFailed e \<Rightarrow> err (SessionSocket e))
      | BusEvent e \<Rightarrow>
          and_then (map_err SessionClient (event_callback e)) (\<lambda>callback.
          ok (case callback of None \<Rightarrow> [] | Some c \<Rightarrow> [send_json env c], Continue))
      | BusLagged \<Rightarrow> ok ([], Continue)
      | BusClosed \<Rightarrow> ok ([], Finished))"

end
