(* ===== verification/Control_Properties.thy ===== *)
theory Control_Properties
  imports Control_Session Execution_Properties
begin

text \<open>
  The properties of the control plane connection: a task is taken over once, a callback is sent once, a
  callback token is accepted once, and the registration is read back.
\<close>

section \<open>Filters\<close>

interpretation delivery: at_most_once set deliver_once
  by unfold_locales (auto simp: deliver_once_def)

interpretation callback_use: at_most_once set use_callback
  by unfold_locales (auto simp: use_callback_def)

section \<open>The registration table\<close>

definition daemon_inv :: "daemon_table \<Rightarrow> bool" where
  "daemon_inv s \<longleftrightarrow> distinct (map dr_daemon_id (dt_rows s))"

interpretation daemons: keyed_table dt_rows dr_daemon_id find_daemon daemon_inv
  by unfold_locales (simp_all add: find_daemon_def daemon_inv_def)

lemma daemon_inv_upsert:
  assumes "daemon_inv s"
  shows "daemon_inv (upsert_daemon r s)"
proof -
  have "map dr_daemon_id (update_rows (\<lambda>x. dr_daemon_id x = dr_daemon_id r) (\<lambda>_. r) (dt_rows s)) =
      map dr_daemon_id (dt_rows s)"
    by (rule map_update_rows) simp
  with assms show ?thesis
    by (auto simp: daemon_inv_def upsert_daemon_def daemons.lookup_None)
qed

lemma find_key_replace:
  "List.find (\<lambda>x. key x = j) (update_rows (\<lambda>x. key x = key r) (\<lambda>_. r) rs) =
    (if j = key r then map_option (\<lambda>_. r) (List.find (\<lambda>x. key x = j) rs) else List.find (\<lambda>x. key x = j) rs)"
  by (induction rs) (auto simp: update_rows_def)

lemma find_upsert_daemon:
  "find_daemon j (upsert_daemon r s) = (if j = dr_daemon_id r then Some r else find_daemon j s)"
proof (cases "find_daemon (dr_daemon_id r) s")
  case None
  then show ?thesis
    using daemons.lookup_insert [of "upsert_daemon r s" s r j]
    by (simp add: upsert_daemon_def daemons.lookup_None)
next
  case (Some x)
  then show ?thesis by (simp add: upsert_daemon_def find_daemon_def find_key_replace)
qed

text \<open>
  Registration: a saved registration is read back under its id and changes no other; it replaces
  the row of the same daemon in place, so that the current registration is the first that was ever
  saved, updated, and not the last one.
\<close>

lemma registration_read_back:
  assumes "daemon_inv s"
  shows "\<exists>s'. save_registration r s = (Inr r, s') \<and> daemon_inv s' \<and>
    (\<forall>j. find_daemon j s' = (if j = dr_daemon_id r then Some r else find_daemon j s)) \<and>
    fst (get_current s') =
      Inr (case dt_rows s of [] \<Rightarrow> r | c # _ \<Rightarrow> if dr_daemon_id c = dr_daemon_id r then r else c)"
proof -
  have "save_registration r s = (Inr r, upsert_daemon r s)"
    by (simp add: save_registration_def get_daemon_def op_simps find_upsert_daemon)
  moreover have "fst (get_current (upsert_daemon r s)) =
      Inr (case dt_rows s of [] \<Rightarrow> r | c # _ \<Rightarrow> if dr_daemon_id c = dr_daemon_id r then r else c)"
    by (auto simp: get_current_def op_simps upsert_daemon_def find_daemon_def update_rows_def
        split: list.splits)
  ultimately show ?thesis using daemon_inv_upsert [OF assms] find_upsert_daemon by blast
qed

lemma registration_read_back_example:
  "\<exists>s'. save_registration \<lparr> dr_daemon_id = ''d2'', dr_control_plane_url = ''u'', dr_daemon_token = ''k'',
      dr_status = Online, dr_registered_at = ''t'', dr_last_heartbeat_at = None, dr_last_error_code = None,
      dr_session_id = None \<rparr> \<lparr> dt_rows = [] \<rparr> =
    (Inr \<lparr> dr_daemon_id = ''d2'', dr_control_plane_url = ''u'', dr_daemon_token = ''k'',
      dr_status = Online, dr_registered_at = ''t'', dr_last_heartbeat_at = None, dr_last_error_code = None,
      dr_session_id = None \<rparr>, s')"
proof -
  have "daemon_inv \<lparr> dt_rows = [] \<rparr>" by (simp add: daemon_inv_def)
  from registration_read_back [OF this] show ?thesis by blast
qed

section \<open>Callback tokens\<close>

text \<open>
  A callback is accepted if and only if its token is not the daemon's own, the task was dispatched
  under that remote id with that token, and the callback id was not used for it before; accepting
  uses it up.
\<close>

lemma callback_accepted_exactly:
  "validate_task_callback rid token metadata daemon_token cid used = (Inr (), used') \<longleftrightarrow>
     daemon_token \<noteq> token \<and>
     (\<exists>c. json_get metadata ''control_plane'' = Some c \<and> get_str c ''remote_task_id'' = Some rid \<and>
        get_str c ''task_token'' = Some token) \<and>
     (rid, cid) \<notin> set used \<and> used' = (rid, cid) # used"
  by (auto simp: validate_task_callback_def validate_daemon_token_def use_callback_def r_then_def ok_or_def
      split: sum.splits option.splits if_splits)

section \<open>Dispatch\<close>

lemma find_first_stable:
  assumes "length xs \<le> length ys" and "\<And>i. i < length xs \<Longrightarrow> P (ys ! i) = P (xs ! i)"
    and "List.find P xs = Some x"
  obtains i where "i < length xs" and "xs ! i = x" and "List.find P ys = Some (ys ! i)"
proof -
  from assms(3) obtain i where i: "i < length xs" "P (xs ! i)" "x = xs ! i" "\<forall>j<i. \<not> P (xs ! j)"
    by (auto simp: find_Some_iff)
  with assms(1,2) have "List.find P ys = Some (ys ! i)"
    by (auto simp: find_Some_iff intro!: exI [of _ i])
  with i show ?thesis using that by blast
qed

lemma evolves_rows:
  assumes wf: "tasks_wf db" "tasks_wf db'" and ev: "evolves db db'" and i: "i < length (db_tasks db)"
  shows "i < length (db_tasks db')" and "task_moved (db_tasks db ! i) (db_tasks db' ! i)"
proof -
  have row: "task_id (db_tasks d ! k) = task_row_id (Suc k)" if "tasks_wf d" "k < length (db_tasks d)" for d k
  proof -
    have "map task_id (db_tasks d) ! k = task_row_id (Suc k)"
      using that unfolding tasks_wf_def by (simp del: upt_Suc)
    with that(2) show ?thesis by simp
  qed
  have at: "find_task (task_row_id (Suc k)) d = Some (db_tasks d ! k)" if "tasks_wf d" "k < length (db_tasks d)" for d k
    using that row [OF that] task_table.lookup_Some [OF that(1)] by simp
  obtain t' where t': "find_task (task_row_id (Suc i)) db' = Some t'" "task_moved (db_tasks db ! i) t'"
    using evolves_task [OF ev at [OF wf(1) i]] .
  then obtain k where k: "k < length (db_tasks db')" "db_tasks db' ! k = t'"
    using task_table.lookup_SomeD [OF t'(1)] by (metis in_set_conv_nth)
  have "task_row_id (Suc k) = task_row_id (Suc i)"
    using row [OF wf(2) k(1)] task_table.lookup_SomeD [OF t'(1)] k(2) by simp
  then have "k = i" by (simp add: task_row_id_def)
  with k t' show "i < length (db_tasks db')" and "task_moved (db_tasks db ! i) (db_tasks db' ! i)" by auto
qed

lemma find_by_remote_eq:
  "find_by_remote_task_id rid s =
    (Inr (List.find (\<lambda>t. remote_task_id_of t = Some rid) (db_tasks (st_tasks s))), s)"
  by (simp add: find_by_remote_task_id_def and_then_def map_err_def on_tasks_eq list_tasks_def reads_def
      r_map_err_def is_none_or_def ok_def)

lemma remote_id_moved: "task_moved t t' \<Longrightarrow> remote_task_id_of t' = remote_task_id_of t"
proof -
  assume "task_moved t t'"
  then have "task_metadata (task_description t') = task_metadata (task_description t)"
    by (simp add: task_moved_def)
  then show ?thesis by (simp add: task_description_def remote_task_id_of_def)
qed

lemma ingest_cases:
  assumes "ingest r now s = (Inr t, s')"
  obtains "List.find (\<lambda>t. remote_task_id_of t = Some (rt_remote_task_id r)) (db_tasks (st_tasks s)) = Some t"
    and "s' = s"
  | caps mode where "List.find (\<lambda>t. remote_task_id_of t = Some (rt_remote_task_id r)) (db_tasks (st_tasks s)) = None"
    and "enqueue_task (remote_create_task r caps mode) now s = (Inr t, s')"
  using assms that
  by (auto simp: ingest_def and_then_def find_by_remote_eq ok_def lift_r_def map_err_def
      split: option.splits sum.splits prod.splits)

lemma enqueue_stored:
  assumes "task_db_inv (st_tasks s)" and "enqueue_task input now s = (Inr t, s')"
  shows "db_tasks (st_tasks s') = db_tasks (st_tasks s) @ [t] \<and> task_metadata t = ct_metadata input \<and>
    task_step (st_tasks s) (st_tasks s')"
proof (cases rule: enqueue_cases [of input now s])
  case (1 e)
  with assms(2) show ?thesis by simp
next
  case (2 mode g a)
  from enqueue_effect [OF assms(1) 2(1) refl refl, of now] assms(2)
  have "db_tasks (st_tasks s') = db_tasks (st_tasks s) @ [t] \<and> task_metadata t = ct_metadata input"
    by (auto simp: new_task_def admitted_input_def)
  moreover have "st_tasks s' = snd (create (admitted_input input mode a) now (st_tasks s))"
    using assms(2) 2(2) by (auto simp: on_tasks_eq split: prod.splits)
  ultimately show ?thesis using step_create by metis
qed

lemma ingest_found:
  assumes inv: "task_db_inv (st_tasks s)" and "ingest r now s = (Inr t, s')"
  shows "List.find (\<lambda>t. remote_task_id_of t = Some (rt_remote_task_id r)) (db_tasks (st_tasks s')) = Some t \<and>
    task_db_inv (st_tasks s')"
  using assms(2)
proof (cases rule: ingest_cases)
  case 1
  with inv show ?thesis by simp
next
  case (2 caps mode)
  note en = enqueue_stored [OF inv 2(2)]
  then have "remote_task_id_of t = Some (rt_remote_task_id r)"
    by (simp add: remote_task_id_of_def remote_create_task_def remote_metadata_def)
  moreover have "task_db_inv (st_tasks s')" using en inv task_step_inv by blast
  ultimately show ?thesis using en 2(1) by (simp add: find_append)
qed

text \<open>
  C28. A dispatched task is taken over once. Whatever happens to the task store after a dispatch was
  accepted, dispatching the same remote id again returns the same task, with whatever status it has
  reached, and stores nothing.
\<close>

theorem remote_dispatch_idempotent:
  assumes "task_reachable (st_tasks s)" and "ingest r now s = (Inr t, s1)"
    and "task_step\<^sup>*\<^sup>* (st_tasks s1) (st_tasks s2)" and "rt_remote_task_id r' = rt_remote_task_id r"
  shows "\<exists>t'. ingest r' now' s2 = (Inr t', s2) \<and> task_id t' = task_id t \<and>
    task_description t' = task_description t"
proof -
  let ?P = "\<lambda>t. remote_task_id_of t = Some (rt_remote_task_id r)"
  note found = ingest_found [OF task_reachable_inv [OF assms(1)] assms(2)]
  note later = task_steps_evolve [OF assms(3) conjunct2 [OF found]]
  have wf: "tasks_wf (st_tasks s1)" "tasks_wf (st_tasks s2)"
    using found later(2) by (simp_all add: task_db_inv_def)
  note rows = evolves_rows [OF wf later(1)]
  have len: "length (db_tasks (st_tasks s1)) \<le> length (db_tasks (st_tasks s2))"
    using rows(1) by (meson not_less order_refl)
  have "?P (db_tasks (st_tasks s2) ! i) = ?P (db_tasks (st_tasks s1) ! i)"
    if "i < length (db_tasks (st_tasks s1))" for i
    using remote_id_moved [OF rows(2) [OF that]] by simp
  from find_first_stable [OF len this conjunct1 [OF found]] obtain i
    where i: "i < length (db_tasks (st_tasks s1))" "db_tasks (st_tasks s1) ! i = t"
      "List.find ?P (db_tasks (st_tasks s2)) = Some (db_tasks (st_tasks s2) ! i)" by blast
  let ?t = "db_tasks (st_tasks s2) ! i"
  have moved: "task_description ?t = task_description t" using rows(2) [OF i(1)] i(2) by (simp add: task_moved_def)
  then have "task_id (task_description ?t) = task_id (task_description t)" by simp
  then have "task_id ?t = task_id t" by (simp add: task_description_def)
  moreover have "ingest r' now' s2 = (Inr ?t, s2)"
    using i(3) assms(4) by (simp add: ingest_def and_then_def find_by_remote_eq ok_def)
  ultimately show ?thesis using moved by blast
qed

definition demo_remote :: remote_dispatch_task where
  "demo_remote = \<lparr> rt_remote_task_id = ''r1'', rt_owner_product_id = ''prod'', rt_agent_id = ''agent'',
     rt_directory_id = ''dir_1'', rt_prompt = ''fix'', rt_required_capabilities = [''read''],
     rt_workspace_mode = ''worktree'', rt_timeout_seconds = None, rt_task_token = ''tok'', rt_metadata = Null \<rparr>"

lemma demo_remote_admissible:
  "admissible (remote_create_task demo_remote [Read] Worktree) Worktree demo_grant demo_agent demo_stores"
proof -
  let ?in = "remote_create_task demo_remote [Read] Worktree"
  note defs = remote_create_task_def demo_remote_def
  have "create_task_validate ?in = Inr ()"
    by (simp add: create_task_validate_def defs string_eval required_capabilities_def
        MAX_TASK_TIMEOUT_SECONDS_def model_defs remote_metadata_def)
  moreover have "find_agent (ct_agent_id ?in) (st_agents demo_stores) = Some demo_agent"
    "find_grant (ct_directory_id ?in) (st_grants demo_stores) = Some demo_grant"
    using demo_admissible by (simp_all add: admissible_def defs demo_input_def)
  moreover have "select_workspace_mode (ct_workspace_mode ?in) demo_grant (ct_direct_mode_task_opt_in ?in) = Inr Worktree"
    by (simp add: select_workspace_mode_Inr defs demo_grant_def unwrap_or_def)
  moreover have "overrides_ok ?in demo_agent" by (simp add: overrides_ok_def defs)
  moreover have "ap_owner_product_id demo_agent = ct_owner_product_id ?in"
    by (simp add: demo_agent_def demo_agent_input_def into_profile_def defs)
  moreover have "approved_by_scope (ct_metadata ?in) = False"
    by (simp add: approved_by_scope_def defs remote_metadata_def unwrap_or_def json_index_def)
  then have "grant_authorize demo_grant (auth_request ?in Worktree) = Inr ()"
    by (simp add: grant_authorize_Inr auth_request_def)
      (simp add: demo_grant_def defs required_capabilities_def unwrap_or_def)
  ultimately show ?thesis by (simp add: admissible_def)
qed

lemma demo_ingest: obtains t s' where "ingest demo_remote ''t5'' demo_stores = (Inr t, s')"
proof -
  have none: "List.find (\<lambda>t. remote_task_id_of t = Some ''r1'') (db_tasks (st_tasks demo_stores)) = None"
    by (simp add: demo_stores_def demo_created_eq remote_task_id_of_def demo_task_def new_task_def demo_input_def)
  obtain t s' where "enqueue_task (remote_create_task demo_remote [Read] Worktree) ''t5'' demo_stores = (Inr t, s')"
    using enqueue_effect [OF task_reachable_inv [OF demo_stores_reachable] demo_remote_admissible refl refl] by blast
  then have "ingest demo_remote ''t5'' demo_stores = (Inr t, s')"
    using none
    by (simp add: ingest_def and_then_def find_by_remote_eq demo_remote_def ok_or_def lift_r_def map_err_def)
  then show ?thesis by (rule that)
qed

theorem remote_dispatch_idempotent_witness:
  "\<exists>t s1 t'. ingest demo_remote ''t5'' demo_stores = (Inr t, s1) \<and>
     ingest demo_remote ''t6'' s1 = (Inr t', s1) \<and> task_id t' = task_id t"
proof -
  obtain t s1 where i: "ingest demo_remote ''t5'' demo_stores = (Inr t, s1)" by (rule demo_ingest)
  from remote_dispatch_idempotent [OF demo_stores_reachable i rtranclp.rtrancl_refl refl, of "''t6''"] i
  show ?thesis by blast
qed

section \<open>A session beside the daemon\<close>

abbreviation cp_tasks :: "cp_state \<Rightarrow> task_db" where
  "cp_tasks s \<equiv> st_tasks (cp_stores s)"

text \<open>The session and the rest of the daemon take turns.\<close>

inductive session_evolves :: "cp_env \<Rightarrow> cp_state \<Rightarrow> cp_state \<Rightarrow> bool" for env where
  by_session: "session_step env inp now s = (r, s') \<Longrightarrow> session_evolves env s s'"
| by_daemon: "task_step (cp_tasks s) db \<Longrightarrow>
    session_evolves env s (s\<lparr>cp_stores := (cp_stores s)\<lparr>st_tasks := db\<rparr>\<rparr>)"

text \<open>What a step of either keeps: the task store only takes steps of its own, and delivered callbacks stay so.\<close>

definition goes_on :: "cp_state \<Rightarrow> cp_state \<Rightarrow> bool" where
  "goes_on s s' \<longleftrightarrow> (task_db_inv (cp_tasks s) \<longrightarrow>
     task_step\<^sup>*\<^sup>* (cp_tasks s) (cp_tasks s') \<and> set (cp_delivered s) \<subseteq> set (cp_delivered s'))"

definition moves :: "(cp_state, 'e, 'a) op \<Rightarrow> bool" where
  "moves m \<longleftrightarrow> (\<forall>s. goes_on s (snd (m s)))"

lemma goes_on_refl [simp]: "goes_on s s"
  by (simp add: goes_on_def)

lemma goes_on_trans: "goes_on a b \<Longrightarrow> goes_on b c \<Longrightarrow> goes_on a c"
  unfolding goes_on_def using task_steps_evolve(2) by (meson order_trans rtranclp_trans)

lemma moves_and_then [intro]:
  assumes "moves m" and "\<And>v. moves (f v)"
  shows "moves (and_then m f)"
  unfolding moves_def
proof
  fix s
  obtain r s' where m: "m s = (r, s')" by (cases "m s")
  with assms(1) have "goes_on s s'" unfolding moves_def by (metis snd_conv)
  moreover have "\<And>v. goes_on s' (snd (f v s'))" using assms(2) by (simp add: moves_def)
  ultimately show "goes_on s (snd (and_then m f s))" using m
    by (cases r) (auto simp: and_then_def intro: goes_on_trans)
qed

lemma moves_basic [simp, intro]:
  "moves (ok v)" "moves (err e)" "moves (lift_r r)" "moves (reads q)"
  by (simp_all add: moves_def op_simps)

lemma moves_map_err [intro]: "moves m \<Longrightarrow> moves (map_err f m)"
  by (simp add: moves_def)

lemma moves_daemon [intro]:
  "moves (zoom cp_daemon (\<lambda>t s. s\<lparr>cp_daemon := t\<rparr>) m)" "moves (on_daemon f m)"
  by (auto simp: moves_def on_daemon_def zoom_def goes_on_def split: prod.splits)

lemma goes_on_daemon_ok [simp]: "goes_on s (snd (and_then (on_daemon f m) (\<lambda>v. ok (g v)) s))"
  using moves_and_then [OF moves_daemon(2) moves_basic(1), of f m g] by (simp add: moves_def)

lemma moves_case_option [intro]: "moves a \<Longrightarrow> (\<And>v. moves (b v)) \<Longrightarrow> moves (case_option a b x)"
  by (cases x) auto

lemma moves_if [intro]: "moves a \<Longrightarrow> moves b \<Longrightarrow> moves (if c then a else b)"
  by simp

lemma moves_delivered:
  assumes "\<And>ds. set ds \<subseteq> set (snd (m ds))"
  shows "moves (on_delivered m)"
  unfolding moves_def
proof
  fix s
  show "goes_on s (snd (on_delivered m s))"
    using assms [of "cp_delivered s"]
    by (cases "m (cp_delivered s)") (simp add: on_delivered_def zoom_def goes_on_def)
qed

lemma deliver_once_mem: "deliver_once k ds = (b, ds') \<Longrightarrow> set ds' = insert k (set ds)"
  using delivery.records [of k ds] by simp

lemma state_callback_grows: "set ds \<subseteq> set (snd (callback_for_task_state t ds))"
  by (auto simp: callback_for_task_state_def dest: deliver_once_mem
      split: option.splits sum.splits prod.splits bool.splits)

lemma event_callback_grows: "set ds \<subseteq> set (snd (callback_for_event db e ds))"
  by (auto simp: callback_for_event_def dest: deliver_once_mem
      split: option.splits sum.splits prod.splits bool.splits)

lemma moves_event_callback: "moves (event_callback e)"
proof -
  have "moves (on_delivered (callback_for_task_state t))" "moves (on_delivered (callback_for_event db e))" for t db
    using state_callback_grows event_callback_grows by (blast intro: moves_delivered)+
  then show ?thesis
    by (auto simp: moves_def event_callback_def state_callback_def split: task_event_type.splits sum.splits)
qed

lemma moves_stores:
  assumes "\<And>s. task_db_inv (st_tasks s) \<Longrightarrow> task_step\<^sup>*\<^sup>* (st_tasks s) (st_tasks (snd (m s)))"
  shows "moves (on_stores m)"
  using assms by (auto simp: moves_def on_stores_def map_err_def zoom_def goes_on_def split: prod.splits sum.splits)
    (metis snd_conv)+

lemma enqueue_step:
  assumes "task_db_inv (st_tasks s)"
  shows "task_step\<^sup>*\<^sup>* (st_tasks s) (st_tasks (snd (enqueue_task input now s)))"
proof (cases "enqueue_task input now s")
  case (Pair r s')
  show ?thesis
  proof (cases rule: enqueue_cases [of input now s])
    case (2 mode g a)
    then show ?thesis using step_create by (auto simp: on_tasks_eq split: prod.splits) (metis r_into_rtranclp snd_conv)
  qed simp
qed

lemma ingest_step:
  assumes "task_db_inv (st_tasks s)"
  shows "task_step\<^sup>*\<^sup>* (st_tasks s) (st_tasks (snd (ingest r now s)))"
  using enqueue_step [OF assms]
  by (auto simp: ingest_def and_then_def find_by_remote_eq ok_def lift_r_def map_err_def
      split: option.splits sum.splits prod.splits) (metis snd_conv)+

lemma cancel_remote_step: "task_step\<^sup>*\<^sup>* (st_tasks s) (st_tasks (snd (cancel_remote_task rid now s)))"
proof -
  have "task_step\<^sup>*\<^sup>* (st_tasks s) (st_tasks (snd (on_tasks (cancel tid now) s)))" for tid
    using step_transition by (auto simp: on_tasks_eq cancel_def split: prod.splits) (metis r_into_rtranclp snd_conv)
  then show ?thesis
    by (auto simp: cancel_remote_task_def and_then_def find_by_remote_eq err_def cancel_task_def
        split: option.splits)
qed

lemma moves_handle: "moves (handle_text env payload now)"
proof -
  have "moves (on_stores (ingest r now))" "moves (on_stores (cancel_remote_task rid now))" for r rid
    using ingest_step cancel_remote_step by (blast intro: moves_stores)+
  moreover have "moves (handle_heartbeat_ack at)" for at
    unfolding moves_def handle_heartbeat_ack_def by (auto split: sum.splits)
  ultimately show ?thesis
    unfolding handle_text_def handle_envelope_def by (intro moves_and_then moves_if moves_basic)
qed

lemma moves_session_step: "moves (session_step env inp now)"
proof -
  have "moves (on_text env payload now)" for payload
    unfolding on_text_def using moves_handle by blast
  moreover have "moves (build_heartbeat_message env now)"
    unfolding build_heartbeat_message_def by auto
  moreover have "moves (build_runtime_status_message env now)"
    unfolding moves_def build_runtime_status_message_def
    by (simp add: Let_def)
  ultimately show ?thesis
    unfolding session_step_def using moves_event_callback
    by (auto split: session_input.splits ws_frame.splits)
qed

lemma session_evolves_goes_on: "(session_evolves env)\<^sup>*\<^sup>* s s' \<Longrightarrow> goes_on s s'"
proof (induction rule: rtranclp_induct)
  case (step x y)
  from step(2) have "goes_on x y"
  proof cases
    case (by_session inp now r)
    then show ?thesis using moves_session_step unfolding moves_def by (metis snd_conv)
  qed (auto simp: goes_on_def)
  with step show ?case by (blast intro: goes_on_trans)
qed simp

section \<open>Callbacks\<close>

lemma callback_for_event_Some:
  assumes "callback_for_event db e ds = (Inr (Some c), ds')"
  obtains name t cp i where "callback_event_name (ev_event_type e) = Some name"
    and "find_task (ev_task_id e) db = Some t" and "json_get c ''task_id'' = Some (Str (task_id t))"
    and "Option.bind (task_metadata t) (\<lambda>m. json_get m ''control_plane'') = Some cp"
    and "remote_identity cp = Inr i" and "(task_id t, int (ev_sequence e)) \<in> set ds'"
  using assms
  by (auto simp: callback_for_event_def task_of_event_def get_task_def reads_def r_map_err_def ok_or_def
      dest: deliver_once_mem split: option.splits sum.splits prod.splits bool.splits)

text \<open>
  C29. The final callback of a task is sent once: after an event gave a callback, and whatever the
  session and the rest of the daemon did since, the same event gives none and changes nothing.
\<close>

theorem callback_sent_once:
  assumes "task_reachable (cp_tasks s)" and "callback_event_name (ev_event_type e) \<noteq> None"
    and "event_callback e s = (Inr (Some c), s1)" and "(session_evolves env)\<^sup>*\<^sup>* s1 s2"
  shows "event_callback e s2 = (Inr None, s2)"
proof -
  have eq: "event_callback e s = on_delivered (callback_for_event (cp_tasks s) e) s" for s
    using assms(2) by (cases "ev_event_type e") (auto simp: event_callback_def callback_event_name_def)
  obtain ds where c: "callback_for_event (cp_tasks s) e (cp_delivered s) = (Inr (Some c), ds)"
    and s1: "s1 = s\<lparr>cp_delivered := ds\<rparr>"
    using assms(3) eq [of s] by (auto simp: on_delivered_def zoom_def split: prod.splits)
  obtain name t cp i where t: "find_task (ev_task_id e) (cp_tasks s) = Some t"
    and name: "callback_event_name (ev_event_type e) = Some name"
    and cp: "Option.bind (task_metadata t) (\<lambda>m. json_get m ''control_plane'') = Some cp" "remote_identity cp = Inr i"
    and k: "(task_id t, int (ev_sequence e)) \<in> set ds"
    using callback_for_event_Some [OF c] by metis
  have inv: "task_db_inv (cp_tasks s1)" using task_reachable_inv [OF assms(1)] s1 by simp
  then have steps: "task_step\<^sup>*\<^sup>* (cp_tasks s1) (cp_tasks s2)" "set ds \<subseteq> set (cp_delivered s2)"
    using session_evolves_goes_on [OF assms(4)] s1 by (simp_all add: goes_on_def)
  obtain t' where t': "find_task (ev_task_id e) (cp_tasks s2) = Some t'" "task_moved t t'"
    using evolves_task [OF task_steps_evolve(1) [OF steps(1) inv], of "ev_task_id e" t] t s1 by auto
  then have d: "task_description t' = task_description t" by (simp add: task_moved_def)
  then have "task_id (task_description t') = task_id (task_description t)"
    "task_metadata (task_description t') = task_metadata (task_description t)" by simp_all
  then have "task_id t' = task_id t" "task_metadata t' = task_metadata t" by (simp_all add: task_description_def)
  with t' name cp k steps(2) have "callback_for_event (cp_tasks s2) e (cp_delivered s2) = (Inr None, cp_delivered s2)"
    by (auto simp: callback_for_event_def task_of_event_def get_task_def reads_def r_map_err_def ok_or_def
        deliver_once_def split: prod.splits)
  then show ?thesis by (simp add: eq [of s2] on_delivered_def zoom_def)
qed

definition demo_final_event :: "string \<Rightarrow> task_event" where
  "demo_final_event tid = \<lparr> ev_id = ''e9'', ev_task_id = tid, ev_sequence = 7, ev_event_type = EvCancelled,
     ev_payload = Null, ev_created_at = ''t9'' \<rparr>"

definition demo_session :: "stores \<Rightarrow> cp_state" where
  "demo_session st = \<lparr> cp_stores = st, cp_daemon = \<lparr> dt_rows = [] \<rparr>, cp_delivered = [],
     cp_runtimes = [] \<rparr>"

lemma demo_remote_stored:
  obtains t and st :: stores where "find_task (task_id t) (st_tasks st) = Some t" and "task_reachable (st_tasks st)"
    and "task_metadata t = Some (remote_metadata demo_remote)"
proof -
  obtain t s' where i: "ingest demo_remote ''t5'' demo_stores = (Inr t, s')" by (rule demo_ingest)
  note inv = task_reachable_inv [OF demo_stores_reachable]
  from i obtain caps mode where "enqueue_task (remote_create_task demo_remote caps mode) ''t5'' demo_stores = (Inr t, s')"
    by (cases rule: ingest_cases)
      (auto simp: demo_stores_def demo_created_eq remote_task_id_of_def demo_task_def new_task_def
        demo_input_def demo_remote_def)
  note en = enqueue_stored [OF inv this]
  then have inv': "task_db_inv (st_tasks s')" using inv task_step_inv by blast
  have "find_task (task_id t) (st_tasks s') = Some t"
    using task_table.lookup_Some [of "st_tasks s'"] inv' en by (simp add: task_db_inv_def)
  moreover have "task_reachable (st_tasks s')"
    using en demo_stores_reachable reach_step by blast
  moreover have "task_metadata t = Some (remote_metadata demo_remote)" using en by (simp add: remote_create_task_def)
  ultimately show ?thesis by (rule that)
qed

theorem callback_sent_once_witness:
  "\<exists>tid st c s1. event_callback (demo_final_event tid) (demo_session st) = (Inr (Some c), s1) \<and>
     event_callback (demo_final_event tid) s1 = (Inr None, s1)"
proof -
  obtain t and st :: stores where t: "find_task (task_id t) (st_tasks st) = Some t" "task_reachable (st_tasks st)"
    "task_metadata t = Some (remote_metadata demo_remote)" by (rule demo_remote_stored)
  let ?e = "demo_final_event (task_id t)" and ?s = "demo_session st"
  have "\<exists>c s1. event_callback ?e ?s = (Inr (Some c), s1)"
    using t by (simp add: event_callback_def on_delivered_def zoom_def demo_final_event_def demo_session_def
      callback_for_event_def callback_event_name_def task_of_event_def get_task_def reads_def r_map_err_def
      ok_or_def remote_metadata_def demo_remote_def remote_identity_def deliver_once_def r_then_def get_str_def)
  then obtain c s1 where c: "event_callback ?e ?s = (Inr (Some c), s1)" by blast
  have "callback_event_name (ev_event_type ?e) \<noteq> None" by (simp add: demo_final_event_def callback_event_name_def)
  moreover have "task_reachable (cp_tasks ?s)" using t(2) by (simp add: demo_session_def)
  ultimately have "event_callback ?e s1 = (Inr None, s1)"
    using callback_sent_once [OF _ _ c rtranclp.rtrancl_refl] by blast
  with c show ?thesis by blast
qed

end
