(* ===== verification/Acp.thy ===== *)
theory Acp
  imports Adapter Event_Service
begin

text \<open>
  \<open>src/src/runtime/acp.rs\<close>: a session with a provider that speaks ACP over its standard streams. The
  frames it writes become events of the task; a permission request is stored, put to the owner of the
  task and answered on the provider's standard input.

  The reader of the standard output runs beside everything else, so it is a state machine: between two
  frames, and while it waits for a decision, other calls work on the task store. \<open>acp_step\<close> interleaves
  its steps with those of the rest of the daemon. Frames written to the provider are kept as JSON
  values; whether a write succeeds is an argument of the step.
\<close>

section \<open>Debug output of errors\<close>

fun debug_model_error :: "task_model_error \<Rightarrow> string" where
  "debug_model_error ModelInvalidPrompt = ''InvalidPrompt''"
| "debug_model_error ModelInvalidTask = ''InvalidTask''"

fun debug_state_error :: "task_state_error \<Rightarrow> string" where
  "debug_state_error InvalidTransition = ''InvalidTransition''"
| "debug_state_error AlreadyTerminal = ''AlreadyTerminal''"

fun debug_task_store :: "task_store_error \<Rightarrow> string" where
  "debug_task_store TsNotFound = ''NotFound''"
| "debug_task_store PermissionRequestNotFound = ''PermissionRequestNotFound''"
| "debug_task_store PermissionRequestNotPending = ''PermissionRequestNotPending''"
| "debug_task_store PermissionRequestAlreadyResolved = ''PermissionRequestAlreadyResolved''"
| "debug_task_store (TsModel e) = ''Model('' @ debug_model_error e @ '')''"
| "debug_task_store (TsState e) = ''State('' @ debug_state_error e @ '')''"
| "debug_task_store (TsStore e) = ''Store('' @ e @ '')''"

fun debug_event_service :: "task_event_service_error \<Rightarrow> string" where
  "debug_event_service InvalidCursor = ''InvalidCursor''"
| "debug_event_service InvalidEventRequest = ''InvalidEventRequest''"
| "debug_event_service InvalidPermissionDecision = ''InvalidPermissionDecision''"
| "debug_event_service PermissionResponseNotSupported = ''PermissionResponseNotSupported''"
| "debug_event_service (StorePayload e) = ''StorePayload('' @ e @ '')''"
| "debug_event_service (TaskError e) = ''Task('' @ debug_task_store e @ '')''"

section \<open>Frames\<close>

definition normalize_acp_event :: "json \<Rightarrow> runtime_output_event option" where
  "normalize_acp_event frame =
     Option.bind (get_str frame ''type'') (\<lambda>event_type.
     if event_type = ''message.delta'' then
       Some \<lparr> oe_kind = ProcessStdout,
              oe_payload = Object [(''text'', Str (unwrap_or (get_str frame ''text'') '''')),
                                   (''stream'', Str ''stdout''), (''details'', frame)] \<rparr>
     else if event_type = ''permission.decided'' then
       Some \<lparr> oe_kind = ProviderPermissionDecided, oe_payload = frame \<rparr>
     else None)"

definition acp_request_event :: "string \<Rightarrow> json \<Rightarrow> adapter_error + permission_request_event" where
  "acp_request_event pid frame =
     r_then (ok_or (adapter_error_new ''acp_permission_not_supported''
               ''acp permission request is missing request_id'') (get_str frame ''request_id'')) (\<lambda>rid.
     Inr \<lparr> pq_request_id = rid, pq_provider_id = pid,
           pq_permission_kind = unwrap_or (get_str frame ''permission_kind'') ''provider_permission'',
           pq_summary = unwrap_or (get_str frame ''summary'') ''permission request'',
           pq_details = Some frame, pq_options = [Approve, Deny],
           pq_expires_at = get_str frame ''expires_at'' \<rparr>)"

definition permission_response_frame :: "string \<Rightarrow> permission_decision_event \<Rightarrow> json" where
  "permission_response_frame rid d = Object
     [(''type'', Str ''permission.response''), (''request_id'', Str rid),
      (''decision'', Str (case pd_decision d of Approve \<Rightarrow> ''approve'' | Deny \<Rightarrow> ''deny'')),
      (''reason'', opt_json Str (pd_reason d))]"

section \<open>The reader of the standard output\<close>

text \<open>
  \<open>Requested\<close> is the reader between storing a request and asking for its decision, \<open>Awaiting\<close> while it
  waits on a channel. \<open>Stopped\<close> is the returned \<open>StdoutResult\<close>.
\<close>

datatype acp_phase = Reading | Requested string | Awaiting string nat | Stopped "adapter_error option"

record stdout_result =
  sr_session_id :: "string option"
  sr_events :: "runtime_output_event list"
  sr_phase :: acp_phase
  sr_sent :: "json list"

definition acp_start :: stdout_result where
  "acp_start = \<lparr> sr_session_id = None, sr_events = [], sr_phase = Reading, sr_sent = [] \<rparr>"

definition acp_stop :: "string \<Rightarrow> string \<Rightarrow> stdout_result \<Rightarrow> stdout_result" where
  "acp_stop code msg rd = rd\<lparr> sr_phase := Stopped (Some (adapter_error_new code msg)) \<rparr>"

text \<open>The first half of \<open>bridge_permission_request\<close>: the request is stored.\<close>

definition acp_request ::
  "string \<Rightarrow> string \<Rightarrow> json \<Rightarrow> string \<Rightarrow> task_db \<times> stdout_result \<Rightarrow> task_db \<times> stdout_result" where
  "acp_request tid pid frame now x = (case x of (db, rd) \<Rightarrow>
     (case acp_request_event pid frame of
        Inl e \<Rightarrow> (db, rd\<lparr> sr_phase := Stopped (Some e) \<rparr>)
      | Inr q \<Rightarrow>
          (case record_permission_request tid q now db of
             (Inl e, db') \<Rightarrow> (db', acp_stop ''acp_permission_not_supported''
                (''failed to store acp permission request: '' @ debug_task_store e) rd)
           | (Inr _, db') \<Rightarrow> (db', rd\<lparr> sr_phase := Requested (pq_request_id q) \<rparr>))))"

text \<open>The last part: the decision is written to the provider, the frame first and then the line end.\<close>

fun acp_respond ::
  "string + unit \<Rightarrow> string + unit \<Rightarrow> string \<Rightarrow> permission_decision_event \<Rightarrow> stdout_result \<Rightarrow> stdout_result" where
  "acp_respond (Inl e) line_end rid d rd =
     acp_stop ''acp_transport_closed'' (''failed to send acp permission response: '' @ e) rd"
| "acp_respond (Inr u) (Inl e) rid d rd =
     acp_stop ''acp_transport_closed'' (''failed to flush acp permission response: '' @ e)
       (rd\<lparr> sr_sent := sr_sent rd @ [permission_response_frame rid d] \<rparr>)"
| "acp_respond (Inr u) (Inr v) rid d rd =
     rd\<lparr> sr_phase := Reading, sr_sent := sr_sent rd @ [permission_response_frame rid d] \<rparr>"

text \<open>
  Asking for the decision. Reading the request and registering the waiter are one step here: an answer
  that arrives in between is refused, because nobody waits for it.
\<close>

definition acp_await ::
  "string + unit \<Rightarrow> string + unit \<Rightarrow> string \<Rightarrow> string \<Rightarrow> task_event_bus \<Rightarrow>
   task_db \<times> stdout_result \<Rightarrow> task_db \<times> stdout_result" where
  "acp_await wr line_end tid rid b x = (case x of (db, rd) \<Rightarrow>
     (case await_permission_decision tid rid b db of
        (Inl e, b') \<Rightarrow> (db\<lparr> db_bus := Some b' \<rparr>, acp_stop ''acp_permission_not_supported''
           (''failed to await acp permission decision: '' @ debug_event_service e) rd)
      | (Inr (Decided d), b') \<Rightarrow> (db\<lparr> db_bus := Some b' \<rparr>, acp_respond wr line_end rid d rd)
      | (Inr (Waits ch), b') \<Rightarrow> (db\<lparr> db_bus := Some b' \<rparr>, rd\<lparr> sr_phase := Awaiting rid ch \<rparr>)))"

definition acp_decision ::
  "string + unit \<Rightarrow> string + unit \<Rightarrow> string \<Rightarrow> unit + permission_decision_event \<Rightarrow> stdout_result \<Rightarrow> stdout_result" where
  "acp_decision wr line_end rid r rd =
     (case r of
        Inl _ \<Rightarrow> acp_stop ''acp_permission_not_supported''
          (''failed to await acp permission decision: '' @ debug_event_service PermissionResponseNotSupported) rd
      | Inr d \<Rightarrow> acp_respond wr line_end rid d rd)"

text \<open>One line of the standard output. A line that is not JSON is skipped.\<close>

definition acp_line ::
  "(string \<Rightarrow> json option) \<Rightarrow> bool \<Rightarrow> string \<Rightarrow> string \<Rightarrow> string \<Rightarrow> string \<Rightarrow>
   task_db \<times> stdout_result \<Rightarrow> task_db \<times> stdout_result" where
  "acp_line parse has_service tid pid line now x = (case x of (db, rd) \<Rightarrow>
     (case parse line of
        None \<Rightarrow> (db, rd)
      | Some frame \<Rightarrow>
          (let rd = (case get_str frame ''session_id'' of Some sid \<Rightarrow> rd\<lparr> sr_session_id := Some sid \<rparr> | None \<Rightarrow> rd) in
           if get_str frame ''type'' = Some ''permission.requested'' then
             if \<not> has_service then (db, acp_stop ''acp_permission_not_supported''
               ''acp permission requests require task event service integration'' rd)
             else acp_request tid pid frame now (db, rd)
           else
             (db, case normalize_acp_event frame of
                    Some e \<Rightarrow> rd\<lparr> sr_events := sr_events rd @ [e] \<rparr> | None \<Rightarrow> rd))))"

text \<open>
  What the rest of the daemon does to the task store meanwhile: any call that sends no decision, and
  sending the stored decision of a request.
\<close>

definition stored_response :: "string \<Rightarrow> string \<Rightarrow> permission_decision_event \<Rightarrow> task_db \<Rightarrow> bool" where
  "stored_response tid rid d db =
     is_some_and (query_permission_request tid rid db) (\<lambda>q. prr_response q = Some d \<and> prr_status q \<noteq> Pending)"

definition bus_answers_of :: "task_db \<Rightarrow> (nat \<Rightarrow> permission_decision_event option) option" where
  "bus_answers_of db = map_option bus_answers (db_bus db)"

inductive service_step :: "task_db \<Rightarrow> task_db \<Rightarrow> bool" where
  service_store: "store_step db db' \<Longrightarrow> bus_answers_of db' = bus_answers_of db \<Longrightarrow> service_step db db'"
| service_notify: "db_bus db = Some b \<Longrightarrow> stored_response tid (pd_request_id d) d db \<Longrightarrow>
    service_step db (db\<lparr>db_bus := Some (notify_permission_resolution tid d b)\<rparr>)"

inductive acp_step ::
  "(string \<Rightarrow> json option) \<Rightarrow> bool \<Rightarrow> string \<Rightarrow> string \<Rightarrow> task_db \<times> stdout_result \<Rightarrow> task_db \<times> stdout_result \<Rightarrow> bool"
  for parse has_service tid pid where
  acp_reads: "sr_phase rd = Reading \<Longrightarrow>
    acp_step parse has_service tid pid (db, rd) (acp_line parse has_service tid pid line now (db, rd))"
| acp_awaits: "sr_phase rd = Requested rid \<Longrightarrow> db_bus db = Some b \<Longrightarrow>
    acp_step parse has_service tid pid (db, rd) (acp_await wr line_end tid rid b (db, rd))"
| acp_decides: "sr_phase rd = Awaiting rid ch \<Longrightarrow> db_bus db = Some b \<Longrightarrow> poll_receiver ch b = Some r \<Longrightarrow>
    acp_step parse has_service tid pid (db, rd) (db, acp_decision wr line_end rid r rd)"
| acp_ends: "sr_phase rd = Reading \<Longrightarrow>
    acp_step parse has_service tid pid (db, rd) (db, rd\<lparr>sr_phase := Stopped None\<rparr>)"
| acp_daemon: "service_step db db' \<Longrightarrow> acp_step parse has_service tid pid (db, rd) (db', rd)"

section \<open>Execution\<close>

datatype acp_run =
    AcpSpawnFailed string
  | AcpNoStdin
  | AcpNoStdout
  | AcpPromptFailed
  | AcpStdoutTaskFailed string
  | AcpRan stdout_result child_wait "string list"

record acp_world =
  aw_is_dir :: "string \<Rightarrow> bool"
  aw_run :: "spawned_command \<Rightarrow> acp_run"

definition stderr_events :: "string list \<Rightarrow> runtime_output_event list" where
  "stderr_events lines = map (\<lambda>line. \<lparr> oe_kind = ProcessStderr,
     oe_payload = Object [(''text'', Str line), (''stream'', Str ''stderr'')] \<rparr>) lines"

definition acp_command :: "runtime_execution_request \<Rightarrow> string list \<Rightarrow> spawned_command" where
  "acp_command r command =
     \<lparr> sp_executable = xr_executable r, sp_args = drop 1 command,
       sp_current_dir = pw_working_directory (xr_workspace r),
       sp_stdin = Some (task_prompt (xr_task r) @ [CHR 0x0A]), sp_env = [],
       sp_timeout_seconds = (if xr_timeout_seconds r = 0 then DEFAULT_EXECUTION_TIMEOUT
                             else xr_timeout_seconds r),
       sp_cancel_signal = SigKill \<rparr>"

definition acp_finish :: "stdout_result \<Rightarrow> child_wait \<Rightarrow> string list \<Rightarrow> runtime_execution_outcome" where
  "acp_finish rd wt stderr =
     (let events = sr_events rd @ stderr_events stderr in
      case sr_phase rd of
        Stopped (Some e) \<Rightarrow> outcome_failed None e events
      | _ \<Rightarrow>
          (case wt of
             Exited st \<Rightarrow>
               if es_success st then
                 (outcome_completed (es_code st) events)
                   \<lparr> oc_session_id := sr_session_id rd, oc_final_message := ''acp session completed'' \<rparr>
               else outcome_failed (es_code st) (adapter_error_new ''adapter_execution_failed''
                      (''acp provider command exited with status '' @ es_display st)) events
           | ChildTimedOut \<Rightarrow> outcome_timed_out events
           | ChildCancelled \<Rightarrow> outcome_cancelled events
           | WaitFailed e \<Rightarrow> outcome_failed None (adapter_error_new ''adapter_execution_failed''
               (''failed to wait for acp provider command: '' @ e)) events))"

definition acp_failed :: "string \<Rightarrow> string \<Rightarrow> runtime_execution_outcome" where
  "acp_failed code msg = outcome_failed None (adapter_error_new code msg) []"

definition acp_execute :: "acp_world \<Rightarrow> runtime_execution_request \<Rightarrow> runtime_execution_outcome" where
  "acp_execute w r =
     (case pm_acp (xr_manifest r) of
        None \<Rightarrow> acp_failed ''acp_invalid_configuration'' ''provider acp configuration is missing''
      | Some acp \<Rightarrow>
          if ac_transport acp \<noteq> Stdio then
            acp_failed ''acp_invalid_configuration'' ''only local stdio acp transport is implemented''
          else if \<not> aw_is_dir w (pw_working_directory (xr_workspace r)) then
            acp_failed ''working_directory_missing'' ''prepared working directory does not exist''
          else
            (case ac_command acp of
               None \<Rightarrow> acp_failed ''acp_invalid_configuration'' ''acp stdio transport requires command metadata''
             | Some command \<Rightarrow>
                 (case aw_run w (acp_command r command) of
                    AcpSpawnFailed e \<Rightarrow> acp_failed ''acp_session_start_failed''
                      (''failed to spawn acp provider command: '' @ e)
                  | AcpNoStdin \<Rightarrow> acp_failed ''acp_handshake_failed'' ''acp provider stdin is unavailable''
                  | AcpNoStdout \<Rightarrow> acp_failed ''acp_handshake_failed'' ''acp provider stdout is unavailable''
                  | AcpPromptFailed \<Rightarrow> acp_failed ''acp_handshake_failed''
                      ''failed to send task prompt to acp provider''
                  | AcpStdoutTaskFailed e \<Rightarrow> acp_failed ''acp_transport_closed'' (''acp stdout task failed: '' @ e)
                  | AcpRan rd wt stderr \<Rightarrow> acp_finish rd wt stderr)))"

definition acp_cancel :: "bool \<Rightarrow> string \<Rightarrow> cancellations \<Rightarrow> runtime_cancel_outcome \<times> cancellations" where
  "acp_cancel = adapter_cancel ''command_cancelled'' ''no running acp session for task''"

end
