(* ===== verification/Acp_Props.thy ===== *)
theory Acp_Props
  imports Acp Task_Properties
begin

text \<open>
  The invariant of an ACP session: what the provider was told is what is stored, and the channel the
  reader waits on can only carry the stored decision of its own request.
\<close>

section \<open>Channels\<close>

definition channels ::
  "task_db \<Rightarrow> (((string \<times> string) \<times> nat) list \<times> nat \<times> (nat \<Rightarrow> permission_decision_event option)) option" where
  "channels db = map_option (\<lambda>b. (bus_waiters b, bus_next_channel b, bus_answers b)) (db_bus db)"

lemma channels_simps [simp]:
  "channels (publish_db e db) = channels db" "channels (update_task tid f db) = channels db"
  "channels (db\<lparr>db_tasks := x\<rparr>) = channels db" "channels (db\<lparr>db_events := y\<rparr>) = channels db"
  "channels (db\<lparr>db_locks := z\<rparr>) = channels db" "channels (db\<lparr>db_requests := r\<rparr>) = channels db"
  by (simp_all add: channels_def publish_db_def bus_publish_def update_task_def option.map_comp comp_def)

lemma quiet_basic [intro]:
  "keeps (\<lambda>db. channels db = c) (get_task tid)"
  "keeps (\<lambda>db. channels db = c) (event_by_sequence tid n)"
  "keeps (\<lambda>db. channels db = c) (publish_if_configured e)"
  "keeps (\<lambda>db. channels db = c) (insert_event_tx tid n ty p now)"
  "keeps (\<lambda>db. channels db = c) (insert_task_tx input tid now)"
  "keeps (\<lambda>db. channels db = c) (insert_request_tx tid n q now)"
  "keeps (\<lambda>db. channels db = c) (release_locks_tx tid now)"
  by (simp_all add: keeps_def get_task_def event_by_sequence_def publish_if_configured_def insert_event_tx_def
      insert_task_tx_def insert_request_tx_def release_locks_tx_def reads_def modify_def)

lemma quiet_modify: "(\<And>db. channels (f db) = channels db) \<Longrightarrow> keeps (\<lambda>db. channels db = c) (modify f)"
  by (simp add: keeps_def modify_def)

lemma quiet_transition_case [intro]:
  "keeps P a \<Longrightarrow> keeps P b \<Longrightarrow> keeps P (case tr of Idempotent \<Rightarrow> a | Changed \<Rightarrow> b)"
  by (cases tr) simp_all

lemma quiet_create: "keeps (\<lambda>db. channels db = c) (create input now)"
  unfolding create_def by blast

lemma quiet_transition: "keeps (\<lambda>db. channels db = c) (transition tid next p now)"
proof -
  have "keeps (\<lambda>db. channels db = c) (transition_commit tid n next p now)" for n
    unfolding transition_commit_def
    by (intro keeps_and_then keeps_transaction keeps_if quiet_basic quiet_modify keeps_ok) simp
  then show ?thesis unfolding transition_def by blast
qed

lemma quiet_append: "keeps (\<lambda>db. channels db = c) (append_event tid ty p now)"
  unfolding append_event_def by blast

lemma quiet_record: "keeps (\<lambda>db. channels db = c) (record_permission_request tid q now)"
  unfolding record_permission_request_def by blast

lemma quiet_resolve: "keeps (\<lambda>db. channels db = c) (resolve_permission_request tid rid dec reason now)"
  unfolding resolve_permission_request_def Let_def
  by (intro keeps_and_then keeps_transaction keeps_if quiet_basic quiet_modify keeps_ok keeps_err keeps_reads
      keeps_lift_r) simp

lemma quiet_save:
  "keeps (\<lambda>db. channels db = c) (save_result tid msg files now)"
  "keeps (\<lambda>db. channels db = c) (save_execution_result res)"
  unfolding save_result_def save_execution_result_def
  by (intro keeps_and_then quiet_basic quiet_modify; simp)+

lemma quiet_locks:
  "keeps (\<lambda>db. channels db = c) (acquire_lock r now)" "keeps (\<lambda>db. channels db = c) (release_locks tid now)"
  unfolding acquire_lock_def release_locks_def insert_lock_def
  by (intro keeps_and_then keeps_if keeps_reads keeps_ok quiet_basic quiet_modify; simp)+

lemmas store_quiet [simp] = quiet_create [THEN keeps_snd, OF refl] quiet_transition [THEN keeps_snd, OF refl]
  quiet_append [THEN keeps_snd, OF refl] quiet_record [THEN keeps_snd, OF refl]
  quiet_resolve [THEN keeps_snd, OF refl] quiet_save [THEN keeps_snd, OF refl] quiet_locks [THEN keeps_snd, OF refl]

lemma channels_bus: "channels db' = channels db \<Longrightarrow> db_bus db = Some b \<Longrightarrow>
  \<exists>b'. db_bus db' = Some b' \<and> bus_waiters b' = bus_waiters b \<and> bus_next_channel b' = bus_next_channel b \<and>
    bus_answers b' = bus_answers b"
  by (auto simp: channels_def)

lemma store_step_bus:
  assumes "store_step db db'" and "db_bus db = Some b"
  obtains "channels db' = channels db"
  | tid rid where "db' = db\<lparr>db_bus := Some (snd (register_waiter tid rid b))\<rparr>"
  | tid d where "db' = db\<lparr>db_bus := Some (notify_permission_resolution tid d b)\<rparr>"
proof -
  have "channels (db\<lparr>db_bus := Some (bus_publish e b)\<rparr>) = channels db" for e
    using assms(2) by (simp add: channels_def bus_publish_def)
  with assms that show ?thesis by (cases rule: store_step.cases) simp_all
qed

lemma notify_waiters: "set (bus_waiters (notify_permission_resolution tid d b)) \<subseteq> set (bus_waiters b)"
  by (auto simp: notify_permission_resolution_def AList.delete_eq split: option.splits)

lemma notify_next [simp]: "bus_next_channel (notify_permission_resolution tid d b) = bus_next_channel b"
  by (simp add: notify_permission_resolution_def split: option.splits)

lemma update_entries: "(k, v) \<in> set (AList.update j w al) \<Longrightarrow> (k, v) = (j, w) \<or> (k, v) \<in> set al"
  by (induction al) (auto split: if_splits)

text \<open>No call of the store gives a channel that is in use to another request.\<close>

lemma store_step_channels:
  assumes "store_step db db'" and "db_bus db = Some b"
  shows "\<exists>b'. db_bus db' = Some b' \<and> bus_next_channel b \<le> bus_next_channel b' \<and>
    (\<forall>k ch. (k, ch) \<in> set (bus_waiters b') \<longrightarrow> ch < bus_next_channel b \<longrightarrow> (k, ch) \<in> set (bus_waiters b))"
  using assms
proof (cases rule: store_step_bus)
  case 1
  then show ?thesis using channels_bus [OF _ assms(2)] by fastforce
next
  case (2 tid rid)
  then show ?thesis using update_entries by (fastforce simp: register_waiter_def)
next
  case (3 tid d)
  then show ?thesis using notify_waiters [of tid d b] by auto
qed

section \<open>The invariant of a session\<close>

definition faithful :: "string \<Rightarrow> task_db \<Rightarrow> json list \<Rightarrow> bool" where
  "faithful tid db frames \<longleftrightarrow>
     (\<forall>f \<in> set frames. \<exists>rid d. f = permission_response_frame rid d \<and> stored_response tid rid d db)"

definition acp_inv :: "string \<Rightarrow> task_db \<times> stdout_result \<Rightarrow> bool" where
  "acp_inv tid x \<longleftrightarrow> (case x of (db, rd) \<Rightarrow> task_db_inv db \<and> faithful tid db (sr_sent rd) \<and>
     (\<exists>b. db_bus db = Some b \<and>
       (\<forall>rid ch. sr_phase rd = Awaiting rid ch \<longrightarrow> ch < bus_next_channel b \<and>
          (\<forall>k. (k, ch) \<in> set (bus_waiters b) \<longrightarrow> k = (tid, rid)) \<and>
          (\<forall>d. bus_answers b ch = Some d \<longrightarrow> stored_response tid rid d db))))"

lemma stored_evolves: "evolves db db' \<Longrightarrow> stored_response tid rid d db \<Longrightarrow> stored_response tid rid d db'"
  by (auto simp: stored_response_def is_some_and_def request_moved_def split: option.splits elim: evolves_request)

lemma faithful_evolves: "evolves db db' \<Longrightarrow> faithful tid db fs \<Longrightarrow> faithful tid db' fs"
  unfolding faithful_def by (meson stored_evolves)

lemma service_step_evolves: "service_step db db' \<Longrightarrow> task_db_inv db \<Longrightarrow> evolves db db' \<and> task_db_inv db'"
  by (cases rule: service_step.cases)
    (auto intro: store_step_evolves store_step_inv evolves_bus store_notify [THEN store_step_inv])

lemma acp_inv_daemon:
  assumes "acp_inv tid (db, rd)" and "service_step db db'"
  shows "acp_inv tid (db', rd)"
proof -
  from assms(1) obtain b where inv: "task_db_inv db" and sent: "faithful tid db (sr_sent rd)" and b: "db_bus db = Some b"
    and ch: "\<And>rid ch. sr_phase rd = Awaiting rid ch \<Longrightarrow> ch < bus_next_channel b \<and>
          (\<forall>k. (k, ch) \<in> set (bus_waiters b) \<longrightarrow> k = (tid, rid)) \<and>
          (\<forall>d. bus_answers b ch = Some d \<longrightarrow> stored_response tid rid d db)"
    by (auto simp: acp_inv_def)
  note ev = service_step_evolves [OF assms(2) inv]
  have "\<exists>b'. db_bus db' = Some b' \<and> bus_next_channel b \<le> bus_next_channel b' \<and>
      (\<forall>k ch. (k, ch) \<in> set (bus_waiters b') \<longrightarrow> ch < bus_next_channel b \<longrightarrow> (k, ch) \<in> set (bus_waiters b)) \<and>
      (\<forall>rid ch d. sr_phase rd = Awaiting rid ch \<longrightarrow> bus_answers b' ch = Some d \<longrightarrow> stored_response tid rid d db)"
    using assms(2)
  proof cases
    case service_store
    then show ?thesis using store_step_channels [OF service_store(1) b] ch b by (auto simp: bus_answers_of_def)
  next
    case (service_notify b0 tid0 d0)
    with b have b0: "b0 = b" by simp
    have "stored_response tid rid d db"
      if "sr_phase rd = Awaiting rid c" "bus_answers (notify_permission_resolution tid0 d0 b) c = Some d" for rid c d
    proof (cases "map_of (bus_waiters b) (tid0, pd_request_id d0) = Some c")
      case True
      then have "(tid0, pd_request_id d0) = (tid, rid)" using ch [OF that(1)] map_of_SomeD by fastforce
      moreover have "d = d0" using that(2) True by (simp add: notify_permission_resolution_def)
      ultimately show ?thesis using service_notify(3) by simp
    next
      case False
      then have "bus_answers b c = Some d"
        using that(2) by (auto simp: notify_permission_resolution_def split: option.splits if_splits)
      then show ?thesis using ch [OF that(1)] by blast
    qed
    then show ?thesis using service_notify(1) b0 notify_waiters [of tid0 d0 b] by auto
  qed
  then obtain b' where b': "db_bus db' = Some b'" "bus_next_channel b \<le> bus_next_channel b'"
    "\<And>k ch. (k, ch) \<in> set (bus_waiters b') \<Longrightarrow> ch < bus_next_channel b \<Longrightarrow> (k, ch) \<in> set (bus_waiters b)"
    "\<And>rid ch d. sr_phase rd = Awaiting rid ch \<Longrightarrow> bus_answers b' ch = Some d \<Longrightarrow> stored_response tid rid d db"
    by blast
  have "faithful tid db' (sr_sent rd)" using ev sent faithful_evolves by blast
  moreover have "c < bus_next_channel b' \<and> (\<forall>k. (k, c) \<in> set (bus_waiters b') \<longrightarrow> k = (tid, rid)) \<and>
      (\<forall>d. bus_answers b' c = Some d \<longrightarrow> stored_response tid rid d db')"
    if "sr_phase rd = Awaiting rid c" for rid c
    using ch [OF that] b' that ev stored_evolves by (meson less_le_trans)
  ultimately show ?thesis using ev b'(1) by (auto simp: acp_inv_def)
qed

lemma acp_respond_simps:
  "sr_phase (acp_respond wr le rid d rd) \<noteq> Awaiting r c"
  "sr_sent (acp_respond wr le rid d rd) = sr_sent rd \<or>
   sr_sent (acp_respond wr le rid d rd) = sr_sent rd @ [permission_response_frame rid d]"
  by (cases wr; cases le; simp add: acp_stop_def)+

lemma faithful_snoc:
  "faithful tid db fs \<Longrightarrow> stored_response tid rid d db \<Longrightarrow> faithful tid db (fs @ [permission_response_frame rid d])"
  unfolding faithful_def by (metis Un_iff empty_iff empty_set insert_iff list.set(2) set_append)

lemma acp_inv_respond:
  assumes "task_db_inv db" and "db_bus db = Some b" and "faithful tid db (sr_sent rd)" and "stored_response tid rid d db"
  shows "acp_inv tid (db, acp_respond wr le rid d rd)"
proof -
  have "faithful tid db (sr_sent (acp_respond wr le rid d rd))"
    using acp_respond_simps(2) [of wr le rid d rd] assms(3) faithful_snoc [OF assms(3,4)] by auto
  then show ?thesis using assms(1,2) acp_respond_simps(1) [of wr le rid d rd] by (simp add: acp_inv_def)
qed

lemma acp_inv_idle:
  assumes "task_db_inv db" and "db_bus db = Some b" and "faithful tid db (sr_sent rd)"
    and "\<And>r c. sr_phase rd \<noteq> Awaiting r c"
  shows "acp_inv tid (db, rd)"
  using assms by (simp add: acp_inv_def)

lemma acp_inv_request:
  assumes "acp_inv tid (db, rd)"
  shows "acp_inv tid (acp_request tid pid frame now (db, rd))"
proof -
  from assms obtain b where inv: "task_db_inv db" "faithful tid db (sr_sent rd)" "db_bus db = Some b"
    by (auto simp: acp_inv_def)
  have "acp_inv tid (db', rd\<lparr>sr_phase := ph\<rparr>)"
    if "record_permission_request tid q now db = (r, db')" "\<And>x c. ph \<noteq> Awaiting x c" for q r db' ph
  proof -
    have db': "db' = snd (record_permission_request tid q now db)" using that(1) by simp
    have "channels db' = channels db" by (simp add: db')
    then obtain b' where "db_bus db' = Some b'" using channels_bus [OF _ inv(3)] by blast
    moreover have "task_db_inv db'" using db' inv(1) store_record store_step_inv by metis
    moreover have "evolves db db'" using db' inv(1) store_record store_step_evolves by metis
    ultimately show ?thesis using inv(2) that(2) by (intro acp_inv_idle) (auto intro: faithful_evolves)
  qed
  moreover have "acp_inv tid (db, rd\<lparr>sr_phase := Stopped e\<rparr>)" for e
    using inv by (intro acp_inv_idle) simp_all
  ultimately show ?thesis
    by (auto simp: acp_request_def acp_stop_def split: sum.splits prod.splits)
qed

lemma acp_inv_line:
  assumes "acp_inv tid (db, rd)" and "sr_phase rd = Reading"
  shows "acp_inv tid (acp_line parse sv tid pid line now (db, rd))"
proof -
  from assms obtain b where inv: "task_db_inv db" "faithful tid db (sr_sent rd)" "db_bus db = Some b"
    by (auto simp: acp_inv_def)
  let ?rd = "\<lambda>frame. case get_str frame ''session_id'' of Some sid \<Rightarrow> rd\<lparr>sr_session_id := Some sid\<rparr> | None \<Rightarrow> rd"
  have rd: "sr_phase (?rd frame) = Reading" "sr_sent (?rd frame) = sr_sent rd" for frame
    using assms(2) by (simp_all split: option.splits)
  have idle: "acp_inv tid (db, x)" if "sr_sent x = sr_sent rd" "\<And>r c. sr_phase x \<noteq> Awaiting r c" for x
    using inv that by (intro acp_inv_idle) simp_all
  have "acp_inv tid (db, ?rd frame)" for frame using rd by (intro idle) simp_all
  then have "acp_inv tid (acp_request tid pid frame now (db, ?rd frame))" for frame by (rule acp_inv_request)
  moreover have "acp_inv tid (db, acp_stop c m (?rd frame))" for c m frame
    using rd by (intro idle) (simp_all add: acp_stop_def)
  moreover have "acp_inv tid (db, case normalize_acp_event frame of
      Some e \<Rightarrow> (?rd frame)\<lparr>sr_events := sr_events (?rd frame) @ [e]\<rparr> | None \<Rightarrow> ?rd frame)" for frame
    using rd by (intro idle) (simp_all split: option.splits)
  ultimately show ?thesis using assms(1) by (auto simp: acp_line_def Let_def split: option.splits)
qed

lemma await_stored: "await_lookup tid rid db = Inr (Some d) \<Longrightarrow> stored_response tid rid d db"
  by (auto simp: await_lookup_def r_then_Inr r_map_err_def get_permission_request_def op_simps get_task_def
      stored_response_def is_some_and_def split: sum.splits option.splits if_splits)

lemma acp_inv_await:
  assumes "acp_inv tid (db, rd)" and "db_bus db = Some b" and "sr_phase rd = Requested rid"
  shows "acp_inv tid (acp_await wr le tid rid b (db, rd))"
proof (cases "await_lookup tid rid db")
  case (Inl e)
  have db: "db\<lparr>db_bus := Some b\<rparr> = db" using assms(2) by simp
  have "acp_inv tid (db, acp_stop c m rd)" for c m
    using assms by (auto simp: acp_inv_def acp_stop_def)
  with Inl show ?thesis
    by (simp add: acp_await_def await_permission_decision_def db)
next
  case (Inr r)
  have db: "db\<lparr>db_bus := Some b\<rparr> = db" using assms(2) by simp
  from assms have inv: "task_db_inv db" "faithful tid db (sr_sent rd)" by (auto simp: acp_inv_def)
  show ?thesis
  proof (cases r)
    case (Some d)
    with Inr have "stored_response tid rid d db" by (simp add: await_stored)
    from acp_inv_respond [OF inv(1) assms(2) inv(2) this] Inr Some db show ?thesis
      by (simp add: acp_await_def await_permission_decision_def)
  next
    case None
    let ?b = "snd (register_waiter tid rid b)" and ?ch = "bus_next_channel b"
    let ?db = "db\<lparr>db_bus := Some ?b\<rparr>"
    have step: "store_step db ?db" using assms(2) by (rule store_register)
    have bus: "bus_inv b" using inv(1) assms(2) by (simp add: task_db_inv_def bus_wf_def)
    have "k = (tid, rid)" if "(k, ?ch) \<in> set (bus_waiters ?b)" for k
    proof -
      have "(k, ?ch) \<in> set (AList.update (tid, rid) ?ch (bus_waiters b))" using that by (simp add: register_waiter_def)
      then consider "k = (tid, rid)" | "(k, ?ch) \<in> set (bus_waiters b)" using update_entries by fast
      then show ?thesis using bus by cases (auto simp: bus_inv_def image_iff)
    qed
    moreover have "bus_answers ?b ?ch = None" using bus by (auto simp: register_waiter_def bus_inv_def)
    moreover have "task_db_inv ?db" "evolves db ?db"
      using step inv(1) store_step_inv store_step_evolves by blast+
    ultimately have "acp_inv tid (?db, rd\<lparr>sr_phase := Awaiting rid ?ch\<rparr>)"
      using inv(2) faithful_evolves by (fastforce simp: acp_inv_def register_waiter_def)
    then show ?thesis using Inr None
      by (simp add: acp_await_def await_permission_decision_def register_waiter_def)
  qed
qed

lemma acp_inv_step:
  assumes "acp_step parse sv tid pid x y" and "acp_inv tid x"
  shows "acp_inv tid y"
  using assms
proof cases
  case (acp_decides rd rid ch db b r wr le)
  then have inv: "task_db_inv db" "faithful tid db (sr_sent rd)"
    and st: "\<And>d. bus_answers b ch = Some d \<Longrightarrow> stored_response tid rid d db"
    using assms(2) by (auto simp: acp_inv_def)
  show ?thesis
  proof (cases r)
    case (Inl u)
    then show ?thesis using inv acp_decides
      by (auto simp: acp_decision_def acp_stop_def intro: acp_inv_idle)
  next
    case (Inr d)
    then have "bus_answers b ch = Some d"
      using acp_decides by (auto simp: poll_receiver_def split: option.splits if_splits)
    then show ?thesis using acp_inv_respond [OF inv(1) acp_decides(4) inv(2) st] acp_decides Inr
      by (simp add: acp_decision_def)
  qed
next
  case (acp_ends rd db)
  then show ?thesis using assms(2) by (auto simp: acp_inv_def)
qed (use assms(2) in \<open>auto intro: acp_inv_line acp_inv_await acp_inv_daemon\<close>)

lemma acp_inv_steps: "(acp_step parse sv tid pid)\<^sup>*\<^sup>* x y \<Longrightarrow> acp_inv tid x \<Longrightarrow> acp_inv tid y"
  by (induction rule: rtranclp_induct) (auto intro: acp_inv_step)

text \<open>Answering a permission request is made of such steps.\<close>

lemma service_quiet: "store_step db db' \<Longrightarrow> channels db' = channels db \<Longrightarrow> service_step db db'"
  by (rule service_store; cases "db_bus db"; cases "db_bus db'") (auto simp: channels_def bus_answers_of_def)

lemma answered_payload:
  assumes inv: "task_db_inv db" and ans: "answered tid rid d e db"
  shows "ev_payload e = decision_event_to_value d" and "pd_request_id d = rid" and "e \<in> set (db_events db)"
proof -
  obtain q where q: "query_permission_request tid rid db = Some q" "prr_status q \<noteq> Pending" "prr_response q = Some d"
    and e: "query_permission_decision_event tid rid db = Some e"
    using ans by (auto simp: answered_def)
  have row: "q \<in> set (db_requests db)" "prr_task_id q = tid" "prr_request_id q = rid"
    using request_foundD [OF q(1)] by simp_all
  then have "request_ok q db" using inv by (simp add: task_db_inv_def requests_wf_def)
  moreover have "filter (decided_for rid) (events_of tid db) \<noteq> []"
    and hd: "hd (filter (decided_for rid) (events_of tid db)) = e"
    using e inv by (auto simp: query_decision_eq task_db_inv_def split: list.splits)
  ultimately show "ev_payload e = decision_event_to_value d" "pd_request_id d = rid"
    using q row by (auto simp: request_ok_def split: list.splits)
  show "e \<in> set (db_events db)"
    using hd hd_in_set [OF \<open>filter (decided_for rid) (events_of tid db) \<noteq> []\<close>] by (auto simp: events_of_def)
qed

lemma answered_bus: "answered tid rid d e (db\<lparr>db_bus := b\<rparr>) = answered tid rid d e db"
  by (simp add: answered_def query_permission_request_def query_permission_decision_event_def events_of_def find_task_def)

lemma answered_stored: "answered tid rid d e db \<Longrightarrow> stored_response tid rid d db"
  by (auto simp: answered_def stored_response_def is_some_and_def)

lemma and_then_first:
  "m s = (Inr v, t) \<Longrightarrow> and_then m f s = f v t" "m s = (Inl e, t) \<Longrightarrow> and_then m f s = (Inl e, t)"
  by (simp_all add: and_then_def)

lemma resolve_response_service:
  assumes inv: "task_db_inv db" and bus: "db_bus db = Some b"
  shows "service_step\<^sup>*\<^sup>* db (snd (resolve_permission_response tid resp now db))"
proof -
  let ?resolve = "resolve_permission_request tid (pw_request_id resp) (pw_decision resp) (pw_reason resp) now db"
  obtain r1 db1 where res: "?resolve = (r1, db1)" by (cases ?resolve)
  have db1: "db1 = snd ?resolve" using res by simp
  have first: "service_step db db1" unfolding db1 by (rule service_quiet) (simp_all add: store_resolve)
  obtain b1 where b1: "db_bus db1 = Some b1" using channels_bus [of db1 db b] bus db1 by auto
  have "service_step\<^sup>*\<^sup>* db1 (snd (and_then (if rs_duplicated r then ok () else modify (publish_db (rs_event r))) (\<lambda>_.
      and_then (modify (\<lambda>x. x\<lparr> db_bus := map_option (notify_permission_resolution tid d) (db_bus x) \<rparr>)) (\<lambda>_.
      (ok r :: (task_db, task_event_service_error, permission_resolution) op))) db1))"
    if r: "r1 = Inr r" and dec: "decision_event_from_value (ev_payload (rs_event r)) = Some d"
    for r d
  proof -
    have inv1: "task_db_inv db1" using service_step_evolves [OF first inv] by simp
    obtain d' where ans: "answered tid (pw_request_id resp) d' (rs_event r) db1"
      by (rule resolve_leaves_answered [OF inv res [unfolded r]])
    note pay = answered_payload [OF inv1 ans]
    with dec have d: "d = d'" by simp
    let ?b = "if rs_duplicated r then b1 else bus_publish (rs_event r) b1"
    let ?db = "db1\<lparr>db_bus := Some ?b\<rparr>"
    have "service_step\<^sup>*\<^sup>* db1 ?db"
    proof (cases "rs_duplicated r")
      case True
      then have "?db = db1" using b1 by simp
      then show ?thesis by simp
    next
      case False
      have "service_step db1 (db1\<lparr>db_bus := Some (bus_publish (rs_event r) b1)\<rparr>)"
        by (rule service_quiet [OF store_republish [OF b1 pay(3)]]) (simp add: channels_def b1 bus_publish_def)
      with False show ?thesis by simp
    qed
    moreover have "service_step ?db (?db\<lparr>db_bus := Some (notify_permission_resolution tid d ?b)\<rparr>)"
      using ans pay(2) d by (intro service_notify) (simp_all add: answered_stored answered_bus)
    ultimately have "service_step\<^sup>*\<^sup>* db1 (?db\<lparr>db_bus := Some (notify_permission_resolution tid d ?b)\<rparr>)"
      by (rule rtranclp.rtrancl_into_rtrancl)
    then show ?thesis using b1 by (cases "rs_duplicated r") (simp_all add: op_simps publish_db_def)
  qed
  note rest = this
  let ?tail = "and_then (map_err TaskError (resolve_permission_request tid (pw_request_id resp)
      (pw_decision resp) (pw_reason resp) now)) (\<lambda>r.
     and_then (lift_r (ok_or (StorePayload ''invalid decision payload'')
        (decision_event_from_value (ev_payload (rs_event r))))) (\<lambda>d.
     and_then (if rs_duplicated r then ok () else modify (publish_db (rs_event r))) (\<lambda>_.
     and_then (modify (\<lambda>x. x\<lparr> db_bus := map_option (notify_permission_resolution tid d) (db_bus x) \<rparr>)) (\<lambda>_.
     ok r)))) db"
  have "service_step\<^sup>*\<^sup>* db (snd ?tail)"
  proof (cases r1)
    case (Inl e)
    then show ?thesis using res first by (simp add: and_then_def map_err_def)
  next
    case (Inr r)
    show ?thesis
    proof (cases "decision_event_from_value (ev_payload (rs_event r))")
      case None
      then show ?thesis using res Inr first by (simp add: and_then_def map_err_def lift_r_def ok_or_def)
    next
      case (Some d)
      have m: "map_err TaskError (resolve_permission_request tid (pw_request_id resp)
          (pw_decision resp) (pw_reason resp) now) db = (Inr r, db1)"
        using res Inr by (simp add: map_err_def)
      have l: "lift_r (ok_or (StorePayload ''invalid decision payload'')
          (decision_event_from_value (ev_payload (rs_event r)))) db1 = (Inr d, db1)"
        using Some by (simp add: lift_r_def ok_or_def)
      have "snd ?tail = snd (and_then (if rs_duplicated r then ok () else modify (publish_db (rs_event r))) (\<lambda>_.
          and_then (modify (\<lambda>x. x\<lparr> db_bus := map_option (notify_permission_resolution tid d) (db_bus x) \<rparr>)) (\<lambda>_.
            (ok r :: (task_db, task_event_service_error, permission_resolution) op))) db1)"
        using m l by (simp only: and_then_first(1))
      then show ?thesis
        using converse_rtranclp_into_rtranclp [OF first rest [OF Inr Some]] by (simp only:)
    qed
  qed
  moreover have "resolve_permission_response tid resp now db =
      (case fst (get_permission_request tid (pw_request_id resp) db) of
         Inl e \<Rightarrow> (Inl (TaskError e), db)
       | Inr q \<Rightarrow> if prr_status q = Pending \<and>
             \<not> is_some_and (db_bus db) (has_waiter tid (pw_request_id resp))
           then (Inl PermissionResponseNotSupported, db) else ?tail)"
  proof -
    obtain r where "get_permission_request tid (pw_request_id resp) db = (r, db)"
      by (cases "find_task tid db") (simp_all add: get_permission_request_def get_task_def op_simps)
    then show ?thesis
      unfolding resolve_permission_response_def
      by (cases r) (simp_all add: and_then_first reads_def map_err_def err_def)
  qed
  ultimately show ?thesis by (simp split: sum.split)
qed

end
