(* ===== verification/Runtime_Detect.thy ===== *)
theory Runtime_Detect
  imports Adapter
begin

text \<open>
  \<open>src/src/runtime/detect.rs\<close>: finding out which providers can run here. A command line provider is
  looked up by an override variable or on the search path and asked for its version; an ACP provider
  needs a command or an endpoint, a remote one an endpoint.

  \<open>detect_world\<close> holds what comes from outside: the search of the \<open>which\<close> crate, the environment and
  the working directory of the daemon, the file metadata, the version command and the regular
  expressions of the \<open>regex\<close> crate.
\<close>

datatype runtime_environment = SystemEnvironment | MapEnvironment "(string \<times> string) list"

record runtime_detection_config =
  rd_timeout_millis :: nat
  rd_environment :: runtime_environment

record regex_captures =
  rc_version :: "string option"
  rc_group1 :: "string option"
  rc_group0 :: "string option"

text \<open>
  One \<open>try_wait\<close> of the version command, and all that are made before the timeout: \<open>PollPending\<close> for a
  child that still runs. A child writes its two streams until it ends.
\<close>

datatype child_poll = PollExited exit_status | PollPending | PollFailed string

record version_child =
  vc_polls :: "child_poll list"
  vc_stdout :: string
  vc_stderr :: string

record version_command =
  vm_executable :: string
  vm_args :: "string list"
  vm_inherit_env :: bool
  vm_env :: "(string \<times> string) list"
  vm_env_removed :: "string list"
  vm_timeout_millis :: nat

record detect_world =
  dw_var :: "string \<Rightarrow> string option"
  dw_current_dir :: "string option"
  dw_which :: "string \<Rightarrow> string option"
  dw_which_in :: "string \<Rightarrow> string \<Rightarrow> string \<Rightarrow> string option"
  dw_is_file :: "string \<Rightarrow> bool"
  dw_mode :: "string \<Rightarrow> nat option"
  dw_spawn :: "version_command \<Rightarrow> string + version_child"
  dw_regex :: "string \<Rightarrow> (string \<Rightarrow> regex_captures option) option"

section \<open>Environment\<close>

definition environment_var :: "detect_world \<Rightarrow> runtime_environment \<Rightarrow> string \<Rightarrow> string option" where
  "environment_var w env key =
     (case env of SystemEnvironment \<Rightarrow> dw_var w key | MapEnvironment vars \<Rightarrow> map_of vars key)"

definition environment_path :: "detect_world \<Rightarrow> runtime_environment \<Rightarrow> string option" where
  "environment_path w env = environment_var w env ''PATH''"

section \<open>Finding an executable\<close>

text \<open>\<open>mode & 0o111 != 0\<close>\<close>

definition is_executable :: "detect_world \<Rightarrow> string \<Rightarrow> bool" where
  "is_executable w path =
     (dw_is_file w path \<and> is_some_and (dw_mode w path) (\<lambda>m. odd m \<or> odd (m div 8) \<or> odd (m div 64)))"

datatype resolve_executable_error = OverrideNotExecutable | CommandNotFound

definition runtime_error_new :: "string \<Rightarrow> string \<Rightarrow> runtime_error" where
  "runtime_error_new code msg = \<lparr> re_code = code, re_message = msg \<rparr>"

fun into_runtime_view :: "resolve_executable_error \<Rightarrow> string \<Rightarrow> string \<Rightarrow> runtime_view" where
  "into_runtime_view OverrideNotExecutable pid now = error_with_kind pid LocalCli None
     (runtime_error_new ''override_not_executable''
        ''provider executable override is not an executable file'') now"
| "into_runtime_view CommandNotFound pid now = unavailable_with_kind pid LocalCli
     (runtime_error_new ''command_not_found'' ''no configured detect command was found'') now"

definition resolve_path_command :: "detect_world \<Rightarrow> string \<Rightarrow> runtime_environment \<Rightarrow> string option" where
  "resolve_path_command w command env =
     (case env of
        SystemEnvironment \<Rightarrow> dw_which w command
      | MapEnvironment _ \<Rightarrow>
          Option.bind (environment_path w env) (\<lambda>path.
            dw_which_in w command path (unwrap_or (dw_current_dir w) ''.'')))"

fun first_command :: "detect_world \<Rightarrow> runtime_environment \<Rightarrow> string list \<Rightarrow> string option" where
  "first_command w env [] = None"
| "first_command w env (c # cs) =
     (case resolve_path_command w c env of Some exe \<Rightarrow> Some exe | None \<Rightarrow> first_command w env cs)"

definition resolve_executable ::
  "detect_world \<Rightarrow> provider_manifest \<Rightarrow> runtime_environment \<Rightarrow> resolve_executable_error + string" where
  "resolve_executable w m env =
     (case environment_var w env (override_env_var_name (pm_id m)) of
        Some path \<Rightarrow> if is_executable w path then Inr path else Inl OverrideNotExecutable
      | None \<Rightarrow> ok_or CommandNotFound (first_command w env (dt_commands (pm_detect m))))"

section \<open>The version\<close>

text \<open>\<open>str::lines\<close>: a line ends with a line feed, and a carriage return before it belongs to the end.\<close>

definition strip_cr :: "string \<Rightarrow> string" where
  "strip_cr line = (if line \<noteq> [] \<and> last line = CHR 0x0D then butlast line else line)"

fun lines_from :: "string \<Rightarrow> string \<Rightarrow> string list" where
  "lines_from acc [] = (if acc = [] then [] else [rev acc])"
| "lines_from acc (c # cs) =
     (if c = CHR 0x0A then strip_cr (rev acc) # lines_from [] cs else lines_from (c # acc) cs)"

definition str_lines :: "string \<Rightarrow> string list" where
  "str_lines s = lines_from [] s"

definition combined_output :: "string \<Rightarrow> string \<Rightarrow> string" where
  "combined_output out errs =
     from_utf8_lossy out @ (if out \<noteq> [] \<and> errs \<noteq> [] then [CHR 0x0A] else []) @ from_utf8_lossy errs"

fun or_else :: "'a option \<Rightarrow> 'a option \<Rightarrow> 'a option" where
  "or_else (Some v) y = Some v"
| "or_else None y = y"

definition parse_version :: "detect_world \<Rightarrow> string option \<Rightarrow> string \<Rightarrow> string \<Rightarrow> string option" where
  "parse_version w version_regex out errs =
     (let output = combined_output out errs in
      case version_regex of
        Some pattern \<Rightarrow>
          Option.bind (dw_regex w pattern) (\<lambda>regex.
          Option.bind (regex output) (\<lambda>captures.
          Option.bind (or_else (or_else (rc_version captures) (rc_group1 captures)) (rc_group0 captures)) (\<lambda>matched.
            if trim matched = [] then None else Some (trim matched))))
      | None \<Rightarrow> List.find (\<lambda>line. line \<noteq> []) (map trim (str_lines output)))"

datatype wait_error = WaitError string | WaitTimeout

fun detect_wait_for_child :: "child_poll list \<Rightarrow> wait_error + exit_status" where
  "detect_wait_for_child [] = Inl WaitTimeout"
| "detect_wait_for_child (p # ps) =
     (case p of PollExited st \<Rightarrow> Inr st | PollFailed e \<Rightarrow> Inl (WaitError e)
      | PollPending \<Rightarrow> detect_wait_for_child ps)"

definition version_command_of ::
  "provider_manifest \<Rightarrow> string \<Rightarrow> runtime_detection_config \<Rightarrow> version_command" where
  "version_command_of m executable config =
     \<lparr> vm_executable = executable, vm_args = dt_version_args (pm_detect m),
       vm_inherit_env = (rd_environment config = SystemEnvironment),
       vm_env = (case rd_environment config of SystemEnvironment \<Rightarrow> []
                 | MapEnvironment vars \<Rightarrow> fold AList.delete (manifest_env_keys m) vars),
       vm_env_removed = manifest_env_keys m, vm_timeout_millis = rd_timeout_millis config \<rparr>"

definition run_version_probe ::
  "detect_world \<Rightarrow> provider_manifest \<Rightarrow> string \<Rightarrow> runtime_detection_config \<Rightarrow> runtime_error + string" where
  "run_version_probe w m executable config =
     (case dw_spawn w (version_command_of m executable config) of
        Inl e \<Rightarrow> Inl (runtime_error_new ''version_command_failed'' (''failed to start version command: '' @ e))
      | Inr child \<Rightarrow>
          (case detect_wait_for_child (vc_polls child) of
             Inl (WaitError e) \<Rightarrow>
               Inl (runtime_error_new ''version_command_failed'' (''failed to wait for version command: '' @ e))
           | Inl WaitTimeout \<Rightarrow> Inl (runtime_error_new ''version_timeout'' ''version command timed out'')
           | Inr status \<Rightarrow>
               if \<not> es_success status then
                 Inl (runtime_error_new ''version_command_failed''
                   (''version command exited with status '' @ es_display status))
               else ok_or (runtime_error_new ''version_parse_failed''
                      ''version output did not match the configured parser'')
                    (parse_version w (dt_version_regex (pm_detect m)) (vc_stdout child) (vc_stderr child))))"

section \<open>Detection\<close>

definition detect_http_provider :: "provider_manifest \<Rightarrow> string \<Rightarrow> runtime_view" where
  "detect_http_provider m now =
     (case pm_http m of
        None \<Rightarrow> error_with_kind (pm_id m) RemoteHttp None
          (runtime_error_new ''http_invalid_configuration'' ''provider http configuration is missing'') now
      | Some http \<Rightarrow>
          if trim (ht_endpoint http) = [] then error_with_kind (pm_id m) RemoteHttp None
            (runtime_error_new ''http_invalid_configuration'' ''provider http endpoint is missing'') now
          else available_with_kind (pm_id m) RemoteHttp (ht_endpoint http) None now)"

definition detect_acp_provider ::
  "detect_world \<Rightarrow> provider_manifest \<Rightarrow> runtime_detection_config \<Rightarrow> string \<Rightarrow> runtime_view" where
  "detect_acp_provider w m config now =
     (case pm_acp m of
        None \<Rightarrow> error_with_kind (pm_id m) LocalAcp None
          (runtime_error_new ''acp_invalid_configuration'' ''provider acp configuration is missing'') now
      | Some acp \<Rightarrow>
          (case ac_transport acp of
             Stdio \<Rightarrow>
               (case Option.bind (ac_command acp) (\<lambda>segments. case segments of [] \<Rightarrow> None | c # _ \<Rightarrow> Some c) of
                  None \<Rightarrow> error_with_kind (pm_id m) LocalAcp None
                    (runtime_error_new ''acp_invalid_configuration'' ''acp stdio transport requires a command'') now
                | Some command \<Rightarrow>
                    (case resolve_path_command w command (rd_environment config) of
                       Some executable \<Rightarrow> available_with_kind (pm_id m) LocalAcp executable None now
                     | None \<Rightarrow> unavailable_with_kind (pm_id m) LocalAcp
                         (runtime_error_new ''acp_runtime_unavailable'' ''no configured acp command was found'') now))
           | LocalSocket \<Rightarrow>
               (case ac_endpoint acp of
                  Some _ \<Rightarrow> available_with_kind (pm_id m) LocalAcp ''acp://local-socket'' None now
                | None \<Rightarrow> error_with_kind (pm_id m) LocalAcp None
                    (runtime_error_new ''acp_invalid_configuration''
                       ''acp local_socket transport requires an endpoint'') now)))"

definition detect_provider ::
  "detect_world \<Rightarrow> provider_manifest \<Rightarrow> runtime_detection_config \<Rightarrow> string \<Rightarrow> runtime_view" where
  "detect_provider w m config now =
     (case pm_integration_type m of
        IntegrationAcp \<Rightarrow> detect_acp_provider w m config now
      | IntegrationHttp \<Rightarrow> detect_http_provider m now
      | IntegrationNative \<Rightarrow> error_with_kind (pm_id m) LocalCli None
          (runtime_error_new ''unsupported_provider_integration''
             ''provider integration is not supported by local runtime detection'') now
      | IntegrationCli \<Rightarrow>
          (case resolve_executable w m (rd_environment config) of
             Inl e \<Rightarrow> into_runtime_view e (pm_id m) now
           | Inr executable \<Rightarrow>
               if dt_version_args (pm_detect m) = [] then
                 available_with_kind (pm_id m) LocalCli executable None now
               else
                 (case run_version_probe w m executable config of
                    Inr version \<Rightarrow> available_with_kind (pm_id m) LocalCli executable (Some version) now
                  | Inl e \<Rightarrow> error_with_kind (pm_id m) LocalCli (Some executable) e now)))"

definition detect_providers ::
  "detect_world \<Rightarrow> provider_manifest list \<Rightarrow> runtime_detection_config \<Rightarrow> string \<Rightarrow> runtime_view list" where
  "detect_providers w providers config now =
     sort_key rv_provider_id (map (\<lambda>m. detect_provider w m config now)
       (filter (\<lambda>m. pm_integration_type m \<noteq> IntegrationNative) providers))"

section \<open>Lemmas\<close>

text \<open>What detection needs to find for a provider to be usable, and what it reports then.\<close>

inductive runnable ::
  "detect_world \<Rightarrow> provider_manifest \<Rightarrow> runtime_detection_config \<Rightarrow> string \<Rightarrow> string option \<Rightarrow> bool"
  for w m config where
  runnable_http: "pm_integration_type m = IntegrationHttp \<Longrightarrow> pm_http m = Some http \<Longrightarrow>
    trim (ht_endpoint http) \<noteq> [] \<Longrightarrow> runnable w m config (ht_endpoint http) None"
| runnable_socket: "pm_integration_type m = IntegrationAcp \<Longrightarrow> pm_acp m = Some acp \<Longrightarrow>
    ac_transport acp = LocalSocket \<Longrightarrow> ac_endpoint acp \<noteq> None \<Longrightarrow>
    runnable w m config ''acp://local-socket'' None"
| runnable_stdio: "pm_integration_type m = IntegrationAcp \<Longrightarrow> pm_acp m = Some acp \<Longrightarrow>
    ac_transport acp = Stdio \<Longrightarrow> ac_command acp = Some (c # cs) \<Longrightarrow>
    resolve_path_command w c (rd_environment config) = Some exe \<Longrightarrow> runnable w m config exe None"
| runnable_cli: "pm_integration_type m = IntegrationCli \<Longrightarrow>
    resolve_executable w m (rd_environment config) = Inr exe \<Longrightarrow> dt_version_args (pm_detect m) = [] \<Longrightarrow>
    runnable w m config exe None"
| runnable_version: "pm_integration_type m = IntegrationCli \<Longrightarrow>
    resolve_executable w m (rd_environment config) = Inr exe \<Longrightarrow> dt_version_args (pm_detect m) \<noteq> [] \<Longrightarrow>
    run_version_probe w m exe config = Inr v \<Longrightarrow> runnable w m config exe (Some v)"

lemmas view_defs = available_with_kind_def unavailable_with_kind_def error_with_kind_def not_detected_with_kind_def

lemma view_simps [simp]:
  "rv_provider_id (available_with_kind p k x v now) = p" "rv_provider_id (error_with_kind p k y e now) = p"
  "rv_provider_id (unavailable_with_kind p k e now) = p" "rv_provider_id (not_detected_with_kind p k) = p"
  "rv_kind (available_with_kind p k x v now) = k" "rv_kind (error_with_kind p k y e now) = k"
  "rv_kind (unavailable_with_kind p k e now) = k" "rv_kind (not_detected_with_kind p k) = k"
  "rv_status (available_with_kind p k x v now) = RuntimeAvailable"
  "rv_status (error_with_kind p k y e now) = RuntimeErrorStatus"
  "rv_status (unavailable_with_kind p k e now) = RuntimeUnavailableStatus"
  by (simp_all add: view_defs)

lemma into_view_simps [simp]:
  "rv_provider_id (into_runtime_view e p now) = p" "rv_kind (into_runtime_view e p now) = LocalCli"
  "rv_status (into_runtime_view e p now) \<noteq> RuntimeAvailable"
  by (cases e; simp)+

text \<open>The result of detection is either a complete available view or one that is not available.\<close>

lemma detect_provider_cases:
  obtains exe ver where "runnable w m config exe ver"
    and "detect_provider w m config now =
      available_with_kind (pm_id m) (kind_of_integration (pm_integration_type m)) exe ver now"
  | "rv_status (detect_provider w m config now) \<noteq> RuntimeAvailable"
    and "rv_provider_id (detect_provider w m config now) = pm_id m"
    and "rv_kind (detect_provider w m config now) = kind_of_integration (pm_integration_type m)"
proof (cases "pm_integration_type m")
  case IntegrationCli
  show ?thesis
  proof (cases "resolve_executable w m (rd_environment config)")
    case (Inr exe)
    then show ?thesis
      using IntegrationCli that(1) [OF runnable_cli [OF IntegrationCli Inr]]
        that(1) [OF runnable_version [OF IntegrationCli Inr]] that(2)
      by (cases "run_version_probe w m exe config"; cases "dt_version_args (pm_detect m) = []")
        (auto simp: detect_provider_def kind_of_integration_def)
  qed (rule that(2), simp_all add: IntegrationCli detect_provider_def kind_of_integration_def)
next
  case IntegrationAcp
  note defs = IntegrationAcp detect_provider_def detect_acp_provider_def kind_of_integration_def
  show ?thesis
  proof (cases "pm_acp m")
    case (Some acp)
    show ?thesis
    proof (cases "ac_transport acp")
      case Stdio
      consider c cs exe where "ac_command acp = Some (c # cs)" "resolve_path_command w c (rd_environment config) = Some exe"
        | c cs where "ac_command acp = Some (c # cs)" "resolve_path_command w c (rd_environment config) = None"
        | "ac_command acp = Some []" | "ac_command acp = None"
        by (metis list.exhaust option.exhaust)
      then show ?thesis
      proof cases
        case 1
        from that(1) [OF runnable_stdio [OF IntegrationAcp Some Stdio this]] this Some Stdio
        show ?thesis by (simp add: defs)
      qed (rule that(2); simp add: defs Some Stdio)+
    next
      case LocalSocket
      then show ?thesis
        using that(1) [OF runnable_socket [OF IntegrationAcp Some LocalSocket]] that(2) Some
        by (cases "ac_endpoint acp") (simp_all add: defs)
    qed
  qed (rule that(2), simp_all add: defs)
next
  case IntegrationHttp
  note defs = IntegrationHttp detect_provider_def detect_http_provider_def kind_of_integration_def
  show ?thesis
  proof (cases "pm_http m")
    case (Some http)
    then show ?thesis
      using that(1) [OF runnable_http [OF IntegrationHttp Some]] that(2) 
      by (cases "trim (ht_endpoint http) = []") (simp_all add: defs)
  qed (rule that(2), simp_all add: defs)
qed (rule that(2), simp_all add: detect_provider_def kind_of_integration_def)

lemma detect_provider_id [simp]: "rv_provider_id (detect_provider w m config now) = pm_id m"
  by (rule detect_provider_cases [of w m config now]) simp_all

lemma runnable_unique:
  "runnable w m config exe ver \<Longrightarrow> runnable w m config exe' ver' \<Longrightarrow> exe = exe' \<and> ver = ver'"
  by (elim runnable.cases) (auto)

lemma runnable_detected:
  assumes "runnable w m config exe ver"
  shows "detect_provider w m config now =
    available_with_kind (pm_id m) (kind_of_integration (pm_integration_type m)) exe ver now"
  using assms
  by cases (auto simp: detect_provider_def detect_acp_provider_def detect_http_provider_def
      kind_of_integration_def split: option.splits)

lemma runtime_get_save_all:
  assumes "distinct (map rv_provider_id vs)" and "v \<in> set vs"
  shows "runtime_get (rv_provider_id v) (runtime_save_all vs rs) = Some v"
proof -
  have other: "runtime_get p (runtime_save_all us rs) = runtime_get p rs"
    if "p \<notin> rv_provider_id ` set us" for us p rs
    using that by (induction us arbitrary: rs)
      (auto simp: runtime_save_all_def runtime_save_def runtime_get_def update_conv)
  show ?thesis
    using assms
  proof (induction vs arbitrary: rs)
    case (Cons u us)
    then show ?case
      using other [of "rv_provider_id u" us "runtime_save u rs"]
      by (auto simp: runtime_save_all_def runtime_save_def runtime_get_def update_conv)
  qed simp
qed

lemma parse_version_non_empty: "parse_version w r out errs = Some v \<Longrightarrow> v \<noteq> []"
  by (auto simp: parse_version_def Let_def find_Some_iff bind_eq_Some_conv split: option.splits if_splits)

end
