(* ===== verification/Runtime_Properties.thy ===== *)
theory Runtime_Properties
  imports Acp_Props Runtime_Detect Event_Properties Profile_Properties
begin

text \<open>
  The properties of ACP sessions and of the detection of runtimes.
\<close>

section \<open>ACP sessions\<close>

text \<open>
  C14. What an ACP provider is told is what is stored: however the steps of a session interleave with the
  rest of the daemon, every permission response written to the provider answers a request of the
  task, and carries the decision and the reason that are stored for that request.
\<close>

theorem acp_answers_faithful:
  assumes "task_reachable db0" and "db_bus db0 = Some b0"
    and "(acp_step parse has_service tid pid)\<^sup>*\<^sup>* (db0, acp_start) (db, rd)" and "f \<in> set (sr_sent rd)"
  shows "\<exists>rid d q. f = permission_response_frame rid d \<and> query_permission_request tid rid db = Some q \<and>
    prr_response q = Some d \<and> prr_status q = from_decision (pd_decision d)"
proof -
  have "acp_inv tid (db0, acp_start)"
    using task_reachable_inv [OF assms(1)] assms(2) by (simp add: acp_inv_def acp_start_def faithful_def)
  with acp_inv_steps [OF assms(3)] have inv: "acp_inv tid (db, rd)" by simp
  with assms(4) obtain rid d where f: "f = permission_response_frame rid d" "stored_response tid rid d db"
    by (auto simp: acp_inv_def faithful_def)
  then obtain q where q: "query_permission_request tid rid db = Some q" "prr_response q = Some d" "prr_status q \<noteq> Pending"
    by (auto simp: stored_response_def is_some_and_def split: option.splits)
  have "request_ok q db"
    using inv request_foundD [OF q(1)] by (simp add: acp_inv_def task_db_inv_def requests_wf_def)
  with q have "prr_status q = from_decision (pd_decision d)" by (auto simp: request_ok_def split: list.splits)
  with f q show ?thesis by blast
qed

section \<open>A concrete session\<close>

definition demo_frame :: json where
  "demo_frame = Object [(''type'', Str ''permission.requested''), (''request_id'', Str ''req'')]"

definition demo_acp_request :: permission_request_event where
  "demo_acp_request = \<lparr> pq_request_id = ''req'', pq_provider_id = ''codex'',
     pq_permission_kind = ''provider_permission'', pq_summary = ''permission request'',
     pq_details = Some demo_frame, pq_options = [Approve, Deny], pq_expires_at = None \<rparr>"

lemma demo_acp_recorded:
  "acp_line (\<lambda>_. Some demo_frame) True ''task_1'' ''codex'' [] ''t5'' (demo_running, acp_start) =
     (record_db ''task_1'' demo_acp_request ''t5'' demo_running, acp_start\<lparr>sr_phase := Requested ''req''\<rparr>)"
proof -
  have "acp_request_event ''codex'' demo_frame = Inr demo_acp_request"
    by (simp add: acp_request_event_def demo_frame_def demo_acp_request_def get_str_def r_then_def ok_or_def unwrap_or_def)
  moreover have "\<exists>e. record_permission_request ''task_1'' demo_acp_request ''t5'' demo_running =
      (Inr e, record_db ''task_1'' demo_acp_request ''t5'' demo_running)"
    using record_effect [OF task_reachable_parts(2) [OF demo_running_reachable] demo_running_task]
    by (simp add: demo_no_requests)
  moreover have "get_str demo_frame ''session_id'' = None" "get_str demo_frame ''type'' = Some ''permission.requested''"
    by (simp_all add: demo_frame_def get_str_def)
  ultimately show ?thesis by (auto simp: acp_line_def acp_request_def demo_acp_request_def)
qed

text \<open>The provider asks, the request is approved, and the provider is told so.\<close>

lemma demo_acp_run:
  obtains db d where "(acp_step (\<lambda>_. Some demo_frame) True ''task_1'' ''codex'')\<^sup>*\<^sup>* (demo_running, acp_start)
      (db, acp_start\<lparr>sr_sent := [permission_response_frame ''req'' d]\<rparr>)" and "pd_decision d = Approve"
proof -
  let ?step = "acp_step (\<lambda>_. Some demo_frame) True ''task_1'' ''codex''"
  let ?rd = "acp_start\<lparr>sr_phase := Requested ''req''\<rparr>"
  define db1 where "db1 = record_db ''task_1'' demo_acp_request ''t5'' demo_running"
  have one: "?step (demo_running, acp_start) (db1, ?rd)"
    using acp_reads [of acp_start "\<lambda>_. Some demo_frame" True "''task_1''" "''codex''" demo_running "[]" "''t5''",
        unfolded demo_acp_recorded]
    by (simp add: db1_def acp_start_def)
  have rec: "snd (record_permission_request ''task_1'' demo_acp_request ''t5'' demo_running) = db1"
    using record_effect [OF task_reachable_parts(2) [OF demo_running_reachable] demo_running_task]
    by (simp add: demo_no_requests db1_def)
  have r1: "task_reachable db1" using reach_step [OF demo_running_reachable step_record] rec by metis
  have q: "query_permission_request ''task_1'' ''req'' db1 =
      Some (request_row ''task_1'' (next_sequence ''task_1'' demo_running) demo_acp_request ''t5'')"
    by (simp add: db1_def record_db_def query_permission_request_def demo_no_requests demo_acp_request_def)
  obtain t where t: "find_task ''task_1'' db1 = Some t"
    using evolves_task [OF evolves_record [OF task_reachable_parts(2) [OF demo_running_reachable]] demo_running_task] rec
    by metis
  obtain r db2 where res: "resolve_permission_request ''task_1'' ''req'' Approve None ''t6'' db1 = (Inr r, db2)"
    using resolve_pending_effect [OF task_reachable_parts(2) [OF r1] t q _ refl refl] by auto
  have db2: "db2 = snd (resolve_permission_request ''task_1'' ''req'' Approve None ''t6'' db1)" using res by simp
  have two: "?step (db1, ?rd) (db2, ?rd)"
    unfolding db2 by (rule acp_daemon, rule service_quiet) (simp_all add: store_resolve)
  obtain d where d: "answered ''task_1'' ''req'' d (rs_event r) db2" "pd_decision d = Approve"
    by (rule resolve_leaves_answered [OF task_reachable_inv [OF r1] res])
  obtain b where b: "db_bus db2 = Some b"
    using demo_bus channels_bus [of db2 db1] channels_bus [of db1 demo_running] store_quiet rec db2 by metis
  have look: "await_lookup ''task_1'' ''req'' db2 = Inr (Some d)"
    using d(1) by (auto simp: answered_def await_lookup_def get_permission_request_def get_task_def op_simps)
  have same: "db2\<lparr>db_bus := Some b\<rparr> = db2" using b by simp
  have three: "?step (db2, ?rd) (db2, acp_start\<lparr>sr_sent := [permission_response_frame ''req'' d]\<rparr>)"
    using acp_awaits [of ?rd "''req''" db2 b "\<lambda>_. Some demo_frame" True "''task_1''" "''codex''" "Inr ()" "Inr ()"] look b
    by (simp add: acp_await_def await_permission_decision_def acp_start_def same)
  have "?step\<^sup>*\<^sup>* (demo_running, acp_start) (db2, acp_start\<lparr>sr_sent := [permission_response_frame ''req'' d]\<rparr>)"
    using one two three by (simp add: converse_rtranclp_into_rtranclp)
  then show ?thesis using d(2) by (rule that)
qed

theorem acp_answers_faithful_witness:
  "\<exists>d db q. query_permission_request ''task_1'' ''req'' db = Some q \<and> prr_response q = Some d \<and>
     get_str (permission_response_frame ''req'' d) ''decision'' = Some ''approve'' \<and> prr_status q = Approved"
proof -
  obtain db d where run: "(acp_step (\<lambda>_. Some demo_frame) True ''task_1'' ''codex'')\<^sup>*\<^sup>* (demo_running, acp_start)
      (db, acp_start\<lparr>sr_sent := [permission_response_frame ''req'' d]\<rparr>)" and d: "pd_decision d = Approve"
    by (rule demo_acp_run)
  obtain b where b: "db_bus demo_running = Some b" by (rule demo_bus)
  obtain rid d' q where q: "permission_response_frame ''req'' d = permission_response_frame rid d'"
    "query_permission_request ''task_1'' rid db = Some q" "prr_response q = Some d'"
    "prr_status q = from_decision (pd_decision d')"
    using acp_answers_faithful [OF demo_running_reachable b run] by auto
  from q(1) d have "rid = ''req''" "pd_decision d' = Approve"
    by (auto simp: permission_response_frame_def split: permission_decision.splits)
  moreover from this have "get_str (permission_response_frame ''req'' d') ''decision'' = Some ''approve''"
    by (simp add: permission_response_frame_def get_str_def)
  moreover have "prr_status q = Approved" using q(4) calculation(2) by simp
  ultimately show ?thesis using q(2,3) by blast
qed

text \<open>A frame in which the provider itself claims a decision becomes an event of that kind, payload and all.\<close>

lemma acp_forged_decision:
  assumes "parse line = Some frame" and "get_str frame ''type'' = Some ''permission.decided''" and "get_str frame ''session_id'' = None"
  shows "acp_line parse sv tid pid line now (db, rd) =
    (db, rd\<lparr> sr_events := sr_events rd @ [\<lparr> oe_kind = ProviderPermissionDecided, oe_payload = frame \<rparr>] \<rparr>)"
  using assms by (simp add: acp_line_def normalize_acp_event_def)

section \<open>Detection\<close>


definition demo_detect_world :: detect_world where
  "demo_detect_world = \<lparr> dw_var = (\<lambda>_. None), dw_current_dir = None, dw_which = (\<lambda>c. Some (''/usr/bin/'' @ c)),
     dw_which_in = (\<lambda>_ _ _. None), dw_is_file = (\<lambda>_. True), dw_mode = (\<lambda>_. None),
     dw_spawn = (\<lambda>_. Inl []), dw_regex = (\<lambda>_. None) \<rparr>"


end
