(* ===== verification/Api.thy ===== *)
theory Api
  imports Auth Event_Service Runtime_Detect Control_Plane
begin

text \<open>
  The handlers of the HTTP interface: \<open>src/src/api/tasks.rs\<close>, \<open>directories.rs\<close>, \<open>agents.rs\<close>,
  \<open>permissions.rs\<close>, \<open>products.rs\<close>, \<open>providers.rs\<close>, \<open>runtimes.rs\<close>, \<open>session.rs\<close> and \<open>status.rs\<close>.

  \<open>app_state\<close> is what the stores of \<open>AppState\<close> hold and \<open>app_env\<close> what does not change. A handler is an
  operation on \<open>app_state\<close>; it takes the credentials its extractor produced and the decoded request.
  The body of a \<open>PATCH\<close> is decoded in the handler by serde, so the decoders are part of \<open>app_env\<close>.
\<close>

record app_state =
  app_products :: product_db
  app_stores :: stores
  app_runtimes :: runtime_store

record app_env =
  env_crypto :: crypto
  env_auth :: auth_config
  env_scheduler :: scheduler_config
  env_is_file :: "string \<Rightarrow> bool"
  env_providers_dir :: string
  env_listing :: "string + registry_dir_entry list"
  env_fs :: file_system
  env_detect :: detect_world
  env_detection_config :: runtime_detection_config
  env_version :: string
  env_patch_directory :: "json \<Rightarrow> patch_directory_grant option"
  env_patch_agent :: "json \<Rightarrow> patch_agent_profile option"

definition load_registry :: "app_env \<Rightarrow> string + provider_registry" where
  "load_registry env = load_registry_from_dir (env_is_file env) (env_providers_dir env) (env_listing env)"

definition with_products :: "(product_store_error \<Rightarrow> 'e) \<Rightarrow> 'a product_op \<Rightarrow> (app_state, 'e, 'a) op" where
  "with_products f m = map_err f (zoom app_products (\<lambda>t s. s\<lparr> app_products := t \<rparr>) m)"

definition with_stores :: "('d \<Rightarrow> 'e) \<Rightarrow> (stores, 'd, 'a) op \<Rightarrow> (app_state, 'e, 'a) op" where
  "with_stores f m = map_err f (zoom app_stores (\<lambda>t s. s\<lparr> app_stores := t \<rparr>) m)"

definition with_tasks :: "('d \<Rightarrow> 'e) \<Rightarrow> (task_db, 'd, 'a) op \<Rightarrow> (app_state, 'e, 'a) op" where
  "with_tasks f m = with_stores f (zoom st_tasks (\<lambda>t s. s\<lparr> st_tasks := t \<rparr>) m)"

definition with_agents :: "(agent_store_error \<Rightarrow> 'e) \<Rightarrow> 'a agent_op \<Rightarrow> (app_state, 'e, 'a) op" where
  "with_agents f m = with_stores f (zoom st_agents (\<lambda>t s. s\<lparr> st_agents := t \<rparr>) m)"

definition with_grants :: "(directory_store_error \<Rightarrow> 'e) \<Rightarrow> 'a grant_op \<Rightarrow> (app_state, 'e, 'a) op" where
  "with_grants f m = with_stores f (zoom st_grants (\<lambda>t s. s\<lparr> st_grants := t \<rparr>) m)"

definition check_auth :: "(auth_error \<Rightarrow> 'e) \<Rightarrow> auth_error + unit \<Rightarrow> (app_state, 'e, unit) op" where
  "check_auth f r = lift_r (r_map_err f r)"

text \<open>A query may name the product it filters by; it has to be the caller's.\<close>

definition ensure_product_opt :: "product_auth_context \<Rightarrow> string option \<Rightarrow> auth_error + unit" where
  "ensure_product_opt x pid = (case pid of None \<Rightarrow> Inr () | Some p \<Rightarrow> ensure_product x p)"

text \<open>An error response: status, code and message; \<open>Panicked\<close> where the handler does not return.\<close>

datatype api_failure = Failure nat string string | Panicked string

definition auth_failure :: "auth_error \<Rightarrow> api_failure" where
  "auth_failure e = Failure (auth_error_status e) (auth_error_code e) (auth_error_message e)"

section \<open>Tasks\<close>

record task_list_query =
  tq_owner_product_id :: "string option"
  tq_agent_id :: "string option"
  tq_directory_id :: "string option"
  tq_status :: "task_status option"

record task_event_request =
  er_event_type :: string
  er_request_id :: string
  er_decision :: string
  er_reason :: "string option"

record task_permission_response =
  pm_response_task_id :: string
  pm_response_request_id :: string
  pm_response_status :: string
  pm_response_decision :: permission_decision

datatype task_api_error = TasksAuth auth_error | TasksTask task_validation_error
  | TasksEvents task_event_service_error | TasksRegistry string

definition tasks_list :: "product_auth_context \<Rightarrow> task_list_query \<Rightarrow> (app_state, task_api_error, task list) op" where
  "tasks_list x q =
     and_then (check_auth TasksAuth (product_require_scope x TasksRead)) (\<lambda>_.
     and_then (check_auth TasksAuth (ensure_product_opt x (tq_owner_product_id q))) (\<lambda>_.
     with_tasks (TasksTask \<circ> from_task_store_error) (list_tasks
       \<lparr> tf_owner_product_id = Some (px_product_id x), tf_agent_id = tq_agent_id q,
         tf_directory_id = tq_directory_id q, tf_status = tq_status q \<rparr>)))"

definition requests_remote_execution :: "app_env \<Rightarrow> create_task \<Rightarrow> task_api_error + bool" where
  "requests_remote_execution env r =
     (case ct_provider_id r of
        None \<Rightarrow> Inr False
      | Some pid \<Rightarrow>
          r_then (r_map_err TasksRegistry (load_registry env)) (\<lambda>registry.
          Inr (is_some_and (registry_get registry pid) (\<lambda>p.
            pm_integration_type (pe_manifest p) = IntegrationHttp))))"

definition mark_remote_execution_approved :: "create_task \<Rightarrow> create_task" where
  "mark_remote_execution_approved r = r\<lparr> ct_metadata := Some
     (object_insert ''remote_execution'' (Object [(''approved_by_scope'', Bool True)])
       (unwrap_or (ct_metadata r) (Object []))) \<rparr>"

text \<open>The fields of \<open>CreateTaskRequest\<close> are those of \<open>CreateTask\<close>, copied one by one.\<close>

definition tasks_create ::
  "app_env \<Rightarrow> product_auth_context \<Rightarrow> create_task \<Rightarrow> string \<Rightarrow> (app_state, task_api_error, task) op" where
  "tasks_create env x r now =
     and_then (check_auth TasksAuth (product_require_scope x TasksCreate)) (\<lambda>_.
     and_then (check_auth TasksAuth (ensure_product x (ct_owner_product_id r))) (\<lambda>_.
     and_then (lift_r (requests_remote_execution env r)) (\<lambda>remote.
     and_then (if remote then check_auth TasksAuth (product_require_scope x TasksRemoteExecution) else ok ()) (\<lambda>_.
     with_stores TasksTask
       (enqueue_task (if remote then mark_remote_execution_approved r else r) now)))))"

definition tasks_get :: "product_auth_context \<Rightarrow> string \<Rightarrow> (app_state, task_api_error, task) op" where
  "tasks_get x tid =
     and_then (with_tasks (TasksTask \<circ> from_task_store_error) (get_task tid)) (\<lambda>t.
     and_then (check_auth TasksAuth (product_require_scope x TasksRead)) (\<lambda>_.
     and_then (check_auth TasksAuth (ensure_product x (task_owner_product_id t))) (\<lambda>_.
     ok t)))"

text \<open>The guard of the other handlers for one task.\<close>

definition own_task :: "product_auth_context \<Rightarrow> api_scope \<Rightarrow> string \<Rightarrow> (app_state, task_api_error, task) op" where
  "own_task x scope tid =
     and_then (check_auth TasksAuth (product_require_scope x scope)) (\<lambda>_.
     and_then (with_tasks (TasksTask \<circ> from_task_store_error) (get_task tid)) (\<lambda>t.
     and_then (check_auth TasksAuth (ensure_product x (task_owner_product_id t))) (\<lambda>_.
     ok t)))"

definition tasks_cancel :: "product_auth_context \<Rightarrow> string \<Rightarrow> string \<Rightarrow> (app_state, task_api_error, task) op" where
  "tasks_cancel x tid now =
     and_then (own_task x TasksCancel tid) (\<lambda>_.
     with_stores TasksTask (cancel_task tid now))"

text \<open>
  Opening a stream. The reads of \<open>stream\<close> see one state here; \<open>Event_Service\<close> lets other calls run
  between them.
\<close>

definition tasks_events ::
  "product_auth_context \<Rightarrow> string \<Rightarrow> string option \<Rightarrow> string option \<Rightarrow> (app_state, task_api_error, task_stream) op" where
  "tasks_events x tid cursor last_event_id =
     and_then (own_task x TasksRead tid) (\<lambda>_.
     and_then (lift_r (r_map_err TasksEvents (parse_cursor cursor last_event_id))) (\<lambda>c.
     with_tasks TasksEvents (reads (\<lambda>db. stream_open tid (nat c) db db db))))"

datatype sse_event = SseEvent string string task_event_view | SseComment string

fun sse_of_frame :: "task_stream_frame \<Rightarrow> sse_event" where
  "sse_of_frame (FrameEvent e) =
     SseEvent (show_nat (ev_sequence e)) (event_type_as_str (ev_event_type e)) (event_view e)"
| "sse_of_frame FrameHeartbeat = SseComment ''keep-alive''"

definition parse_decision :: "string \<Rightarrow> task_event_service_error + permission_decision" where
  "parse_decision d = (if d = ''approve'' then Inr Approve else if d = ''deny'' then Inr Deny
     else Inl InvalidPermissionDecision)"

definition tasks_post_event ::
  "product_auth_context \<Rightarrow> string \<Rightarrow> task_event_request \<Rightarrow> string \<Rightarrow>
   (app_state, task_api_error, task_permission_response) op" where
  "tasks_post_event x tid r now =
     and_then (own_task x TasksRead tid) (\<lambda>_.
     if er_event_type r \<noteq> ''provider.permission_response'' then err (TasksEvents InvalidEventRequest)
     else
     and_then (lift_r (r_map_err TasksEvents (parse_decision (er_decision r)))) (\<lambda>decision.
     and_then (with_tasks TasksEvents (resolve_permission_response tid
        \<lparr> pw_request_id = er_request_id r, pw_decision = decision, pw_reason = er_reason r \<rparr> now)) (\<lambda>resolution.
     ok \<lparr> pm_response_task_id = tid, pm_response_request_id = rs_request_id resolution,
          pm_response_status = ''resolved'', pm_response_decision = rs_decision resolution \<rparr>)))"

fun task_error_response :: "task_validation_error \<Rightarrow> api_failure" where
  "task_error_response TvTaskNotFound = Failure 404 ''task_not_found'' ''task not found''"
| "task_error_response TvInvalidTask = Failure 400 ''invalid_task'' ''invalid task''"
| "task_error_response TvInvalidTaskPrompt = Failure 400 ''invalid_task_prompt'' ''invalid task prompt''"
| "task_error_response TvInvalidTaskState = Failure 400 ''invalid_task_state'' ''invalid task state''"
| "task_error_response TvAgentNotFound = Failure 404 ''agent_not_found'' ''agent profile not found''"
| "task_error_response TvDirectoryNotFound = Failure 404 ''directory_not_found'' ''directory grant not found''"
| "task_error_response TvAgentAuthorizationFailed = Failure 403 ''agent_authorization_failed'' ''agent authorization failed''"
| "task_error_response TvDirectoryAuthorizationFailed =
     Failure 403 ''directory_authorization_failed'' ''directory authorization failed''"
| "task_error_response TvCapabilityNotAllowed = Failure 403 ''capability_not_allowed'' ''capability not allowed''"
| "task_error_response TvWorkspaceModeNotAllowed = Failure 403 ''workspace_mode_not_allowed'' ''workspace mode not allowed''"
| "task_error_response TvDirectModeNotAllowed = Failure 403 ''direct_mode_not_allowed'' ''direct mode not allowed''"
| "task_error_response TvProviderOverrideNotAllowed =
     Failure 400 ''provider_override_not_allowed'' ''provider override not allowed''"
| "task_error_response TvModelOverrideNotAllowed = Failure 400 ''model_override_not_allowed'' ''model override not allowed''"
| "task_error_response TvPermissionModeOverrideNotAllowed =
     Failure 400 ''permission_mode_override_not_allowed'' ''permission mode override not allowed''"
| "task_error_response TvRemoteExecutionNotAllowed =
     Failure 403 ''remote_execution_not_allowed'' ''remote execution not allowed''"
| "task_error_response TvDirectoryLockConflict = Failure 409 ''directory_lock_conflict'' ''directory lock conflict''"
| "task_error_response TvTaskAlreadyTerminal = Failure 409 ''task_already_terminal'' ''task is already terminal''"
| "task_error_response (TvStore e) = Failure 500 ''store_error'' e"

fun task_event_error_response :: "task_event_service_error \<Rightarrow> api_failure" where
  "task_event_error_response InvalidCursor = Failure 400 ''invalid_event_cursor'' ''invalid event cursor''"
| "task_event_error_response InvalidEventRequest = Failure 400 ''invalid_event_request'' ''invalid event request''"
| "task_event_error_response InvalidPermissionDecision =
     Failure 400 ''invalid_permission_decision'' ''invalid permission decision''"
| "task_event_error_response PermissionResponseNotSupported =
     Failure 409 ''permission_response_not_supported'' ''permission response not supported''"
| "task_event_error_response (StorePayload e) = Failure 500 ''store_error'' e"
| "task_event_error_response (TaskError PermissionRequestNotFound) =
     Failure 404 ''permission_request_not_found'' ''permission request not found''"
| "task_event_error_response (TaskError PermissionRequestNotPending) =
     Failure 409 ''permission_request_not_pending'' ''permission request not pending''"
| "task_event_error_response (TaskError PermissionRequestAlreadyResolved) =
     Failure 409 ''permission_request_already_resolved'' ''permission request already resolved''"
| "task_event_error_response (TaskError e) = task_error_response (from_task_store_error e)"

fun tasks_into_response :: "task_api_error \<Rightarrow> api_failure" where
  "tasks_into_response (TasksAuth e) = auth_failure e"
| "tasks_into_response (TasksTask e) = task_error_response e"
| "tasks_into_response (TasksEvents e) = task_event_error_response e"
| "tasks_into_response (TasksRegistry e) = Failure 500 ''registry_error'' e"

end
