(* ===== verification/Api_Resources.thy ===== *)
theory Api_Resources
  imports Api Acp
begin

text \<open>
  The handlers for directories, agent profiles, permission requests, products and their tokens,
  providers, runtimes, the session and the status of the daemon, with the responses for their errors.
\<close>

section \<open>Directories\<close>

record directory_list_query =
  dq_product_id :: "string option"
  dq_agent_id :: "string option"

datatype directory_api_error = DirAuth auth_error | DirDirectory directory_store_error
  | DirAgent agent_profile_error | DirAgentStore string | DirBadPatch

fun dir_from_agent_error :: "agent_store_error \<Rightarrow> directory_api_error" where
  "dir_from_agent_error (AsProfile e) = DirAgent e"
| "dir_from_agent_error (AsStore e) = DirAgentStore e"

definition require_direct_scope ::
  "product_auth_context \<Rightarrow> workspace_mode list option \<Rightarrow> workspace_mode option \<Rightarrow> auth_error + unit" where
  "require_direct_scope x modes default_mode =
     (if is_some_and modes (\<lambda>ms. Direct \<in> set ms) \<or> default_mode = Some Direct
      then product_require_scopes x [DirectoriesGrant, DirectoriesDirect] else Inr ())"

fun has_key_in :: "string list \<Rightarrow> json \<Rightarrow> bool" where
  "has_key_in ks (Object kvs) = list_ex (\<lambda>kv. fst kv \<in> set ks) kvs"
| "has_key_in ks v = False"

definition directory_reject_immutable_fields :: "json \<Rightarrow> directory_api_error + unit" where
  "directory_reject_immutable_fields body =
     (if \<not> is_object body then Inl DirBadPatch
      else if has_key_in [''id'', ''product_id'', ''agent_id'', ''path'', ''created_at'', ''updated_at''] body
      then Inl DirBadPatch else Inr ())"

fun to_agent_workspace_mode :: "workspace_mode \<Rightarrow> agent_workspace_mode" where
  "to_agent_workspace_mode Worktree = AgentWorktree"
| "to_agent_workspace_mode Direct = AgentDirect"

definition directories_list ::
  "product_auth_context \<Rightarrow> directory_list_query \<Rightarrow> (app_state, directory_api_error, directory_grant list) op" where
  "directories_list x q =
     and_then (check_auth DirAuth (product_require_scope x DirectoriesRead)) (\<lambda>_.
     and_then (check_auth DirAuth (ensure_product_opt x (dq_product_id q))) (\<lambda>_.
     with_grants DirDirectory (list_grants
       \<lparr> gf_product_id = Some (px_product_id x), gf_agent_id = dq_agent_id q \<rparr>)))"

definition directories_create ::
  "app_env \<Rightarrow> product_auth_context \<Rightarrow> create_directory_grant \<Rightarrow> string \<Rightarrow>
   (app_state, directory_api_error, directory_grant) op" where
  "directories_create env x r now =
     and_then (check_auth DirAuth (product_require_scope x DirectoriesGrant)) (\<lambda>_.
     and_then (check_auth DirAuth (ensure_product x (cg_product_id r))) (\<lambda>_.
     and_then (check_auth DirAuth (require_direct_scope x (cg_workspace_modes r) (cg_default_workspace_mode r))) (\<lambda>_.
     and_then (with_agents dir_from_agent_error (authorize_agent
       \<lparr> aa_owner_product_id = cg_product_id r, aa_agent_id = cg_agent_id r, aa_provider_id_override = None,
         aa_model_override = None, aa_permission_mode_override = None,
         aa_requested_workspace_mode =
           to_agent_workspace_mode (unwrap_or (cg_default_workspace_mode r) Worktree) \<rparr>)) (\<lambda>_.
     with_grants DirDirectory (create_grant (env_fs env) r now)))))"

definition directories_get ::
  "product_auth_context \<Rightarrow> string \<Rightarrow> (app_state, directory_api_error, directory_grant) op" where
  "directories_get x gid =
     and_then (with_grants DirDirectory (get_grant gid)) (\<lambda>g.
     and_then (check_auth DirAuth (product_require_scope x DirectoriesRead)) (\<lambda>_.
     and_then (check_auth DirAuth (ensure_product x (dg_product_id g))) (\<lambda>_.
     ok g)))"

definition directories_patch ::
  "app_env \<Rightarrow> product_auth_context \<Rightarrow> string \<Rightarrow> json \<Rightarrow> string \<Rightarrow>
   (app_state, directory_api_error, directory_grant) op" where
  "directories_patch env x gid body now =
     and_then (check_auth DirAuth (product_require_scope x DirectoriesGrant)) (\<lambda>_.
     and_then (lift_r (directory_reject_immutable_fields body)) (\<lambda>_.
     and_then (lift_r (ok_or DirBadPatch (env_patch_directory env body))) (\<lambda>r.
     and_then (with_grants DirDirectory (get_grant gid)) (\<lambda>current.
     and_then (check_auth DirAuth (ensure_product x (dg_product_id current))) (\<lambda>_.
     and_then (check_auth DirAuth (require_direct_scope x (pg_workspace_modes r) (pg_default_workspace_mode r))) (\<lambda>_.
     with_grants DirDirectory (patch_grant gid r now)))))))"

definition directories_delete ::
  "product_auth_context \<Rightarrow> string \<Rightarrow> (app_state, directory_api_error, unit) op" where
  "directories_delete x gid =
     and_then (check_auth DirAuth (product_require_scope x DirectoriesGrant)) (\<lambda>_.
     and_then (with_grants DirDirectory (get_grant gid)) (\<lambda>current.
     and_then (check_auth DirAuth (ensure_product x (dg_product_id current))) (\<lambda>_.
     with_grants DirDirectory (delete_grant gid))))"

definition status_for_profile_error :: "agent_profile_error \<Rightarrow> nat" where
  "status_for_profile_error e =
     (case e of ProfileNotFound \<Rightarrow> 404 | ProfileAuthorizationFailed \<Rightarrow> 403 | _ \<Rightarrow> 400)"

fun directories_into_response :: "directory_api_error \<Rightarrow> api_failure" where
  "directories_into_response (DirAuth e) = auth_failure e"
| "directories_into_response DirBadPatch =
     Failure 400 ''directory_authorization_failed'' ''invalid directory patch''"
| "directories_into_response (DirDirectory DsNotFound) =
     Failure 404 ''directory_not_found'' ''directory grant not found''"
| "directories_into_response (DirDirectory (DsPath e)) = Failure 400 (path_guard_code e) (path_guard_message e)"
| "directories_into_response (DirDirectory (DsSecurity e)) =
     Failure (case e of DirectModeDenied \<Rightarrow> 403 | _ \<Rightarrow> 400) (security_code e) (security_message e)"
| "directories_into_response (DirDirectory (DsStore e)) = Failure 500 ''store_error'' e"
| "directories_into_response (DirDirectory (DsPanic e)) = Panicked e"
| "directories_into_response (DirAgent e) =
     Failure (status_for_profile_error e) (profile_error_code e) (profile_error_message e)"
| "directories_into_response (DirAgentStore e) = Failure 500 ''store_error'' e"

section \<open>Agent profiles\<close>

record agent_list_query =
  gq_owner_product_id :: "string option"
  gq_provider_id :: "string option"

datatype agent_api_error = AgAuth auth_error | AgProfile agent_profile_error | AgStore string | AgRegistry string

fun ag_from_store_error :: "agent_store_error \<Rightarrow> agent_api_error" where
  "ag_from_store_error (AsProfile e) = AgProfile e"
| "ag_from_store_error (AsStore e) = AgStore e"

definition agents_validate_against_registry :: "app_env \<Rightarrow> create_agent_profile \<Rightarrow> agent_api_error + unit" where
  "agents_validate_against_registry env input =
     r_then (r_map_err AgRegistry (load_registry env)) (\<lambda>registry.
     r_map_err AgProfile (validate_against_registry input registry))"

fun object_is_empty :: "json \<Rightarrow> bool" where
  "object_is_empty (Object kvs) = (kvs = [])"
| "object_is_empty v = False"

definition agent_reject_immutable_fields :: "json \<Rightarrow> agent_api_error + unit" where
  "agent_reject_immutable_fields body =
     (if \<not> is_object body then Inl (AgProfile InvalidAgentProfile)
      else if object_is_empty body \<or>
        has_key_in [''id'', ''owner_product_id'', ''created_at'', ''updated_at''] body
      then Inl (AgProfile InvalidAgentProfile) else Inr ())"

definition agents_list ::
  "product_auth_context \<Rightarrow> agent_list_query \<Rightarrow> (app_state, agent_api_error, agent_profile list) op" where
  "agents_list x q =
     and_then (check_auth AgAuth (product_require_scope x AgentsRead)) (\<lambda>_.
     and_then (check_auth AgAuth (ensure_product_opt x (gq_owner_product_id q))) (\<lambda>_.
     with_agents ag_from_store_error (list_agents
       \<lparr> af_owner_product_id = Some (px_product_id x), af_provider_id = gq_provider_id q \<rparr>)))"

definition agents_create ::
  "app_env \<Rightarrow> product_auth_context \<Rightarrow> create_agent_profile \<Rightarrow> string \<Rightarrow>
   (app_state, agent_api_error, agent_profile) op" where
  "agents_create env x input now =
     and_then (check_auth AgAuth (product_require_scope x AgentsWrite)) (\<lambda>_.
     and_then (check_auth AgAuth (ensure_product x (ca_owner_product_id input))) (\<lambda>_.
     and_then (lift_r (agents_validate_against_registry env input)) (\<lambda>_.
     with_agents ag_from_store_error (create_agent input now))))"

definition agents_get ::
  "product_auth_context \<Rightarrow> string \<Rightarrow> (app_state, agent_api_error, agent_profile) op" where
  "agents_get x aid =
     and_then (with_agents ag_from_store_error (get_agent aid)) (\<lambda>a.
     and_then (check_auth AgAuth (product_require_scope x AgentsRead)) (\<lambda>_.
     and_then (check_auth AgAuth (ensure_product x (ap_owner_product_id a))) (\<lambda>_.
     ok a)))"

definition agents_patch ::
  "app_env \<Rightarrow> product_auth_context \<Rightarrow> string \<Rightarrow> json \<Rightarrow> string \<Rightarrow>
   (app_state, agent_api_error, agent_profile) op" where
  "agents_patch env x aid body now =
     and_then (check_auth AgAuth (product_require_scope x AgentsWrite)) (\<lambda>_.
     and_then (lift_r (agent_reject_immutable_fields body)) (\<lambda>_.
     and_then (lift_r (ok_or (AgProfile InvalidAgentProfile) (env_patch_agent env body))) (\<lambda>r.
     and_then (with_agents ag_from_store_error (get_agent aid)) (\<lambda>current.
     and_then (check_auth AgAuth (ensure_product x (ap_owner_product_id current))) (\<lambda>_.
     and_then (lift_r (agents_validate_against_registry env (patched_profile r current))) (\<lambda>_.
     with_agents ag_from_store_error (patch_agent aid r now)))))))"

definition agents_delete :: "product_auth_context \<Rightarrow> string \<Rightarrow> (app_state, agent_api_error, unit) op" where
  "agents_delete x aid =
     and_then (check_auth AgAuth (product_require_scope x AgentsWrite)) (\<lambda>_.
     and_then (with_agents ag_from_store_error (get_agent aid)) (\<lambda>current.
     and_then (check_auth AgAuth (ensure_product x (ap_owner_product_id current))) (\<lambda>_.
     with_agents ag_from_store_error (delete_agent aid))))"

fun agents_into_response :: "agent_api_error \<Rightarrow> api_failure" where
  "agents_into_response (AgAuth e) = auth_failure e"
| "agents_into_response (AgProfile e) =
     Failure (status_for_profile_error e) (profile_error_code e) (profile_error_message e)"
| "agents_into_response (AgStore e) = Failure 500 ''store_error'' e"
| "agents_into_response (AgRegistry e) = Failure 500 ''registry_error'' e"

section \<open>Permission requests\<close>

record permission_response =
  ps_task_id :: string
  ps_request_id :: string
  ps_provider_id :: string
  ps_permission_kind :: string
  ps_summary :: string
  ps_details :: "json option"
  ps_options :: "permission_decision list"
  ps_expires_at :: "string option"
  ps_created_at :: string

definition permission_response_from :: "permission_request_record \<Rightarrow> permission_response" where
  "permission_response_from q =
     \<lparr> ps_task_id = prr_task_id q, ps_request_id = prr_request_id q, ps_provider_id = prr_provider_id q,
       ps_permission_kind = prr_permission_kind q, ps_summary = pq_summary (prr_request q),
       ps_details = pq_details (prr_request q), ps_options = pq_options (prr_request q),
       ps_expires_at = pq_expires_at (prr_request q), ps_created_at = prr_requested_at q \<rparr>"

datatype permission_api_error = PermAuth auth_error | PermTask task_store_error

definition permissions_list ::
  "auth_context \<Rightarrow> permission_request_status option \<Rightarrow>
   (app_state, permission_api_error, permission_response list) op" where
  "permissions_list x status =
     and_then (check_auth PermAuth (any_require_scope x TasksRead)) (\<lambda>_.
     and_then (with_tasks PermTask (list_permission_requests
       \<lparr> pf_owner_product_id = (case x of BootstrapContext \<Rightarrow> None | ProductContext c \<Rightarrow> Some (px_product_id c)),
         pf_status = status \<rparr>)) (\<lambda>qs.
     ok (map permission_response_from qs)))"

fun permissions_into_response :: "permission_api_error \<Rightarrow> api_failure" where
  "permissions_into_response (PermAuth e) = auth_failure e"
| "permissions_into_response (PermTask e) = Failure 500 ''store_error'' (debug_task_store e)"

section \<open>Products\<close>

text \<open>Each is one call of the store, behind the bootstrap token.\<close>

definition products_list :: "(app_state, product_store_error, product list) op" where
  "products_list = with_products id list_products"

definition products_create :: "create_product \<Rightarrow> string \<Rightarrow> (app_state, product_store_error, product) op" where
  "products_create r now = with_products id (create_product_row r now)"

definition products_get :: "string \<Rightarrow> (app_state, product_store_error, product) op" where
  "products_get pid = with_products id (get_product pid)"

definition products_patch :: "string \<Rightarrow> patch_product \<Rightarrow> string \<Rightarrow> (app_state, product_store_error, product) op" where
  "products_patch pid r now = with_products id (patch_product_row pid r now)"

definition products_list_tokens :: "string \<Rightarrow> (app_state, product_store_error, product_token list) op" where
  "products_list_tokens pid = with_products id (list_tokens pid)"

definition products_create_token ::
  "app_env \<Rightarrow> string \<Rightarrow> create_product_token \<Rightarrow> string \<Rightarrow> string \<Rightarrow> (app_state, product_store_error, created_product_token) op" where
  "products_create_token env pid r bytes now = with_products id (create_token (env_crypto env) bytes pid r now)"

definition products_revoke_token :: "string \<Rightarrow> string \<Rightarrow> string \<Rightarrow> (app_state, product_store_error, unit) op" where
  "products_revoke_token pid tid now = with_products id (revoke_token pid tid now)"

lemmas product_handler_defs = products_list_def products_create_def products_get_def products_patch_def
  products_list_tokens_def products_create_token_def products_revoke_token_def

definition status_for_product_error :: "product_error \<Rightarrow> nat" where
  "status_for_product_error e = (case e of ProductNotFound \<Rightarrow> 404 | _ \<Rightarrow> 400)"

fun products_into_response :: "product_store_error \<Rightarrow> api_failure" where
  "products_into_response (PsProduct e) =
     Failure (status_for_product_error e) (product_error_code e) (product_error_message e)"
| "products_into_response PsProductDisabled = Failure 401 ''product_disabled'' ''product disabled''"
| "products_into_response (PsStore e) = Failure 500 ''store_error'' e"

section \<open>Providers and runtimes\<close>

record provider_response =
  pv_id :: string
  pv_display_name :: string
  pv_status :: provider_status
  pv_integration_type :: integration_type
  pv_description :: string
  pv_manifest :: provider_manifest

definition provider_response_from :: "provider_manifest \<Rightarrow> provider_response" where
  "provider_response_from m =
     \<lparr> pv_id = pm_id m, pv_display_name = pm_display_name m, pv_status = pm_status m,
       pv_integration_type = pm_integration_type m, pv_description = pm_description m, pv_manifest = m \<rparr>"

datatype provider_api_error = PrAuth auth_error | PrProviderNotFound | PrRegistry string

definition provider_require_scope :: "auth_context \<Rightarrow> api_scope \<Rightarrow> auth_error + unit" where
  "provider_require_scope x scope =
     (case x of BootstrapContext \<Rightarrow> Inr () | ProductContext _ \<Rightarrow> any_require_scope x scope)"

definition providers_list :: "app_env \<Rightarrow> auth_context \<Rightarrow> (app_state, provider_api_error, provider_response list) op" where
  "providers_list env x =
     and_then (check_auth PrAuth (provider_require_scope x ProvidersRead)) (\<lambda>_.
     and_then (lift_r (r_map_err PrRegistry (load_registry env))) (\<lambda>registry.
     ok (map (\<lambda>e. provider_response_from (pe_manifest e)) (rg_providers registry))))"

definition providers_get ::
  "app_env \<Rightarrow> auth_context \<Rightarrow> string \<Rightarrow> (app_state, provider_api_error, provider_response) op" where
  "providers_get env x pid =
     and_then (check_auth PrAuth (provider_require_scope x ProvidersRead)) (\<lambda>_.
     and_then (lift_r (r_map_err PrRegistry (load_registry env))) (\<lambda>registry.
     and_then (lift_r (ok_or PrProviderNotFound (registry_get registry pid))) (\<lambda>entry.
     ok (provider_response_from (pe_manifest entry)))))"

fun providers_into_response :: "provider_api_error \<Rightarrow> api_failure" where
  "providers_into_response (PrAuth e) = auth_failure e"
| "providers_into_response PrProviderNotFound = Failure 404 ''provider_not_found'' ''provider not found''"
| "providers_into_response (PrRegistry e) = Failure 500 ''registry_error'' e"

datatype runtime_api_error = RtAuth auth_error | RtRegistry string

definition load_provider_manifests :: "app_env \<Rightarrow> string + provider_manifest list" where
  "load_provider_manifests env =
     r_then (load_registry env) (\<lambda>registry. Inr (map pe_manifest (rg_providers registry)))"

definition runtimes_list :: "app_env \<Rightarrow> auth_context \<Rightarrow> (app_state, runtime_api_error, runtime_view list) op" where
  "runtimes_list env x =
     and_then (check_auth RtAuth (provider_require_scope x RuntimesRead)) (\<lambda>_.
     and_then (lift_r (r_map_err RtRegistry (load_provider_manifests env))) (\<lambda>providers.
     reads (\<lambda>s. Inr (list_for_providers providers (app_runtimes s)))))"

definition runtimes_detect ::
  "app_env \<Rightarrow> auth_context \<Rightarrow> string \<Rightarrow> (app_state, runtime_api_error, runtime_view list) op" where
  "runtimes_detect env x now =
     and_then (check_auth RtAuth (provider_require_scope x RuntimesRead)) (\<lambda>_.
     and_then (lift_r (r_map_err RtRegistry (load_provider_manifests env))) (\<lambda>providers.
     and_then (modify (\<lambda>s. s\<lparr> app_runtimes := runtime_save_all
       (detect_providers (env_detect env) providers (env_detection_config env) now) (app_runtimes s) \<rparr>)) (\<lambda>_.
     reads (\<lambda>s. Inr (list_for_providers providers (app_runtimes s))))))"

fun runtimes_into_response :: "runtime_api_error \<Rightarrow> api_failure" where
  "runtimes_into_response (RtAuth e) = auth_failure e"
| "runtimes_into_response (RtRegistry e) = Failure 500 ''registry_error'' e"

section \<open>Session, status and health\<close>

datatype credential_type = CredentialBootstrap | CredentialProduct

record session_response =
  ss_credential_type :: credential_type
  ss_product_id :: "string option"
  ss_scopes :: "api_scope list"
  ss_product_status :: "product_status option"

fun session_get :: "auth_context \<Rightarrow> session_response" where
  "session_get BootstrapContext = \<lparr> ss_credential_type = CredentialBootstrap, ss_product_id = None,
     ss_scopes = [], ss_product_status = None \<rparr>"
| "session_get (ProductContext x) = \<lparr> ss_credential_type = CredentialProduct,
     ss_product_id = Some (px_product_id x), ss_scopes = px_scopes x, ss_product_status = Some ProductActive \<rparr>"

record runtime_status_summary =
  rm_available :: nat
  rm_unavailable :: nat
  rm_error :: nat
  rm_not_detected :: nat

record control_plane_status =
  cs_status :: daemon_connection_status
  cs_daemon_id :: "string option"
  cs_last_heartbeat_at :: "string option"
  cs_last_error_code :: "string option"

record daemon_status_response =
  ds_service :: string
  ds_version :: string
  ds_status :: daemon_connection_status
  ds_control_plane :: control_plane_status
  ds_queued :: nat
  ds_running :: nat
  ds_max_concurrent_tasks :: nat
  ds_runtimes :: runtime_status_summary
  ds_pending_permissions :: nat

datatype status_api_error = StAuth auth_error | StRegistry string | StTask task_store_error

fun count_runtime :: "runtime_view \<Rightarrow> runtime_status_summary \<Rightarrow> runtime_status_summary" where
  "count_runtime r m =
     (case rv_status r of
        RuntimeAvailable \<Rightarrow> m\<lparr> rm_available := rm_available m + 1 \<rparr>
      | RuntimeUnavailableStatus \<Rightarrow> m\<lparr> rm_unavailable := rm_unavailable m + 1 \<rparr>
      | RuntimeErrorStatus \<Rightarrow> m\<lparr> rm_error := rm_error m + 1 \<rparr>
      | NotDetected \<Rightarrow> m\<lparr> rm_not_detected := rm_not_detected m + 1 \<rparr>)"

definition status_get ::
  "app_env \<Rightarrow> auth_context \<Rightarrow> (app_state, status_api_error, daemon_status_response) op" where
  "status_get env x =
     and_then (check_auth StAuth (any_require_scopes x [RuntimesRead, TasksRead])) (\<lambda>_.
     (let owner = map_option px_product_id (product_context x) in
     and_then (with_tasks StTask (list_tasks
       \<lparr> tf_owner_product_id = owner, tf_agent_id = None, tf_directory_id = None, tf_status = None \<rparr>)) (\<lambda>ts.
     and_then (lift_r (r_map_err StRegistry (load_provider_manifests env))) (\<lambda>providers.
     and_then (reads (\<lambda>s. Inr (list_for_providers providers (app_runtimes s)))) (\<lambda>runtimes.
     and_then (with_tasks StTask (list_permission_requests
       \<lparr> pf_owner_product_id = owner, pf_status = Some Pending \<rparr>)) (\<lambda>pending.
     ok \<lparr> ds_service = ''opendaemon'', ds_version = env_version env, ds_status = Online,
          ds_control_plane = \<lparr> cs_status = Offline, cs_daemon_id = None, cs_last_heartbeat_at = None,
            cs_last_error_code = None \<rparr>,
          ds_queued = length (filter (\<lambda>t. task_status t = Queued) ts),
          ds_running = length (filter (\<lambda>t. task_status t = Running) ts),
          ds_max_concurrent_tasks = sg_max_concurrent_tasks (env_scheduler env),
          ds_runtimes = fold count_runtime runtimes
            \<lparr> rm_available = 0, rm_unavailable = 0, rm_error = 0, rm_not_detected = 0 \<rparr>,
          ds_pending_permissions = length pending \<rparr>))))))"

fun status_into_response :: "status_api_error \<Rightarrow> api_failure" where
  "status_into_response (StAuth e) = auth_failure e"
| "status_into_response (StRegistry e) = Failure 500 ''registry_error'' e"
| "status_into_response (StTask e) = Failure 500 ''store_error'' (debug_task_store e)"

record health_response =
  hr_status :: string
  hr_service :: string
  hr_version :: string

definition health :: "app_env \<Rightarrow> health_response" where
  "health env = \<lparr> hr_status = ''ok'', hr_service = ''opendaemon'', hr_version = env_version env \<rparr>"

end
