(* ===== verification/Router.thy ===== *)
theory Router
  imports Api_Resources
begin

text \<open>
  \<open>router_with_state\<close> of \<open>src/src/api/mod.rs\<close>: one constructor of \<open>api_request\<close> per route, with the path
  parameters, the query and the decoded body, and for each the extractor of its handler. Matching
  paths and decoding queries and bodies is the web framework's.
\<close>

datatype api_request =
    GetHealth
  | GetSession
  | GetDaemonStatus
  | ListProducts
  | CreateProduct create_product
  | GetProduct string
  | PatchProduct string patch_product
  | ListTokens string
  | CreateToken string create_product_token string
  | RevokeToken string string
  | ListProviders
  | GetProvider string
  | ListRuntimes
  | DetectRuntimes
  | ListTasks task_list_query
  | CreateTask create_task
  | ListPermissions "permission_request_status option"
  | GetTask string
  | TaskEvents string "string option" "string option"
  | PostTaskEvent string task_event_request
  | CancelTask string
  | ListAgents agent_list_query
  | CreateAgent create_agent_profile
  | GetAgent string
  | PatchAgent string json
  | DeleteAgent string
  | ListDirectories directory_list_query
  | GrantDirectory create_directory_grant
  | GetDirectory string
  | PatchDirectory string json
  | DeleteDirectory string

datatype api_body =
    HealthBody health_response
  | SessionBody session_response
  | StatusBody daemon_status_response
  | ProductsBody "product list"
  | ProductBody product
  | TokensBody "product_token list"
  | CreatedTokenBody created_product_token
  | ProvidersBody "provider_response list"
  | ProviderBody provider_response
  | RuntimesBody "runtime_view list"
  | TasksBody "task list"
  | TaskBody task
  | EventStream task_stream
  | PermissionAnswerBody task_permission_response
  | PermissionsBody "permission_response list"
  | AgentsBody "agent_profile list"
  | AgentBody agent_profile
  | DirectoriesBody "directory_grant list"
  | DirectoryBody directory_grant
  | NoContent

type_synonym api_reply = "nat \<times> api_body"

definition on_products :: "(product_db, auth_error, 'a) op \<Rightarrow> (app_state, api_failure, 'a) op" where
  "on_products m = map_err auth_failure (zoom app_products (\<lambda>t s. s\<lparr> app_products := t \<rparr>) m)"

definition as_bootstrap ::
  "app_env \<Rightarrow> request_parts \<Rightarrow> string \<Rightarrow> (app_state, api_failure, 'a) op \<Rightarrow> (app_state, api_failure, 'a) op" where
  "as_bootstrap env parts now h =
     and_then (on_products (bootstrap_auth (env_crypto env) (env_auth env) parts now)) (\<lambda>_. h)"

definition as_product ::
  "app_env \<Rightarrow> request_parts \<Rightarrow> string \<Rightarrow> (product_auth_context \<Rightarrow> (app_state, api_failure, 'a) op) \<Rightarrow>
   (app_state, api_failure, 'a) op" where
  "as_product env parts now h = and_then (on_products (product_auth (env_crypto env) (env_auth env) parts now)) h"

definition as_any ::
  "app_env \<Rightarrow> request_parts \<Rightarrow> string \<Rightarrow> (auth_context \<Rightarrow> (app_state, api_failure, 'a) op) \<Rightarrow>
   (app_state, api_failure, 'a) op" where
  "as_any env parts now h = and_then (on_products (any_auth (env_crypto env) (env_auth env) parts now)) h"

text \<open>The reply of a handler: its status and body, or the response its error becomes.\<close>

definition reply ::
  "('e \<Rightarrow> api_failure) \<Rightarrow> nat \<Rightarrow> ('a \<Rightarrow> api_body) \<Rightarrow> (app_state, 'e, 'a) op \<Rightarrow> (app_state, api_failure, api_reply) op" where
  "reply into_response status body h = and_then (map_err into_response h) (\<lambda>v. ok (status, body v))"

definition serve_api ::
  "app_env \<Rightarrow> request_parts \<Rightarrow> api_request \<Rightarrow> string \<Rightarrow> (app_state, api_failure, api_reply) op" where
  "serve_api env parts request now =
     (case request of
        GetHealth \<Rightarrow> ok (200, HealthBody (health env))
      | GetSession \<Rightarrow> as_any env parts now (\<lambda>x. ok (200, SessionBody (session_get x)))
      | GetDaemonStatus \<Rightarrow> as_any env parts now (\<lambda>x. reply status_into_response 200 StatusBody (status_get env x))
      | ListProducts \<Rightarrow> as_bootstrap env parts now
          (reply products_into_response 200 ProductsBody products_list)
      | CreateProduct r \<Rightarrow> as_bootstrap env parts now
          (reply products_into_response 201 ProductBody (products_create r now))
      | GetProduct pid \<Rightarrow> as_bootstrap env parts now
          (reply products_into_response 200 ProductBody (products_get pid))
      | PatchProduct pid r \<Rightarrow> as_bootstrap env parts now
          (reply products_into_response 200 ProductBody (products_patch pid r now))
      | ListTokens pid \<Rightarrow> as_bootstrap env parts now
          (reply products_into_response 200 TokensBody (products_list_tokens pid))
      | CreateToken pid r bytes \<Rightarrow> as_bootstrap env parts now
          (reply products_into_response 201 CreatedTokenBody
            (products_create_token env pid r bytes now))
      | RevokeToken pid tid \<Rightarrow> as_bootstrap env parts now
          (reply products_into_response 204 (\<lambda>_. NoContent) (products_revoke_token pid tid now))
      | ListProviders \<Rightarrow> as_any env parts now (\<lambda>x. reply providers_into_response 200 ProvidersBody (providers_list env x))
      | GetProvider pid \<Rightarrow> as_any env parts now (\<lambda>x. reply providers_into_response 200 ProviderBody (providers_get env x pid))
      | ListRuntimes \<Rightarrow> as_any env parts now (\<lambda>x. reply runtimes_into_response 200 RuntimesBody (runtimes_list env x))
      | DetectRuntimes \<Rightarrow> as_any env parts now
          (\<lambda>x. reply runtimes_into_response 200 RuntimesBody (runtimes_detect env x now))
      | ListTasks q \<Rightarrow> as_product env parts now (\<lambda>x. reply tasks_into_response 200 TasksBody (tasks_list x q))
      | CreateTask r \<Rightarrow> as_product env parts now (\<lambda>x. reply tasks_into_response 201 TaskBody (tasks_create env x r now))
      | ListPermissions st \<Rightarrow> as_any env parts now
          (\<lambda>x. reply permissions_into_response 200 PermissionsBody (permissions_list x st))
      | GetTask tid \<Rightarrow> as_product env parts now (\<lambda>x. reply tasks_into_response 200 TaskBody (tasks_get x tid))
      | TaskEvents tid cursor last_event_id \<Rightarrow> as_product env parts now
          (\<lambda>x. reply tasks_into_response 200 EventStream (tasks_events x tid cursor last_event_id))
      | PostTaskEvent tid r \<Rightarrow> as_product env parts now
          (\<lambda>x. reply tasks_into_response 200 PermissionAnswerBody (tasks_post_event x tid r now))
      | CancelTask tid \<Rightarrow> as_product env parts now (\<lambda>x. reply tasks_into_response 200 TaskBody (tasks_cancel x tid now))
      | ListAgents q \<Rightarrow> as_product env parts now (\<lambda>x. reply agents_into_response 200 AgentsBody (agents_list x q))
      | CreateAgent r \<Rightarrow> as_product env parts now
          (\<lambda>x. reply agents_into_response 201 AgentBody (agents_create env x r now))
      | GetAgent aid \<Rightarrow> as_product env parts now (\<lambda>x. reply agents_into_response 200 AgentBody (agents_get x aid))
      | PatchAgent aid body \<Rightarrow> as_product env parts now
          (\<lambda>x. reply agents_into_response 200 AgentBody (agents_patch env x aid body now))
      | DeleteAgent aid \<Rightarrow> as_product env parts now
          (\<lambda>x. reply agents_into_response 204 (\<lambda>_. NoContent) (agents_delete x aid))
      | ListDirectories q \<Rightarrow> as_product env parts now
          (\<lambda>x. reply directories_into_response 200 DirectoriesBody (directories_list x q))
      | GrantDirectory r \<Rightarrow> as_product env parts now
          (\<lambda>x. reply directories_into_response 201 DirectoryBody (directories_create env x r now))
      | GetDirectory gid \<Rightarrow> as_product env parts now
          (\<lambda>x. reply directories_into_response 200 DirectoryBody (directories_get x gid))
      | PatchDirectory gid body \<Rightarrow> as_product env parts now
          (\<lambda>x. reply directories_into_response 200 DirectoryBody (directories_patch env x gid body now))
      | DeleteDirectory gid \<Rightarrow> as_product env parts now
          (\<lambda>x. reply directories_into_response 204 (\<lambda>_. NoContent) (directories_delete x gid)))"

end
