(* ===== verification/Api_Props.thy ===== *)
theory Api_Props
  imports Router Acp_Props Scheduler_Props Auth_Properties Directory_Properties Profile_Properties
begin

text \<open>
  What requests do to the stores. Every handler works on the stores through their own operations, so the
  states of a running daemon are reachable states of each store; and the handlers for products leave
  alone what belongs to other products.
\<close>

section \<open>Reachable states of the daemon\<close>

abbreviation app_tasks :: "app_state \<Rightarrow> task_db" where
  "app_tasks s \<equiv> st_tasks (app_stores s)"

abbreviation app_agents :: "app_state \<Rightarrow> agent_table" where
  "app_agents s \<equiv> st_agents (app_stores s)"

abbreviation app_grants :: "app_state \<Rightarrow> grant_table" where
  "app_grants s \<equiv> st_grants (app_stores s)"

definition app_start :: app_state where
  "app_start = \<lparr> app_products = empty_products, app_stores =
     \<lparr> st_tasks = empty_task_db (Some default_bus), st_agents = empty_agents, st_grants = empty_grants \<rparr>,
     app_runtimes = [] \<rparr>"

text \<open>
  Requests, and the steps that the scheduler, the adapters and the control plane connection take on the
  task store beside them.
\<close>

inductive app_step :: "crypto \<Rightarrow> app_state \<Rightarrow> app_state \<Rightarrow> bool" for c where
  app_request: "env_crypto env = c \<Longrightarrow> app_step c s (snd (serve_api env parts request now s))"
| app_background: "task_step (app_tasks s) db \<Longrightarrow>
    app_step c s (s\<lparr>app_stores := (app_stores s)\<lparr>st_tasks := db\<rparr>\<rparr>)"

inductive app_reachable :: "crypto \<Rightarrow> app_state \<Rightarrow> bool" for c where
  app_begin: "app_reachable c app_start"
| app_next: "app_reachable c s \<Longrightarrow> app_step c s s' \<Longrightarrow> app_reachable c s'"

definition stores_sound :: "stores \<Rightarrow> bool" where
  "stores_sound st \<longleftrightarrow> task_reachable (st_tasks st) \<and> agents_reachable (st_agents st) \<and> grants_reachable (st_grants st)"

definition app_sound :: "crypto \<Rightarrow> app_state \<Rightarrow> bool" where
  "app_sound c s \<longleftrightarrow> stores_sound (app_stores s) \<and> products_reachable c (app_products s)"

lemma keeps_with_stores: "keeps stores_sound m \<Longrightarrow> keeps (app_sound c) (with_stores f m)"
  unfolding with_stores_def by (rule keeps_map_err, erule keeps_zoom) (simp_all add: app_sound_def)

lemma keeps_with_tasks: "keeps task_reachable m \<Longrightarrow> keeps (app_sound c) (with_tasks f m)"
  unfolding with_tasks_def by (rule keeps_with_stores, erule keeps_zoom) (simp_all add: stores_sound_def)

lemma keeps_with_agents: "keeps agents_reachable m \<Longrightarrow> keeps (app_sound c) (with_agents f m)"
  unfolding with_agents_def by (rule keeps_with_stores, erule keeps_zoom) (simp_all add: stores_sound_def)

lemma keeps_with_grants: "keeps grants_reachable m \<Longrightarrow> keeps (app_sound c) (with_grants f m)"
  unfolding with_grants_def by (rule keeps_with_stores, erule keeps_zoom) (simp_all add: stores_sound_def)

lemma keeps_with_products: "keeps (products_reachable c) m \<Longrightarrow> keeps (app_sound c) (with_products f m)"
  unfolding with_products_def by (rule keeps_map_err, erule keeps_zoom) (simp_all add: app_sound_def)

lemma keeps_on_products: "keeps (products_reachable c) m \<Longrightarrow> keeps (app_sound c) (on_products m)"
  unfolding on_products_def by (rule keeps_map_err, erule keeps_zoom) (simp_all add: app_sound_def)

lemma keeps_check_auth [intro!]: "keeps P (check_auth f r)"
  by (simp add: check_auth_def)

lemma keeps_reply [intro]: "keeps P h \<Longrightarrow> keeps P (reply f st body h)"
  by (auto simp: reply_def)

lemma keeps_reachable_agents:
  "keeps agents_reachable (create_agent input now)" "keeps agents_reachable (patch_agent aid p now)"
  "keeps agents_reachable (delete_agent aid)"
  by (simp_all add: keeps_def agents_create agents_patch agents_delete)

lemma keeps_reachable_grants:
  "keeps grants_reachable (create_grant fs cinput now)" "keeps grants_reachable (patch_grant gid p now)"
  "keeps grants_reachable (delete_grant gid)"
  by (simp_all add: keeps_def grants_create grants_patch grants_delete)

lemma keeps_reachable_products:
  "keeps (products_reachable c) (create_product_row input now)"
  "keeps (products_reachable c) (patch_product_row pid patch now)"
  "keeps (products_reachable c) (create_token c bytes pid tinput now)"
  "keeps (products_reachable c) (revoke_token pid tid now)"
  "keeps (products_reachable c) (authenticate_product_token c token now)"
  using products_step [of c] product_step.intros [of c] by (auto simp: keeps_def)

lemma keeps_reachable_auth: "keeps (products_reachable c) (authenticate_request c config parts now)"
proof -
  have "keeps (products_reachable c)
      (\<lambda>s. case authenticate_product_token c token now s of (r, s') \<Rightarrow> (context_of r, s'))" for token
    using keeps_reachable_products(5) [of c token now] by (auto simp: keeps_def split: prod.splits)
  then show ?thesis unfolding authenticate_request_def by (auto intro!: keeps_and_then)
qed

lemma keeps_extractors:
  "env_crypto env = c \<Longrightarrow> keeps (app_sound c) h \<Longrightarrow> keeps (app_sound c) (as_bootstrap env parts now h)"
  "env_crypto env = c \<Longrightarrow> (\<And>x. keeps (app_sound c) (k x)) \<Longrightarrow> keeps (app_sound c) (as_product env parts now k)"
  "env_crypto env = c \<Longrightarrow> (\<And>x. keeps (app_sound c) (l x)) \<Longrightarrow> keeps (app_sound c) (as_any env parts now l)"
  unfolding as_bootstrap_def as_product_def as_any_def bootstrap_auth_def product_auth_def any_auth_def
  by (intro keeps_and_then keeps_on_products keeps_reachable_auth; simp split: auth_context.split)+

lemma keeps_reachable_tasks:
  "keeps task_reachable (get_task tid)" "keeps task_reachable (list_tasks tf)"
  "keeps task_reachable (list_permission_requests pf)" "keeps task_reachable (reads q)"
  "keeps task_reachable (cancel tid now)"
  using reach_step [OF _ step_transition]
  by (auto simp: get_task_def list_tasks_def list_permission_requests_def cancel_def keeps_def reads_def)

lemma service_steps_reachable: "service_step\<^sup>*\<^sup>* db db' \<Longrightarrow> task_reachable db \<Longrightarrow> task_reachable db'"
proof (induction rule: rtranclp_induct)
  case (step x y)
  from step(2) have "store_step x y" by cases (auto intro: store_notify)
  then show ?case using step reach_step step_store by blast
qed

lemma reachable_bus: "task_reachable db \<Longrightarrow> \<exists>b. db_bus db = Some b"
proof (induction rule: task_reachable.induct)
  case (reach_step db db')
  from reach_step(2,3) show ?case using store_step_channels by cases fastforce+
qed (simp add: empty_task_db_def)

lemma keeps_resolve_response: "keeps task_reachable (resolve_permission_response tid r now)"
proof
  fix db
  assume "task_reachable db"
  then show "task_reachable (snd (resolve_permission_response tid r now db))"
    using reachable_bus resolve_response_service [OF task_reachable_inv] service_steps_reachable by blast
qed

lemma keeps_on_tasks_sound: "keeps task_reachable m \<Longrightarrow> keeps stores_sound (on_tasks m)"
  unfolding on_tasks_def by (rule keeps_map_err, erule keeps_zoom) (simp_all add: stores_sound_def)

lemma keeps_sound_enqueue: "keeps stores_sound (enqueue_task input now)"
proof
  fix st
  assume st: "stores_sound st"
  show "stores_sound (snd (enqueue_task input now st))"
  proof (cases rule: enqueue_cases [of input now st])
    case 1
    then show ?thesis using st by simp
  next
    case (2 mode g a)
    have "keeps task_reachable (create i now)" for i using reach_step [OF _ step_create] by (simp add: keeps_def)
    then show ?thesis unfolding 2(2) by (intro keeps_snd [OF keeps_on_tasks_sound st])
  qed
qed

lemma keeps_sound_cancel: "keeps stores_sound (cancel_task tid now)"
  unfolding cancel_task_def
  by (intro keeps_and_then keeps_if keeps_on_tasks_sound keeps_reachable_tasks keeps_err)

lemma keeps_own_task: "keeps (app_sound c) (own_task x scope tid)"
  unfolding own_task_def
  by (intro keeps_and_then keeps_check_auth keeps_with_tasks keeps_reachable_tasks keeps_ok)

lemma keeps_task_handlers:
  "keeps (app_sound c) (tasks_list x q)" "keeps (app_sound c) (tasks_create env x r now)"
  "keeps (app_sound c) (tasks_get x tid)" "keeps (app_sound c) (tasks_cancel x tid now)"
  "keeps (app_sound c) (tasks_events x tid cursor leid)" "keeps (app_sound c) (tasks_post_event x tid er now)"
  unfolding tasks_list_def tasks_create_def tasks_get_def tasks_cancel_def tasks_events_def tasks_post_event_def
  by (intro keeps_and_then keeps_check_auth keeps_with_tasks keeps_with_stores keeps_reachable_tasks keeps_ok
      keeps_err keeps_if keeps_lift_r keeps_own_task keeps_sound_enqueue keeps_sound_cancel keeps_resolve_response)+

lemma keeps_directory_handlers:
  "keeps (app_sound c) (directories_list x q)" "keeps (app_sound c) (directories_create env x r now)"
  "keeps (app_sound c) (directories_get x gid)" "keeps (app_sound c) (directories_patch env x gid body now)"
  "keeps (app_sound c) (directories_delete x gid)"
  unfolding directories_list_def directories_create_def directories_get_def directories_patch_def directories_delete_def
  by (intro keeps_and_then keeps_check_auth keeps_with_grants keeps_with_agents keeps_reachable_grants
      keeps_grant_reads keeps_agent_reads keeps_ok keeps_lift_r)+

lemma keeps_agent_handlers:
  "keeps (app_sound c) (agents_list x q)" "keeps (app_sound c) (agents_create env x r now)"
  "keeps (app_sound c) (agents_get x aid)" "keeps (app_sound c) (agents_patch env x aid body now)"
  "keeps (app_sound c) (agents_delete x aid)"
  unfolding agents_list_def agents_create_def agents_get_def agents_patch_def agents_delete_def
  by (intro keeps_and_then keeps_check_auth keeps_with_agents keeps_reachable_agents keeps_agent_reads keeps_ok
      keeps_lift_r)+

lemma keeps_product_reads:
  "keeps (products_reachable c) list_products" "keeps (products_reachable c) (get_product pid)"
  "keeps (products_reachable c) (list_tokens pid)"
  by (auto simp: list_products_def get_product_def list_tokens_def intro!: keeps_and_then)

lemma keeps_other_handlers:
  "keeps (app_sound c) (permissions_list y st)" "keeps (app_sound c) (status_get env y)"
  "keeps (app_sound c) (providers_list env y)" "keeps (app_sound c) (providers_get env y pid)"
  "keeps (app_sound c) (runtimes_list env y)" "keeps (app_sound c) (runtimes_detect env y now)"
  unfolding permissions_list_def status_get_def providers_list_def providers_get_def runtimes_list_def
    runtimes_detect_def Let_def
  by (intro keeps_and_then keeps_check_auth keeps_with_tasks keeps_reachable_tasks keeps_ok keeps_lift_r keeps_reads;
      simp add: keeps_def modify_def app_sound_def)+

lemma keeps_serve_api:
  assumes "env_crypto env = c"
  shows "keeps (app_sound c) (serve_api env parts request now)"
  unfolding serve_api_def product_handler_defs
  by (cases request; simp add: assms;
      intro keeps_extractors [OF assms] keeps_reply keeps_ok keeps_with_products keeps_reachable_products
        keeps_product_reads keeps_task_handlers
        keeps_directory_handlers keeps_agent_handlers keeps_other_handlers)

lemma app_reachable_sound: "app_reachable c s \<Longrightarrow> app_sound c s"
proof (induction rule: app_reachable.induct)
  case app_begin
  show ?case
    by (simp add: app_sound_def stores_sound_def app_start_def reach_start agents_start grants_start products_start)
next
  case (app_next s s')
  from app_next(2) show ?case
  proof cases
    case (app_request env parts request now)
    then show ?thesis using keeps_snd [OF keeps_serve_api app_next(3)] by simp
  next
    case (app_background db)
    then show ?thesis using app_next(3) by (auto simp: app_sound_def stores_sound_def intro: reach_step)
  qed
qed

end
