(* ===== verification/Op_Logic.thy ===== *)
theory Op_Logic
  imports Prelude
begin

text \<open>
  Weakest preconditions of operations. \<open>wp m F Q s\<close> says that \<open>m\<close>, run in \<open>s\<close>, ends in a state that
  \<open>F\<close> allows if it fails and in a result and a state that \<open>Q\<close> allows if it succeeds. The equations
  of \<open>wp_simps\<close> push it through the combinators, so a handler becomes the tests it makes in the
  order in which it makes them.
\<close>

named_theorems wp_simps \<open>weakest preconditions of operations\<close>

definition wp :: "('s, 'e, 'a) op \<Rightarrow> ('e \<Rightarrow> 's \<Rightarrow> bool) \<Rightarrow> ('a \<Rightarrow> 's \<Rightarrow> bool) \<Rightarrow> 's \<Rightarrow> bool" where
  "wp m F Q s = (case m s of (Inl e, s') \<Rightarrow> F e s' | (Inr v, s') \<Rightarrow> Q v s')"

lemma wp_Inr: "wp m F Q s \<Longrightarrow> m s = (Inr v, s') \<Longrightarrow> Q v s'"
  by (simp add: wp_def)

lemma wp_Inl: "wp m F Q s \<Longrightarrow> m s = (Inl e, s') \<Longrightarrow> F e s'"
  by (simp add: wp_def)

lemma wp_mono:
  assumes "wp m F Q s" and "\<And>e s'. m s = (Inl e, s') \<Longrightarrow> F e s' \<Longrightarrow> F' e s'"
    and "\<And>v s'. m s = (Inr v, s') \<Longrightarrow> Q v s' \<Longrightarrow> Q' v s'"
  shows "wp m F' Q' s"
  using assms by (auto simp: wp_def split: prod.splits sum.splits)

lemma wp_conj: "wp m F Q s \<Longrightarrow> wp m F' Q' s \<Longrightarrow> wp m (\<lambda>e t. F e t \<and> F' e t) (\<lambda>v t. Q v t \<and> Q' v t) s"
  by (auto simp: wp_def split: prod.splits sum.splits)

lemma wp_keeps: "keeps P m \<Longrightarrow> P s \<Longrightarrow> wp m (\<lambda>_. P) (\<lambda>_. P) s"
  by (auto simp: wp_def split: prod.splits sum.splits dest: keepsD)

lemma wp_basic [wp_simps]:
  "wp (ok v) F Q = Q v" "wp (err e) F Q = F e"
  "wp (lift_r r) F Q = (\<lambda>s. case r of Inl e \<Rightarrow> F e s | Inr v \<Rightarrow> Q v s)"
  "wp (reads q) F Q = (\<lambda>s. case q s of Inl e \<Rightarrow> F e s | Inr v \<Rightarrow> Q v s)"
  "wp (modify f) F' Q' = (\<lambda>s. Q' () (f s))"
  by (simp_all add: wp_def ok_def err_def lift_r_def reads_def modify_def fun_eq_iff)

lemma wp_and_then [wp_simps]: "wp (and_then m f) F Q = wp m F (\<lambda>v. wp (f v) F Q)"
  by (auto simp: wp_def and_then_def fun_eq_iff split: prod.splits sum.splits)

lemma wp_map_err [wp_simps]: "wp (map_err g m) F Q = wp m (\<lambda>e. F (g e)) Q"
  by (auto simp: wp_def map_err_def fun_eq_iff split: prod.splits sum.splits)

lemma wp_zoom [wp_simps]:
  "wp (zoom get put m) F Q = (\<lambda>w. wp m (\<lambda>e s'. F e (put s' w)) (\<lambda>v s'. Q v (put s' w)) (get w))"
  by (auto simp: wp_def zoom_def fun_eq_iff split: prod.splits sum.splits)

lemma wp_transaction [wp_simps]: "wp (transaction m) F Q = (\<lambda>s. wp m (\<lambda>e _. F e s) Q s)"
  by (auto simp: wp_def transaction_def fun_eq_iff split: prod.splits sum.splits)

lemma wp_if [wp_simps]: "wp (if b then m else n) F Q = (if b then wp m F Q else wp n F Q)"
  by simp

lemma wp_results [wp_simps]:
  "(case r_map_err g r of Inl e \<Rightarrow> P e | Inr v \<Rightarrow> Q v) = (case r of Inl e \<Rightarrow> P (g e) | Inr v \<Rightarrow> Q v)"
  "(case ok_or e' x of Inl e \<Rightarrow> P e | Inr v \<Rightarrow> Q v) = (case x of None \<Rightarrow> P e' | Some v \<Rightarrow> Q v)"
  by (simp_all add: r_map_err_def ok_or_def split: sum.split option.split)

end
