(* ===== verification/Api_Handlers.thy ===== *)
theory Api_Handlers
  imports Api_Props Op_Logic
begin

text \<open>
  The contract of the handlers for products. A handler called with the credentials of a product
  either fails and leaves every store as it was, or it held the scopes the operation asks for, changed
  only what belongs to that product and returned only rows of that product.
\<close>

section \<open>What belongs to a product\<close>

text \<open>All that the store keeps about one task.\<close>

definition task_view ::
  "string \<Rightarrow> task_db \<Rightarrow> task option \<times> task_event list \<times> permission_request_record list \<times> directory_lock list" where
  "task_view tid db = (find_task tid db, events_of tid db, filter (\<lambda>q. prr_task_id q = tid) (db_requests db),
     filter (\<lambda>l. lk_task_id l = tid) (db_locks db))"

definition owner_of :: "string \<Rightarrow> task_db \<Rightarrow> string option" where
  "owner_of tid db = map_option task_owner_product_id (find_task tid db)"

definition tasks_confined :: "string \<Rightarrow> task_db \<Rightarrow> task_db \<Rightarrow> bool" where
  "tasks_confined pid db db' \<longleftrightarrow> (\<forall>tid. owner_of tid db \<in> {None, Some pid} \<and> owner_of tid db' \<in> {None, Some pid} \<or>
     task_view tid db' = task_view tid db)"

definition agents_confined :: "string \<Rightarrow> agent_table \<Rightarrow> agent_table \<Rightarrow> bool" where
  "agents_confined pid tb tb' \<longleftrightarrow> (\<forall>aid a. ap_owner_product_id a \<noteq> pid \<longrightarrow>
     (find_agent aid tb' = Some a \<longleftrightarrow> find_agent aid tb = Some a))"

definition grants_confined :: "string \<Rightarrow> grant_table \<Rightarrow> grant_table \<Rightarrow> bool" where
  "grants_confined pid tb tb' \<longleftrightarrow> (\<forall>gid g. dg_product_id g \<noteq> pid \<longrightarrow>
     (find_grant gid tb' = Some g \<longleftrightarrow> find_grant gid tb = Some g))"

text \<open>A step that leaves alone what belongs to any product but one, and the products themselves.\<close>

definition confined :: "string \<Rightarrow> app_state \<Rightarrow> app_state \<Rightarrow> bool" where
  "confined pid s s' \<longleftrightarrow> app_products s' = app_products s \<and> tasks_confined pid (app_tasks s) (app_tasks s') \<and>
     agents_confined pid (app_agents s) (app_agents s') \<and> grants_confined pid (app_grants s) (app_grants s')"

lemma confined_refl [simp]: "confined pid s s"
  by (simp add: confined_def tasks_confined_def agents_confined_def grants_confined_def)

lemma confined_tasks:
  "tasks_confined pid (app_tasks s) db \<Longrightarrow> confined pid s (s\<lparr>app_stores := (app_stores s)\<lparr>st_tasks := db\<rparr>\<rparr>)"
  by (simp add: confined_def agents_confined_def grants_confined_def)

lemma confined_agents:
  "agents_confined pid (app_agents s) tb \<Longrightarrow> confined pid s (s\<lparr>app_stores := (app_stores s)\<lparr>st_agents := tb\<rparr>\<rparr>)"
  by (simp add: confined_def tasks_confined_def grants_confined_def)

lemma confined_grants:
  "grants_confined pid (app_grants s) tb \<Longrightarrow> confined pid s (s\<lparr>app_stores := (app_stores s)\<lparr>st_grants := tb\<rparr>\<rparr>)"
  by (simp add: confined_def tasks_confined_def agents_confined_def)

section \<open>Operations on one task\<close>

definition framed :: "string \<Rightarrow> task_db \<Rightarrow> task_db \<Rightarrow> bool" where
  "framed tid db db' \<longleftrightarrow> owner_of tid db' = owner_of tid db \<and> (\<forall>j. j \<noteq> tid \<longrightarrow> task_view j db' = task_view j db)"

lemma framed_refl [simp]: "framed tid db db"
  by (simp add: framed_def)

lemma framed_trans: "framed tid a b \<Longrightarrow> framed tid b d \<Longrightarrow> framed tid a d"
  by (simp add: framed_def)

lemma framed_confined: "framed tid db db' \<Longrightarrow> owner_of tid db = Some pid \<Longrightarrow> tasks_confined pid db db'"
  by (auto simp: framed_def tasks_confined_def)

lemma framed_log: "framed tid db (log_event tid ty p now db)"
  by (simp add: framed_def task_view_def owner_of_def log_event_events)

lemma framed_bus: "framed tid db (db\<lparr>db_bus := b\<rparr>)"
  by (simp add: framed_def task_view_def owner_of_def)

lemma framed_update:
  assumes "\<And>t. task_id (f t) = task_id t" and "\<And>t. task_owner_product_id (f t) = task_owner_product_id t"
  shows "framed tid db (update_task tid f db)"
  by (simp add: framed_def task_view_def owner_of_def find_update_task [OF assms(1)] option.map_comp comp_def assms(2))

lemma framed_release: "framed tid db (db\<lparr>db_locks := release_held tid now (db_locks db)\<rparr>)"
proof -
  have "filter (\<lambda>l. lk_task_id l = j) (release_held tid now ls) = filter (\<lambda>l. lk_task_id l = j) ls" if "j \<noteq> tid" for j ls
    using that by (induction ls) (auto simp: release_held_def update_rows_def)
  then show ?thesis by (simp add: framed_def task_view_def owner_of_def)
qed

lemma framed_requests:
  "framed tid db (db\<lparr>db_requests := update_rows (\<lambda>r. prr_request_id r = rid \<and> prr_task_id r = tid) (resolve_row d now)
     (db_requests db)\<rparr>)"
proof -
  have "filter (\<lambda>q. prr_task_id q = j) (update_rows (\<lambda>r. prr_request_id r = rid \<and> prr_task_id r = tid) (resolve_row d now) qs) =
      filter (\<lambda>q. prr_task_id q = j) qs" if "j \<noteq> tid" for j qs
    using that by (induction qs) (auto simp: update_rows_def)
  then show ?thesis by (simp add: framed_def task_view_def owner_of_def)
qed

lemma framed_transition: "framed tid db (transition_db tid next p now db)"
proof -
  let ?u = "update_task tid (apply_status next now) db"
  let ?l = "log_event tid (event_type_for_status next) (unwrap_or p empty_object) now ?u"
  have "framed tid db ?u" by (rule framed_update) (simp_all add: apply_status_def)
  then have l: "framed tid db ?l" by (rule framed_trans [OF _ framed_log])
  with framed_trans [OF this framed_release] show ?thesis by (simp add: transition_db_def Let_def)
qed

lemma framed_resolve: "framed tid db (resolve_db tid d now db)"
  using framed_trans [OF framed_log framed_requests] by (simp add: resolve_db_def)

lemma wp_cancel:
  assumes "events_wf db"
  shows "wp (cancel tid now) (\<lambda>_ db'. db' = db) (\<lambda>t db'. framed tid db db' \<and> find_task tid db' = Some t) db"
proof (cases rule: transition_cases [OF assms, of tid Cancelled None now])
  case (4 t)
  then show ?thesis
    by (simp add: cancel_def wp_def framed_transition) (simp add: transition_db_def Let_def find_update_task)
qed (simp_all add: cancel_def wp_def)

lemma wp_cancel_task:
  assumes "events_wf (st_tasks st)"
  shows "wp (cancel_task tid now) (\<lambda>_ st'. st' = st) (\<lambda>t st'. \<exists>db. st' = st\<lparr>st_tasks := db\<rparr> \<and>
    framed tid (st_tasks st) db \<and> find_task tid db = Some t) st"
proof -
  have "wp (on_tasks (cancel tid now)) (\<lambda>_ st'. st' = st) (\<lambda>t st'. \<exists>db. st' = st\<lparr>st_tasks := db\<rparr> \<and>
      framed tid (st_tasks st) db \<and> find_task tid db = Some t) st"
    unfolding on_tasks_def wp_simps by (rule wp_mono [OF wp_cancel [OF assms, of tid now]]) auto
  then show ?thesis by (simp add: cancel_task_def wp_simps on_tasks_def get_task_def split: option.split)
qed

lemma resolve_request_cases:
  assumes inv: "task_db_inv db"
  obtains e where "resolve_permission_request tid rid dec reason now db = (Inl e, db)"
  | r d db' where "resolve_permission_request tid rid dec reason now db = (Inr r, db')" "framed tid db db'"
      "decision_event_from_value (ev_payload (rs_event r)) = Some d" "rs_request_id r = rid"
proof (cases "find_task tid db")
  case None
  then show ?thesis using that(1) by (simp add: resolve_missing)
next
  case (Some t)
  note wf = inv [unfolded task_db_inv_def]
  show ?thesis
  proof (cases "query_permission_request tid rid db")
    case None
    with Some show ?thesis using that(1) by (simp add: resolve_missing)
  next
    case q: (Some q)
    show ?thesis
    proof (cases "prr_status q = Pending")
      case True
      show ?thesis
        by (rule that(2) [OF resolve_pending_effect [OF _ Some q True refl refl]]) (use wf in \<open>simp_all add: framed_resolve\<close>)
    next
      case False
      from wf obtain d e where "ev_payload e = decision_event_to_value d" and
        r: "\<And>reason now. resolve_permission_request tid rid (pd_decision d) reason now db =
          (Inr \<lparr>rs_task_id = tid, rs_request_id = rid, rs_status = prr_status q,
            rs_decision = pd_decision d, rs_event = e, rs_duplicated = True\<rparr>, db)"
          "\<And>dec reason now. dec \<noteq> pd_decision d \<Longrightarrow>
            resolve_permission_request tid rid dec reason now db = (Inl PermissionRequestAlreadyResolved, db)"
        using resolve_again [OF _ _ Some q False] by metis
      then show ?thesis by (cases "dec = pd_decision d") (auto intro: that)
    qed
  qed
qed

lemma wp_resolve_response:
  assumes inv: "task_db_inv db"
  shows "wp (resolve_permission_response tid w now) (\<lambda>_ db'. db' = db)
    (\<lambda>r db'. framed tid db db' \<and> rs_request_id r = pw_request_id w) db"
proof -
  have res: "wp (resolve_permission_request tid rid dec reason now) (\<lambda>_ db'. db' = db)
     (\<lambda>r db'. framed tid db db' \<and> (\<exists>d. decision_event_from_value (ev_payload (rs_event r)) = Some d) \<and>
        rs_request_id r = rid) db" for rid dec reason
    by (cases rule: resolve_request_cases [OF inv, of tid rid dec reason now]) (auto simp: wp_def)
  have "framed tid db (publish_db e db')" "framed tid db (db'\<lparr>db_bus := b\<rparr>)" if "framed tid db db'" for e db' b
    using framed_trans [OF that framed_bus] by (simp_all add: publish_db_def)
  then show ?thesis
    unfolding resolve_permission_response_def get_permission_request_def
    by (auto simp: wp_simps get_task_def split: option.split) (rule wp_mono [OF res]; auto)+
qed

lemma wp_enqueue:
  assumes inv: "task_db_inv (st_tasks st)"
  shows "wp (enqueue_task input now) (\<lambda>_ st'. st' = st) (\<lambda>t st'. \<exists>db. st' = st\<lparr>st_tasks := db\<rparr> \<and>
    tasks_confined (ct_owner_product_id input) (st_tasks st) db \<and> find_task (task_id t) db = Some t \<and>
    task_owner_product_id t = ct_owner_product_id input) st"
proof (cases rule: enqueue_cases [of input now st])
  case 1
  then show ?thesis by (simp add: wp_def)
next
  case (2 mode g a)
  let ?i = "admitted_input input mode a" and ?db = "st_tasks st"
  define tid where "tid = task_row_id (Suc (length (db_tasks ?db)))"
  define db where "db = log_event tid EvQueued empty_object now (?db\<lparr>db_tasks := db_tasks ?db @ [new_task ?i tid now]\<rparr>)"
  have wf: "tasks_wf ?db" "events_wf ?db" using inv by (simp_all add: task_db_inv_def)
  have fresh: "find_task tid ?db = None" using fresh_task_id [OF wf(1)] by (simp add: tid_def)
  have found: "find_task j db = (if j = tid then Some (new_task ?i tid now) else find_task j ?db)" for j
    using task_table.lookup_insert [of "?db\<lparr>db_tasks := db_tasks ?db @ [new_task ?i tid now]\<rparr>" ?db "new_task ?i tid now" j] fresh
    by (simp add: db_def task_table.lookup_None)
  have owner: "task_owner_product_id (new_task ?i tid now) = ct_owner_product_id input"
    by (simp add: new_task_def admitted_input_def)
  have "events_of j db = events_of j ?db" if "j \<noteq> tid" for j using that by (simp add: db_def log_event_events)
  moreover have "db_requests db = db_requests ?db" "db_locks db = db_locks ?db" by (simp_all add: db_def)
  ultimately have "tasks_confined (ct_owner_product_id input) ?db db"
    using fresh by (simp add: tasks_confined_def owner_of_def task_view_def found owner)
  with enqueue_effect [OF inv 2(1) tid_def refl, of now] show ?thesis
    by (auto simp: wp_def found owner db_def [symmetric] intro!: exI [of _ db])
qed

section \<open>The contract\<close>

lemma wp_with [wp_simps]:
  "wp (with_stores f m) F Q = (\<lambda>s. wp m (\<lambda>e t. F (f e) (s\<lparr>app_stores := t\<rparr>)) (\<lambda>v t. Q v (s\<lparr>app_stores := t\<rparr>)) (app_stores s))"
  "wp (with_tasks f' m') F Q' = (\<lambda>s. wp m' (\<lambda>e t. F (f' e) (s\<lparr>app_stores := (app_stores s)\<lparr>st_tasks := t\<rparr>\<rparr>))
     (\<lambda>v t. Q' v (s\<lparr>app_stores := (app_stores s)\<lparr>st_tasks := t\<rparr>\<rparr>)) (app_tasks s))"
  "wp (with_agents g n) F Q'' = (\<lambda>s. wp n (\<lambda>e t. F (g e) (s\<lparr>app_stores := (app_stores s)\<lparr>st_agents := t\<rparr>\<rparr>))
     (\<lambda>v t. Q'' v (s\<lparr>app_stores := (app_stores s)\<lparr>st_agents := t\<rparr>\<rparr>)) (app_agents s))"
  "wp (with_grants g' n') F Q3 = (\<lambda>s. wp n' (\<lambda>e t. F (g' e) (s\<lparr>app_stores := (app_stores s)\<lparr>st_grants := t\<rparr>\<rparr>))
     (\<lambda>v t. Q3 v (s\<lparr>app_stores := (app_stores s)\<lparr>st_grants := t\<rparr>\<rparr>)) (app_grants s))"
  "wp (with_products h l) F Q4 = (\<lambda>s. wp l (\<lambda>e t. F (h e) (s\<lparr>app_products := t\<rparr>)) (\<lambda>v t. Q4 v (s\<lparr>app_products := t\<rparr>)) (app_products s))"
  "wp (check_auth a r) F Q5 = (\<lambda>s. case r of Inl e \<Rightarrow> F (a e) s | Inr u \<Rightarrow> Q5 u s)"
  "wp (reply into status body k) F' Q6 = wp k (\<lambda>e. F' (into e)) (\<lambda>v. Q6 (status, body v))"
  by (simp_all add: with_stores_def with_tasks_def with_agents_def with_grants_def with_products_def check_auth_def
      reply_def wp_simps)

lemma wp_gets [wp_simps]:
  "wp (get_task tid) F Q = (\<lambda>db. case find_task tid db of None \<Rightarrow> F TsNotFound db | Some t \<Rightarrow> Q t db)"
  "wp (get_agent aid) F2 Q2 = (\<lambda>tb. case find_agent aid tb of None \<Rightarrow> F2 (AsProfile ProfileNotFound) tb | Some a \<Rightarrow> Q2 a tb)"
  "wp (get_grant gid) F3 Q3 = (\<lambda>tb. case find_grant gid tb of None \<Rightarrow> F3 DsNotFound tb | Some g \<Rightarrow> Q3 g tb)"
  by (simp_all add: get_task_def get_agent_def get_grant_def wp_simps fun_eq_iff)

text \<open>The rows of a reply belong to the product: the tables the last lookups were made in say so.\<close>

fun body_owned :: "string \<Rightarrow> task_db \<Rightarrow> api_body \<Rightarrow> bool" where
  "body_owned pid db (TasksBody ts) = (\<forall>t \<in> set ts. task_owner_product_id t = pid)"
| "body_owned pid db (TaskBody t) = (task_owner_product_id t = pid)"
| "body_owned pid db (EventStream st) =
     (owner_of (sm_task st) db = Some pid \<and> (\<forall>e \<in> set (sent_events st). ev_task_id e = sm_task st))"
| "body_owned pid db (PermissionAnswerBody a) = (owner_of (pm_response_task_id a) db = Some pid)"
| "body_owned pid db (PermissionsBody ps) = (\<forall>p \<in> set ps. owner_of (ps_task_id p) db = Some pid)"
| "body_owned pid db (AgentsBody as) = (\<forall>a \<in> set as. ap_owner_product_id a = pid)"
| "body_owned pid db (AgentBody a) = (ap_owner_product_id a = pid)"
| "body_owned pid db (DirectoriesBody gs) = (\<forall>g \<in> set gs. dg_product_id g = pid)"
| "body_owned pid db (DirectoryBody g) = (dg_product_id g = pid)"
| "body_owned pid db (SessionBody ss) = (ss_product_id ss = Some pid)"
| "body_owned pid db (StatusBody d) =
     (ds_queued d = length (filter (\<lambda>t. task_owner_product_id t = pid \<and> task_status t = Queued) (db_tasks db)) \<and>
      ds_running d = length (filter (\<lambda>t. task_owner_product_id t = pid \<and> task_status t = Running) (db_tasks db)) \<and>
      ds_pending_permissions d =
        length (filter (\<lambda>q. owner_of (prr_task_id q) db = Some pid \<and> prr_status q = Pending) (db_requests db)))"
| "body_owned pid db (HealthBody h) = True"
| "body_owned pid db (ProvidersBody vs) = True"
| "body_owned pid db (ProviderBody v) = True"
| "body_owned pid db (RuntimesBody rs) = True"
| "body_owned pid db NoContent = True"
| "body_owned pid db (ProductsBody ps) = False"
| "body_owned pid db (ProductBody p) = False"
| "body_owned pid db (TokensBody ts) = False"
| "body_owned pid db (CreatedTokenBody t) = False"

definition serves ::
  "product_auth_context \<Rightarrow> api_scope list \<Rightarrow> ('a \<Rightarrow> api_body) \<Rightarrow> (app_state, 'e, 'a) op \<Rightarrow> app_state \<Rightarrow> bool" where
  "serves x scopes body h s \<longleftrightarrow> wp h (\<lambda>_ s'. s' = s) (\<lambda>v s'. set scopes \<subseteq> set (px_scopes x) \<and>
     confined (px_product_id x) s s' \<and> body_owned (px_product_id x) (app_tasks s') (body v)) s"

lemmas guard_defs = product_require_scope_def product_require_scopes_def ensure_product_def ensure_product_opt_def
  require_direct_scope_def is_none_or_def is_some_and_def

section \<open>Tasks\<close>

lemma serves_task_reads:
  "serves x [TasksRead] TasksBody (tasks_list x q) s"
  "serves x [TasksRead] TaskBody (tasks_get x tid) s"
  by (auto simp: serves_def tasks_list_def tasks_get_def list_tasks_def wp_simps guard_defs split: option.split)

lemma wp_own_task [wp_simps]:
  "wp (own_task x scope tid) F Q = (\<lambda>s. if scope \<notin> set (px_scopes x) then F (TasksAuth InsufficientScope) s
     else case find_task tid (app_tasks s) of
       None \<Rightarrow> F (TasksTask TvTaskNotFound) s
     | Some t \<Rightarrow> if px_product_id x = task_owner_product_id t then Q t s else F (TasksAuth ProductScopeMismatch) s)"
  by (auto simp: own_task_def wp_simps guard_defs fun_eq_iff split: option.split)

lemma sound_parts:
  assumes "app_sound c s"
  shows "task_db_inv (app_tasks s)" "agents_inv (app_agents s)" "grants_inv (app_grants s)"
  using assms task_reachable_inv agents_reachable_inv grants_reachable_inv
  by (simp_all add: app_sound_def stores_sound_def)

lemma serves_task_create:
  assumes "app_sound c s"
  shows "serves x (if requests_remote_execution env r = Inr True then [TasksCreate, TasksRemoteExecution] else [TasksCreate])
    TaskBody (tasks_create env x r now) s"
proof -
  have enq: "wp (enqueue_task i now) (\<lambda>_ st. s\<lparr>app_stores := st\<rparr> = s)
      (\<lambda>t st. confined pid s (s\<lparr>app_stores := st\<rparr>) \<and> task_owner_product_id t = pid) (app_stores s)"
    if "ct_owner_product_id i = pid" for i pid
    by (rule wp_mono [OF wp_enqueue [OF sound_parts(1) [OF assms]]]) (auto simp: that intro: confined_tasks)
  have "ct_owner_product_id (mark_remote_execution_approved r) = ct_owner_product_id r"
    by (simp add: mark_remote_execution_approved_def)
  then show ?thesis
    by (auto simp: serves_def tasks_create_def wp_simps guard_defs intro!: enq split: sum.split)
qed

lemma serves_task_cancel:
  assumes "app_sound c s"
  shows "serves x [TasksCancel] TaskBody (tasks_cancel x tid now) s"
proof -
  have ev: "events_wf (st_tasks (app_stores s))" using sound_parts(1) [OF assms] by (simp add: task_db_inv_def)
  have "wp (cancel_task tid now) (\<lambda>_ st. s\<lparr>app_stores := st\<rparr> = s)
      (\<lambda>t st. confined pid s (s\<lparr>app_stores := st\<rparr>) \<and> task_owner_product_id t = pid) (app_stores s)"
    if "owner_of tid (app_tasks s) = Some pid" for pid
    using that by (intro wp_mono [OF wp_cancel_task [OF ev, of tid now]])
      (auto intro!: confined_tasks framed_confined simp: framed_def owner_of_def)
  then show ?thesis by (auto simp: serves_def tasks_cancel_def wp_simps owner_of_def split: option.split)
qed

lemma stream_open_parts:
  assumes "stream_open tid n db db db = Inr st"
  shows "sm_task st = tid" "\<forall>e \<in> set (sent_events st). ev_task_id e = tid"
  using assms
  by (auto simp: stream_open_def r_then_Inr list_events_after_def reads_def sent_events_def map_filter_def events_of_def)

lemma serves_task_events: "serves x [TasksRead] EventStream (tasks_events x tid cursor leid) s"
  using stream_open_parts
  by (auto simp: serves_def tasks_events_def wp_simps owner_of_def split: option.split sum.split)

lemma serves_task_post:
  assumes "app_sound c s"
  shows "serves x [TasksRead] PermissionAnswerBody (tasks_post_event x tid er now) s"
proof -
  have "wp (resolve_permission_response tid w now) (\<lambda>_ db. s\<lparr>app_stores := (app_stores s)\<lparr>st_tasks := db\<rparr>\<rparr> = s)
      (\<lambda>r db. confined pid s (s\<lparr>app_stores := (app_stores s)\<lparr>st_tasks := db\<rparr>\<rparr>) \<and> owner_of tid db = Some pid) (app_tasks s)"
    if "owner_of tid (app_tasks s) = Some pid" for pid w
    using that by (intro wp_mono [OF wp_resolve_response [OF sound_parts(1) [OF assms]]])
      (auto intro!: confined_tasks framed_confined simp: framed_def)
  then show ?thesis by (auto simp: serves_def tasks_post_event_def wp_simps owner_of_def split: option.split sum.split)
qed

section \<open>Directories\<close>

lemma wp_create_grant:
  assumes "grants_inv tb"
  shows "wp (create_grant fs r now) (\<lambda>_ tb'. tb' = tb)
    (\<lambda>g tb'. grants_confined (cg_product_id r) tb tb' \<and> dg_product_id g = cg_product_id r) tb"
proof (cases rule: create_grant_cases [OF assms, of fs r now])
  case (2 path policy g)
  let ?tb = "tb\<lparr>gt_rows := gt_rows tb @ [(next_rowid tb, g)]\<rparr>"
  have owner: "dg_product_id g = cg_product_id r" and gid: "dg_id g = grant_row_id (next_rowid tb)"
    using 2(3) by (simp_all add: grant_of_policy_def)
  have "find_grant (dg_id g) tb = None" using next_id_fresh [OF assms] gid by simp
  moreover have "find_grant j ?tb = (if j = dg_id g then Some g else find_grant j tb)" for j
    using grants.lookup_insert [of ?tb tb g j] calculation by (simp add: grant_rows_def grants.lookup_None)
  ultimately show ?thesis using owner 2(4) by (auto simp: wp_def grants_confined_def)
qed (simp add: wp_def)

lemma wp_patch_grant:
  assumes "find_grant gid tb = Some g"
  shows "wp (patch_grant gid p now) (\<lambda>_ tb'. tb' = tb)
    (\<lambda>g' tb'. grants_confined (dg_product_id g) tb tb' \<and> dg_product_id g' = dg_product_id g) tb"
proof (cases "patch_is_empty p")
  case True
  then show ?thesis by (simp add: wp_def patch_grant_Inl)
next
  case ne: False
  show ?thesis
  proof (cases "patched_policy p (grant_policy g)")
    case (Inl e)
    with ne assms show ?thesis by (simp add: wp_def patch_grant_Inl)
  next
    case (Inr q)
    have "find_grant j (update_grant gid (set_policy q now) tb) =
        (if j = gid then map_option (set_policy q now) (find_grant gid tb) else find_grant j tb)" for j
      by (rule grants.lookup_update [OF grant_rows_update]) simp
    moreover have "dg_product_id (set_policy q now g) = dg_product_id g" by (simp add: set_policy_def)
    ultimately show ?thesis
      using assms by (auto simp: wp_def patch_grant_effect [OF ne assms Inr] grants_confined_def)
  qed
qed

lemma wp_delete_grant:
  assumes "find_grant gid tb = Some g"
  shows "wp (delete_grant gid) (\<lambda>_ tb'. tb' = tb) (\<lambda>_ tb'. grants_confined (dg_product_id g) tb tb') tb"
proof -
  have "delete_grant gid tb = (Inr (), snd (delete_grant gid tb))" using assms by (simp add: delete_grant_def Let_def)
  moreover have "grants_confined (dg_product_id g) tb (snd (delete_grant gid tb))"
    using assms by (auto simp: grants_confined_def delete_grant_lookup)
  ultimately show ?thesis unfolding wp_def by (metis (no_types, lifting) case_prod_conv sum.case(2))
qed

lemma authorize_agent_eq:
  "wp (authorize_agent r) F Q tb \<longleftrightarrow> (case fst (authorize_agent r tb) of Inl e \<Rightarrow> F e tb | Inr a \<Rightarrow> Q a tb)"
  by (auto simp: authorize_agent_def wp_simps op_simps get_agent_def split: option.split)

lemma serves_directory_reads:
  "serves x [DirectoriesRead] DirectoriesBody (directories_list x q) s"
  "serves x [DirectoriesRead] DirectoryBody (directories_get x gid) s"
  by (auto simp: serves_def directories_list_def directories_get_def list_grants_def wp_simps guard_defs
      split: option.split)

definition direct_scopes :: "workspace_mode list option \<Rightarrow> workspace_mode option \<Rightarrow> api_scope list" where
  "direct_scopes modes d = (if is_some_and modes (\<lambda>ms. Direct \<in> set ms) \<or> d = Some Direct
     then [DirectoriesGrant, DirectoriesDirect] else [DirectoriesGrant])"

lemma serves_directory_create:
  assumes "app_sound c s"
  shows "serves x (direct_scopes (cg_workspace_modes r) (cg_default_workspace_mode r)) DirectoryBody
    (directories_create env x r now) s"
proof -
  have "wp (create_grant fs r now) (\<lambda>_ tb. s\<lparr>app_stores := (app_stores s)\<lparr>st_grants := tb\<rparr>\<rparr> = s)
      (\<lambda>g tb. confined (cg_product_id r) s (s\<lparr>app_stores := (app_stores s)\<lparr>st_grants := tb\<rparr>\<rparr>) \<and>
        dg_product_id g = cg_product_id r) (app_grants s)" for fs
    by (rule wp_mono [OF wp_create_grant [OF sound_parts(3) [OF assms]]]) (auto intro: confined_grants)
  then show ?thesis
    by (auto simp: serves_def directories_create_def direct_scopes_def authorize_agent_eq wp_simps guard_defs
        split: sum.split option.split)
qed

lemma serves_directory_patch:
  "serves x (case env_patch_directory env body of None \<Rightarrow> [DirectoriesGrant]
       | Some r \<Rightarrow> direct_scopes (pg_workspace_modes r) (pg_default_workspace_mode r)) DirectoryBody
     (directories_patch env x gid body now) s"
proof -
  have "wp (patch_grant gid p now) (\<lambda>_ tb. s\<lparr>app_stores := (app_stores s)\<lparr>st_grants := tb\<rparr>\<rparr> = s)
      (\<lambda>g' tb. confined (dg_product_id g) s (s\<lparr>app_stores := (app_stores s)\<lparr>st_grants := tb\<rparr>\<rparr>) \<and>
        dg_product_id g' = dg_product_id g) (app_grants s)"
    if "find_grant gid (app_grants s) = Some g" for g p
    by (rule wp_mono [OF wp_patch_grant [OF that]]) (auto intro: confined_grants)
  then show ?thesis
    by (auto simp: serves_def directories_patch_def direct_scopes_def wp_simps guard_defs
        split: sum.split option.split)
qed

lemma serves_directory_delete:
  "serves x [DirectoriesGrant] (\<lambda>_. NoContent) (directories_delete x gid) s"
proof -
  have "wp (delete_grant gid) (\<lambda>_ tb. s\<lparr>app_stores := (app_stores s)\<lparr>st_grants := tb\<rparr>\<rparr> = s)
      (\<lambda>_ tb. confined (dg_product_id g) s (s\<lparr>app_stores := (app_stores s)\<lparr>st_grants := tb\<rparr>\<rparr>)) (app_grants s)"
    if "find_grant gid (app_grants s) = Some g" for g
    by (rule wp_mono [OF wp_delete_grant [OF that]]) (auto intro: confined_grants)
  then show ?thesis
    by (auto simp: serves_def directories_delete_def wp_simps guard_defs split: option.split)
qed

section \<open>Agent profiles\<close>

lemma wp_create_agent:
  "wp (create_agent r now) (\<lambda>_ tb'. tb' = tb)
    (\<lambda>a tb'. agents_confined (ca_owner_product_id r) tb tb' \<and> ap_owner_product_id a = ca_owner_product_id r) tb"
proof (cases rule: create_agent_cases [of r tb now])
  case 1
  then show ?thesis by (auto simp: wp_def)
next
  case 2
  let ?a = "into_profile r now now" and ?tb = "tb\<lparr>at_rows := at_rows tb @ [into_profile r now now]\<rparr>"
  have "find_agent j ?tb = (if j = ca_id r then Some ?a else find_agent j tb)" for j
    using agents.lookup_insert [of ?tb tb ?a j] 2(2) by (simp add: agents.lookup_None)
  moreover have "ap_owner_product_id ?a = ca_owner_product_id r" by (simp add: into_profile_def)
  ultimately show ?thesis using 2 by (auto simp: wp_def agents_confined_def)
qed

lemma wp_patch_agent:
  assumes "find_agent aid tb = Some a"
  shows "wp (patch_agent aid p now) (\<lambda>_ tb'. tb' = tb)
    (\<lambda>a' tb'. agents_confined (ap_owner_product_id a) tb tb' \<and> ap_owner_product_id a' = ap_owner_product_id a) tb"
proof (cases rule: patch_agent_cases [of p aid now tb])
  case (4 b)
  let ?f = "set_profile (patched_profile p b) now"
  have "find_agent j (update_agent aid ?f tb) = (if j = aid then map_option ?f (find_agent aid tb) else find_agent j tb)" for j
    by (rule agents.lookup_update) (simp_all add: update_agent_def)
  moreover have "ap_owner_product_id (?f b) = ap_owner_product_id b" by (simp add: set_profile_def)
  ultimately show ?thesis using assms 4 by (auto simp: wp_def agents_confined_def)
qed (use assms in \<open>simp_all add: wp_def\<close>)

lemma wp_delete_agent:
  assumes "find_agent aid tb = Some a"
  shows "wp (delete_agent aid) (\<lambda>_ tb'. tb' = tb) (\<lambda>_ tb'. agents_confined (ap_owner_product_id a) tb tb') tb"
proof -
  have "delete_agent aid tb = (Inr (), snd (delete_agent aid tb))" using assms by (simp add: delete_agent_def Let_def)
  moreover have "agents_confined (ap_owner_product_id a) tb (snd (delete_agent aid tb))"
    using assms by (auto simp: agents_confined_def delete_agent_lookup)
  ultimately show ?thesis unfolding wp_def by (metis (no_types, lifting) case_prod_conv sum.case(2))
qed

lemma serves_agent_reads:
  "serves x [AgentsRead] AgentsBody (agents_list x q) s"
  "serves x [AgentsRead] AgentBody (agents_get x aid) s"
  by (auto simp: serves_def agents_list_def agents_get_def list_agents_def wp_simps guard_defs split: option.split)

lemma serves_agent_create: "serves x [AgentsWrite] AgentBody (agents_create env x r now) s"
proof -
  have "wp (create_agent r now) (\<lambda>_ tb. s\<lparr>app_stores := (app_stores s)\<lparr>st_agents := tb\<rparr>\<rparr> = s)
      (\<lambda>a tb. confined (ca_owner_product_id r) s (s\<lparr>app_stores := (app_stores s)\<lparr>st_agents := tb\<rparr>\<rparr>) \<and>
        ap_owner_product_id a = ca_owner_product_id r) (app_agents s)"
    by (rule wp_mono [OF wp_create_agent]) (auto intro: confined_agents)
  then show ?thesis by (auto simp: serves_def agents_create_def wp_simps guard_defs split: sum.split)
qed

lemma serves_agent_patch: "serves x [AgentsWrite] AgentBody (agents_patch env x aid body now) s"
proof -
  have "wp (patch_agent aid p now) (\<lambda>_ tb. s\<lparr>app_stores := (app_stores s)\<lparr>st_agents := tb\<rparr>\<rparr> = s)
      (\<lambda>a' tb. confined (ap_owner_product_id a) s (s\<lparr>app_stores := (app_stores s)\<lparr>st_agents := tb\<rparr>\<rparr>) \<and>
        ap_owner_product_id a' = ap_owner_product_id a) (app_agents s)"
    if "find_agent aid (app_agents s) = Some a" for a p
    by (rule wp_mono [OF wp_patch_agent [OF that]]) (auto intro: confined_agents)
  then show ?thesis
    by (auto simp: serves_def agents_patch_def wp_simps guard_defs split: sum.split option.split)
qed

lemma serves_agent_delete: "serves x [AgentsWrite] (\<lambda>_. NoContent) (agents_delete x aid) s"
proof -
  have "wp (delete_agent aid) (\<lambda>_ tb. s\<lparr>app_stores := (app_stores s)\<lparr>st_agents := tb\<rparr>\<rparr> = s)
      (\<lambda>_ tb. confined (ap_owner_product_id a) s (s\<lparr>app_stores := (app_stores s)\<lparr>st_agents := tb\<rparr>\<rparr>)) (app_agents s)"
    if "find_agent aid (app_agents s) = Some a" for a
    by (rule wp_mono [OF wp_delete_agent [OF that]]) (auto intro: confined_agents)
  then show ?thesis
    by (auto simp: serves_def agents_delete_def wp_simps guard_defs split: option.split)
qed

end
