(* ===== verification/Api_Contract.thy ===== *)
theory Api_Contract
  imports Api_Handlers
begin

text \<open>
  The contract of the whole interface. \<open>required_access\<close> lists what each route asks of its caller;
  \<open>serve_contract\<close> shows that a request either fails with the stores as authentication left them, or
  carried that credential and, for a product, stayed within what the product owns.
\<close>

section \<open>The access table\<close>

datatype access = Public | BootstrapOnly | AnyWith "api_scope list" | ProductWith "api_scope list"

definition required_access :: "app_env \<Rightarrow> api_request \<Rightarrow> access" where
  "required_access env request =
     (case request of
        GetHealth \<Rightarrow> Public
      | GetSession \<Rightarrow> AnyWith []
      | GetDaemonStatus \<Rightarrow> AnyWith [RuntimesRead, TasksRead]
      | ListProducts \<Rightarrow> BootstrapOnly
      | CreateProduct _ \<Rightarrow> BootstrapOnly
      | GetProduct _ \<Rightarrow> BootstrapOnly
      | PatchProduct _ _ \<Rightarrow> BootstrapOnly
      | ListTokens _ \<Rightarrow> BootstrapOnly
      | CreateToken _ _ _ \<Rightarrow> BootstrapOnly
      | RevokeToken _ _ \<Rightarrow> BootstrapOnly
      | ListProviders \<Rightarrow> AnyWith [ProvidersRead]
      | GetProvider _ \<Rightarrow> AnyWith [ProvidersRead]
      | ListRuntimes \<Rightarrow> AnyWith [RuntimesRead]
      | DetectRuntimes \<Rightarrow> AnyWith [RuntimesRead]
      | ListTasks _ \<Rightarrow> ProductWith [TasksRead]
      | CreateTask r \<Rightarrow> ProductWith (if requests_remote_execution env r = Inr True
          then [TasksCreate, TasksRemoteExecution] else [TasksCreate])
      | ListPermissions _ \<Rightarrow> AnyWith [TasksRead]
      | GetTask _ \<Rightarrow> ProductWith [TasksRead]
      | TaskEvents _ _ _ \<Rightarrow> ProductWith [TasksRead]
      | PostTaskEvent _ _ \<Rightarrow> ProductWith [TasksRead]
      | CancelTask _ \<Rightarrow> ProductWith [TasksCancel]
      | ListAgents _ \<Rightarrow> ProductWith [AgentsRead]
      | CreateAgent _ \<Rightarrow> ProductWith [AgentsWrite]
      | GetAgent _ \<Rightarrow> ProductWith [AgentsRead]
      | PatchAgent _ _ \<Rightarrow> ProductWith [AgentsWrite]
      | DeleteAgent _ \<Rightarrow> ProductWith [AgentsWrite]
      | ListDirectories _ \<Rightarrow> ProductWith [DirectoriesRead]
      | GrantDirectory r \<Rightarrow> ProductWith (direct_scopes (cg_workspace_modes r) (cg_default_workspace_mode r))
      | GetDirectory _ \<Rightarrow> ProductWith [DirectoriesRead]
      | PatchDirectory _ body \<Rightarrow> ProductWith (case env_patch_directory env body of None \<Rightarrow> [DirectoriesGrant]
          | Some r \<Rightarrow> direct_scopes (pg_workspace_modes r) (pg_default_workspace_mode r))
      | DeleteDirectory _ \<Rightarrow> ProductWith [DirectoriesGrant])"

fun admits :: "access \<Rightarrow> auth_error + auth_context \<Rightarrow> bool" where
  "admits Public _ = True"
| "admits _ (Inl e) = False"
| "admits BootstrapOnly (Inr x) = (x = BootstrapContext)"
| "admits (AnyWith scopes) (Inr BootstrapContext) = True"
| "admits (AnyWith scopes) (Inr (ProductContext x)) = (set scopes \<subseteq> set (px_scopes x))"
| "admits (ProductWith scopes) (Inr BootstrapContext) = False"
| "admits (ProductWith scopes) (Inr (ProductContext x)) = (set scopes \<subseteq> set (px_scopes x))"

section \<open>Extractors\<close>

lemma wp_extractors:
  assumes "authenticate_request (env_crypto env) (env_auth env) parts now (app_products s) = (a, p)"
  shows "wp (as_bootstrap env parts now h) F Q s = (case a of
      Inl e \<Rightarrow> F (auth_failure e) (s\<lparr>app_products := p\<rparr>)
    | Inr BootstrapContext \<Rightarrow> wp h F Q (s\<lparr>app_products := p\<rparr>)
    | Inr (ProductContext x) \<Rightarrow> F (auth_failure BootstrapTokenRequired) (s\<lparr>app_products := p\<rparr>))"
    and "wp (as_product env parts now k) F Q s = (case a of
      Inl e \<Rightarrow> F (auth_failure e) (s\<lparr>app_products := p\<rparr>)
    | Inr BootstrapContext \<Rightarrow> F (auth_failure ProductTokenRequired) (s\<lparr>app_products := p\<rparr>)
    | Inr (ProductContext x) \<Rightarrow> wp (k x) F Q (s\<lparr>app_products := p\<rparr>))"
    and "wp (as_any env parts now l) F Q s = (case a of
      Inl e \<Rightarrow> F (auth_failure e) (s\<lparr>app_products := p\<rparr>)
    | Inr x \<Rightarrow> wp (l x) F Q (s\<lparr>app_products := p\<rparr>))"
  using assms
  by (auto simp: as_bootstrap_def as_product_def as_any_def on_products_def bootstrap_auth_def product_auth_def
      any_auth_def wp_and_then wp_map_err wp_zoom wp_basic wp_def [of "authenticate_request c f q n" for c f q n]
      split: sum.split auth_context.split)

section \<open>Handlers for any caller\<close>

definition serves_any ::
  "auth_context \<Rightarrow> api_scope list \<Rightarrow> ('a \<Rightarrow> api_body) \<Rightarrow> (app_state, 'e, 'a) op \<Rightarrow> app_state \<Rightarrow> bool" where
  "serves_any x scopes body h s \<longleftrightarrow> wp h (\<lambda>_ s'. s' = s) (\<lambda>v s'. admits (AnyWith scopes) (Inr x) \<and>
     (\<forall>y. x = ProductContext y \<longrightarrow> confined (px_product_id y) s s' \<and>
        body_owned (px_product_id y) (app_tasks s') (body v))) s"

lemma confined_runtimes [simp]: "confined pid s (s\<lparr>app_runtimes := rs\<rparr>)"
  by (simp add: confined_def tasks_confined_def agents_confined_def grants_confined_def)

lemma serves_any_reads:
  "serves_any x [ProvidersRead] ProvidersBody (providers_list env x) s"
  "serves_any x [ProvidersRead] ProviderBody (providers_get env x pid) s"
  "serves_any x [RuntimesRead] RuntimesBody (runtimes_list env x) s"
  "serves_any x [RuntimesRead] RuntimesBody (runtimes_detect env x now) s"
  by (cases x; auto simp: serves_any_def providers_list_def providers_get_def runtimes_list_def runtimes_detect_def
      provider_require_scope_def wp_simps split: sum.split option.split)+

lemma listed_owner:
  "(case find_task tid db of None \<Rightarrow> False | Some t \<Rightarrow> is_none_or v (\<lambda>w. w = task_owner_product_id t)) \<longleftrightarrow>
    owner_of tid db \<noteq> None \<and> is_none_or v (\<lambda>w. owner_of tid db = Some w)"
  by (auto simp: owner_of_def is_none_or_def split: option.split)

lemma serves_permissions: "serves_any x [TasksRead] PermissionsBody (permissions_list x st) s"
  by (cases x; simp add: serves_any_def permissions_list_def list_permission_requests_def permission_response_from_def
      wp_simps listed_owner)
    (auto simp: is_none_or_def)

lemma serves_status: "serves_any x [RuntimesRead, TasksRead] StatusBody (status_get env x) s"
proof (cases x)
  case BootstrapContext
  then show ?thesis
    by (auto simp: serves_any_def status_get_def list_tasks_def list_permission_requests_def Let_def wp_simps split: sum.split)
next
  case (ProductContext y)
  then show ?thesis
    by (simp add: serves_any_def status_get_def list_tasks_def list_permission_requests_def Let_def wp_simps listed_owner
        split: sum.split)
      (auto simp: is_none_or_def intro!: arg_cong [where f = length] filter_cong)
qed

section \<open>Products\<close>

lemma wp_product_ops:
  "wp list_products (\<lambda>_ p'. p' = p) (\<lambda>_ _. True) p" "wp (get_product pid) (\<lambda>_ p'. p' = p) (\<lambda>_ _. True) p"
  "wp (list_tokens pid) (\<lambda>_ p'. p' = p) (\<lambda>_ _. True) p" "wp (revoke_token pid tid now) (\<lambda>_ p'. p' = p) (\<lambda>_ _. True) p"
  by (auto simp: list_products_def get_product_def list_tokens_def revoke_token_def wp_simps split: option.split)

lemma wp_create_product: "wp (create_product_row r now) (\<lambda>_ p'. p' = p) (\<lambda>_ _. True) p"
proof -
  let ?q = "new_product r now"
  have "find_product (pr_id ?q) (p\<lparr>pd_products := pd_products p @ [?q]\<rparr>) = Some ?q" if "find_product (pr_id ?q) p = None"
    using products.lookup_insert [of "p\<lparr>pd_products := pd_products p @ [?q]\<rparr>" p ?q "pr_id ?q"] that
    by (simp add: products.lookup_None)
  then show ?thesis
    by (auto simp: create_product_row_def insert_product_def get_product_def Let_def wp_simps
        wp_def [of "insert_product q" for q] split: sum.split option.split)
qed

lemma wp_patch_product: "wp (patch_product_row pid r now) (\<lambda>_ p'. p' = p) (\<lambda>_ _. True) p"
proof -
  have "find_product pid (p\<lparr>pd_products := update_rows (\<lambda>q. pr_id q = pid) (set_product u) (pd_products p)\<rparr>) =
      map_option (set_product u) (find_product pid p)" for u
    using products.lookup_update [of _ pid "set_product u" p pid] by (simp add: set_product_def)
  then show ?thesis
    by (auto simp: patch_product_row_def get_product_def Let_def wp_simps split: sum.split option.split)
qed

lemma wp_create_token: "wp (create_token c bytes pid r now) (\<lambda>_ p'. p' = p) (\<lambda>_ _. True) p"
  by (auto simp: create_token_def get_product_def insert_token_def Let_def wp_simps
      wp_def [of "insert_token q" for q] split: sum.split option.split)

lemmas wp_products = wp_product_ops wp_create_product wp_patch_product wp_create_token

section \<open>The interface\<close>

definition contract ::
  "access \<Rightarrow> auth_error + auth_context \<Rightarrow> app_state \<Rightarrow> (app_state, api_failure, api_reply) op \<Rightarrow> app_state \<Rightarrow> bool" where
  "contract acc a s1 m s \<longleftrightarrow> wp m (\<lambda>_ s'. s' = s1) (\<lambda>r s'. admits acc a \<and>
     (\<forall>x. a = Inr (ProductContext x) \<longrightarrow> confined (px_product_id x) s1 s' \<and>
        body_owned (px_product_id x) (app_tasks s') (snd r))) s"

lemma contract_routes:
  assumes auth: "authenticate_request (env_crypto env) (env_auth env) parts now (app_products s) = (a, p)"
  shows "(\<And>x. serves x scopes body (h x) (s\<lparr>app_products := p\<rparr>)) \<Longrightarrow>
      contract (ProductWith scopes) a (s\<lparr>app_products := p\<rparr>) (as_product env parts now (\<lambda>x. reply f st body (h x))) s"
    and "(\<And>x. serves_any x scopes body (l x) (s\<lparr>app_products := p\<rparr>)) \<Longrightarrow>
      contract (AnyWith scopes) a (s\<lparr>app_products := p\<rparr>) (as_any env parts now (\<lambda>x. reply f' st body (l x))) s"
    and "(\<And>p. wp m (\<lambda>_ p'. p' = p) (\<lambda>_ _. True) p) \<Longrightarrow>
      contract BootstrapOnly a (s\<lparr>app_products := p\<rparr>) (as_bootstrap env parts now (reply f'' st body' (with_products id m))) s"
    and "contract (AnyWith []) a (s\<lparr>app_products := p\<rparr>) (as_any env parts now (\<lambda>x. ok (st, SessionBody (session_get x)))) s"
proof -
  show "contract BootstrapOnly a (s\<lparr>app_products := p\<rparr>) (as_bootstrap env parts now (reply f'' st body' (with_products id m))) s"
    if "\<And>p. wp m (\<lambda>_ p'. p' = p) (\<lambda>_ _. True) p"
    by (simp add: contract_def wp_extractors [OF auth] wp_simps split: sum.split auth_context.split)
      (auto intro: wp_mono [OF that])
  show "contract (AnyWith []) a (s\<lparr>app_products := p\<rparr>) (as_any env parts now (\<lambda>x. ok (st, SessionBody (session_get x)))) s"
    by (cases a; cases "projr a") (simp_all add: contract_def wp_extractors [OF auth] wp_simps)
qed (simp_all add: contract_def wp_extractors [OF auth] serves_def serves_any_def wp_simps split: sum.split auth_context.split)

lemma serve_contract:
  assumes sound: "app_sound (env_crypto env) s"
    and auth: "authenticate_request (env_crypto env) (env_auth env) parts now (app_products s) = (a, p)"
    and "request \<noteq> GetHealth"
  shows "contract (required_access env request) a (s\<lparr>app_products := p\<rparr>) (serve_api env parts request now) s"
proof -
  have p: "p = snd (authenticate_request (env_crypto env) (env_auth env) parts now (app_products s))" using auth by simp
  have sound': "app_sound (env_crypto env) (s\<lparr>app_products := p\<rparr>)"
    using sound keeps_snd [OF keeps_reachable_auth, of "env_crypto env" "app_products s" "env_auth env" parts now]
    by (simp add: app_sound_def p)
  note routes = contract_routes [OF auth] serves_task_reads serves_task_create [OF sound'] serves_task_cancel [OF sound']
    serves_task_events serves_task_post [OF sound'] serves_directory_reads serves_directory_create [OF sound']
    serves_directory_patch serves_directory_delete serves_agent_reads serves_agent_create serves_agent_patch
    serves_agent_delete serves_any_reads serves_permissions serves_status wp_products
  show ?thesis
  proof (cases request)
    case GetHealth
    then show ?thesis using assms(3) by simp
  qed (simp_all only: serve_api_def required_access_def api_request.case product_handler_defs, (rule routes)+)
qed

end
