(* ===== verification/Api_Properties.thy ===== *)
theory Api_Properties
  imports Api_Contract
begin

text \<open>
  The properties of the HTTP interface as a whole: which states a running daemon can be in, who may call
  what, that products are kept apart, that failed requests change nothing and are reported as such,
  and that remote execution is gated.
\<close>

section \<open>A concrete daemon\<close>

text \<open>One product with one token, beside a task of another product; one HTTP provider is registered.\<close>

definition demo_http_manifest :: provider_manifest where
  "demo_http_manifest = demo_manifest\<lparr> pm_integration_type := IntegrationHttp,
     pm_capabilities := (pm_capabilities demo_manifest)\<lparr> pc_remote_execution := True \<rparr>,
     pm_security := (pm_security demo_manifest)\<lparr> sc_runs_locally := False \<rparr>,
     pm_http := Some \<lparr> ht_endpoint = ''https://e'', ht_auth_scheme = AuthNone, ht_upload_mode = ContextOnly,
       ht_supports_streaming = False, ht_supports_cancel = False, ht_cancel_endpoint = None \<rparr> \<rparr>"

definition demo_env :: app_env where
  "demo_env = \<lparr> env_crypto = demo_crypto, env_auth = \<lparr> au_bootstrap_token = Some ''boot'' \<rparr>,
     env_scheduler = default_scheduler_config, env_is_file = (\<lambda>_. True), env_providers_dir = ''/r'',
     env_listing = Inr [\<lparr>de_is_dir = True, de_file_name = ''codex'', de_manifest = Inr demo_http_manifest\<rparr>],
     env_fs = demo_fs,
     env_detect = \<lparr> dw_var = (\<lambda>_. None), dw_current_dir = None, dw_which = (\<lambda>_. None), dw_which_in = (\<lambda>_ _ _. None),
       dw_is_file = (\<lambda>_. False), dw_mode = (\<lambda>_. None), dw_spawn = (\<lambda>_. Inl ''no''), dw_regex = (\<lambda>_. None) \<rparr>,
     env_detection_config = \<lparr> rd_timeout_millis = 1, rd_environment = SystemEnvironment \<rparr>,
     env_version = ''0.1.0'', env_patch_directory = (\<lambda>_. None), env_patch_agent = (\<lambda>_. None) \<rparr>"

definition demo_boot :: request_parts where
  "demo_boot = \<lparr> rq_authorization = Some (Some ''Bearer boot'') \<rparr>"

definition demo_call :: request_parts where
  "demo_call = \<lparr> rq_authorization = Some (Some (''Bearer '' @ generate_token demo_crypto demo_bytes)) \<rparr>"

definition demo_context :: product_auth_context where
  "demo_context = \<lparr> px_token_id = ''ptok_1'', px_product_id = ''prod'', px_scopes = [TasksCreate, TasksRead] \<rparr>"

definition demo_tokens :: product_db where
  "demo_tokens = demo_products0\<lparr> pd_tokens := [demo_token_row] \<rparr>"

definition demo_foreign :: create_task where
  "demo_foreign = demo_input\<lparr> ct_owner_product_id := ''other'' \<rparr>"

definition demo_app :: app_state where
  "demo_app = (let s = app_start\<lparr> app_products := demo_tokens \<rparr> in s\<lparr> app_stores := (app_stores s)\<lparr> st_tasks :=
     snd (create demo_foreign ''t2'' (app_tasks s)) \<rparr> \<rparr>)"

lemma demo_env_fields [simp]:
  "env_crypto demo_env = demo_crypto" "au_bootstrap_token (env_auth demo_env) = Some ''boot''"
  by (simp_all add: demo_env_def)

lemma demo_boot_authenticates:
  "authenticate_request demo_crypto (env_auth demo_env) demo_boot now ps = (Inr BootstrapContext, ps)"
  unfolding authenticate_request_bootstrap by (simp add: bearer_token_Inr demo_boot_def)

lemma demo_call_authenticates:
  "authenticate_request demo_crypto (env_auth demo_env) demo_call now demo_tokens =
    (Inr (ProductContext demo_context), touched ''ptok_1'' now demo_tokens)"
proof -
  let ?t = "generate_token demo_crypto demo_bytes"
  have "btree_list [TasksCreate, TasksRead] = [TasksCreate, TasksRead]"
    by (simp add: btree_list_def less_eq_api_scope_def)
  then have row: "authenticated demo_token_row =
      \<lparr>apt_token_id = ''ptok_1'', apt_product_id = ''prod'', apt_scopes = [TasksCreate, TasksRead]\<rparr>"
    "tk_id demo_token_row = ''ptok_1''"
    by (simp_all add: authenticated_def demo_token_row_def new_token_row_def)
  have "authenticate_product_token demo_crypto ?t now demo_tokens =
      (Inr (Some (authenticated demo_token_row)), touched ''ptok_1'' now demo_tokens)"
    unfolding demo_tokens_def
    using authenticate_Some [OF demo_hex_ok products_reachable_inv [OF demo_tokens_reachable demo_hex_ok]]
      demo_token_prefix demo_valid_row row(2) by metis
  moreover have "bearer_token demo_call = Inr ?t"
    by (simp add: bearer_token_Inr demo_call_def generate_token_def PRODUCT_TOKEN_PREFIX_def)
  moreover have "\<not> is_bootstrap_token (env_auth demo_env) ?t"
    by (simp add: is_bootstrap_token_def is_some_and_def generate_token_def PRODUCT_TOKEN_PREFIX_def)
  ultimately show ?thesis
    unfolding authenticate_request_product
    by (intro exI [of _ ?t] exI [of _ "authenticated demo_token_row"]) (simp add: row(1) demo_context_def)
qed

lemma serve_products_eq:
  "snd (serve_api demo_env demo_boot (CreateProduct r) now s) =
     s\<lparr>app_products := snd (create_product_row r now (app_products s))\<rparr>"
  "snd (serve_api demo_env demo_boot (CreateToken pid tr bytes) now s) =
     s\<lparr>app_products := snd (create_token demo_crypto bytes pid tr now (app_products s))\<rparr>"
  using demo_boot_authenticates [of now "app_products s"]
  by (auto simp: serve_api_def as_bootstrap_def on_products_def bootstrap_auth_def reply_def with_products_def product_handler_defs op_simps
      split: prod.split sum.split)

lemma demo_app_reachable: "app_reachable demo_crypto demo_app"
proof -
  have "create_product_row demo_product ''t0'' empty_products = (Inr (new_product demo_product ''t0''), demo_products0)"
    using demo_product_valid
    by (simp add: create_product_row_def op_simps insert_product_def Let_def get_product_def find_product_def
        empty_products_def demo_products0_def)
  then have "snd (serve_api demo_env demo_boot (CreateProduct demo_product) ''t0'' app_start) =
      app_start\<lparr>app_products := demo_products0\<rparr>"
    by (simp add: serve_products_eq) (simp add: app_start_def)
  moreover have step: "app_step demo_crypto s (snd (serve_api demo_env demo_boot request now s))" for request now s
    by (rule app_request) simp
  ultimately have "app_reachable demo_crypto (app_start\<lparr>app_products := demo_products0\<rparr>)"
    using app_next [OF app_begin step] by metis
  from app_next [OF this step, of "CreateToken ''prod'' demo_token_input demo_bytes" "''t1''"]
  have "app_reachable demo_crypto (app_start\<lparr>app_products := demo_tokens\<rparr>)"
    by (simp add: serve_products_eq demo_token_created demo_tokens_def)
  then show ?thesis
    unfolding demo_app_def Let_def by (rule app_next [OF _ app_background [OF step_create]])
qed

lemma demo_app_products [simp]: "app_products demo_app = demo_tokens"
  by (simp add: demo_app_def Let_def)

section \<open>Properties\<close>



text \<open>
  C2. The access table: a request whose credential is not the one \<open>required_access\<close> lists for its
  route (the bootstrap token, or a product token with all the scopes) fails, and changes nothing but
  the time of last use of a token; a request with no valid credential gets the response of the
  authentication error on every route but the health check.
\<close>

theorem request_authorized:
  assumes "app_reachable (env_crypto env) s"
    and "authenticate_request (env_crypto env) (env_auth env) parts now (app_products s) = (a, p)"
    and "\<not> admits (required_access env request) a"
  shows "(\<exists>f. serve_api env parts request now s = (Inl f, s\<lparr>app_products := p\<rparr>)) \<and>
    (\<forall>e. a = Inl e \<longrightarrow> fst (serve_api env parts request now s) = Inl (auth_failure e))"
proof -
  have health: "request \<noteq> GetHealth" using assms(3) by (auto simp: required_access_def)
  note contract = serve_contract [OF app_reachable_sound [OF assms(1)] assms(2) health, unfolded contract_def]
  obtain r s' where r: "serve_api env parts request now s = (r, s')" by force
  have "\<exists>f. r = Inl f \<and> s' = s\<lparr>app_products := p\<rparr>"
    using contract r assms(3) by (cases r) (auto simp: wp_def)
  moreover have "r = Inl (auth_failure e)" if "a = Inl e" for e
  proof -
    have "wp (serve_api env parts request now) (\<lambda>f _. f = auth_failure e) (\<lambda>_ _. False) s"
      using health that assms(2) by (cases request) (simp_all add: serve_api_def wp_extractors [OF assms(2)])
    then show ?thesis using r by (cases r) (simp_all add: wp_def)
  qed
  ultimately show ?thesis using r by auto
qed

theorem request_authorized_witness:
  "\<exists>f. serve_api demo_env demo_call (CancelTask ''task_1'') ''t3'' demo_app =
     (Inl f, demo_app\<lparr>app_products := touched ''ptok_1'' ''t3'' demo_tokens\<rparr>)"
  using request_authorized [of demo_env demo_app demo_call "''t3''" "Inr (ProductContext demo_context)"
      "touched ''ptok_1'' ''t3'' demo_tokens" "CancelTask ''task_1''"]
  by (simp add: demo_app_reachable demo_call_authenticates required_access_def demo_context_def)

text \<open>
  C1. Products are kept apart: a request made with a product's token leaves every task of every other
  product with its events, permission requests and locks, and every agent profile and directory grant
  of every other product, exactly as they are, creates none for them, and writes no product or token
  but the time of last use; and whatever rows the reply holds belong to the product.
\<close>

theorem tenant_isolation:
  assumes "app_reachable (env_crypto env) s"
    and "authenticate_request (env_crypto env) (env_auth env) parts now (app_products s) = (Inr (ProductContext x), p)"
    and "request \<noteq> GetHealth"
    and "serve_api env parts request now s = (r, s')"
  shows "confined (px_product_id x) (s\<lparr>app_products := p\<rparr>) s' \<and>
    (\<forall>status body. r = Inr (status, body) \<longrightarrow> body_owned (px_product_id x) (app_tasks s') body)"
  using serve_contract [OF app_reachable_sound [OF assms(1)] assms(2,3)] assms(4)
  by (cases r) (auto simp: contract_def wp_def)

lemma demo_app_tasks:
  "find_task ''task_1'' (app_tasks demo_app) = Some (new_task demo_foreign ''task_1'' ''t2'')"
  "db_tasks (app_tasks demo_app) = [new_task demo_foreign ''task_1'' ''t2'']"
proof -
  let ?db = "empty_task_db (Some default_bus)"
  have "create_task_validate demo_foreign = Inr ()"
    by (simp add: create_task_validate_def demo_foreign_def demo_input_def string_eval required_capabilities_def
        MAX_TASK_TIMEOUT_SECONDS_def model_defs)
  moreover have "tasks_wf ?db" "events_wf ?db" using task_db_inv_empty by (simp_all add: task_db_inv_def)
  ultimately have "create demo_foreign ''t2'' ?db = (Inr (new_task demo_foreign ''task_1'' ''t2''),
      log_event ''task_1'' EvQueued empty_object ''t2'' (?db\<lparr>db_tasks := db_tasks ?db @ [new_task demo_foreign ''task_1'' ''t2'']\<rparr>))"
    by (intro create_effect) (simp_all add: empty_task_db_def task_row_id_def string_eval)
  then show "find_task ''task_1'' (app_tasks demo_app) = Some (new_task demo_foreign ''task_1'' ''t2'')"
    "db_tasks (app_tasks demo_app) = [new_task demo_foreign ''task_1'' ''t2'']"
    by (simp_all add: demo_app_def app_start_def Let_def find_task_def empty_task_db_def)
qed

text \<open>The task is there, of another product; the product lists no task and the foreign one stays.\<close>

theorem tenant_isolation_witness:
  "\<exists>ts s'. serve_api demo_env demo_call (ListTasks \<lparr>tq_owner_product_id = None, tq_agent_id = None,
        tq_directory_id = None, tq_status = None\<rparr>) ''t3'' demo_app = (Inr (200, TasksBody ts), s') \<and> ts = [] \<and>
     find_task ''task_1'' (app_tasks demo_app) \<noteq> None \<and>
     task_view ''task_1'' (app_tasks s') = task_view ''task_1'' (app_tasks demo_app)"
proof -
  let ?q = "\<lparr>tq_owner_product_id = None, tq_agent_id = None, tq_directory_id = None, tq_status = None\<rparr>"
  let ?p = "touched ''ptok_1'' ''t3'' demo_tokens"
  obtain r s' where r: "serve_api demo_env demo_call (ListTasks ?q) ''t3'' demo_app = (r, s')" by force
  have auth: "authenticate_request (env_crypto demo_env) (env_auth demo_env) demo_call ''t3'' (app_products demo_app) =
      (Inr (ProductContext demo_context), ?p)" by (simp add: demo_call_authenticates)
  have "wp (serve_api demo_env demo_call (ListTasks ?q) ''t3'') (\<lambda>_ _. False) (\<lambda>r _. r = (200, TasksBody [])) demo_app"
    by (simp add: serve_api_def wp_extractors [OF auth] tasks_list_def list_tasks_def wp_simps guard_defs demo_app_tasks)
      (simp add: demo_context_def new_task_def demo_foreign_def)
  then have "r = Inr (200, TasksBody [])" using r by (cases r) (simp_all add: wp_def)
  moreover have "owner_of ''task_1'' (app_tasks demo_app) = Some ''other''"
    by (simp add: owner_of_def demo_app_tasks new_task_def demo_foreign_def)
  then have "task_view ''task_1'' (app_tasks s') = task_view ''task_1'' (app_tasks demo_app)"
    using tenant_isolation [OF _ auth _ r] demo_app_reachable
    by (auto simp: confined_def tasks_confined_def demo_context_def dest!: spec [of _ "''task_1''"])
  ultimately show ?thesis using r demo_app_tasks by auto
qed

text \<open>
  C23. A failed request changes nothing: whatever the route and whatever the error, the tasks with their
  events, permission requests and locks, the agents, the grants and the runtimes are as they were
  before, and so are products and tokens but for the time of last use that authentication wrote.
\<close>

theorem failed_request_changes_nothing:
  assumes "app_reachable (env_crypto env) s" and "serve_api env parts request now s = (Inl f, s')"
  shows "s' = s\<lparr>app_products := snd (authenticate_request (env_crypto env) (env_auth env) parts now (app_products s))\<rparr>"
proof -
  obtain a p where auth: "authenticate_request (env_crypto env) (env_auth env) parts now (app_products s) = (a, p)" by force
  have "request \<noteq> GetHealth" using assms(2) by (auto simp: serve_api_def ok_def)
  from serve_contract [OF app_reachable_sound [OF assms(1)] auth this] assms(2) auth
  show ?thesis by (simp add: contract_def wp_def)
qed

theorem failed_request_changes_nothing_witness:
  "\<exists>f s'. serve_api demo_env demo_call (GetTask ''task_1'') ''t3'' demo_app = (Inl f, s') \<and>
     app_stores s' = app_stores demo_app"
proof -
  let ?p = "touched ''ptok_1'' ''t3'' demo_tokens"
  have auth: "authenticate_request (env_crypto demo_env) (env_auth demo_env) demo_call ''t3'' (app_products demo_app) =
      (Inr (ProductContext demo_context), ?p)" by (simp add: demo_call_authenticates)
  obtain r s' where r: "serve_api demo_env demo_call (GetTask ''task_1'') ''t3'' demo_app = (r, s')" by force
  have "wp (serve_api demo_env demo_call (GetTask ''task_1'') ''t3'') (\<lambda>_ _. True) (\<lambda>_ _. False) demo_app"
    by (simp add: serve_api_def wp_extractors [OF auth] tasks_get_def wp_simps guard_defs demo_app_tasks)
      (simp add: demo_context_def new_task_def demo_foreign_def)
  then obtain f where "r = Inl f" using r by (cases r) (simp_all add: wp_def)
  then show ?thesis
    using r failed_request_changes_nothing [of demo_env demo_app demo_call "GetTask ''task_1''" "''t3''" f s'] demo_app_reachable
    by simp
qed

definition status_of_codes :: "(nat \<times> string list) list" where
  "status_of_codes =
     [(401, [''missing_authentication'', ''invalid_token'', ''bootstrap_token_required'', ''product_token_required'',
             ''product_disabled'']),
      (404, [''task_not_found'', ''agent_not_found'', ''directory_not_found'', ''provider_not_found'', ''product_not_found'',
             ''permission_request_not_found'']),
      (409, [''directory_lock_conflict'', ''task_already_terminal'', ''permission_response_not_supported'',
             ''permission_request_not_pending'', ''permission_request_already_resolved'']),
      (500, [''store_error'', ''registry_error''])]"

fun failure_classified :: "api_failure \<Rightarrow> bool" where
  "failure_classified (Panicked m) = True"
| "failure_classified (Failure status code m) = (status \<in> {400, 401, 403, 404, 409, 500} \<and>
     (\<forall>(st, codes) \<in> set status_of_codes. (status = st \<longrightarrow> code \<in> set codes) \<and>
        (code \<in> set codes \<and> code \<noteq> ''provider_not_found'' \<longrightarrow> status = st)))"

lemma classified_auth: "failure_classified (auth_failure e)"
  by (cases e) (simp_all add: auth_failure_def status_of_codes_def)

lemma classified_task: "failure_classified (task_error_response e)"
  by (cases e) (simp_all add: status_of_codes_def)

lemma classified_events: "failure_classified (task_event_error_response e)"
  by (cases e rule: task_event_error_response.cases) (simp_all add: status_of_codes_def classified_task)

lemma classified_profile:
  "failure_classified (Failure (status_for_profile_error e) (profile_error_code e) (profile_error_message e))"
  by (cases e) (simp_all add: status_of_codes_def status_for_profile_error_def)

lemma classified_tasks: "failure_classified (tasks_into_response e)"
  by (cases e) (simp_all add: classified_auth classified_task classified_events status_of_codes_def)

lemma classified_agents: "failure_classified (agents_into_response e)"
proof (cases e)
  case (AgProfile g)
  then show ?thesis using classified_profile by (simp only: agents_into_response.simps)
qed (simp_all add: classified_auth status_of_codes_def)

lemma classified_directories: "failure_classified (directories_into_response e)"
proof (cases e rule: directories_into_response.cases)
  case (4 g)
  then show ?thesis by (cases g) (simp_all add: status_of_codes_def)
next
  case (5 g)
  then show ?thesis by (cases g) (simp_all add: status_of_codes_def)
next
  case (8 g)
  then show ?thesis using classified_profile by (simp only: directories_into_response.simps)
qed (simp_all add: classified_auth status_of_codes_def)

lemma classified_products: "failure_classified (products_into_response e)"
proof (cases e rule: products_into_response.cases)
  case (1 g)
  then show ?thesis by (cases g) (simp_all add: status_of_codes_def status_for_product_error_def)
qed (simp_all add: status_of_codes_def)

lemma classified_permissions: "failure_classified (permissions_into_response e)"
  by (cases e) (simp_all add: classified_auth status_of_codes_def)

lemma classified_providers: "failure_classified (providers_into_response e)"
  by (cases e) (simp_all add: classified_auth status_of_codes_def)

lemma classified_runtimes: "failure_classified (runtimes_into_response e)"
  by (cases e) (simp_all add: classified_auth status_of_codes_def)

lemma classified_status: "failure_classified (status_into_response e)"
  by (cases e) (simp_all add: classified_auth status_of_codes_def)

lemmas classified = classified_auth classified_tasks classified_agents classified_directories classified_products
  classified_permissions classified_providers classified_runtimes classified_status

lemma wp_always: "(\<And>e s. F e s) \<Longrightarrow> (\<And>v s. Q v s) \<Longrightarrow> wp m F Q s"
  by (auto simp: wp_def split: prod.split sum.split)

lemma classified_serve:
  "wp (serve_api env parts request now) (\<lambda>f _. failure_classified f) (\<lambda>r _. fst r \<in> {200, 201, 204}) s"
proof -
  obtain a p where auth: "authenticate_request (env_crypto env) (env_auth env) parts now (app_products s) = (a, p)" by force
  show ?thesis
    by (cases request; cases a; cases "projr a")
      (simp_all add: serve_api_def wp_extractors [OF auth] wp_simps classified wp_always)
qed



lemma demo_requests_remote: "requests_remote_execution demo_env (demo_input\<lparr>ct_provider_id := Some ''codex''\<rparr>) = Inr True"
proof -
  let ?d = "\<lparr>de_is_dir = True, de_file_name = ''codex'', de_manifest = Inr demo_http_manifest\<rparr>"
  have ok: "manifest_ok demo_http_manifest"
    by (simp add: manifest_ok_def demo_http_manifest_def demo_manifest_def blank_def string_eval is_absolute_command_def
        is_absolute_def names_ok_def acp_ok_def http_ok_def)
  have "pm_id demo_http_manifest = ''codex''" by (simp add: demo_http_manifest_def demo_manifest_def)
  with ok have "load_errors (\<lambda>_. True) ''/r'' [?d] = []"
    by (simp add: load_errors_def validate_manifest_entry_def Let_def require_file_def validate_manifest_Nil)
  moreover have "loaded ''/r'' [?d] = [entry_of ''/r'' ?d demo_http_manifest]" by (simp add: loaded_def)
  ultimately have "load_registry demo_env = Inr \<lparr>rg_providers = [entry_of ''/r'' ?d demo_http_manifest]\<rparr>"
    by (simp add: load_registry_def load_registry_Inr demo_env_def)
  then show ?thesis
    by (simp add: requests_remote_execution_def r_then_def registry_get_def entry_of_def demo_http_manifest_def
        demo_manifest_def is_some_and_def r_map_err_def)
qed


text \<open>
  The gate looks at the provider the request names only: a request that names none is admitted with
  the provider of the agent profile, remote or not, on the strength of \<open>tasks:create\<close> alone.
\<close>

lemma remote_execution_unchecked:
  assumes "task_db_inv (app_tasks s)" and "ct_provider_id r = None" and "TasksCreate \<in> set (px_scopes x)"
    and "px_product_id x = ct_owner_product_id r" and "admissible r mode g a (app_stores s)"
  shows "\<exists>t s'. tasks_create env x r now s = (Inr t, s') \<and> task_provider_id t = ap_provider_id a"
proof -
  note eff = enqueue_effect [OF assms(1,5) refl refl, of now]
  have "task_provider_id (new_task (admitted_input r mode a) tid now) = ap_provider_id a" for tid
    by (simp add: new_task_def admitted_input_def unwrap_or_def)
  with eff have "wp (enqueue_task r now) (\<lambda>_ _. False) (\<lambda>t _. task_provider_id t = ap_provider_id a) (app_stores s)"
    by (simp add: wp_def)
  then have "wp (tasks_create env x r now) (\<lambda>_ _. False) (\<lambda>t _. task_provider_id t = ap_provider_id a) s"
    using assms(2-4) by (simp add: tasks_create_def wp_simps guard_defs requests_remote_execution_def)
  then show ?thesis by (auto simp: wp_def split: prod.splits sum.splits)
qed

end
