(* ===== verification/Task_Ledger.thy ===== *)
theory Task_Ledger
  imports Task_Properties
begin

text \<open>
  What the task store promises, without tables, rows, sequence numbers or a bus: a ledger of tasks,
  each with a status and the kinds of events logged for it, and the set of locks held. The store refines
  it: every call is one step of the ledger or none.
\<close>

section \<open>Refinement as a simulation\<close>

locale simulation =
  fixes start :: 'c and step :: "'c \<Rightarrow> 'c \<Rightarrow> bool" and inv :: "'c \<Rightarrow> bool"
    and abs :: "'c \<Rightarrow> 'a" and astart :: 'a and astep :: "'a \<Rightarrow> 'a \<Rightarrow> bool"
  assumes abs_start: "abs start = astart"
    and inv_start: "inv start"
    and inv_step: "inv x \<Longrightarrow> step x y \<Longrightarrow> inv y"
    and simulates: "inv x \<Longrightarrow> step x y \<Longrightarrow> astep\<^sup>=\<^sup>= (abs x) (abs y)"
begin

lemma simulated_run: "step\<^sup>*\<^sup>* start x \<Longrightarrow> inv x \<and> astep\<^sup>*\<^sup>* astart (abs x)"
proof (induction rule: rtranclp_induct)
  case base
  then show ?case by (simp add: abs_start inv_start)
next
  case (step y z)
  then show ?case using simulates inv_step by (metis rtranclp.rtrancl_into_rtrancl rtranclp_reflclp reflclp_tranclp sup2CI sup2E)
qed

lemma abstract_invariant:
  assumes "step\<^sup>*\<^sup>* start x" and "P astart" and "\<And>a b. P a \<Longrightarrow> astep a b \<Longrightarrow> P b"
  shows "P (abs x)"
proof -
  have "P b" if "astep\<^sup>*\<^sup>* astart b" for b using that assms(2,3) by (induction rule: rtranclp_induct) auto
  then show ?thesis using simulated_run [OF assms(1)] by blast
qed

end

section \<open>The ledger\<close>

record life =
  lf_status :: task_status
  lf_log :: "task_event_type list"

record ledger =
  lg_tasks :: "string \<rightharpoonup> life"
  lg_locks :: "(string \<times> string \<times> lock_mode) set"

definition empty_ledger :: ledger where
  "empty_ledger = \<lparr> lg_tasks = Map.empty, lg_locks = {} \<rparr>"

definition unlocked :: "string \<Rightarrow> (string \<times> string \<times> lock_mode) set \<Rightarrow> (string \<times> string \<times> lock_mode) set" where
  "unlocked tid ls = {(d, t, m) \<in> ls. t \<noteq> tid}"

inductive ledger_step :: "ledger \<Rightarrow> ledger \<Rightarrow> bool" where
  ledger_open: "lg_tasks L tid = None \<Longrightarrow>
    ledger_step L (L\<lparr> lg_tasks := (lg_tasks L)(tid \<mapsto> \<lparr> lf_status = Queued, lf_log = [EvQueued] \<rparr>) \<rparr>)"
| ledger_move: "lg_tasks L tid = Some x \<Longrightarrow> allowed_transition (lf_status x) next \<Longrightarrow>
    ledger_step L (L\<lparr> lg_tasks := (lg_tasks L)(tid \<mapsto>
        \<lparr> lf_status = next, lf_log = lf_log x @ [event_type_for_status next] \<rparr>),
      lg_locks := (if is_terminal next then unlocked tid (lg_locks L) else lg_locks L) \<rparr>)"
| ledger_note: "lg_tasks L tid = Some x \<Longrightarrow> status_of_event ty = None \<Longrightarrow>
    ledger_step L (L\<lparr> lg_tasks := (lg_tasks L)(tid \<mapsto> x\<lparr> lf_log := lf_log x @ [ty] \<rparr>) \<rparr>)"
| ledger_lock: "lg_tasks L tid = Some x \<Longrightarrow> \<not> is_terminal (lf_status x) \<Longrightarrow>
    (\<And>t m'. (d, t, m') \<in> lg_locks L \<Longrightarrow> m \<noteq> LockExclusive \<and> m' \<noteq> LockExclusive) \<Longrightarrow>
    ledger_step L (L\<lparr> lg_locks := insert (d, tid, m) {(d', t, m') \<in> lg_locks L. \<not> (d' = d \<and> t = tid)} \<rparr>)"
| ledger_unlock: "ledger_step L (L\<lparr> lg_locks := unlocked tid (lg_locks L) \<rparr>)"

text \<open>The abstraction.\<close>

definition ledger_of :: "task_db \<Rightarrow> ledger" where
  "ledger_of db =
     \<lparr> lg_tasks = (\<lambda>tid. map_option (\<lambda>t. \<lparr> lf_status = task_status t, lf_log = map ev_event_type (events_of tid db) \<rparr>)
         (find_task tid db)),
       lg_locks = {(lk_directory_id l, lk_task_id l, lk_mode l) | l. l \<in> set (db_locks db) \<and> held l} \<rparr>"

lemma ledger_frame [simp]:
  "ledger_of (db\<lparr>db_bus := b\<rparr>) = ledger_of db" "ledger_of (db\<lparr>db_requests := qs\<rparr>) = ledger_of db"
  by (simp_all add: ledger_of_def)

lemma ledger_update:
  assumes "\<And>t. task_id (f t) = task_id t" and "\<And>t. task_status (f t) = task_status t"
  shows "ledger_of (update_task tid f db) = ledger_of db"
  by (rule ledger.equality) (auto simp: ledger_of_def find_update_task [OF assms(1)] option.map_comp comp_def assms(2) fun_eq_iff)

lemma ledger_log:
  assumes "find_task tid db = Some t"
  shows "ledger_of (log_event tid ty p now db) = (ledger_of db)\<lparr> lg_tasks := (lg_tasks (ledger_of db))(tid \<mapsto>
    \<lparr> lf_status = task_status t, lf_log = map ev_event_type (events_of tid db) @ [ty] \<rparr>) \<rparr>"
  using assms by (auto simp: ledger_of_def log_event_events fun_eq_iff)

lemma ledger_release: "ledger_of (db\<lparr>db_locks := release_held tid now (db_locks db)\<rparr>) =
    (ledger_of db)\<lparr> lg_locks := unlocked tid (lg_locks (ledger_of db)) \<rparr>"
proof -
  have "{(lk_directory_id l, lk_task_id l, lk_mode l) | l. l \<in> set (release_held tid now ls) \<and> held l} =
      unlocked tid {(lk_directory_id l, lk_task_id l, lk_mode l) | l. l \<in> set ls \<and> held l}" for ls
    unfolding release_held_iff unlocked_def by auto
  then show ?thesis by (simp add: ledger_of_def)
qed

lemma ledger_note_step:
  assumes "find_task tid db = Some t" and "status_of_event ty = None"
  shows "ledger_step (ledger_of db) (ledger_of (log_event tid ty p now db))"
proof -
  have "lg_tasks (ledger_of db) tid = Some \<lparr> lf_status = task_status t, lf_log = map ev_event_type (events_of tid db) \<rparr>"
    using assms by (simp add: ledger_of_def)
  from ledger_note [OF this assms(2)] show ?thesis by (simp add: ledger_log [OF assms(1)])
qed

section \<open>Every call of the store is a step of the ledger, or none\<close>

lemma ledger_create:
  assumes "tasks_wf db" and "events_wf db"
  shows "ledger_step\<^sup>=\<^sup>= (ledger_of db) (ledger_of (snd (create input now db)))"
proof (cases "create_task_validate input")
  case (Inl e)
  then show ?thesis by (simp add: create_Inl)
next
  case (Inr u)
  let ?tid = "task_row_id (Suc (length (db_tasks db)))"
  let ?t = "new_task input ?tid now"
  let ?db = "db\<lparr>db_tasks := db_tasks db @ [?t]\<rparr>"
  have fresh: "find_task ?tid db = None" by (rule fresh_task_id [OF assms(1)])
  have found: "find_task j ?db = (if j = ?tid then Some ?t else find_task j db)" for j
    using task_table.lookup_insert [of ?db db ?t j] fresh by (simp add: task_table.lookup_None)
  have "events_of ?tid db = []"
    using assms(2) fresh by (auto simp: events_wf_def events_of_def filter_empty_conv)
  then have "ledger_of (log_event ?tid EvQueued empty_object now ?db) = (ledger_of db)\<lparr> lg_tasks :=
      (lg_tasks (ledger_of db))(?tid \<mapsto> \<lparr> lf_status = Queued, lf_log = [EvQueued] \<rparr>) \<rparr>"
    using new_task_fields by (auto simp: ledger_of_def log_event_events found fun_eq_iff)
  moreover have "lg_tasks (ledger_of db) ?tid = None" using fresh by (simp add: ledger_of_def)
  moreover have "create_task_validate input = Inr ()" using Inr by simp
  ultimately show ?thesis using ledger_open create_effect [OF assms _ refl, of input now] by simp
qed

lemma ledger_transition:
  assumes "events_wf db"
  shows "ledger_step\<^sup>=\<^sup>= (ledger_of db) (ledger_of (snd (transition tid next p now db)))"
proof (cases rule: transition_cases [OF assms, of tid "next" p now])
  case (4 t)
  let ?u = "update_task tid (apply_status next now) db"
  let ?l = "log_event tid (event_type_for_status next) (unwrap_or p empty_object) now ?u"
  have "lg_tasks (ledger_of db) tid = Some \<lparr> lf_status = task_status t, lf_log = map ev_event_type (events_of tid db) \<rparr>"
    using 4(1) by (simp add: ledger_of_def)
  note move = ledger_move [OF this, of "next"]
  have "ledger_of ?l = (ledger_of db)\<lparr> lg_tasks := (lg_tasks (ledger_of db))(tid \<mapsto>
      \<lparr> lf_status = next, lf_log = map ev_event_type (events_of tid db) @ [event_type_for_status next] \<rparr>) \<rparr>"
    using 4(1) by (auto simp: ledger_of_def log_event_events find_update_task fun_eq_iff)
  moreover have "ledger_of (?l\<lparr>db_locks := release_held tid now (db_locks db)\<rparr>) =
      (ledger_of ?l)\<lparr> lg_locks := unlocked tid (lg_locks (ledger_of ?l)) \<rparr>"
    using ledger_release [where db = ?l and tid = tid and now = now] by simp
  ultimately have "ledger_of (transition_db tid next p now db) = (ledger_of db)\<lparr> lg_tasks := (lg_tasks (ledger_of db))(tid \<mapsto>
      \<lparr> lf_status = next, lf_log = map ev_event_type (events_of tid db) @ [event_type_for_status next] \<rparr>),
      lg_locks := (if is_terminal next then unlocked tid (lg_locks (ledger_of db)) else lg_locks (ledger_of db)) \<rparr>"
    by (simp add: transition_db_def Let_def)
  with move 4 show ?thesis by simp
qed simp_all

lemma ledger_acquire:
  assumes "find_task (lr_task_id r) db = Some t" and "\<not> is_terminal (task_status t)"
  shows "ledger_step\<^sup>=\<^sup>= (ledger_of db) (ledger_of (snd (acquire_lock r now db)))"
proof (cases "lock_conflict r db")
  case True
  then show ?thesis by (simp add: acquire_lock_eq)
next
  case False
  let ?L = "ledger_of db" and ?d = "lr_directory_id r" and ?t = "lr_task_id r" and ?m = "lr_mode r"
  have "lg_tasks ?L ?t = Some \<lparr> lf_status = task_status t, lf_log = map ev_event_type (events_of ?t db) \<rparr>"
    using assms(1) by (simp add: ledger_of_def)
  moreover have "?m \<noteq> LockExclusive \<and> m' \<noteq> LockExclusive" if "(?d, j, m') \<in> lg_locks ?L" for j m'
    using False that by (auto simp: ledger_of_def lock_conflict_def active_locks_def list_ex_iff held_def)
  ultimately have "ledger_step ?L (?L\<lparr> lg_locks :=
      insert (?d, ?t, ?m) {(d', j, m') \<in> lg_locks ?L. \<not> (d' = ?d \<and> j = ?t)} \<rparr>)"
    using assms(2) by (intro ledger_lock) auto
  moreover have "ledger_of (insert_lock r now db) =
      ?L\<lparr> lg_locks := insert (?d, ?t, ?m) {(d', j, m') \<in> lg_locks ?L. \<not> (d' = ?d \<and> j = ?t)} \<rparr>"
    by (auto simp: ledger_of_def insert_lock_def held_def)
      (metis (mono_tags, lifting) directory_lock.select_convs(1-4))
  ultimately show ?thesis using False by (simp add: acquire_lock_eq)
qed

lemma ledger_record:
  assumes "events_wf db"
  shows "ledger_step\<^sup>=\<^sup>= (ledger_of db) (ledger_of (snd (record_permission_request tid q now db)))"
proof (cases "find_task tid db")
  case None
  then show ?thesis by (simp add: record_missing)
next
  case (Some t)
  then show ?thesis
    using record_duplicate [OF assms Some] record_effect [OF assms Some] ledger_note_step [OF Some]
    by (cases "pq_request_id q \<in> prr_request_id ` set (db_requests db)") (simp_all add: record_db_def)
qed

lemma ledger_resolve:
  assumes "events_wf db" and "requests_wf db"
  shows "ledger_step\<^sup>=\<^sup>= (ledger_of db) (ledger_of (snd (resolve_permission_request tid rid dec reason now db)))"
proof (cases "find_task tid db = None \<or> query_permission_request tid rid db = None")
  case True
  then show ?thesis by (cases "find_task tid db") (auto simp: resolve_missing)
next
  case False
  then obtain t q where t: "find_task tid db = Some t" and q: "query_permission_request tid rid db = Some q" by auto
  show ?thesis
  proof (cases "prr_status q = Pending")
    case True
    then show ?thesis
      using resolve_pending_effect [OF assms(1) t q True refl refl] ledger_note_step [OF t] by (simp add: resolve_db_def)
  next
    case False
    from resolve_again [OF assms t q False] obtain d where
      "\<And>dec reason now. snd (resolve_permission_request tid rid dec reason now db) = db"
      by (metis snd_conv)
    then show ?thesis by simp
  qed
qed

lemma ledger_store_step:
  assumes "store_step db db'" and inv: "task_db_inv db"
  shows "ledger_step\<^sup>=\<^sup>= (ledger_of db) (ledger_of db')"
proof -
  have wf: "tasks_wf db" "events_wf db" "requests_wf db" using inv by (simp_all add: task_db_inv_def)
  from assms(1) show ?thesis
  proof cases
    case (store_append tid ty p now)
    then show ?thesis
      using ledger_note_step append_event_effect [OF wf(2)] append_event_missing
      by (cases "find_task tid db") (simp_all add: output_ok_def)
  next
    case (store_save tid msg files now)
    then show ?thesis
      by (cases "find_task tid db") (simp_all add: save_result_def op_simps get_task_def ledger_update)
  next
    case (store_release tid now)
    then show ?thesis
      using ledger_unlock by (simp add: release_locks_def release_locks_tx_def modify_def ledger_release)
  qed (use wf in \<open>simp_all add: ledger_create [simplified] ledger_transition [simplified] ledger_acquire [simplified]
      ledger_record [simplified] ledger_resolve [simplified] save_execution_result_def modify_def ledger_update\<close>)
qed

interpretation task_refinement: simulation "empty_task_db (Some default_bus)" task_step task_db_inv ledger_of
  empty_ledger ledger_step
proof unfold_locales
  show "ledger_of (empty_task_db (Some default_bus)) = empty_ledger"
    by (simp add: ledger_of_def empty_task_db_def empty_ledger_def find_task_def)
  show "task_db_inv (empty_task_db (Some default_bus))" by (rule task_db_inv_empty)
  show "task_db_inv y" if "task_db_inv x" "task_step x y" for x y using task_step_inv that by blast
  show "ledger_step\<^sup>=\<^sup>= (ledger_of x) (ledger_of y)" if "task_db_inv x" "task_step x y" for x y
    using that(2) by cases (use that(1) in \<open>simp_all add: ledger_store_step [simplified]\<close>)
qed

lemma task_reachable_run: "task_reachable db \<Longrightarrow> task_step\<^sup>*\<^sup>* (empty_task_db (Some default_bus)) db"
  by (induction rule: task_reachable.induct) (auto intro: rtranclp.rtrancl_into_rtrancl)

section \<open>Properties\<close>



end
