(* ===== verification/Stream_Liveness.thy ===== *)
theory Stream_Liveness
  imports Event_Properties
begin

text \<open>
  Progress of an event stream. \<open>stream_round\<close> is the next step the loop of a stream takes of its own
  accord when nothing new is published: read the store after a lag, skip what the channel has dropped,
  or take the next event off the bus. Heartbeats do nothing to what is left to do.
\<close>

definition stream_round :: "task_db \<Rightarrow> task_stream \<Rightarrow> task_stream option" where
  "stream_round db st =
     (case db_bus db of
        None \<Rightarrow> None
      | Some b \<Rightarrow>
          if \<not> sm_open st then None
          else if sm_lagged st then Some (stream_resync db st)
          else if BROADCAST_CAPACITY < length (bus_sent b) - sm_position st then Some (stream_lag b st)
          else if sm_position st < length (bus_sent b) then Some (stream_recv b st)
          else None)"

lemma stream_round_step: "stream_round db st = Some st' \<Longrightarrow> stream_step (db, st) (db, st')"
  by (auto simp: stream_round_def split: option.splits if_splits intro: on_resync on_lag on_recv)

text \<open>What is left on the bus, counted twice, and one more for a lag that has to be made up.\<close>

definition backlog :: "task_db \<Rightarrow> task_stream \<Rightarrow> nat" where
  "backlog db st = (case db_bus db of None \<Rightarrow> 0 | Some b \<Rightarrow>
     2 * (length (bus_sent b) - sm_position st) + (if sm_lagged st then 1 else 0))"

lemma forward_fields [simp]:
  "sm_position (forward e st) = sm_position st" "sm_lagged (forward e st) = sm_lagged st"
  by (simp_all add: forward_def)

lemma forward_all_fields [simp]:
  "sm_position (forward_all es st) = sm_position st" "sm_lagged (forward_all es st) = sm_lagged st"
  by (induction es arbitrary: st) simp_all

lemma stream_resync_fields:
  "sm_position (stream_resync db st) = sm_position st" "\<not> sm_lagged (stream_resync db st)"
  by (simp_all add: stream_resync_def list_events_after_def reads_def)

lemma stream_round_backlog: "stream_round db st = Some st' \<Longrightarrow> backlog db st' < backlog db st"
  by (auto simp: stream_round_def backlog_def stream_resync_fields stream_lag_def stream_recv_def BROADCAST_CAPACITY_def
      split: option.splits if_splits)

definition ended_well :: "task_stream \<Rightarrow> bool" where
  "ended_well st \<longleftrightarrow> sm_open st \<or>
     sent_events st \<noteq> [] \<and> is_terminal_event_type (ev_event_type (last (sent_events st)))"

lemma ended_well_forward: "sm_open st \<Longrightarrow> ended_well (forward e st)"
  by (auto simp: ended_well_def forward_def sent_events_def List.map_filter_def)

lemma ended_well_forward_all: "ended_well st \<Longrightarrow> ended_well (forward_all es st)"
  by (induction es arbitrary: st) (simp_all add: ended_well_forward)

lemma ended_well_round: "stream_round db st = Some st' \<Longrightarrow> ended_well st'"
  by (auto simp: stream_round_def stream_resync_def stream_lag_def stream_recv_def list_events_after_def reads_def
      split: option.splits if_splits intro!: ended_well_forward ended_well_forward_all)
    (simp_all add: ended_well_def)




end
