(* ===== verification/Console_Dto.thy ===== *)
theory Console_Dto
  imports Task_Model "HOL-Library.Monad_Syntax"
begin

text \<open>
  \<open>crates/opendaemon-console-api/src/dto.rs\<close>: the data the console exchanges with the daemon, as records of
  its own, with the \<open>Deserialize\<close> instances serde derives for what it receives and the \<open>Serialize\<close>
  instances for what it sends. The enums \<open>WorkspaceMode\<close>, \<open>TaskStatus\<close> and \<open>PermissionDecision\<close> have the
  variants of the daemon's enums and share their datatypes; how they are read and written is defined
  here. A decoder returns \<open>None\<close> where serde reports an error.
\<close>

section \<open>Fields\<close>

text \<open>
  A field without attributes has to be present, \<open>#[serde(default)]\<close> reads an absent one as the default, and
  \<open>Option\<close> reads an absent or null one as \<open>None\<close> (\<open>opt_field\<close>). Unknown fields are ignored.
\<close>

definition field :: "(json \<Rightarrow> 'a option) \<Rightarrow> json \<Rightarrow> string \<Rightarrow> 'a option" where
  "field dec v k = Option.bind (json_get v k) dec"

definition default_field :: "(json \<Rightarrow> 'a option) \<Rightarrow> 'a \<Rightarrow> json \<Rightarrow> string \<Rightarrow> 'a option" where
  "default_field dec d v k = (case json_get v k of None \<Rightarrow> Some d | Some w \<Rightarrow> dec w)"

fun dec_list :: "(json \<Rightarrow> 'a option) \<Rightarrow> json \<Rightarrow> 'a list option" where
  "dec_list dec (Array vs) = those (map dec vs)"
| "dec_list dec _ = None"

fun dec_u64 :: "json \<Rightarrow> nat option" where
  "dec_u64 (Number (PosInt n)) = Some (unat n)"
| "dec_u64 _ = None"

definition enc_u64 :: "nat \<Rightarrow> json" where
  "enc_u64 n = Number (PosInt (word_of_nat n))"

definition dec_enum :: "(string \<Rightarrow> 'a option) \<Rightarrow> json \<Rightarrow> 'a option" where
  "dec_enum of_str v = Option.bind (as_str v) of_str"

lemma dec_enc_u64 [simp]: "n < 2 ^ 64 \<Longrightarrow> dec_u64 (enc_u64 n) = Some n"
  by (simp add: enc_u64_def unsigned_of_nat take_bit_nat_eq_self)

lemma those_map_Some [simp]: "(\<And>x. x \<in> set xs \<Longrightarrow> f x = Some (g x)) \<Longrightarrow> those (map f xs) = Some (map g xs)"
  by (induction xs) simp_all

lemma those_map_None: "x \<in> set xs \<Longrightarrow> f x = None \<Longrightarrow> those (map f xs) = None"
  by (induction xs) (auto split: option.splits)

section \<open>Enums\<close>

definition dto_workspace_mode :: "json \<Rightarrow> workspace_mode option" where
  "dto_workspace_mode = dec_enum (\<lambda>s.
     if s = ''worktree'' then Some Worktree else if s = ''direct'' then Some Direct else None)"

definition dto_task_status :: "json \<Rightarrow> task_status option" where
  "dto_task_status = dec_enum (\<lambda>s.
     if s = ''queued'' then Some Queued
     else if s = ''waiting_directory_lock'' then Some WaitingDirectoryLock
     else if s = ''preparing'' then Some Preparing
     else if s = ''running'' then Some Running
     else if s = ''completed'' then Some Completed
     else if s = ''failed'' then Some Failed
     else if s = ''cancelled'' then Some Cancelled
     else if s = ''timed_out'' then Some TimedOut
     else None)"

definition dto_permission_decision :: "json \<Rightarrow> permission_decision option" where
  "dto_permission_decision = dec_enum (\<lambda>s.
     if s = ''approve'' then Some Approve else if s = ''deny'' then Some Deny else None)"

fun dto_workspace_mode_json :: "workspace_mode \<Rightarrow> json" where
  "dto_workspace_mode_json Worktree = Str ''worktree''"
| "dto_workspace_mode_json Direct = Str ''direct''"

fun dto_permission_decision_json :: "permission_decision \<Rightarrow> json" where
  "dto_permission_decision_json Approve = Str ''approve''"
| "dto_permission_decision_json Deny = Str ''deny''"

datatype console_capability = RemoteExecution

section \<open>What the console receives\<close>

record console_session =
  csn_credential_type :: string
  csn_product_id :: "string option"
  csn_scopes :: "string list"
  csn_product_status :: "string option"

definition dto_session :: "json \<Rightarrow> console_session option" where
  "dto_session v = do {
     credential_type \<leftarrow> field as_str v ''credential_type'';
     product_id \<leftarrow> opt_field as_str v ''product_id'';
     scopes \<leftarrow> default_field (dec_list as_str) [] v ''scopes'';
     product_status \<leftarrow> opt_field as_str v ''product_status'';
     Some \<lparr> csn_credential_type = credential_type, csn_product_id = product_id, csn_scopes = scopes,
       csn_product_status = product_status \<rparr> }"

record console_control_plane_status =
  ccp_status :: string
  ccp_daemon_id :: "string option"
  ccp_last_heartbeat_at :: "string option"
  ccp_last_error_code :: "string option"

definition dto_control_plane_status :: "json \<Rightarrow> console_control_plane_status option" where
  "dto_control_plane_status v = do {
     status \<leftarrow> field as_str v ''status'';
     daemon_id \<leftarrow> opt_field as_str v ''daemon_id'';
     last_heartbeat_at \<leftarrow> opt_field as_str v ''last_heartbeat_at'';
     last_error_code \<leftarrow> opt_field as_str v ''last_error_code'';
     Some \<lparr> ccp_status = status, ccp_daemon_id = daemon_id, ccp_last_heartbeat_at = last_heartbeat_at,
       ccp_last_error_code = last_error_code \<rparr> }"

record console_scheduler_status =
  csc_queued :: nat
  csc_running :: nat
  csc_max_concurrent_tasks :: nat

definition dto_scheduler_status :: "json \<Rightarrow> console_scheduler_status option" where
  "dto_scheduler_status v = do {
     queued \<leftarrow> field dec_u64 v ''queued'';
     running \<leftarrow> field dec_u64 v ''running'';
     max_concurrent_tasks \<leftarrow> field dec_u64 v ''max_concurrent_tasks'';
     Some \<lparr> csc_queued = queued, csc_running = running, csc_max_concurrent_tasks = max_concurrent_tasks \<rparr> }"

record console_runtime_status_summary =
  crs_available :: nat
  crs_unavailable :: nat
  crs_error :: nat
  crs_not_detected :: nat

definition dto_runtime_status_summary :: "json \<Rightarrow> console_runtime_status_summary option" where
  "dto_runtime_status_summary v = do {
     available \<leftarrow> field dec_u64 v ''available'';
     unavailable \<leftarrow> field dec_u64 v ''unavailable'';
     error \<leftarrow> field dec_u64 v ''error'';
     not_detected \<leftarrow> field dec_u64 v ''not_detected'';
     Some \<lparr> crs_available = available, crs_unavailable = unavailable, crs_error = error,
       crs_not_detected = not_detected \<rparr> }"

record console_daemon_status =
  cds_service :: string
  cds_version :: string
  cds_status :: string
  cds_control_plane :: console_control_plane_status
  cds_scheduler :: console_scheduler_status
  cds_runtimes :: console_runtime_status_summary
  cds_pending_permissions :: nat

definition dto_permission_status :: "json \<Rightarrow> nat option" where
  "dto_permission_status v = field dec_u64 v ''pending''"

definition dto_daemon_status :: "json \<Rightarrow> console_daemon_status option" where
  "dto_daemon_status v = do {
     service \<leftarrow> field as_str v ''service'';
     version \<leftarrow> field as_str v ''version'';
     status \<leftarrow> field as_str v ''status'';
     control_plane \<leftarrow> field dto_control_plane_status v ''control_plane'';
     scheduler \<leftarrow> field dto_scheduler_status v ''scheduler'';
     runtimes \<leftarrow> field dto_runtime_status_summary v ''runtimes'';
     permissions \<leftarrow> field dto_permission_status v ''permissions'';
     Some \<lparr> cds_service = service, cds_version = version, cds_status = status,
       cds_control_plane = control_plane, cds_scheduler = scheduler, cds_runtimes = runtimes,
       cds_pending_permissions = permissions \<rparr> }"

record console_product =
  cpr_id :: string
  cpr_display_name :: string
  cpr_status :: string
  cpr_description :: "string option"
  cpr_created_at :: string
  cpr_updated_at :: string

definition dto_product :: "json \<Rightarrow> console_product option" where
  "dto_product v = do {
     i \<leftarrow> field as_str v ''id'';
     display_name \<leftarrow> field as_str v ''display_name'';
     status \<leftarrow> field as_str v ''status'';
     description \<leftarrow> opt_field as_str v ''description'';
     created_at \<leftarrow> field as_str v ''created_at'';
     updated_at \<leftarrow> field as_str v ''updated_at'';
     Some \<lparr> cpr_id = i, cpr_display_name = display_name, cpr_status = status, cpr_description = description,
       cpr_created_at = created_at, cpr_updated_at = updated_at \<rparr> }"

record console_product_token =
  cpk_id :: string
  cpk_product_id :: string
  cpk_label :: string
  cpk_scopes :: "string list"
  cpk_token_prefix :: string
  cpk_status :: string
  cpk_created_at :: string
  cpk_last_used_at :: "string option"
  cpk_revoked_at :: "string option"

definition dto_product_token :: "json \<Rightarrow> console_product_token option" where
  "dto_product_token v = do {
     i \<leftarrow> field as_str v ''id'';
     product_id \<leftarrow> field as_str v ''product_id'';
     label \<leftarrow> field as_str v ''label'';
     scopes \<leftarrow> default_field (dec_list as_str) [] v ''scopes'';
     token_prefix \<leftarrow> field as_str v ''token_prefix'';
     status \<leftarrow> field as_str v ''status'';
     created_at \<leftarrow> field as_str v ''created_at'';
     last_used_at \<leftarrow> opt_field as_str v ''last_used_at'';
     revoked_at \<leftarrow> opt_field as_str v ''revoked_at'';
     Some \<lparr> cpk_id = i, cpk_product_id = product_id, cpk_label = label, cpk_scopes = scopes,
       cpk_token_prefix = token_prefix, cpk_status = status, cpk_created_at = created_at,
       cpk_last_used_at = last_used_at, cpk_revoked_at = revoked_at \<rparr> }"

record console_created_token =
  cct_id :: string
  cct_product_id :: string
  cct_label :: string
  cct_scopes :: "string list"
  cct_token_prefix :: string
  cct_token :: string
  cct_created_at :: string

definition dto_created_token :: "json \<Rightarrow> console_created_token option" where
  "dto_created_token v = do {
     i \<leftarrow> field as_str v ''id'';
     product_id \<leftarrow> field as_str v ''product_id'';
     label \<leftarrow> field as_str v ''label'';
     scopes \<leftarrow> default_field (dec_list as_str) [] v ''scopes'';
     token_prefix \<leftarrow> field as_str v ''token_prefix'';
     token \<leftarrow> field as_str v ''token'';
     created_at \<leftarrow> field as_str v ''created_at'';
     Some \<lparr> cct_id = i, cct_product_id = product_id, cct_label = label, cct_scopes = scopes,
       cct_token_prefix = token_prefix, cct_token = token, cct_created_at = created_at \<rparr> }"

record console_provider =
  cpv_id :: string
  cpv_display_name :: string
  cpv_status :: string
  cpv_integration_type :: string
  cpv_description :: string
  cpv_manifest :: json

definition dto_provider :: "json \<Rightarrow> console_provider option" where
  "dto_provider v = do {
     i \<leftarrow> field as_str v ''id'';
     display_name \<leftarrow> field as_str v ''display_name'';
     status \<leftarrow> field as_str v ''status'';
     integration_type \<leftarrow> field as_str v ''integration_type'';
     description \<leftarrow> field as_str v ''description'';
     manifest \<leftarrow> field Some v ''manifest'';
     Some \<lparr> cpv_id = i, cpv_display_name = display_name, cpv_status = status,
       cpv_integration_type = integration_type, cpv_description = description, cpv_manifest = manifest \<rparr> }"

definition console_provider_capabilities :: "console_provider \<Rightarrow> console_capability list" where
  "console_provider_capabilities p =
     (case json_get (cpv_manifest p) ''capabilities'' of
        None \<Rightarrow> []
      | Some capabilities \<Rightarrow>
          if \<not> is_object capabilities then []
          else if unwrap_or (Option.bind (json_get capabilities ''remote_execution'') as_bool) False
          then [RemoteExecution] else [])"

record console_runtime_error =
  cre_code :: string
  cre_message :: string

definition dto_runtime_error :: "json \<Rightarrow> console_runtime_error option" where
  "dto_runtime_error v = do {
     code \<leftarrow> field as_str v ''code'';
     message \<leftarrow> field as_str v ''message'';
     Some \<lparr> cre_code = code, cre_message = message \<rparr> }"

record console_runtime_view =
  crv_id :: string
  crv_provider_id :: string
  crv_kind :: string
  crv_status :: string
  crv_executable :: "string option"
  crv_version :: "string option"
  crv_detected_at :: "string option"
  crv_error :: "console_runtime_error option"

definition dto_runtime_view :: "json \<Rightarrow> console_runtime_view option" where
  "dto_runtime_view v = do {
     i \<leftarrow> field as_str v ''id'';
     provider_id \<leftarrow> field as_str v ''provider_id'';
     kind \<leftarrow> field as_str v ''kind'';
     status \<leftarrow> field as_str v ''status'';
     executable \<leftarrow> opt_field as_str v ''executable'';
     version \<leftarrow> opt_field as_str v ''version'';
     detected_at \<leftarrow> opt_field as_str v ''detected_at'';
     error \<leftarrow> opt_field dto_runtime_error v ''error'';
     Some \<lparr> crv_id = i, crv_provider_id = provider_id, crv_kind = kind, crv_status = status,
       crv_executable = executable, crv_version = version, crv_detected_at = detected_at, crv_error = error \<rparr> }"

record console_execution_policy =
  cep_default_workspace_mode :: workspace_mode
  cep_allow_direct_directory :: bool

definition dto_execution_policy :: "json \<Rightarrow> console_execution_policy option" where
  "dto_execution_policy v = do {
     default_workspace_mode \<leftarrow> field dto_workspace_mode v ''default_workspace_mode'';
     allow_direct_directory \<leftarrow> field as_bool v ''allow_direct_directory'';
     Some \<lparr> cep_default_workspace_mode = default_workspace_mode,
       cep_allow_direct_directory = allow_direct_directory \<rparr> }"

record console_provider_config =
  cpc_permission_mode :: "string option"
  cpc_custom_args :: "string list"
  cpc_custom_env_keys :: "string list"
  cpc_mcp_config :: "json option"

definition dto_provider_config :: "json \<Rightarrow> console_provider_config option" where
  "dto_provider_config v = (if \<not> is_object v then None else do {
     permission_mode \<leftarrow> opt_field as_str v ''permission_mode'';
     custom_args \<leftarrow> default_field (dec_list as_str) [] v ''custom_args'';
     custom_env_keys \<leftarrow> default_field (dec_list as_str) [] v ''custom_env_keys'';
     mcp_config \<leftarrow> opt_field Some v ''mcp_config'';
     Some \<lparr> cpc_permission_mode = permission_mode, cpc_custom_args = custom_args,
       cpc_custom_env_keys = custom_env_keys, cpc_mcp_config = mcp_config \<rparr> })"

record console_agent_profile =
  cag_id :: string
  cag_name :: string
  cag_owner_product_id :: string
  cag_provider_id :: string
  cag_model :: string
  cag_instructions :: "string option"
  cag_execution_policy :: console_execution_policy
  cag_provider_config :: console_provider_config
  cag_created_at :: "string option"
  cag_updated_at :: "string option"

definition dto_agent_profile :: "json \<Rightarrow> console_agent_profile option" where
  "dto_agent_profile v = do {
     i \<leftarrow> field as_str v ''id'';
     name \<leftarrow> field as_str v ''name'';
     owner_product_id \<leftarrow> field as_str v ''owner_product_id'';
     provider_id \<leftarrow> field as_str v ''provider_id'';
     model \<leftarrow> field as_str v ''model'';
     instructions \<leftarrow> opt_field as_str v ''instructions'';
     execution_policy \<leftarrow> field dto_execution_policy v ''execution_policy'';
     provider_config \<leftarrow> field dto_provider_config v ''provider_config'';
     created_at \<leftarrow> opt_field as_str v ''created_at'';
     updated_at \<leftarrow> opt_field as_str v ''updated_at'';
     Some \<lparr> cag_id = i, cag_name = name, cag_owner_product_id = owner_product_id,
       cag_provider_id = provider_id, cag_model = model, cag_instructions = instructions,
       cag_execution_policy = execution_policy, cag_provider_config = provider_config,
       cag_created_at = created_at, cag_updated_at = updated_at \<rparr> }"

record console_directory_grant =
  cdg_id :: string
  cdg_product_id :: string
  cdg_agent_id :: string
  cdg_path :: string
  cdg_capabilities :: "string list"
  cdg_workspace_modes :: "workspace_mode list"
  cdg_default_workspace_mode :: workspace_mode
  cdg_lock_policy :: string
  cdg_direct_mode_requires_explicit_task_opt_in :: bool
  cdg_allow_remote_execution :: bool
  cdg_created_at :: "string option"
  cdg_updated_at :: "string option"

definition dto_directory_grant :: "json \<Rightarrow> console_directory_grant option" where
  "dto_directory_grant v = do {
     i \<leftarrow> field as_str v ''id'';
     product_id \<leftarrow> field as_str v ''product_id'';
     agent_id \<leftarrow> field as_str v ''agent_id'';
     path \<leftarrow> field as_str v ''path'';
     capabilities \<leftarrow> default_field (dec_list as_str) [] v ''capabilities'';
     workspace_modes \<leftarrow> default_field (dec_list dto_workspace_mode) [] v ''workspace_modes'';
     default_workspace_mode \<leftarrow> field dto_workspace_mode v ''default_workspace_mode'';
     lock_policy \<leftarrow> field as_str v ''lock_policy'';
     opt_in \<leftarrow> field as_bool v ''direct_mode_requires_explicit_task_opt_in'';
     allow_remote_execution \<leftarrow> field as_bool v ''allow_remote_execution'';
     created_at \<leftarrow> opt_field as_str v ''created_at'';
     updated_at \<leftarrow> opt_field as_str v ''updated_at'';
     Some \<lparr> cdg_id = i, cdg_product_id = product_id, cdg_agent_id = agent_id, cdg_path = path,
       cdg_capabilities = capabilities, cdg_workspace_modes = workspace_modes,
       cdg_default_workspace_mode = default_workspace_mode, cdg_lock_policy = lock_policy,
       cdg_direct_mode_requires_explicit_task_opt_in = opt_in,
       cdg_allow_remote_execution = allow_remote_execution, cdg_created_at = created_at,
       cdg_updated_at = updated_at \<rparr> }"

record console_task_result =
  ctr_task_id :: string
  ctr_status :: task_status
  ctr_final_message :: string
  ctr_changed_files :: "string list"
  ctr_diff :: "string option"
  ctr_workspace_mode :: workspace_mode
  ctr_session_id :: "string option"
  ctr_provider_result :: "json option"
  ctr_usage :: "json option"
  ctr_artifacts :: "json list"
  ctr_error :: "json option"

definition dto_task_result :: "json \<Rightarrow> console_task_result option" where
  "dto_task_result v = do {
     task_id \<leftarrow> field as_str v ''task_id'';
     status \<leftarrow> field dto_task_status v ''status'';
     final_message \<leftarrow> field as_str v ''final_message'';
     changed_files \<leftarrow> default_field (dec_list as_str) [] v ''changed_files'';
     diff \<leftarrow> opt_field as_str v ''diff'';
     workspace_mode \<leftarrow> field dto_workspace_mode v ''workspace_mode'';
     session_id \<leftarrow> opt_field as_str v ''session_id'';
     provider_result \<leftarrow> opt_field Some v ''provider_result'';
     usage \<leftarrow> opt_field Some v ''usage'';
     artifacts \<leftarrow> default_field (dec_list Some) [] v ''artifacts'';
     error \<leftarrow> opt_field Some v ''error'';
     Some \<lparr> ctr_task_id = task_id, ctr_status = status, ctr_final_message = final_message,
       ctr_changed_files = changed_files, ctr_diff = diff, ctr_workspace_mode = workspace_mode,
       ctr_session_id = session_id, ctr_provider_result = provider_result, ctr_usage = usage,
       ctr_artifacts = artifacts, ctr_error = error \<rparr> }"

record console_task =
  ctk_id :: string
  ctk_owner_product_id :: string
  ctk_agent_id :: string
  ctk_directory_id :: string
  ctk_prompt :: string
  ctk_required_capabilities :: "string list"
  ctk_workspace_mode :: workspace_mode
  ctk_direct_mode_task_opt_in :: bool
  ctk_metadata :: "json option"
  ctk_provider_id :: string
  ctk_model :: string
  ctk_permission_mode :: string
  ctk_timeout_seconds :: "nat option"
  ctk_status :: task_status
  ctk_result :: "console_task_result option"
  ctk_created_at :: string
  ctk_updated_at :: string
  ctk_started_at :: "string option"
  ctk_completed_at :: "string option"
  ctk_cancelled_at :: "string option"
  ctk_failed_at :: "string option"

definition dto_task :: "json \<Rightarrow> console_task option" where
  "dto_task v = do {
     i \<leftarrow> field as_str v ''id'';
     owner_product_id \<leftarrow> field as_str v ''owner_product_id'';
     agent_id \<leftarrow> field as_str v ''agent_id'';
     directory_id \<leftarrow> field as_str v ''directory_id'';
     prompt \<leftarrow> field as_str v ''prompt'';
     required_capabilities \<leftarrow> default_field (dec_list as_str) [] v ''required_capabilities'';
     workspace_mode \<leftarrow> field dto_workspace_mode v ''workspace_mode'';
     opt_in \<leftarrow> field as_bool v ''direct_mode_task_opt_in'';
     metadata \<leftarrow> opt_field Some v ''metadata'';
     provider_id \<leftarrow> field as_str v ''provider_id'';
     model \<leftarrow> field as_str v ''model'';
     permission_mode \<leftarrow> field as_str v ''permission_mode'';
     timeout_seconds \<leftarrow> opt_field dec_u64 v ''timeout_seconds'';
     status \<leftarrow> field dto_task_status v ''status'';
     result \<leftarrow> opt_field dto_task_result v ''result'';
     created_at \<leftarrow> field as_str v ''created_at'';
     updated_at \<leftarrow> field as_str v ''updated_at'';
     started_at \<leftarrow> opt_field as_str v ''started_at'';
     completed_at \<leftarrow> opt_field as_str v ''completed_at'';
     cancelled_at \<leftarrow> opt_field as_str v ''cancelled_at'';
     failed_at \<leftarrow> opt_field as_str v ''failed_at'';
     Some \<lparr> ctk_id = i, ctk_owner_product_id = owner_product_id, ctk_agent_id = agent_id,
       ctk_directory_id = directory_id, ctk_prompt = prompt, ctk_required_capabilities = required_capabilities,
       ctk_workspace_mode = workspace_mode, ctk_direct_mode_task_opt_in = opt_in, ctk_metadata = metadata,
       ctk_provider_id = provider_id, ctk_model = model, ctk_permission_mode = permission_mode,
       ctk_timeout_seconds = timeout_seconds, ctk_status = status, ctk_result = result,
       ctk_created_at = created_at, ctk_updated_at = updated_at, ctk_started_at = started_at,
       ctk_completed_at = completed_at, ctk_cancelled_at = cancelled_at, ctk_failed_at = failed_at \<rparr> }"

record console_event =
  cev_task_id :: string
  cev_sequence :: nat
  cev_type :: string
  cev_payload :: json
  cev_created_at :: string

definition dto_event :: "json \<Rightarrow> console_event option" where
  "dto_event v = do {
     task_id \<leftarrow> field as_str v ''task_id'';
     sequence \<leftarrow> field dec_u64 v ''sequence'';
     ty \<leftarrow> field as_str v ''type'';
     payload \<leftarrow> field Some v ''payload'';
     created_at \<leftarrow> field as_str v ''created_at'';
     Some \<lparr> cev_task_id = task_id, cev_sequence = sequence, cev_type = ty, cev_payload = payload,
       cev_created_at = created_at \<rparr> }"

record console_permission =
  cpm_task_id :: string
  cpm_request_id :: string
  cpm_provider_id :: string
  cpm_permission_kind :: string
  cpm_summary :: string
  cpm_details :: "json option"
  cpm_options :: "permission_decision list"
  cpm_expires_at :: "string option"
  cpm_created_at :: string

definition dto_permission :: "json \<Rightarrow> console_permission option" where
  "dto_permission v = do {
     task_id \<leftarrow> field as_str v ''task_id'';
     request_id \<leftarrow> field as_str v ''request_id'';
     provider_id \<leftarrow> field as_str v ''provider_id'';
     permission_kind \<leftarrow> field as_str v ''permission_kind'';
     summary \<leftarrow> field as_str v ''summary'';
     details \<leftarrow> opt_field Some v ''details'';
     options \<leftarrow> default_field (dec_list dto_permission_decision) [] v ''options'';
     expires_at \<leftarrow> opt_field as_str v ''expires_at'';
     created_at \<leftarrow> field as_str v ''created_at'';
     Some \<lparr> cpm_task_id = task_id, cpm_request_id = request_id, cpm_provider_id = provider_id,
       cpm_permission_kind = permission_kind, cpm_summary = summary, cpm_details = details,
       cpm_options = options, cpm_expires_at = expires_at, cpm_created_at = created_at \<rparr> }"

section \<open>What the console sends\<close>

record console_agent_payload =
  yag_id :: string
  yag_name :: string
  yag_owner_product_id :: string
  yag_provider_id :: string
  yag_model :: string
  yag_instructions :: "string option"
  yag_execution_policy :: console_execution_policy
  yag_provider_config :: console_provider_config

definition execution_policy_json :: "console_execution_policy \<Rightarrow> json" where
  "execution_policy_json p = Object
     [(''default_workspace_mode'', dto_workspace_mode_json (cep_default_workspace_mode p)),
      (''allow_direct_directory'', Bool (cep_allow_direct_directory p))]"

definition provider_config_json :: "console_provider_config \<Rightarrow> json" where
  "provider_config_json c = Object
     [(''permission_mode'', opt_json Str (cpc_permission_mode c)),
      (''custom_args'', Array (map Str (cpc_custom_args c))),
      (''custom_env_keys'', Array (map Str (cpc_custom_env_keys c))),
      (''mcp_config'', opt_json id (cpc_mcp_config c))]"

definition agent_payload_json :: "console_agent_payload \<Rightarrow> json" where
  "agent_payload_json p = Object
     [(''id'', Str (yag_id p)), (''name'', Str (yag_name p)),
      (''owner_product_id'', Str (yag_owner_product_id p)), (''provider_id'', Str (yag_provider_id p)),
      (''model'', Str (yag_model p)), (''instructions'', opt_json Str (yag_instructions p)),
      (''execution_policy'', execution_policy_json (yag_execution_policy p)),
      (''provider_config'', provider_config_json (yag_provider_config p))]"

record console_directory_payload =
  ydg_product_id :: string
  ydg_agent_id :: string
  ydg_path :: string
  ydg_capabilities :: "string list"
  ydg_workspace_modes :: "workspace_mode list"
  ydg_default_workspace_mode :: workspace_mode
  ydg_lock_policy :: string
  ydg_direct_mode_requires_explicit_task_opt_in :: bool
  ydg_allow_remote_execution :: bool

definition directory_payload_json :: "console_directory_payload \<Rightarrow> json" where
  "directory_payload_json p = Object
     [(''product_id'', Str (ydg_product_id p)), (''agent_id'', Str (ydg_agent_id p)),
      (''path'', Str (ydg_path p)), (''capabilities'', Array (map Str (ydg_capabilities p))),
      (''workspace_modes'', Array (map dto_workspace_mode_json (ydg_workspace_modes p))),
      (''default_workspace_mode'', dto_workspace_mode_json (ydg_default_workspace_mode p)),
      (''lock_policy'', Str (ydg_lock_policy p)),
      (''direct_mode_requires_explicit_task_opt_in'', Bool (ydg_direct_mode_requires_explicit_task_opt_in p)),
      (''allow_remote_execution'', Bool (ydg_allow_remote_execution p))]"

record console_task_payload =
  ytk_owner_product_id :: string
  ytk_agent_id :: string
  ytk_directory_id :: string
  ytk_prompt :: string
  ytk_required_capabilities :: "string list"
  ytk_workspace_mode :: workspace_mode
  ytk_direct_mode_task_opt_in :: bool
  ytk_metadata :: "json option"
  ytk_timeout_seconds :: "nat option"

definition task_payload_json :: "console_task_payload \<Rightarrow> json" where
  "task_payload_json p = Object
     [(''owner_product_id'', Str (ytk_owner_product_id p)), (''agent_id'', Str (ytk_agent_id p)),
      (''directory_id'', Str (ytk_directory_id p)), (''prompt'', Str (ytk_prompt p)),
      (''required_capabilities'', Array (map Str (ytk_required_capabilities p))),
      (''workspace_mode'', dto_workspace_mode_json (ytk_workspace_mode p)),
      (''direct_mode_task_opt_in'', Bool (ytk_direct_mode_task_opt_in p)),
      (''metadata'', opt_json id (ytk_metadata p)),
      (''timeout_seconds'', opt_json enc_u64 (ytk_timeout_seconds p))]"

record console_product_payload =
  ypr_id :: string
  ypr_display_name :: string
  ypr_description :: "string option"

definition product_payload_json :: "console_product_payload \<Rightarrow> json" where
  "product_payload_json p = Object
     [(''id'', Str (ypr_id p)), (''display_name'', Str (ypr_display_name p)),
      (''description'', opt_json Str (ypr_description p))]"

record console_product_update =
  ypu_display_name :: "string option"
  ypu_description :: "string option"
  ypu_status :: "string option"

definition product_update_json :: "console_product_update \<Rightarrow> json" where
  "product_update_json p = Object
     [(''display_name'', opt_json Str (ypu_display_name p)),
      (''description'', opt_json Str (ypu_description p)),
      (''status'', opt_json Str (ypu_status p))]"

record console_token_payload =
  ypt_label :: string
  ypt_scopes :: "string list"

definition token_payload_json :: "console_token_payload \<Rightarrow> json" where
  "token_payload_json p = Object
     [(''label'', Str (ypt_label p)), (''scopes'', Array (map Str (ypt_scopes p)))]"

record console_permission_payload =
  ypm_event_type :: string
  ypm_request_id :: string
  ypm_decision :: permission_decision
  ypm_reason :: "string option"

definition permission_payload_json :: "console_permission_payload \<Rightarrow> json" where
  "permission_payload_json p = Object
     [(''event_type'', Str (ypm_event_type p)), (''request_id'', Str (ypm_request_id p)),
      (''decision'', dto_permission_decision_json (ypm_decision p)),
      (''reason'', opt_json Str (ypm_reason p))]"

end
