(* ===== verification/Wire.thy ===== *)
theory Wire
  imports Router Encoding Console_Dto
begin

text \<open>
  The JSON bodies of the HTTP interface: the \<open>Serialize\<close> instances serde derives for the responses of
  \<open>src/src/api\<close> and the data they hold, and the \<open>Deserialize\<close> instances of the request bodies. Enum variants are
  written by their serde names; an absent option is written as \<open>null\<close>. (A derived \<open>Deserialize\<close> also reads a
  struct from an array of its fields in order; the decoders here read objects, which is what clients send.)
\<close>

section \<open>Responses\<close>

definition str_list :: "string list \<Rightarrow> json" where
  "str_list xs = Array (map Str xs)"

fun product_status_str :: "product_status \<Rightarrow> string" where
  "product_status_str ProductActive = ''active''"
| "product_status_str ProductDisabledStatus = ''disabled''"

fun token_status_str :: "product_token_status \<Rightarrow> string" where
  "token_status_str TokenActive = ''active''"
| "token_status_str TokenRevoked = ''revoked''"

fun lock_policy_str :: "directory_lock_policy \<Rightarrow> string" where
  "lock_policy_str PolicyExclusive = ''exclusive''"
| "lock_policy_str PolicyShared = ''shared''"
| "lock_policy_str PolicyNone = ''none''"

fun agent_workspace_mode_str :: "agent_workspace_mode \<Rightarrow> string" where
  "agent_workspace_mode_str AgentWorktree = ''worktree''"
| "agent_workspace_mode_str AgentDirect = ''direct''"

fun connection_status_str :: "daemon_connection_status \<Rightarrow> string" where
  "connection_status_str Online = ''online''"
| "connection_status_str Offline = ''offline''"
| "connection_status_str Connecting = ''connecting''"
| "connection_status_str ConnectionError = ''error''"

fun credential_type_str :: "credential_type \<Rightarrow> string" where
  "credential_type_str CredentialBootstrap = ''bootstrap''"
| "credential_type_str CredentialProduct = ''product''"

fun provider_status_str :: "provider_status \<Rightarrow> string" where
  "provider_status_str Community = ''community''"
| "provider_status_str VerifiedProvider = ''verified''"
| "provider_status_str FirstParty = ''first_party''"
| "provider_status_str Deprecated = ''deprecated''"

fun integration_type_str :: "integration_type \<Rightarrow> string" where
  "integration_type_str IntegrationCli = ''cli''"
| "integration_type_str IntegrationAcp = ''acp''"
| "integration_type_str IntegrationHttp = ''http''"
| "integration_type_str IntegrationNative = ''native''"

fun input_mode_str :: "execution_input_mode \<Rightarrow> string" where
  "input_mode_str InputArg = ''arg''"
| "input_mode_str InputStdin = ''stdin''"
| "input_mode_str InputTempFile = ''temp_file''"

fun working_directory_str :: "working_directory_mode \<Rightarrow> string" where
  "working_directory_str WdRequired = ''required''"
| "working_directory_str WdOptional = ''optional''"
| "working_directory_str WdUnsupported = ''unsupported''"

fun cancel_signal_str :: "cancel_signal \<Rightarrow> string" where
  "cancel_signal_str Sigterm = ''SIGTERM''"
| "cancel_signal_str Sigint = ''SIGINT''"
| "cancel_signal_str SigKill = ''kill''"
| "cancel_signal_str SigNone = ''none''"

fun acp_transport_str :: "acp_transport \<Rightarrow> string" where
  "acp_transport_str Stdio = ''stdio''"
| "acp_transport_str LocalSocket = ''local_socket''"

fun acp_working_directory_str :: "acp_working_directory_mode \<Rightarrow> string" where
  "acp_working_directory_str AcpWorkspace = ''workspace''"
| "acp_working_directory_str AcpProvider = ''provider''"

fun auth_scheme_str :: "http_auth_scheme \<Rightarrow> string" where
  "auth_scheme_str AuthNone = ''none''"
| "auth_scheme_str AuthBearer = ''bearer''"

fun upload_mode_str :: "http_upload_mode \<Rightarrow> string" where
  "upload_mode_str WorkspaceSubset = ''workspace_subset''"
| "upload_mode_str UploadDiff = ''diff''"
| "upload_mode_str ContextOnly = ''context_only''"

fun recommended_lock_str :: "directory_lock_mode \<Rightarrow> string" where
  "recommended_lock_str RecommendExclusive = ''exclusive''"
| "recommended_lock_str RecommendShared = ''shared''"
| "recommended_lock_str RecommendNone = ''none''"

fun review_level_str :: "security_review_level \<Rightarrow> string" where
  "review_level_str StandardReview = ''standard''"
| "review_level_str StrictReview = ''strict''"
| "review_level_str ExperimentalReview = ''experimental''"

definition task_to_value :: "task \<Rightarrow> json" where
  "task_to_value t = Object
     [(''id'', Str (task_id t)), (''owner_product_id'', Str (task_owner_product_id t)),
      (''agent_id'', Str (task_agent_id t)), (''directory_id'', Str (task_directory_id t)),
      (''status'', Str (task_status_str (task_status t))),
      (''required_capabilities'', str_list (map capability_str (task_required_capabilities t))),
      (''workspace_mode'', Str (workspace_mode_str (task_workspace_mode t))),
      (''direct_mode_task_opt_in'', Bool (task_direct_mode_task_opt_in t)),
      (''prompt'', Str (task_prompt t)), (''metadata'', opt_json id (task_metadata t)),
      (''provider_id'', Str (task_provider_id t)), (''model'', Str (task_model t)),
      (''permission_mode'', Str (task_permission_mode t)),
      (''timeout_seconds'', opt_json enc_u64 (task_timeout_seconds t)),
      (''result'', opt_json result_to_value (task_result t)),
      (''created_at'', Str (task_created_at t)), (''updated_at'', Str (task_updated_at t)),
      (''started_at'', opt_str (task_started_at t)), (''completed_at'', opt_str (task_completed_at t)),
      (''cancelled_at'', opt_str (task_cancelled_at t)), (''failed_at'', opt_str (task_failed_at t))]"

definition event_view_to_value :: "task_event_view \<Rightarrow> json" where
  "event_view_to_value e = Object
     [(''task_id'', Str (evv_task_id e)), (''sequence'', enc_u64 (evv_sequence e)),
      (''type'', Str (event_type_as_str (evv_event_type e))), (''payload'', evv_payload e),
      (''created_at'', Str (evv_created_at e))]"

definition permission_to_value :: "permission_response \<Rightarrow> json" where
  "permission_to_value p = Object
     [(''task_id'', Str (ps_task_id p)), (''request_id'', Str (ps_request_id p)),
      (''provider_id'', Str (ps_provider_id p)), (''permission_kind'', Str (ps_permission_kind p)),
      (''summary'', Str (ps_summary p)), (''details'', opt_json id (ps_details p)),
      (''options'', str_list (map decision_as_str (ps_options p))),
      (''expires_at'', opt_str (ps_expires_at p)), (''created_at'', Str (ps_created_at p))]"

definition permission_answer_to_value :: "task_permission_response \<Rightarrow> json" where
  "permission_answer_to_value p = Object
     [(''task_id'', Str (pm_response_task_id p)), (''request_id'', Str (pm_response_request_id p)),
      (''status'', Str (pm_response_status p)), (''decision'', Str (decision_as_str (pm_response_decision p)))]"

definition grant_to_value :: "directory_grant \<Rightarrow> json" where
  "grant_to_value g = Object
     [(''id'', Str (dg_id g)), (''product_id'', Str (dg_product_id g)), (''agent_id'', Str (dg_agent_id g)),
      (''path'', Str (dg_path g)), (''capabilities'', str_list (map capability_str (dg_capabilities g))),
      (''workspace_modes'', str_list (map workspace_mode_str (dg_workspace_modes g))),
      (''default_workspace_mode'', Str (workspace_mode_str (dg_default_workspace_mode g))),
      (''lock_policy'', Str (lock_policy_str (dg_lock_policy g))),
      (''direct_mode_requires_explicit_task_opt_in'', Bool (dg_direct_mode_requires_explicit_task_opt_in g)),
      (''allow_remote_execution'', Bool (dg_allow_remote_execution g)),
      (''created_at'', Str (dg_created_at g)), (''updated_at'', Str (dg_updated_at g))]"

definition policy_to_value :: "execution_policy \<Rightarrow> json" where
  "policy_to_value p = Object
     [(''default_workspace_mode'', Str (agent_workspace_mode_str (ep_default_workspace_mode p))),
      (''allow_direct_directory'', Bool (ep_allow_direct_directory p))]"

definition config_to_value :: "provider_config \<Rightarrow> json" where
  "config_to_value c = Object
     [(''custom_args'', str_list (cf_custom_args c)), (''custom_env_keys'', str_list (cf_custom_env_keys c)),
      (''mcp_config'', opt_json id (cf_mcp_config c)), (''permission_mode'', Str (cf_permission_mode c))]"

definition agent_to_value :: "agent_profile \<Rightarrow> json" where
  "agent_to_value a = Object
     [(''id'', Str (ap_id a)), (''name'', Str (ap_name a)), (''owner_product_id'', Str (ap_owner_product_id a)),
      (''provider_id'', Str (ap_provider_id a)), (''model'', Str (ap_model a)),
      (''instructions'', opt_str (ap_instructions a)),
      (''execution_policy'', policy_to_value (ap_execution_policy a)),
      (''provider_config'', config_to_value (ap_provider_config a)),
      (''created_at'', Str (ap_created_at a)), (''updated_at'', Str (ap_updated_at a))]"

definition product_to_value :: "product \<Rightarrow> json" where
  "product_to_value p = Object
     [(''id'', Str (pr_id p)), (''display_name'', Str (pr_display_name p)),
      (''status'', Str (product_status_str (pr_status p))), (''description'', opt_str (pr_description p)),
      (''created_at'', Str (pr_created_at p)), (''updated_at'', Str (pr_updated_at p))]"

definition token_to_value :: "product_token \<Rightarrow> json" where
  "token_to_value t = Object
     [(''id'', Str (pt_id t)), (''product_id'', Str (pt_product_id t)), (''label'', Str (pt_label t)),
      (''scopes'', str_list (map scope_str (pt_scopes t))), (''token_prefix'', Str (pt_token_prefix t)),
      (''status'', Str (token_status_str (pt_status t))), (''created_at'', Str (pt_created_at t)),
      (''last_used_at'', opt_str (pt_last_used_at t)), (''revoked_at'', opt_str (pt_revoked_at t))]"

definition created_token_to_value :: "created_product_token \<Rightarrow> json" where
  "created_token_to_value t = Object
     [(''id'', Str (crt_id t)), (''product_id'', Str (crt_product_id t)), (''label'', Str (crt_label t)),
      (''scopes'', str_list (map scope_str (crt_scopes t))), (''token_prefix'', Str (crt_token_prefix t)),
      (''token'', Str (crt_token t)), (''created_at'', Str (crt_created_at t))]"

definition runtime_error_to_value :: "runtime_error \<Rightarrow> json" where
  "runtime_error_to_value e = Object [(''code'', Str (re_code e)), (''message'', Str (re_message e))]"

definition runtime_to_value :: "runtime_view \<Rightarrow> json" where
  "runtime_to_value r = Object
     [(''id'', Str (rv_id r)), (''provider_id'', Str (rv_provider_id r)),
      (''kind'', Str (runtime_kind_str (rv_kind r))), (''status'', Str (runtime_status_str (rv_status r))),
      (''executable'', opt_str (rv_executable r)), (''version'', opt_str (rv_version r)),
      (''detected_at'', opt_str (rv_detected_at r)), (''error'', opt_json runtime_error_to_value (rv_error r))]"

definition session_to_value :: "session_response \<Rightarrow> json" where
  "session_to_value s = Object
     [(''credential_type'', Str (credential_type_str (ss_credential_type s))),
      (''product_id'', opt_str (ss_product_id s)), (''scopes'', str_list (map scope_str (ss_scopes s))),
      (''product_status'', opt_str (map_option product_status_str (ss_product_status s)))]"

definition status_to_value :: "daemon_status_response \<Rightarrow> json" where
  "status_to_value d = Object
     [(''service'', Str (ds_service d)), (''version'', Str (ds_version d)),
      (''status'', Str (connection_status_str (ds_status d))),
      (''control_plane'', Object
         [(''status'', Str (connection_status_str (cs_status (ds_control_plane d)))),
          (''daemon_id'', opt_str (cs_daemon_id (ds_control_plane d))),
          (''last_heartbeat_at'', opt_str (cs_last_heartbeat_at (ds_control_plane d))),
          (''last_error_code'', opt_str (cs_last_error_code (ds_control_plane d)))]),
      (''scheduler'', Object
         [(''queued'', enc_u64 (ds_queued d)), (''running'', enc_u64 (ds_running d)),
          (''max_concurrent_tasks'', enc_u64 (ds_max_concurrent_tasks d))]),
      (''runtimes'', Object
         [(''available'', enc_u64 (rm_available (ds_runtimes d))),
          (''unavailable'', enc_u64 (rm_unavailable (ds_runtimes d))),
          (''error'', enc_u64 (rm_error (ds_runtimes d))),
          (''not_detected'', enc_u64 (rm_not_detected (ds_runtimes d)))]),
      (''permissions'', Object [(''pending'', enc_u64 (ds_pending_permissions d))])]"

definition health_to_value :: "health_response \<Rightarrow> json" where
  "health_to_value h = Object
     [(''status'', Str (hr_status h)), (''service'', Str (hr_service h)), (''version'', Str (hr_version h))]"

subsection \<open>Manifests\<close>

definition vendor_to_value :: "vendor_info \<Rightarrow> json" where
  "vendor_to_value x = Object
     [(''name'', Str (vn_name x)), (''homepage'', Str (vn_homepage x)), (''support_url'', opt_str (vn_support_url x))]"

definition install_to_value :: "install_instructions \<Rightarrow> json" where
  "install_to_value x = Object
     [(''macos'', str_list (in_macos x)), (''linux'', str_list (in_linux x)), (''windows'', str_list (in_windows x))]"

definition detect_to_value :: "detect_config \<Rightarrow> json" where
  "detect_to_value x = Object
     [(''commands'', str_list (dt_commands x)), (''version_args'', str_list (dt_version_args x)),
      (''version_regex'', opt_str (dt_version_regex x))]"

definition execution_to_value :: "execution_config \<Rightarrow> json" where
  "execution_to_value x = Object
     [(''command'', Str (ex_command x)), (''args'', str_list (ex_args x)),
      (''input_mode'', Str (input_mode_str (ex_input_mode x))),
      (''working_directory'', Str (working_directory_str (ex_working_directory x))),
      (''supports_streaming'', Bool (ex_supports_streaming x)),
      (''cancel_signal'', Str (cancel_signal_str (ex_cancel_signal x)))]"

definition capabilities_to_value :: "provider_capabilities \<Rightarrow> json" where
  "capabilities_to_value x = Object
     [(''filesystem_read'', Bool (pc_filesystem_read x)), (''filesystem_write'', Bool (pc_filesystem_write x)),
      (''shell'', Bool (pc_shell x)), (''git'', Bool (pc_git x)), (''browser'', Bool (pc_browser x)),
      (''mcp'', Bool (pc_mcp x)), (''remote_execution'', Bool (pc_remote_execution x)),
      (''worktree'', Bool (pc_worktree x)), (''direct_directory'', Bool (pc_direct_directory x)),
      (''supports_resume'', Bool (pc_supports_resume x)),
      (''supports_permission_requests'', Bool (pc_supports_permission_requests x))]"

definition permissions_to_value :: "provider_permissions \<Rightarrow> json" where
  "permissions_to_value x = Object
     [(''requires_directory_grant'', Bool (pp_requires_directory_grant x)),
      (''recommended_directory_lock'', Str (recommended_lock_str (pp_recommended_directory_lock x))),
      (''provider_permission_modes'', str_list (pp_provider_permission_modes x)),
      (''supports_permission_events'', Bool (pp_supports_permission_events x))]"

definition security_to_value :: "security_config \<Rightarrow> json" where
  "security_to_value x = Object
     [(''runs_locally'', Bool (sc_runs_locally x)), (''sends_code_to_vendor'', Bool (sc_sends_code_to_vendor x)),
      (''data_policy_url'', opt_str (sc_data_policy_url x)),
      (''review_level'', Str (review_level_str (sc_review_level x)))]"

definition acp_to_value :: "acp_config \<Rightarrow> json" where
  "acp_to_value x = Object
     [(''transport'', Str (acp_transport_str (ac_transport x))), (''command'', opt_json str_list (ac_command x)),
      (''endpoint'', opt_str (ac_endpoint x)),
      (''working_directory_mode'', Str (acp_working_directory_str (ac_working_directory_mode x))),
      (''env_allowlist'', str_list (ac_env_allowlist x))]"

definition http_to_value :: "http_config \<Rightarrow> json" where
  "http_to_value x = Object
     [(''endpoint'', Str (ht_endpoint x)), (''auth_scheme'', Str (auth_scheme_str (ht_auth_scheme x))),
      (''upload_mode'', Str (upload_mode_str (ht_upload_mode x))),
      (''supports_streaming'', Bool (ht_supports_streaming x)), (''supports_cancel'', Bool (ht_supports_cancel x)),
      (''cancel_endpoint'', opt_str (ht_cancel_endpoint x))]"

definition manifest_to_value :: "provider_manifest \<Rightarrow> json" where
  "manifest_to_value m = Object
     [(''schema_version'', Str (pm_schema_version m)), (''id'', Str (pm_id m)),
      (''display_name'', Str (pm_display_name m)), (''status'', Str (provider_status_str (pm_status m))),
      (''vendor'', vendor_to_value (pm_vendor m)),
      (''integration_type'', Str (integration_type_str (pm_integration_type m))),
      (''description'', Str (pm_description m)), (''install'', install_to_value (pm_install m)),
      (''detect'', detect_to_value (pm_detect m)), (''execution'', execution_to_value (pm_execution m)),
      (''models'', Object
         [(''default'', Str (md_default (pm_models m))), (''supported'', str_list (md_supported (pm_models m)))]),
      (''capabilities'', capabilities_to_value (pm_capabilities m)),
      (''permissions'', permissions_to_value (pm_permissions m)),
      (''environment'', Object
         [(''required'', str_list (en_required (pm_environment m))),
          (''optional'', str_list (en_optional (pm_environment m)))]),
      (''security'', security_to_value (pm_security m)),
      (''acp'', opt_json acp_to_value (pm_acp m)), (''http'', opt_json http_to_value (pm_http m))]"

definition provider_to_value :: "provider_response \<Rightarrow> json" where
  "provider_to_value p = Object
     [(''id'', Str (pv_id p)), (''display_name'', Str (pv_display_name p)),
      (''status'', Str (provider_status_str (pv_status p))),
      (''integration_type'', Str (integration_type_str (pv_integration_type p))),
      (''description'', Str (pv_description p)), (''manifest'', manifest_to_value (pv_manifest p))]"

subsection \<open>Bodies\<close>

text \<open>
  The response structs wrap their data in one named field. The stream of a task's events has no JSON body;
  its frames are written one by one.
\<close>

fun body_to_value :: "api_body \<Rightarrow> json option" where
  "body_to_value (HealthBody h) = Some (health_to_value h)"
| "body_to_value (SessionBody s) = Some (session_to_value s)"
| "body_to_value (StatusBody d) = Some (status_to_value d)"
| "body_to_value (ProductsBody ps) = Some (Object [(''products'', Array (map product_to_value ps))])"
| "body_to_value (ProductBody p) = Some (Object [(''product'', product_to_value p)])"
| "body_to_value (TokensBody ts) = Some (Object [(''tokens'', Array (map token_to_value ts))])"
| "body_to_value (CreatedTokenBody t) = Some (Object [(''token'', created_token_to_value t)])"
| "body_to_value (ProvidersBody ps) = Some (Object [(''providers'', Array (map provider_to_value ps))])"
| "body_to_value (ProviderBody p) = Some (Object [(''provider'', provider_to_value p)])"
| "body_to_value (RuntimesBody rs) = Some (Object [(''runtimes'', Array (map runtime_to_value rs))])"
| "body_to_value (TasksBody ts) = Some (Object [(''tasks'', Array (map task_to_value ts))])"
| "body_to_value (TaskBody t) = Some (Object [(''task'', task_to_value t)])"
| "body_to_value (EventStream st) = None"
| "body_to_value (PermissionAnswerBody p) = Some (permission_answer_to_value p)"
| "body_to_value (PermissionsBody ps) = Some (Object [(''permissions'', Array (map permission_to_value ps))])"
| "body_to_value (AgentsBody xs) = Some (Object [(''agents'', Array (map agent_to_value xs))])"
| "body_to_value (AgentBody a) = Some (Object [(''agent'', agent_to_value a)])"
| "body_to_value (DirectoriesBody gs) = Some (Object [(''directories'', Array (map grant_to_value gs))])"
| "body_to_value (DirectoryBody g) = Some (Object [(''directory'', grant_to_value g)])"
| "body_to_value NoContent = None"

definition error_to_value :: "string \<Rightarrow> string \<Rightarrow> json" where
  "error_to_value code message = Object [(''error'', Object [(''code'', Str code), (''message'', Str message)])]"

section \<open>Request bodies\<close>

fun scope_of_str :: "string \<Rightarrow> api_scope option" where
  "scope_of_str s = List.find (\<lambda>x. scope_str x = s)
     [ProvidersRead, RuntimesRead, AgentsRead, AgentsWrite, DirectoriesRead, DirectoriesGrant,
      DirectoriesDirect, TasksCreate, TasksRead, TasksCancel, TasksRemoteExecution]"

definition product_status_of_str :: "string \<Rightarrow> product_status option" where
  "product_status_of_str s = (if s = ''active'' then Some ProductActive
     else if s = ''disabled'' then Some ProductDisabledStatus else None)"

definition lock_policy_of_str :: "string \<Rightarrow> directory_lock_policy option" where
  "lock_policy_of_str s = (if s = ''exclusive'' then Some PolicyExclusive
     else if s = ''shared'' then Some PolicyShared else if s = ''none'' then Some PolicyNone else None)"

definition agent_workspace_mode_of_str :: "string \<Rightarrow> agent_workspace_mode option" where
  "agent_workspace_mode_of_str s = (if s = ''worktree'' then Some AgentWorktree
     else if s = ''direct'' then Some AgentDirect else None)"

definition create_task_request :: "json \<Rightarrow> create_task option" where
  "create_task_request v = do {
     owner_product_id \<leftarrow> field as_str v ''owner_product_id'';
     agent_id \<leftarrow> field as_str v ''agent_id'';
     directory_id \<leftarrow> field as_str v ''directory_id'';
     prompt \<leftarrow> field as_str v ''prompt'';
     required_capabilities \<leftarrow> opt_field (dec_list (dec_enum capability_of_str)) v ''required_capabilities'';
     workspace_mode \<leftarrow> opt_field (dec_enum workspace_mode_of_str) v ''workspace_mode'';
     opt_in \<leftarrow> default_field as_bool False v ''direct_mode_task_opt_in'';
     metadata \<leftarrow> opt_field Some v ''metadata'';
     provider_id \<leftarrow> opt_field as_str v ''provider_id'';
     model \<leftarrow> opt_field as_str v ''model'';
     permission_mode \<leftarrow> opt_field as_str v ''permission_mode'';
     timeout_seconds \<leftarrow> opt_field dec_u64 v ''timeout_seconds'';
     Some \<lparr> ct_owner_product_id = owner_product_id, ct_agent_id = agent_id, ct_directory_id = directory_id,
       ct_prompt = prompt, ct_required_capabilities = required_capabilities,
       ct_workspace_mode = workspace_mode, ct_direct_mode_task_opt_in = opt_in, ct_metadata = metadata,
       ct_provider_id = provider_id, ct_model = model, ct_permission_mode = permission_mode,
       ct_timeout_seconds = timeout_seconds \<rparr> }"

definition task_event_request_of :: "json \<Rightarrow> task_event_request option" where
  "task_event_request_of v = do {
     event_type \<leftarrow> field as_str v ''event_type'';
     request_id \<leftarrow> field as_str v ''request_id'';
     decision \<leftarrow> field as_str v ''decision'';
     reason \<leftarrow> opt_field as_str v ''reason'';
     Some \<lparr> er_event_type = event_type, er_request_id = request_id, er_decision = decision,
       er_reason = reason \<rparr> }"

definition execution_policy_of :: "json \<Rightarrow> execution_policy option" where
  "execution_policy_of v = (if \<not> is_object v then None else do {
     mode \<leftarrow> default_field (dec_enum agent_workspace_mode_of_str) AgentWorktree v ''default_workspace_mode'';
     direct \<leftarrow> default_field as_bool False v ''allow_direct_directory'';
     Some \<lparr> ep_default_workspace_mode = mode, ep_allow_direct_directory = direct \<rparr> })"

definition provider_config_of :: "json \<Rightarrow> provider_config option" where
  "provider_config_of v = (if \<not> is_object v then None else do {
     custom_args \<leftarrow> default_field (dec_list as_str) [] v ''custom_args'';
     custom_env_keys \<leftarrow> default_field (dec_list as_str) [] v ''custom_env_keys'';
     mcp_config \<leftarrow> opt_field Some v ''mcp_config'';
     permission_mode \<leftarrow> default_field as_str default_permission_mode v ''permission_mode'';
     Some \<lparr> cf_custom_args = custom_args, cf_custom_env_keys = custom_env_keys, cf_mcp_config = mcp_config,
       cf_permission_mode = permission_mode \<rparr> })"

definition create_agent_request :: "json \<Rightarrow> create_agent_profile option" where
  "create_agent_request v = do {
     i \<leftarrow> field as_str v ''id'';
     name \<leftarrow> field as_str v ''name'';
     owner_product_id \<leftarrow> field as_str v ''owner_product_id'';
     provider_id \<leftarrow> field as_str v ''provider_id'';
     model \<leftarrow> field as_str v ''model'';
     instructions \<leftarrow> opt_field as_str v ''instructions'';
     execution_policy \<leftarrow> default_field execution_policy_of
       \<lparr> ep_default_workspace_mode = AgentWorktree, ep_allow_direct_directory = False \<rparr> v ''execution_policy'';
     provider_config \<leftarrow> default_field provider_config_of
       \<lparr> cf_custom_args = [], cf_custom_env_keys = [], cf_mcp_config = None, cf_permission_mode = default_permission_mode \<rparr>
       v ''provider_config'';
     Some \<lparr> ca_id = i, ca_name = name, ca_owner_product_id = owner_product_id, ca_provider_id = provider_id,
       ca_model = model, ca_instructions = instructions, ca_execution_policy = execution_policy,
       ca_provider_config = provider_config \<rparr> }"

definition create_directory_request :: "json \<Rightarrow> create_directory_grant option" where
  "create_directory_request v = do {
     product_id \<leftarrow> field as_str v ''product_id'';
     agent_id \<leftarrow> field as_str v ''agent_id'';
     path \<leftarrow> field as_str v ''path'';
     capabilities \<leftarrow> field (dec_list (dec_enum capability_of_str)) v ''capabilities'';
     workspace_modes \<leftarrow> opt_field (dec_list (dec_enum workspace_mode_of_str)) v ''workspace_modes'';
     default_workspace_mode \<leftarrow> opt_field (dec_enum workspace_mode_of_str) v ''default_workspace_mode'';
     lock_policy \<leftarrow> opt_field (dec_enum lock_policy_of_str) v ''lock_policy'';
     opt_in \<leftarrow> opt_field as_bool v ''direct_mode_requires_explicit_task_opt_in'';
     allow_remote_execution \<leftarrow> opt_field as_bool v ''allow_remote_execution'';
     Some \<lparr> cg_product_id = product_id, cg_agent_id = agent_id, cg_path = path,
       cg_capabilities = capabilities, cg_workspace_modes = workspace_modes,
       cg_default_workspace_mode = default_workspace_mode, cg_lock_policy = lock_policy,
       cg_direct_mode_requires_explicit_task_opt_in = opt_in,
       cg_allow_remote_execution = allow_remote_execution \<rparr> }"

definition create_product_request :: "json \<Rightarrow> create_product option" where
  "create_product_request v = do {
     i \<leftarrow> field as_str v ''id'';
     display_name \<leftarrow> field as_str v ''display_name'';
     description \<leftarrow> opt_field as_str v ''description'';
     Some \<lparr> cp_id = i, cp_display_name = display_name, cp_description = description \<rparr> }"

text \<open>A null \<open>description\<close> is \<open>None\<close> also at type \<open>Option<Option<String>>\<close>.\<close>

definition patch_product_request :: "json \<Rightarrow> patch_product option" where
  "patch_product_request v = (if \<not> is_object v then None else do {
     display_name \<leftarrow> opt_field as_str v ''display_name'';
     description \<leftarrow> opt_field as_str v ''description'';
     status \<leftarrow> opt_field (dec_enum product_status_of_str) v ''status'';
     Some \<lparr> pp_display_name = display_name, pp_description = map_option Some description,
       pp_status = status \<rparr> })"

definition create_token_request :: "json \<Rightarrow> create_product_token option" where
  "create_token_request v = do {
     label \<leftarrow> field as_str v ''label'';
     scopes \<leftarrow> field (dec_list (dec_enum scope_of_str)) v ''scopes'';
     Some \<lparr> cpt_label = label, cpt_scopes = scopes \<rparr> }"

lemma scope_of_str_str [simp]: "scope_of_str (scope_str x) = Some x"
  by (cases x) simp_all

end
