(* ===== verification/Console_Client.thy ===== *)
theory Console_Client
  imports Wire Path_Guard
begin

text \<open>
  \<open>crates/opendaemon-console-api\<close>: the HTTP client of the console (\<open>client.rs\<close>, \<open>error.rs\<close>), what it does with
  the frames of an event stream (\<open>events.rs\<close>) and the rules by which it offers actions (\<open>policy.rs\<close>).

  Sending a request is the browser's: \<open>tr_send\<close> is an operation on the state of whatever is at the other
  end and gives a response or a message. A response has a status, the text of its body (none where reading
  it fails) and the JSON value the body parses to (or the parser's message). \<open>tr_decode_error\<close> is the message
  serde reports for a value that does not have the expected form. Turning a payload into JSON text does not
  fail for the payloads used here.
\<close>

section \<open>Requests and responses\<close>

datatype http_method = GET | POST | PATCH | DELETE

record http_request =
  hq_method :: http_method
  hq_url :: string
  hq_authorization :: string
  hq_body :: "json option"

record http_response =
  hs_status :: nat
  hs_text :: "string option"
  hs_json :: "string + json"

record 'w transport =
  tr_send :: "http_request \<Rightarrow> ('w, string, http_response) op"
  tr_decode_error :: "json \<Rightarrow> string"

datatype console_api_error = RequestFailed string | ApiStatus nat string | DecodeFailed string

fun console_error_message :: "console_api_error \<Rightarrow> string" where
  "console_error_message (RequestFailed m) = ''http request failed: '' @ m"
| "console_error_message (ApiStatus status m) = ''api returned '' @ show_nat status @ '': '' @ m"
| "console_error_message (DecodeFailed m) = ''failed to decode response: '' @ m"

record console_api_client =
  kc_base_url :: string
  kc_token :: string

definition trim_end_slashes :: "string \<Rightarrow> string" where
  "trim_end_slashes s = rev (dropWhile (\<lambda>c. c = CHR ''/'') (rev s))"

definition client_new :: "string \<Rightarrow> string \<Rightarrow> console_api_client" where
  "client_new base_url token = \<lparr> kc_base_url = trim_end_slashes base_url, kc_token = token \<rparr>"

definition client_url :: "console_api_client \<Rightarrow> string \<Rightarrow> string" where
  "client_url c path = kc_base_url c @ path"

definition client_request :: "console_api_client \<Rightarrow> http_method \<Rightarrow> string \<Rightarrow> json option \<Rightarrow> http_request" where
  "client_request c method path body =
     \<lparr> hq_method = method, hq_url = client_url c path, hq_authorization = ''Bearer '' @ kc_token c,
       hq_body = body \<rparr>"

definition success_status :: "nat \<Rightarrow> bool" where
  "success_status status \<longleftrightarrow> 200 \<le> status \<and> status < 300"

definition decode_response ::
  "'w transport \<Rightarrow> (json \<Rightarrow> 'a option) \<Rightarrow> http_response \<Rightarrow> console_api_error + 'a" where
  "decode_response tr dec r =
     (if \<not> success_status (hs_status r)
      then Inl (ApiStatus (hs_status r) (unwrap_or (hs_text r) ''request failed''))
      else case hs_json r of
          Inl m \<Rightarrow> Inl (DecodeFailed m)
        | Inr v \<Rightarrow> (case dec v of None \<Rightarrow> Inl (DecodeFailed (tr_decode_error tr v)) | Some x \<Rightarrow> Inr x))"

definition get_json ::
  "'w transport \<Rightarrow> console_api_client \<Rightarrow> string \<Rightarrow> (json \<Rightarrow> 'a option) \<Rightarrow> ('w, console_api_error, 'a) op" where
  "get_json tr c path dec =
     and_then (map_err RequestFailed (tr_send tr (client_request c GET path None))) (\<lambda>r.
     lift_r (decode_response tr dec r))"

definition post_json ::
  "'w transport \<Rightarrow> console_api_client \<Rightarrow> string \<Rightarrow> json \<Rightarrow> (json \<Rightarrow> 'a option) \<Rightarrow> ('w, console_api_error, 'a) op" where
  "post_json tr c path input dec =
     and_then (map_err RequestFailed (tr_send tr (client_request c POST path (Some input)))) (\<lambda>r.
     lift_r (decode_response tr dec r))"

definition patch_json ::
  "'w transport \<Rightarrow> console_api_client \<Rightarrow> string \<Rightarrow> json \<Rightarrow> (json \<Rightarrow> 'a option) \<Rightarrow> ('w, console_api_error, 'a) op" where
  "patch_json tr c path input dec =
     and_then (map_err RequestFailed (tr_send tr (client_request c PATCH path (Some input)))) (\<lambda>r.
     lift_r (decode_response tr dec r))"

definition delete_path ::
  "'w transport \<Rightarrow> console_api_client \<Rightarrow> string \<Rightarrow> ('w, console_api_error, unit) op" where
  "delete_path tr c path =
     and_then (map_err RequestFailed (tr_send tr (client_request c DELETE path None))) (\<lambda>r.
     lift_r (if \<not> success_status (hs_status r)
       then Inl (ApiStatus (hs_status r) (unwrap_or (hs_text r) ''request failed'')) else Inr ()))"

section \<open>Path segments\<close>

definition hex_upper :: "nat \<Rightarrow> char" where
  "hex_upper d = char_of (if d < 10 then 48 + d else 55 + d)"

definition unreserved :: "char \<Rightarrow> bool" where
  "unreserved ch \<longleftrightarrow> (let b = (of_char ch :: nat) in
     48 \<le> b \<and> b \<le> 57 \<or> 65 \<le> b \<and> b \<le> 90 \<or> 97 \<le> b \<and> b \<le> 122 \<or> ch \<in> {CHR ''-'', CHR ''_'', CHR ''.'', CHR ''~''})"

definition escape_byte :: "char \<Rightarrow> string" where
  "escape_byte ch = (if unreserved ch then [ch]
     else [CHR ''%'', hex_upper (of_char ch div 16), hex_upper (of_char ch mod 16)])"

definition id_path_segment :: "string \<Rightarrow> string" where
  "id_path_segment i = concat (map escape_byte i)"

section \<open>Calls\<close>

text \<open>The envelopes of the responses: one named field.\<close>

definition envelope :: "string \<Rightarrow> (json \<Rightarrow> 'a option) \<Rightarrow> json \<Rightarrow> 'a option" where
  "envelope k dec v = field dec v k"

definition client_session :: "'w transport \<Rightarrow> console_api_client \<Rightarrow> ('w, console_api_error, console_session) op" where
  "client_session tr c = get_json tr c ''/v1/session'' dto_session"

definition client_daemon_status :: "'w transport \<Rightarrow> console_api_client \<Rightarrow> ('w, console_api_error, console_daemon_status) op" where
  "client_daemon_status tr c = get_json tr c ''/v1/daemon/status'' dto_daemon_status"

definition client_products :: "'w transport \<Rightarrow> console_api_client \<Rightarrow> ('w, console_api_error, console_product list) op" where
  "client_products tr c = get_json tr c ''/v1/products'' (envelope ''products'' (dec_list dto_product))"

definition client_create_product ::
  "'w transport \<Rightarrow> console_api_client \<Rightarrow> console_product_payload \<Rightarrow> ('w, console_api_error, console_product) op" where
  "client_create_product tr c input =
     post_json tr c ''/v1/products'' (product_payload_json input) (envelope ''product'' dto_product)"

definition client_update_product ::
  "'w transport \<Rightarrow> console_api_client \<Rightarrow> string \<Rightarrow> console_product_update \<Rightarrow>
   ('w, console_api_error, console_product) op" where
  "client_update_product tr c product_id input =
     patch_json tr c (''/v1/products/'' @ id_path_segment product_id) (product_update_json input)
       (envelope ''product'' dto_product)"

definition client_product_tokens ::
  "'w transport \<Rightarrow> console_api_client \<Rightarrow> string \<Rightarrow> ('w, console_api_error, console_product_token list) op" where
  "client_product_tokens tr c product_id =
     get_json tr c (''/v1/products/'' @ id_path_segment product_id @ ''/tokens'')
       (envelope ''tokens'' (dec_list dto_product_token))"

definition client_create_product_token ::
  "'w transport \<Rightarrow> console_api_client \<Rightarrow> string \<Rightarrow> console_token_payload \<Rightarrow>
   ('w, console_api_error, console_created_token) op" where
  "client_create_product_token tr c product_id input =
     post_json tr c (''/v1/products/'' @ id_path_segment product_id @ ''/tokens'') (token_payload_json input)
       (envelope ''token'' dto_created_token)"

definition client_revoke_product_token ::
  "'w transport \<Rightarrow> console_api_client \<Rightarrow> string \<Rightarrow> string \<Rightarrow> ('w, console_api_error, unit) op" where
  "client_revoke_product_token tr c product_id token_id =
     delete_path tr c (''/v1/products/'' @ id_path_segment product_id @ ''/tokens/'' @ id_path_segment token_id)"

definition client_providers :: "'w transport \<Rightarrow> console_api_client \<Rightarrow> ('w, console_api_error, console_provider list) op" where
  "client_providers tr c = get_json tr c ''/v1/providers'' (envelope ''providers'' (dec_list dto_provider))"

definition client_runtimes :: "'w transport \<Rightarrow> console_api_client \<Rightarrow> ('w, console_api_error, console_runtime_view list) op" where
  "client_runtimes tr c = get_json tr c ''/v1/runtimes'' (envelope ''runtimes'' (dec_list dto_runtime_view))"

definition client_detect_runtimes ::
  "'w transport \<Rightarrow> console_api_client \<Rightarrow> ('w, console_api_error, console_runtime_view list) op" where
  "client_detect_runtimes tr c =
     post_json tr c ''/v1/runtimes/detect'' Null (envelope ''runtimes'' (dec_list dto_runtime_view))"

definition client_agents :: "'w transport \<Rightarrow> console_api_client \<Rightarrow> ('w, console_api_error, console_agent_profile list) op" where
  "client_agents tr c = get_json tr c ''/v1/agents'' (envelope ''agents'' (dec_list dto_agent_profile))"

definition client_create_agent ::
  "'w transport \<Rightarrow> console_api_client \<Rightarrow> console_agent_payload \<Rightarrow> ('w, console_api_error, console_agent_profile) op" where
  "client_create_agent tr c input =
     post_json tr c ''/v1/agents'' (agent_payload_json input) (envelope ''agent'' dto_agent_profile)"

definition client_delete_agent :: "'w transport \<Rightarrow> console_api_client \<Rightarrow> string \<Rightarrow> ('w, console_api_error, unit) op" where
  "client_delete_agent tr c agent_id = delete_path tr c (''/v1/agents/'' @ id_path_segment agent_id)"

definition client_directories ::
  "'w transport \<Rightarrow> console_api_client \<Rightarrow> ('w, console_api_error, console_directory_grant list) op" where
  "client_directories tr c =
     get_json tr c ''/v1/directories'' (envelope ''directories'' (dec_list dto_directory_grant))"

definition client_create_directory ::
  "'w transport \<Rightarrow> console_api_client \<Rightarrow> console_directory_payload \<Rightarrow>
   ('w, console_api_error, console_directory_grant) op" where
  "client_create_directory tr c input =
     post_json tr c ''/v1/directories/grant'' (directory_payload_json input)
       (envelope ''directory'' dto_directory_grant)"

definition client_delete_directory :: "'w transport \<Rightarrow> console_api_client \<Rightarrow> string \<Rightarrow> ('w, console_api_error, unit) op" where
  "client_delete_directory tr c directory_id = delete_path tr c (''/v1/directories/'' @ id_path_segment directory_id)"

definition client_tasks :: "'w transport \<Rightarrow> console_api_client \<Rightarrow> ('w, console_api_error, console_task list) op" where
  "client_tasks tr c = get_json tr c ''/v1/tasks'' (envelope ''tasks'' (dec_list dto_task))"

definition client_task :: "'w transport \<Rightarrow> console_api_client \<Rightarrow> string \<Rightarrow> ('w, console_api_error, console_task) op" where
  "client_task tr c tid =
     get_json tr c (''/v1/tasks/'' @ id_path_segment tid) (envelope ''task'' dto_task)"

definition client_create_task ::
  "'w transport \<Rightarrow> console_api_client \<Rightarrow> console_task_payload \<Rightarrow> ('w, console_api_error, console_task) op" where
  "client_create_task tr c input =
     post_json tr c ''/v1/tasks'' (task_payload_json input) (envelope ''task'' dto_task)"

definition client_cancel_task :: "'w transport \<Rightarrow> console_api_client \<Rightarrow> string \<Rightarrow> ('w, console_api_error, console_task) op" where
  "client_cancel_task tr c tid =
     post_json tr c (''/v1/tasks/'' @ id_path_segment tid @ ''/cancel'') Null (envelope ''task'' dto_task)"

definition client_permissions ::
  "'w transport \<Rightarrow> console_api_client \<Rightarrow> ('w, console_api_error, console_permission list) op" where
  "client_permissions tr c =
     get_json tr c ''/v1/permissions?status=pending'' (envelope ''permissions'' (dec_list dto_permission))"

definition client_respond_to_permission ::
  "'w transport \<Rightarrow> console_api_client \<Rightarrow> string \<Rightarrow> string \<Rightarrow> permission_decision \<Rightarrow> string option \<Rightarrow>
   ('w, console_api_error, console_task) op" where
  "client_respond_to_permission tr c tid request_id decision reason =
     and_then (post_json tr c (''/v1/tasks/'' @ id_path_segment tid @ ''/events'')
       (permission_payload_json \<lparr> ypm_event_type = ''provider.permission_response'', ypm_request_id = request_id,
          ypm_decision = decision, ypm_reason = reason \<rparr>) Some) (\<lambda>_.
     client_task tr c tid)"

section \<open>Event streams\<close>

record event_cursor =
  ec_latest_sequence :: "nat option"

definition cursor_observe :: "console_event \<Rightarrow> event_cursor \<Rightarrow> event_cursor" where
  "cursor_observe e c = c\<lparr> ec_latest_sequence := Some
     (case ec_latest_sequence c of None \<Rightarrow> cev_sequence e | Some current \<Rightarrow> max current (cev_sequence e)) \<rparr>"

text \<open>\<open>sort_by_key\<close> is stable, as \<open>sort_key\<close> is.\<close>

definition apply_sse_event :: "console_event \<Rightarrow> console_event list \<Rightarrow> console_event list" where
  "apply_sse_event next events =
     sort_key cev_sequence (filter (\<lambda>e. cev_sequence e \<noteq> cev_sequence next) events @ [next])"

text \<open>
  \<open>str::lines\<close>: the pieces between line feeds, without the last one where it is empty, each without a final
  carriage return that stood before its line feed.
\<close>

definition strip_cr :: "string \<Rightarrow> string" where
  "strip_cr l = (if l \<noteq> [] \<and> last l = CHR 0x0D then butlast l else l)"

definition str_lines :: "string \<Rightarrow> string list" where
  "str_lines s = (let ps = split_on (CHR 0x0A) s in
     map strip_cr (butlast ps) @ (if last ps = [] then [] else [last ps]))"

fun join_lines :: "string list \<Rightarrow> string" where
  "join_lines [] = []"
| "join_lines [l] = l"
| "join_lines (l # ls) = l @ CHR 0x0A # join_lines ls"

definition sse_data :: "string \<Rightarrow> string list" where
  "sse_data line =
     (if line = [] \<or> prefix '':'' line \<or> prefix ''event:'' line then []
      else case strip_prefix ''data:'' line of None \<Rightarrow> [] | Some rest \<Rightarrow> [trim_start rest])"

text \<open>\<open>parse\<close> is serde's parser from text to an event, with its message where it fails.\<close>

definition parse_sse_block ::
  "(string \<Rightarrow> string + console_event) \<Rightarrow> string \<Rightarrow> console_api_error + console_event option" where
  "parse_sse_block parse block =
     (let data = concat (map sse_data (str_lines block)) in
      if data = [] then Inr None
      else case parse (join_lines data) of Inl m \<Rightarrow> Inl (DecodeFailed m) | Inr e \<Rightarrow> Inr (Some e))"

section \<open>Offered actions\<close>

definition console_has_scope :: "console_session \<Rightarrow> string \<Rightarrow> bool" where
  "console_has_scope session scope \<longleftrightarrow>
     csn_credential_type session = ''bootstrap'' \<or> scope \<in> set (csn_scopes session)"

definition can_use_direct_mode ::
  "console_session \<Rightarrow> console_agent_profile \<Rightarrow> console_directory_grant \<Rightarrow> bool" where
  "can_use_direct_mode session agent grant \<longleftrightarrow>
     console_has_scope session ''directories:direct'' \<and>
     cep_allow_direct_directory (cag_execution_policy agent) \<and> Direct \<in> set (cdg_workspace_modes grant)"

definition can_use_remote_execution ::
  "console_session \<Rightarrow> console_directory_grant \<Rightarrow> console_capability list \<Rightarrow> bool" where
  "can_use_remote_execution session grant capabilities \<longleftrightarrow>
     console_has_scope session ''tasks:remote_execution'' \<and> cdg_allow_remote_execution grant \<and>
     RemoteExecution \<in> set capabilities"

end
