(* ===== verification/Console_State.thy ===== *)
theory Console_State
  imports Console_Client
begin

text \<open>
  The state of the console and what changes it: \<open>crates/opendaemon-console-ui/src/state\<close> and the forms of
  \<open>routes\<close>. The signals of \<open>AppState\<close> and the entry of the browser's local storage are a record.

  Work that waits for the daemon is spawned as a job and goes on when the answer is there; other jobs and the
  user's actions run in between. A job is what is left to do after such a wait; finishing one changes the
  state and may leave another. Answers are arbitrary results of the client's calls.
\<close>

section \<open>Forms\<close>

text \<open>\<open>csv\<close>, the choices of the forms and the URL of the daemon; \<open>parse\<close> is serde's parser.\<close>

definition csv :: "string \<Rightarrow> string list" where
  "csv input = filter (\<lambda>v. v \<noteq> []) (map trim (split_on (CHR '','') input))"

definition form_workspace_mode :: "string \<Rightarrow> workspace_mode" where
  "form_workspace_mode v = (if v = ''direct'' then Direct else Worktree)"

definition optional_string :: "string \<Rightarrow> string option" where
  "optional_string v = (if trim v = [] then None else Some (trim v))"

definition optional_json :: "(string \<Rightarrow> json option) \<Rightarrow> string \<Rightarrow> json option" where
  "optional_json parse v = Option.bind (optional_string v) parse"

definition default_execution_policy :: "bool \<Rightarrow> console_execution_policy" where
  "default_execution_policy allow_direct_directory =
     \<lparr> cep_default_workspace_mode = (if allow_direct_directory then Direct else Worktree),
       cep_allow_direct_directory = allow_direct_directory \<rparr>"

definition form_provider_config ::
  "(string \<Rightarrow> json option) \<Rightarrow> string \<Rightarrow> string \<Rightarrow> string \<Rightarrow> string \<Rightarrow> console_provider_config" where
  "form_provider_config parse permission_mode custom_args custom_env_keys mcp_config =
     \<lparr> cpc_permission_mode = optional_string permission_mode, cpc_custom_args = csv custom_args,
       cpc_custom_env_keys = csv custom_env_keys, cpc_mcp_config = optional_json parse mcp_config \<rparr>"

definition normalize_base_url :: "string \<Rightarrow> string" where
  "normalize_base_url input =
     (if trim input = [] then ''http://127.0.0.1:19514'' else trim_end_slashes (trim input))"

text \<open>The scopes the form for a new token starts with.\<close>

definition default_scopes :: "string list" where
  "default_scopes = [''agents:read'', ''agents:write'', ''directories:read'', ''directories:grant'', ''tasks:read'',
     ''tasks:create'', ''tasks:cancel'', ''runtimes:read'', ''runtimes:detect'']"

fun join_with :: "string \<Rightarrow> string list \<Rightarrow> string" where
  "join_with sep [] = []"
| "join_with sep [x] = x"
| "join_with sep (x # xs) = x @ sep @ join_with sep xs"

text \<open>What the forms submit, from the contents of their fields.\<close>

record agent_form =
  fa_id :: string
  fa_name :: string
  fa_owner_product_id :: string
  fa_provider_id :: string
  fa_model :: string
  fa_permission_mode :: string
  fa_instructions :: string
  fa_allow_direct_directory :: bool
  fa_custom_args :: string
  fa_custom_env_keys :: string
  fa_mcp_config :: string

definition agent_form_payload :: "(string \<Rightarrow> json option) \<Rightarrow> agent_form \<Rightarrow> console_agent_payload" where
  "agent_form_payload parse f =
     \<lparr> yag_id = fa_id f, yag_name = fa_name f, yag_owner_product_id = fa_owner_product_id f,
       yag_provider_id = fa_provider_id f, yag_model = fa_model f,
       yag_instructions = optional_string (fa_instructions f),
       yag_execution_policy = default_execution_policy (fa_allow_direct_directory f),
       yag_provider_config = form_provider_config parse (fa_permission_mode f) (fa_custom_args f)
         (fa_custom_env_keys f) (fa_mcp_config f) \<rparr>"

record directory_form =
  fd_product_id :: string
  fd_agent_id :: string
  fd_path :: string
  fd_capabilities :: string
  fd_workspace_worktree :: bool
  fd_workspace_direct :: bool
  fd_default_mode :: string
  fd_lock_policy :: string
  fd_direct_opt_in :: bool
  fd_allow_remote_execution :: bool

definition directory_form_payload :: "directory_form \<Rightarrow> console_directory_payload" where
  "directory_form_payload f =
     \<lparr> ydg_product_id = fd_product_id f, ydg_agent_id = fd_agent_id f, ydg_path = fd_path f,
       ydg_capabilities = csv (fd_capabilities f),
       ydg_workspace_modes = (if fd_workspace_worktree f then [Worktree] else []) @
         (if fd_workspace_direct f then [Direct] else []),
       ydg_default_workspace_mode = form_workspace_mode (fd_default_mode f),
       ydg_lock_policy = fd_lock_policy f,
       ydg_direct_mode_requires_explicit_task_opt_in = fd_direct_opt_in f,
       ydg_allow_remote_execution = fd_allow_remote_execution f \<rparr>"

record task_form =
  ft_owner_product_id :: string
  ft_agent_id :: string
  ft_directory_id :: string
  ft_prompt :: string
  ft_capabilities :: string
  ft_workspace :: string
  ft_direct_opt_in :: bool
  ft_metadata :: string
  ft_timeout_seconds :: string

text \<open>\<open>str::parse::<u64>\<close>: an optional plus sign and digits whose value fits.\<close>

definition parse_u64 :: "string \<Rightarrow> nat option" where
  "parse_u64 s = (let ds = (if prefix ''+'' s then drop 1 s else s) in
     if ds \<noteq> [] \<and> list_all is_digit ds \<and> read_nat ds < 2 ^ 64 then Some (read_nat ds) else None)"

definition task_form_payload :: "(string \<Rightarrow> json option) \<Rightarrow> task_form \<Rightarrow> console_task_payload" where
  "task_form_payload parse f =
     \<lparr> ytk_owner_product_id = ft_owner_product_id f, ytk_agent_id = ft_agent_id f,
       ytk_directory_id = ft_directory_id f, ytk_prompt = ft_prompt f,
       ytk_required_capabilities = csv (ft_capabilities f),
       ytk_workspace_mode = form_workspace_mode (ft_workspace f),
       ytk_direct_mode_task_opt_in = ft_direct_opt_in f,
       ytk_metadata = optional_json parse (ft_metadata f),
       ytk_timeout_seconds = parse_u64 (ft_timeout_seconds f) \<rparr>"

definition product_form_payload :: "string \<Rightarrow> string \<Rightarrow> string \<Rightarrow> console_product_payload" where
  "product_form_payload product_id display_name description =
     \<lparr> ypr_id = product_id, ypr_display_name = display_name, ypr_description = optional_string description \<rparr>"

definition token_form_payload :: "string \<Rightarrow> string \<Rightarrow> console_token_payload" where
  "token_form_payload label scopes = \<lparr> ypt_label = label, ypt_scopes = csv scopes \<rparr>"

definition route_from_path :: "string \<Rightarrow> string" where
  "route_from_path path = (let p = trim_end_slashes path in
     if p = ''/console/products'' then ''products''
     else if p = ''/console/providers'' then ''providers''
     else if p = ''/console/agents'' then ''agents''
     else if p = ''/console/directories'' then ''directories''
     else if p = ''/console/tasks'' then ''tasks''
     else if p = ''/console/permissions'' then ''permissions''
     else if p = ''/console/settings'' then ''settings''
     else ''overview'')"

section \<open>State\<close>

record stored_session =
  so_base_url :: string
  so_credential_mode :: string
  so_bearer_token :: string
  so_last_route :: string
  so_active_task_id :: "string option"

record auth_state =
  au_stored :: stored_session
  au_session :: console_session

record console_resources =
  cr_status :: "console_daemon_status option"
  cr_products :: "console_product list"
  cr_providers :: "console_provider list"
  cr_runtimes :: "console_runtime_view list"
  cr_agents :: "console_agent_profile list"
  cr_directories :: "console_directory_grant list"
  cr_tasks :: "console_task list"
  cr_permissions :: "console_permission list"

definition no_resources :: console_resources where
  "no_resources = \<lparr> cr_status = None, cr_products = [], cr_providers = [], cr_runtimes = [], cr_agents = [],
     cr_directories = [], cr_tasks = [], cr_permissions = [] \<rparr>"

text \<open>\<open>ui_storage\<close> is the session the stored text decodes to; \<open>ui_has_storage\<close> says whether there is a storage.\<close>

record console_state =
  ui_auth :: "auth_state option"
  ui_resources :: console_resources
  ui_active_task_id :: "string option"
  ui_loading :: bool
  ui_notice :: "string option"
  ui_error :: "string option"
  ui_created_token :: "console_created_token option"
  ui_has_storage :: bool
  ui_storage :: "stored_session option"

definition console_new :: "bool \<Rightarrow> stored_session option \<Rightarrow> console_state" where
  "console_new has_storage stored =
     \<lparr> ui_auth = None, ui_resources = no_resources, ui_active_task_id = None, ui_loading = False, ui_notice = None,
       ui_error = None, ui_created_token = None, ui_has_storage = has_storage, ui_storage = stored \<rparr>"

definition load_stored_session :: "console_state \<Rightarrow> stored_session option" where
  "load_stored_session st = (if ui_has_storage st then ui_storage st else None)"

definition save_stored_session :: "stored_session \<Rightarrow> console_state \<Rightarrow> console_state" where
  "save_stored_session so st = (if ui_has_storage st then st\<lparr> ui_storage := Some so \<rparr> else st)"

definition remove_stored_session :: "console_state \<Rightarrow> console_state" where
  "remove_stored_session st = (if ui_has_storage st then st\<lparr> ui_storage := None \<rparr> else st)"

definition console_client :: "console_state \<Rightarrow> console_api_client option" where
  "console_client st =
     map_option (\<lambda>a. client_new (so_base_url (au_stored a)) (so_bearer_token (au_stored a))) (ui_auth st)"

definition set_error :: "string \<Rightarrow> console_state \<Rightarrow> console_state" where
  "set_error m st = st\<lparr> ui_error := Some m, ui_notice := None \<rparr>"

definition set_notice :: "string \<Rightarrow> console_state \<Rightarrow> console_state" where
  "set_notice m st = st\<lparr> ui_notice := Some m, ui_error := None \<rparr>"

definition sign_out :: "console_state \<Rightarrow> console_state" where
  "sign_out st = set_notice ''Signed out'' ((remove_stored_session st)
     \<lparr> ui_auth := None, ui_resources := no_resources, ui_active_task_id := None, ui_created_token := None \<rparr>)"

definition loaded :: "console_state \<Rightarrow> console_state" where
  "loaded st = st\<lparr> ui_loading := False \<rparr>"

section \<open>Jobs\<close>

datatype console_action =
    DoCreateProduct console_product_payload
  | DoCreateProductToken string console_token_payload
  | DoDetectRuntimes
  | DoCreateAgent console_agent_payload
  | DoCreateDirectory console_directory_payload
  | DoCreateTask console_task_payload
  | DoCancelTask string
  | DoRespondToPermission string string permission_decision "string option"

datatype console_job =
    BootstrapJob stored_session
  | ConnectJob stored_session
  | RefreshJob console_api_client bool
  | ActionJob console_api_client console_action

text \<open>\<open>refresh_all\<close> up to its first wait: the client and the kind of credential are read here.\<close>

definition refresh_begin :: "console_state \<Rightarrow> console_state \<times> console_job list" where
  "refresh_begin st =
     (case console_client st of
        None \<Rightarrow> (st, [])
      | Some c \<Rightarrow> (st\<lparr> ui_loading := True, ui_error := None \<rparr>,
          [RefreshJob c (is_some_and (ui_auth st) (\<lambda>a. csn_credential_type (au_session a) = ''bootstrap''))]))"

record refresh_answers =
  ra_status :: "console_api_error + console_daemon_status"
  ra_products :: "console_api_error + console_product list"
  ra_providers :: "console_api_error + console_provider list"
  ra_runtimes :: "console_api_error + console_runtime_view list"
  ra_agents :: "console_api_error + console_agent_profile list"
  ra_directories :: "console_api_error + console_directory_grant list"
  ra_tasks :: "console_api_error + console_task list"
  ra_permissions :: "console_api_error + console_permission list"

text \<open>One arm per request: the value goes into the resources, the error to the list of errors.\<close>

definition collect ::
  "string \<Rightarrow> console_api_error + 'a \<Rightarrow> ('a \<Rightarrow> console_resources \<Rightarrow> console_resources) \<Rightarrow>
   console_resources \<times> string list \<Rightarrow> console_resources \<times> string list" where
  "collect name answer put acc = (case acc of (resources, errors) \<Rightarrow>
     (case answer of
        Inr value \<Rightarrow> (put value resources, errors)
      | Inl error \<Rightarrow> (resources, errors @ [name @ '': '' @ console_error_message error])))"

definition refresh_collect :: "bool \<Rightarrow> refresh_answers \<Rightarrow> console_resources \<times> string list" where
  "refresh_collect is_bootstrap r =
     (let a1 = collect ''status'' (ra_status r) (\<lambda>v x. x\<lparr> cr_status := Some v \<rparr>) (no_resources, []);
          a2 = (if is_bootstrap then collect ''products'' (ra_products r) (\<lambda>v x. x\<lparr> cr_products := v \<rparr>) a1 else a1);
          a3 = collect ''providers'' (ra_providers r) (\<lambda>v x. x\<lparr> cr_providers := v \<rparr>) a2;
          a4 = collect ''runtimes'' (ra_runtimes r) (\<lambda>v x. x\<lparr> cr_runtimes := v \<rparr>) a3
      in if is_bootstrap then a4
         else collect ''permissions'' (ra_permissions r) (\<lambda>v x. x\<lparr> cr_permissions := v \<rparr>)
             (collect ''tasks'' (ra_tasks r) (\<lambda>v x. x\<lparr> cr_tasks := v \<rparr>)
             (collect ''directories'' (ra_directories r) (\<lambda>v x. x\<lparr> cr_directories := v \<rparr>)
             (collect ''agents'' (ra_agents r) (\<lambda>v x. x\<lparr> cr_agents := v \<rparr>) a4))))"

definition refresh_finish :: "bool \<Rightarrow> refresh_answers \<Rightarrow> console_state \<Rightarrow> console_state" where
  "refresh_finish is_bootstrap r st =
     (case refresh_collect is_bootstrap r of (resources, errors) \<Rightarrow>
        (let st1 = st\<lparr> ui_resources := resources \<rparr>;
             st2 = (if errors = [] then set_notice ''Refreshed'' st1 else set_error (join_with ''; '' errors) st1)
         in loaded st2))"

text \<open>The end of an action that refreshes: where nobody is signed in the refresh does nothing.\<close>

definition then_refresh :: "console_state \<Rightarrow> console_state \<times> console_job list" where
  "then_refresh st = (case refresh_begin st of (st', []) \<Rightarrow> (loaded st', []) | r \<Rightarrow> r)"

definition bootstrap_from_storage :: "console_state \<Rightarrow> console_state \<times> console_job list" where
  "bootstrap_from_storage st =
     (st, case load_stored_session st of None \<Rightarrow> [] | Some so \<Rightarrow> [BootstrapJob so])"

definition bootstrap_finish ::
  "stored_session \<Rightarrow> console_api_error + console_session \<Rightarrow> console_state \<Rightarrow> console_state \<times> console_job list" where
  "bootstrap_finish so answer st =
     (case answer of
        Inr session \<Rightarrow> refresh_begin (st\<lparr> ui_active_task_id := so_active_task_id so,
          ui_auth := Some \<lparr> au_stored = so, au_session = session \<rparr> \<rparr>)
      | Inl error \<Rightarrow> (set_error (''Stored session expired: '' @ console_error_message error)
          (remove_stored_session st), []))"

definition connect ::
  "string \<Rightarrow> string \<Rightarrow> string \<Rightarrow> string \<Rightarrow> console_state \<Rightarrow> console_state \<times> console_job list" where
  "connect base_url credential_mode token current_route st =
     (st\<lparr> ui_loading := True, ui_error := None, ui_notice := None \<rparr>,
      [ConnectJob \<lparr> so_base_url = normalize_base_url base_url, so_credential_mode = credential_mode,
         so_bearer_token = token, so_last_route = current_route, so_active_task_id = None \<rparr>])"

definition connect_finish ::
  "stored_session \<Rightarrow> console_api_error + console_session \<Rightarrow> console_state \<Rightarrow> console_state \<times> console_job list" where
  "connect_finish so answer st =
     (case answer of
        Inr session \<Rightarrow> then_refresh (set_notice ''Connected''
          ((save_stored_session so st)\<lparr> ui_auth := Some \<lparr> au_stored = so, au_session = session \<rparr> \<rparr>))
      | Inl error \<Rightarrow> (loaded (set_error (''Login failed: '' @ console_error_message error) st), []))"

definition start_action :: "console_action \<Rightarrow> console_state \<Rightarrow> console_state \<times> console_job list" where
  "start_action action st =
     (case console_client st of
        None \<Rightarrow> (st, [])
      | Some c \<Rightarrow> (st\<lparr> ui_loading := True \<rparr>, [ActionJob c action]))"

definition action_failed :: "string \<Rightarrow> console_api_error \<Rightarrow> console_state \<Rightarrow> console_state \<times> console_job list" where
  "action_failed what error st = (loaded (set_error (what @ '': '' @ console_error_message error) st), [])"

definition create_product_finish ::
  "console_api_error + console_product \<Rightarrow> console_state \<Rightarrow> console_state \<times> console_job list" where
  "create_product_finish answer st =
     (case answer of
        Inr _ \<Rightarrow> then_refresh (set_notice ''Product created'' st)
      | Inl error \<Rightarrow> action_failed ''Create product failed'' error st)"

definition create_product_token_finish ::
  "console_api_error + console_created_token \<Rightarrow> console_state \<Rightarrow> console_state \<times> console_job list" where
  "create_product_token_finish answer st =
     (case answer of
        Inr token \<Rightarrow> (loaded (set_notice ''Product token created'' (st\<lparr> ui_created_token := Some token \<rparr>)), [])
      | Inl error \<Rightarrow> action_failed ''Create token failed'' error st)"

definition detect_runtimes_finish ::
  "console_api_error + console_runtime_view list \<Rightarrow> console_state \<Rightarrow> console_state \<times> console_job list" where
  "detect_runtimes_finish answer st =
     (case answer of
        Inr runtimes \<Rightarrow> (loaded (set_notice ''Runtime detection finished''
          (st\<lparr> ui_resources := (ui_resources st)\<lparr> cr_runtimes := runtimes \<rparr> \<rparr>)), [])
      | Inl error \<Rightarrow> action_failed ''Detect runtimes failed'' error st)"

definition create_agent_finish ::
  "console_api_error + console_agent_profile \<Rightarrow> console_state \<Rightarrow> console_state \<times> console_job list" where
  "create_agent_finish answer st =
     (case answer of
        Inr _ \<Rightarrow> then_refresh (set_notice ''Agent saved'' st)
      | Inl error \<Rightarrow> action_failed ''Save agent failed'' error st)"

definition create_directory_finish ::
  "console_api_error + console_directory_grant \<Rightarrow> console_state \<Rightarrow> console_state \<times> console_job list" where
  "create_directory_finish answer st =
     (case answer of
        Inr _ \<Rightarrow> then_refresh (set_notice ''Directory grant saved'' st)
      | Inl error \<Rightarrow> action_failed ''Save directory failed'' error st)"

definition create_task_finish ::
  "console_api_error + console_task \<Rightarrow> console_state \<Rightarrow> console_state \<times> console_job list" where
  "create_task_finish answer st =
     (case answer of
        Inr task \<Rightarrow> then_refresh (set_notice ''Task created'' (st\<lparr> ui_active_task_id := Some (ctk_id task) \<rparr>))
      | Inl error \<Rightarrow> action_failed ''Create task failed'' error st)"

definition cancel_task_finish ::
  "console_api_error + console_task \<Rightarrow> console_state \<Rightarrow> console_state \<times> console_job list" where
  "cancel_task_finish answer st =
     (case answer of
        Inr task \<Rightarrow> then_refresh (set_notice ''Task cancelled'' (st\<lparr> ui_active_task_id := Some (ctk_id task) \<rparr>))
      | Inl error \<Rightarrow> action_failed ''Cancel task failed'' error st)"

definition respond_to_permission_finish ::
  "console_api_error + console_task \<Rightarrow> console_state \<Rightarrow> console_state \<times> console_job list" where
  "respond_to_permission_finish answer st =
     (case answer of
        Inr task \<Rightarrow> then_refresh (set_notice ''Permission response sent''
          (st\<lparr> ui_active_task_id := Some (ctk_id task) \<rparr>))
      | Inl error \<Rightarrow> action_failed ''Permission response failed'' error st)"

text \<open>What can be left after a wait: one rule per job, with any answer.\<close>

inductive job_finishes :: "console_job \<Rightarrow> console_state \<Rightarrow> console_state \<times> console_job list \<Rightarrow> bool" where
  "job_finishes (BootstrapJob so) st (bootstrap_finish so answer st)"
| "job_finishes (ConnectJob so) st (connect_finish so answer st)"
| "job_finishes (RefreshJob c b) st (refresh_finish b answers st, [])"
| "job_finishes (ActionJob c (DoCreateProduct p)) st (create_product_finish answer_product st)"
| "job_finishes (ActionJob c (DoCreateProductToken i p')) st (create_product_token_finish answer_token st)"
| "job_finishes (ActionJob c DoDetectRuntimes) st (detect_runtimes_finish answer_runtimes st)"
| "job_finishes (ActionJob c (DoCreateAgent pa)) st (create_agent_finish answer_agent st)"
| "job_finishes (ActionJob c (DoCreateDirectory pd)) st (create_directory_finish answer_directory st)"
| "job_finishes (ActionJob c (DoCreateTask pt)) st (create_task_finish answer_task st)"
| "job_finishes (ActionJob c (DoCancelTask t)) st (cancel_task_finish answer_task st)"
| "job_finishes (ActionJob c (DoRespondToPermission t q d reason)) st (respond_to_permission_finish answer_task st)"

inductive console_step :: "console_state \<times> console_job list \<Rightarrow> console_state \<times> console_job list \<Rightarrow> bool" where
  step_connect: "connect u m t r st = (st', new) \<Longrightarrow> console_step (st, jobs) (st', jobs @ new)"
| step_refresh: "refresh_begin st = (st', new) \<Longrightarrow> console_step (st, jobs) (st', jobs @ new)"
| step_action: "start_action action st = (st', new) \<Longrightarrow> console_step (st, jobs) (st', jobs @ new)"
| step_sign_out: "console_step (st, jobs) (sign_out st, jobs)"
| step_select: "ui_auth st \<noteq> None \<Longrightarrow> task \<in> set (cr_tasks (ui_resources st)) \<Longrightarrow>
    console_step (st, jobs) (st\<lparr> ui_active_task_id := Some (ctk_id task) \<rparr>, jobs)"
| step_finish: "job_finishes job st (st', new) \<Longrightarrow>
    console_step (st, before @ job # after) (st', before @ after @ new)"

inductive console_reachable :: "console_state \<times> console_job list \<Rightarrow> bool" where
  console_begin: "console_reachable (bootstrap_from_storage (console_new has_storage stored))"
| console_next: "console_reachable x \<Longrightarrow> console_step x y \<Longrightarrow> console_reachable y"

section \<open>Transcripts\<close>

record task_transcript =
  tt_events :: "console_event list"
  tt_cursor :: event_cursor

definition transcript_new :: task_transcript where
  "transcript_new = \<lparr> tt_events = [], tt_cursor = \<lparr> ec_latest_sequence = None \<rparr> \<rparr>"

definition transcript_apply :: "console_event \<Rightarrow> task_transcript \<Rightarrow> task_transcript" where
  "transcript_apply e t =
     \<lparr> tt_events = sort_key cev_sequence (tt_events t @ [e]), tt_cursor = cursor_observe e (tt_cursor t) \<rparr>"

definition latest_cursor :: "task_transcript \<Rightarrow> nat option" where
  "latest_cursor t = ec_latest_sequence (tt_cursor t)"

end
