(* ===== verification/Console_Codec.thy ===== *)
theory Console_Codec
  imports Console_Client
begin

text \<open>
  The two ends of the wire agree. \<open>wire_codec\<close> is the contract of one kind of data: what the daemon writes, the
  console reads as the given view of it. It is interpreted for every kind of data the console receives, and
  carries over to lists and to the named fields of responses. The last section does the same for the
  request bodies, and shows two that the daemon refuses.
\<close>

section \<open>The contract\<close>

locale wire_codec =
  fixes enc :: "'a \<Rightarrow> json" and dec :: "json \<Rightarrow> 'b option" and view :: "'a \<Rightarrow> 'b" and fits :: "'a \<Rightarrow> bool"
  assumes decode_encode: "fits x \<Longrightarrow> dec (enc x) = Some (view x)"
begin

lemma decode_list: "list_all fits xs \<Longrightarrow> dec_list dec (Array (map enc xs)) = Some (map view xs)"
  by (induction xs) (simp_all add: decode_encode)

lemma decode_envelope: "fits x \<Longrightarrow> envelope k dec (Object [(k, enc x)]) = Some (view x)"
  by (simp add: envelope_def field_def decode_encode)

lemma decode_list_envelope:
  "list_all fits xs \<Longrightarrow> envelope k (dec_list dec) (Object [(k, Array (map enc xs))]) = Some (map view xs)"
  using decode_list [of xs] by (simp add: envelope_def field_def)

end

section \<open>Views\<close>

text \<open>A JSON value that is itself null is written like an absent one.\<close>

definition drop_null :: "json option \<Rightarrow> json option" where
  "drop_null x = (if x = Some Null then None else x)"

definition fits_u64 :: "nat \<Rightarrow> bool" where
  "fits_u64 n \<longleftrightarrow> n < 2 ^ 64"

definition result_view :: "task_result \<Rightarrow> console_task_result" where
  "result_view r = \<lparr> ctr_task_id = tr_task_id r, ctr_status = tr_status r, ctr_final_message = tr_final_message r,
     ctr_changed_files = tr_changed_files r, ctr_diff = tr_diff r, ctr_workspace_mode = tr_workspace_mode r,
     ctr_session_id = tr_session_id r, ctr_provider_result = drop_null (tr_provider_result r),
     ctr_usage = drop_null (tr_usage r), ctr_artifacts = tr_artifacts r,
     ctr_error = map_option Str (tr_error r) \<rparr>"

definition task_dto_view :: "task \<Rightarrow> console_task" where
  "task_dto_view t = \<lparr> ctk_id = task_id t, ctk_owner_product_id = task_owner_product_id t,
     ctk_agent_id = task_agent_id t, ctk_directory_id = task_directory_id t, ctk_prompt = task_prompt t,
     ctk_required_capabilities = map capability_str (task_required_capabilities t),
     ctk_workspace_mode = task_workspace_mode t, ctk_direct_mode_task_opt_in = task_direct_mode_task_opt_in t,
     ctk_metadata = drop_null (task_metadata t), ctk_provider_id = task_provider_id t, ctk_model = task_model t,
     ctk_permission_mode = task_permission_mode t, ctk_timeout_seconds = task_timeout_seconds t,
     ctk_status = task_status t, ctk_result = map_option result_view (task_result t),
     ctk_created_at = task_created_at t, ctk_updated_at = task_updated_at t, ctk_started_at = task_started_at t,
     ctk_completed_at = task_completed_at t, ctk_cancelled_at = task_cancelled_at t,
     ctk_failed_at = task_failed_at t \<rparr>"

definition task_fits :: "task \<Rightarrow> bool" where
  "task_fits t \<longleftrightarrow> is_none_or (task_timeout_seconds t) fits_u64"

definition event_dto_view :: "task_event_view \<Rightarrow> console_event" where
  "event_dto_view e = \<lparr> cev_task_id = evv_task_id e, cev_sequence = evv_sequence e,
     cev_type = event_type_as_str (evv_event_type e), cev_payload = evv_payload e, cev_created_at = evv_created_at e \<rparr>"

definition event_fits :: "task_event_view \<Rightarrow> bool" where
  "event_fits e \<longleftrightarrow> fits_u64 (evv_sequence e)"

definition permission_dto_view :: "permission_response \<Rightarrow> console_permission" where
  "permission_dto_view p = \<lparr> cpm_task_id = ps_task_id p, cpm_request_id = ps_request_id p,
     cpm_provider_id = ps_provider_id p, cpm_permission_kind = ps_permission_kind p, cpm_summary = ps_summary p,
     cpm_details = drop_null (ps_details p), cpm_options = ps_options p, cpm_expires_at = ps_expires_at p,
     cpm_created_at = ps_created_at p \<rparr>"

definition grant_dto_view :: "directory_grant \<Rightarrow> console_directory_grant" where
  "grant_dto_view g = \<lparr> cdg_id = dg_id g, cdg_product_id = dg_product_id g, cdg_agent_id = dg_agent_id g,
     cdg_path = dg_path g, cdg_capabilities = map capability_str (dg_capabilities g),
     cdg_workspace_modes = dg_workspace_modes g, cdg_default_workspace_mode = dg_default_workspace_mode g,
     cdg_lock_policy = lock_policy_str (dg_lock_policy g),
     cdg_direct_mode_requires_explicit_task_opt_in = dg_direct_mode_requires_explicit_task_opt_in g,
     cdg_allow_remote_execution = dg_allow_remote_execution g, cdg_created_at = Some (dg_created_at g),
     cdg_updated_at = Some (dg_updated_at g) \<rparr>"

fun of_agent_workspace_mode :: "agent_workspace_mode \<Rightarrow> workspace_mode" where
  "of_agent_workspace_mode AgentWorktree = Worktree"
| "of_agent_workspace_mode AgentDirect = Direct"

definition agent_dto_view :: "agent_profile \<Rightarrow> console_agent_profile" where
  "agent_dto_view a = \<lparr> cag_id = ap_id a, cag_name = ap_name a, cag_owner_product_id = ap_owner_product_id a,
     cag_provider_id = ap_provider_id a, cag_model = ap_model a, cag_instructions = ap_instructions a,
     cag_execution_policy =
       \<lparr> cep_default_workspace_mode = of_agent_workspace_mode (ep_default_workspace_mode (ap_execution_policy a)),
         cep_allow_direct_directory = ep_allow_direct_directory (ap_execution_policy a) \<rparr>,
     cag_provider_config =
       \<lparr> cpc_permission_mode = Some (cf_permission_mode (ap_provider_config a)),
         cpc_custom_args = cf_custom_args (ap_provider_config a),
         cpc_custom_env_keys = cf_custom_env_keys (ap_provider_config a),
         cpc_mcp_config = drop_null (cf_mcp_config (ap_provider_config a)) \<rparr>,
     cag_created_at = Some (ap_created_at a), cag_updated_at = Some (ap_updated_at a) \<rparr>"

definition product_dto_view :: "product \<Rightarrow> console_product" where
  "product_dto_view p = \<lparr> cpr_id = pr_id p, cpr_display_name = pr_display_name p,
     cpr_status = product_status_str (pr_status p), cpr_description = pr_description p,
     cpr_created_at = pr_created_at p, cpr_updated_at = pr_updated_at p \<rparr>"

definition token_dto_view :: "product_token \<Rightarrow> console_product_token" where
  "token_dto_view t = \<lparr> cpk_id = pt_id t, cpk_product_id = pt_product_id t, cpk_label = pt_label t,
     cpk_scopes = map scope_str (pt_scopes t), cpk_token_prefix = pt_token_prefix t,
     cpk_status = token_status_str (pt_status t), cpk_created_at = pt_created_at t,
     cpk_last_used_at = pt_last_used_at t, cpk_revoked_at = pt_revoked_at t \<rparr>"

definition created_token_dto_view :: "created_product_token \<Rightarrow> console_created_token" where
  "created_token_dto_view t = \<lparr> cct_id = crt_id t, cct_product_id = crt_product_id t, cct_label = crt_label t,
     cct_scopes = map scope_str (crt_scopes t), cct_token_prefix = crt_token_prefix t, cct_token = crt_token t,
     cct_created_at = crt_created_at t \<rparr>"

definition provider_dto_view :: "provider_response \<Rightarrow> console_provider" where
  "provider_dto_view p = \<lparr> cpv_id = pv_id p, cpv_display_name = pv_display_name p,
     cpv_status = provider_status_str (pv_status p),
     cpv_integration_type = integration_type_str (pv_integration_type p),
     cpv_description = pv_description p, cpv_manifest = manifest_to_value (pv_manifest p) \<rparr>"

definition runtime_dto_view :: "runtime_view \<Rightarrow> console_runtime_view" where
  "runtime_dto_view r = \<lparr> crv_id = rv_id r, crv_provider_id = rv_provider_id r,
     crv_kind = runtime_kind_str (rv_kind r), crv_status = runtime_status_str (rv_status r),
     crv_executable = rv_executable r, crv_version = rv_version r, crv_detected_at = rv_detected_at r,
     crv_error = map_option (\<lambda>e. \<lparr> cre_code = re_code e, cre_message = re_message e \<rparr>) (rv_error r) \<rparr>"

definition session_dto_view :: "session_response \<Rightarrow> console_session" where
  "session_dto_view s = \<lparr> csn_credential_type = credential_type_str (ss_credential_type s),
     csn_product_id = ss_product_id s, csn_scopes = map scope_str (ss_scopes s),
     csn_product_status = map_option product_status_str (ss_product_status s) \<rparr>"

definition status_dto_view :: "daemon_status_response \<Rightarrow> console_daemon_status" where
  "status_dto_view d = \<lparr> cds_service = ds_service d, cds_version = ds_version d,
     cds_status = connection_status_str (ds_status d),
     cds_control_plane = \<lparr> ccp_status = connection_status_str (cs_status (ds_control_plane d)),
       ccp_daemon_id = cs_daemon_id (ds_control_plane d),
       ccp_last_heartbeat_at = cs_last_heartbeat_at (ds_control_plane d),
       ccp_last_error_code = cs_last_error_code (ds_control_plane d) \<rparr>,
     cds_scheduler = \<lparr> csc_queued = ds_queued d, csc_running = ds_running d,
       csc_max_concurrent_tasks = ds_max_concurrent_tasks d \<rparr>,
     cds_runtimes = \<lparr> crs_available = rm_available (ds_runtimes d), crs_unavailable = rm_unavailable (ds_runtimes d),
       crs_error = rm_error (ds_runtimes d), crs_not_detected = rm_not_detected (ds_runtimes d) \<rparr>,
     cds_pending_permissions = ds_pending_permissions d \<rparr>"

definition status_fits :: "daemon_status_response \<Rightarrow> bool" where
  "status_fits d \<longleftrightarrow> list_all fits_u64
     [ds_queued d, ds_running d, ds_max_concurrent_tasks d, rm_available (ds_runtimes d),
      rm_unavailable (ds_runtimes d), rm_error (ds_runtimes d), rm_not_detected (ds_runtimes d),
      ds_pending_permissions d]"

section \<open>Fields round trip\<close>

lemma field_simps:
  "field dec (Object ((k, v) # kvs)) k = dec v"
  "j \<noteq> k \<Longrightarrow> field dec (Object ((k, v) # kvs)) j = field dec (Object kvs) j"
  "default_field dec d (Object ((k, v) # kvs)) k = dec v"
  "j \<noteq> k \<Longrightarrow> default_field dec d (Object ((k, v) # kvs)) j = default_field dec d (Object kvs) j"
  "j \<noteq> k \<Longrightarrow> opt_field dec' (Object ((k, v) # kvs)) j = opt_field dec' (Object kvs) j"
  "opt_field dec' (Object []) j = Some None"
  by (simp_all add: field_def default_field_def opt_field_def)

lemma opt_field_codec:
  assumes "\<And>y. x = Some y \<Longrightarrow> f y \<noteq> Null \<and> dec (f y) = Some (g y)"
  shows "opt_field dec (Object ((k, opt_json f x) # kvs)) k = Some (map_option g x)"
proof (cases x)
  case (Some y)
  then show ?thesis using assms [OF Some] by (cases "f y") (simp_all add: opt_field_def opt_json_def)
qed (simp add: opt_field_def opt_json_def)

lemma opt_field_opt_str: "opt_field as_str (Object ((k, opt_str x) # kvs)) k = Some x"
  using opt_field_codec [of x Str as_str id] by (simp add: opt_str_def option.map_id)

lemma opt_field_value: "opt_field Some (Object ((k, opt_json id x) # kvs)) k = Some (drop_null x)"
  by (simp add: opt_field_def opt_json_def drop_null_def split: option.splits json.splits)

lemma enc_u64_not_Null [simp]: "enc_u64 n \<noteq> Null"
  by (simp add: enc_u64_def)

lemma opt_field_u64:
  "is_none_or x fits_u64 \<Longrightarrow> opt_field dec_u64 (Object ((k, opt_json enc_u64 x) # kvs)) k = Some x"
  using opt_field_codec [of x enc_u64 dec_u64 id]
  by (cases x) (simp_all add: is_none_or_def fits_u64_def)

lemma opt_field_Str: "opt_field as_str (Object ((k, Str x) # kvs)) k = Some (Some x)"
  by (simp add: opt_field_def)

lemma dec_strs [simp]: "dec_list as_str (str_list xs) = Some xs"
  by (induction xs) (simp_all add: str_list_def)

lemma dec_values [simp]: "dec_list Some (Array vs) = Some vs"
  by (induction vs) simp_all

lemma dec_modes [simp]: "dto_workspace_mode (Str (workspace_mode_str m)) = Some m"
  by (cases m) (simp_all add: dto_workspace_mode_def dec_enum_def)

lemma dec_agent_mode [simp]: "dto_workspace_mode (Str (agent_workspace_mode_str m)) = Some (of_agent_workspace_mode m)"
  by (cases m) (simp_all add: dto_workspace_mode_def dec_enum_def)

lemma dec_statuses [simp]: "dto_task_status (Str (task_status_str s)) = Some s"
  by (cases s) (simp_all add: dto_task_status_def dec_enum_def)

lemma dec_decisions [simp]: "dto_permission_decision (Str (decision_as_str d)) = Some d"
  by (cases d) (simp_all add: dto_permission_decision_def dec_enum_def)

lemma dec_mode_list [simp]: "dec_list dto_workspace_mode (str_list (map workspace_mode_str ms)) = Some ms"
  by (induction ms) (simp_all add: str_list_def)

lemma dec_decision_list [simp]: "dec_list dto_permission_decision (str_list (map decision_as_str ds)) = Some ds"
  by (induction ds) (simp_all add: str_list_def)

lemmas wire_simps = field_simps opt_field_opt_str opt_field_value opt_field_u64 opt_field_Str

section \<open>What the console receives\<close>

lemma decode_result: "dto_task_result (result_to_value r) = Some (result_view r)"
proof -
  have error: "opt_field Some (Object ((k, opt_str x) # kvs)) k = Some (map_option Str x)" for k x kvs
    using opt_field_codec [of x Str Some Str] by (simp add: opt_str_def)
  show ?thesis
    by (simp add: dto_task_result_def result_to_value_def result_view_def wire_simps error flip: str_list_def)
qed

lemma result_not_Null [simp]: "result_to_value r \<noteq> Null"
  by (simp add: result_to_value_def)

interpretation task_wire: wire_codec task_to_value dto_task task_dto_view task_fits
proof
  fix t
  assume "task_fits t"
  moreover have "opt_field dto_task_result (Object ((k, opt_json result_to_value x) # kvs)) k
      = Some (map_option result_view x)" for k x kvs
    by (rule opt_field_codec) (simp add: decode_result)
  ultimately show "dto_task (task_to_value t) = Some (task_dto_view t)"
    by (simp add: dto_task_def task_to_value_def task_dto_view_def task_fits_def wire_simps)
qed

interpretation event_wire: wire_codec event_view_to_value dto_event event_dto_view event_fits
  by unfold_locales
    (simp add: dto_event_def event_view_to_value_def event_dto_view_def event_fits_def fits_u64_def wire_simps)

interpretation permission_wire: wire_codec permission_to_value dto_permission permission_dto_view "\<lambda>_. True"
  by unfold_locales (simp add: dto_permission_def permission_to_value_def permission_dto_view_def wire_simps)

interpretation grant_wire: wire_codec grant_to_value dto_directory_grant grant_dto_view "\<lambda>_. True"
  by unfold_locales (simp add: dto_directory_grant_def grant_to_value_def grant_dto_view_def wire_simps)

interpretation agent_wire: wire_codec agent_to_value dto_agent_profile agent_dto_view "\<lambda>_. True"
  by unfold_locales
    (simp add: dto_agent_profile_def agent_to_value_def agent_dto_view_def policy_to_value_def config_to_value_def
      dto_execution_policy_def dto_provider_config_def wire_simps)

interpretation product_wire: wire_codec product_to_value dto_product product_dto_view "\<lambda>_. True"
  by unfold_locales (simp add: dto_product_def product_to_value_def product_dto_view_def wire_simps)

interpretation token_wire: wire_codec token_to_value dto_product_token token_dto_view "\<lambda>_. True"
  by unfold_locales (simp add: dto_product_token_def token_to_value_def token_dto_view_def wire_simps)

interpretation created_token_wire: wire_codec created_token_to_value dto_created_token created_token_dto_view "\<lambda>_. True"
  by unfold_locales (simp add: dto_created_token_def created_token_to_value_def created_token_dto_view_def wire_simps)

interpretation provider_wire: wire_codec provider_to_value dto_provider provider_dto_view "\<lambda>_. True"
  by unfold_locales (simp add: dto_provider_def provider_to_value_def provider_dto_view_def wire_simps)

interpretation runtime_wire: wire_codec runtime_to_value dto_runtime_view runtime_dto_view "\<lambda>_. True"
proof
  fix r
  have "opt_field dto_runtime_error (Object ((k, opt_json runtime_error_to_value x) # kvs)) k
      = Some (map_option (\<lambda>e. \<lparr> cre_code = re_code e, cre_message = re_message e \<rparr>) x)" for k x kvs
    by (rule opt_field_codec) (simp add: dto_runtime_error_def runtime_error_to_value_def field_simps)
  then show "dto_runtime_view (runtime_to_value r) = Some (runtime_dto_view r)"
    by (simp add: dto_runtime_view_def runtime_to_value_def runtime_dto_view_def wire_simps)
qed

interpretation session_wire: wire_codec session_to_value dto_session session_dto_view "\<lambda>_. True"
  by unfold_locales (simp add: dto_session_def session_to_value_def session_dto_view_def wire_simps)

interpretation status_wire: wire_codec status_to_value dto_daemon_status status_dto_view status_fits
  by unfold_locales
    (simp add: dto_daemon_status_def status_to_value_def status_dto_view_def status_fits_def fits_u64_def
      dto_control_plane_status_def dto_scheduler_status_def dto_runtime_status_summary_def
      dto_permission_status_def wire_simps)

end
