(* ===== verification/Console_Calls.thy ===== *)
theory Console_Calls
  imports Console_Codec Api_Properties
begin

text \<open>
  The calls of the console against the daemon. \<open>route_method\<close> and \<open>route_segments\<close> are the route table of
  \<open>router_with_state\<close>, read from a request of the interface to the request line that leads to it; \<open>denotes\<close> says that
  an HTTP request is one for a given route with given parameters and body. \<open>perform\<close> runs a call of the
  client, \<open>call_target\<close> is the request of the interface it is meant to be, and \<open>daemon_answer\<close> is what the daemon
  sends back.
\<close>

section \<open>Routes\<close>

datatype path_segment = Lit string | Param string

fun segment_text :: "path_segment \<Rightarrow> string" where
  "segment_text (Lit s) = s"
| "segment_text (Param p) = id_path_segment p"

definition request_target :: "path_segment list \<Rightarrow> string" where
  "request_target segs = concat (map (\<lambda>s. CHR ''/'' # segment_text s) segs)"

fun route_method :: "api_request \<Rightarrow> http_method" where
  "route_method (CreateProduct _) = POST"
| "route_method (PatchProduct _ _) = PATCH"
| "route_method (CreateToken _ _ _) = POST"
| "route_method (RevokeToken _ _) = DELETE"
| "route_method DetectRuntimes = POST"
| "route_method (CreateTask _) = POST"
| "route_method (PostTaskEvent _ _) = POST"
| "route_method (CancelTask _) = POST"
| "route_method (CreateAgent _) = POST"
| "route_method (PatchAgent _ _) = PATCH"
| "route_method (DeleteAgent _) = DELETE"
| "route_method (GrantDirectory _) = POST"
| "route_method (PatchDirectory _ _) = PATCH"
| "route_method (DeleteDirectory _) = DELETE"
| "route_method _ = GET"

text \<open>
  The query belongs to the last segment. The console sends no filters but the one for pending permission
  requests, so the requests with other queries have no segments here.
\<close>

definition no_task_filters :: task_list_query where
  "no_task_filters = \<lparr> tq_owner_product_id = None, tq_agent_id = None, tq_directory_id = None, tq_status = None \<rparr>"

definition no_agent_filters :: agent_list_query where
  "no_agent_filters = \<lparr> gq_owner_product_id = None, gq_provider_id = None \<rparr>"

definition no_directory_filters :: directory_list_query where
  "no_directory_filters = \<lparr> dq_product_id = None, dq_agent_id = None \<rparr>"

fun route_segments :: "api_request \<Rightarrow> path_segment list option" where
  "route_segments GetHealth = Some [Lit ''health'']"
| "route_segments GetSession = Some [Lit ''v1'', Lit ''session'']"
| "route_segments GetDaemonStatus = Some [Lit ''v1'', Lit ''daemon'', Lit ''status'']"
| "route_segments ListProducts = Some [Lit ''v1'', Lit ''products'']"
| "route_segments (CreateProduct _) = Some [Lit ''v1'', Lit ''products'']"
| "route_segments (GetProduct pid) = Some [Lit ''v1'', Lit ''products'', Param pid]"
| "route_segments (PatchProduct pid _) = Some [Lit ''v1'', Lit ''products'', Param pid]"
| "route_segments (ListTokens pid) = Some [Lit ''v1'', Lit ''products'', Param pid, Lit ''tokens'']"
| "route_segments (CreateToken pid _ _) = Some [Lit ''v1'', Lit ''products'', Param pid, Lit ''tokens'']"
| "route_segments (RevokeToken pid tid) = Some [Lit ''v1'', Lit ''products'', Param pid, Lit ''tokens'', Param tid]"
| "route_segments ListProviders = Some [Lit ''v1'', Lit ''providers'']"
| "route_segments (GetProvider pid) = Some [Lit ''v1'', Lit ''providers'', Param pid]"
| "route_segments ListRuntimes = Some [Lit ''v1'', Lit ''runtimes'']"
| "route_segments DetectRuntimes = Some [Lit ''v1'', Lit ''runtimes'', Lit ''detect'']"
| "route_segments (ListTasks q) = (if q = no_task_filters then Some [Lit ''v1'', Lit ''tasks''] else None)"
| "route_segments (CreateTask _) = Some [Lit ''v1'', Lit ''tasks'']"
| "route_segments (ListPermissions st) = Some [Lit ''v1'', Lit (case st of
     None \<Rightarrow> ''permissions'' | Some Pending \<Rightarrow> ''permissions?status=pending''
   | Some Approved \<Rightarrow> ''permissions?status=approved'' | Some Denied \<Rightarrow> ''permissions?status=denied'')]"
| "route_segments (GetTask tid) = Some [Lit ''v1'', Lit ''tasks'', Param tid]"
| "route_segments (TaskEvents tid cursor last_event_id) = (if cursor = None \<and> last_event_id = None
     then Some [Lit ''v1'', Lit ''tasks'', Param tid, Lit ''events''] else None)"
| "route_segments (PostTaskEvent tid _) = Some [Lit ''v1'', Lit ''tasks'', Param tid, Lit ''events'']"
| "route_segments (CancelTask tid) = Some [Lit ''v1'', Lit ''tasks'', Param tid, Lit ''cancel'']"
| "route_segments (ListAgents q) = (if q = no_agent_filters then Some [Lit ''v1'', Lit ''agents''] else None)"
| "route_segments (CreateAgent _) = Some [Lit ''v1'', Lit ''agents'']"
| "route_segments (GetAgent aid) = Some [Lit ''v1'', Lit ''agents'', Param aid]"
| "route_segments (PatchAgent aid _) = Some [Lit ''v1'', Lit ''agents'', Param aid]"
| "route_segments (DeleteAgent aid) = Some [Lit ''v1'', Lit ''agents'', Param aid]"
| "route_segments (ListDirectories q) =
     (if q = no_directory_filters then Some [Lit ''v1'', Lit ''directories''] else None)"
| "route_segments (GrantDirectory _) = Some [Lit ''v1'', Lit ''directories'', Lit ''grant'']"
| "route_segments (GetDirectory gid) = Some [Lit ''v1'', Lit ''directories'', Param gid]"
| "route_segments (PatchDirectory gid _) = Some [Lit ''v1'', Lit ''directories'', Param gid]"
| "route_segments (DeleteDirectory gid) = Some [Lit ''v1'', Lit ''directories'', Param gid]"

text \<open>
  The body a route reads. Handlers that take no body ignore one. The random bytes of a new token are the
  daemon's; here they are those given.
\<close>

fun body_carries :: "string \<Rightarrow> json option \<Rightarrow> api_request \<Rightarrow> bool" where
  "body_carries bytes body (CreateProduct r) = (Option.bind body create_product_request = Some r)"
| "body_carries bytes body (PatchProduct _ r) = (Option.bind body patch_product_request = Some r)"
| "body_carries bytes body (CreateToken _ r b) = (Option.bind body create_token_request = Some r \<and> b = bytes)"
| "body_carries bytes body (CreateTask r) = (Option.bind body create_task_request = Some r)"
| "body_carries bytes body (PostTaskEvent _ r) = (Option.bind body task_event_request_of = Some r)"
| "body_carries bytes body (CreateAgent r) = (Option.bind body create_agent_request = Some r)"
| "body_carries bytes body (PatchAgent _ v) = (body = Some v)"
| "body_carries bytes body (GrantDirectory r) = (Option.bind body create_directory_request = Some r)"
| "body_carries bytes body (PatchDirectory _ v) = (body = Some v)"
| "body_carries bytes body _ = True"

definition denotes :: "string \<Rightarrow> string \<Rightarrow> http_request \<Rightarrow> api_request \<Rightarrow> bool" where
  "denotes base bytes q r \<longleftrightarrow> hq_method q = route_method r \<and> body_carries bytes (hq_body q) r \<and>
     is_some_and (route_segments r) (\<lambda>segs. hq_url q = base @ request_target segs)"

section \<open>Escaped segments\<close>

lemma of_hex_upper: "d < 16 \<Longrightarrow> of_char (hex_upper d) = (if d < 10 then 48 + d else 55 + d :: nat)"
  by (simp add: hex_upper_def)

lemma hex_upper_inj:
  assumes "d < 16" and "e < 16" and "hex_upper d = hex_upper e"
  shows "d = e"
proof -
  have "(of_char (hex_upper d) :: nat) = of_char (hex_upper e)" using assms(3) by simp
  then show ?thesis using assms(1,2) by (simp add: of_hex_upper split: if_splits)
qed

lemma of_char_16 [simp]: "(of_char ch :: nat) div 16 < 16"
  using nat_of_char_less_256 [of ch] by linarith

lemma escape_byte_prefix_code: "escape_byte x @ a = escape_byte y @ b \<Longrightarrow> x = y \<and> a = b"
proof -
  assume eq: "escape_byte x @ a = escape_byte y @ b"
  have percent: "\<not> unreserved (CHR ''%'')" by (simp add: unreserved_def)
  show ?thesis
  proof (cases "unreserved x \<or> unreserved y")
    case True
    then show ?thesis using eq percent by (auto simp: escape_byte_def split: if_splits)
  next
    case False
    then have "(of_char x :: nat) div 16 = of_char y div 16" "(of_char x :: nat) mod 16 = of_char y mod 16" "a = b"
      using eq by (auto simp: escape_byte_def intro: hex_upper_inj)
    then have "(of_char x :: nat) = of_char y" by (metis div_mult_mod_eq)
    then show ?thesis using \<open>a = b\<close> by simp
  qed
qed

lemma id_path_segment_inject [simp]: "id_path_segment i = id_path_segment j \<longleftrightarrow> i = j"
proof
  assume "id_path_segment i = id_path_segment j"
  then show "i = j"
  proof (induction i arbitrary: j)
    case Nil
    then show ?case by (cases j) (auto simp: id_path_segment_def escape_byte_def split: if_splits)
  next
    case (Cons x i)
    then obtain y js where j: "j = y # js" by (cases j) (auto simp: id_path_segment_def escape_byte_def split: if_splits)
    with Cons.prems have "x = y \<and> concat (map escape_byte i) = concat (map escape_byte js)"
      by (intro escape_byte_prefix_code) (simp add: id_path_segment_def)
    then show ?case using Cons.IH [of js] j by (simp add: id_path_segment_def)
  qed
qed simp

lemma hex_upper_unreserved: "d < 16 \<Longrightarrow> unreserved (hex_upper d)"
  by (auto simp: unreserved_def of_hex_upper Let_def)

lemma id_path_segment_chars: "ch \<in> set (id_path_segment i) \<Longrightarrow> unreserved ch \<or> ch = CHR ''%''"
  by (auto simp: id_path_segment_def escape_byte_def hex_upper_unreserved split: if_splits)

lemma no_slash_segment [simp]: "CHR ''/'' \<notin> set (id_path_segment i)"
  using id_path_segment_chars [of "CHR ''/''" i] by (auto simp: unreserved_def)

lemma split_request_target:
  "list_all (\<lambda>s. CHR ''/'' \<notin> set (segment_text s)) segs \<Longrightarrow> split_on (CHR ''/'') (request_target segs) = [] # map segment_text segs"
proof (induction segs)
  case (Cons s segs)
  then show ?case
    by (cases segs) (simp_all add: request_target_def split_on_no_sep split_on_append)
qed (simp add: request_target_def)

lemma request_target_inject:
  assumes "list_all (\<lambda>s. CHR ''/'' \<notin> set (segment_text s)) segs"
    and "list_all (\<lambda>s. CHR ''/'' \<notin> set (segment_text s)) segs'"
  shows "request_target segs = request_target segs' \<longleftrightarrow> map segment_text segs = map segment_text segs'"
proof
  assume "request_target segs = request_target segs'"
  then show "map segment_text segs = map segment_text segs'"
    using split_request_target [OF assms(1)] split_request_target [OF assms(2)] by simp
next
  have texts: "request_target ss = concat (map (\<lambda>t. CHR ''/'' # t) (map segment_text ss))" for ss
    by (simp add: request_target_def comp_def)
  assume "map segment_text segs = map segment_text segs'"
  then show "request_target segs = request_target segs'" by (simp only: texts)
qed

lemma route_segments_no_slash:
  "route_segments r = Some segs \<Longrightarrow> list_all (\<lambda>s. CHR ''/'' \<notin> set (segment_text s)) segs"
  by (cases r) (auto split: if_splits option.splits permission_request_status.splits)

text \<open>An HTTP request denotes at most one request of the interface.\<close>

definition same_route :: "api_request \<Rightarrow> api_request \<Rightarrow> bool" where
  "same_route r r' \<longleftrightarrow> route_method r = route_method r' \<and>
     map_option (map segment_text) (route_segments r) = map_option (map segment_text) (route_segments r')"

lemma denotes_same_route: "denotes base bytes q r \<Longrightarrow> denotes base bytes q r' \<Longrightarrow> same_route r r'"
  by (auto simp: denotes_def same_route_def is_some_and_def split: option.splits
      dest: request_target_inject [OF route_segments_no_slash route_segments_no_slash, THEN iffD1])

lemma denotes_unique:
  assumes "denotes base bytes q r" and "denotes base bytes q r'"
  shows "r = r'"
proof -
  have same: "same_route r r'" and body: "body_carries bytes (hq_body q) r" "body_carries bytes (hq_body q) r'"
    using assms denotes_same_route by (simp_all add: denotes_def)
  have some: "route_segments r \<noteq> None" using assms(1) by (auto simp: denotes_def is_some_and_def split: option.splits)
  show ?thesis
    using same body some unfolding same_route_def
    by (cases r; cases r')
      (auto split: if_splits option.splits permission_request_status.splits)
qed

section \<open>Calls\<close>

datatype console_call =
    CallSession
  | CallDaemonStatus
  | CallProducts
  | CallCreateProduct console_product_payload
  | CallUpdateProduct string console_product_update
  | CallProductTokens string
  | CallCreateProductToken string console_token_payload
  | CallRevokeProductToken string string
  | CallProviders
  | CallRuntimes
  | CallDetectRuntimes
  | CallAgents
  | CallCreateAgent console_agent_payload
  | CallDeleteAgent string
  | CallDirectories
  | CallCreateDirectory console_directory_payload
  | CallDeleteDirectory string
  | CallTasks
  | CallTask string
  | CallCreateTask console_task_payload
  | CallCancelTask string
  | CallPermissions

datatype console_value =
    GotSession console_session
  | GotStatus console_daemon_status
  | GotProducts "console_product list"
  | GotProduct console_product
  | GotTokens "console_product_token list"
  | GotCreatedToken console_created_token
  | GotProviders "console_provider list"
  | GotRuntimes "console_runtime_view list"
  | GotAgents "console_agent_profile list"
  | GotAgent console_agent_profile
  | GotDirectories "console_directory_grant list"
  | GotDirectory console_directory_grant
  | GotTasks "console_task list"
  | GotTask console_task
  | GotPermissions "console_permission list"
  | GotNothing

definition returning :: "('a \<Rightarrow> console_value) \<Rightarrow> ('w, 'e, 'a) op \<Rightarrow> ('w, 'e, console_value) op" where
  "returning f m = and_then m (\<lambda>x. ok (f x))"

fun perform :: "'w transport \<Rightarrow> console_api_client \<Rightarrow> console_call \<Rightarrow> ('w, console_api_error, console_value) op" where
  "perform tr c CallSession = returning GotSession (client_session tr c)"
| "perform tr c CallDaemonStatus = returning GotStatus (client_daemon_status tr c)"
| "perform tr c CallProducts = returning GotProducts (client_products tr c)"
| "perform tr c (CallCreateProduct p) = returning GotProduct (client_create_product tr c p)"
| "perform tr c (CallUpdateProduct i p) = returning GotProduct (client_update_product tr c i p)"
| "perform tr c (CallProductTokens i) = returning GotTokens (client_product_tokens tr c i)"
| "perform tr c (CallCreateProductToken i p) = returning GotCreatedToken (client_create_product_token tr c i p)"
| "perform tr c (CallRevokeProductToken i j) = returning (\<lambda>_. GotNothing) (client_revoke_product_token tr c i j)"
| "perform tr c CallProviders = returning GotProviders (client_providers tr c)"
| "perform tr c CallRuntimes = returning GotRuntimes (client_runtimes tr c)"
| "perform tr c CallDetectRuntimes = returning GotRuntimes (client_detect_runtimes tr c)"
| "perform tr c CallAgents = returning GotAgents (client_agents tr c)"
| "perform tr c (CallCreateAgent p) = returning GotAgent (client_create_agent tr c p)"
| "perform tr c (CallDeleteAgent i) = returning (\<lambda>_. GotNothing) (client_delete_agent tr c i)"
| "perform tr c CallDirectories = returning GotDirectories (client_directories tr c)"
| "perform tr c (CallCreateDirectory p) = returning GotDirectory (client_create_directory tr c p)"
| "perform tr c (CallDeleteDirectory i) = returning (\<lambda>_. GotNothing) (client_delete_directory tr c i)"
| "perform tr c CallTasks = returning GotTasks (client_tasks tr c)"
| "perform tr c (CallTask i) = returning GotTask (client_task tr c i)"
| "perform tr c (CallCreateTask p) = returning GotTask (client_create_task tr c p)"
| "perform tr c (CallCancelTask i) = returning GotTask (client_cancel_task tr c i)"
| "perform tr c CallPermissions = returning GotPermissions (client_permissions tr c)"

text \<open>The request of the interface a call is meant to be, if the daemon can read its body.\<close>

fun call_target :: "string \<Rightarrow> console_call \<Rightarrow> api_request option" where
  "call_target bytes CallSession = Some GetSession"
| "call_target bytes CallDaemonStatus = Some GetDaemonStatus"
| "call_target bytes CallProducts = Some ListProducts"
| "call_target bytes (CallCreateProduct p) =
     map_option CreateProduct (create_product_request (product_payload_json p))"
| "call_target bytes (CallUpdateProduct i p) =
     map_option (PatchProduct i) (patch_product_request (product_update_json p))"
| "call_target bytes (CallProductTokens i) = Some (ListTokens i)"
| "call_target bytes (CallCreateProductToken i p) =
     map_option (\<lambda>r. CreateToken i r bytes) (create_token_request (token_payload_json p))"
| "call_target bytes (CallRevokeProductToken i j) = Some (RevokeToken i j)"
| "call_target bytes CallProviders = Some ListProviders"
| "call_target bytes CallRuntimes = Some ListRuntimes"
| "call_target bytes CallDetectRuntimes = Some DetectRuntimes"
| "call_target bytes CallAgents = Some (ListAgents no_agent_filters)"
| "call_target bytes (CallCreateAgent p) = map_option CreateAgent (create_agent_request (agent_payload_json p))"
| "call_target bytes (CallDeleteAgent i) = Some (DeleteAgent i)"
| "call_target bytes CallDirectories = Some (ListDirectories no_directory_filters)"
| "call_target bytes (CallCreateDirectory p) =
     map_option GrantDirectory (create_directory_request (directory_payload_json p))"
| "call_target bytes (CallDeleteDirectory i) = Some (DeleteDirectory i)"
| "call_target bytes CallTasks = Some (ListTasks no_task_filters)"
| "call_target bytes (CallTask i) = Some (GetTask i)"
| "call_target bytes (CallCreateTask p) = map_option CreateTask (create_task_request (task_payload_json p))"
| "call_target bytes (CallCancelTask i) = Some (CancelTask i)"
| "call_target bytes CallPermissions = Some (ListPermissions (Some Pending))"

text \<open>The request line and the body a call sends.\<close>

fun call_line :: "console_call \<Rightarrow> http_method \<times> string \<times> json option" where
  "call_line CallSession = (GET, ''/v1/session'', None)"
| "call_line CallDaemonStatus = (GET, ''/v1/daemon/status'', None)"
| "call_line CallProducts = (GET, ''/v1/products'', None)"
| "call_line (CallCreateProduct p) = (POST, ''/v1/products'', Some (product_payload_json p))"
| "call_line (CallUpdateProduct i p) = (PATCH, ''/v1/products/'' @ id_path_segment i, Some (product_update_json p))"
| "call_line (CallProductTokens i) = (GET, ''/v1/products/'' @ id_path_segment i @ ''/tokens'', None)"
| "call_line (CallCreateProductToken i p) =
     (POST, ''/v1/products/'' @ id_path_segment i @ ''/tokens'', Some (token_payload_json p))"
| "call_line (CallRevokeProductToken i j) =
     (DELETE, ''/v1/products/'' @ id_path_segment i @ ''/tokens/'' @ id_path_segment j, None)"
| "call_line CallProviders = (GET, ''/v1/providers'', None)"
| "call_line CallRuntimes = (GET, ''/v1/runtimes'', None)"
| "call_line CallDetectRuntimes = (POST, ''/v1/runtimes/detect'', Some Null)"
| "call_line CallAgents = (GET, ''/v1/agents'', None)"
| "call_line (CallCreateAgent p) = (POST, ''/v1/agents'', Some (agent_payload_json p))"
| "call_line (CallDeleteAgent i) = (DELETE, ''/v1/agents/'' @ id_path_segment i, None)"
| "call_line CallDirectories = (GET, ''/v1/directories'', None)"
| "call_line (CallCreateDirectory p) = (POST, ''/v1/directories/grant'', Some (directory_payload_json p))"
| "call_line (CallDeleteDirectory i) = (DELETE, ''/v1/directories/'' @ id_path_segment i, None)"
| "call_line CallTasks = (GET, ''/v1/tasks'', None)"
| "call_line (CallTask i) = (GET, ''/v1/tasks/'' @ id_path_segment i, None)"
| "call_line (CallCreateTask p) = (POST, ''/v1/tasks'', Some (task_payload_json p))"
| "call_line (CallCancelTask i) = (POST, ''/v1/tasks/'' @ id_path_segment i @ ''/cancel'', Some Null)"
| "call_line CallPermissions = (GET, ''/v1/permissions?status=pending'', None)"

definition call_request :: "console_api_client \<Rightarrow> console_call \<Rightarrow> http_request" where
  "call_request c call = (case call_line call of (method, path, body) \<Rightarrow> client_request c method path body)"

fun call_decoder :: "console_call \<Rightarrow> json \<Rightarrow> console_value option" where
  "call_decoder CallSession = map_option GotSession \<circ> dto_session"
| "call_decoder CallDaemonStatus = map_option GotStatus \<circ> dto_daemon_status"
| "call_decoder CallProducts = map_option GotProducts \<circ> envelope ''products'' (dec_list dto_product)"
| "call_decoder (CallCreateProduct p) = map_option GotProduct \<circ> envelope ''product'' dto_product"
| "call_decoder (CallUpdateProduct i p) = map_option GotProduct \<circ> envelope ''product'' dto_product"
| "call_decoder (CallProductTokens i) = map_option GotTokens \<circ> envelope ''tokens'' (dec_list dto_product_token)"
| "call_decoder (CallCreateProductToken i p) = map_option GotCreatedToken \<circ> envelope ''token'' dto_created_token"
| "call_decoder CallProviders = map_option GotProviders \<circ> envelope ''providers'' (dec_list dto_provider)"
| "call_decoder CallRuntimes = map_option GotRuntimes \<circ> envelope ''runtimes'' (dec_list dto_runtime_view)"
| "call_decoder CallDetectRuntimes = map_option GotRuntimes \<circ> envelope ''runtimes'' (dec_list dto_runtime_view)"
| "call_decoder CallAgents = map_option GotAgents \<circ> envelope ''agents'' (dec_list dto_agent_profile)"
| "call_decoder (CallCreateAgent p) = map_option GotAgent \<circ> envelope ''agent'' dto_agent_profile"
| "call_decoder CallDirectories = map_option GotDirectories \<circ> envelope ''directories'' (dec_list dto_directory_grant)"
| "call_decoder (CallCreateDirectory p) = map_option GotDirectory \<circ> envelope ''directory'' dto_directory_grant"
| "call_decoder CallTasks = map_option GotTasks \<circ> envelope ''tasks'' (dec_list dto_task)"
| "call_decoder (CallTask i) = map_option GotTask \<circ> envelope ''task'' dto_task"
| "call_decoder (CallCreateTask p) = map_option GotTask \<circ> envelope ''task'' dto_task"
| "call_decoder (CallCancelTask i) = map_option GotTask \<circ> envelope ''task'' dto_task"
| "call_decoder CallPermissions = map_option GotPermissions \<circ> envelope ''permissions'' (dec_list dto_permission)"
| "call_decoder _ = (\<lambda>_. Some GotNothing)"

fun expects_body :: "console_call \<Rightarrow> bool" where
  "expects_body (CallRevokeProductToken _ _) = False"
| "expects_body (CallDeleteAgent _) = False"
| "expects_body (CallDeleteDirectory _) = False"
| "expects_body _ = True"

definition read_answer :: "'w transport \<Rightarrow> console_call \<Rightarrow> http_response \<Rightarrow> console_api_error + console_value" where
  "read_answer tr call r =
     (if expects_body call then decode_response tr (call_decoder call) r
      else if \<not> success_status (hs_status r)
      then Inl (ApiStatus (hs_status r) (unwrap_or (hs_text r) ''request failed'')) else Inr GotNothing)"

lemma returning_get:
  "returning f (get_json tr c path dec) =
     and_then (map_err RequestFailed (tr_send tr (client_request c GET path None))) (\<lambda>r.
     lift_r (decode_response tr (map_option f \<circ> dec) r))"
  "returning f (post_json tr c path body dec) =
     and_then (map_err RequestFailed (tr_send tr (client_request c POST path (Some body)))) (\<lambda>r.
     lift_r (decode_response tr (map_option f \<circ> dec) r))"
  "returning f (patch_json tr c path body dec) =
     and_then (map_err RequestFailed (tr_send tr (client_request c PATCH path (Some body)))) (\<lambda>r.
     lift_r (decode_response tr (map_option f \<circ> dec) r))"
  "returning g (delete_path tr c path) =
     and_then (map_err RequestFailed (tr_send tr (client_request c DELETE path None))) (\<lambda>r.
     lift_r (if \<not> success_status (hs_status r)
       then Inl (ApiStatus (hs_status r) (unwrap_or (hs_text r) ''request failed'')) else Inr (g ())))"
  by (auto simp: fun_eq_iff returning_def get_json_def post_json_def patch_json_def delete_path_def and_then_def
      map_err_def lift_r_def ok_def decode_response_def split: prod.splits sum.splits option.splits)

lemmas client_defs = client_session_def client_daemon_status_def client_products_def client_create_product_def
  client_update_product_def client_product_tokens_def client_create_product_token_def
  client_revoke_product_token_def client_providers_def client_runtimes_def client_detect_runtimes_def
  client_agents_def client_create_agent_def client_delete_agent_def client_directories_def
  client_create_directory_def client_delete_directory_def client_tasks_def client_task_def client_create_task_def
  client_cancel_task_def client_permissions_def

text \<open>Every call is one request, whose answer it reads.\<close>

lemma perform_one_request:
  "perform tr c call = and_then (map_err RequestFailed (tr_send tr (call_request c call))) (\<lambda>r. lift_r (read_answer tr call r))"
  by (cases call) (simp_all add: client_defs returning_get call_request_def read_answer_def)

lemma call_denotes:
  assumes "call_target bytes call = Some r"
  shows "denotes (kc_base_url c) bytes (call_request c call) r"
  using assms by (cases call)
    (auto simp: denotes_def call_request_def client_request_def client_url_def request_target_def is_some_and_def)

section \<open>Answers\<close>

text \<open>
  What the daemon sends back: the reply as JSON, the error response as JSON, or nothing where the handler
  panics. \<open>text\<close> is the text of a body; a body that is not there parses to nothing.
\<close>

definition http_reply :: "(json option \<Rightarrow> string) \<Rightarrow> nat \<Rightarrow> json option \<Rightarrow> http_response" where
  "http_reply text status body = \<lparr> hs_status = status, hs_text = Some (text body),
     hs_json = (case body of None \<Rightarrow> Inl (text None) | Some v \<Rightarrow> Inr v) \<rparr>"

definition daemon_answer ::
  "(json option \<Rightarrow> string) \<Rightarrow> app_env \<Rightarrow> string \<Rightarrow> api_request \<Rightarrow> string \<Rightarrow> (app_state, string, http_response) op" where
  "daemon_answer text env authorization request now s =
     (case serve_api env \<lparr> rq_authorization = Some (Some authorization) \<rparr> request now s of
        (Inr (status, body), s') \<Rightarrow> (Inr (http_reply text status (body_to_value body)), s')
      | (Inl (Failure status code message), s') \<Rightarrow>
          (Inr (http_reply text status (Some (error_to_value code message))), s')
      | (Inl (Panicked message), s') \<Rightarrow> (Inl message, s'))"

fun body_view :: "api_body \<Rightarrow> console_value" where
  "body_view (SessionBody x) = GotSession (session_dto_view x)"
| "body_view (StatusBody x) = GotStatus (status_dto_view x)"
| "body_view (ProductsBody xs) = GotProducts (map product_dto_view xs)"
| "body_view (ProductBody x) = GotProduct (product_dto_view x)"
| "body_view (TokensBody xs) = GotTokens (map token_dto_view xs)"
| "body_view (CreatedTokenBody x) = GotCreatedToken (created_token_dto_view x)"
| "body_view (ProvidersBody xs) = GotProviders (map provider_dto_view xs)"
| "body_view (RuntimesBody xs) = GotRuntimes (map runtime_dto_view xs)"
| "body_view (TasksBody xs) = GotTasks (map task_dto_view xs)"
| "body_view (TaskBody x) = GotTask (task_dto_view x)"
| "body_view (PermissionsBody xs) = GotPermissions (map permission_dto_view xs)"
| "body_view (AgentsBody xs) = GotAgents (map agent_dto_view xs)"
| "body_view (AgentBody x) = GotAgent (agent_dto_view x)"
| "body_view (DirectoriesBody xs) = GotDirectories (map grant_dto_view xs)"
| "body_view (DirectoryBody x) = GotDirectory (grant_dto_view x)"
| "body_view _ = GotNothing"

fun body_fits :: "api_body \<Rightarrow> bool" where
  "body_fits (StatusBody x) = status_fits x"
| "body_fits (TasksBody xs) = list_all task_fits xs"
| "body_fits (TaskBody x) = task_fits x"
| "body_fits _ = True"

fun answers :: "console_call \<Rightarrow> api_body \<Rightarrow> bool" where
  "answers CallSession b = (\<exists>x. b = SessionBody x)"
| "answers CallDaemonStatus b = (\<exists>x. b = StatusBody x)"
| "answers CallProducts b = (\<exists>x. b = ProductsBody x)"
| "answers (CallCreateProduct _) b = (\<exists>x. b = ProductBody x)"
| "answers (CallUpdateProduct _ _) b = (\<exists>x. b = ProductBody x)"
| "answers (CallProductTokens _) b = (\<exists>x. b = TokensBody x)"
| "answers (CallCreateProductToken _ _) b = (\<exists>x. b = CreatedTokenBody x)"
| "answers CallProviders b = (\<exists>x. b = ProvidersBody x)"
| "answers CallRuntimes b = (\<exists>x. b = RuntimesBody x)"
| "answers CallDetectRuntimes b = (\<exists>x. b = RuntimesBody x)"
| "answers CallAgents b = (\<exists>x. b = AgentsBody x)"
| "answers (CallCreateAgent _) b = (\<exists>x. b = AgentBody x)"
| "answers CallDirectories b = (\<exists>x. b = DirectoriesBody x)"
| "answers (CallCreateDirectory _) b = (\<exists>x. b = DirectoryBody x)"
| "answers CallTasks b = (\<exists>x. b = TasksBody x)"
| "answers (CallTask _) b = (\<exists>x. b = TaskBody x)"
| "answers (CallCreateTask _) b = (\<exists>x. b = TaskBody x)"
| "answers (CallCancelTask _) b = (\<exists>x. b = TaskBody x)"
| "answers CallPermissions b = (\<exists>x. b = PermissionsBody x)"
| "answers _ b = (b = NoContent)"

lemma serve_answers:
  assumes "call_target bytes call = Some r"
  shows "wp (serve_api env parts r now) (\<lambda>_ _. True) (\<lambda>rep _. answers call (snd rep)) s"
proof -
  obtain a p where auth: "authenticate_request (env_crypto env) (env_auth env) parts now (app_products s) = (a, p)" by force
  show ?thesis
    using assms by (cases call; cases a; cases "projr a")
      (auto simp: serve_api_def wp_extractors [OF auth] wp_simps wp_always)
qed

lemmas wire_decoded = task_wire.decode_envelope task_wire.decode_list_envelope permission_wire.decode_list_envelope
  grant_wire.decode_envelope grant_wire.decode_list_envelope agent_wire.decode_envelope agent_wire.decode_list_envelope
  product_wire.decode_envelope product_wire.decode_list_envelope token_wire.decode_list_envelope
  created_token_wire.decode_envelope provider_wire.decode_list_envelope runtime_wire.decode_list_envelope
  session_wire.decode_encode status_wire.decode_encode

lemma read_reply:
  assumes "answers call body" and "body_fits body" and "status \<in> {200, 201, 204}"
  shows "read_answer tr call (http_reply text status (body_to_value body)) = Inr (body_view body)"
  using assms by (cases call)
    (auto simp: read_answer_def decode_response_def http_reply_def success_status_def wire_decoded list.pred_True)

lemma read_failure:
  assumes "failure_classified (Failure status code message)"
  shows "read_answer tr call (http_reply text status (Some v)) = Inl (ApiStatus status (text (Some v)))"
  using assms by (auto simp: read_answer_def decode_response_def http_reply_def success_status_def unwrap_or_def)

definition client_parts :: "console_api_client \<Rightarrow> request_parts" where
  "client_parts c = \<lparr> rq_authorization = Some (Some (''Bearer '' @ kc_token c)) \<rparr>"

lemma perform_exact:
  assumes target: "call_target bytes call = Some r"
    and sent: "tr_send tr (call_request c call) s = daemon_answer text env (''Bearer '' @ kc_token c) r now s"
    and fits: "\<And>status body s'. serve_api env (client_parts c) r now s = (Inr (status, body), s') \<Longrightarrow> body_fits body"
  shows "perform tr c call s =
    (case serve_api env (client_parts c) r now s of
       (Inr (status, body), s') \<Rightarrow> (Inr (body_view body), s')
     | (Inl (Failure status code message), s') \<Rightarrow>
         (Inl (ApiStatus status (text (Some (error_to_value code message)))), s')
     | (Inl (Panicked message), s') \<Rightarrow> (Inl (RequestFailed message), s'))"
proof -
  obtain a s' where serve: "serve_api env (client_parts c) r now s = (a, s')" by force
  have answer: "tr_send tr (call_request c call) s = (case a of
      Inr (status, body) \<Rightarrow> (Inr (http_reply text status (body_to_value body)), s')
    | Inl (Failure status code message) \<Rightarrow> (Inr (http_reply text status (Some (error_to_value code message))), s')
    | Inl (Panicked message) \<Rightarrow> (Inl message, s'))"
    unfolding sent daemon_answer_def serve [unfolded client_parts_def] by (simp split: sum.split)
  note classified = classified_serve [of env "client_parts c" r now s, unfolded wp_def serve]
    and kind = serve_answers [OF target, of env "client_parts c" now s, unfolded wp_def serve]
  show ?thesis
  proof (cases a)
    case (Inl f)
    then show ?thesis
      using answer classified
      by (cases f) (simp_all add: perform_one_request and_then_def map_err_def lift_r_def serve read_failure
          del: failure_classified.simps)
  next
    case (Inr rep)
    then obtain status body where a: "a = Inr (status, body)" by (cases rep) simp
    then show ?thesis
      using answer classified kind fits serve
      by (simp add: perform_one_request and_then_def map_err_def lift_r_def read_reply)
  qed
qed

end
