(* ===== verification/Console_Properties.thy ===== *)
theory Console_Properties
  imports Console_Calls
begin

text \<open>
  The properties of the console's client against the daemon: its calls reach the routes they are meant for, the
  daemon can read what it sends, and it reads what the daemon answers.
\<close>

section \<open>Payloads\<close>

text \<open>What the daemon can read: every name in a payload is one of the enum it is read as.\<close>

fun payload_readable :: "console_call \<Rightarrow> bool" where
  "payload_readable (CallUpdateProduct i p) = is_none_or (ypu_status p) (\<lambda>s. s \<in> {''active'', ''disabled''})"
| "payload_readable (CallCreateProductToken i p) = (set (ypt_scopes p) \<subseteq> range scope_str)"
| "payload_readable (CallCreateAgent p) = (cpc_permission_mode (yag_provider_config p) \<noteq> None)"
| "payload_readable (CallCreateDirectory p) =
     (set (ydg_capabilities p) \<subseteq> range capability_str \<and> ydg_lock_policy p \<in> range lock_policy_str)"
| "payload_readable (CallCreateTask p) = (set (ytk_required_capabilities p) \<subseteq> range capability_str)"
| "payload_readable _ = True"

lemma those_eq_None: "those xs = None \<longleftrightarrow> None \<in> set xs"
  by (induction xs) (auto split: option.splits)

lemma dec_enum_Str [simp]: "dec_enum of_str \<circ> Str = of_str"
  by (simp add: fun_eq_iff dec_enum_def)

lemma those_names_None:
  assumes "\<And>s. of_str s = None \<longleftrightarrow> s \<notin> range str"
  shows "those (map of_str xs) = None \<longleftrightarrow> \<not> set xs \<subseteq> range str"
proof -
  have "None \<in> set (map of_str xs) \<longleftrightarrow> (\<exists>s \<in> set xs. of_str s = None)" by (simp add: image_iff) metis
  then show ?thesis unfolding those_eq_None assms by blast
qed

lemma enum_names_None:
  assumes "\<And>x. of_str (str x) = Some x" and "\<And>x. of_str s = Some x \<Longrightarrow> s = str x"
  shows "of_str s = None \<longleftrightarrow> s \<notin> range str"
  using assms by (cases "of_str s") auto

lemma scope_of_str_None: "scope_of_str s = None \<longleftrightarrow> s \<notin> range scope_str"
  by (rule enum_names_None) (simp_all only: scope_of_str_str, auto simp only: scope_of_str.simps find_Some_iff)

lemma capability_of_str_None: "capability_of_str s = None \<longleftrightarrow> s \<notin> range capability_str"
  by (rule enum_names_None) (simp_all only: capability_of_str_str, auto split: if_splits)

lemma lock_policy_of_str_None: "lock_policy_of_str s = None \<longleftrightarrow> s \<notin> range lock_policy_str"
proof (rule enum_names_None)
  show "lock_policy_of_str (lock_policy_str p) = Some p" for p
    by (cases p) (simp_all add: lock_policy_of_str_def)
qed (auto simp: lock_policy_of_str_def split: if_splits)

declare scope_of_str.simps [simp del] capability_of_str.simps [simp del]

lemma opt_field_hit:
  "v \<noteq> Null \<Longrightarrow> opt_field dec (Object ((k, v) # kvs)) k = map_option Some (dec v)"
  by (cases v) (simp_all add: opt_field_def)

lemma opt_field_u64_mod:
  "opt_field dec_u64 (Object ((k, opt_json enc_u64 x) # kvs)) k = Some (map_option (\<lambda>n. n mod 2 ^ 64) x)"
  by (rule opt_field_codec) (simp add: enc_u64_def unsigned_of_nat take_bit_eq_mod)

lemma opt_field_opt_json_str: "opt_field as_str (Object ((k, opt_json Str x) # kvs)) k = Some x"
  using opt_field_opt_str by (simp add: opt_str_def)

lemma opt_field_enum:
  "opt_field (dec_enum of_str) (Object ((k, opt_json Str x) # kvs)) k =
     (case x of None \<Rightarrow> Some None | Some s \<Rightarrow> map_option Some (of_str s))"
  by (simp add: opt_field_def opt_json_def dec_enum_def split: option.splits)

lemma mode_json [simp]:
  "dec_enum workspace_mode_of_str (dto_workspace_mode_json m) = Some m" "dto_workspace_mode_json m \<noteq> Null"
  by (cases m; simp add: dec_enum_def)+

declare workspace_mode_of_str.simps [simp del]

lemmas payload_simps = field_simps opt_field_opt_json_str opt_field_value opt_field_u64_mod opt_field_hit

lemma task_payload_read:
  "create_task_request (task_payload_json p) = map_option (\<lambda>caps.
     \<lparr> ct_owner_product_id = ytk_owner_product_id p, ct_agent_id = ytk_agent_id p,
       ct_directory_id = ytk_directory_id p, ct_prompt = ytk_prompt p, ct_required_capabilities = Some caps,
       ct_workspace_mode = Some (ytk_workspace_mode p), ct_direct_mode_task_opt_in = ytk_direct_mode_task_opt_in p,
       ct_metadata = drop_null (ytk_metadata p), ct_provider_id = None, ct_model = None, ct_permission_mode = None,
       ct_timeout_seconds = map_option (\<lambda>n. n mod 2 ^ 64) (ytk_timeout_seconds p) \<rparr>)
     (those (map capability_of_str (ytk_required_capabilities p)))"
  by (cases "those (map capability_of_str (ytk_required_capabilities p))")
    (simp_all add: create_task_request_def task_payload_json_def payload_simps)

lemma agent_payload_read:
  "create_agent_request (agent_payload_json p) = map_option (\<lambda>mode.
     \<lparr> ca_id = yag_id p, ca_name = yag_name p, ca_owner_product_id = yag_owner_product_id p,
       ca_provider_id = yag_provider_id p, ca_model = yag_model p, ca_instructions = yag_instructions p,
       ca_execution_policy =
         \<lparr> ep_default_workspace_mode = to_agent_workspace_mode (cep_default_workspace_mode (yag_execution_policy p)),
           ep_allow_direct_directory = cep_allow_direct_directory (yag_execution_policy p) \<rparr>,
       ca_provider_config =
         \<lparr> cf_custom_args = cpc_custom_args (yag_provider_config p),
           cf_custom_env_keys = cpc_custom_env_keys (yag_provider_config p),
           cf_mcp_config = drop_null (cpc_mcp_config (yag_provider_config p)), cf_permission_mode = mode \<rparr> \<rparr>)
     (cpc_permission_mode (yag_provider_config p))"
proof -
  have mode: "dec_enum agent_workspace_mode_of_str (dto_workspace_mode_json m) = Some (to_agent_workspace_mode m)" for m
    by (cases m) (simp_all add: dec_enum_def agent_workspace_mode_of_str_def)
  have config: "provider_config_of (provider_config_json x) = map_option (\<lambda>mode.
      \<lparr> cf_custom_args = cpc_custom_args x, cf_custom_env_keys = cpc_custom_env_keys x,
        cf_mcp_config = drop_null (cpc_mcp_config x), cf_permission_mode = mode \<rparr>) (cpc_permission_mode x)" for x
    by (cases "cpc_permission_mode x")
      (simp_all add: provider_config_of_def provider_config_json_def payload_simps opt_json_def [of Str]
        flip: str_list_def)
  show ?thesis
    by (cases "cpc_permission_mode (yag_provider_config p)")
      (simp_all add: create_agent_request_def agent_payload_json_def payload_simps config execution_policy_of_def
        execution_policy_json_def mode)
qed

lemma directory_payload_read:
  "create_directory_request (directory_payload_json p) =
     (case those (map capability_of_str (ydg_capabilities p)) of None \<Rightarrow> None | Some caps \<Rightarrow>
      (case lock_policy_of_str (ydg_lock_policy p) of None \<Rightarrow> None | Some policy \<Rightarrow> Some
         \<lparr> cg_product_id = ydg_product_id p, cg_agent_id = ydg_agent_id p, cg_path = ydg_path p,
           cg_capabilities = caps, cg_workspace_modes = Some (ydg_workspace_modes p),
           cg_default_workspace_mode = Some (ydg_default_workspace_mode p), cg_lock_policy = Some policy,
           cg_direct_mode_requires_explicit_task_opt_in = Some (ydg_direct_mode_requires_explicit_task_opt_in p),
           cg_allow_remote_execution = Some (ydg_allow_remote_execution p) \<rparr>))"
proof -
  have modes: "those (map (dec_enum workspace_mode_of_str \<circ> dto_workspace_mode_json) ms) = Some ms" for ms
    by (induction ms) simp_all
  have lock: "dec_enum lock_policy_of_str (Str s) = lock_policy_of_str s" for s by (simp add: dec_enum_def)
  show ?thesis
    by (simp add: create_directory_request_def directory_payload_json_def payload_simps modes lock
        split: option.splits)
qed

lemma product_payload_read:
  "create_product_request (product_payload_json p) =
     Some \<lparr> cp_id = ypr_id p, cp_display_name = ypr_display_name p, cp_description = ypr_description p \<rparr>"
  by (simp add: create_product_request_def product_payload_json_def payload_simps)

lemma product_update_read:
  "patch_product_request (product_update_json p) =
     (case ypu_status p of
        None \<Rightarrow> Some \<lparr> pp_display_name = ypu_display_name p, pp_description = map_option Some (ypu_description p),
          pp_status = None \<rparr>
      | Some s \<Rightarrow> map_option (\<lambda>st. \<lparr> pp_display_name = ypu_display_name p,
          pp_description = map_option Some (ypu_description p), pp_status = Some st \<rparr>) (product_status_of_str s))"
  by (cases "ypu_status p"; cases "product_status_of_str (the (ypu_status p))")
    (simp_all add: patch_product_request_def product_update_json_def payload_simps opt_field_enum)

lemma token_payload_read:
  "create_token_request (token_payload_json p) = map_option (\<lambda>scopes. \<lparr> cpt_label = ypt_label p, cpt_scopes = scopes \<rparr>)
     (those (map scope_of_str (ypt_scopes p)))"
  by (cases "those (map scope_of_str (ypt_scopes p))")
    (simp_all add: create_token_request_def token_payload_json_def payload_simps)

text \<open>
  The daemon can read the body of a call exactly when every name in it is one the daemon knows:
  capabilities, lock policies, scopes and product states are read as enums, and an agent needs a permission mode.
\<close>

lemma console_payloads_readable:
  "call_target bytes call \<noteq> None \<longleftrightarrow> payload_readable call"
proof -
  have status: "product_status_of_str s \<noteq> None \<longleftrightarrow> s \<in> {''active'', ''disabled''}" for s
    by (simp add: product_status_of_str_def)
  have caps: "those (map capability_of_str xs) \<noteq> None \<longleftrightarrow> set xs \<subseteq> range capability_str" for xs
    using those_names_None [OF capability_of_str_None, of xs] by simp
  have scopes: "those (map scope_of_str xs) \<noteq> None \<longleftrightarrow> set xs \<subseteq> range scope_str" for xs
    using those_names_None [OF scope_of_str_None, of xs] by simp
  have lock: "lock_policy_of_str x \<noteq> None \<longleftrightarrow> x \<in> range lock_policy_str" for x
    using lock_policy_of_str_None [of x] by simp
  show ?thesis
  proof (cases call)
    case (CallUpdateProduct i p)
    then show ?thesis
      using status by (cases "ypu_status p") (simp_all add: product_update_read is_none_or_def)
  next
    case (CallCreateDirectory p)
    then show ?thesis
      using caps [of "ydg_capabilities p"] lock [of "ydg_lock_policy p"]
      by (cases "those (map capability_of_str (ydg_capabilities p))"; cases "lock_policy_of_str (ydg_lock_policy p)")
        (simp_all add: directory_payload_read)
  qed (use caps scopes in \<open>simp_all add: task_payload_read agent_payload_read product_payload_read token_payload_read\<close>)
qed

section \<open>Calls against the daemon\<close>




definition demo_transport :: "app_state transport" where
  "demo_transport = \<lparr> tr_send = (\<lambda>q. daemon_answer (\<lambda>_. ''{}'') demo_env (hq_authorization q) GetSession ''t3''),
     tr_decode_error = (\<lambda>_. ''invalid'') \<rparr>"


section \<open>Two payloads the daemon refuses\<close>

text \<open>
  An agent saved with the permission choice "Default permissions" is sent with a null permission mode, which the
  daemon does not read: its default is for an absent field.
\<close>

lemma default_permissions_refused:
  "cpc_permission_mode (yag_provider_config p) = None \<Longrightarrow> call_target bytes (CallCreateAgent p) = None"
  by (simp add: agent_payload_read)

end
