(* ===== verification/Console_State_Properties.thy ===== *)
theory Console_State_Properties
  imports Console_State Console_Properties
begin

text \<open>
  The properties of the console's state under every interleaving of actions and answers, and of the events it
  collects; and what its forms submit against what the daemon reads.
\<close>

section \<open>The state\<close>

definition one_view :: "console_resources \<Rightarrow> bool" where
  "one_view r \<longleftrightarrow> cr_products r = [] \<or>
     cr_agents r = [] \<and> cr_directories r = [] \<and> cr_tasks r = [] \<and> cr_permissions r = []"

definition console_inv :: "console_state \<Rightarrow> bool" where
  "console_inv st \<longleftrightarrow> (ui_notice st = None \<or> ui_error st = None) \<and> one_view (ui_resources st)"

lemmas console_message_defs = set_error_def set_notice_def loaded_def sign_out_def save_stored_session_def
  remove_stored_session_def action_failed_def then_refresh_def

lemmas console_finish_defs = bootstrap_finish_def connect_finish_def create_product_finish_def
  create_product_token_finish_def detect_runtimes_finish_def create_agent_finish_def create_directory_finish_def
  create_task_finish_def cancel_task_finish_def respond_to_permission_finish_def

lemma collect_other: "(\<And>v x. f (put v x) = f x) \<Longrightarrow> f (fst (collect name answer put acc)) = f (fst acc)"
  by (simp add: collect_def split: prod.splits sum.splits)

lemma one_view_collect: "one_view (fst (refresh_collect b r))"
  by (cases b) (simp_all add: refresh_collect_def one_view_def Let_def no_resources_def
      collect_other [of cr_products] collect_other [of cr_agents] collect_other [of cr_directories]
      collect_other [of cr_tasks] collect_other [of cr_permissions])

lemma refresh_finish_inv: "console_inv (refresh_finish b r st)"
  using one_view_collect [of b r]
  by (cases "refresh_collect b r") (simp add: refresh_finish_def console_inv_def console_message_defs Let_def)

lemma refresh_begin_inv: "console_inv st \<Longrightarrow> console_inv (fst (refresh_begin st))"
  by (auto simp: refresh_begin_def console_inv_def split: option.splits)

lemma then_refresh_inv: "console_inv st \<Longrightarrow> console_inv (fst (then_refresh st))"
  using refresh_begin_inv [of st]
  by (auto simp: then_refresh_def console_inv_def loaded_def split: prod.splits list.splits)

lemma message_inv:
  "console_inv st \<Longrightarrow> console_inv (set_error m st)" "console_inv st \<Longrightarrow> console_inv (set_notice m st)"
  "console_inv st \<Longrightarrow> console_inv (loaded st)" "console_inv st \<Longrightarrow> console_inv (sign_out st)"
  "console_inv st \<Longrightarrow> console_inv (fst (action_failed w e st))"
  by (auto simp: console_inv_def console_message_defs one_view_def no_resources_def)

lemma update_inv:
  "console_inv st \<Longrightarrow> console_inv (st\<lparr> ui_auth := a \<rparr>)"
  "console_inv st \<Longrightarrow> console_inv (st\<lparr> ui_active_task_id := t \<rparr>)"
  "console_inv st \<Longrightarrow> console_inv (st\<lparr> ui_created_token := k \<rparr>)"
  "console_inv st \<Longrightarrow> console_inv (st\<lparr> ui_loading := l \<rparr>)"
  "console_inv st \<Longrightarrow> console_inv (save_stored_session so st)"
  "console_inv st \<Longrightarrow> console_inv (remove_stored_session st)"
  "console_inv st \<Longrightarrow> console_inv (st\<lparr> ui_resources := (ui_resources st)\<lparr> cr_runtimes := rs \<rparr> \<rparr>)"
  by (simp_all add: console_inv_def one_view_def save_stored_session_def remove_stored_session_def)

lemma job_finishes_inv: "job_finishes job st x \<Longrightarrow> console_inv st \<Longrightarrow> console_inv (fst x)"
  by (induction rule: job_finishes.induct)
    (auto simp: console_finish_defs refresh_finish_inv split: sum.splits
      intro!: refresh_begin_inv then_refresh_inv message_inv update_inv)

lemma console_step_inv: "console_step x y \<Longrightarrow> console_inv (fst x) \<Longrightarrow> console_inv (fst y)"
proof (induction rule: console_step.induct)
  case (step_connect u m t r st st' new jobs)
  then show ?case by (auto simp: connect_def console_inv_def)
next
  case (step_refresh st st' new jobs)
  then show ?case using refresh_begin_inv [of st] by simp
next
  case (step_action action st st' new jobs)
  then show ?case by (auto simp: start_action_def console_inv_def split: option.splits)
next
  case (step_finish job st st' new before after)
  then show ?case using job_finishes_inv by fastforce
qed (simp_all add: message_inv update_inv)

text \<open>
  In every state of the console there is a notice or an error or neither, never both, and the resources
  shown are of one kind of credential: a list of products never stands beside agents, directories, tasks or
  permission requests.
\<close>

lemma console_state_consistent:
  assumes "console_reachable (st, jobs)"
  shows "(ui_notice st = None \<or> ui_error st = None) \<and>
    (cr_products (ui_resources st) = [] \<or> cr_agents (ui_resources st) = [] \<and> cr_directories (ui_resources st) = [] \<and>
       cr_tasks (ui_resources st) = [] \<and> cr_permissions (ui_resources st) = [])"
proof -
  have "console_inv (fst x)" if "console_reachable x" for x
    using that
  proof (induction rule: console_reachable.induct)
    case (console_begin has_storage stored)
    then show ?case
      by (simp add: bootstrap_from_storage_def console_new_def console_inv_def one_view_def no_resources_def)
  qed (rule console_step_inv)
  from this [OF assms] show ?thesis by (simp add: console_inv_def one_view_def)
qed

definition demo_ui :: console_state where
  "demo_ui = console_new False None"

definition demo_ui_login :: "console_state \<times> console_job list" where
  "demo_ui_login = connect ''http://h/'' ''product'' ''t'' ''/console/'' demo_ui"

lemma demo_ui_login_reachable: "console_reachable demo_ui_login"
proof -
  have "console_reachable (demo_ui, [])"
    using console_begin [of False None] by (simp add: bootstrap_from_storage_def load_stored_session_def demo_ui_def console_new_def)
  then show ?thesis
    using console_next [OF _ step_connect, of demo_ui "[]" "''http://h/''" "''product''" "''t''" "''/console/''"
        "fst demo_ui_login" "snd demo_ui_login"] by (simp add: demo_ui_login_def)
qed

lemma console_state_consistent_example:
  "ui_loading (fst demo_ui_login) \<and> (ui_notice (fst demo_ui_login) = None \<or> ui_error (fst demo_ui_login) = None)"
  using console_state_consistent [of "fst demo_ui_login" "snd demo_ui_login"] demo_ui_login_reachable
  by (simp add: demo_ui_login_def connect_def)

section \<open>Signing out\<close>

text \<open>A signed-out console: nothing is shown and nothing but a login is under way.\<close>

fun login_job :: "console_job \<Rightarrow> bool" where
  "login_job (BootstrapJob _) = True"
| "login_job (ConnectJob _) = True"
| "login_job _ = False"

definition signed_out :: "console_state \<times> console_job list \<Rightarrow> bool" where
  "signed_out x \<longleftrightarrow> ui_auth (fst x) = None \<and> ui_resources (fst x) = no_resources \<and>
     ui_created_token (fst x) = None \<and> ui_active_task_id (fst x) = None \<and> list_all login_job (snd x)"

lemma refresh_begin_auth: "ui_auth (fst (refresh_begin st)) = ui_auth st"
  by (simp add: refresh_begin_def split: option.splits)

lemma then_refresh_auth: "ui_auth (fst (then_refresh st)) = ui_auth st"
  using refresh_begin_auth [of st] by (auto simp: then_refresh_def loaded_def split: prod.splits list.splits)

lemma login_finishes:
  assumes "job_finishes job st x" and "login_job job" and "signed_out (st, jobs)" and "ui_auth (fst x) = None"
  shows "signed_out (fst x, jobs @ snd x)"
  using assms
proof (cases rule: job_finishes.cases)
  case (1 so answer)
  with assms show ?thesis
    by (cases answer) (auto simp: bootstrap_finish_def refresh_begin_auth signed_out_def console_message_defs)
next
  case (2 so answer)
  with assms show ?thesis
    by (cases answer) (auto simp: connect_finish_def then_refresh_auth signed_out_def set_error_def set_notice_def loaded_def)
qed simp_all

lemma signed_out_step:
  assumes "console_step x y" and "signed_out x" and "ui_auth (fst y) = None"
  shows "signed_out y"
  using assms
proof (induction rule: console_step.induct)
  case (step_connect u m t r st st' new jobs)
  then show ?case by (auto simp: connect_def signed_out_def)
next
  case (step_refresh st st' new jobs)
  then show ?case by (auto simp: refresh_begin_def console_client_def signed_out_def)
next
  case (step_action action st st' new jobs)
  then show ?case by (auto simp: start_action_def console_client_def signed_out_def)
next
  case (step_sign_out st jobs)
  then show ?case by (auto simp: signed_out_def console_message_defs)
next
  case (step_select st task jobs)
  then show ?case by (simp add: signed_out_def)
next
  case (step_finish job st st' new before after)
  then show ?case
    using login_finishes [of job st "(st', new)" "before @ after"] by (simp add: signed_out_def)
qed



text \<open>
  With work pending it is otherwise: a token that was being created when the user signed out is kept in the state
  of the signed-out console, where the next session shows it. A refresh that was under way fills in the resources of
  the old session the same way.
\<close>

lemma sign_out_late:
  assumes "console_reachable (st, jobs)" and "console_step (st, jobs) (st1, jobs @ [job])"
    and "job_finishes job (sign_out st1) (st2, [])"
  shows "console_reachable (st2, jobs)"
proof -
  have "console_reachable (sign_out st1, jobs @ [job])"
    using console_next [OF console_next [OF assms(1,2)] step_sign_out] .
  then show ?thesis using console_next [OF _ step_finish [OF assms(3), of jobs "[]"]] by simp
qed

lemma signed_out_keeps_late_token:
  assumes "console_reachable (st, jobs)" and client: "console_client st = Some c"
  shows "\<exists>st'. console_reachable (st', jobs) \<and> ui_auth st' = None \<and> ui_created_token st' = Some token"
proof -
  let ?p = "\<lparr> ypt_label = [], ypt_scopes = [] \<rparr>"
  let ?action = "DoCreateProductToken [] ?p"
  let ?st1 = "st\<lparr> ui_loading := True \<rparr>"
  let ?st2 = "fst (create_product_token_finish (Inr token) (sign_out ?st1))"
  have "console_step (st, jobs) (?st1, jobs @ [ActionJob c ?action])"
    using client by (intro step_action [of ?action]) (simp add: start_action_def)
  moreover have "job_finishes (ActionJob c ?action) (sign_out ?st1) (?st2, [])"
    using job_finishes.intros(5) [of c "[]" ?p "sign_out ?st1" "Inr token"] by (simp add: create_product_token_finish_def)
  ultimately have "console_reachable (?st2, jobs)" using sign_out_late [OF assms(1)] by blast
  then show ?thesis by (intro exI [of _ ?st2]) (simp add: create_product_token_finish_def console_message_defs)
qed

lemma signed_out_keeps_late_resources:
  assumes "console_reachable (st, jobs)" and client: "console_client st = Some c"
  shows "\<exists>st'. console_reachable (st', jobs) \<and> ui_auth st' = None \<and> ui_resources st' = fst (refresh_collect
    (is_some_and (ui_auth st) (\<lambda>a. csn_credential_type (au_session a) = ''bootstrap'')) r)"
proof -
  let ?b = "is_some_and (ui_auth st) (\<lambda>a. csn_credential_type (au_session a) = ''bootstrap'')"
  let ?st1 = "st\<lparr> ui_loading := True, ui_error := None \<rparr>"
  let ?st2 = "refresh_finish ?b r (sign_out ?st1)"
  have "console_step (st, jobs) (?st1, jobs @ [RefreshJob c ?b])"
    using client by (intro step_refresh) (simp add: refresh_begin_def)
  from sign_out_late [OF assms(1) this job_finishes.intros(3)] have "console_reachable (?st2, jobs)" .
  then show ?thesis
    by (intro exI [of _ ?st2], cases "refresh_collect ?b r")
      (simp add: refresh_finish_def console_message_defs Let_def)
qed

section \<open>Events\<close>

lemma apply_sse_event_sorted:
  "sorted_wrt (<) (map cev_sequence es) \<Longrightarrow> sorted_wrt (<) (map cev_sequence (apply_sse_event e es))"
proof -
  assume "sorted_wrt (<) (map cev_sequence es)"
  then have "distinct (map cev_sequence es)" by (simp add: strict_sorted_iff)
  then have "distinct (map cev_sequence (apply_sse_event e es))"
    by (auto simp: apply_sse_event_def distinct_map inj_on_def)
  then show ?thesis by (simp add: strict_sorted_iff) (simp add: apply_sse_event_def)
qed

lemma apply_sse_event_find:
  assumes "sorted_wrt (<) (map cev_sequence es)"
  shows "List.find (\<lambda>x. cev_sequence x = n) (apply_sse_event e es) =
    (if cev_sequence e = n then Some e else List.find (\<lambda>x. cev_sequence x = n) es)"
proof -
  let ?f = "List.find (\<lambda>x. cev_sequence x = n)"
  have d: "distinct (map cev_sequence es)" "distinct (map cev_sequence (apply_sse_event e es))"
    using assms apply_sse_event_sorted [OF assms, of e] strict_sorted_iff by blast+
  have "?f (apply_sse_event e es) = Some x \<longleftrightarrow> (if cev_sequence e = n then Some e else ?f es) = Some x" for x
    using find_key_Some [OF d(2)] find_key_Some [OF d(1)] by (auto simp: apply_sse_event_def)
  then show ?thesis by (metis option.exhaust)
qed

text \<open>
  Whatever events of a task arrive, in whatever order and however often, the list the console keeps is sorted
  by sequence number with each number once, and the event with a number is the last one that arrived with it; the
  cursor is the greatest number seen.
\<close>

lemma sse_events_collected:
  fixes xs :: "console_event list"
  defines "es \<equiv> fold apply_sse_event xs []"
  shows "sorted_wrt (<) (map cev_sequence es) \<and>
    List.find (\<lambda>e. cev_sequence e = n) es = List.find (\<lambda>e. cev_sequence e = n) (rev xs) \<and>
    ec_latest_sequence (fold cursor_observe xs \<lparr> ec_latest_sequence = None \<rparr>) =
      (if xs = [] then None else Some (Max (cev_sequence ` set xs)))"
  unfolding es_def
proof (induction xs rule: rev_induct)
  case (snoc x xs)
  then show ?case
    by (auto simp: apply_sse_event_sorted apply_sse_event_find cursor_observe_def max.commute)
qed simp

section \<open>Forms the daemon refuses as they stand\<close>

lemma csv_default_scopes: "csv (join_with '', '' default_scopes) = default_scopes"
  by code_simp

lemma runtimes_detect_no_scope: "''runtimes:detect'' \<notin> range scope_str"
proof
  assume "''runtimes:detect'' \<in> range scope_str"
  then obtain x where "''runtimes:detect'' = scope_str x" by auto
  then show False by (cases x) simp_all
qed

text \<open>
  The form for a new token, submitted with the scopes it starts with, and the form for an agent, submitted with its
  default choice of permissions, are sent with bodies the daemon cannot read.
\<close>

lemma default_token_form_refused:
  "call_target bytes (CallCreateProductToken pid (token_form_payload label (join_with '', '' default_scopes))) = None"
proof -
  have "those (map scope_of_str default_scopes) = None"
    using those_names_None [OF scope_of_str_None, of default_scopes] runtimes_detect_no_scope
    by (simp add: default_scopes_def)
  then show ?thesis by (simp add: token_payload_read token_form_payload_def csv_default_scopes)
qed

lemma default_agent_form_refused:
  "fa_permission_mode f = [] \<Longrightarrow> call_target bytes (CallCreateAgent (agent_form_payload parse f)) = None"
  by (rule default_permissions_refused)
    (simp add: agent_form_payload_def form_provider_config_def optional_string_def trim_def)

end
