(* ===== verification/Console_Assets.thy ===== *)
theory Console_Assets
  imports Path_Guard
begin

text \<open>
  \<open>src/src/api/console.rs\<close>: the public routes that serve the files of the web console. The root of the
  source tree, fixed when the daemon is built, and the file system are parameters.
\<close>

record asset_files =
  fl_is_file :: "string \<Rightarrow> bool"
  fl_read :: "string \<Rightarrow> string option"
  fl_read_to_string :: "string \<Rightarrow> string option"

datatype asset_response = AssetFile string string | AssetPage string | AssetNotFound

definition CONSOLE_HTML :: string where
  "CONSOLE_HTML = concat (map (\<lambda>l. l @ [CHR 0x0A])
     [''<!doctype html>'',
      ''<html lang=\"en\">'',
      ''  <head>'',
      ''    <meta charset=\"utf-8\" />'',
      ''    <meta name=\"viewport\" content=\"width=device-width, initial-scale=1\" />'',
      ''    <title>OpenDaemon Console</title>'',
      ''  </head>'',
      ''  <body>'',
      ''    <div id=\"root\">'',
      ''      <h1>OpenDaemon Console</h1>'',
      ''      <p>Build the web Console assets to enable the full local UI.</p>'',
      ''    </div>'',
      ''  </body>'',
      ''</html>''])"

definition console_dist_dir :: "string \<Rightarrow> string" where
  "console_dist_dir root = join root ''console/dist''"

definition sanitize_path :: "string \<Rightarrow> string option" where
  "sanitize_path path =
     (let trimmed = dropWhile (\<lambda>c. c = CHR ''/'') path in
      if trimmed = [] \<or> list_ex (\<lambda>w. w = [] \<or> w = ''.'' \<or> w = ''..'') (split_on (CHR ''/'') trimmed)
      then None else Some trimmed)"

text \<open>
  \<open>Path::extension\<close>: the part of the file name after its last dot, unless the name has no dot or starts with its
  only one.
\<close>

definition file_name :: "string \<Rightarrow> string" where
  "file_name p = last (split_on (CHR ''/'') p)"

definition extension :: "string \<Rightarrow> string option" where
  "extension p = (let parts = split_on (CHR ''.'') (file_name p) in
     if length parts < 2 \<or> parts = [[], last parts] then None else Some (last parts))"

definition content_type :: "string \<Rightarrow> string" where
  "content_type p = (case extension p of
       None \<Rightarrow> ''application/octet-stream''
     | Some e \<Rightarrow>
         if e = ''css'' then ''text/css; charset=utf-8''
         else if e = ''js'' then ''text/javascript; charset=utf-8''
         else if e = ''mjs'' then ''text/javascript; charset=utf-8''
         else if e = ''wasm'' then ''application/wasm''
         else if e = ''json'' then ''application/json; charset=utf-8''
         else if e = ''svg'' then ''image/svg+xml''
         else if e = ''png'' then ''image/png''
         else if e = ''webp'' then ''image/webp''
         else if e = ''ico'' then ''image/x-icon''
         else if e = ''html'' then ''text/html; charset=utf-8''
         else ''application/octet-stream'')"

definition console_index_response :: "asset_files \<Rightarrow> string \<Rightarrow> asset_response" where
  "console_index_response fs root =
     (case fl_read_to_string fs (join (console_dist_dir root) ''index.html'') of
        Some index \<Rightarrow> AssetPage index
      | None \<Rightarrow> AssetPage CONSOLE_HTML)"

definition console_shell :: "asset_files \<Rightarrow> string \<Rightarrow> asset_response" where
  "console_shell fs root = console_index_response fs root"

definition console_serve :: "asset_files \<Rightarrow> string \<Rightarrow> string \<Rightarrow> asset_response" where
  "console_serve fs root path =
     (let asset = (case sanitize_path path of
            None \<Rightarrow> None
          | Some p \<Rightarrow> (let f = join (console_dist_dir root) p in if fl_is_file fs f then Some f else None))
      in case asset of
          Some f \<Rightarrow> (case fl_read fs f of Some bytes \<Rightarrow> AssetFile (content_type f) bytes | None \<Rightarrow> AssetNotFound)
        | None \<Rightarrow> console_index_response fs root)"

section \<open>Containment\<close>

lemma split_on_not_Nil [simp]: "split_on c s \<noteq> []"
  by (induction s) (auto split: list.splits)

lemma split_on_parts: "w \<in> set (split_on c s) \<Longrightarrow> c \<notin> set w"
  by (induction s arbitrary: w) (auto split: list.splits if_splits)

lemma render_split: "CHR ''/'' # s = render (split_on (CHR ''/'') s)"
  by (induction s) (auto split: list.splits)

lemma dist_join: "b \<noteq> [] \<Longrightarrow> hd b \<noteq> CHR ''/'' \<Longrightarrow> join (console_dist_dir root) b = console_dist_dir root @ CHR ''/'' # b"
  by (cases b) (simp_all add: join_def console_dist_dir_def is_absolute_def)

text \<open>A sanitised path is a list of names below the directory of the console.\<close>

lemma sanitize_path_names:
  assumes "sanitize_path path = Some p"
  shows "\<exists>ws. ws \<noteq> [] \<and> list_all name_ok ws \<and> join (console_dist_dir root) p = console_dist_dir root @ render ws"
proof -
  let ?ws = "split_on (CHR ''/'') p"
  have p: "p = dropWhile (\<lambda>c. c = CHR ''/'') path" "p \<noteq> []" "\<not> list_ex (\<lambda>w. w = [] \<or> w = ''.'' \<or> w = ''..'') ?ws"
    using assms by (simp_all add: sanitize_path_def Let_def split: if_splits del: dropWhile_eq_Nil_conv)
  have "hd p \<noteq> CHR ''/''" using p(1,2) hd_dropWhile [of "\<lambda>c. c = CHR ''/''" path] by auto
  moreover have "list_all name_ok ?ws"
    using p(3) split_on_parts by (fastforce simp: list_all_iff list_ex_iff name_ok_def)
  ultimately show ?thesis
    using dist_join [OF p(2), of root] render_split [of p] by (intro exI [of _ ?ws]) simp
qed

definition same_file :: "asset_files \<Rightarrow> asset_files \<Rightarrow> string \<Rightarrow> bool" where
  "same_file fs fs' f \<longleftrightarrow> fl_is_file fs f = fl_is_file fs' f \<and> fl_read fs f = fl_read fs' f \<and>
     fl_read_to_string fs f = fl_read_to_string fs' f"

text \<open>
  C34. The public routes of the console read files of its own directory only: whatever path is requested, the
  response depends on nothing but files whose path is that of the directory followed by proper names, with no
  empty, \<open>.\<close> or \<open>..\<close> among them.
\<close>

theorem console_reads_only_its_directory:
  assumes "\<And>ws. ws \<noteq> [] \<Longrightarrow> list_all name_ok ws \<Longrightarrow> same_file fs fs' (console_dist_dir root @ render ws)"
  shows "console_serve fs root path = console_serve fs' root path \<and> console_shell fs root = console_shell fs' root"
proof -
  have "join (console_dist_dir root) ''index.html'' = console_dist_dir root @ render [''index.html'']"
    by (simp add: dist_join)
  then have index: "console_index_response fs root = console_index_response fs' root"
    using assms [of "[''index.html'']"] by (simp add: console_index_response_def same_file_def name_ok_def)
  have "console_serve fs root path = console_serve fs' root path"
  proof (cases "sanitize_path path")
    case (Some p)
    then have "same_file fs fs' (join (console_dist_dir root) p)"
      using sanitize_path_names [of path p root] assms by auto
    with Some index show ?thesis by (simp add: console_serve_def Let_def same_file_def)
  qed (simp add: console_serve_def index)
  with index show ?thesis by (simp add: console_shell_def)
qed

definition demo_files :: "string \<Rightarrow> asset_files" where
  "demo_files secret = \<lparr> fl_is_file = (\<lambda>f. f \<in> {''/d/console/dist/app.js'', ''/etc/secret''}),
     fl_read = (\<lambda>f. if f = ''/d/console/dist/app.js'' then Some ''run'' else if f = ''/etc/secret'' then Some secret else None),
     fl_read_to_string = (\<lambda>_. None) \<rparr>"

theorem console_reads_only_its_directory_witness:
  "console_serve (demo_files ''a'') ''/d'' ''/../../../etc/secret'' = console_serve (demo_files ''b'') ''/d'' ''/../../../etc/secret'' \<and>
   console_serve (demo_files ''a'') ''/d'' ''/app.js'' = AssetFile ''text/javascript; charset=utf-8'' ''run''"
proof -
  have "same_file (demo_files ''a'') (demo_files ''b'') (console_dist_dir ''/d'' @ render ws)" for ws
    by (simp add: same_file_def demo_files_def console_dist_dir_def join_def is_absolute_def)
  then have "console_serve (demo_files ''a'') ''/d'' ''/../../../etc/secret'' =
      console_serve (demo_files ''b'') ''/d'' ''/../../../etc/secret''"
    using console_reads_only_its_directory [of "demo_files ''a''" "demo_files ''b''" "''/d''" "''/../../../etc/secret''"] by simp
  moreover have "console_serve (demo_files ''a'') ''/d'' ''/app.js'' = AssetFile ''text/javascript; charset=utf-8'' ''run''"
    by (simp add: console_serve_def sanitize_path_def console_dist_dir_def join_def is_absolute_def demo_files_def
        content_type_def extension_def file_name_def)
  ultimately show ?thesis by simp
qed

end
