(* ===== verification/Configuration.thy ===== *)
theory Configuration
  imports Api Control_Plane
begin

text \<open>
  \<open>src/src/config/mod.rs\<close>, \<open>DaemonArgs\<close> of \<open>src/src/cli/mod.rs\<close> and \<open>AppState::from_env\<close>: what the daemon runs with.
  \<open>var\<close> is the environment (\<open>std::env::var(...).ok()\<close>), \<open>root\<close> the source tree the daemon was built from and
  \<open>data_dir\<close> the directory for local data that the \<open>directories\<close> crate finds, if any. Durations are in seconds.
\<close>

section \<open>Defaults\<close>

definition DEFAULT_DAEMON_HOST :: string where
  "DEFAULT_DAEMON_HOST = ''127.0.0.1''"

definition DEFAULT_DAEMON_PORT :: "16 word" where
  "DEFAULT_DAEMON_PORT = 19514"

definition DEFAULT_RUNTIME_DETECTION_TIMEOUT :: nat where
  "DEFAULT_RUNTIME_DETECTION_TIMEOUT = 2"

definition DEFAULT_MAX_CONCURRENT_TASKS :: nat where
  "DEFAULT_MAX_CONCURRENT_TASKS = 1"

definition DEFAULT_CONTROL_PLANE_STALENESS_THRESHOLD :: nat where
  "DEFAULT_CONTROL_PLANE_STALENESS_THRESHOLD = 45"

record daemon_config =
  dcf_host :: string
  dcf_port :: "16 word"

definition daemon_config_new :: "string \<Rightarrow> 16 word \<Rightarrow> daemon_config" where
  "daemon_config_new host port = \<lparr> dcf_host = host, dcf_port = port \<rparr>"

definition daemon_config_default :: daemon_config where
  "daemon_config_default = daemon_config_new DEFAULT_DAEMON_HOST DEFAULT_DAEMON_PORT"

text \<open>The arguments of the daemon command as clap fills them in: flag, environment, default.\<close>

record daemon_args =
  da_host :: string
  da_port :: "16 word"

definition daemon_args_config :: "daemon_args \<Rightarrow> daemon_config" where
  "daemon_args_config a = daemon_config_new (da_host a) (da_port a)"

definition auth_from_env :: "(string \<Rightarrow> string option) \<Rightarrow> auth_config" where
  "auth_from_env var = \<lparr> au_bootstrap_token = var ''OPENDAEMON_BOOTSTRAP_TOKEN'' \<rparr>"

definition auth_default :: auth_config where
  "auth_default = \<lparr> au_bootstrap_token = None \<rparr>"

definition control_plane_from_env :: "(string \<Rightarrow> string option) \<Rightarrow> control_plane_config" where
  "control_plane_from_env var =
     \<lparr> cc_endpoint = var ''OPENDAEMON_CONTROL_PLANE_URL'',
       cc_enrollment_secret = var ''OPENDAEMON_CONTROL_PLANE_ENROLLMENT_SECRET'',
       cc_staleness_threshold = DEFAULT_CONTROL_PLANE_STALENESS_THRESHOLD \<rparr>"

definition control_plane_default :: control_plane_config where
  "control_plane_default = \<lparr> cc_endpoint = None, cc_enrollment_secret = None,
     cc_staleness_threshold = DEFAULT_CONTROL_PLANE_STALENESS_THRESHOLD \<rparr>"

definition runtime_detection_default :: runtime_detection_config where
  "runtime_detection_default =
     \<lparr> rd_timeout_millis = 1000 * DEFAULT_RUNTIME_DETECTION_TIMEOUT, rd_environment = SystemEnvironment \<rparr>"

definition with_timeout :: "nat \<Rightarrow> runtime_detection_config \<Rightarrow> runtime_detection_config" where
  "with_timeout millis c = c\<lparr> rd_timeout_millis := millis \<rparr>"

definition with_environment :: "runtime_environment \<Rightarrow> runtime_detection_config \<Rightarrow> runtime_detection_config" where
  "with_environment env c = c\<lparr> rd_environment := env \<rparr>"

text \<open>Collecting pairs into a map: the last value of a key counts.\<close>

definition environment_from_vars :: "(string \<times> string) list \<Rightarrow> runtime_environment" where
  "environment_from_vars vars = MapEnvironment (fold (\<lambda>(k, v). AList.update k v) vars [])"

definition store_config_default :: "string option \<Rightarrow> string" where
  "store_config_default data_dir =
     (case data_dir of Some d \<Rightarrow> join d ''opendaemon.sqlite3'' | None \<Rightarrow> ''opendaemon.sqlite3'')"

definition default_providers_dir :: "string \<Rightarrow> string" where
  "default_providers_dir root = join root ''registry/providers''"

text \<open>\<open>AppState::from_env\<close>, over an environment that already has what is not configuration.\<close>

definition app_env_from_env :: "(string \<Rightarrow> string option) \<Rightarrow> string \<Rightarrow> app_env \<Rightarrow> app_env" where
  "app_env_from_env var root world = world
     \<lparr> env_providers_dir := default_providers_dir root, env_detection_config := runtime_detection_default,
       env_auth := auth_from_env var, env_scheduler := default_scheduler_config \<rparr>"

section \<open>What follows from it\<close>

text \<open>
  Without a bootstrap token in the environment, and also with an empty one, nobody is taken for the owner of the
  daemon.
\<close>

lemma no_bootstrap_without_token:
  assumes "is_none_or (var ''OPENDAEMON_BOOTSTRAP_TOKEN'') (\<lambda>t. t = [])"
  shows "authenticate_request c (auth_from_env var) parts now s \<noteq> (Inr BootstrapContext, s')"
  using assms unfolding authenticate_request_bootstrap
  by (auto simp: auth_from_env_def is_none_or_def bearer_token_def split: option.splits if_splits)

lemma control_plane_needs_both:
  "control_plane_enabled (control_plane_from_env var) \<longleftrightarrow>
     var ''OPENDAEMON_CONTROL_PLANE_URL'' \<noteq> None \<and> var ''OPENDAEMON_CONTROL_PLANE_ENROLLMENT_SECRET'' \<noteq> None"
  "\<not> control_plane_enabled control_plane_default"
  by (simp_all add: control_plane_enabled_def control_plane_from_env_def control_plane_default_def)

lemma environment_from_vars_last:
  "environment_var w (environment_from_vars vars) key = map_of (rev vars) key"
proof -
  have "map_of (fold (\<lambda>(k, v). AList.update k v) vars acc) key = map_of (rev vars @ acc) key" for acc
    by (induction vars arbitrary: acc) (auto simp: update_conv map_add_def split: option.splits)
  from this [of "[]"] show ?thesis by (simp add: environment_from_vars_def environment_var_def)
qed

end
