(* ===== verification/Json_Text.thy ===== *)
theory Json_Text
  imports Json
begin

text \<open>
  The text form of JSON values (\<open>serde_json::to_string\<close> and \<open>serde_json::from_str\<close>), which the stores keep in
  columns. The two functions are code of a library and a parameter here: the locale \<open>json_text\<close> states what
  the library documents. A value that is written and read again is the same value with the keys of its
  objects in order, as \<open>Value\<close> keeps an object in a \<open>BTreeMap\<close>; a text nested 128 levels deep or deeper is
  refused (the recursion limit of the deserializer). Floating point numbers are left out: without the feature
  \<open>float_roundtrip\<close> they are read back only approximately.

  The second half is a printer and a parser of JSON texts that satisfy these laws.
\<close>

section \<open>Shape of values\<close>

primrec nesting :: "json \<Rightarrow> nat" where
  "nesting Null = 0"
| "nesting (Bool b) = 0"
| "nesting (Number n) = 0"
| "nesting (Str s) = 0"
| "nesting (Array vs) = Suc (foldr max (map nesting vs) 0)"
| "nesting (Object kvs) = Suc (foldr max (map snd (map (map_prod id nesting) kvs)) 0)"

primrec canonical :: "json \<Rightarrow> json" where
  "canonical Null = Null"
| "canonical (Bool b) = Bool b"
| "canonical (Number n) = Number n"
| "canonical (Str s) = Str s"
| "canonical (Array vs) = Array (map canonical vs)"
| "canonical (Object kvs) = Object (sort_key fst (map (map_prod id canonical) kvs))"

fun exact_number :: "json_number \<Rightarrow> bool" where
  "exact_number (PosInt w) = True"
| "exact_number (NegInt w) = (sint w < 0)"
| "exact_number (Float w) = False"

primrec printable :: "json \<Rightarrow> bool" where
  "printable Null = True"
| "printable (Bool b) = True"
| "printable (Number n) = exact_number n"
| "printable (Str s) = True"
| "printable (Array vs) = list_all id (map printable vs)"
| "printable (Object kvs) =
     (distinct (map fst kvs) \<and> list_all id (map snd (map (map_prod id printable) kvs)))"

definition RECURSION_LIMIT :: nat where
  "RECURSION_LIMIT = 128"

definition readable :: "json \<Rightarrow> bool" where
  "readable v \<longleftrightarrow> printable v \<and> nesting v < RECURSION_LIMIT"

locale json_text =
  fixes to_string :: "json \<Rightarrow> string" and from_str :: "string \<Rightarrow> json option"
  assumes from_to: "printable v \<Longrightarrow> nesting v < RECURSION_LIMIT \<Longrightarrow> from_str (to_string v) = Some (canonical v)"
    and too_deep: "RECURSION_LIMIT \<le> nesting v \<Longrightarrow> from_str (to_string v) = None"
begin

lemma from_to_readable: "readable v \<Longrightarrow> from_str (to_string v) = Some (canonical v)"
  by (simp add: readable_def from_to)

text \<open>Texts of values that differ after normalisation differ: equality in SQL is equality of values.\<close>

lemma to_string_inject:
  "readable v \<Longrightarrow> readable w \<Longrightarrow> to_string v = to_string w \<Longrightarrow> canonical v = canonical w"
  using from_to_readable [of v] from_to_readable [of w] by simp

lemma to_string_Str [simp]: "to_string (Str a) = to_string (Str b) \<longleftrightarrow> a = b"
  using to_string_inject [of "Str a" "Str b"] by (auto simp: readable_def RECURSION_LIMIT_def)

end

lemma sort_key_fst_set: "set (sort_key fst kvs) = set kvs"
  by simp

lemma map_of_sort_key: "distinct (map fst kvs) \<Longrightarrow> map_of (sort_key fst kvs) = map_of kvs"
  by (subst map_of_inject_set) (simp_all add: distinct_map inj_on_def)

lemma json_get_canonical: "printable v \<Longrightarrow> json_get (canonical v) k = map_option canonical (json_get v k)"
proof (cases v)
  case (Object kvs)
  assume "printable v"
  with Object have "distinct (map fst (map (map_prod id canonical) kvs))" by simp
  then have "map_of (sort_key fst (map (map_prod id canonical) kvs)) k = map_of (map (map_prod id canonical) kvs) k"
    by (simp only: map_of_sort_key)
  also have "\<dots> = map_option canonical (map_of kvs k)"
    by (induction kvs) auto
  finally show ?thesis using Object by simp
qed simp_all

lemma canonical_cases [simp]:
  "canonical v = Null \<longleftrightarrow> v = Null" "canonical v = Str s \<longleftrightarrow> v = Str s"
  by (cases v; simp)+

lemma as_canonical [simp]:
  "as_str (canonical v) = as_str v" "as_bool (canonical v) = as_bool v"
  "is_object (canonical v) = is_object v"
  by (cases v; simp)+

section \<open>A printer and a parser\<close>

definition hex_digit :: "nat \<Rightarrow> char" where
  "hex_digit n = char_of (if n < 10 then 48 + n else 87 + n)"

definition hex_val :: "char \<Rightarrow> nat" where
  "hex_val c = (let b = of_char c in if b < 58 then b - 48 else b - 87)"

definition print_char :: "char \<Rightarrow> string" where
  "print_char c =
     (if c = CHR 0x22 then [CHR 0x5C, CHR 0x22]
      else if c = CHR 0x5C then [CHR 0x5C, CHR 0x5C]
      else if (of_char c :: nat) < 32
        then [CHR 0x5C, CHR ''u'', CHR ''0'', CHR ''0'', hex_digit (of_char c div 16), hex_digit (of_char c mod 16)]
      else [c])"

definition print_str :: "string \<Rightarrow> string" where
  "print_str s = [CHR 0x22] @ concat (map print_char s) @ [CHR 0x22]"

text \<open>
  A float is printed as the number of its bits with a fraction; the parser reads it back the same way. The
  laws do not speak of floats.
\<close>

fun print_number :: "json_number \<Rightarrow> string" where
  "print_number (PosInt w) = show_nat (unat w)"
| "print_number (NegInt w) = CHR ''-'' # show_nat (unat (- w))"
| "print_number (Float w) = show_nat (unat w) @ ''.0''"

fun join_comma :: "string list \<Rightarrow> string" where
  "join_comma [] = []"
| "join_comma [x] = x"
| "join_comma (x # xs) = x @ CHR '','' # join_comma xs"

primrec json_print :: "json \<Rightarrow> string" where
  "json_print Null = ''null''"
| "json_print (Bool b) = (if b then ''true'' else ''false'')"
| "json_print (Number n) = print_number n"
| "json_print (Str s) = print_str s"
| "json_print (Array vs) = CHR ''['' # join_comma (map json_print vs) @ '']''"
| "json_print (Object kvs) = CHR ''{'' #
     join_comma (map (\<lambda>(k, t). print_str k @ CHR '':'' # t) (map (map_prod id json_print) kvs)) @ ''}''"

text \<open>The characters of a string literal up to the closing quote.\<close>

fun parse_chars :: "string \<Rightarrow> (string \<times> string) option" where
  "parse_chars [] = None"
| "parse_chars (c # s) =
     (if c = CHR 0x22 then Some ([], s)
      else if c \<noteq> CHR 0x5C then map_option (\<lambda>(r, t). (c # r, t)) (parse_chars s)
      else (case s of
        [] \<Rightarrow> None
      | d # t \<Rightarrow>
          if d = CHR 0x22 \<or> d = CHR 0x5C then map_option (\<lambda>(r, t). (d # r, t)) (parse_chars t)
          else if d = CHR ''u'' then
            (case t of
               z # y # a # b # u \<Rightarrow> map_option (\<lambda>(r, t). (char_of (16 * hex_val a + hex_val b) # r, t)) (parse_chars u)
             | _ \<Rightarrow> None)
          else None))"

definition parse_str :: "string \<Rightarrow> (string \<times> string) option" where
  "parse_str s = (case s of c # t \<Rightarrow> if c = CHR 0x22 then parse_chars t else None | [] \<Rightarrow> None)"

definition parse_number :: "string \<Rightarrow> (json_number \<times> string) option" where
  "parse_number s =
     (let neg = (s \<noteq> [] \<and> hd s = CHR ''-''); t = (if neg then tl s else s);
          ds = takeWhile is_digit t; rest = dropWhile is_digit t
      in if ds = [] then None
         else if neg then Some (NegInt (- word_of_nat (read_nat ds)), rest)
         else if take 2 rest = ''.0'' then Some (Float (word_of_nat (read_nat ds)), drop 2 rest)
         else Some (PosInt (word_of_nat (read_nat ds)), rest))"

fun parse_value :: "nat \<Rightarrow> string \<Rightarrow> (json \<times> string) option"
  and parse_elements :: "nat \<Rightarrow> string \<Rightarrow> (json list \<times> string) option"
  and parse_members :: "nat \<Rightarrow> string \<Rightarrow> ((string \<times> json) list \<times> string) option" where
  "parse_value 0 s = None"
| "parse_value (Suc n) s =
     (case s of
        [] \<Rightarrow> None
      | c # t \<Rightarrow>
          if c = CHR ''['' then
            (if t \<noteq> [] \<and> hd t = CHR '']'' then Some (Array [], tl t)
             else map_option (\<lambda>(vs, r). (Array vs, r)) (parse_elements n t))
          else if c = CHR ''{'' then
            (if t \<noteq> [] \<and> hd t = CHR ''}'' then Some (Object [], tl t)
             else map_option (\<lambda>(kvs, r). (Object kvs, r)) (parse_members n t))
          else if c = CHR 0x22 then map_option (\<lambda>(x, r). (Str x, r)) (parse_chars t)
          else if take 4 s = ''null'' then Some (Null, drop 4 s)
          else if take 4 s = ''true'' then Some (Bool True, drop 4 s)
          else if take 5 s = ''false'' then Some (Bool False, drop 5 s)
          else map_option (\<lambda>(x, r). (Number x, r)) (parse_number s))"
| "parse_elements 0 s = None"
| "parse_elements (Suc n) s =
     (case parse_value n s of
        Some (v, c # r) \<Rightarrow>
          if c = CHR '','' then map_option (\<lambda>(vs, r). (v # vs, r)) (parse_elements n r)
          else if c = CHR '']'' then Some ([v], r) else None
      | _ \<Rightarrow> None)"
| "parse_members 0 s = None"
| "parse_members (Suc n) s =
     (case parse_str s of
        Some (k, CHR '':'' # t) \<Rightarrow>
          (case parse_value n t of
             Some (v, c # r) \<Rightarrow>
               if c = CHR '','' then map_option (\<lambda>(kvs, r). ((k, v) # kvs, r)) (parse_members n r)
               else if c = CHR ''}'' then Some ([(k, v)], r) else None
           | _ \<Rightarrow> None)
      | _ \<Rightarrow> None)"

text \<open>Every level of the parser takes at least one character, so the length of the text bounds its depth.\<close>

definition json_parse :: "string \<Rightarrow> json option" where
  "json_parse s =
     (case parse_value (Suc (2 * length s)) s of
        Some (v, []) \<Rightarrow> if nesting v < RECURSION_LIMIT then Some (canonical v) else None
      | _ \<Rightarrow> None)"

lemma hex_val_digit: "n < 16 \<Longrightarrow> hex_val (hex_digit n) = n"
  by (simp add: hex_val_def hex_digit_def Let_def)

lemma parse_print_char: "parse_chars (print_char c @ s) = map_option (\<lambda>(r, t). (c # r, t)) (parse_chars s)"
proof -
  have "char_of (16 * (of_char c div 16) + of_char c mod 16 :: nat) = c" by simp
  then show ?thesis
    by (simp add: print_char_def hex_val_digit)
qed

lemma parse_print_chars: "parse_chars (concat (map print_char x) @ CHR 0x22 # s) = Some (x, s)"
  by (induction x) (simp_all add: parse_print_char)

lemma parse_print_str: "parse_str (print_str x @ s) = Some (x, s)"
  by (simp add: parse_str_def print_str_def parse_print_chars)

text \<open>What may follow a value: the end, a comma or a closing bracket.\<close>

fun stops :: "string \<Rightarrow> bool" where
  "stops [] = True"
| "stops (c # s) = (c \<in> {CHR '','', CHR '']'', CHR ''}''})"

lemma stops_digit: "stops s \<Longrightarrow> takeWhile is_digit s = [] \<and> dropWhile is_digit s = s \<and> take 2 s \<noteq> ''.0''"
  by (cases s) (auto simp: is_digit_def)

lemma digits_prefix:
  "takeWhile is_digit (show_nat n @ s) = show_nat n @ takeWhile is_digit s"
  "dropWhile is_digit (show_nat n @ s) = dropWhile is_digit s"
  using show_nat_digits [of _ n] by (simp_all add: takeWhile_append2 dropWhile_append2)

lemma show_nat_hd: "is_digit (hd (show_nat n))" "hd (show_nat n @ s) = hd (show_nat n)"
  using show_nat_digits [of "hd (show_nat n)" n] by (simp_all add: hd_append)

lemma parse_print_number: "stops s \<Longrightarrow> parse_number (print_number x @ s) = Some (x, s)"
proof -
  assume s: "stops s"
  note st = stops_digit [OF s]
  have minus: "hd (show_nat n) \<noteq> CHR ''-''" for n
    using show_nat_hd [of n] by (auto simp: is_digit_def)
  have dot: "takeWhile is_digit (CHR ''.'' # t) = []" "dropWhile is_digit (CHR ''.'' # t) = CHR ''.'' # t" for t
    by (simp_all add: is_digit_def)
  have "\<not> is_digit (CHR ''.'')" by (simp add: is_digit_def)
  then show ?thesis
    by (cases x) (use st in \<open>simp_all add: parse_number_def digits_prefix show_nat_hd minus dot Let_def\<close>)
qed


primrec fuel :: "json \<Rightarrow> nat" where
  "fuel Null = 1"
| "fuel (Bool b) = 1"
| "fuel (Number n) = 1"
| "fuel (Str s) = 1"
| "fuel (Array vs) = Suc (sum_list (map fuel vs) + length vs)"
| "fuel (Object kvs) = Suc (sum_list (map snd (map (map_prod id fuel) kvs)) + length kvs)"

lemma join_comma_Cons: "xs \<noteq> [] \<Longrightarrow> join_comma (x # xs) = x @ CHR '','' # join_comma xs"
  by (cases xs) simp_all

lemma join_comma_length: "sum_list (map length xs) \<le> length (join_comma xs)"
  by (induction xs rule: join_comma.induct) simp_all

text \<open>The first character tells the kinds of values apart.\<close>

lemma number_start:
  "print_number x \<noteq> []" "hd (print_number x) = CHR ''-'' \<or> is_digit (hd (print_number x))"
  by (cases x; simp add: show_nat_hd)+

lemma print_start: "json_print v \<noteq> [] \<and> hd (json_print v) \<notin> {CHR '']'', CHR ''}'', CHR '',''}"
proof (cases v)
  case (Number x)
  have "hd (print_number x) \<notin> {CHR '']'', CHR ''}'', CHR '',''}"
    using number_start(2) [of x] by (auto simp: is_digit_def)
  with Number number_start(1) [of x] show ?thesis by simp
qed (simp_all add: print_str_def)

lemma parse_elements_print:
  assumes "\<And>v s n. v \<in> set vs \<Longrightarrow> fuel v \<le> n \<Longrightarrow> stops s \<Longrightarrow> parse_value n (json_print v @ s) = Some (v, s)"
    and "vs \<noteq> []" and "sum_list (map fuel vs) + length vs \<le> n"
  shows "parse_elements n (join_comma (map json_print vs) @ CHR '']'' # s) = Some (vs, s)"
  using assms
proof (induction vs arbitrary: n)
  case (Cons v vs)
  then obtain m where n: "n = Suc m" by (cases n) auto
  show ?case
  proof (cases "vs = []")
    case True
    with Cons.prems n show ?thesis by simp
  next
    case False
    with Cons.prems n have "parse_elements m (join_comma (map json_print vs) @ CHR '']'' # s) = Some (vs, s)"
      by (intro Cons.IH) simp_all
    with False Cons.prems n show ?thesis by (simp add: join_comma_Cons)
  qed
qed simp

abbreviation print_member :: "string \<times> json \<Rightarrow> string" where
  "print_member \<equiv> \<lambda>(k, v). print_str k @ CHR '':'' # json_print v"

lemma parse_members_print:
  assumes "\<And>k v s n. (k, v) \<in> set kvs \<Longrightarrow> fuel v \<le> n \<Longrightarrow> stops s \<Longrightarrow> parse_value n (json_print v @ s) = Some (v, s)"
    and "kvs \<noteq> []" and "sum_list (map (fuel \<circ> snd) kvs) + length kvs \<le> n"
  shows "parse_members n (join_comma (map print_member kvs) @ CHR ''}'' # s) = Some (kvs, s)"
  using assms
proof (induction kvs arbitrary: n)
  case (Cons kv kvs)
  then obtain m where n: "n = Suc m" by (cases n) auto
  obtain k v where kv: "kv = (k, v)" by (cases kv)
  with Cons.prems n have v: "stops t \<Longrightarrow> parse_value m (json_print v @ t) = Some (v, t)" for t
    by (intro Cons.prems(1) [of k]) simp_all
  show ?case
  proof (cases "kvs = []")
    case True
    with n kv v show ?thesis by (simp add: parse_print_str)
  next
    case False
    with Cons.prems n have "parse_members m (join_comma (map print_member kvs) @ CHR ''}'' # s) = Some (kvs, s)"
      by (intro Cons.IH) (auto intro: Cons.prems(1))
    with False n kv v show ?thesis by (simp add: join_comma_Cons parse_print_str)
  qed
qed simp

lemma json_print_Object: "json_print (Object kvs) = CHR ''{'' # join_comma (map print_member kvs) @ ''}''"
  by (simp add: case_prod_unfold comp_def)

lemma parse_value_number:
  assumes "stops s"
  shows "parse_value (Suc n) (print_number x @ s) = Some (Number x, s)"
proof -
  obtain c t where ct: "print_number x = c # t" and c: "c = CHR ''-'' \<or> is_digit c"
    using number_start [of x] by (cases "print_number x") auto
  then have "c \<notin> {CHR ''['', CHR ''{'', CHR 0x22, CHR ''n'', CHR ''t'', CHR ''f''}"
    by (auto simp: is_digit_def)
  then show ?thesis
    using parse_print_number [OF assms, of x] by (simp add: ct)
qed

lemma parse_value_array:
  assumes "\<And>v s n. v \<in> set vs \<Longrightarrow> fuel v \<le> n \<Longrightarrow> stops s \<Longrightarrow> parse_value n (json_print v @ s) = Some (v, s)"
    and "sum_list (map fuel vs) + length vs \<le> n"
  shows "parse_value (Suc n) (json_print (Array vs) @ s) = Some (Array vs, s)"
proof (cases "vs = []")
  case False
  then obtain v ws where vs: "vs = v # ws" by (cases vs) auto
  have "hd (join_comma (map json_print vs) @ CHR '']'' # s) \<noteq> CHR '']''"
    using print_start [of v] by (cases ws) (simp_all add: vs hd_append)
  moreover have "parse_elements n (join_comma (map json_print vs) @ CHR '']'' # s) = Some (vs, s)"
    by (rule parse_elements_print [OF _ False assms(2)]) (rule assms(1))
  ultimately show ?thesis by simp
qed simp

lemma parse_value_object:
  assumes "\<And>k v s n. (k, v) \<in> set kvs \<Longrightarrow> fuel v \<le> n \<Longrightarrow> stops s \<Longrightarrow> parse_value n (json_print v @ s) = Some (v, s)"
    and "sum_list (map (fuel \<circ> snd) kvs) + length kvs \<le> n"
  shows "parse_value (Suc n) (json_print (Object kvs) @ s) = Some (Object kvs, s)"
proof (cases "kvs = []")
  case False
  then obtain k v ks where kvs: "kvs = (k, v) # ks" by (cases kvs) auto
  have "hd (join_comma (map print_member kvs) @ CHR ''}'' # s) \<noteq> CHR ''}''"
    by (cases ks) (simp_all add: kvs print_str_def)
  moreover have "parse_members n (join_comma (map print_member kvs) @ CHR ''}'' # s) = Some (kvs, s)"
    by (rule parse_members_print [OF _ False assms(2)]) (rule assms(1))
  ultimately show ?thesis
    unfolding json_print_Object by simp
qed simp

lemma parse_print_value: "fuel v \<le> n \<Longrightarrow> stops s \<Longrightarrow> parse_value n (json_print v @ s) = Some (v, s)"
proof (induction v arbitrary: n s)
  case Null
  then show ?case by (cases n) simp_all
next
  case (Bool b)
  then show ?case by (cases n) simp_all
next
  case (Number x)
  then show ?case using parse_value_number by (cases n) simp_all
next
  case (Str x)
  then show ?case using parse_print_chars [of x s] by (cases n) (simp_all add: print_str_def)
next
  case (Array vs)
  then obtain m where n: "n = Suc m" and "sum_list (map fuel vs) + length vs \<le> m" by (cases n) auto
  with Array.IH show ?case unfolding n by (intro parse_value_array)
next
  case (Object kvs)
  then obtain m where n: "n = Suc m" and m: "sum_list (map (fuel \<circ> snd) kvs) + length kvs \<le> m"
    by (cases n) (auto simp: comp_def)
  show ?case
    unfolding n
  proof (rule parse_value_object [OF _ m])
    fix k v s i
    assume "(k, v) \<in> set kvs" and "fuel v \<le> i" and "stops s"
    then show "parse_value i (json_print v @ s) = Some (v, s)" using Object.IH [of "(k, v)" v i s] by simp
  qed
qed


lemma fuel_length: "Suc (fuel v) \<le> 2 * length (json_print v)"
proof (induction v)
  case (Number x)
  then show ?case using number_start(1) [of x] by (cases "print_number x") simp_all
next
  case (Array vs)
  then have "sum_list (map fuel vs) + length vs \<le> 2 * sum_list (map length (map json_print vs))"
  proof (induction vs)
    case (Cons v vs)
    have "Suc (fuel v) \<le> 2 * length (json_print v)" by (rule Cons.prems) simp
    moreover have "sum_list (map fuel vs) + length vs \<le> 2 * sum_list (map length (map json_print vs))"
      by (rule Cons.IH) (rule Cons.prems, simp)
    ultimately show ?case by simp
  qed simp
  also have "\<dots> \<le> 2 * length (join_comma (map json_print vs))"
    using join_comma_length [of "map json_print vs"] by simp
  finally show ?case by simp
next
  case (Object kvs)
  then have "sum_list (map (fuel \<circ> snd) kvs) + length kvs \<le> 2 * sum_list (map length (map print_member kvs))"
  proof (induction kvs)
    case (Cons kv kvs)
    obtain k v where kv: "kv = (k, v)" by (cases kv)
    then have "Suc (fuel v) \<le> 2 * length (json_print v)" by (intro Cons.prems [of kv]) simp_all
    moreover have "sum_list (map (fuel \<circ> snd) kvs) + length kvs \<le> 2 * sum_list (map length (map print_member kvs))"
      by (rule Cons.IH) (rule Cons.prems, simp_all)
    ultimately show ?case by (simp add: kv comp_def)
  qed simp
  also have "\<dots> \<le> 2 * length (join_comma (map print_member kvs))"
    using join_comma_length [of "map print_member kvs"] by simp
  finally show ?case unfolding json_print_Object by (simp add: comp_def)
qed (simp_all add: print_str_def)

interpretation compact: json_text json_print json_parse
proof
  fix v
  have "fuel v \<le> Suc (2 * length (json_print v))" using fuel_length [of v] by simp
  then have "parse_value (Suc (2 * length (json_print v))) (json_print v) = Some (v, [])"
    using parse_print_value [of v _ "[]"] by (simp del: parse_value.simps)
  then have read: "json_parse (json_print v) = (if nesting v < RECURSION_LIMIT then Some (canonical v) else None)"
    by (simp add: json_parse_def del: parse_value.simps)
  then show "printable v \<Longrightarrow> nesting v < RECURSION_LIMIT \<Longrightarrow> json_parse (json_print v) = Some (canonical v)"
    and "RECURSION_LIMIT \<le> nesting v \<Longrightarrow> json_parse (json_print v) = None" by simp_all
qed

end
