(* ===== verification/Sqlite.thy ===== *)
theory Sqlite
  imports Json_Text
begin

text \<open>
  \<open>src/src/store/sqlite.rs\<close>: the schema of the database and how a connection is opened, with what the stores use
  of the driver (\<open>rusqlite\<close>): reading a column of a row at a type, and what INSERT and UPDATE do to a row.

  Driver and JSON library are parameters, the record \<open>backend\<close>; the locale \<open>storage\<close> states what they document:
  a text or a 64-bit integer that is written is read back, and only NULL is null. \<open>sqlite_backend\<close> satisfies
  it with the storage classes of SQLite and the JSON texts of \<open>Json_Text\<close>.
\<close>

section \<open>Values and rows\<close>

record 'v backend =
  bk_to_string :: "json \<Rightarrow> string"
  bk_from_str :: "string \<Rightarrow> json option"
  bk_text :: "string \<Rightarrow> 'v"
  bk_integer :: "int \<Rightarrow> 'v"
  bk_null :: 'v
  bk_get_text :: "'v \<Rightarrow> string option"
  bk_get_integer :: "'v \<Rightarrow> int option"
  bk_is_null :: "'v \<Rightarrow> bool"

type_synonym 'v row = "(string \<times> 'v) list"

datatype row_error = InvalidColumnName string | InvalidColumnType string | InvalidJson string

definition fits_i64 :: "int \<Rightarrow> bool" where
  "fits_i64 i \<longleftrightarrow> - (2 ^ 63) \<le> i \<and> i < 2 ^ 63"

locale storage = json_text "bk_to_string bk" "bk_from_str bk" for bk :: "'v backend" +
  assumes get_text [simp]: "bk_get_text bk (bk_text bk s) = Some s"
    and get_integer [simp]: "fits_i64 i \<Longrightarrow> bk_get_integer bk (bk_integer bk i) = Some i"
    and is_null [simp]: "bk_is_null bk (bk_null bk)" "\<not> bk_is_null bk (bk_text bk s)" "\<not> bk_is_null bk (bk_integer bk i)"
begin

lemma text_inject [simp]: "bk_text bk a = bk_text bk b \<longleftrightarrow> a = b"
  by (metis get_text option.inject)

lemma integer_inject: "fits_i64 i \<Longrightarrow> fits_i64 j \<Longrightarrow> bk_integer bk i = bk_integer bk j \<longleftrightarrow> i = j"
  by (metis get_integer option.inject)

end

text \<open>What the stores write.\<close>

definition opt_text :: "'v backend \<Rightarrow> string option \<Rightarrow> 'v" where
  "opt_text bk x = (case x of None \<Rightarrow> bk_null bk | Some s \<Rightarrow> bk_text bk s)"

definition sql_bool :: "'v backend \<Rightarrow> bool \<Rightarrow> 'v" where
  "sql_bool bk b = bk_integer bk (if b then 1 else 0)"

definition sql_nat :: "'v backend \<Rightarrow> nat \<Rightarrow> 'v" where
  "sql_nat bk n = bk_integer bk (int n)"

definition opt_nat :: "'v backend \<Rightarrow> nat option \<Rightarrow> 'v" where
  "opt_nat bk x = (case x of None \<Rightarrow> bk_null bk | Some n \<Rightarrow> sql_nat bk n)"

definition serialize_json :: "'v backend \<Rightarrow> json \<Rightarrow> 'v" where
  "serialize_json bk v = bk_text bk (bk_to_string bk v)"

definition serialize_optional_json :: "'v backend \<Rightarrow> json option \<Rightarrow> 'v" where
  "serialize_optional_json bk x = (case x of None \<Rightarrow> bk_null bk | Some v \<Rightarrow> serialize_json bk v)"

text \<open>\<open>row.get\<close> at the types the stores use. Reading NULL at an optional type gives \<open>None\<close>.\<close>

definition column :: "'v row \<Rightarrow> string \<Rightarrow> row_error + 'v" where
  "column r c = ok_or (InvalidColumnName c) (map_of r c)"

definition get_string :: "'v backend \<Rightarrow> 'v row \<Rightarrow> string \<Rightarrow> row_error + string" where
  "get_string bk r c = r_then (column r c) (\<lambda>v. ok_or (InvalidColumnType c) (bk_get_text bk v))"

definition get_i64 :: "'v backend \<Rightarrow> 'v row \<Rightarrow> string \<Rightarrow> row_error + int" where
  "get_i64 bk r c = r_then (column r c) (\<lambda>v. ok_or (InvalidColumnType c) (bk_get_integer bk v))"

definition get_bool :: "'v backend \<Rightarrow> 'v row \<Rightarrow> string \<Rightarrow> row_error + bool" where
  "get_bool bk r c = r_then (get_i64 bk r c) (\<lambda>i. Inr (i \<noteq> 0))"

definition get_nat :: "'v backend \<Rightarrow> 'v row \<Rightarrow> string \<Rightarrow> row_error + nat" where
  "get_nat bk r c = r_then (get_i64 bk r c) (\<lambda>i. if i < 0 then Inl (InvalidColumnType c) else Inr (nat i))"

definition get_optional ::
  "('v backend \<Rightarrow> 'v row \<Rightarrow> string \<Rightarrow> row_error + 'a) \<Rightarrow> 'v backend \<Rightarrow> 'v row \<Rightarrow> string \<Rightarrow> row_error + 'a option" where
  "get_optional get bk r c =
     r_then (column r c) (\<lambda>v. if bk_is_null bk v then Inr None else r_then (get bk r c) (\<lambda>x. Inr (Some x)))"

definition deserialize_json :: "'v backend \<Rightarrow> (json \<Rightarrow> 'a option) \<Rightarrow> string \<Rightarrow> string \<Rightarrow> row_error + 'a" where
  "deserialize_json bk dec c text = ok_or (InvalidJson c) (Option.bind (bk_from_str bk text) dec)"

definition read_json :: "'v backend \<Rightarrow> (json \<Rightarrow> 'a option) \<Rightarrow> 'v row \<Rightarrow> string \<Rightarrow> row_error + 'a" where
  "read_json bk dec r c = r_then (get_string bk r c) (deserialize_json bk dec c)"

definition deserialize_optional_json ::
  "'v backend \<Rightarrow> (json \<Rightarrow> 'a option) \<Rightarrow> string \<Rightarrow> string option \<Rightarrow> row_error + 'a option" where
  "deserialize_optional_json bk dec c x =
     (case x of None \<Rightarrow> Inr None | Some text \<Rightarrow> r_then (deserialize_json bk dec c text) (\<lambda>v. Inr (Some v)))"

lemma r_then_Inr_simp [simp]: "r_then (Inr x) f = f x"
  by (simp add: r_then_def)

lemma ok_or_Some_simp [simp]: "ok_or e (Some x) = Inr x"
  by (simp add: ok_or_def)

subsection \<open>Reading what was written\<close>

lemma get_column:
  "column ((c, v) # r) c = Inr v" "c \<noteq> d \<Longrightarrow> column ((d, v) # r) c = column r c"
  by (simp_all add: column_def)

context storage
begin

lemma fits_nat: "n < 2 ^ 63 \<Longrightarrow> fits_i64 (int n)"
  by (simp add: fits_i64_def)

lemma get_bool_column [simp]: "column r c = Inr (sql_bool bk b) \<Longrightarrow> get_bool bk r c = Inr b"
  by (simp add: get_bool_def get_i64_def sql_bool_def r_then_def ok_or_def fits_i64_def)

lemma get_string_column [simp]: "column r c = Inr (bk_text bk s) \<Longrightarrow> get_string bk r c = Inr s"
  by (simp add: get_string_def r_then_def ok_or_def)

lemma get_json_column [simp]: "column r c = Inr (serialize_json bk v) \<Longrightarrow> get_string bk r c = Inr (bk_to_string bk v)"
  by (simp add: serialize_json_def)

lemma get_nat_column [simp]: "column r c = Inr (sql_nat bk n) \<Longrightarrow> n < 2 ^ 63 \<Longrightarrow> get_nat bk r c = Inr n"
  by (simp add: get_nat_def get_i64_def sql_nat_def r_then_def ok_or_def fits_nat)

lemma get_opt_text_column [simp]:
  "column r c = Inr (opt_text bk x) \<Longrightarrow> get_optional get_string bk r c = Inr x"
  by (cases x) (simp_all add: get_optional_def opt_text_def r_then_def)

lemma get_opt_json_column [simp]:
  "column r c = Inr (serialize_optional_json bk x) \<Longrightarrow>
   get_optional get_string bk r c = Inr (map_option (bk_to_string bk) x)"
  by (cases x) (simp_all add: get_optional_def serialize_optional_json_def r_then_def, simp add: serialize_json_def)

lemma get_opt_nat_column [simp]:
  "column r c = Inr (opt_nat bk x) \<Longrightarrow> is_none_or x (\<lambda>n. n < 2 ^ 63) \<Longrightarrow> get_optional get_nat bk r c = Inr x"
  by (cases x) (simp_all add: get_optional_def opt_nat_def r_then_def is_none_or_def, simp add: sql_nat_def)

lemma deserialize_text [simp]:
  "readable v \<Longrightarrow> deserialize_json bk dec c (bk_to_string bk v) = ok_or (InvalidJson c) (dec (canonical v))"
  by (simp add: deserialize_json_def from_to_readable)

lemma deserialize_optional_text [simp]:
  "is_none_or x readable \<Longrightarrow> deserialize_optional_json bk dec c (map_option (bk_to_string bk) x) =
     (case x of None \<Rightarrow> Inr None | Some v \<Rightarrow> r_then (ok_or (InvalidJson c) (dec (canonical v))) (\<lambda>v. Inr (Some v)))"
  by (cases x) (simp_all add: deserialize_optional_json_def is_none_or_def)

end

text \<open>A row as UPDATE leaves it, and a table after UPDATE with a condition.\<close>

definition update_values :: "'v row \<Rightarrow> 'v row \<Rightarrow> 'v row" where
  "update_values vals r = map (\<lambda>(c, v). (c, unwrap_or (map_of vals c) v)) r"

definition sql_coalesce :: "'v backend \<Rightarrow> 'v \<Rightarrow> 'v \<Rightarrow> 'v" where
  "sql_coalesce bk a b = (if bk_is_null bk a then b else a)"

definition sql_update :: "('v row \<Rightarrow> bool) \<Rightarrow> ('v row \<Rightarrow> 'v row) \<Rightarrow> 'v row list \<Rightarrow> 'v row list" where
  "sql_update w vals rs = map (\<lambda>r. if w r then update_values (vals r) r else r) rs"

definition where_text :: "'v backend \<Rightarrow> string \<Rightarrow> string \<Rightarrow> 'v row \<Rightarrow> bool" where
  "where_text bk c s r \<longleftrightarrow> map_of r c = Some (bk_text bk s)"

text \<open>
  The contract of a table: a row written for a value is read as that value in normal form. It carries over to
  queries, which select rows by their columns and decode what is left; one row that cannot be read makes the
  query fail.
\<close>

locale row_codec =
  fixes enc :: "'a \<Rightarrow> 'v row" and dec :: "'v row \<Rightarrow> row_error + 'b" and norm :: "'a \<Rightarrow> 'b" and storable :: "'a \<Rightarrow> bool"
  assumes decode: "storable x \<Longrightarrow> dec (enc x) = Inr (norm x)"
begin

lemma read_all: "list_all storable xs \<Longrightarrow> r_collect (map dec (map enc xs)) = Inr (map norm xs)"
  by (induction xs) (simp_all add: decode)

lemma select:
  assumes "\<And>x. w (enc x) = p x" and "list_all storable xs"
  shows "r_collect (map dec (filter w (map enc xs))) = Inr (map norm (filter p xs))"
proof -
  have "filter w (map enc xs) = map enc (filter p xs)" by (simp add: filter_map comp_def assms(1))
  moreover have "list_all storable (filter p xs)" using assms(2) by (simp add: list_all_iff)
  ultimately show ?thesis by (simp only: read_all)
qed

lemma update_table:
  assumes "\<And>x. w (enc x) = p x" and "\<And>x. update_values (vals (enc x)) (enc x) = enc (f x)"
  shows "sql_update w vals (map enc xs) = map enc (update_rows p f xs)"
  by (simp add: sql_update_def update_rows_def assms)

lemma select_first:
  assumes "\<And>x. w (enc x) = p x" and "list_all storable xs"
  shows "map_option dec (List.find w (map enc xs)) = map_option (\<lambda>x. Inr (norm x)) (List.find p xs)"
  using assms(2) by (induction xs) (simp_all add: assms(1) decode)

lemma unreadable_row:
  assumes "x \<in> set xs" and "dec (enc x) = Inl e"
  shows "\<exists>e'. r_collect (map dec (map enc xs)) = Inl e'"
  using assms
proof (induction xs)
  case (Cons y ys)
  then show ?case by (cases "dec (enc y)") (auto split: sum.splits)
qed simp

end

section \<open>The schema\<close>

datatype column_type = TEXT | INTEGER

record column_def =
  cd_name :: string
  cd_type :: column_type
  cd_not_null :: bool

definition col :: "string \<Rightarrow> column_type \<Rightarrow> bool \<Rightarrow> column_def" where
  "col name ty nn = \<lparr> cd_name = name, cd_type = ty, cd_not_null = nn \<rparr>"

record table_def =
  tb_name :: string
  tb_columns :: "column_def list"
  tb_primary_key :: "string list"
  tb_unique :: "string list list"

definition directory_grants_table :: table_def where
  "directory_grants_table =
     \<lparr> tb_name = ''directory_grants'',
       tb_columns =
         [col ''id'' TEXT False, col ''product_id'' TEXT True, col ''agent_id'' TEXT True, col ''path'' TEXT True,
          col ''capabilities_json'' TEXT True, col ''workspace_modes_json'' TEXT True,
          col ''default_workspace_mode'' TEXT True, col ''lock_policy'' TEXT True,
          col ''direct_mode_requires_explicit_task_opt_in'' INTEGER True,
          col ''allow_remote_execution'' INTEGER True, col ''created_at'' TEXT True, col ''updated_at'' TEXT True],
       tb_primary_key = [''id''], tb_unique = [] \<rparr>"

definition agent_profiles_table :: table_def where
  "agent_profiles_table =
     \<lparr> tb_name = ''agent_profiles'',
       tb_columns =
         [col ''id'' TEXT False, col ''name'' TEXT True, col ''owner_product_id'' TEXT True,
          col ''provider_id'' TEXT True, col ''model'' TEXT True, col ''instructions'' TEXT False,
          col ''execution_policy_json'' TEXT True, col ''provider_config_json'' TEXT True,
          col ''created_at'' TEXT True, col ''updated_at'' TEXT True],
       tb_primary_key = [''id''], tb_unique = [] \<rparr>"

definition tasks_table :: table_def where
  "tasks_table =
     \<lparr> tb_name = ''tasks'',
       tb_columns =
         [col ''id'' TEXT False, col ''owner_product_id'' TEXT True, col ''agent_id'' TEXT True,
          col ''directory_id'' TEXT True, col ''prompt'' TEXT True, col ''required_capabilities_json'' TEXT True,
          col ''workspace_mode'' TEXT True, col ''direct_mode_task_opt_in'' INTEGER True,
          col ''metadata_json'' TEXT False, col ''provider_id'' TEXT True, col ''model'' TEXT True,
          col ''permission_mode'' TEXT True, col ''timeout_seconds'' INTEGER False, col ''status'' TEXT True,
          col ''result_json'' TEXT False, col ''created_at'' TEXT True, col ''updated_at'' TEXT True,
          col ''started_at'' TEXT False, col ''completed_at'' TEXT False, col ''cancelled_at'' TEXT False,
          col ''failed_at'' TEXT False],
       tb_primary_key = [''id''], tb_unique = [] \<rparr>"

definition task_events_table :: table_def where
  "task_events_table =
     \<lparr> tb_name = ''task_events'',
       tb_columns =
         [col ''id'' TEXT False, col ''task_id'' TEXT True, col ''sequence'' INTEGER True,
          col ''event_type'' TEXT True, col ''payload_json'' TEXT True, col ''created_at'' TEXT True],
       tb_primary_key = [''id''], tb_unique = [[''task_id'', ''sequence'']] \<rparr>"

definition task_permission_requests_table :: table_def where
  "task_permission_requests_table =
     \<lparr> tb_name = ''task_permission_requests'',
       tb_columns =
         [col ''request_id'' TEXT False, col ''task_id'' TEXT True, col ''sequence'' INTEGER True,
          col ''provider_id'' TEXT True, col ''permission_kind'' TEXT True, col ''status'' TEXT True,
          col ''request_payload_json'' TEXT True, col ''response_payload_json'' TEXT False,
          col ''requested_at'' TEXT True, col ''responded_at'' TEXT False],
       tb_primary_key = [''request_id''], tb_unique = [] \<rparr>"

definition directory_locks_table :: table_def where
  "directory_locks_table =
     \<lparr> tb_name = ''directory_locks'',
       tb_columns =
         [col ''directory_id'' TEXT True, col ''task_id'' TEXT True, col ''mode'' TEXT True,
          col ''status'' TEXT True, col ''created_at'' TEXT True, col ''released_at'' TEXT False],
       tb_primary_key = [''directory_id'', ''task_id''], tb_unique = [] \<rparr>"

definition products_table :: table_def where
  "products_table =
     \<lparr> tb_name = ''products'',
       tb_columns =
         [col ''id'' TEXT False, col ''display_name'' TEXT True, col ''status'' TEXT True,
          col ''description'' TEXT False, col ''created_at'' TEXT True, col ''updated_at'' TEXT True],
       tb_primary_key = [''id''], tb_unique = [] \<rparr>"

definition product_tokens_table :: table_def where
  "product_tokens_table =
     \<lparr> tb_name = ''product_tokens'',
       tb_columns =
         [col ''id'' TEXT False, col ''product_id'' TEXT True, col ''label'' TEXT True, col ''scopes_json'' TEXT True,
          col ''token_prefix'' TEXT True, col ''token_digest_hex'' TEXT True, col ''created_at'' TEXT True,
          col ''last_used_at'' TEXT False, col ''revoked_at'' TEXT False],
       tb_primary_key = [''id''], tb_unique = [[''token_digest_hex'']] \<rparr>"

definition daemon_state_table :: table_def where
  "daemon_state_table =
     \<lparr> tb_name = ''daemon_state'',
       tb_columns =
         [col ''daemon_id'' TEXT False, col ''control_plane_url'' TEXT True, col ''daemon_token'' TEXT True,
          col ''status'' TEXT True, col ''registered_at'' TEXT True, col ''last_heartbeat_at'' TEXT False,
          col ''last_error_code'' TEXT False, col ''session_id'' TEXT False],
       tb_primary_key = [''daemon_id''], tb_unique = [] \<rparr>"

definition schema :: "table_def list" where
  "schema = [directory_grants_table, agent_profiles_table, tasks_table, task_events_table,
     task_permission_requests_table, directory_locks_table, products_table, product_tokens_table,
     daemon_state_table]"

lemmas table_defs = directory_grants_table_def agent_profiles_table_def tasks_table_def task_events_table_def
  task_permission_requests_table_def directory_locks_table_def products_table_def product_tokens_table_def
  daemon_state_table_def col_def

text \<open>
  What a table requires of its rows: exactly the declared columns, values of the declared type or NULL, no NULL
  where it is excluded, and different rows with different values of the primary key and of every UNIQUE.
\<close>

definition value_ok :: "'v backend \<Rightarrow> column_def \<Rightarrow> 'v \<Rightarrow> bool" where
  "value_ok bk c v \<longleftrightarrow>
     (if bk_is_null bk v then \<not> cd_not_null c
      else case cd_type c of TEXT \<Rightarrow> bk_get_text bk v \<noteq> None | INTEGER \<Rightarrow> bk_get_integer bk v \<noteq> None)"

definition row_ok :: "'v backend \<Rightarrow> table_def \<Rightarrow> 'v row \<Rightarrow> bool" where
  "row_ok bk t r \<longleftrightarrow> map fst r = map cd_name (tb_columns t) \<and> list_all2 (value_ok bk) (tb_columns t) (map snd r)"

definition key_of :: "string list \<Rightarrow> 'v row \<Rightarrow> 'v option list" where
  "key_of cs r = map (map_of r) cs"

definition satisfies :: "'v backend \<Rightarrow> table_def \<Rightarrow> 'v row list \<Rightarrow> bool" where
  "satisfies bk t rs \<longleftrightarrow> list_all (row_ok bk t) rs \<and>
     list_all (\<lambda>cs. distinct (map (key_of cs) rs)) (tb_primary_key t # tb_unique t)"

text \<open>A row as INSERT makes it, with NULL in the columns that are not named, and INSERT OR REPLACE.\<close>

definition insert_values :: "'v backend \<Rightarrow> table_def \<Rightarrow> 'v row \<Rightarrow> 'v row" where
  "insert_values bk t vals =
     map (\<lambda>c. (cd_name c, unwrap_or (map_of vals (cd_name c)) (bk_null bk))) (tb_columns t)"

definition insert_or_replace :: "table_def \<Rightarrow> 'v row \<Rightarrow> 'v row list \<Rightarrow> 'v row list" where
  "insert_or_replace t r rs = filter (\<lambda>q. key_of (tb_primary_key t) q \<noteq> key_of (tb_primary_key t) r) rs @ [r]"

section \<open>Opening the database\<close>

type_synonym 'v database = "(string \<times> 'v row list) list"

text \<open>\<open>CREATE TABLE IF NOT EXISTS\<close> for every table; the indices do not constrain rows.\<close>

definition create_table_if_not_exists :: "table_def \<Rightarrow> 'v database \<Rightarrow> 'v database" where
  "create_table_if_not_exists t db = (if map_of db (tb_name t) = None then db @ [(tb_name t, [])] else db)"

definition initialize_schema :: "'v database \<Rightarrow> 'v database" where
  "initialize_schema db = fold create_table_if_not_exists schema db"

text \<open>
  \<open>open_connection\<close>: \<open>parent\<close>, \<open>create_dir_all\<close> and \<open>Connection::open\<close> are the file system's and the driver's; a
  parent that is the empty path is not created.
\<close>

record 'v database_world =
  dw_parent :: "string \<Rightarrow> string option"
  dw_create_dir_all :: "string \<Rightarrow> bool"
  dw_open :: "string \<Rightarrow> string + 'v database"

definition open_connection :: "'v database_world \<Rightarrow> string \<Rightarrow> string + 'v database" where
  "open_connection w path =
     (case dw_parent w path of
        Some p \<Rightarrow>
          if p \<noteq> [] \<and> \<not> dw_create_dir_all w p then Inl (''InvalidPath: '' @ path)
          else r_then (dw_open w path) (\<lambda>db. Inr (initialize_schema db))
      | None \<Rightarrow> r_then (dw_open w path) (\<lambda>db. Inr (initialize_schema db)))"

lemma create_table_rows:
  "map_of (create_table_if_not_exists t db) n =
     (case map_of db n of None \<Rightarrow> if n = tb_name t then Some [] else None | Some rs \<Rightarrow> Some rs)"
  by (auto simp: create_table_if_not_exists_def map_add_def split: option.splits)

lemma fold_create_rows:
  "map_of (fold create_table_if_not_exists ts db) n =
     (case map_of db n of None \<Rightarrow> if n \<in> tb_name ` set ts then Some [] else None | Some rs \<Rightarrow> Some rs)"
  by (induction ts arbitrary: db) (auto simp: create_table_rows split: option.splits)

lemma create_tables_present: "(\<And>t. t \<in> set ts \<Longrightarrow> map_of db (tb_name t) \<noteq> None) \<Longrightarrow> fold create_table_if_not_exists ts db = db"
  by (induction ts) (force simp: create_table_if_not_exists_def)+

text \<open>
  Every operation of a store opens a connection, which runs the schema again: no row is touched and a database
  with all tables stays as it is.
\<close>

lemma initialize_schema_keeps: "map_of db n = Some rs \<Longrightarrow> map_of (initialize_schema db) n = Some rs"
  by (simp add: initialize_schema_def fold_create_rows)

lemma initialize_schema_creates: "t \<in> set schema \<Longrightarrow> map_of (initialize_schema db) (tb_name t) \<noteq> None"
  by (auto simp: initialize_schema_def fold_create_rows split: option.splits)

lemma initialize_schema_idem: "initialize_schema (initialize_schema db) = initialize_schema db"
  using initialize_schema_creates [of _ db]
  by (subst (1) initialize_schema_def) (rule create_tables_present, blast)

section \<open>SQLite's storage classes\<close>

datatype sql_value = SqlNull | SqlInteger "64 word" | SqlReal "64 word" | SqlText string | SqlBlob string

fun sql_get_text :: "sql_value \<Rightarrow> string option" where
  "sql_get_text (SqlText s) = Some s"
| "sql_get_text _ = None"

fun sql_get_integer :: "sql_value \<Rightarrow> int option" where
  "sql_get_integer (SqlInteger w) = Some (sint w)"
| "sql_get_integer _ = None"

definition sqlite_backend :: "sql_value backend" where
  "sqlite_backend = \<lparr> bk_to_string = json_print, bk_from_str = json_parse, bk_text = SqlText,
     bk_integer = (\<lambda>i. SqlInteger (word_of_int i)), bk_null = SqlNull, bk_get_text = sql_get_text,
     bk_get_integer = sql_get_integer, bk_is_null = (\<lambda>v. v = SqlNull) \<rparr>"

interpretation sqlite: storage sqlite_backend
  by unfold_locales
    (simp_all add: sqlite_backend_def fits_i64_def signed_take_bit_int_eq_self signed_of_int compact.from_to compact.too_deep)

end
