(* ===== verification/Task_Codec.thy ===== *)
theory Task_Codec
  imports Sqlite Console_Codec
begin

text \<open>
  \<open>src/src/store/tasks/codec.rs\<close> and the SQL statements of \<open>src/src/store/tasks.rs\<close>: how the four tables of the task
  store are written and read, column by column. \<open>Task_Store\<close> works on typed rows; here every statement is
  applied to the row of SQL values and shown to be the update of \<open>Task_Store\<close>, and every query to return what
  \<open>Task_Store\<close> returns, with the objects in JSON columns in normal form.
\<close>

section \<open>JSON columns\<close>

fun lock_mode_str :: "lock_mode \<Rightarrow> string" where
  "lock_mode_str LockExclusive = ''exclusive''"
| "lock_mode_str LockShared = ''shared''"
| "lock_mode_str LockNone = ''none''"

definition lock_mode_of_str :: "string \<Rightarrow> lock_mode option" where
  "lock_mode_of_str s = List.find (\<lambda>m. lock_mode_str m = s) [LockExclusive, LockShared, LockNone]"

fun request_status_str :: "permission_request_status \<Rightarrow> string" where
  "request_status_str Pending = ''pending''"
| "request_status_str Approved = ''approved''"
| "request_status_str Denied = ''denied''"

definition request_status_of_str :: "string \<Rightarrow> permission_request_status option" where
  "request_status_of_str s = List.find (\<lambda>m. request_status_str m = s) [Pending, Approved, Denied]"

definition task_status_of_str :: "string \<Rightarrow> task_status option" where
  "task_status_of_str s = List.find (\<lambda>m. task_status_str m = s)
     [Queued, WaitingDirectoryLock, Preparing, Running, Completed, Failed, Cancelled, TimedOut]"

definition event_type_of_str :: "string \<Rightarrow> task_event_type option" where
  "event_type_of_str s = List.find (\<lambda>m. event_type_as_str m = s)
     [EvQueued, EvWaitingDirectoryLock, EvPreparing, EvRunning, EvCompleted, EvFailed, EvCancelled, EvTimedOut,
      ProcessStdout, ProcessStderr, ProviderPermissionRequested, ProviderPermissionDecided]"

definition task_result_of :: "json \<Rightarrow> task_result option" where
  "task_result_of v = do {
     task_id \<leftarrow> field as_str v ''task_id'';
     status \<leftarrow> field (dec_enum task_status_of_str) v ''status'';
     final_message \<leftarrow> field as_str v ''final_message'';
     changed_files \<leftarrow> field (dec_list as_str) v ''changed_files'';
     diff \<leftarrow> opt_field as_str v ''diff'';
     workspace_mode \<leftarrow> field (dec_enum workspace_mode_of_str) v ''workspace_mode'';
     worktree_path \<leftarrow> opt_field as_str v ''worktree_path'';
     source_directory_id \<leftarrow> field as_str v ''source_directory_id'';
     branch_name \<leftarrow> opt_field as_str v ''branch_name'';
     commit_hash \<leftarrow> opt_field as_str v ''commit_hash'';
     session_id \<leftarrow> opt_field as_str v ''session_id'';
     provider_result \<leftarrow> opt_field Some v ''provider_result'';
     usage \<leftarrow> opt_field Some v ''usage'';
     artifacts \<leftarrow> field (dec_list Some) v ''artifacts'';
     error \<leftarrow> opt_field as_str v ''error'';
     created_at \<leftarrow> field as_str v ''created_at'';
     updated_at \<leftarrow> field as_str v ''updated_at'';
     Some \<lparr> tr_task_id = task_id, tr_status = status, tr_final_message = final_message,
       tr_changed_files = changed_files, tr_diff = diff, tr_workspace_mode = workspace_mode,
       tr_worktree_path = worktree_path, tr_source_directory_id = source_directory_id,
       tr_branch_name = branch_name, tr_commit_hash = commit_hash, tr_session_id = session_id,
       tr_provider_result = provider_result, tr_usage = usage, tr_artifacts = artifacts, tr_error = error,
       tr_created_at = created_at, tr_updated_at = updated_at \<rparr> }"

definition request_event_of :: "json \<Rightarrow> permission_request_event option" where
  "request_event_of v = do {
     request_id \<leftarrow> field as_str v ''request_id'';
     provider_id \<leftarrow> field as_str v ''provider_id'';
     permission_kind \<leftarrow> field as_str v ''permission_kind'';
     summary \<leftarrow> field as_str v ''summary'';
     details \<leftarrow> opt_field Some v ''details'';
     options \<leftarrow> field (dec_list (dec_enum decision_of_str)) v ''options'';
     expires_at \<leftarrow> opt_field as_str v ''expires_at'';
     Some \<lparr> pq_request_id = request_id, pq_provider_id = provider_id, pq_permission_kind = permission_kind,
       pq_summary = summary, pq_details = details, pq_options = options, pq_expires_at = expires_at \<rparr> }"

section \<open>Reading rows\<close>

definition row_to_task :: "'v backend \<Rightarrow> 'v row \<Rightarrow> row_error + task" where
  "row_to_task bk r =
     r_then (get_string bk r ''required_capabilities_json'') (\<lambda>required_capabilities_json.
     r_then (get_string bk r ''workspace_mode'') (\<lambda>workspace_mode_json.
     r_then (get_string bk r ''status'') (\<lambda>status_json.
     r_then (get_optional get_string bk r ''metadata_json'') (\<lambda>metadata_json.
     r_then (get_optional get_string bk r ''result_json'') (\<lambda>result_json.
     r_then (get_string bk r ''id'') (\<lambda>i.
     r_then (get_string bk r ''owner_product_id'') (\<lambda>owner_product_id.
     r_then (get_string bk r ''agent_id'') (\<lambda>agent_id.
     r_then (get_string bk r ''directory_id'') (\<lambda>directory_id.
     r_then (get_string bk r ''prompt'') (\<lambda>prompt.
     r_then (deserialize_json bk (dec_list (dec_enum capability_of_str)) ''required_capabilities_json''
               required_capabilities_json) (\<lambda>capabilities.
     r_then (deserialize_json bk (dec_enum workspace_mode_of_str) ''workspace_mode'' workspace_mode_json) (\<lambda>mode.
     r_then (get_bool bk r ''direct_mode_task_opt_in'') (\<lambda>opt_in.
     r_then (deserialize_optional_json bk Some ''metadata_json'' metadata_json) (\<lambda>metadata.
     r_then (get_string bk r ''provider_id'') (\<lambda>provider_id.
     r_then (get_string bk r ''model'') (\<lambda>model.
     r_then (get_string bk r ''permission_mode'') (\<lambda>permission_mode.
     r_then (get_optional get_nat bk r ''timeout_seconds'') (\<lambda>timeout_seconds.
     r_then (deserialize_json bk (dec_enum task_status_of_str) ''status'' status_json) (\<lambda>status.
     r_then (deserialize_optional_json bk task_result_of ''result_json'' result_json) (\<lambda>result.
     r_then (get_string bk r ''created_at'') (\<lambda>created_at.
     r_then (get_string bk r ''updated_at'') (\<lambda>updated_at.
     r_then (get_optional get_string bk r ''started_at'') (\<lambda>started_at.
     r_then (get_optional get_string bk r ''completed_at'') (\<lambda>completed_at.
     r_then (get_optional get_string bk r ''cancelled_at'') (\<lambda>cancelled_at.
     r_then (get_optional get_string bk r ''failed_at'') (\<lambda>failed_at.
     Inr \<lparr> task_id = i, task_owner_product_id = owner_product_id, task_agent_id = agent_id,
       task_directory_id = directory_id, task_status = status, task_required_capabilities = capabilities,
       task_workspace_mode = mode, task_direct_mode_task_opt_in = opt_in, task_prompt = prompt,
       task_metadata = metadata, task_provider_id = provider_id, task_model = model,
       task_permission_mode = permission_mode, task_timeout_seconds = timeout_seconds, task_result = result,
       task_created_at = created_at, task_updated_at = updated_at, task_started_at = started_at,
       task_completed_at = completed_at, task_cancelled_at = cancelled_at,
       task_failed_at = failed_at \<rparr>))))))))))))))))))))))))))"

definition row_to_event :: "'v backend \<Rightarrow> 'v row \<Rightarrow> row_error + task_event" where
  "row_to_event bk r =
     r_then (get_string bk r ''event_type'') (\<lambda>event_type_json.
     r_then (get_string bk r ''payload_json'') (\<lambda>payload_json.
     r_then (get_string bk r ''id'') (\<lambda>i.
     r_then (get_string bk r ''task_id'') (\<lambda>tid.
     r_then (get_nat bk r ''sequence'') (\<lambda>n.
     r_then (deserialize_json bk (dec_enum event_type_of_str) ''event_type'' event_type_json) (\<lambda>event_type.
     r_then (deserialize_json bk Some ''payload_json'' payload_json) (\<lambda>payload.
     r_then (get_string bk r ''created_at'') (\<lambda>created_at.
     Inr \<lparr> ev_id = i, ev_task_id = tid, ev_sequence = n, ev_event_type = event_type, ev_payload = payload,
       ev_created_at = created_at \<rparr>))))))))"

definition row_to_lock :: "'v backend \<Rightarrow> 'v row \<Rightarrow> row_error + directory_lock" where
  "row_to_lock bk r =
     r_then (get_string bk r ''mode'') (\<lambda>mode_json.
     r_then (get_string bk r ''directory_id'') (\<lambda>directory_id.
     r_then (get_string bk r ''task_id'') (\<lambda>tid.
     r_then (deserialize_json bk (dec_enum lock_mode_of_str) ''mode'' mode_json) (\<lambda>mode.
     r_then (get_string bk r ''status'') (\<lambda>status.
     r_then (get_string bk r ''created_at'') (\<lambda>created_at.
     r_then (get_optional get_string bk r ''released_at'') (\<lambda>released_at.
     Inr \<lparr> lk_directory_id = directory_id, lk_task_id = tid, lk_mode = mode, lk_status = status,
       lk_created_at = created_at, lk_released_at = released_at \<rparr>)))))))"

definition row_to_permission_request :: "'v backend \<Rightarrow> 'v row \<Rightarrow> row_error + permission_request_record" where
  "row_to_permission_request bk r =
     r_then (get_string bk r ''status'') (\<lambda>status_json.
     r_then (get_string bk r ''request_payload_json'') (\<lambda>request_payload_json.
     r_then (get_optional get_string bk r ''response_payload_json'') (\<lambda>response_payload_json.
     r_then (get_string bk r ''request_id'') (\<lambda>rid.
     r_then (get_string bk r ''task_id'') (\<lambda>tid.
     r_then (get_nat bk r ''sequence'') (\<lambda>n.
     r_then (get_string bk r ''provider_id'') (\<lambda>provider_id.
     r_then (get_string bk r ''permission_kind'') (\<lambda>permission_kind.
     r_then (deserialize_json bk (dec_enum request_status_of_str) ''status'' status_json) (\<lambda>status.
     r_then (deserialize_json bk request_event_of ''request_payload_json'' request_payload_json) (\<lambda>request.
     r_then (deserialize_optional_json bk decision_event_from_value ''response_payload_json''
               response_payload_json) (\<lambda>response.
     r_then (get_string bk r ''requested_at'') (\<lambda>requested_at.
     r_then (get_optional get_string bk r ''responded_at'') (\<lambda>responded_at.
     Inr \<lparr> prr_request_id = rid, prr_task_id = tid, prr_sequence = n, prr_provider_id = provider_id,
       prr_permission_kind = permission_kind, prr_status = status, prr_request = request,
       prr_response = response, prr_requested_at = requested_at, prr_responded_at = responded_at \<rparr>)))))))))))))"

section \<open>The rows of the tables\<close>

text \<open>The row that holds a task, an event, a lock or a permission request.\<close>

definition caps_json :: "directory_capability list \<Rightarrow> json" where
  "caps_json cs = str_list (map capability_str cs)"

definition task_sql_row :: "'v backend \<Rightarrow> task \<Rightarrow> 'v row" where
  "task_sql_row bk t =
     [(''id'', bk_text bk (task_id t)), (''owner_product_id'', bk_text bk (task_owner_product_id t)),
      (''agent_id'', bk_text bk (task_agent_id t)), (''directory_id'', bk_text bk (task_directory_id t)),
      (''prompt'', bk_text bk (task_prompt t)),
      (''required_capabilities_json'', serialize_json bk (caps_json (task_required_capabilities t))),
      (''workspace_mode'', serialize_json bk (Str (workspace_mode_str (task_workspace_mode t)))),
      (''direct_mode_task_opt_in'', sql_bool bk (task_direct_mode_task_opt_in t)),
      (''metadata_json'', serialize_optional_json bk (task_metadata t)),
      (''provider_id'', bk_text bk (task_provider_id t)), (''model'', bk_text bk (task_model t)),
      (''permission_mode'', bk_text bk (task_permission_mode t)),
      (''timeout_seconds'', opt_nat bk (task_timeout_seconds t)),
      (''status'', serialize_json bk (Str (task_status_str (task_status t)))),
      (''result_json'', serialize_optional_json bk (map_option result_to_value (task_result t))),
      (''created_at'', bk_text bk (task_created_at t)), (''updated_at'', bk_text bk (task_updated_at t)),
      (''started_at'', opt_text bk (task_started_at t)), (''completed_at'', opt_text bk (task_completed_at t)),
      (''cancelled_at'', opt_text bk (task_cancelled_at t)), (''failed_at'', opt_text bk (task_failed_at t))]"

definition event_sql_row :: "'v backend \<Rightarrow> task_event \<Rightarrow> 'v row" where
  "event_sql_row bk e =
     [(''id'', bk_text bk (ev_id e)), (''task_id'', bk_text bk (ev_task_id e)),
      (''sequence'', sql_nat bk (ev_sequence e)),
      (''event_type'', serialize_json bk (Str (event_type_as_str (ev_event_type e)))),
      (''payload_json'', serialize_json bk (ev_payload e)), (''created_at'', bk_text bk (ev_created_at e))]"

definition lock_sql_row :: "'v backend \<Rightarrow> directory_lock \<Rightarrow> 'v row" where
  "lock_sql_row bk l =
     [(''directory_id'', bk_text bk (lk_directory_id l)), (''task_id'', bk_text bk (lk_task_id l)),
      (''mode'', serialize_json bk (Str (lock_mode_str (lk_mode l)))), (''status'', bk_text bk (lk_status l)),
      (''created_at'', bk_text bk (lk_created_at l)), (''released_at'', opt_text bk (lk_released_at l))]"

definition request_sql_row :: "'v backend \<Rightarrow> permission_request_record \<Rightarrow> 'v row" where
  "request_sql_row bk q =
     [(''request_id'', bk_text bk (prr_request_id q)), (''task_id'', bk_text bk (prr_task_id q)),
      (''sequence'', sql_nat bk (prr_sequence q)), (''provider_id'', bk_text bk (prr_provider_id q)),
      (''permission_kind'', bk_text bk (prr_permission_kind q)),
      (''status'', serialize_json bk (Str (request_status_str (prr_status q)))),
      (''request_payload_json'', serialize_json bk (request_event_to_value (prr_request q))),
      (''response_payload_json'',
         serialize_optional_json bk (map_option decision_event_to_value (prr_response q))),
      (''requested_at'', bk_text bk (prr_requested_at q)), (''responded_at'', opt_text bk (prr_responded_at q))]"

section \<open>Normal forms\<close>

declare capability_of_str.simps [simp del] workspace_mode_of_str.simps [simp del] scope_of_str.simps [simp del]

lemma field_canonical:
  assumes "printable v"
  shows "field dec (canonical v) k = field (\<lambda>w. dec (canonical w)) v k"
    and "default_field dec d (canonical v) k = default_field (\<lambda>w. dec (canonical w)) d v k"
    and "opt_field dec (canonical v) k = opt_field (\<lambda>w. dec (canonical w)) v k"
  using json_get_canonical [OF assms, of k]
  by (cases "json_get v k"; auto simp: field_def default_field_def opt_field_def split: option.splits json.splits)+

lemma dec_list_canonical [simp]: "dec_list dec (canonical v) = dec_list (\<lambda>w. dec (canonical w)) v"
  by (cases v) (simp_all add: comp_def)

lemma dec_enum_canonical [simp]: "dec_enum of_str (canonical v) = dec_enum of_str v"
  by (simp add: dec_enum_def)

definition norm_value :: "json option \<Rightarrow> json option" where
  "norm_value x = map_option canonical (drop_null x)"

definition norm_result :: "task_result \<Rightarrow> task_result" where
  "norm_result r = r\<lparr> tr_provider_result := norm_value (tr_provider_result r), tr_usage := norm_value (tr_usage r),
     tr_artifacts := map canonical (tr_artifacts r) \<rparr>"

lemma opt_field_norm_value:
  "opt_field (\<lambda>w. Some (canonical w)) (Object ((k, opt_json id x) # kvs)) k = Some (norm_value x)"
  by (simp add: opt_field_def opt_json_def norm_value_def drop_null_def split: option.splits json.splits)

lemma dec_enum_str [simp]:
  "dec_enum task_status_of_str (Str (task_status_str s)) = Some s"
  "dec_enum workspace_mode_of_str (Str (workspace_mode_str m)) = Some m"
  "dec_enum lock_mode_of_str (Str (lock_mode_str l)) = Some l"
  "dec_enum request_status_of_str (Str (request_status_str q)) = Some q"
  "dec_enum event_type_of_str (Str (event_type_as_str e)) = Some e"
  "dec_enum decision_of_str (Str (decision_as_str d)) = Some d"
  "dec_enum capability_of_str (Str (capability_str c)) = Some c"
  subgoal by (cases s) (simp_all add: dec_enum_def task_status_of_str_def)
  subgoal by (simp add: dec_enum_def)
  subgoal by (cases l) (simp_all add: dec_enum_def lock_mode_of_str_def)
  subgoal by (cases q) (simp_all add: dec_enum_def request_status_of_str_def)
  subgoal by (cases e) (simp_all add: dec_enum_def event_type_of_str_def)
  subgoal by (simp add: dec_enum_def)
  subgoal by (simp add: dec_enum_def)
  done

lemma dec_enum_list [simp]:
  "dec_list (dec_enum decision_of_str) (Array (map (Str \<circ> decision_as_str) ds)) = Some ds"
  "dec_list (dec_enum capability_of_str) (caps_json cs) = Some cs"
  subgoal by (induction ds) simp_all
  subgoal by (induction cs) (simp_all add: caps_json_def str_list_def)
  done

lemma task_result_of_canonical:
  assumes "printable (result_to_value r)"
  shows "task_result_of (canonical (result_to_value r)) = Some (norm_result r)"
proof -
  have "dec_list (\<lambda>w. Some (canonical w)) (Array vs) = Some (map canonical vs)" for vs
    by (induction vs) simp_all
  moreover have "Array (map Str xs) = str_list xs" for xs by (simp add: str_list_def)
  ultimately show ?thesis
    unfolding task_result_of_def field_canonical [OF assms]
    by (simp add: result_to_value_def norm_result_def wire_simps opt_field_norm_value)
qed

definition norm_request :: "permission_request_event \<Rightarrow> permission_request_event" where
  "norm_request q = q\<lparr> pq_details := norm_value (pq_details q) \<rparr>"

lemma request_event_of_canonical:
  assumes "printable (request_event_to_value q)"
  shows "request_event_of (canonical (request_event_to_value q)) = Some (norm_request q)"
  unfolding request_event_of_def field_canonical [OF assms]
  by (simp add: request_event_to_value_def norm_request_def wire_simps opt_field_norm_value flip: opt_str_def)

lemma decision_event_of_canonical: "decision_event_from_value (canonical (decision_event_to_value d)) = Some d"
proof -
  have p: "printable (decision_event_to_value d)"
    by (cases "pd_reason d") (simp_all add: decision_event_to_value_def opt_json_def)
  have "get_str (canonical v) k = get_str v k" if "printable v" for v k
    using that by (cases "json_get v k") (simp_all add: get_str_def json_get_canonical)
  then have "decision_event_from_value (canonical (decision_event_to_value d)) =
      decision_event_from_value (decision_event_to_value d)"
    by (simp add: decision_event_from_value_def p field_canonical)
  then show ?thesis by simp
qed


definition norm_task :: "task \<Rightarrow> task" where
  "norm_task t = t\<lparr> task_metadata := map_option canonical (task_metadata t),
     task_result := map_option norm_result (task_result t) \<rparr>"

definition norm_event :: "task_event \<Rightarrow> task_event" where
  "norm_event e = e\<lparr> ev_payload := canonical (ev_payload e) \<rparr>"

definition norm_record :: "permission_request_record \<Rightarrow> permission_request_record" where
  "norm_record q = q\<lparr> prr_request := norm_request (prr_request q) \<rparr>"

text \<open>What can be stored and read again: numbers of 64 bits, and JSON values within the limits of the texts.\<close>

definition task_storable :: "task \<Rightarrow> bool" where
  "task_storable t \<longleftrightarrow> is_none_or (task_timeout_seconds t) (\<lambda>n. n < 2 ^ 63) \<and>
     is_none_or (task_metadata t) readable \<and> is_none_or (task_result t) (\<lambda>r. readable (result_to_value r))"

definition event_storable :: "task_event \<Rightarrow> bool" where
  "event_storable e \<longleftrightarrow> ev_sequence e < 2 ^ 63 \<and> readable (ev_payload e)"

definition request_storable :: "permission_request_record \<Rightarrow> bool" where
  "request_storable q \<longleftrightarrow> prr_sequence q < 2 ^ 63 \<and> readable (request_event_to_value (prr_request q))"

lemma max_zeros [simp]: "foldr max (map (\<lambda>x. 0 :: nat) xs) 0 = 0" "list_all (\<lambda>x. True) xs"
  by (induction xs) simp_all

lemma readable_strings [simp]: "readable (Str s)" "readable (str_list xs)" "readable (caps_json cs)"
  by (simp_all add: readable_def RECURSION_LIMIT_def str_list_def caps_json_def list.pred_map comp_def)

lemma readable_decision [simp]: "readable (decision_event_to_value d)"
  by (cases "pd_reason d")
    (simp_all add: readable_def RECURSION_LIMIT_def decision_event_to_value_def opt_json_def)

section \<open>The tables as codecs\<close>

sublocale storage \<subseteq> tasks: row_codec "task_sql_row bk" "row_to_task bk" norm_task task_storable
proof
  fix t
  assume t: "task_storable t"
  have caps: "canonical (caps_json cs) = caps_json cs" for cs
    by (simp add: caps_json_def str_list_def)
  have "deserialize_optional_json bk task_result_of c
      (map_option (bk_to_string bk) (map_option result_to_value (task_result t))) = Inr (map_option norm_result (task_result t))" for c
    using t by (cases "task_result t")
      (simp_all add: deserialize_optional_json_def task_storable_def is_none_or_def readable_def
         deserialize_json_def from_to_readable task_result_of_canonical)
  moreover have "deserialize_optional_json bk Some c (map_option (bk_to_string bk) (task_metadata t)) =
      Inr (map_option canonical (task_metadata t))" for c
    using t by (cases "task_metadata t") (simp_all add: deserialize_optional_json_def task_storable_def is_none_or_def)
  moreover have "is_none_or (task_timeout_seconds t) (\<lambda>n. n < 2 ^ 63)" using t by (simp add: task_storable_def)
  ultimately show "row_to_task bk (task_sql_row bk t) = Inr (norm_task t)"
    by (simp add: row_to_task_def task_sql_row_def norm_task_def get_column caps)
qed


sublocale storage \<subseteq> events: row_codec "event_sql_row bk" "row_to_event bk" norm_event event_storable
  by unfold_locales (simp add: row_to_event_def event_sql_row_def norm_event_def event_storable_def get_column)

sublocale storage \<subseteq> locks: row_codec "lock_sql_row bk" "row_to_lock bk" id "\<lambda>_. True"
  by unfold_locales (simp add: row_to_lock_def lock_sql_row_def get_column)

sublocale storage \<subseteq> requests: row_codec "request_sql_row bk" "row_to_permission_request bk" norm_record request_storable
proof
  fix q
  assume q: "request_storable q"
  then have "request_event_of (canonical (request_event_to_value (prr_request q))) = Some (norm_request (prr_request q))"
    by (simp add: request_storable_def readable_def request_event_of_canonical)
  moreover have "deserialize_optional_json bk decision_event_from_value c
      (map_option (bk_to_string bk) (map_option decision_event_to_value (prr_response q))) = Inr (prr_response q)" for c
    by (cases "prr_response q") (simp_all add: deserialize_optional_json_def decision_event_of_canonical)
  ultimately show "row_to_permission_request bk (request_sql_row bk q) = Inr (norm_record q)"
    using q by (simp add: row_to_permission_request_def request_sql_row_def norm_record_def request_storable_def get_column)
qed

end
