(* ===== verification/Task_Sql.thy ===== *)
theory Task_Sql
  imports Task_Codec Task_Store_Steps
begin

text \<open>
  The SQL statements of \<open>src/src/store/tasks.rs\<close> with their parameters, on rows of SQL values, and the queries that
  decode rows. \<open>Task_Store\<close> describes the same operations on typed rows; the lemmas relate the two.
\<close>

section \<open>Statements\<close>

definition insert_task_values :: "'v backend \<Rightarrow> create_task \<Rightarrow> string \<Rightarrow> 'v row" where
  "insert_task_values bk input now =
     [(''id'', bk_text bk []), (''owner_product_id'', bk_text bk (ct_owner_product_id input)),
      (''agent_id'', bk_text bk (ct_agent_id input)), (''directory_id'', bk_text bk (ct_directory_id input)),
      (''prompt'', bk_text bk (ct_prompt input)),
      (''required_capabilities_json'', serialize_json bk (caps_json (required_capabilities input))),
      (''workspace_mode'',
         serialize_json bk (Str (workspace_mode_str (unwrap_or (ct_workspace_mode input) Worktree)))),
      (''direct_mode_task_opt_in'', sql_bool bk (ct_direct_mode_task_opt_in input)),
      (''metadata_json'', serialize_optional_json bk (ct_metadata input)),
      (''provider_id'', bk_text bk (unwrap_or (ct_provider_id input) [])),
      (''model'', bk_text bk (unwrap_or (ct_model input) [])),
      (''permission_mode'', bk_text bk (unwrap_or (ct_permission_mode input) ''provider_default'')),
      (''timeout_seconds'', opt_nat bk (ct_timeout_seconds input)),
      (''status'', serialize_json bk (Str (task_status_str Queued))), (''result_json'', bk_null bk),
      (''created_at'', bk_text bk now), (''updated_at'', bk_text bk now)]"

definition set_id_values :: "'v backend \<Rightarrow> string \<Rightarrow> 'v row" where
  "set_id_values bk i = [(''id'', bk_text bk i)]"

definition update_status_values :: "'v backend \<Rightarrow> task_status \<Rightarrow> string \<Rightarrow> 'v row \<Rightarrow> 'v row" where
  "update_status_values bk next now r =
     (let current = (\<lambda>c. unwrap_or (map_of r c) (bk_null bk)) in
      [(''status'', serialize_json bk (Str (task_status_str next))), (''updated_at'', bk_text bk now),
       (''started_at'', sql_coalesce bk (current ''started_at'') (opt_text bk (timestamp_if (next = Running) now))),
       (''completed_at'',
          sql_coalesce bk (current ''completed_at'') (opt_text bk (timestamp_if (next = Completed) now))),
       (''cancelled_at'',
          sql_coalesce bk (current ''cancelled_at'') (opt_text bk (timestamp_if (next = Cancelled) now))),
       (''failed_at'',
          sql_coalesce bk (current ''failed_at'')
            (opt_text bk (timestamp_if (next = Failed \<or> next = TimedOut) now)))])"

definition update_result_values :: "'v backend \<Rightarrow> task_result \<Rightarrow> 'v row" where
  "update_result_values bk res =
     [(''result_json'', serialize_json bk (result_to_value res)), (''updated_at'', bk_text bk (tr_updated_at res))]"

definition insert_event_values ::
  "'v backend \<Rightarrow> string \<Rightarrow> nat \<Rightarrow> task_event_type \<Rightarrow> json \<Rightarrow> string \<Rightarrow> 'v row" where
  "insert_event_values bk tid n ty payload now =
     [(''id'', bk_text bk (''evt_'' @ tid @ ''_'' @ show_nat n)), (''task_id'', bk_text bk tid),
      (''sequence'', sql_nat bk n), (''event_type'', serialize_json bk (Str (event_type_as_str ty))),
      (''payload_json'', serialize_json bk payload), (''created_at'', bk_text bk now)]"

definition insert_request_values ::
  "'v backend \<Rightarrow> string \<Rightarrow> nat \<Rightarrow> permission_request_event \<Rightarrow> string \<Rightarrow> 'v row" where
  "insert_request_values bk tid n q now =
     [(''request_id'', bk_text bk (pq_request_id q)), (''task_id'', bk_text bk tid), (''sequence'', sql_nat bk n),
      (''provider_id'', bk_text bk (pq_provider_id q)), (''permission_kind'', bk_text bk (pq_permission_kind q)),
      (''status'', serialize_json bk (Str (request_status_str Pending))),
      (''request_payload_json'', serialize_json bk (request_event_to_value q)),
      (''response_payload_json'', bk_null bk), (''requested_at'', bk_text bk now), (''responded_at'', bk_null bk)]"

definition resolve_request_values :: "'v backend \<Rightarrow> permission_decision_event \<Rightarrow> string \<Rightarrow> 'v row" where
  "resolve_request_values bk d now =
     [(''status'', serialize_json bk (Str (request_status_str (from_decision (pd_decision d))))),
      (''response_payload_json'', serialize_json bk (decision_event_to_value d)),
      (''responded_at'', bk_text bk now)]"

definition insert_lock_values :: "'v backend \<Rightarrow> lock_request \<Rightarrow> string \<Rightarrow> 'v row" where
  "insert_lock_values bk r now =
     [(''directory_id'', bk_text bk (lr_directory_id r)), (''task_id'', bk_text bk (lr_task_id r)),
      (''mode'', serialize_json bk (Str (lock_mode_str (lr_mode r)))), (''status'', bk_text bk ''held''),
      (''created_at'', bk_text bk now), (''released_at'', bk_null bk)]"

definition release_lock_values :: "'v backend \<Rightarrow> string \<Rightarrow> 'v row" where
  "release_lock_values bk now = [(''status'', bk_text bk ''released''), (''released_at'', bk_text bk now)]"

section \<open>Queries\<close>

definition store_error :: "row_error + 'a \<Rightarrow> task_store_error + 'a" where
  "store_error r = r_map_err (\<lambda>e. TsStore (case e of
       InvalidColumnName c \<Rightarrow> ''Invalid column name: '' @ c
     | InvalidColumnType c \<Rightarrow> ''Invalid column type: '' @ c
     | InvalidJson c \<Rightarrow> ''Invalid JSON: '' @ c)) r"

definition query_row :: "('v row \<Rightarrow> row_error + 'a) \<Rightarrow> 'v row option \<Rightarrow> task_store_error + 'a option" where
  "query_row dec x = (case x of None \<Rightarrow> Inr None | Some r \<Rightarrow> r_then (store_error (dec r)) (\<lambda>v. Inr (Some v)))"

definition query_rows :: "('v row \<Rightarrow> row_error + 'a) \<Rightarrow> 'v row list \<Rightarrow> task_store_error + 'a list" where
  "query_rows dec rs = store_error (r_collect (map dec rs))"

definition sequence_of :: "'v backend \<Rightarrow> 'v row \<Rightarrow> int" where
  "sequence_of bk r = (case get_i64 bk r ''sequence'' of Inl _ \<Rightarrow> 0 | Inr i \<Rightarrow> i)"

definition sql_query_one :: "'v backend \<Rightarrow> string \<Rightarrow> 'v row list \<Rightarrow> task_store_error + task option" where
  "sql_query_one bk tid rs = query_row (row_to_task bk) (List.find (where_text bk ''id'' tid) rs)"

definition sql_all :: "'v backend \<Rightarrow> 'v row list \<Rightarrow> task_store_error + task list" where
  "sql_all bk rs = query_rows (row_to_task bk) rs"

definition sql_list_events_after ::
  "'v backend \<Rightarrow> string \<Rightarrow> nat \<Rightarrow> 'v row list \<Rightarrow> task_store_error + task_event list" where
  "sql_list_events_after bk tid cursor rs =
     query_rows (row_to_event bk) (sort_key (sequence_of bk)
       (filter (\<lambda>r. where_text bk ''task_id'' tid r \<and> sequence_of bk r > int cursor) rs))"

definition sql_event_by_sequence ::
  "'v backend \<Rightarrow> string \<Rightarrow> nat \<Rightarrow> 'v row list \<Rightarrow> task_store_error + task_event" where
  "sql_event_by_sequence bk tid n rs =
     r_then (query_row (row_to_event bk)
       (List.find (\<lambda>r. where_text bk ''task_id'' tid r \<and> sequence_of bk r = int n) rs)) (ok_or no_rows)"

definition sql_next_sequence :: "'v backend \<Rightarrow> string \<Rightarrow> 'v row list \<Rightarrow> int" where
  "sql_next_sequence bk tid rs = fold max (map (sequence_of bk) (filter (where_text bk ''task_id'' tid) rs)) 0 + 1"

definition sql_active_locks :: "'v backend \<Rightarrow> string \<Rightarrow> 'v row list \<Rightarrow> task_store_error + directory_lock list" where
  "sql_active_locks bk did rs =
     query_rows (row_to_lock bk) (filter (\<lambda>r. where_text bk ''directory_id'' did r \<and> where_text bk ''status'' ''held'' r) rs)"

definition sql_query_permission_request ::
  "'v backend \<Rightarrow> string \<Rightarrow> string \<Rightarrow> 'v row list \<Rightarrow> task_store_error + permission_request_record option" where
  "sql_query_permission_request bk tid rid rs =
     query_row (row_to_permission_request bk)
       (List.find (\<lambda>r. where_text bk ''task_id'' tid r \<and> where_text bk ''request_id'' rid r) rs)"

text \<open>The four queries of \<open>list_permission_requests\<close>: the join with \<open>tasks\<close>, an owner and a status if given.\<close>

definition sql_query_permission_requests ::
  "'v backend \<Rightarrow> permission_request_filters \<Rightarrow> 'v row list \<Rightarrow> 'v row list \<Rightarrow>
   task_store_error + permission_request_record list" where
  "sql_query_permission_requests bk f task_rows rs =
     query_rows (row_to_permission_request bk) (filter (\<lambda>r.
       list_ex (\<lambda>t. map_of t ''id'' = map_of r ''task_id'' \<and>
         is_none_or (pf_owner_product_id f) (\<lambda>o'. where_text bk ''owner_product_id'' o' t)) task_rows \<and>
       is_none_or (pf_status f) (\<lambda>s. map_of r ''status'' = Some (serialize_json bk (Str (request_status_str s))))) rs)"

section \<open>Statements refine the operations on typed rows\<close>

lemmas row_simps = insert_values_def update_values_def unwrap_or_def Let_def opt_text_def opt_nat_def
  serialize_optional_json_def table_defs

lemma create_row:
  "update_values (set_id_values bk i) (insert_values bk tasks_table (insert_task_values bk input now)) =
     task_sql_row bk (new_task input i now)"
  by (simp add: row_simps set_id_values_def insert_task_values_def task_sql_row_def new_task_def)

lemma event_insert_row:
  "insert_values bk task_events_table (insert_event_values bk tid n ty payload now) =
     event_sql_row bk (event_row tid n ty payload now)"
  by (simp add: row_simps insert_event_values_def event_sql_row_def event_row_def event_row_id_def)

lemma request_insert_row:
  "insert_values bk task_permission_requests_table (insert_request_values bk tid n q now) =
     request_sql_row bk (request_row tid n q now)"
  by (simp add: row_simps insert_request_values_def request_sql_row_def request_row_def)

lemma lock_insert_row:
  "insert_values bk directory_locks_table (insert_lock_values bk r now) =
     lock_sql_row bk \<lparr> lk_directory_id = lr_directory_id r, lk_task_id = lr_task_id r, lk_mode = lr_mode r,
        lk_status = ''held'', lk_created_at = now, lk_released_at = None \<rparr>"
  by (simp add: row_simps insert_lock_values_def lock_sql_row_def)

lemma result_update_row:
  "update_values (update_result_values bk res) (task_sql_row bk t) =
     task_sql_row bk (t\<lparr> task_result := Some res, task_updated_at := tr_updated_at res \<rparr>)"
  by (simp add: row_simps update_result_values_def task_sql_row_def)

lemma resolve_update_row:
  "update_values (resolve_request_values bk d now) (request_sql_row bk q) = request_sql_row bk (resolve_row d now q)"
  by (simp add: row_simps resolve_request_values_def request_sql_row_def resolve_row_def)

lemma release_update_row:
  "update_values (release_lock_values bk now) (lock_sql_row bk l) =
     lock_sql_row bk (l\<lparr> lk_status := ''released'', lk_released_at := Some now \<rparr>)"
  by (simp add: row_simps release_lock_values_def lock_sql_row_def)

context storage
begin

lemma coalesce_text: "sql_coalesce bk (opt_text bk x) (opt_text bk y) = opt_text bk (coalesce x y)"
  by (cases x; cases y) (simp_all add: sql_coalesce_def opt_text_def coalesce_def)

lemma status_update_row:
  "update_values (update_status_values bk next now (task_sql_row bk t)) (task_sql_row bk t) =
     task_sql_row bk (apply_status next now t)"
  by (simp add: update_values_def unwrap_or_def Let_def update_status_values_def task_sql_row_def apply_status_def
      coalesce_text)

lemma where_columns:
  "where_text bk ''id'' s (task_sql_row bk t) \<longleftrightarrow> task_id t = s"
  "where_text bk ''owner_product_id'' s (task_sql_row bk t) \<longleftrightarrow> task_owner_product_id t = s"
  "where_text bk ''task_id'' s (event_sql_row bk e) \<longleftrightarrow> ev_task_id e = s"
  "where_text bk ''task_id'' s (request_sql_row bk q) \<longleftrightarrow> prr_task_id q = s"
  "where_text bk ''request_id'' s (request_sql_row bk q) \<longleftrightarrow> prr_request_id q = s"
  "where_text bk ''directory_id'' s (lock_sql_row bk l) \<longleftrightarrow> lk_directory_id l = s"
  "where_text bk ''task_id'' s (lock_sql_row bk l) \<longleftrightarrow> lk_task_id l = s"
  "where_text bk ''status'' s (lock_sql_row bk l) \<longleftrightarrow> lk_status l = s"
  by (simp_all add: where_text_def task_sql_row_def event_sql_row_def request_sql_row_def lock_sql_row_def)

lemma sequence_column: "ev_sequence e < 2 ^ 63 \<Longrightarrow> sequence_of bk (event_sql_row bk e) = int (ev_sequence e)"
  by (simp add: sequence_of_def get_i64_def event_sql_row_def get_column sql_nat_def fits_nat)

end

section \<open>Operations on the tables\<close>

record 'v task_tables =
  tt_tasks :: "'v row list"
  tt_events :: "'v row list"
  tt_requests :: "'v row list"
  tt_locks :: "'v row list"

definition tables_of :: "'v backend \<Rightarrow> task_db \<Rightarrow> 'v task_tables" where
  "tables_of bk db =
     \<lparr> tt_tasks = map (task_sql_row bk) (db_tasks db), tt_events = map (event_sql_row bk) (db_events db),
       tt_requests = map (request_sql_row bk) (db_requests db), tt_locks = map (lock_sql_row bk) (db_locks db) \<rparr>"

definition sql_insert_event ::
  "'v backend \<Rightarrow> string \<Rightarrow> nat \<Rightarrow> task_event_type \<Rightarrow> json \<Rightarrow> string \<Rightarrow> 'v task_tables \<Rightarrow> 'v task_tables" where
  "sql_insert_event bk tid n ty payload now T =
     T\<lparr> tt_events := tt_events T @ [insert_values bk task_events_table (insert_event_values bk tid n ty payload now)] \<rparr>"

definition sql_release_locks :: "'v backend \<Rightarrow> string \<Rightarrow> string \<Rightarrow> 'v task_tables \<Rightarrow> 'v task_tables" where
  "sql_release_locks bk tid now T =
     T\<lparr> tt_locks := sql_update (\<lambda>r. where_text bk ''task_id'' tid r \<and> where_text bk ''status'' ''held'' r)
       (\<lambda>_. release_lock_values bk now) (tt_locks T) \<rparr>"

definition sql_create :: "'v backend \<Rightarrow> create_task \<Rightarrow> string \<Rightarrow> 'v task_tables \<Rightarrow> 'v task_tables" where
  "sql_create bk input now T =
     (let i = ''task_'' @ show_nat (Suc (length (tt_tasks T))) in
      sql_insert_event bk i 1 EvQueued empty_object now
        (T\<lparr> tt_tasks := tt_tasks T @
           [update_values (set_id_values bk i) (insert_values bk tasks_table (insert_task_values bk input now))] \<rparr>))"

definition sql_transition ::
  "'v backend \<Rightarrow> string \<Rightarrow> task_status \<Rightarrow> json option \<Rightarrow> string \<Rightarrow> 'v task_tables \<Rightarrow> 'v task_tables" where
  "sql_transition bk tid next payload now T =
     (let n = nat (sql_next_sequence bk tid (tt_events T));
          T = T\<lparr> tt_tasks := sql_update (where_text bk ''id'' tid) (update_status_values bk next now) (tt_tasks T) \<rparr>;
          T = sql_insert_event bk tid n (event_type_for_status next) (unwrap_or payload empty_object) now T
      in if is_terminal next then sql_release_locks bk tid now T else T)"

definition sql_append_event ::
  "'v backend \<Rightarrow> string \<Rightarrow> task_event_type \<Rightarrow> json \<Rightarrow> string \<Rightarrow> 'v task_tables \<Rightarrow> 'v task_tables" where
  "sql_append_event bk tid ty payload now T =
     sql_insert_event bk tid (nat (sql_next_sequence bk tid (tt_events T))) ty payload now T"

definition sql_save_result :: "'v backend \<Rightarrow> task_result \<Rightarrow> 'v task_tables \<Rightarrow> 'v task_tables" where
  "sql_save_result bk res T =
     T\<lparr> tt_tasks := sql_update (where_text bk ''id'' (tr_task_id res)) (\<lambda>_. update_result_values bk res) (tt_tasks T) \<rparr>"

definition sql_record_request ::
  "'v backend \<Rightarrow> string \<Rightarrow> permission_request_event \<Rightarrow> string \<Rightarrow> 'v task_tables \<Rightarrow> 'v task_tables" where
  "sql_record_request bk tid q now T =
     (let n = nat (sql_next_sequence bk tid (tt_events T));
          T = sql_insert_event bk tid n ProviderPermissionRequested (request_event_to_value q) now T
      in T\<lparr> tt_requests := tt_requests T @
           [insert_values bk task_permission_requests_table (insert_request_values bk tid n q now)] \<rparr>)"

definition sql_resolve_request ::
  "'v backend \<Rightarrow> string \<Rightarrow> permission_decision_event \<Rightarrow> string \<Rightarrow> 'v task_tables \<Rightarrow> 'v task_tables" where
  "sql_resolve_request bk tid d now T =
     (let n = nat (sql_next_sequence bk tid (tt_events T));
          T = sql_insert_event bk tid n ProviderPermissionDecided (decision_event_to_value d) now T
      in T\<lparr> tt_requests := sql_update
             (\<lambda>r. where_text bk ''request_id'' (pd_request_id d) r \<and> where_text bk ''task_id'' tid r)
             (\<lambda>_. resolve_request_values bk d now) (tt_requests T) \<rparr>)"

definition sql_acquire_lock :: "'v backend \<Rightarrow> lock_request \<Rightarrow> string \<Rightarrow> 'v task_tables \<Rightarrow> 'v task_tables" where
  "sql_acquire_lock bk r now T =
     T\<lparr> tt_locks := insert_or_replace directory_locks_table
       (insert_values bk directory_locks_table (insert_lock_values bk r now)) (tt_locks T) \<rparr>"

definition events_storable :: "task_db \<Rightarrow> bool" where
  "events_storable db \<longleftrightarrow> (\<forall>e \<in> set (db_events db). ev_sequence e < 2 ^ 63)"

context storage
begin

lemma tables_fields [simp]:
  "tt_tasks (tables_of bk db) = map (task_sql_row bk) (db_tasks db)"
  "tt_events (tables_of bk db) = map (event_sql_row bk) (db_events db)"
  "tt_requests (tables_of bk db) = map (request_sql_row bk) (db_requests db)"
  "tt_locks (tables_of bk db) = map (lock_sql_row bk) (db_locks db)"
  by (simp_all add: tables_of_def)

lemma fold_max_int: "fold max (map int ns) (int m) = int (fold max ns m)"
  by (induction ns arbitrary: m) (simp_all flip: of_nat_max)

lemma next_sequence_sql:
  assumes "events_storable db"
  shows "sql_next_sequence bk tid (tt_events (tables_of bk db)) = int (next_sequence tid db)"
proof -
  have "map (sequence_of bk) (filter (where_text bk ''task_id'' tid) (map (event_sql_row bk) es)) =
      map int (map ev_sequence (filter (\<lambda>e. ev_task_id e = tid) es))"
    if "\<forall>e \<in> set es. ev_sequence e < 2 ^ 63" for es
    using that by (induction es) (simp_all add: where_columns sequence_column)
  from this [of "db_events db"] assms fold_max_int [of "map ev_sequence (events_of tid db)" 0] show ?thesis
    by (simp add: sql_next_sequence_def next_sequence_def events_of_def events_storable_def)
qed

lemma insert_event_sql:
  "sql_insert_event bk tid n ty p now (tables_of bk db) = tables_of bk (add_event (event_row tid n ty p now) db)"
  by (simp add: sql_insert_event_def tables_of_def event_insert_row)

lemma tables_publish [simp]: "tables_of bk (publish_db e db) = tables_of bk db"
  by (simp add: tables_of_def publish_db_def)

lemma append_event_sql:
  "events_storable db \<Longrightarrow> sql_append_event bk tid ty p now (tables_of bk db) = tables_of bk (log_event tid ty p now db)"
  using next_sequence_sql [of db tid]
  by (simp add: sql_append_event_def insert_event_sql log_event_def Let_def)

lemma tables_publish_update [simp]:
  "tables_of bk ((publish_db e db)\<lparr> db_locks := ls \<rparr>) = tables_of bk (db\<lparr> db_locks := ls \<rparr>)"
  "tables_of bk ((publish_db e db)\<lparr> db_requests := qs \<rparr>) = tables_of bk (db\<lparr> db_requests := qs \<rparr>)"
  by (simp_all add: tables_of_def publish_db_def)

lemma tables_update [simp]:
  "(tables_of bk db)\<lparr> tt_tasks := map (task_sql_row bk) ts \<rparr> = tables_of bk (db\<lparr> db_tasks := ts \<rparr>)"
  "(tables_of bk db)\<lparr> tt_requests := map (request_sql_row bk) qs \<rparr> = tables_of bk (db\<lparr> db_requests := qs \<rparr>)"
  "(tables_of bk db)\<lparr> tt_locks := map (lock_sql_row bk) ls \<rparr> = tables_of bk (db\<lparr> db_locks := ls \<rparr>)"
  by (simp_all add: tables_of_def)

lemma create_sql:
  assumes "tid = task_row_id (Suc (length (db_tasks db)))" and "next_sequence tid db = 1"
  shows "sql_create bk input now (tables_of bk db) =
     tables_of bk (log_event tid EvQueued empty_object now (db\<lparr> db_tasks := db_tasks db @ [new_task input tid now] \<rparr>))"
proof -
  let ?db = "db\<lparr> db_tasks := db_tasks db @ [new_task input tid now] \<rparr>"
  have "next_sequence tid ?db = 1" using assms(2) by (simp add: next_sequence_def events_of_def)
  moreover have "(tables_of bk db)\<lparr> tt_tasks := map (task_sql_row bk) (db_tasks db) @ [task_sql_row bk (new_task input tid now)] \<rparr>
      = tables_of bk ?db"
    by (simp add: tables_of_def)
  moreover have "''task_'' @ show_nat (Suc (length (db_tasks db))) = tid" using assms(1) by (simp add: task_row_id_def)
  ultimately show ?thesis
    using insert_event_sql [of tid 1 EvQueued empty_object now ?db]
    by (simp only: sql_create_def create_row log_event_def Let_def tables_fields length_map tables_publish)
qed

lemma update_tasks_sql:
  assumes "\<And>t. update_values (vals (task_sql_row bk t)) (task_sql_row bk t) = task_sql_row bk (f t)"
  shows "(tables_of bk db)\<lparr> tt_tasks := sql_update (where_text bk ''id'' tid) vals (map (task_sql_row bk) (db_tasks db)) \<rparr> =
     tables_of bk (update_task tid f db)"
  using tasks.update_table [of "where_text bk ''id'' tid" "\<lambda>t. task_id t = tid" vals f "db_tasks db"] assms
  by (simp add: where_columns update_task_def)

lemma release_sql:
  "sql_release_locks bk tid now (tables_of bk db) = tables_of bk (db\<lparr> db_locks := release_held tid now (db_locks db) \<rparr>)"
  unfolding sql_release_locks_def release_held_def
  by (simp add: locks.update_table where_columns release_update_row)

lemma save_result_sql:
  "sql_save_result bk res (tables_of bk db) =
     tables_of bk (update_task (tr_task_id res) (\<lambda>t. t\<lparr> task_result := Some res, task_updated_at := tr_updated_at res \<rparr>) db)"
  unfolding sql_save_result_def tables_fields by (rule update_tasks_sql) (rule result_update_row)

lemma transition_sql:
  assumes "events_storable db"
  shows "sql_transition bk tid next p now (tables_of bk db) = tables_of bk (transition_db tid next p now db)"
proof -
  have "(tables_of bk db)\<lparr> tt_tasks := sql_update (where_text bk ''id'' tid) (update_status_values bk next now)
      (map (task_sql_row bk) (db_tasks db)) \<rparr> = tables_of bk (update_task tid (apply_status next now) db)"
    by (rule update_tasks_sql) (rule status_update_row)
  then show ?thesis
    using next_sequence_sql [OF assms, of tid]
    by (simp add: sql_transition_def Let_def insert_event_sql release_sql transition_db_def log_event_def)
qed

lemma record_sql:
  assumes "events_storable db"
  shows "sql_record_request bk tid q now (tables_of bk db) = tables_of bk (record_db tid q now db)"
  using next_sequence_sql [OF assms, of tid]
  by (simp add: sql_record_request_def Let_def insert_event_sql request_insert_row record_db_def log_event_def)

lemma resolve_sql:
  assumes "events_storable db"
  shows "sql_resolve_request bk tid d now (tables_of bk db) = tables_of bk (resolve_db tid d now db)"
  using next_sequence_sql [OF assms, of tid]
  by (simp add: sql_resolve_request_def Let_def insert_event_sql requests.update_table where_columns
      resolve_update_row resolve_db_def log_event_def)

lemma lock_key_sql:
  "key_of (tb_primary_key directory_locks_table) (lock_sql_row bk l) =
     [Some (bk_text bk (lk_directory_id l)), Some (bk_text bk (lk_task_id l))]"
  by (simp add: key_of_def table_defs lock_sql_row_def)

lemma acquire_sql: "sql_acquire_lock bk r now (tables_of bk db) = tables_of bk (insert_lock r now db)"
  by (simp add: sql_acquire_lock_def lock_insert_row insert_or_replace_def insert_lock_def filter_map comp_def
      lock_key_sql tables_of_def)


section \<open>Queries return what the typed queries return\<close>

lemma query_first:
  assumes "map_option dec x = map_option (\<lambda>v. Inr (norm v)) y"
  shows "query_row dec x = Inr (map_option norm y)"
  using assms by (cases x; cases y) (simp_all add: query_row_def store_error_def r_map_err_def)

lemma query_one_sql:
  "list_all task_storable (db_tasks db) \<Longrightarrow>
   sql_query_one bk tid (tt_tasks (tables_of bk db)) = Inr (map_option norm_task (find_task tid db))"
  unfolding sql_query_one_def find_task_def tables_fields
  by (rule query_first) (rule tasks.select_first, simp_all add: where_columns)

lemma all_sql:
  "list_all task_storable (db_tasks db) \<Longrightarrow> sql_all bk (tt_tasks (tables_of bk db)) = Inr (map norm_task (db_tasks db))"
  using tasks.read_all [of "db_tasks db"] by (simp add: sql_all_def query_rows_def store_error_def r_map_err_def)

lemma active_locks_sql: "sql_active_locks bk did (tt_locks (tables_of bk db)) = Inr (active_locks did db)"
proof -
  have "r_collect (map (row_to_lock bk)
      (filter (\<lambda>r. where_text bk ''directory_id'' did r \<and> where_text bk ''status'' ''held'' r) (map (lock_sql_row bk) (db_locks db)))) =
    Inr (map id (filter (\<lambda>l. lk_directory_id l = did \<and> lk_status l = ''held'') (db_locks db)))"
    by (rule locks.select) (simp_all add: where_columns list_all_iff)
  then show ?thesis by (simp add: sql_active_locks_def query_rows_def store_error_def r_map_err_def active_locks_def)
qed

lemma query_request_sql:
  "list_all request_storable (db_requests db) \<Longrightarrow>
   sql_query_permission_request bk tid rid (tt_requests (tables_of bk db)) =
     Inr (map_option norm_record (query_permission_request tid rid db))"
  unfolding sql_query_permission_request_def query_permission_request_def tables_fields
  by (rule query_first) (rule requests.select_first, simp_all add: where_columns)

lemma sort_key_map_rows: "sort_key f (map g xs) = map g (sort_key (f \<circ> g) xs)"
proof -
  have "insort_key f (g x) (map g ys) = map g (insort_key (f \<circ> g) x ys)" for x ys
    by (induction ys) simp_all
  then show ?thesis by (induction xs) simp_all
qed

lemma sort_key_int:
  assumes "\<forall>x \<in> set xs. f x = int (g x)"
  shows "sort_key f xs = sort_key g xs"
proof -
  have "insort_key f x ys = insort_key g x ys" if "f x = int (g x)" "\<forall>y \<in> set ys. f y = int (g y)" for x ys
    using that by (induction ys) simp_all
  with assms show ?thesis by (induction xs) simp_all
qed

lemma list_events_sql:
  assumes "list_all event_storable (db_events db)"
  shows "sql_list_events_after bk tid cursor (tt_events (tables_of bk db)) =
    Inr (map norm_event (sort_key ev_sequence (filter (\<lambda>e. ev_sequence e > cursor) (events_of tid db))))"
proof -
  let ?w = "\<lambda>r. where_text bk ''task_id'' tid r \<and> sequence_of bk r > int cursor"
  let ?es = "filter (\<lambda>e. ev_sequence e > cursor) (events_of tid db)"
  have seq: "sequence_of bk (event_sql_row bk e) = int (ev_sequence e)" if "e \<in> set (db_events db)" for e
    using assms that by (simp add: list_all_iff event_storable_def sequence_column)
  then have "filter ?w (map (event_sql_row bk) (db_events db)) = map (event_sql_row bk) ?es"
    by (simp add: events_of_def filter_map where_columns cong: filter_cong)
  then have "sort_key (sequence_of bk) (filter ?w (map (event_sql_row bk) (db_events db))) =
      map (event_sql_row bk) (sort_key (sequence_of bk \<circ> event_sql_row bk) ?es)"
    by (simp only: sort_key_map_rows)
  also have "sort_key (sequence_of bk \<circ> event_sql_row bk) ?es = sort_key ev_sequence ?es"
    by (rule sort_key_int) (auto simp: events_of_def seq)
  finally have "sql_list_events_after bk tid cursor (tt_events (tables_of bk db)) =
      store_error (r_collect (map (row_to_event bk) (map (event_sql_row bk) (sort_key ev_sequence ?es))))"
    by (simp only: sql_list_events_after_def query_rows_def tables_fields)
  moreover have "list_all event_storable (sort_key ev_sequence ?es)"
    using assms by (simp add: list_all_iff events_of_def)
  ultimately show ?thesis by (simp only: events.read_all) (simp add: store_error_def r_map_err_def)
qed

lemma event_by_sequence_sql:
  assumes "list_all event_storable (db_events db)"
  shows "sql_event_by_sequence bk tid n (tt_events (tables_of bk db)) =
    ok_or no_rows (map_option norm_event (List.find (\<lambda>e. ev_task_id e = tid \<and> ev_sequence e = n) (db_events db)))"
proof -
  have "map_option (row_to_event bk) (List.find (\<lambda>r. where_text bk ''task_id'' tid r \<and> sequence_of bk r = int n)
      (map (event_sql_row bk) es)) = map_option (\<lambda>e. Inr (norm_event e)) (List.find (\<lambda>e. ev_task_id e = tid \<and> ev_sequence e = n) es)"
    if "list_all event_storable es" for es
    using that by (induction es) (simp_all add: where_columns sequence_column event_storable_def events.decode)
  from query_first [OF this [OF assms]] show ?thesis by (simp add: sql_event_by_sequence_def)
qed


lemma serialize_Str [simp]: "serialize_json bk (Str a) = serialize_json bk (Str b) \<longleftrightarrow> a = b"
  by (simp add: serialize_json_def)

lemma is_none_or_flip: "is_none_or x ((=) a) = is_none_or x (\<lambda>v. v = a)"
  by (cases x) (auto simp: is_none_or_def)

lemma query_requests_sql:
  assumes "list_all request_storable (db_requests db)" and "tasks_wf db"
  shows "sql_query_permission_requests bk f (tt_tasks (tables_of bk db)) (tt_requests (tables_of bk db)) =
    Inr (map norm_record (case fst (list_permission_requests f db) of Inr qs \<Rightarrow> qs | Inl _ \<Rightarrow> []))"
proof -
  have inj: "request_status_str a = request_status_str b \<longleftrightarrow> a = b" for a b
    by (cases a; cases b) simp_all
  have join: "list_ex (\<lambda>t. map_of t ''id'' = map_of (request_sql_row bk q) ''task_id'' \<and>
        is_none_or (pf_owner_product_id f) (\<lambda>o'. where_text bk ''owner_product_id'' o' t)) (map (task_sql_row bk) (db_tasks db)) \<longleftrightarrow>
      (case find_task (prr_task_id q) db of None \<Rightarrow> False
       | Some t \<Rightarrow> is_none_or (pf_owner_product_id f) (\<lambda>v. v = task_owner_product_id t))" for q
  proof -
    have id: "map_of (task_sql_row bk t) ''id'' = Some (bk_text bk (task_id t))" for t by (simp add: task_sql_row_def)
    have tid: "map_of (request_sql_row bk q) ''task_id'' = Some (bk_text bk (prr_task_id q))" by (simp add: request_sql_row_def)
    have "list_ex (\<lambda>t. map_of t ''id'' = map_of (request_sql_row bk q) ''task_id'' \<and>
        is_none_or (pf_owner_product_id f) (\<lambda>o'. where_text bk ''owner_product_id'' o' t)) (map (task_sql_row bk) (db_tasks db)) \<longleftrightarrow>
      (\<exists>t \<in> set (db_tasks db). task_id t = prr_task_id q \<and>
        is_none_or (pf_owner_product_id f) (\<lambda>v. v = task_owner_product_id t))"
      by (simp add: list_ex_iff id tid where_columns is_none_or_flip)
    also have "\<dots> \<longleftrightarrow> (case find_task (prr_task_id q) db of None \<Rightarrow> False
        | Some t \<Rightarrow> is_none_or (pf_owner_product_id f) (\<lambda>v. v = task_owner_product_id t))"
    proof (cases "find_task (prr_task_id q) db")
      case None
      then have "prr_task_id q \<notin> task_id ` set (db_tasks db)" by (simp add: task_table.lookup_None)
      with None show ?thesis by force
    next
      case (Some t)
      then have "x \<in> set (db_tasks db) \<and> task_id x = prr_task_id q \<longleftrightarrow> x = t" for x
        using task_table.lookup_Some [OF assms(2), of "prr_task_id q" x] by auto
      then show ?thesis unfolding Some option.case Bex_def conj_assoc [symmetric] by simp
    qed
    finally show ?thesis .
  qed
  have status: "is_none_or (pf_status f) (\<lambda>s. map_of (request_sql_row bk q) ''status'' =
      Some (serialize_json bk (Str (request_status_str s)))) \<longleftrightarrow> is_none_or (pf_status f) (\<lambda>v. v = prr_status q)" for q
    by (cases "pf_status f") (auto simp: is_none_or_def request_sql_row_def inj)
  show ?thesis
    unfolding sql_query_permission_requests_def query_rows_def tables_fields
    by (subst requests.select [OF _ assms(1), where p = "\<lambda>q. (case find_task (prr_task_id q) db of None \<Rightarrow> False
         | Some t \<Rightarrow> is_none_or (pf_owner_product_id f) (\<lambda>v. v = task_owner_product_id t)) \<and>
         is_none_or (pf_status f) (\<lambda>v. v = prr_status q)"])
      (simp_all only: join status, simp add: store_error_def r_map_err_def list_permission_requests_def reads_def)
qed

section \<open>The rows satisfy the schema\<close>

lemma value_ok_simps [simp]:
  "value_ok bk (col n TEXT b) (bk_text bk s)" "value_ok bk (col n TEXT b) (serialize_json bk v)"
  "value_ok bk (col n INTEGER b) (sql_bool bk x)" "value_ok bk (col n TEXT False) (opt_text bk y)"
  "value_ok bk (col n TEXT False) (serialize_optional_json bk z)"
  "i < 2 ^ 63 \<Longrightarrow> value_ok bk (col n INTEGER b) (sql_nat bk i)"
  "is_none_or w (\<lambda>i. i < 2 ^ 63) \<Longrightarrow> value_ok bk (col n INTEGER False) (opt_nat bk w)"
  subgoal by (simp add: value_ok_def col_def)
  subgoal by (simp add: value_ok_def col_def serialize_json_def)
  subgoal by (simp add: value_ok_def col_def sql_bool_def fits_i64_def)
  subgoal by (cases y) (simp_all add: value_ok_def col_def opt_text_def)
  subgoal by (cases z) (simp_all add: value_ok_def col_def serialize_optional_json_def serialize_json_def)
  subgoal by (simp add: value_ok_def col_def sql_nat_def fits_nat)
  subgoal by (cases w) (simp_all add: value_ok_def col_def opt_nat_def sql_nat_def fits_nat is_none_or_def)
  done

lemma col_name [simp]: "cd_name (col n t b) = n"
  by (simp add: col_def)

lemma rows_ok:
  "is_none_or (task_timeout_seconds t) (\<lambda>n. n < 2 ^ 63) \<Longrightarrow> row_ok bk tasks_table (task_sql_row bk t)"
  "ev_sequence e < 2 ^ 63 \<Longrightarrow> row_ok bk task_events_table (event_sql_row bk e)"
  "prr_sequence q < 2 ^ 63 \<Longrightarrow> row_ok bk task_permission_requests_table (request_sql_row bk q)"
  "row_ok bk directory_locks_table (lock_sql_row bk l)"
  by (simp_all add: row_ok_def tasks_table_def task_events_table_def task_permission_requests_table_def
      directory_locks_table_def task_sql_row_def event_sql_row_def request_sql_row_def lock_sql_row_def)

text \<open>A table satisfies its definition when its rows do and the values behind its keys differ.\<close>

lemma satisfiesI:
  assumes "\<And>x. x \<in> set xs \<Longrightarrow> row_ok bk t (enc x)"
    and "\<And>cs. cs \<in> set (tb_primary_key t # tb_unique t) \<Longrightarrow> distinct (map (\<lambda>x. key_of cs (enc x)) xs)"
  shows "satisfies bk t (map enc xs)"
  using assms by (simp add: satisfies_def list_all_iff comp_def)

lemma tasks_satisfy:
  assumes "list_all (\<lambda>t. is_none_or (task_timeout_seconds t) (\<lambda>n. n < 2 ^ 63)) ts" and "distinct (map task_id ts)"
  shows "satisfies bk tasks_table (map (task_sql_row bk) ts)"
proof (rule satisfiesI)
  fix cs
  assume "cs \<in> set (tb_primary_key tasks_table # tb_unique tasks_table)"
  then have "cs = [''id'']" by (simp add: tasks_table_def)
  then show "distinct (map (\<lambda>x. key_of cs (task_sql_row bk x)) ts)"
    using assms(2) by (simp add: key_of_def task_sql_row_def distinct_map inj_on_def)
qed (use assms(1) in \<open>simp add: rows_ok list_all_iff\<close>)

lemma events_satisfy:
  assumes "list_all (\<lambda>e. ev_sequence e < 2 ^ 63) es" and "distinct (map ev_id es)"
    and "distinct (map (\<lambda>e. (ev_task_id e, ev_sequence e)) es)"
  shows "satisfies bk task_events_table (map (event_sql_row bk) es)"
proof (rule satisfiesI)
  fix cs
  assume "cs \<in> set (tb_primary_key task_events_table # tb_unique task_events_table)"
  then have "cs = [''id''] \<or> cs = [''task_id'', ''sequence'']" by (simp add: task_events_table_def)
  then show "distinct (map (\<lambda>x. key_of cs (event_sql_row bk x)) es)"
  proof
    assume "cs = [''id'']"
    then show ?thesis using assms(2) by (simp add: key_of_def event_sql_row_def distinct_map inj_on_def)
  next
    assume cs: "cs = [''task_id'', ''sequence'']"
    have "sql_nat bk (ev_sequence x) = sql_nat bk (ev_sequence y) \<longleftrightarrow> ev_sequence x = ev_sequence y"
      if "x \<in> set es" "y \<in> set es" for x y
      using assms(1) that by (simp add: list_all_iff sql_nat_def integer_inject fits_nat)
    then show ?thesis using assms(3) cs by (auto simp: key_of_def event_sql_row_def distinct_map inj_on_def)
  qed
qed (use assms(1) in \<open>simp add: rows_ok list_all_iff\<close>)

lemma requests_satisfy:
  assumes "list_all (\<lambda>q. prr_sequence q < 2 ^ 63) qs" and "distinct (map prr_request_id qs)"
  shows "satisfies bk task_permission_requests_table (map (request_sql_row bk) qs)"
proof (rule satisfiesI)
  fix cs
  assume "cs \<in> set (tb_primary_key task_permission_requests_table # tb_unique task_permission_requests_table)"
  then have "cs = [''request_id'']" by (simp add: task_permission_requests_table_def)
  then show "distinct (map (\<lambda>x. key_of cs (request_sql_row bk x)) qs)"
    using assms(2) by (simp add: key_of_def request_sql_row_def distinct_map inj_on_def)
qed (use assms(1) in \<open>simp add: rows_ok list_all_iff\<close>)

lemma locks_satisfy:
  assumes "distinct (map lock_key ls)"
  shows "satisfies bk directory_locks_table (map (lock_sql_row bk) ls)"
proof (rule satisfiesI)
  fix cs
  assume "cs \<in> set (tb_primary_key directory_locks_table # tb_unique directory_locks_table)"
  then have "cs = [''directory_id'', ''task_id'']" by (simp add: directory_locks_table_def)
  then show "distinct (map (\<lambda>x. key_of cs (lock_sql_row bk x)) ls)"
    using assms by (auto simp: key_of_def lock_sql_row_def lock_key_def distinct_map inj_on_def)
qed (simp add: rows_ok)

end

end
