(* ===== verification/Store_Codec.thy ===== *)
theory Store_Codec
  imports Task_Sql Directory_Store Agent_Store Product_Store Control_Plane
begin

text \<open>
  The rows and SQL statements of the other stores: \<open>store/directory_grants.rs\<close>, \<open>store/agent_profiles.rs\<close>,
  \<open>store/products.rs\<close> and \<open>store/daemon_state.rs\<close>. As in \<open>Task_Codec\<close>: what a statement writes is the row of the
  typed model, what is read is that model in normal form, and the rows satisfy the schema.
\<close>

section \<open>Directory grants\<close>

definition modes_json :: "workspace_mode list \<Rightarrow> json" where
  "modes_json ms = str_list (map workspace_mode_str ms)"

definition row_to_grant :: "'v backend \<Rightarrow> 'v row \<Rightarrow> row_error + directory_grant" where
  "row_to_grant bk r =
     r_then (get_string bk r ''capabilities_json'') (\<lambda>capabilities_json.
     r_then (get_string bk r ''workspace_modes_json'') (\<lambda>workspace_modes_json.
     r_then (get_string bk r ''default_workspace_mode'') (\<lambda>default_workspace_mode_json.
     r_then (get_string bk r ''lock_policy'') (\<lambda>lock_policy_json.
     r_then (get_string bk r ''id'') (\<lambda>i.
     r_then (get_string bk r ''product_id'') (\<lambda>product_id.
     r_then (get_string bk r ''agent_id'') (\<lambda>agent_id.
     r_then (get_string bk r ''path'') (\<lambda>path.
     r_then (deserialize_json bk (dec_list (dec_enum capability_of_str)) ''capabilities_json'' capabilities_json) (\<lambda>capabilities.
     r_then (deserialize_json bk (dec_list (dec_enum workspace_mode_of_str)) ''workspace_modes_json''
               workspace_modes_json) (\<lambda>modes.
     r_then (deserialize_json bk (dec_enum workspace_mode_of_str) ''default_workspace_mode''
               default_workspace_mode_json) (\<lambda>default_mode.
     r_then (deserialize_json bk (dec_enum lock_policy_of_str) ''lock_policy'' lock_policy_json) (\<lambda>policy.
     r_then (get_bool bk r ''direct_mode_requires_explicit_task_opt_in'') (\<lambda>opt_in.
     r_then (get_bool bk r ''allow_remote_execution'') (\<lambda>remote.
     r_then (get_string bk r ''created_at'') (\<lambda>created_at.
     r_then (get_string bk r ''updated_at'') (\<lambda>updated_at.
     Inr \<lparr> dg_id = i, dg_product_id = product_id, dg_agent_id = agent_id, dg_path = path,
       dg_capabilities = capabilities, dg_workspace_modes = modes, dg_default_workspace_mode = default_mode,
       dg_lock_policy = policy, dg_direct_mode_requires_explicit_task_opt_in = opt_in,
       dg_allow_remote_execution = remote, dg_created_at = created_at, dg_updated_at = updated_at \<rparr>))))))))))))))))"

definition grant_sql_row :: "'v backend \<Rightarrow> directory_grant \<Rightarrow> 'v row" where
  "grant_sql_row bk g =
     [(''id'', bk_text bk (dg_id g)), (''product_id'', bk_text bk (dg_product_id g)),
      (''agent_id'', bk_text bk (dg_agent_id g)), (''path'', bk_text bk (dg_path g)),
      (''capabilities_json'', serialize_json bk (caps_json (dg_capabilities g))),
      (''workspace_modes_json'', serialize_json bk (modes_json (dg_workspace_modes g))),
      (''default_workspace_mode'', serialize_json bk (Str (workspace_mode_str (dg_default_workspace_mode g)))),
      (''lock_policy'', serialize_json bk (Str (lock_policy_str (dg_lock_policy g)))),
      (''direct_mode_requires_explicit_task_opt_in'', sql_bool bk (dg_direct_mode_requires_explicit_task_opt_in g)),
      (''allow_remote_execution'', sql_bool bk (dg_allow_remote_execution g)),
      (''created_at'', bk_text bk (dg_created_at g)), (''updated_at'', bk_text bk (dg_updated_at g))]"

definition insert_grant_values ::
  "'v backend \<Rightarrow> create_directory_grant \<Rightarrow> string \<Rightarrow> directory_grant_policy \<Rightarrow> string \<Rightarrow> 'v row" where
  "insert_grant_values bk input path p now =
     [(''id'', bk_text bk []), (''product_id'', bk_text bk (cg_product_id input)),
      (''agent_id'', bk_text bk (cg_agent_id input)), (''path'', bk_text bk path),
      (''capabilities_json'', serialize_json bk (caps_json (gp_capabilities p))),
      (''workspace_modes_json'', serialize_json bk (modes_json (gp_workspace_modes p))),
      (''default_workspace_mode'', serialize_json bk (Str (workspace_mode_str (gp_default_workspace_mode p)))),
      (''lock_policy'', serialize_json bk (Str (lock_policy_str (gp_lock_policy p)))),
      (''direct_mode_requires_explicit_task_opt_in'', sql_bool bk (gp_direct_mode_requires_explicit_task_opt_in p)),
      (''allow_remote_execution'', sql_bool bk (gp_allow_remote_execution p)),
      (''created_at'', bk_text bk now), (''updated_at'', bk_text bk now)]"

definition update_grant_values :: "'v backend \<Rightarrow> directory_grant_policy \<Rightarrow> string \<Rightarrow> 'v row" where
  "update_grant_values bk p now =
     [(''capabilities_json'', serialize_json bk (caps_json (gp_capabilities p))),
      (''workspace_modes_json'', serialize_json bk (modes_json (gp_workspace_modes p))),
      (''default_workspace_mode'', serialize_json bk (Str (workspace_mode_str (gp_default_workspace_mode p)))),
      (''lock_policy'', serialize_json bk (Str (lock_policy_str (gp_lock_policy p)))),
      (''direct_mode_requires_explicit_task_opt_in'', sql_bool bk (gp_direct_mode_requires_explicit_task_opt_in p)),
      (''allow_remote_execution'', sql_bool bk (gp_allow_remote_execution p)), (''updated_at'', bk_text bk now)]"

definition query_grants :: "'v backend \<Rightarrow> ('v row \<Rightarrow> bool) \<Rightarrow> 'v row list \<Rightarrow> row_error + directory_grant list" where
  "query_grants bk w rs = r_collect (map (row_to_grant bk) (filter w rs))"

section \<open>Agent profiles\<close>

definition row_to_profile :: "'v backend \<Rightarrow> 'v row \<Rightarrow> row_error + agent_profile" where
  "row_to_profile bk r =
     r_then (get_string bk r ''execution_policy_json'') (\<lambda>execution_policy_json.
     r_then (get_string bk r ''provider_config_json'') (\<lambda>provider_config_json.
     r_then (deserialize_json bk execution_policy_of ''execution_policy_json'' execution_policy_json) (\<lambda>policy.
     r_then (deserialize_json bk provider_config_of ''provider_config_json'' provider_config_json) (\<lambda>config.
     r_then (get_string bk r ''id'') (\<lambda>i.
     r_then (get_string bk r ''name'') (\<lambda>name.
     r_then (get_string bk r ''owner_product_id'') (\<lambda>owner.
     r_then (get_string bk r ''provider_id'') (\<lambda>provider_id.
     r_then (get_string bk r ''model'') (\<lambda>model.
     r_then (get_optional get_string bk r ''instructions'') (\<lambda>instructions.
     r_then (get_string bk r ''created_at'') (\<lambda>created_at.
     r_then (get_string bk r ''updated_at'') (\<lambda>updated_at.
     Inr \<lparr> ap_id = i, ap_name = name, ap_owner_product_id = owner, ap_provider_id = provider_id,
       ap_model = model, ap_instructions = instructions, ap_execution_policy = policy,
       ap_provider_config = config, ap_created_at = created_at, ap_updated_at = updated_at \<rparr>))))))))))))"

definition agent_sql_row :: "'v backend \<Rightarrow> agent_profile \<Rightarrow> 'v row" where
  "agent_sql_row bk a =
     [(''id'', bk_text bk (ap_id a)), (''name'', bk_text bk (ap_name a)),
      (''owner_product_id'', bk_text bk (ap_owner_product_id a)), (''provider_id'', bk_text bk (ap_provider_id a)),
      (''model'', bk_text bk (ap_model a)), (''instructions'', opt_text bk (ap_instructions a)),
      (''execution_policy_json'', serialize_json bk (policy_to_value (ap_execution_policy a))),
      (''provider_config_json'', serialize_json bk (config_to_value (ap_provider_config a))),
      (''created_at'', bk_text bk (ap_created_at a)), (''updated_at'', bk_text bk (ap_updated_at a))]"

definition update_agent_values :: "'v backend \<Rightarrow> create_agent_profile \<Rightarrow> string \<Rightarrow> 'v row" where
  "update_agent_values bk next now =
     [(''name'', bk_text bk (ca_name next)), (''provider_id'', bk_text bk (ca_provider_id next)),
      (''model'', bk_text bk (ca_model next)), (''instructions'', opt_text bk (ca_instructions next)),
      (''execution_policy_json'', serialize_json bk (policy_to_value (ca_execution_policy next))),
      (''provider_config_json'', serialize_json bk (config_to_value (ca_provider_config next))),
      (''updated_at'', bk_text bk now)]"

definition query_profiles :: "'v backend \<Rightarrow> ('v row \<Rightarrow> bool) \<Rightarrow> 'v row list \<Rightarrow> row_error + agent_profile list" where
  "query_profiles bk w rs = r_collect (map (row_to_profile bk) (filter w rs))"

section \<open>Products and tokens\<close>

definition row_to_product :: "'v backend \<Rightarrow> 'v row \<Rightarrow> row_error + product" where
  "row_to_product bk r =
     r_then (get_string bk r ''id'') (\<lambda>i.
     r_then (get_string bk r ''display_name'') (\<lambda>display_name.
     r_then (read_json bk (dec_enum product_status_of_str) r ''status'') (\<lambda>status.
     r_then (get_optional get_string bk r ''description'') (\<lambda>description.
     r_then (get_string bk r ''created_at'') (\<lambda>created_at.
     r_then (get_string bk r ''updated_at'') (\<lambda>updated_at.
     Inr \<lparr> pr_id = i, pr_display_name = display_name, pr_status = status, pr_description = description,
       pr_created_at = created_at, pr_updated_at = updated_at \<rparr>))))))"

definition product_sql_row :: "'v backend \<Rightarrow> product \<Rightarrow> 'v row" where
  "product_sql_row bk p =
     [(''id'', bk_text bk (pr_id p)), (''display_name'', bk_text bk (pr_display_name p)),
      (''status'', serialize_json bk (Str (product_status_str (pr_status p)))),
      (''description'', opt_text bk (pr_description p)), (''created_at'', bk_text bk (pr_created_at p)),
      (''updated_at'', bk_text bk (pr_updated_at p))]"

definition update_product_values :: "'v backend \<Rightarrow> product \<Rightarrow> 'v row" where
  "update_product_values bk updated =
     [(''display_name'', bk_text bk (pr_display_name updated)),
      (''status'', serialize_json bk (Str (product_status_str (pr_status updated)))),
      (''description'', opt_text bk (pr_description updated)), (''updated_at'', bk_text bk (pr_updated_at updated))]"

text \<open>\<open>row_to_token\<close> of the code reads the columns and derives the status; the digest stays in the table.\<close>

definition sql_row_to_token :: "'v backend \<Rightarrow> 'v row \<Rightarrow> row_error + product_token" where
  "sql_row_to_token bk r =
     r_then (get_optional get_string bk r ''revoked_at'') (\<lambda>revoked_at.
     r_then (get_string bk r ''id'') (\<lambda>i.
     r_then (get_string bk r ''product_id'') (\<lambda>product_id.
     r_then (get_string bk r ''label'') (\<lambda>label.
     r_then (read_json bk (dec_list (dec_enum scope_of_str)) r ''scopes_json'') (\<lambda>scopes.
     r_then (get_string bk r ''token_prefix'') (\<lambda>prefix.
     r_then (get_string bk r ''created_at'') (\<lambda>created_at.
     r_then (get_optional get_string bk r ''last_used_at'') (\<lambda>last_used_at.
     Inr \<lparr> pt_id = i, pt_product_id = product_id, pt_label = label, pt_scopes = scopes,
       pt_token_prefix = prefix, pt_status = (if revoked_at \<noteq> None then TokenRevoked else TokenActive),
       pt_created_at = created_at, pt_last_used_at = last_used_at, pt_revoked_at = revoked_at \<rparr>))))))))"

definition scopes_json :: "api_scope list \<Rightarrow> json" where
  "scopes_json ss = str_list (map scope_str ss)"

definition token_sql_row :: "'v backend \<Rightarrow> token_row \<Rightarrow> 'v row" where
  "token_sql_row bk t =
     [(''id'', bk_text bk (tk_id t)), (''product_id'', bk_text bk (tk_product_id t)),
      (''label'', bk_text bk (tk_label t)), (''scopes_json'', serialize_json bk (scopes_json (tk_scopes t))),
      (''token_prefix'', bk_text bk (tk_token_prefix t)), (''token_digest_hex'', bk_text bk (tk_digest_hex t)),
      (''created_at'', bk_text bk (tk_created_at t)), (''last_used_at'', opt_text bk (tk_last_used_at t)),
      (''revoked_at'', opt_text bk (tk_revoked_at t))]"

definition insert_token_values ::
  "'v backend \<Rightarrow> crypto \<Rightarrow> string \<Rightarrow> string \<Rightarrow> api_scope list \<Rightarrow> string \<Rightarrow> string \<Rightarrow> 'v row" where
  "insert_token_values bk c pid label scopes token now =
     [(''id'', bk_text bk []), (''product_id'', bk_text bk pid), (''label'', bk_text bk label),
      (''scopes_json'', serialize_json bk (scopes_json scopes)), (''token_prefix'', bk_text bk (token_prefix token)),
      (''token_digest_hex'', bk_text bk (token_digest_hex c token)), (''created_at'', bk_text bk now),
      (''last_used_at'', bk_null bk), (''revoked_at'', bk_null bk)]"

definition revoke_values :: "'v backend \<Rightarrow> string \<Rightarrow> 'v row \<Rightarrow> 'v row" where
  "revoke_values bk now r =
     [(''revoked_at'', sql_coalesce bk (unwrap_or (map_of r ''revoked_at'') (bk_null bk)) (bk_text bk now))]"

definition touch_values :: "'v backend \<Rightarrow> string \<Rightarrow> 'v row" where
  "touch_values bk now = [(''last_used_at'', bk_text bk now)]"

section \<open>The daemon's registration\<close>

definition row_to_record :: "'v backend \<Rightarrow> 'v row \<Rightarrow> row_error + daemon_registration_record" where
  "row_to_record bk r =
     r_then (get_string bk r ''status'') (\<lambda>status.
     r_then (r_map_err (\<lambda>_. InvalidColumnType ''status'') (deserialize_status status)) (\<lambda>status.
     r_then (get_string bk r ''daemon_id'') (\<lambda>daemon_id.
     r_then (get_string bk r ''control_plane_url'') (\<lambda>url.
     r_then (get_string bk r ''daemon_token'') (\<lambda>token.
     r_then (get_string bk r ''registered_at'') (\<lambda>registered_at.
     r_then (get_optional get_string bk r ''last_heartbeat_at'') (\<lambda>last_heartbeat_at.
     r_then (get_optional get_string bk r ''last_error_code'') (\<lambda>last_error_code.
     r_then (get_optional get_string bk r ''session_id'') (\<lambda>session_id.
     Inr \<lparr> dr_daemon_id = daemon_id, dr_control_plane_url = url, dr_daemon_token = token, dr_status = status,
       dr_registered_at = registered_at, dr_last_heartbeat_at = last_heartbeat_at,
       dr_last_error_code = last_error_code, dr_session_id = session_id \<rparr>)))))))))"

definition daemon_sql_row :: "'v backend \<Rightarrow> daemon_registration_record \<Rightarrow> 'v row" where
  "daemon_sql_row bk d =
     [(''daemon_id'', bk_text bk (dr_daemon_id d)), (''control_plane_url'', bk_text bk (dr_control_plane_url d)),
      (''daemon_token'', bk_text bk (dr_daemon_token d)), (''status'', bk_text bk (serialize_status (dr_status d))),
      (''registered_at'', bk_text bk (dr_registered_at d)), (''last_heartbeat_at'', opt_text bk (dr_last_heartbeat_at d)),
      (''last_error_code'', opt_text bk (dr_last_error_code d)), (''session_id'', opt_text bk (dr_session_id d))]"

definition heartbeat_values :: "'v backend \<Rightarrow> string \<Rightarrow> daemon_connection_status \<Rightarrow> 'v row" where
  "heartbeat_values bk at status =
     [(''last_heartbeat_at'', bk_text bk at), (''status'', bk_text bk (serialize_status status))]"

text \<open>The assignments of \<open>ON CONFLICT(daemon_id) DO UPDATE\<close>: all columns but the key, from the new row.\<close>

definition excluded_values :: "'v backend \<Rightarrow> daemon_registration_record \<Rightarrow> 'v row" where
  "excluded_values bk r = tl (daemon_sql_row bk r)"

section \<open>The tables as codecs\<close>

definition norm_agent :: "agent_profile \<Rightarrow> agent_profile" where
  "norm_agent a = a\<lparr> ap_provider_config :=
     (ap_provider_config a)\<lparr> cf_mcp_config := norm_value (cf_mcp_config (ap_provider_config a)) \<rparr> \<rparr>"

definition agent_storable :: "agent_profile \<Rightarrow> bool" where
  "agent_storable a \<longleftrightarrow> readable (config_to_value (ap_provider_config a))"

lemma dec_enum_store [simp]:
  "dec_enum lock_policy_of_str (Str (lock_policy_str p)) = Some p"
  "dec_enum product_status_of_str (Str (product_status_str s)) = Some s"
  "dec_enum agent_workspace_mode_of_str (Str (agent_workspace_mode_str m)) = Some m"
  "dec_enum scope_of_str (Str (scope_str c)) = Some c"
  subgoal by (cases p) (simp_all add: dec_enum_def lock_policy_of_str_def)
  subgoal by (cases s) (simp_all add: dec_enum_def product_status_of_str_def)
  subgoal by (cases m) (simp_all add: dec_enum_def agent_workspace_mode_of_str_def)
  subgoal by (simp add: dec_enum_def)
  done

lemma dec_list_str_list:
  "(\<And>x. dec (Str (f x)) = Some x) \<Longrightarrow> dec_list dec (str_list (map f xs)) = Some xs"
  by (induction xs) (simp_all add: str_list_def)

lemma readable_lists [simp]: "readable (modes_json ms)" "readable (scopes_json ss)"
  by (simp_all add: modes_json_def scopes_json_def)

lemma readable_policy [simp]: "readable (policy_to_value p)"
  by (simp add: readable_def RECURSION_LIMIT_def policy_to_value_def)

lemma policy_of_canonical: "execution_policy_of (canonical (policy_to_value p)) = Some p"
proof -
  have "printable (policy_to_value p)" using readable_policy [of p] by (simp add: readable_def)
  then show ?thesis
    unfolding execution_policy_of_def by (simp add: field_canonical) (simp add: policy_to_value_def field_simps)
qed

lemma config_of_canonical:
  assumes "printable (config_to_value c)"
  shows "provider_config_of (canonical (config_to_value c)) = Some (c\<lparr> cf_mcp_config := norm_value (cf_mcp_config c) \<rparr>)"
  unfolding provider_config_of_def
  by (simp add: field_canonical [OF assms])
    (simp add: config_to_value_def field_simps opt_field_norm_value)

lemma deserialize_status_str [simp]: "deserialize_status (serialize_status s) = Inr s"
  by (cases s) simp_all

context storage
begin

lemma read_json_column [simp]:
  "column r c = Inr (serialize_json bk v) \<Longrightarrow> readable v \<Longrightarrow>
   read_json bk dec r c = ok_or (InvalidJson c) (dec (canonical v))"
  by (simp add: read_json_def)

end

lemma canonical_str_list [simp]: "canonical (str_list xs) = str_list xs"
  by (simp add: str_list_def)

sublocale storage \<subseteq> grants: row_codec "grant_sql_row bk" "row_to_grant bk" id "\<lambda>_. True"
proof
  fix g :: directory_grant
  have "dec_list (dec_enum workspace_mode_of_str) (modes_json ms) = Some ms" for ms
    by (simp add: modes_json_def dec_list_str_list)
  moreover have "canonical (modes_json ms) = modes_json ms" "canonical (caps_json cs) = caps_json cs" for ms cs
    by (simp_all add: modes_json_def caps_json_def)
  ultimately show "row_to_grant bk (grant_sql_row bk g) = Inr (id g)"
    by (simp add: row_to_grant_def grant_sql_row_def get_column)
qed

sublocale storage \<subseteq> agent_rows: row_codec "agent_sql_row bk" "row_to_profile bk" norm_agent agent_storable
proof
  fix a
  assume "agent_storable a"
  then have config: "readable (config_to_value (ap_provider_config a))" by (simp add: agent_storable_def)
  then have "provider_config_of (canonical (config_to_value (ap_provider_config a))) =
      Some ((ap_provider_config a)\<lparr> cf_mcp_config := norm_value (cf_mcp_config (ap_provider_config a)) \<rparr>)"
    by (simp add: readable_def config_of_canonical)
  with config show "row_to_profile bk (agent_sql_row bk a) = Inr (norm_agent a)"
    by (simp add: row_to_profile_def agent_sql_row_def norm_agent_def get_column policy_of_canonical)
qed

sublocale storage \<subseteq> product_rows: row_codec "product_sql_row bk" "row_to_product bk" id "\<lambda>_. True"
  by unfold_locales (simp add: row_to_product_def product_sql_row_def get_column)



sublocale storage \<subseteq> token_rows: row_codec "token_sql_row bk" "sql_row_to_token bk" row_to_token "\<lambda>_. True"
proof
  fix t :: token_row
  have "dec_list (dec_enum scope_of_str) (scopes_json ss) = Some ss" "canonical (scopes_json ss) = scopes_json ss" for ss
    by (simp_all add: scopes_json_def dec_list_str_list)
  then show "sql_row_to_token bk (token_sql_row bk t) = Inr (row_to_token t)"
    by (simp add: sql_row_to_token_def token_sql_row_def row_to_token_def get_column)
qed

sublocale storage \<subseteq> daemon_rows: row_codec "daemon_sql_row bk" "row_to_record bk" id "\<lambda>_. True"
  by unfold_locales
    (simp add: row_to_record_def daemon_sql_row_def get_column r_map_err_def del: deserialize_status.simps)

section \<open>Statements refine the operations on typed rows\<close>

lemma grant_rows_sql:
  "update_values (set_id_values bk gid) (insert_values bk directory_grants_table (insert_grant_values bk input path p now)) =
     grant_sql_row bk (grant_of_policy gid input path p now)"
  "update_values (update_grant_values bk p now) (grant_sql_row bk g) = grant_sql_row bk (set_policy p now g)"
  by (simp_all add: row_simps set_id_values_def insert_grant_values_def update_grant_values_def grant_sql_row_def
      grant_of_policy_def set_policy_def)

lemma agent_rows_sql:
  "insert_values bk agent_profiles_table (agent_sql_row bk a) = agent_sql_row bk a"
  "update_values (update_agent_values bk next now) (agent_sql_row bk a) = agent_sql_row bk (set_profile next now a)"
  by (simp_all add: row_simps update_agent_values_def agent_sql_row_def set_profile_def)

lemma product_rows_sql:
  "insert_values bk products_table (product_sql_row bk p) = product_sql_row bk p"
  "update_values (update_product_values bk u) (product_sql_row bk p) = product_sql_row bk (set_product u p)"
  by (simp_all add: row_simps update_product_values_def product_sql_row_def set_product_def)

lemma token_rows_sql:
  "update_values (set_id_values bk tid) (insert_values bk product_tokens_table (insert_token_values bk c pid label scopes token now)) =
     token_sql_row bk (new_token_row c pid label scopes token now tid)"
  "update_values (touch_values bk now) (token_sql_row bk t) = token_sql_row bk (t\<lparr> tk_last_used_at := Some now \<rparr>)"
  by (simp_all add: row_simps set_id_values_def insert_token_values_def touch_values_def token_sql_row_def new_token_row_def)

lemma daemon_rows_sql:
  "insert_values bk daemon_state_table (daemon_sql_row bk d) = daemon_sql_row bk d"
  "update_values (excluded_values bk r) (daemon_sql_row bk d) = daemon_sql_row bk (r\<lparr> dr_daemon_id := dr_daemon_id d \<rparr>)"
  "update_values (heartbeat_values bk at status) (daemon_sql_row bk d) =
     daemon_sql_row bk (d\<lparr> dr_last_heartbeat_at := Some at, dr_status := status \<rparr>)"
  by (simp_all add: row_simps heartbeat_values_def excluded_values_def daemon_sql_row_def)

context storage
begin

lemma revoke_row_sql:
  "update_values (revoke_values bk now (token_sql_row bk t)) (token_sql_row bk t) =
     token_sql_row bk (t\<lparr> tk_revoked_at := (case tk_revoked_at t of None \<Rightarrow> Some now | Some v \<Rightarrow> Some v) \<rparr>)"
  by (cases "tk_revoked_at t")
    (simp_all add: update_values_def unwrap_or_def revoke_values_def token_sql_row_def sql_coalesce_def opt_text_def)

lemma store_rows_ok:
  "row_ok bk directory_grants_table (grant_sql_row bk g)" "row_ok bk agent_profiles_table (agent_sql_row bk a)"
  "row_ok bk products_table (product_sql_row bk p)" "row_ok bk product_tokens_table (token_sql_row bk t)"
  "row_ok bk daemon_state_table (daemon_sql_row bk d)"
  by (simp_all add: row_ok_def directory_grants_table_def agent_profiles_table_def products_table_def
      product_tokens_table_def daemon_state_table_def grant_sql_row_def agent_sql_row_def product_sql_row_def
      token_sql_row_def daemon_sql_row_def)

text \<open>A table with a one-column key of type text.\<close>

lemma satisfies_key:
  assumes "\<And>x. row_ok bk t (enc x)" and "tb_primary_key t = [k]" and "tb_unique t = []"
    and "\<And>x. map_of (enc x) k = Some (bk_text bk (key x))" and "distinct (map key xs)"
  shows "satisfies bk t (map enc xs)"
  using assms by (intro satisfiesI) (auto simp: key_of_def distinct_map inj_on_def)

lemma grants_satisfy: "distinct (map dg_id gs) \<Longrightarrow> satisfies bk directory_grants_table (map (grant_sql_row bk) gs)"
  by (rule satisfies_key [where k = "''id''" and key = dg_id])
    (simp_all add: store_rows_ok, simp_all add: directory_grants_table_def grant_sql_row_def)

lemma agents_satisfy: "distinct (map ap_id as) \<Longrightarrow> satisfies bk agent_profiles_table (map (agent_sql_row bk) as)"
  by (rule satisfies_key [where k = "''id''" and key = ap_id])
    (simp_all add: store_rows_ok, simp_all add: agent_profiles_table_def agent_sql_row_def)

lemma products_satisfy: "distinct (map pr_id ps) \<Longrightarrow> satisfies bk products_table (map (product_sql_row bk) ps)"
  by (rule satisfies_key [where k = "''id''" and key = pr_id])
    (simp_all add: store_rows_ok, simp_all add: products_table_def product_sql_row_def)

lemma daemons_satisfy: "distinct (map dr_daemon_id ds) \<Longrightarrow> satisfies bk daemon_state_table (map (daemon_sql_row bk) ds)"
  by (rule satisfies_key [where k = "''daemon_id''" and key = dr_daemon_id])
    (simp_all add: store_rows_ok, simp_all add: daemon_state_table_def daemon_sql_row_def)

lemma tokens_satisfy:
  assumes "distinct (map tk_id ts)" and "distinct (map tk_digest_hex ts)"
  shows "satisfies bk product_tokens_table (map (token_sql_row bk) ts)"
proof (rule satisfiesI)
  fix cs
  assume "cs \<in> set (tb_primary_key product_tokens_table # tb_unique product_tokens_table)"
  then have "cs = [''id''] \<or> cs = [''token_digest_hex'']" by (simp add: product_tokens_table_def)
  then show "distinct (map (\<lambda>x. key_of cs (token_sql_row bk x)) ts)"
    using assms by (auto simp: key_of_def token_sql_row_def distinct_map inj_on_def)
qed (simp add: store_rows_ok)

end

end
