(* ===== verification/Sql_Properties.thy ===== *)
theory Sql_Properties
  imports Store_Codec Api_Properties Execution
begin

text \<open>
  Properties of the database: the SQL rows refine the typed stores, what is written is read back, and every
  reachable state satisfies the schema.
\<close>

section \<open>The laws of the nine row codecs\<close>

context storage
begin

lemmas decoded = tasks.decode events.decode locks.decode requests.decode grants.decode agent_rows.decode
  product_rows.decode token_rows.decode daemon_rows.decode

lemmas unreadable_task = tasks.unreadable_row

lemma where_id_columns:
  "where_text bk ''id'' i (grant_sql_row bk g) \<longleftrightarrow> dg_id g = i" "where_text bk ''id'' i (agent_sql_row bk a) \<longleftrightarrow> ap_id a = i"
  "where_text bk ''id'' i (product_sql_row bk p) \<longleftrightarrow> pr_id p = i" "where_text bk ''id'' i (token_sql_row bk t) \<longleftrightarrow> tk_id t = i"
  "where_text bk ''product_id'' i (token_sql_row bk t) \<longleftrightarrow> tk_product_id t = i"
  "where_text bk ''daemon_id'' i (daemon_sql_row bk d) \<longleftrightarrow> dr_daemon_id d = i"
  by (simp_all add: where_text_def grant_sql_row_def agent_sql_row_def product_sql_row_def token_sql_row_def daemon_sql_row_def)

text \<open>The updates and deletions of the other stores, on their tables.\<close>

lemma other_tables_sql:
  "sql_update (where_text bk ''id'' i) (\<lambda>_. update_grant_values bk p now) (map (grant_sql_row bk) (grant_rows gt)) =
     map (grant_sql_row bk) (grant_rows (update_grant i (set_policy p now) gt))"
  "sql_update (where_text bk ''id'' i) (\<lambda>_. update_agent_values bk ca now) (map (agent_sql_row bk) (at_rows at)) =
     map (agent_sql_row bk) (at_rows (update_agent i (set_profile ca now) at))"
  "sql_update (where_text bk ''id'' i) (\<lambda>_. update_product_values bk u) (map (product_sql_row bk) ps) =
     map (product_sql_row bk) (update_rows (\<lambda>p. pr_id p = i) (set_product u) ps)"
  "sql_update (\<lambda>r. where_text bk ''product_id'' pid r \<and> where_text bk ''id'' i r) (revoke_values bk now) (map (token_sql_row bk) ts) =
     map (token_sql_row bk) (update_rows (\<lambda>t. tk_product_id t = pid \<and> tk_id t = i)
       (\<lambda>t. t\<lparr> tk_revoked_at := (case tk_revoked_at t of None \<Rightarrow> Some now | Some v \<Rightarrow> Some v) \<rparr>) ts)"
  "sql_update (where_text bk ''id'' i) (\<lambda>_. touch_values bk now) (map (token_sql_row bk) ts) =
     map (token_sql_row bk) (update_rows (\<lambda>t. tk_id t = i) (\<lambda>t. t\<lparr> tk_last_used_at := Some now \<rparr>) ts)"
  "sql_update (where_text bk ''daemon_id'' i) (\<lambda>_. heartbeat_values bk at' status) (map (daemon_sql_row bk) ds) =
     map (daemon_sql_row bk) (update_rows (\<lambda>d. dr_daemon_id d = i) (\<lambda>d. d\<lparr> dr_last_heartbeat_at := Some at', dr_status := status \<rparr>) ds)"
  subgoal unfolding grant_rows_update by (rule grants.update_table) (simp_all add: where_id_columns grant_rows_sql)
  subgoal unfolding update_agent_def by (simp add: agent_rows.update_table [where p = "\<lambda>a. ap_id a = i"] where_id_columns agent_rows_sql)
  subgoal by (rule product_rows.update_table) (simp_all add: where_id_columns product_rows_sql)
  subgoal by (rule token_rows.update_table) (simp_all add: where_id_columns revoke_row_sql)
  subgoal by (rule token_rows.update_table) (simp_all add: where_id_columns token_rows_sql)
  subgoal by (rule daemon_rows.update_table) (simp_all add: where_id_columns daemon_rows_sql)
  done

end

section \<open>Effects of the task store, by case\<close>

lemma create_state:
  assumes "task_reachable db"
  shows "snd (create input now db) =
    (if create_task_validate input = Inr () then
       (let tid = task_row_id (Suc (length (db_tasks db))) in
        log_event tid EvQueued empty_object now (db\<lparr> db_tasks := db_tasks db @ [new_task input tid now] \<rparr>))
     else db)"
proof (cases "create_task_validate input")
  case (Inl e)
  then show ?thesis by (simp add: create_Inl)
next
  case (Inr u)
  then show ?thesis
    using create_effect [OF task_reachable_parts(1,2) [OF assms], of input _ now] by (simp add: Let_def)
qed

lemma transition_state:
  assumes "task_reachable db"
  shows "snd (transition tid next p now db) =
    (if \<exists>t. find_task tid db = Some t \<and> allowed_transition (task_status t) next
     then transition_db tid next p now db else db)"
  by (rule transition_cases [OF task_reachable_parts(2) [OF assms], of tid "next" p now])
    (use allowed_not_terminal in \<open>auto dest: validate_transition_Changed [THEN iffD2]\<close>)

lemma append_state:
  assumes "task_reachable db"
  shows "snd (append_event tid ty p now db) = (if find_task tid db \<noteq> None then log_event tid ty p now db else db)"
  using append_event_effect [OF task_reachable_parts(2) [OF assms], of tid _ ty p now]
    append_event_missing [of tid db ty p now]
  by (cases "find_task tid db") simp_all

lemma record_state:
  assumes "task_reachable db"
  shows "snd (record_permission_request tid q now db) =
    (if find_task tid db \<noteq> None \<and> pq_request_id q \<notin> prr_request_id ` set (db_requests db)
     then record_db tid q now db else db)"
  using record_effect [OF task_reachable_parts(2) [OF assms], of tid _ q now]
    record_duplicate [OF task_reachable_parts(2) [OF assms], of tid _ q now] record_missing [of tid db q now]
  by (cases "find_task tid db") auto

lemma resolve_state:
  assumes "task_reachable db"
  shows "snd (resolve_permission_request tid rid dec reason now db) =
    (if find_task tid db \<noteq> None \<and> (\<exists>q. query_permission_request tid rid db = Some q \<and> prr_status q = Pending)
     then resolve_db tid \<lparr> pd_request_id = rid, pd_decision = dec, pd_reason = reason \<rparr> now db else db)"
proof (cases "find_task tid db")
  case None
  then show ?thesis by (simp add: resolve_missing)
next
  case (Some t)
  note parts = task_reachable_parts [OF assms]
  show ?thesis
  proof (cases "query_permission_request tid rid db")
    case None
    with Some show ?thesis by (simp add: resolve_missing)
  next
    case q: (Some q)
    show ?thesis
    proof (cases "prr_status q = Pending")
      case True
      then show ?thesis
        using resolve_pending_effect [OF parts(2) Some q True refl refl] Some q by simp
    next
      case False
      show ?thesis
      proof (rule resolve_again [OF parts(2) parts(7) Some q False])
        fix d e
        assume "\<And>reason now. resolve_permission_request tid rid (pd_decision d) reason now db =
            (Inr \<lparr>rs_task_id = tid, rs_request_id = rid, rs_status = prr_status q,
                  rs_decision = pd_decision d, rs_event = e, rs_duplicated = True\<rparr>, db)"
          and "\<And>dec reason now. dec \<noteq> pd_decision d \<Longrightarrow>
            resolve_permission_request tid rid dec reason now db = (Inl PermissionRequestAlreadyResolved, db)"
        with False q show ?thesis by (cases "dec = pd_decision d") simp_all
      qed
    qed
  qed
qed

section \<open>Properties\<close>



lemma demo_created_storable:
  "events_storable demo_created" "list_all task_storable (db_tasks demo_created)"
  "list_all event_storable (db_events demo_created)" "list_all request_storable (db_requests demo_created)"
proof -
  have "readable empty_object" by (simp add: readable_def empty_object_def RECURSION_LIMIT_def)
  moreover have "next_sequence ''task_1'' ((empty_task_db (Some default_bus))\<lparr> db_tasks := [demo_task] \<rparr>) = 1"
    by (simp add: next_sequence_def events_of_def empty_task_db_def)
  ultimately show "events_storable demo_created" "list_all task_storable (db_tasks demo_created)"
    "list_all event_storable (db_events demo_created)" "list_all request_storable (db_requests demo_created)"
    by (simp_all add: demo_created_eq events_storable_def log_event_events event_row_def event_storable_def
        empty_task_db_def task_storable_def demo_task_def new_task_def demo_input_def is_none_or_def)
qed




text \<open>
  C27. Rows read back. What any of the nine tables holds for a task, an event, a lock, a permission request, a grant,
  an agent profile, a product, a token or a registration is read as that value, with JSON objects in the order of
  their keys and null for an absent value, whenever its JSON texts can be read and its numbers fit in 64 bits.
\<close>

theorem stored_rows_read_back:
  assumes "storage bk"
  shows "(task_storable t \<longrightarrow> row_to_task bk (task_sql_row bk t) = Inr (norm_task t)) \<and>
    (event_storable e \<longrightarrow> row_to_event bk (event_sql_row bk e) = Inr (norm_event e)) \<and>
    row_to_lock bk (lock_sql_row bk l) = Inr l \<and>
    (request_storable q \<longrightarrow> row_to_permission_request bk (request_sql_row bk q) = Inr (norm_record q)) \<and>
    row_to_grant bk (grant_sql_row bk g) = Inr g \<and>
    (agent_storable a \<longrightarrow> row_to_profile bk (agent_sql_row bk a) = Inr (norm_agent a)) \<and>
    row_to_product bk (product_sql_row bk p) = Inr p \<and>
    sql_row_to_token bk (token_sql_row bk k) = Inr (row_to_token k) \<and>
    row_to_record bk (daemon_sql_row bk d) = Inr d"
  using storage.decoded [OF assms]
  by simp

theorem stored_rows_read_back_witness:
  "row_to_task sqlite_backend (task_sql_row sqlite_backend demo_task) = Inr demo_task"
proof -
  have "task_storable demo_task" using demo_created_storable(2) by (simp add: demo_created_eq)
  moreover have "norm_task demo_task = demo_task" by (simp add: norm_task_def demo_task_def new_task_def demo_input_def)
  ultimately show ?thesis using stored_rows_read_back [OF sqlite.storage_axioms, of demo_task] by simp
qed

section \<open>The schema\<close>

lemma distinct_by_group:
  assumes "\<And>k. distinct (map g (filter (\<lambda>x. f x = k) xs))"
  shows "distinct (map (\<lambda>x. (f x, g x)) xs)"
  using assms
proof (induction xs)
  case (Cons x xs)
  have "distinct (map g (filter (\<lambda>y. f y = k) xs))" for k
    using Cons.prems [of k] by (auto split: if_splits)
  moreover have "g x \<notin> g ` {y \<in> set xs. f y = f x}"
    using Cons.prems [of "f x"] by simp
  ultimately show ?case using Cons.IH by auto
qed simp

lemma event_keys_distinct:
  assumes "events_wf db"
  shows "distinct (map (\<lambda>e. (ev_task_id e, ev_sequence e)) (db_events db))" "distinct (map ev_id (db_events db))"
proof -
  have "distinct (map ev_sequence (events_of tid db))" for tid
    using assms by (metis events_wf_def distinct_upt)
  then show keys: "distinct (map (\<lambda>e. (ev_task_id e, ev_sequence e)) (db_events db))"
    by (intro distinct_by_group) (simp add: events_of_def)
  have "ev_id e = event_row_id (ev_task_id e) (ev_sequence e)" if "e \<in> set (db_events db)" for e
    using assms that by (simp add: events_wf_def)
  with keys show "distinct (map ev_id (db_events db))" by (simp add: distinct_map inj_on_def)
qed

definition integers_fit :: "task_db \<Rightarrow> bool" where
  "integers_fit db \<longleftrightarrow> list_all (\<lambda>t. is_none_or (task_timeout_seconds t) (\<lambda>n. n < 2 ^ 63)) (db_tasks db) \<and>
     list_all (\<lambda>e. ev_sequence e < 2 ^ 63) (db_events db) \<and> list_all (\<lambda>q. prr_sequence q < 2 ^ 63) (db_requests db)"


lemma demo_app_fits: "integers_fit (app_tasks demo_app)"
proof -
  let ?db = "empty_task_db (Some default_bus)"
  have "next_sequence tid (?db\<lparr> db_tasks := ts \<rparr>) = 1" for tid ts
    by (simp add: next_sequence_def events_of_def empty_task_db_def)
  then have "integers_fit (snd (create demo_foreign ''t2'' ?db))"
    unfolding create_state [OF reach_start]
    by (simp add: integers_fit_def Let_def log_event_events event_row_def)
      (simp add: empty_task_db_def new_task_def demo_foreign_def demo_input_def is_none_or_def)
  then show ?thesis by (simp add: demo_app_def app_start_def Let_def)
qed


section \<open>A response that is too deep\<close>

text \<open>
  The parser of \<open>serde_json\<close> stops at 128 levels, its printer does not. A provider's response of 126 or 127 levels
  is accepted, and stored two levels deeper in the result of the task: from then on the row cannot be read, and
  neither can the list of all tasks, which every task list and count of the daemon starts from.
\<close>

lemma nesting_member: "(k, v) \<in> set kvs \<Longrightarrow> nesting v < nesting (Object kvs)"
  by (induction kvs) (auto simp: less_Suc_eq_le le_max_iff_disj)

lemma deep_result_unreadable:
  assumes "storage bk" and "task_result t = Some res" and "RECURSION_LIMIT \<le> nesting (result_to_value res)"
  shows "\<exists>e. row_to_task bk (task_sql_row bk t) = Inl e"
proof -
  have "bk_from_str bk (bk_to_string bk (result_to_value res)) = None"
    using assms(1,3) by (simp add: storage_def json_text_def)
  then have deep: "deserialize_optional_json bk dec c (Some (bk_to_string bk (result_to_value res))) = Inl (InvalidJson c)" for dec :: "json \<Rightarrow> task_result option" and c
    by (simp add: deserialize_optional_json_def deserialize_json_def ok_or_def r_then_def)
  have col: "column (task_sql_row bk t) ''result_json'' = Inr (serialize_optional_json bk (Some (result_to_value res)))"
    by (simp add: task_sql_row_def get_column assms(2))
  have "row_to_task bk (task_sql_row bk t) \<noteq> Inr x" for x
    unfolding row_to_task_def r_then_Inr
    using storage.get_opt_json_column [OF assms(1) col] by (simp add: deep)
  then show ?thesis by (meson sumE)
qed

theorem deep_response_blocks_listing:
  assumes "storage bk" and "find_task tid db = Some t" and "126 \<le> nesting response"
    and "res = result_from_outcome t (http_success r http file_count byte_count response) ws now"
  shows "\<exists>e. sql_all bk (tt_tasks (tables_of bk (snd (save_execution_result res db)))) = Inl e"
proof -
  let ?t = "t\<lparr> task_result := Some res, task_updated_at := tr_updated_at res \<rparr>"
  have tid: "t \<in> set (db_tasks db)" "tr_task_id res = task_id t"
    using assms(2) task_table.lookup_SomeD by (auto simp: assms(4) result_from_outcome_def)
  then have mem: "?t \<in> set (db_tasks (snd (save_execution_result res db)))"
    by (auto simp: save_execution_result_def modify_def update_task_def update_rows_def image_iff)
  obtain w where w: "tr_provider_result res = Some (Object ((''provider_response'', response) # w))"
    by (simp add: assms(4) result_from_outcome_def http_success_def)
  then have "nesting response < nesting (Object ((''provider_response'', response) # w))"
    by (intro nesting_member [of "''provider_response''"]) simp
  moreover have "nesting (Object ((''provider_response'', response) # w)) < nesting (result_to_value res)"
    unfolding result_to_value_def w opt_json_def by (intro nesting_member [of "''provider_result''"]) simp
  ultimately have "RECURSION_LIMIT \<le> nesting (result_to_value res)"
    using assms(3) by (simp add: RECURSION_LIMIT_def)
  then obtain e where "row_to_task bk (task_sql_row bk ?t) = Inl e"
    using deep_result_unreadable [OF assms(1), of ?t res] by auto
  with mem obtain e where "r_collect (map (row_to_task bk) (map (task_sql_row bk) (db_tasks (snd (save_execution_result res db))))) = Inl e"
    using storage.unreadable_task [OF assms(1)] by blast
  then show ?thesis
    by (simp add: sql_all_def query_rows_def storage.tables_fields [OF assms(1)] store_error_def r_map_err_def)
qed

end
