(* ===== verification/Child_Process.thy ===== *)
theory Child_Process
  imports Acp "HOL-Library.Word" "HOL-Library.Monad_Syntax"
begin

text \<open>
  The child process of a command: \<open>wait_for_child\<close>, \<open>terminate_child\<close>, \<open>send_unix_signal\<close>, the pipes and the prompt file of
  \<open>src/src/runtime/cli.rs\<close>, and \<open>wait_for_child\<close> of \<open>src/src/runtime/acp.rs\<close>.

  Time is counted in milliseconds. What the operating system and the runtime answer is an argument, the record
  \<open>child_world\<close>: when the child exits if it is left alone, when the receiver of the cancellation is ready (a message, or the
  sender is gone), what \<open>/bin/kill\<close> and \<open>try_wait\<close> return, how long a killed child takes to be reaped, and which of several
  branches that are ready at the same time \<open>select!\<close> takes.
\<close>

section \<open>Waiting for the first of several futures\<close>

definition first_ready :: "nat option list \<Rightarrow> nat option" where
  "first_ready bs = (case List.map_filter id bs of [] \<Rightarrow> None | t # ts \<Rightarrow> Some (fold min ts t))"

text \<open>\<open>tokio::select!\<close>: the branch that is ready first, and when; \<open>pick\<close> decides between branches ready at one time.\<close>

definition select_branch :: "(nat \<Rightarrow> nat) \<Rightarrow> nat option list \<Rightarrow> (nat \<times> nat) option" where
  "select_branch pick bs = map_option (\<lambda>t.
     (let is = filter (\<lambda>i. bs ! i = Some t) [0..<length bs] in (is ! (pick t mod length is), t))) (first_ready bs)"

lemma map_filter_id: "List.map_filter id bs = map the (filter (\<lambda>b. b \<noteq> None) bs)"
  by (induction bs) (auto simp: List.map_filter_def)

lemma fold_min: "fold min ts (t::nat) = Min (insert t (set ts))"
  using Min.set_eq_fold [of t ts] by simp

lemma first_ready_Some:
  assumes "first_ready bs = Some t"
  shows "Some t \<in> set bs" and "Some u \<in> set bs \<Longrightarrow> t \<le> u"
proof -
  from assms obtain x xs where xs: "List.map_filter id bs = x # xs" and t: "t = Min (insert x (set xs))"
    by (auto simp: first_ready_def fold_min split: list.splits)
  have members: "v \<in> insert x (set xs) \<longleftrightarrow> Some v \<in> set bs" for v
    using arg_cong [OF xs, of set] by (force simp: map_filter_id)
  show "Some t \<in> set bs" using members [of t] t Min_in [of "insert x (set xs)"] by simp
  show "t \<le> u" if "Some u \<in> set bs" using members [of u] that t by simp
qed

lemma first_ready_None: "first_ready bs = None \<longleftrightarrow> set bs \<subseteq> {None}"
proof -
  have "first_ready bs = None \<longleftrightarrow> List.map_filter id bs = []" by (simp add: first_ready_def split: list.split)
  then show ?thesis by (auto simp: map_filter_id filter_empty_conv)
qed

lemma select_branch_Some:
  assumes "select_branch pick bs = Some (i, t)"
  shows "i < length bs" and "bs ! i = Some t" and "Some u \<in> set bs \<Longrightarrow> t \<le> u"
proof -
  let ?is = "filter (\<lambda>i. bs ! i = Some t) [0..<length bs]"
  from assms have first: "first_ready bs = Some t" and i: "i = ?is ! (pick t mod length ?is)"
    by (auto simp: select_branch_def Let_def)
  obtain j where "j < length bs" "bs ! j = Some t" using first_ready_Some(1) [OF first] by (auto simp: in_set_conv_nth)
  then have "?is \<noteq> []" by (force simp: filter_empty_conv)
  then have "i \<in> set ?is" unfolding i by (intro nth_mem) simp
  then show "i < length bs" "bs ! i = Some t" by simp_all
  show "Some u \<in> set bs \<Longrightarrow> t \<le> u" by (rule first_ready_Some(2) [OF first])
qed

lemma select_branch_None [simp]: "select_branch pick bs = None \<longleftrightarrow> set bs \<subseteq> {None}"
  by (simp add: select_branch_def first_ready_None)

section \<open>The child\<close>

record child_world =
  ch_pid :: "nat option"
  ch_wait :: "(nat \<times> (string + exit_status)) option"
  ch_cancelled :: "nat option"
  ch_run_kill :: "string \<Rightarrow> string \<Rightarrow> string + bool"
  ch_try_wait :: "nat \<Rightarrow> string + bool"
  ch_reap :: nat
  ch_pick :: "nat \<Rightarrow> nat"

definition GRACE :: nat where
  "GRACE = 500"

definition POLL :: nat where
  "POLL = 20"

definition send_unix_signal :: "child_world \<Rightarrow> cancel_signal \<Rightarrow> string + unit" where
  "send_unix_signal w sig =
     (case ch_pid w of
        None \<Rightarrow> Inl ''missing child process id''
      | Some pid \<Rightarrow>
          (let run = (\<lambda>signal. case ch_run_kill w signal (show_nat pid) of
                 Inl e \<Rightarrow> Inl e
               | Inr success \<Rightarrow> if success then Inr () else Inl ''failed to signal child process'')
           in case sig of
                Sigterm \<Rightarrow> run ''-TERM''
              | Sigint \<Rightarrow> run ''-INT''
              | SigKill \<Rightarrow> Inr ()
              | SigNone \<Rightarrow> Inr ()))"

text \<open>How a child was ended: it was seen to have exited, or it was killed; and when, counted from the signal.\<close>

datatype ending = Reaped nat | Killed nat

lemma poll_wakes:
  assumes "select_branch pick [Some (max t GRACE), Some (t + POLL)] = Some (Suc n, t')"
  shows "t' = t + POLL" and "t' \<le> GRACE"
proof -
  from select_branch_Some [OF assms] show "t' = t + POLL" by simp
  moreover have "t' \<le> max t GRACE" using select_branch_Some(3) [OF assms, of "max t GRACE"] by simp
  ultimately show "t' \<le> GRACE" by (simp add: POLL_def max_def split: if_splits)
qed

lemma poll_progress:
  "select_branch pick [Some (max t GRACE), Some (t + POLL)] = Some (Suc n, t') \<Longrightarrow> GRACE - t' < GRACE - t"
  using poll_wakes [of pick t n t'] by (simp add: POLL_def)

text \<open>The loop of \<open>terminate_child\<close>, entered at time \<open>t\<close> after the signal.\<close>

function poll_child :: "child_world \<Rightarrow> nat \<Rightarrow> ending" where
  "poll_child w t =
     (case ch_try_wait w t of
        Inl _ \<Rightarrow> Killed t
      | Inr True \<Rightarrow> Reaped t
      | Inr False \<Rightarrow>
          (case select_branch (ch_pick w) [Some (max t GRACE), Some (t + POLL)] of
             None \<Rightarrow> Killed t
           | Some (0, t') \<Rightarrow> Killed t'
           | Some (Suc _, t') \<Rightarrow> poll_child w t'))"
  by pat_completeness auto
termination
  by (relation "measure (\<lambda>(w, t). GRACE - t)") (auto intro: poll_progress)

declare poll_child.simps [simp del]

definition terminate_child :: "child_world \<Rightarrow> cancel_signal \<Rightarrow> ending" where
  "terminate_child w sig =
     (if sig = Sigterm \<or> sig = Sigint then
        (case send_unix_signal w sig of Inr _ \<Rightarrow> poll_child w 0 | Inl _ \<Rightarrow> Killed 0)
      else Killed 0)"

text \<open>The time at which the call has returned: a kill waits until the child is reaped.\<close>

fun ended_at :: "child_world \<Rightarrow> ending \<Rightarrow> nat" where
  "ended_at w (Reaped t) = t"
| "ended_at w (Killed t) = t + ch_reap w"

definition exit_of :: "string + exit_status \<Rightarrow> child_wait" where
  "exit_of r = (case r of Inr status \<Rightarrow> Exited status | Inl e \<Rightarrow> WaitFailed e)"

text \<open>
  \<open>wait_for_child\<close> with the way a cancelled child is ended as an argument: the adapter for commands sends the signal of the
  manifest first, the ACP adapter kills at once. The result comes with its time, and with the ending of a child that
  did not exit on its own.
\<close>

definition wait_child ::
  "child_world \<Rightarrow> nat \<Rightarrow> ending \<Rightarrow> (child_wait \<times> ending option \<times> nat) option" where
  "wait_child w timeout cancel_end =
     (case select_branch (ch_pick w) [map_option fst (ch_wait w), Some timeout, ch_cancelled w] of
        None \<Rightarrow> None
      | Some (i, t) \<Rightarrow>
          (if i = 0 then map_option (\<lambda>x. (exit_of (snd x), None, t)) (ch_wait w)
           else if i = 1 then Some (ChildTimedOut, Some (Killed 0), t + ended_at w (Killed 0))
           else Some (ChildCancelled, Some cancel_end, t + ended_at w cancel_end)))"

definition wait_for_child :: "child_world \<Rightarrow> nat \<Rightarrow> cancel_signal \<Rightarrow> (child_wait \<times> ending option \<times> nat) option" where
  "wait_for_child w timeout sig = wait_child w timeout (terminate_child w sig)"

definition acp_wait_for_child :: "child_world \<Rightarrow> nat \<Rightarrow> (child_wait \<times> ending option \<times> nat) option" where
  "acp_wait_for_child w timeout = wait_child w timeout (Killed 0)"

section \<open>Pipes\<close>

text \<open>
  What a pipe delivers before its end, and when its end comes: when the last process that holds the other end has
  closed it, which need not be the child (\<open>None\<close>: never).
\<close>

record pipe =
  pi_bytes :: string
  pi_closed :: "nat option"

definition await_pipe :: "pipe option \<Rightarrow> nat \<Rightarrow> (string \<times> nat) option" where
  "await_pipe p now = (case p of None \<Rightarrow> Some ([], now) | Some p \<Rightarrow> map_option (\<lambda>c. (pi_bytes p, max now c)) (pi_closed p))"

text \<open>From the spawned child to the data the outcome is made of, in the order of \<open>execute_inner\<close>.\<close>

definition run_child ::
  "child_world \<Rightarrow> nat \<Rightarrow> cancel_signal \<Rightarrow> pipe option \<Rightarrow> pipe option \<Rightarrow> (child_wait \<times> string \<times> string \<times> nat) option" where
  "run_child w timeout sig out errs = do {
     (wt, _, t) \<leftarrow> wait_for_child w timeout sig;
     (stdout, t) \<leftarrow> await_pipe out t;
     (stderr, t) \<leftarrow> await_pipe errs t;
     Some (wt, stdout, stderr, t) }"

section \<open>The prompt file\<close>

record prompt_files =
  pf_next :: "64 word"
  pf_files :: "string \<rightharpoonup> string"

definition prompt_path :: "string \<Rightarrow> string \<Rightarrow> 64 word \<Rightarrow> string" where
  "prompt_path temp_dir tid n = join temp_dir (''opendaemon-'' @ tid @ ''-prompt-'' @ show_nat (unat n))"

text \<open>\<open>fetch_add\<close> wraps; \<open>fs_error\<close> is the error of \<open>std::fs::write\<close> for a path, if it fails.\<close>

definition write_prompt_file ::
  "string \<Rightarrow> (string \<Rightarrow> string option) \<Rightarrow> string \<Rightarrow> string \<Rightarrow> prompt_files \<Rightarrow> (string + string) \<times> prompt_files" where
  "write_prompt_file temp_dir fs_error tid prompt s =
     (let path = prompt_path temp_dir tid (pf_next s); s = s\<lparr> pf_next := pf_next s + 1 \<rparr> in
      case fs_error path of
        Some e \<Rightarrow> (Inl e, s)
      | None \<Rightarrow> (Inr path, s\<lparr> pf_files := (pf_files s)(path \<mapsto> prompt) \<rparr>))"

definition cleanup_temp_file :: "string option \<Rightarrow> prompt_files \<Rightarrow> prompt_files" where
  "cleanup_temp_file p s = (case p of None \<Rightarrow> s | Some path \<Rightarrow> s\<lparr> pf_files := (pf_files s)(path := None) \<rparr>)"

text \<open>What \<open>execute_inner\<close> does to the files: each of its ends after the prompt was written removes it.\<close>

definition cli_files ::
  "cli_world \<Rightarrow> string \<Rightarrow> (string \<Rightarrow> string option) \<Rightarrow> runtime_execution_request \<Rightarrow> prompt_files \<Rightarrow> prompt_files" where
  "cli_files w temp_dir fs_error r s =
     (if \<not> cw_is_dir w (pw_working_directory (xr_workspace r)) then s
      else if ex_input_mode (pm_execution (xr_manifest r)) = InputTempFile then
        (case write_prompt_file temp_dir fs_error (xr_task_id r) (task_prompt (xr_task r)) s of
           (Inl e, s) \<Rightarrow> s
         | (Inr path, s) \<Rightarrow> cleanup_temp_file (Some path) s)
      else cleanup_temp_file None s)"

section \<open>Properties\<close>

text \<open>A child is seen to have exited, or it is killed, within the time of grace.\<close>

fun ending_ok :: "child_world \<Rightarrow> nat \<Rightarrow> ending \<Rightarrow> bool" where
  "ending_ok w limit (Reaped t) \<longleftrightarrow> t \<le> limit \<and> ch_try_wait w t = Inr True"
| "ending_ok w limit (Killed t) \<longleftrightarrow> t \<le> limit"

lemma poll_child_ok: "t \<le> GRACE \<Longrightarrow> ending_ok w GRACE (poll_child w t)"
proof (induction w t rule: poll_child.induct)
  case (1 w t)
  show ?case
  proof (cases "ch_try_wait w t")
    case (Inl e)
    with "1.prems" show ?thesis by (simp add: poll_child.simps [of w t])
  next
    case (Inr exited)
    obtain i t' where sel: "select_branch (ch_pick w) [Some (max t GRACE), Some (t + POLL)] = Some (i, t')"
      by (metis not_None_eq select_branch_None insert_subset list.simps(15) option.distinct(1) singletonD surj_pair)
    have "t' \<le> GRACE" using select_branch_Some(3) [OF sel, of "max t GRACE"] "1.prems" by simp
    moreover have "ending_ok w GRACE (poll_child w t')" if "\<not> exited" "i = Suc n" for n
      using "1.IH" [OF Inr _ sel] that \<open>t' \<le> GRACE\<close> by simp
    ultimately show ?thesis
      using "1.prems" Inr sel by (cases exited; cases i) (simp_all add: poll_child.simps [of w t])
  qed
qed

lemma terminate_child_ok: "ending_ok w GRACE (terminate_child w sig)"
  by (simp add: terminate_child_def poll_child_ok split: sum.split)

lemma ended_at_bound: "ending_ok w limit e \<Longrightarrow> ended_at w e \<le> limit + ch_reap w"
  by (cases e) simp_all

definition pipe_end :: "pipe option \<Rightarrow> nat option" where
  "pipe_end p = (case p of None \<Rightarrow> Some 0 | Some q \<Rightarrow> pi_closed q)"

lemma wait_child_cases:
  assumes "ending_ok w GRACE x"
  obtains (exited) r t where "wait_child w timeout x = Some (exit_of r, None, t)" "ch_wait w = Some (t, r)" "t \<le> timeout"
      "is_none_or (ch_cancelled w) (\<lambda>c. t \<le> c)"
  | (timed_out) "wait_child w timeout x = Some (ChildTimedOut, Some (Killed 0), timeout + ch_reap w)"
      "is_none_or (ch_wait w) (\<lambda>r. timeout \<le> fst r)" "is_none_or (ch_cancelled w) (\<lambda>c. timeout \<le> c)"
  | (cancelled) c where "wait_child w timeout x = Some (ChildCancelled, Some x, c + ended_at w x)"
      "ch_cancelled w = Some c" "c \<le> timeout" "is_none_or (ch_wait w) (\<lambda>r. c \<le> fst r)"
proof -
  let ?bs = "[map_option fst (ch_wait w), Some timeout, ch_cancelled w]"
  obtain i t where sel: "select_branch (ch_pick w) ?bs = Some (i, t)"
    by (cases "select_branch (ch_pick w) ?bs") auto
  note S = select_branch_Some [OF sel]
  have least: "t \<le> timeout" "is_none_or (ch_wait w) (\<lambda>r. t \<le> fst r)" "is_none_or (ch_cancelled w) (\<lambda>c. t \<le> c)"
    using S(3) by (auto simp: is_none_or_def split: option.splits)
  consider "i = 0" | "i = 1" | "i = 2" using S(1) by fastforce
  then show thesis
  proof cases
    case 1
    then obtain r where "ch_wait w = Some (t, r)" using S(2) by auto
    with 1 sel least show thesis by (intro exited) (simp_all add: wait_child_def)
  next
    case 2
    then have "t = timeout" using S(2) by simp
    with 2 sel least show thesis by (intro timed_out) (simp_all add: wait_child_def)
  next
    case 3
    then have "ch_cancelled w = Some t" using S(2) by (simp add: numeral_2_eq_2)
    with 3 sel least show thesis by (intro cancelled) (simp_all add: wait_child_def)
  qed
qed

lemma wait_for_child_bound:
  obtains wt e t where "wait_for_child w timeout sig = Some (wt, e, t)" "t \<le> timeout + GRACE + ch_reap w"
  by (rule wait_child_cases [OF terminate_child_ok, of w timeout sig])
    (use ended_at_bound [OF terminate_child_ok, of w sig] in \<open>force simp: wait_for_child_def\<close>)+

lemma await_pipe_eq:
  "await_pipe p now = map_option (\<lambda>c. (case p of None \<Rightarrow> [] | Some q \<Rightarrow> pi_bytes q, max now c)) (pipe_end p)"
  by (simp add: await_pipe_def pipe_end_def split: option.split)


text \<open>
  The adapter returns exactly if both pipes come to their end: a descendant of the command that keeps one open keeps the
  execution going after its timeout or its cancellation, when the command itself is long gone.
\<close>

theorem command_returns_exactly:
  "case run_child w timeout sig out errs of
     None \<Rightarrow> pipe_end out = None \<or> pipe_end errs = None
   | Some (wt, stdout, stderr, t) \<Rightarrow> (\<exists>c d. pipe_end out = Some c \<and> pipe_end errs = Some d \<and>
       t \<le> max (timeout + GRACE + ch_reap w) (max c d))"
proof -
  obtain wt e t where "wait_for_child w timeout sig = Some (wt, e, t)" "t \<le> timeout + GRACE + ch_reap w"
    by (rule wait_for_child_bound)
  then show ?thesis
    by (cases "pipe_end out"; cases "pipe_end errs") (auto simp: run_child_def await_pipe_eq)
qed

lemma prompt_path_inj: "prompt_path d tid m = prompt_path d tid n \<longleftrightarrow> m = n"
  by (simp add: prompt_path_def join_def is_absolute_def) (metis word_unat_eq_iff)

text \<open>No prompt stays behind: an execution whose file is new leaves the files as they were.\<close>

theorem prompt_file_removed:
  assumes "pf_files s (prompt_path d (xr_task_id r) (pf_next s)) = None"
  shows "pf_files (cli_files w d fs_error r s) = pf_files s"
  using assms by (simp add: cli_files_def write_prompt_file_def cleanup_temp_file_def Let_def fun_upd_idem split: option.split)

end
