(* ===== verification/Daemon_Run.thy ===== *)
theory Daemon_Run
  imports Control_Properties Configuration Sqlite Registry
begin

text \<open>
  Start-up and the long-running parts: the check of the registry with the JSON schema of manifests
  (\<open>src/src/registry/schema.rs\<close>, \<open>check_registry\<close> and \<open>load_manifest_file\<close> of \<open>registry/mod.rs\<close>), the constructors of
  \<open>AppState\<close> (\<open>api/mod.rs\<close>), the sessions of the control plane client one after another (\<open>run\<close>, \<open>run_session\<close> and
  \<open>spawn_if_enabled\<close> of \<open>control_plane/client.rs\<close>), and the commands of the daemon (\<open>cli/mod.rs\<close>, \<open>main.rs\<close>).
\<close>

section \<open>The JSON schema of manifests\<close>

text \<open>
  The schema that schemars derives, its printed form, the validators of jsonschema (a compiled schema lists the instance
  path and the text of every error), the file system and the decoder of serde for manifests. Where the code adds a
  context to an error the text is that context.
\<close>

record schema_env =
  sv_schema_for :: "string + json"
  sv_pretty :: "json \<Rightarrow> string + string"
  sv_validator_for :: "json \<Rightarrow> string + (json \<Rightarrow> (string \<times> string) list)"
  sv_read :: "string \<Rightarrow> string + string"
  sv_parse :: "string \<Rightarrow> string + json"
  sv_manifest_of :: "json \<Rightarrow> string + provider_manifest"

definition PROVIDERS_REGISTRY_PATH :: string where
  "PROVIDERS_REGISTRY_PATH = ''registry/providers''"

definition PROVIDER_MANIFEST_SCHEMA_PATH :: string where
  "PROVIDER_MANIFEST_SCHEMA_PATH = ''schemas/provider-manifest.schema.json''"

definition with_context :: "string \<Rightarrow> string + 'a \<Rightarrow> string + 'a" where
  "with_context msg r = r_map_err (\<lambda>_. msg) r"

definition generated_schema_value :: "schema_env \<Rightarrow> string + json" where
  "generated_schema_value v = with_context ''failed to serialize provider manifest schema'' (sv_schema_for v)"

definition generated_schema_json :: "schema_env \<Rightarrow> string + string" where
  "generated_schema_json v =
     r_then (generated_schema_value v) (\<lambda>schema.
     r_then (with_context ''failed to format provider manifest schema'' (sv_pretty v schema)) (\<lambda>text.
     Inr (text @ [CHR 0x0A])))"

definition validate_manifest_value :: "schema_env \<Rightarrow> string \<Rightarrow> json \<Rightarrow> string + unit" where
  "validate_manifest_value v path manifest =
     r_then (generated_schema_value v) (\<lambda>schema.
     r_then (with_context ''failed to compile provider manifest schema'' (sv_validator_for v schema)) (\<lambda>iter_errors.
     (let errors = map (\<lambda>(instance_path, e). instance_path @ '': '' @ e) (iter_errors manifest) in
      if errors = [] then Inr ()
      else Inl (path @ '' failed schema validation:'' @ CHR 0x0A # Registry.join_lines errors))))"

definition check_schema_fresh :: "schema_env \<Rightarrow> string \<Rightarrow> string + unit" where
  "check_schema_fresh v path =
     r_then (generated_schema_json v) (\<lambda>expected.
     r_then (with_context (''failed to read '' @ path) (sv_read v path)) (\<lambda>actual.
     if actual \<noteq> expected then Inl (path @ '' is stale; regenerate it from ProviderManifest'')
     else
       r_then (with_context (''failed to parse '' @ path) (sv_parse v actual)) (\<lambda>schema.
       r_then (with_context (''failed to compile '' @ path) (sv_validator_for v schema)) (\<lambda>_. Inr ()))))"

definition load_manifest_file :: "schema_env \<Rightarrow> string \<Rightarrow> string + provider_manifest" where
  "load_manifest_file v path =
     r_then (with_context (''failed to read '' @ path) (sv_read v path)) (\<lambda>contents.
     r_then (with_context (''failed to parse '' @ path) (sv_parse v contents)) (\<lambda>value.
     r_then (validate_manifest_value v path value) (\<lambda>_.
     with_context (''failed to deserialize '' @ path) (sv_manifest_of v value))))"

text \<open>The directory as \<open>load_registry_from_dir\<close> reads it: kind and name of each entry, and its manifest file.\<close>

definition read_entries :: "schema_env \<Rightarrow> string \<Rightarrow> (bool \<times> string) list \<Rightarrow> registry_dir_entry list" where
  "read_entries v dir listing = map (\<lambda>(is_dir, name).
     \<lparr> de_is_dir = is_dir, de_file_name = name,
       de_manifest = load_manifest_file v (join (join dir name) ''manifest.json'') \<rparr>) listing"

definition check_registry ::
  "schema_env \<Rightarrow> (string \<Rightarrow> bool) \<Rightarrow> (string \<Rightarrow> string + (bool \<times> string) list) \<Rightarrow> string \<Rightarrow> string + unit" where
  "check_registry v is_file read_dir root =
     (let dir = join root PROVIDERS_REGISTRY_PATH in
      r_then (load_registry_from_dir is_file dir (r_then (read_dir dir) (\<lambda>ls. Inr (read_entries v dir ls)))) (\<lambda>_.
      check_schema_fresh v (join root PROVIDER_MANIFEST_SCHEMA_PATH)))"

lemma with_context_Inr [simp]: "with_context msg r = Inr x \<longleftrightarrow> r = Inr x"
  by (cases r) (simp_all add: with_context_def r_map_err_def)

lemma validate_manifest_value_Inr:
  "validate_manifest_value v path m = Inr u \<longleftrightarrow>
     (\<exists>schema iter. sv_schema_for v = Inr schema \<and> sv_validator_for v schema = Inr iter \<and> iter m = [])"
  by (auto simp: validate_manifest_value_def generated_schema_value_def r_then_Inr Let_def)

text \<open>A registry that loads holds manifests only that a validator for the derived schema accepted.\<close>

lemma loaded_manifests_valid:
  assumes "load_registry_from_dir is_file dir (Inr (read_entries v dir ls)) = Inr r" and "p \<in> set (rg_providers r)"
  shows "\<exists>text value schema iter. sv_read v (pe_manifest_path p) = Inr text \<and> sv_parse v text = Inr value \<and>
    sv_manifest_of v value = Inr (pe_manifest p) \<and>
    sv_schema_for v = Inr schema \<and> sv_validator_for v schema = Inr iter \<and> iter value = []"
proof -
  have "p \<in> set (loaded dir (read_entries v dir ls))" using assms by (auto simp: load_registry_Inr)
  then obtain name m where "pe_manifest_path p = join (join dir name) ''manifest.json''" "pe_manifest p = m"
    "load_manifest_file v (join (join dir name) ''manifest.json'') = Inr m"
    by (fastforce simp: loaded_def read_entries_def entry_of_def split: if_splits sum.splits)
  then show ?thesis by (auto simp: load_manifest_file_def r_then_Inr validate_manifest_value_Inr)
qed

text \<open>The check passes exactly if the registry loads and the schema file is the printed schema, which can be compiled.\<close>

lemma check_registry_Inr:
  "check_registry v is_file read_dir root = Inr u \<longleftrightarrow>
     (let dir = join root PROVIDERS_REGISTRY_PATH; path = join root PROVIDER_MANIFEST_SCHEMA_PATH in
      (\<exists>ls r. read_dir dir = Inr ls \<and> load_registry_from_dir is_file dir (Inr (read_entries v dir ls)) = Inr r) \<and>
      (\<exists>schema text value iter. sv_schema_for v = Inr schema \<and> sv_pretty v schema = Inr text \<and>
         sv_read v path = Inr (text @ [CHR 0x0A]) \<and> sv_parse v (text @ [CHR 0x0A]) = Inr value \<and>
         sv_validator_for v value = Inr iter))"
  by (auto simp: check_registry_def Let_def r_then_Inr check_schema_fresh_def generated_schema_json_def
      generated_schema_value_def load_registry_Inr)

section \<open>The state of the interface\<close>

record task_store_handle =
  th_sqlite_path :: string
  th_event_bus :: "task_event_bus option"

record app_setup =
  su_providers_dir :: string
  su_runtime_store :: runtime_store
  su_detection_config :: runtime_detection_config
  su_auth_config :: auth_config
  su_product_store :: string
  su_grant_store :: string
  su_agent_store :: string
  su_task_store :: task_store_handle
  su_event_bus :: task_event_bus
  su_scheduler_config :: scheduler_config

definition task_store_configured :: "string \<Rightarrow> task_store_handle" where
  "task_store_configured path = \<lparr> th_sqlite_path = path, th_event_bus = None \<rparr>"

definition with_event_bus :: "task_event_bus \<Rightarrow> task_store_handle \<Rightarrow> task_store_handle" where
  "with_event_bus bus h = h\<lparr> th_event_bus := Some bus \<rparr>"

definition with_task_store ::
  "string \<Rightarrow> runtime_store \<Rightarrow> runtime_detection_config \<Rightarrow> auth_config \<Rightarrow> string \<Rightarrow> string \<Rightarrow> string \<Rightarrow>
   task_store_handle \<Rightarrow> scheduler_config \<Rightarrow> app_setup" where
  "with_task_store providers_dir runtimes detection auth products grants agents tasks scheduler =
     \<lparr> su_providers_dir = providers_dir, su_runtime_store = runtimes, su_detection_config = detection,
       su_auth_config = auth, su_product_store = products, su_grant_store = grants, su_agent_store = agents,
       su_task_store = with_event_bus default_bus tasks, su_event_bus = default_bus,
       su_scheduler_config = scheduler \<rparr>"

definition app_with_stores ::
  "string option \<Rightarrow> string \<Rightarrow> runtime_store \<Rightarrow> runtime_detection_config \<Rightarrow> auth_config \<Rightarrow> string \<Rightarrow> string \<Rightarrow> string \<Rightarrow>
   app_setup" where
  "app_with_stores data_dir providers_dir runtimes detection auth products grants agents =
     with_task_store providers_dir runtimes detection auth products grants agents
       (task_store_configured (store_config_default data_dir)) default_scheduler_config"

definition with_directory_grant_store ::
  "string option \<Rightarrow> string \<Rightarrow> runtime_store \<Rightarrow> runtime_detection_config \<Rightarrow> auth_config \<Rightarrow> string \<Rightarrow> string \<Rightarrow> app_setup" where
  "with_directory_grant_store data_dir providers_dir runtimes detection auth products grants =
     with_task_store providers_dir runtimes detection auth products grants (store_config_default data_dir)
       (task_store_configured (store_config_default data_dir)) default_scheduler_config"

definition app_setup_new ::
  "string option \<Rightarrow> string \<Rightarrow> runtime_store \<Rightarrow> runtime_detection_config \<Rightarrow> app_setup" where
  "app_setup_new data_dir providers_dir runtimes detection =
     with_directory_grant_store data_dir providers_dir runtimes detection auth_default
       (store_config_default data_dir) (store_config_default data_dir)"

definition app_setup_from_env :: "(string \<Rightarrow> string option) \<Rightarrow> string \<Rightarrow> string option \<Rightarrow> app_setup" where
  "app_setup_from_env var root data_dir =
     with_task_store (default_providers_dir root) [] runtime_detection_default (auth_from_env var)
       (store_config_default data_dir) (store_config_default data_dir) (store_config_default data_dir)
       (task_store_configured (store_config_default data_dir)) default_scheduler_config"

section \<open>Sessions of the control plane client\<close>

text \<open>
  What a session meets: the answer to the connection attempt, whether the registration is sent, and the rounds of its
  loop with the time and, if sending fails in that round, the error. A script whose loop is still going is the part of a
  session so far.
\<close>

record session_script =
  sx_connect :: "string + unit"
  sx_send :: "string + unit"
  sx_rounds :: "(session_input \<times> string \<times> string option) list"

type_synonym 'a client_op = "(cp_state, session_error, 'a) op"

fun session_loop :: "cp_env \<Rightarrow> (session_input \<times> string \<times> string option) list \<Rightarrow> (ws_message list \<times> session_end) client_op" where
  "session_loop env [] = ok ([], Continue)"
| "session_loop env ((inp, now, send_error) # rounds) =
     and_then (session_step env inp now) (\<lambda>(ms, e).
     case (ms, send_error) of
       (_ # _, Some x) \<Rightarrow> err (SessionSocket x)
     | _ \<Rightarrow> if e = Finished then ok (ms, Finished)
            else and_then (session_loop env rounds) (\<lambda>(ms', e). ok (ms @ ms', e)))"

definition run_session :: "cp_env \<Rightarrow> session_script \<Rightarrow> (ws_message list \<times> session_end) client_op" where
  "run_session env sx =
     (case cc_endpoint (ce_config env) of
        None \<Rightarrow> err (SessionSocket ''missing control plane endpoint'')
      | Some _ \<Rightarrow>
          (case sx_connect sx of
             Inl _ \<Rightarrow> err (SessionSocket ''failed to connect control plane websocket'')
           | Inr _ \<Rightarrow>
               and_then (reads (\<lambda>s. Inr (runtime_summaries (cp_runtimes s)))) (\<lambda>summaries.
               and_then (map_err SessionRegistration (zoom cp_daemon (\<lambda>t s. s\<lparr> cp_daemon := t \<rparr>)
                 (build_registration_request (ce_version env) (ce_platform env) (ce_config env) summaries))) (\<lambda>r.
               case sx_send sx of
                 Inl _ \<Rightarrow> err (SessionSocket ''failed to send control plane registration'')
               | Inr _ \<Rightarrow>
                   and_then (session_loop env (sx_rounds sx)) (\<lambda>(ms, e).
                   ok (send_json env (Object [(''type'', Str ''register''), (''registration'', request_to_value r)]) # ms, e))))))"

text \<open>
  The loop of \<open>run\<close>, with what was sent: a session that finished is followed by the next, one that is under way is the
  last of the list so far, and an error ends the loop.
\<close>

fun client_loop :: "cp_env \<Rightarrow> session_script list \<Rightarrow> ws_message list client_op" where
  "client_loop env [] = ok []"
| "client_loop env (sx # sxs) =
     and_then (run_session env sx) (\<lambda>(ms, e).
     if e = Finished then and_then (client_loop env sxs) (\<lambda>ms'. ok (ms @ ms')) else ok ms)"

definition client_run :: "cp_env \<Rightarrow> session_script list \<Rightarrow> ws_message list client_op" where
  "client_run env sxs = (if \<not> control_plane_enabled (ce_config env) then ok [] else client_loop env sxs)"

definition spawn_if_enabled ::
  "'v database_world \<Rightarrow> (string \<Rightarrow> string option) \<Rightarrow> string option \<Rightarrow> string + (control_plane_config \<times> string) option" where
  "spawn_if_enabled w var data_dir =
     (let config = control_plane_from_env var in
      if \<not> control_plane_enabled config then Inr None
      else
        r_then (r_map_err (\<lambda>e. ''failed to open daemon state store: '' @ e)
          (open_connection w (store_config_default data_dir))) (\<lambda>_.
        Inr (Some (config, store_config_default data_dir))))"

section \<open>The commands\<close>

datatype command = DaemonCommand daemon_args | RegistryCheck

text \<open>\<open>bind\<close> and \<open>local_addr\<close> of the listener, how the server ends, and the text of a socket address.\<close>

record serve_world =
  sw_bind :: "string \<Rightarrow> string + unit"
  sw_local_addr :: "string + string"
  sw_serve :: "app_setup \<Rightarrow> string + unit"

definition socket_addr :: "daemon_config \<Rightarrow> string" where
  "socket_addr c = dcf_host c @ '':'' @ show_nat (unat (dcf_port c))"

text \<open>The result, the state that was served if it came to that, and the client that ran beside it.\<close>

definition run_daemon_until_shutdown ::
  "serve_world \<Rightarrow> 'v database_world \<Rightarrow> (string \<Rightarrow> string option) \<Rightarrow> string \<Rightarrow> string option \<Rightarrow> daemon_config \<Rightarrow>
   string + app_setup \<times> (control_plane_config \<times> string) option" where
  "run_daemon_until_shutdown sw dw var root data_dir config =
     r_then (with_context (''failed to bind daemon to '' @ socket_addr config) (sw_bind sw (socket_addr config))) (\<lambda>_.
     r_then (with_context ''failed to read daemon bound address'' (sw_local_addr sw)) (\<lambda>_.
     (let state = app_setup_from_env var root data_dir in
      r_then (spawn_if_enabled dw var data_dir) (\<lambda>control_plane.
      r_then (with_context ''daemon HTTP server failed'' (sw_serve sw state)) (\<lambda>_. Inr (state, control_plane))))))"

definition run_with_args ::
  "serve_world \<Rightarrow> 'v database_world \<Rightarrow> schema_env \<Rightarrow> (string \<Rightarrow> bool) \<Rightarrow> (string \<Rightarrow> string + (bool \<times> string) list) \<Rightarrow>
   (string \<Rightarrow> string option) \<Rightarrow> string \<Rightarrow> string option \<Rightarrow> command \<Rightarrow> string + unit" where
  "run_with_args sw dw v is_file read_dir var root data_dir cmd =
     (case cmd of
        DaemonCommand args \<Rightarrow>
          r_then (run_daemon_until_shutdown sw dw var root data_dir (daemon_args_config args)) (\<lambda>_. Inr ())
      | RegistryCheck \<Rightarrow> check_registry v is_file read_dir root)"

definition exit_code :: "string + unit \<Rightarrow> nat" where
  "exit_code r = (case r of Inr _ \<Rightarrow> 0 | Inl _ \<Rightarrow> 1)"

section \<open>What follows\<close>

text \<open>All stores of a started daemon, the registration table of its control plane client included, are one database.\<close>

lemma one_database:
  assumes "run_daemon_until_shutdown sw dw var root data_dir config = Inr (st, cp)"
  shows "{su_product_store st, su_grant_store st, su_agent_store st, th_sqlite_path (su_task_store st)} \<union>
      snd ` set_option cp = {store_config_default data_dir}"
    and "th_event_bus (su_task_store st) = Some (su_event_bus st)"
    and "cp \<noteq> None \<longleftrightarrow> control_plane_enabled (control_plane_from_env var)"
  using assms
  by (auto simp: run_daemon_until_shutdown_def r_then_Inr Let_def spawn_if_enabled_def app_setup_from_env_def
      with_task_store_def with_event_bus_def task_store_configured_def split: if_splits)

text \<open>Whatever the client does, over any number of sessions, is a sequence of steps of sessions.\<close>

lemma keeps_session_loop: "keeps ((session_evolves env)\<^sup>*\<^sup>* s0) (session_loop env rounds)"
proof (induction rounds)
  case (Cons x rounds)
  obtain inp now send_error where x: "x = (inp, now, send_error)" by (cases x)
  have "keeps ((session_evolves env)\<^sup>*\<^sup>* s0) (session_step env inp now)"
    by (rule keepsI) (metis by_session prod.collapse rtranclp.rtrancl_into_rtrancl)
  with Cons.IH show ?case
    unfolding x session_loop.simps by (auto intro!: keeps_and_then split: list.split option.split)
qed simp

lemma registration_request_reads: "snd (build_registration_request v p c rs t) = t"
  by (auto simp: build_registration_request_def current_record_def get_current_def op_simps split: sum.splits option.splits prod.splits
      daemon_state_store_error.splits)

lemma keeps_run_session: "keeps ((session_evolves env)\<^sup>*\<^sup>* s0) (run_session env sx)"
proof -
  have "keeps P (zoom cp_daemon (\<lambda>t s. s\<lparr> cp_daemon := t \<rparr>) (build_registration_request v p c rs))" for P v p c rs
    by (rule keepsI) (simp add: zoom_def case_prod_unfold registration_request_reads)
  then show ?thesis
    unfolding run_session_def using keeps_session_loop
    by (auto intro!: keeps_and_then keeps_map_err keeps_reads split: option.split sum.split)
qed

lemma keeps_client_loop: "keeps ((session_evolves env)\<^sup>*\<^sup>* s0) (client_loop env sxs)"
  by (induction sxs) (auto intro!: keeps_and_then keeps_run_session)

lemma client_run_evolves: "client_run env sxs s = (r, s') \<Longrightarrow> (session_evolves env)\<^sup>*\<^sup>* s s'"
  using keeps_client_loop [of env s sxs, THEN keepsD] by (auto simp: client_run_def ok_def split: if_splits)

fun all_finish :: "cp_env \<Rightarrow> session_script list \<Rightarrow> cp_state \<Rightarrow> cp_state option" where
  "all_finish env [] s = Some s"
| "all_finish env (sx # sxs) s =
     (case run_session env sx s of (Inr (ms, Finished), s') \<Rightarrow> all_finish env sxs s' | _ \<Rightarrow> None)"

lemma failed_session_ends_client:
  assumes "all_finish env sxs s = Some s1" and "run_session env sx s1 = (Inl e, s2)"
  shows "client_loop env (sxs @ sx # rest) s = (Inl e, s2)"
  using assms
proof (induction sxs arbitrary: s)
  case Nil
  then show ?case by (simp add: and_then_Inl)
next
  case (Cons x xs)
  then show ?case
    by (auto simp: and_then_Inl split: prod.splits sum.splits session_end.splits)
qed

text \<open>
  After any number of sessions that were closed in order, one connection attempt that fails ends the client: no later
  attempt is made, although the loop is there to make it.
\<close>

theorem unreachable_control_plane_ends_client:
  assumes "control_plane_enabled (ce_config env)" and "all_finish env sxs s = Some s1" and "sx_connect sx = Inl x"
  shows "client_run env (sxs @ sx # rest) s = (Inl (SessionSocket ''failed to connect control plane websocket''), s1)"
proof -
  from assms(1) obtain url where "cc_endpoint (ce_config env) = Some url" by (auto simp: control_plane_enabled_def)
  then have "run_session env sx s1 = (Inl (SessionSocket ''failed to connect control plane websocket''), s1)"
    using assms(3) by (simp add: run_session_def err_def)
  then show ?thesis using failed_session_ends_client [OF assms(2)] assms(1) by (simp add: client_run_def)
qed

end
