(* ===== verification/Spec2Isabelle.thy ===== *)
theory Spec2Isabelle
  imports Task_Properties Directory_Properties Auth_Properties Profile_Properties Execution_Properties
    Event_Properties Control_Properties Runtime_Properties Api_Properties Task_Ledger Stream_Liveness
    Console_State_Properties Console_Assets Configuration Sql_Properties Child_Process Daemon_Run
begin

text \<open>
  \<^bold>\<open>OpenDaemon: a verification development\<close>

  OpenDaemon (\<open>src/src\<close>, Rust) is a daemon that runs coding agents on the directories of one machine on
  behalf of several products. A product holds tokens with scopes; it registers agent profiles on
  top of provider manifests, is granted directories, and creates tasks. A task is admitted against its
  profile and its grant, waits for a lock on its directory, is handed to an adapter (command line,
  HTTP or ACP), and reports back through an event log that clients read or follow as a stream. An agent
  may ask for permissions while it runs. A remote control plane may dispatch tasks to the daemon.

  All state is in SQLite tables and a broadcast channel. Here a table is a list of rows, the state of a
  store is a record, an operation is a function of type \<open>'s \<Rightarrow> ('e + 'a) \<times> 's\<close> (Prelude) that has one
  branch per early return, error and rollback of the code. The clock is an argument \<open>now\<close>. One call of a
  store operation is atomic, as it is in the code (a transaction or a single statement), and steps of
  different clients interleave as sequences of such calls: the step relations \<open>task_step\<close>,
  \<open>stream_step\<close>, \<open>acp_step\<close>, \<open>session_evolves\<close>, \<open>app_step\<close>, \<open>console_step\<close> and the states they reach say which.

  \<^bold>\<open>Theories, and the code they model\<close>

  \<^item> Foundations. \<open>Prelude\<close>: results, operations, association lists, decimal numerals, sequences of
    events, and the locales \<open>keyed_table\<close> (a table with a unique key and its lookup), \<open>lifecycle\<close> (a
    transition table with terminal states and a rank) and \<open>at_most_once\<close> (a filter that lets every key
    pass once). \<open>Op_Logic\<close>: weakest preconditions of operations (\<open>wp\<close>, collection \<open>wp_simps\<close>).
    \<open>Json\<close>: \<open>serde_json::Value\<close>. \<open>Json_Text\<close>: its text form, as the interface \<open>json_text\<close> with a printer and a
    parser that satisfy it. \<open>Encoding\<close>: the JSON form of the data that is sent out.
  \<^item> Directories. \<open>Directory\<close> (\<open>security/directory.rs\<close>): capabilities, modes, normalisation and validation of
    a policy, \<open>authorize\<close>. \<open>Path_Guard\<close> (\<open>security/path_guard.rs\<close>). \<open>Directory_Store\<close>
    (\<open>store/directory_grants.rs\<close>). Properties in \<open>Directory_Properties\<close>: the guard accepts exactly the paths
    that resolve below the root, stored grants are valid, writers take the exclusive lock, a created
    grant is read back.
  \<^item> Tasks. \<open>Task_Model\<close> (\<open>task/model.rs\<close>, \<open>event.rs\<close>, \<open>permission.rs\<close>, \<open>result.rs\<close>, \<open>state.rs\<close>),
    \<open>Event_Bus\<close> (\<open>TaskEventBus\<close> of \<open>task/service.rs\<close>), \<open>Locks\<close> (\<open>scheduler/locks.rs\<close>), \<open>Task_Store\<close>
    (\<open>store/tasks.rs\<close>): one definition per method. \<open>Task_Store_Inv\<close> and
    \<open>Task_Store_Steps\<close>: the invariant \<open>task_db_inv\<close> and its preservation; \<open>Task_History\<close>: what later states keep
    of earlier ones; \<open>Task_Properties\<close>: the recorded life of a task, mutual exclusion on directories, answers
    given once, the branches of \<open>transition\<close>. \<open>Task_Ledger\<close>: an abstract ledger without tables, rows or
    sequence numbers, and that the store refines it (locale \<open>simulation\<close>).
  \<^item> Database. \<open>Sqlite\<close> (\<open>store/sqlite.rs\<close>): values and rows, reading and writing of columns, the statements INSERT,
    UPDATE and SELECT on rows, the nine tables of the schema and opening of a database. \<open>Task_Codec\<close>
    (\<open>store/tasks/codec.rs\<close>): the rows of the task store. \<open>Task_Sql\<close>: the statements and queries of \<open>store/tasks.rs\<close>, and that
    they are the operations of \<open>Task_Store\<close> on rows. \<open>Store_Codec\<close>: the rows and statements of the other stores.
    \<open>Sql_Properties\<close>: the refinement of every write and query of the task store, rows are read back, every state of
    the daemon satisfies the schema, and a result nested too deep to be read.
  \<^item> Events. \<open>Event_Service\<close> (\<open>TaskEventService\<close> of \<open>task/service.rs\<close>): cursors, replay, the stream of a task
    to one subscriber with lag and recovery, permission answers. \<open>Stream_Props\<close> and \<open>Event_Properties\<close>:
    delivery in order without gap or repetition, hand-over of a decision to the one that waits.
    \<open>Stream_Liveness\<close>: a stream left alone catches up and then rests.
  \<^item> Providers and agents. \<open>Registry\<close> (\<open>registry/\<close>), \<open>Agent_Profile\<close> (\<open>agent/profile.rs\<close>), \<open>Agent_Store\<close>
    (\<open>store/agent_profiles.rs\<close>). \<open>Profile_Properties\<close>: validators report nothing exactly on well-formed
    input, a loaded registry holds what its directories hold, stored profiles stay valid.
  \<^item> Products and authentication. \<open>Product\<close> (\<open>product/mod.rs\<close>), \<open>Product_Store\<close> (\<open>store/products.rs\<close>),
    \<open>Auth\<close> (\<open>api/auth.rs\<close>). \<open>Auth_Properties\<close>: who is authenticated, revoked tokens stay out.
  \<^item> Scheduling and execution. \<open>Scheduler\<close> (\<open>scheduler/service.rs\<close>, \<open>workspace.rs\<close>), \<open>Runtime_Model\<close>
    (\<open>runtime/model.rs\<close>, \<open>store.rs\<close>, \<open>template.rs\<close>), \<open>Adapter\<close> (\<open>runtime/adapter.rs\<close>, \<open>cli.rs\<close>, \<open>http.rs\<close>),
    \<open>Child_Process\<close> (waiting, signals, pipes and prompt files of \<open>cli.rs\<close>: a wait ends, and what a command leaves behind),
    \<open>Execution\<close> (\<open>scheduler/execution.rs\<close>). \<open>Scheduler_Props\<close> and \<open>Execution_Props\<close> rewrite the operations to
    their effects; \<open>Execution_Properties\<close>: exact conditions of admission and of a start, what a started, a
    failed and a finished execution leave behind, the environment of a child, bounds on stored output.
  \<^item> Runtimes. \<open>Runtime_Detect\<close> (\<open>runtime/detect.rs\<close>): search of executables, version probes, views per
    provider. \<open>Acp\<close> (\<open>runtime/acp.rs\<close>): the reader of a session as a state machine beside the
    daemon. \<open>Acp_Props\<close> and \<open>Runtime_Properties\<close>: an answer written to a provider is the one stored;
    the detected runtimes are exactly those listed.
  \<^item> Control plane. \<open>Control_Plane\<close> (\<open>control_plane/model.rs\<close>, \<open>protocol.rs\<close>, \<open>registration.rs\<close>, \<open>liveness.rs\<close>,
    \<open>dispatch.rs\<close>, \<open>store/daemon_state.rs\<close>), \<open>Control_Session\<close> (\<open>client.rs\<close>). \<open>Control_Properties\<close>: a remote task is
    taken over once, a callback is sent once, a registration is read back.
  \<^item> HTTP interface. \<open>Api\<close> (\<open>api/tasks.rs\<close> and the state the handlers share) and \<open>Api_Resources\<close> (the
    other files of \<open>api/\<close>): one definition per handler and per mapping of errors to responses.
    \<open>Router\<close> (\<open>api/mod.rs\<close>): a constructor of \<open>api_request\<close> per route and \<open>serve_api\<close>. \<open>Api_Props\<close>: the state of
    the daemon and its steps. \<open>Api_Handlers\<close> and \<open>Api_Contract\<close>: the table \<open>required_access\<close> of what a
    route asks, and the contract every handler satisfies, by \<open>wp\<close>. \<open>Api_Properties\<close>: authorisation, separation of
    products, failed requests change nothing, statuses, gating of remote execution.
  \<^item> Configuration. \<open>Configuration\<close> (\<open>config/mod.rs\<close>, the arguments of \<open>cli/mod.rs\<close>, \<open>AppState::from_env\<close>): defaults and
    what the environment sets; without a bootstrap token nobody is taken for the owner. \<open>Daemon_Run\<close> (\<open>registry/schema.rs\<close>, \<open>cli/mod.rs\<close>, \<open>main.rs\<close>, the
    constructors of \<open>AppState\<close>, \<open>run\<close> of \<open>control_plane/client.rs\<close>): the commands, the check of the registry, the database all
    stores share, and the sessions of the control plane client one after another.
  \<^item> Console. \<open>Console_Assets\<close> (\<open>api/console.rs\<close>): the public routes that serve the web console; they read files of its
    directory only. \<open>Console_Dto\<close> (\<open>crates/opendaemon-console-api/src/dto.rs\<close>): the console's own data with its
    decoders and encoders. \<open>Wire\<close>: the JSON the daemon writes for its responses and reads as request bodies.
    \<open>Console_Client\<close> (\<open>client.rs\<close>, \<open>error.rs\<close>, \<open>events.rs\<close>, \<open>policy.rs\<close>): the HTTP client. \<open>Console_Codec\<close>: what the
    daemon writes the console reads, by the locale \<open>wire_codec\<close>. \<open>Console_Calls\<close>: the route table and calls against
    the daemon; \<open>Console_Properties\<close>: a call reaches exactly the route it is meant for and returns what the
    daemon did. \<open>Console_State\<close> (\<open>crates/opendaemon-console-ui/src/state\<close>, the forms of \<open>routes\<close>): the state of the
    console and the jobs that wait for answers; \<open>Console_State_Properties\<close>: its invariant, what signing out leaves, the
    collection of events, and forms whose defaults the daemon refuses.

  \<^bold>\<open>Interfaces\<close>

  \<open>keyed_table\<close> is interpreted for the tables of tasks, grants, agent profiles, products and daemon
  registrations; \<open>lifecycle\<close> for the transition table of tasks; \<open>at_most_once\<close> for the callback tokens and the
  delivered events of a session; \<open>simulation\<close> for the task store over its ledger; \<open>wire_codec\<close> for the twelve kinds of
  data the console receives. \<open>json_text\<close> (printing and parsing) is extended by \<open>storage\<close> (values of the database) and is
  interpreted on the printer and parser of \<open>Json_Text\<close>; \<open>storage\<close> on the five kinds of SQLite values; \<open>row_codec\<close> (a table
  whose rows are read back) is a sublocale of \<open>storage\<close> for each of the nine tables. Properties are stated over
  the definitions of the model and use the facts of these interpretations.

  \<^bold>\<open>Parameters\<close>

  Code outside \<open>src/\<close> is an argument of the definitions that use it: SHA-256, hex and the random source
  (record \<open>crypto\<close>; hypothesis \<open>hex_ok\<close>: decoding inverts encoding, which doubles the length),
  the file system (\<open>realpath\<close> and metadata), \<open>which\<close> and the version pattern of \<open>regex\<close>, child
  processes and HTTP exchanges (their results), the text form of JSON and the values of SQLite (record \<open>backend\<close>; hypothesis \<open>storage\<close>: a printed value of less than 128
  levels is parsed to itself with sorted keys, a deeper one is refused, and text, 64-bit integers and NULL are read as
  they were written), the matching of paths by the web framework, the derived JSON schema and its
  validators, the
  browser's requests and storage, the environment variables. Each property with such a hypothesis has a witness with a concrete function.

  \<^bold>\<open>Bounds\<close>

  Sequence numbers, ids and the clock are the \<open>i64\<close> of SQLite, as \<open>int\<close> or \<open>nat\<close>; counters start at
  one and grow by one per row, so no run reaches the bound; the properties of the database state it (\<open>integers_fit\<close>). The broadcast channel keeps \<open>BROADCAST_CAPACITY\<close> =
  256 events, and a subscriber further behind lags: both are in the model. Output is cut at
  \<open>MAX_EVENT_BYTES\<close>, with the growth by replacement characters accounted for. Only the parser of \<open>Json_Text\<close> uses fuel,
  twice the length of the text and one, which is shown to be enough for every printed value; all other loops are structural or
  have a measure, and the endless loop of a stream is a step relation, with
  \<open>backlog\<close> as the measure of its rounds.

  \<^bold>\<open>Not modelled\<close>

  The indexes of the database, which do not change what a query returns; the parsing of arguments and the web server
  (clap, axum); the transport of the web socket; the markup of the console's pages
  (\<open>crates/opendaemon-console-ui\<close>) and the browser.
\<close>

end
